(* ===== verification/Prelude.thy ===== *)
theory Prelude
  imports Main "HOL-Library.Word"
begin

text \<open>
  The vocabulary every component shares.

  \<^item> Machine integers: Rust's \<open>u8\<close>, \<open>u16\<close>, \<open>u32\<close>, \<open>u64\<close> are words of that width; an
    \<open>i64\<close> is a \<open>64 word\<close> read with \<^const>\<open>sint\<close>, compared with \<open><s\<close> and \<open>\<le>s\<close>.
  \<^item> Results: \<open>Result<T, E>\<close> is the sum \<open>'e + 'a\<close>, \<open>Inl\<close> for \<open>Err\<close>; \<open>tryE\<close> is the
    question-mark operator, \<open>ensure\<close> is an early return, \<open>ok_or\<close> and \<open>map_err\<close> are the methods
    of that name.
  \<^item> Byte buffers: \<open>put a b src xs\<close> is \<open>xs[a..b].copy_from_slice(src)\<close>, \<open>seg a b xs\<close> is
    \<open>xs[a..b]\<close>, \<open>get_range\<close> is the checked \<open>xs.get(a..b)\<close>; \<open>le_bytes\<close> and \<open>from_le\<close> are
    \<open>to_le_bytes\<close> and \<open>from_le_bytes\<close>.
  \<^item> \<open>[u8; 32]\<close> is the type \<open>bytes32\<close> of byte lists of length 32, so that no statement needs a
    hypothesis about the length of a key or a hash.
  \<^item> \<open>checked_add\<close>, \<open>checked_sub\<close> on unsigned words and \<open>checked_add_signed\<close>.

  The collection \<open>layout\<close> holds the rewrite rules for reading back what was written into a
  buffer, \<open>result_inv\<close> the inversion rules for a result that is \<open>Inr\<close>.
\<close>

unbundle bit_operations_syntax

section \<open>Machine integers and results\<close>

type_synonym byte = "8 word"
type_synonym bytes = "8 word list"
type_synonym u16 = "16 word"
type_synonym u32 = "32 word"
type_synonym u64 = "64 word"
type_synonym i64 = "64 word"

named_theorems layout
named_theorems result_inv

definition tryE :: "'e + 'a \<Rightarrow> ('a \<Rightarrow> 'e + 'b) \<Rightarrow> 'e + 'b" where
  "tryE m f = (case m of Inl e \<Rightarrow> Inl e | Inr x \<Rightarrow> f x)"

definition ensure :: "bool \<Rightarrow> 'e \<Rightarrow> 'e + unit" where
  "ensure c e = (if c then Inr () else Inl e)"

definition ok_or :: "'a option \<Rightarrow> 'e \<Rightarrow> 'e + 'a" where
  "ok_or x e = (case x of None \<Rightarrow> Inl e | Some y \<Rightarrow> Inr y)"

definition map_err :: "('e \<Rightarrow> 'f) \<Rightarrow> 'e + 'a \<Rightarrow> 'f + 'a" where
  "map_err g m = (case m of Inl e \<Rightarrow> Inl (g e) | Inr x \<Rightarrow> Inr x)"

lemma tryE_Inl [simp]: "tryE (Inl e) f = Inl e"
  by (simp add: tryE_def)

lemma tryE_Inr [simp]: "tryE (Inr x) f = f x"
  by (simp add: tryE_def)

lemma tryE_eq_Inr [result_inv]: "tryE m f = Inr y \<longleftrightarrow> (\<exists>x. m = Inr x \<and> f x = Inr y)"
  by (cases m) auto

lemma tryE_eq_Inl: "tryE m f = Inl e \<longleftrightarrow> m = Inl e \<or> (\<exists>x. m = Inr x \<and> f x = Inl e)"
  by (cases m) auto

lemma tryE_weak_cong: "m = m' \<Longrightarrow> tryE m f = tryE m' f"
  by simp

lemma tryE_assoc: "tryE (tryE m f) g = tryE m (\<lambda>x. tryE (f x) g)"
  by (cases m) auto

lemma ensure_simps [simp]: "ensure True e = Inr ()" "ensure False e = Inl e"
  by (simp_all add: ensure_def)

lemma ensure_eq_Inr [result_inv]: "ensure c e = Inr u \<longleftrightarrow> c"
  by (simp add: ensure_def)

lemma ensure_eq_Inl [simp]: "ensure c e = Inl e' \<longleftrightarrow> \<not> c \<and> e' = e"
  by (auto simp: ensure_def)

lemma ok_or_simps [simp]: "ok_or None e = Inl e" "ok_or (Some x) e = Inr x"
  by (simp_all add: ok_or_def)

lemma ok_or_eq_Inr [result_inv]: "ok_or x e = Inr y \<longleftrightarrow> x = Some y"
  by (cases x) auto

lemma map_err_simps [simp]: "map_err g (Inl e) = Inl (g e)" "map_err g (Inr x) = Inr x"
  by (simp_all add: map_err_def)

lemma map_err_eq_Inr [result_inv]: "map_err g m = Inr y \<longleftrightarrow> m = Inr y"
  by (cases m) auto

section \<open>Little-endian integers\<close>

fun le_bytes :: "nat \<Rightarrow> 'a::len word \<Rightarrow> bytes" where
  "le_bytes 0 w = []"
| "le_bytes (Suc n) w = ucast w # le_bytes n (drop_bit 8 w)"

fun from_le :: "bytes \<Rightarrow> 'a::len word" where
  "from_le [] = 0"
| "from_le (b # bs) = ucast b OR push_bit 8 (from_le bs)"

lemma length_le_bytes [simp]: "length (le_bytes n w) = n"
  by (induction n arbitrary: w) auto

lemma from_le_le_bytes_take: "from_le (le_bytes n w) = take_bit (8 * n) w"
proof (induction n arbitrary: w)
  case 0
  then show ?case by simp
next
  case (Suc n)
  show ?case
    by (rule bit_word_eqI) (auto simp: Suc.IH bit_simps)
qed

lemma from_le_le_bytes [simp]:
  fixes w :: "'a::len word"
  shows "LENGTH('a) = 8 * n \<Longrightarrow> from_le (le_bytes n w) = w"
  by (simp add: from_le_le_bytes_take take_bit_word_eq_self)

lemma nth_le_bytes: "i < n \<Longrightarrow> le_bytes n w ! i = ucast (drop_bit (8 * i) w)"
proof (induction n arbitrary: i w)
  case (Suc n)
  then show ?case by (cases i) (simp_all add: ac_simps)
qed simp

lemma bit_from_le:
  "bit (from_le bs :: 'a::len word) n \<longleftrightarrow>
     n < LENGTH('a) \<and> n < 8 * length bs \<and> bit (bs ! (n div 8)) (n mod 8)"
proof (induction bs arbitrary: n)
  case (Cons b bs)
  show ?case
  proof (cases "n < 8")
    case True
    then show ?thesis by (auto simp: bit_simps)
  next
    case False
    then obtain k where n: "n = 8 + k"
      using le_Suc_ex linorder_not_less by blast
    have d: "(8 + k) div 8 = Suc (k div 8)" by simp
    have "\<not> bit b n"
      using False by (simp add: bit_word.rep_eq)
    then show ?thesis by (auto simp: n d bit_simps Cons.IH)
  qed
qed simp

lemma le_bytes_from_le [layout]:
  assumes "n = length bs" and "8 * n \<le> LENGTH('a)"
  shows "le_bytes n (from_le bs :: 'a::len word) = bs"
proof (rule nth_equalityI)
  fix i assume "i < length (le_bytes n (from_le bs :: 'a word))"
  then have i: "i < n" by simp
  show "le_bytes n (from_le bs :: 'a word) ! i = bs ! i"
  proof (rule bit_word_eqI)
    fix k assume k: "k < LENGTH(8)"
    with i assms show "bit (le_bytes n (from_le bs :: 'a word) ! i) k = bit (bs ! i) k"
      by (auto simp: nth_le_bytes bit_simps bit_from_le)
  qed
qed (simp add: assms)

section \<open>Slices of byte buffers\<close>

definition seg :: "nat \<Rightarrow> nat \<Rightarrow> 'a list \<Rightarrow> 'a list" where
  "seg a b xs = drop a (take b xs)"

definition get_range :: "'a list \<Rightarrow> nat \<Rightarrow> nat \<Rightarrow> 'a list option" where
  "get_range xs a b = (if a \<le> b \<and> b \<le> length xs then Some (seg a b xs) else None)"

definition put :: "nat \<Rightarrow> nat \<Rightarrow> 'a list \<Rightarrow> 'a list \<Rightarrow> 'a list" where
  "put a b src xs = take a xs @ src @ drop b xs"

lemma length_seg [simp]: "b \<le> length xs \<Longrightarrow> length (seg a b xs) = b - a"
  by (simp add: seg_def)

lemma get_range_in [simp]: "a \<le> b \<Longrightarrow> b \<le> length xs \<Longrightarrow> get_range xs a b = Some (seg a b xs)"
  by (simp add: get_range_def)

lemma get_range_eq_Some [result_inv]:
  "get_range xs a b = Some ys \<longleftrightarrow> a \<le> b \<and> b \<le> length xs \<and> ys = seg a b xs"
  by (auto simp: get_range_def)

text \<open>The length of the buffer is a premise of its own in these rules, so that the simplifier
  computes it once per write however many writes are stacked.\<close>

lemma length_put [layout]:
  "length xs = n \<Longrightarrow> a \<le> b \<Longrightarrow> b \<le> n \<Longrightarrow> length src = b - a \<Longrightarrow> length (put a b src xs) = n"
  by (simp add: put_def)

lemma seg_put_same [layout]:
  "a \<le> b \<Longrightarrow> length xs = n \<Longrightarrow> b \<le> n \<Longrightarrow> length src = b - a \<Longrightarrow> seg a b (put a b src xs) = src"
  by (simp add: seg_def put_def)

lemma seg_put_before [layout]:
  "d \<le> a \<Longrightarrow> length xs = n \<Longrightarrow> a \<le> n \<Longrightarrow> seg c d (put a b src xs) = seg c d xs"
  by (simp add: seg_def put_def min_absorb1)

lemma seg_put_after [layout]:
  assumes "b \<le> c" "a \<le> b" "length xs = n" "b \<le> n" "length src = b - a"
  shows "seg c d (put a b src xs) = seg c d xs"
proof -
  have "drop c (put a b src xs) = drop c xs"
    using assms by (simp add: put_def)
  then show ?thesis by (simp add: seg_def drop_take)
qed

lemma nth_put_before [layout]:
  "i < a \<Longrightarrow> length xs = n \<Longrightarrow> a \<le> n \<Longrightarrow> put a b src xs ! i = xs ! i"
  by (simp add: put_def nth_append)

lemma nth_put_after [layout]:
  assumes "b \<le> i" "a \<le> b" "length xs = n" "i < n" "length src = b - a"
  shows "put a b src xs ! i = xs ! i"
proof -
  have "\<not> i - a < b - a" "b + (i - a - (b - a)) = i" "a \<le> length xs" "\<not> i < a"
    using assms by arith+
  then show ?thesis using assms by (simp add: put_def nth_append min_def)
qed

lemma seg_update_before [layout]: "d \<le> i \<Longrightarrow> seg c d (xs[i := v]) = seg c d xs"
  by (simp add: seg_def)

lemma seg_update_after [layout]: "i < c \<Longrightarrow> seg c d (xs[i := v]) = seg c d xs"
  by (simp add: seg_def drop_take)

lemma seg_all [simp]: "length xs \<le> n \<Longrightarrow> seg 0 n xs = xs"
  by (simp add: seg_def)

lemma nth_seg [simp]: "a + i < b \<Longrightarrow> b \<le> length xs \<Longrightarrow> seg a b xs ! i = xs ! (a + i)"
  by (simp add: seg_def)

lemma seg_append: "a \<le> b \<Longrightarrow> b \<le> c \<Longrightarrow> seg a b xs @ seg b c xs = seg a c xs"
proof -
  assume "a \<le> b" "b \<le> c"
  then have "take b xs @ drop b (take c xs) = take c xs"
    by (metis append_take_drop_id min_absorb1 take_take)
  then have "drop a (take b xs @ drop b (take c xs)) = drop a (take c xs)" by simp
  then show ?thesis using \<open>a \<le> b\<close>
    by (cases "b \<le> length xs") (auto simp: seg_def)
qed

text \<open>Writing back what a buffer already holds changes nothing: with these two rules an encoder
  run over the fields a decoder read rebuilds the decoder's input.\<close>

lemma put_seg_id [layout]: "a \<le> b \<Longrightarrow> put a b (seg a b xs) xs = xs"
  by (simp add: put_def seg_def) (metis append_take_drop_id drop_take le_add_diff_inverse take_add append.assoc)

lemma seg_single: "b = Suc a \<Longrightarrow> a < length xs \<Longrightarrow> seg a b xs = [xs ! a]"
  by (simp add: seg_def take_Suc_conv_app_nth)

lemma take_eq_seg:
  assumes "a \<le> b" "take a xs = take a ys" "seg a b xs = seg a b ys"
  shows "take b xs = take b ys"
proof -
  have "take b zs = take a zs @ seg a b zs" for zs :: "'a list"
    using assms(1) by (metis append_take_drop_id min_absorb1 seg_def take_take)
  then show ?thesis using assms(2,3) by simp
qed

fun agree_on_cuts :: "nat \<Rightarrow> nat list \<Rightarrow> 'a list \<Rightarrow> 'a list \<Rightarrow> bool" where
  "agree_on_cuts a [] xs ys \<longleftrightarrow> a = length xs \<and> a = length ys"
| "agree_on_cuts a (b # cs) xs ys \<longleftrightarrow> a \<le> b \<and> seg a b xs = seg a b ys \<and> agree_on_cuts b cs xs ys"

lemma agree_on_cuts_eq: "agree_on_cuts a cs xs ys \<Longrightarrow> take a xs = take a ys \<Longrightarrow> xs = ys"
proof (induction a cs xs ys rule: agree_on_cuts.induct)
  case (2 a b cs xs ys)
  then show ?case by (auto dest: take_eq_seg)
qed auto

text \<open>Two buffers that agree on consecutive segments up to their common length are equal: the tool
  for showing that a decoder accepts one encoding only.\<close>

lemma eq_by_cuts: "agree_on_cuts 0 cs xs ys \<Longrightarrow> xs = ys"
  by (erule agree_on_cuts_eq) simp

section \<open>Fixed-size arrays\<close>

typedef bytes32 = "{bs :: bytes. length bs = 32}"
  morphisms to_bytes Abs_bytes32
  by (rule exI [of _ "replicate 32 0"]) simp

lemma bytes32_abstype [code abstype]: "Abs_bytes32 (to_bytes x) = x"
  by (rule to_bytes_inverse)

definition array32 :: "bytes \<Rightarrow> bytes32" where
  "array32 bs = Abs_bytes32 (take 32 (bs @ replicate 32 0))"

lemma to_bytes_array32_pad [code abstract]: "to_bytes (array32 bs) = take 32 (bs @ replicate 32 0)"
  by (simp add: array32_def Abs_bytes32_inverse)

lemma length_to_bytes [simp]: "length (to_bytes x) = 32"
  using to_bytes [of x] by simp

lemma to_bytes_array32 [simp]: "length bs = 32 \<Longrightarrow> to_bytes (array32 bs) = bs"
  by (simp add: to_bytes_array32_pad)

lemma array32_to_bytes [simp]: "array32 (to_bytes x) = x"
  by (simp add: array32_def to_bytes_inverse)

lemma bytes32_eq_iff: "x = y \<longleftrightarrow> to_bytes x = to_bytes y"
  by (simp add: to_bytes_inject)

instantiation bytes32 :: equal
begin

definition equal_bytes32 :: "bytes32 \<Rightarrow> bytes32 \<Rightarrow> bool" where
  "equal_bytes32 x y \<longleftrightarrow> to_bytes x = to_bytes y"

instance
  by standard (simp add: equal_bytes32_def bytes32_eq_iff)

end

lemma inj_to_bytes: "inj to_bytes"
  by (simp add: inj_on_def to_bytes_inject)

instance bytes32 :: finite
proof
  have "range to_bytes \<subseteq> {bs. set bs \<subseteq> (UNIV :: byte set) \<and> length bs = 32}"
    using length_to_bytes by blast
  moreover have "finite {bs. set bs \<subseteq> (UNIV :: byte set) \<and> length bs = 32}"
    by (rule finite_lists_length_eq) (rule finite_class.finite_UNIV)
  ultimately have "finite (range to_bytes)" by (rule finite_subset)
  then show "finite (UNIV :: bytes32 set)" using inj_to_bytes by (rule finite_imageD)
qed

definition fill32 :: "byte \<Rightarrow> bytes32" where
  "fill32 b = array32 (replicate 32 b)"

lemma to_bytes_fill32 [simp]: "to_bytes (fill32 b) = replicate 32 b"
  by (simp add: fill32_def)

lemma fill32_eq_iff [simp]: "fill32 a = fill32 b \<longleftrightarrow> a = b"
  by (simp add: bytes32_eq_iff)

text \<open>A byte string literal \<open>b"..."\<close>.\<close>

definition byte_string :: "string \<Rightarrow> bytes" where
  "byte_string s = map of_char s"

lemma length_byte_string [simp]: "length (byte_string s) = length s"
  by (simp add: byte_string_def)

section \<open>Checked arithmetic\<close>

definition checked_add :: "'a::len word \<Rightarrow> 'a word \<Rightarrow> 'a word option" where
  "checked_add a b = (if unat a + unat b < 2 ^ LENGTH('a) then Some (a + b) else None)"

definition checked_sub :: "'a::len word \<Rightarrow> 'a word \<Rightarrow> 'a word option" where
  "checked_sub a b = (if b \<le> a then Some (a - b) else None)"

definition checked_add_signed :: "'a::len word \<Rightarrow> 'a word \<Rightarrow> 'a word option" where
  "checked_add_signed a b =
     (if - (2 ^ (LENGTH('a) - 1)) \<le> sint a + sint b \<and> sint a + sint b < 2 ^ (LENGTH('a) - 1)
      then Some (a + b) else None)"

lemma unat_u64_less: "unat (n :: u64) < 2 ^ 64"
  by (rule order_less_le_trans [OF unsigned_less]) simp

lemma checked_add_eq_Some [result_inv]:
  fixes a b c :: "'a::len word"
  shows "checked_add a b = Some c \<longleftrightarrow> unat c = unat a + unat b"
proof
  assume "checked_add a b = Some c"
  then show "unat c = unat a + unat b"
    by (auto simp: checked_add_def unat_word_ariths split: if_splits)
next
  assume c: "unat c = unat a + unat b"
  then have lt: "unat a + unat b < 2 ^ LENGTH('a)" by (metis unsigned_less)
  then have "c = a + b" using c by (simp add: word_unat_eq_iff unat_word_ariths)
  with lt show "checked_add a b = Some c" by (simp add: checked_add_def)
qed

lemma checked_sub_eq_Some [result_inv]:
  "checked_sub a b = Some c \<longleftrightarrow> b \<le> a \<and> unat (c :: 'a::len word) = unat a - unat b"
  by (auto simp: checked_sub_def unat_sub word_unat_eq_iff split: if_splits)

lemma checked_add_signed_eq_Some [result_inv]:
  fixes a b c :: "'a::len word"
  shows "checked_add_signed a b = Some c \<longleftrightarrow> sint c = sint a + sint b"
proof
  assume "checked_add_signed a b = Some c"
  then show "sint c = sint a + sint b"
    by (auto simp: checked_add_signed_def sint_word_ariths signed_take_bit_int_eq_self split: if_splits)
next
  assume c: "sint c = sint a + sint b"
  have "(word_of_int (sint c) :: 'a word) = word_of_int (sint a) + word_of_int (sint b)"
    by (simp only: c of_int_add)
  then have "c = a + b" by simp
  moreover have "- (2 ^ (LENGTH('a) - 1)) \<le> sint a + sint b" "sint a + sint b < 2 ^ (LENGTH('a) - 1)"
    using sint_ge [of c] sint_lt [of c] c by simp_all
  ultimately show "checked_add_signed a b = Some c" by (simp add: checked_add_signed_def)
qed

end
