(* ===== verification/Protocol_Error.thy ===== *)
theory Protocol_Error
  imports Prelude
begin

text \<open>
  The error values of the protocol, from \<^verbatim>\<open>crates/agentbond-types/src/error.rs\<close>: one constructor
  per variant of \<open>ProtocolError\<close>, its stable numeric code (\<open>code\<close>) and its message
  (\<open>as_str\<close>, also what \<open>Display\<close> prints).
\<close>

datatype (plugins only: code size) ProtocolError =
    InvalidInstructionData
  | EmptyInstructionData
  | UnknownInstruction
  | InstructionNotImplemented
  | InvalidInstructionLength
  | InvalidAccountData
  | InvalidAccountDiscriminator
  | UnsupportedAccountVersion
  | InvalidAccountLength
  | InvalidJobState
  | InvalidStateTransition
  | InvalidReceiptLength
  | InvalidReceiptDomain
  | UnsupportedReceiptVersion
  | InvalidReceiptTimestamps
  | InvalidBoolean
  | InvalidProviderStatus
  | IntegerOverflow
  | Unauthorized
  | ProtocolPaused
  | AlreadyInitialized
  | UninitializedAccount
  | InvalidPda
  | InvalidBump
  | InvalidOwner
  | InvalidMint
  | InvalidTokenProgram
  | InvalidTokenAccount
  | InvalidTokenAccountOwner
  | InvalidTokenAccountMint
  | InvalidTokenAccountAuthority
  | InvalidAssociatedTokenAccount
  | TokenAccountFrozen
  | InsufficientFunds
  | InsufficientBond
  | BondLocked
  | DeadlineExpired
  | DeadlineNotReached
  | InvalidDeadlineOrder
  | InvalidAmount
  | InvalidPubkey
  | DuplicateExecutionKey
  | ExecutionKeyNotFound
  | ExecutionKeyLimit
  | InvalidReceiptField
  | InvalidEd25519Instruction
  | MissingEd25519Instruction
  | InvalidSignature
  | EscrowNotEmpty
  | EscrowUnexpectedBalance
  | ChallengeBondMustBeZero
  | InvalidChallengeStatus
  | MathOverflow
  | AccountNotWritable
  | MissingSignature
  | InvalidRentRecipient
  | InvalidConfig
  | ProviderInactive
  | FutureTimestamp
  | ReceiptExpired

primrec error_code :: "ProtocolError \<Rightarrow> u32" where
  "error_code InvalidInstructionData = 1"
| "error_code EmptyInstructionData = 2"
| "error_code UnknownInstruction = 3"
| "error_code InstructionNotImplemented = 4"
| "error_code InvalidInstructionLength = 5"
| "error_code InvalidAccountData = 6"
| "error_code InvalidAccountDiscriminator = 7"
| "error_code UnsupportedAccountVersion = 8"
| "error_code InvalidAccountLength = 9"
| "error_code InvalidJobState = 10"
| "error_code InvalidStateTransition = 11"
| "error_code InvalidReceiptLength = 12"
| "error_code InvalidReceiptDomain = 13"
| "error_code UnsupportedReceiptVersion = 14"
| "error_code InvalidReceiptTimestamps = 15"
| "error_code InvalidBoolean = 16"
| "error_code InvalidProviderStatus = 17"
| "error_code IntegerOverflow = 18"
| "error_code Unauthorized = 19"
| "error_code ProtocolPaused = 20"
| "error_code AlreadyInitialized = 21"
| "error_code UninitializedAccount = 22"
| "error_code InvalidPda = 23"
| "error_code InvalidBump = 24"
| "error_code InvalidOwner = 25"
| "error_code InvalidMint = 26"
| "error_code InvalidTokenProgram = 27"
| "error_code InvalidTokenAccount = 28"
| "error_code InvalidTokenAccountOwner = 29"
| "error_code InvalidTokenAccountMint = 30"
| "error_code InvalidTokenAccountAuthority = 31"
| "error_code InvalidAssociatedTokenAccount = 32"
| "error_code TokenAccountFrozen = 33"
| "error_code InsufficientFunds = 34"
| "error_code InsufficientBond = 35"
| "error_code BondLocked = 36"
| "error_code DeadlineExpired = 37"
| "error_code DeadlineNotReached = 38"
| "error_code InvalidDeadlineOrder = 39"
| "error_code InvalidAmount = 40"
| "error_code InvalidPubkey = 41"
| "error_code DuplicateExecutionKey = 42"
| "error_code ExecutionKeyNotFound = 43"
| "error_code ExecutionKeyLimit = 44"
| "error_code InvalidReceiptField = 45"
| "error_code InvalidEd25519Instruction = 46"
| "error_code MissingEd25519Instruction = 47"
| "error_code InvalidSignature = 48"
| "error_code EscrowNotEmpty = 49"
| "error_code EscrowUnexpectedBalance = 50"
| "error_code ChallengeBondMustBeZero = 51"
| "error_code InvalidChallengeStatus = 52"
| "error_code MathOverflow = 53"
| "error_code AccountNotWritable = 54"
| "error_code MissingSignature = 55"
| "error_code InvalidRentRecipient = 56"
| "error_code InvalidConfig = 57"
| "error_code ProviderInactive = 58"
| "error_code FutureTimestamp = 59"
| "error_code ReceiptExpired = 60"

primrec as_str :: "ProtocolError \<Rightarrow> string" where
  "as_str InvalidInstructionData = ''invalid instruction data''"
| "as_str EmptyInstructionData = ''empty instruction data''"
| "as_str UnknownInstruction = ''unknown instruction''"
| "as_str InstructionNotImplemented = ''instruction not implemented''"
| "as_str InvalidInstructionLength = ''invalid instruction length''"
| "as_str InvalidAccountData = ''invalid account data''"
| "as_str InvalidAccountDiscriminator = ''invalid account discriminator''"
| "as_str UnsupportedAccountVersion = ''unsupported account layout version''"
| "as_str InvalidAccountLength = ''invalid account length''"
| "as_str InvalidJobState = ''invalid job state''"
| "as_str InvalidStateTransition = ''invalid state transition''"
| "as_str InvalidReceiptLength = ''invalid receipt length''"
| "as_str InvalidReceiptDomain = ''invalid receipt domain''"
| "as_str UnsupportedReceiptVersion = ''unsupported receipt version''"
| "as_str InvalidReceiptTimestamps = ''invalid receipt timestamps''"
| "as_str InvalidBoolean = ''invalid boolean byte''"
| "as_str InvalidProviderStatus = ''invalid provider status''"
| "as_str IntegerOverflow = ''integer overflow''"
| "as_str Unauthorized = ''unauthorized''"
| "as_str ProtocolPaused = ''protocol paused''"
| "as_str AlreadyInitialized = ''already initialized''"
| "as_str UninitializedAccount = ''uninitialized account''"
| "as_str InvalidPda = ''invalid pda''"
| "as_str InvalidBump = ''invalid bump''"
| "as_str InvalidOwner = ''invalid owner''"
| "as_str InvalidMint = ''invalid mint''"
| "as_str InvalidTokenProgram = ''invalid token program''"
| "as_str InvalidTokenAccount = ''invalid token account''"
| "as_str InvalidTokenAccountOwner = ''invalid token account owner''"
| "as_str InvalidTokenAccountMint = ''invalid token account mint''"
| "as_str InvalidTokenAccountAuthority = ''invalid token account authority''"
| "as_str InvalidAssociatedTokenAccount = ''invalid associated token account''"
| "as_str TokenAccountFrozen = ''token account frozen''"
| "as_str InsufficientFunds = ''insufficient funds''"
| "as_str InsufficientBond = ''insufficient bond''"
| "as_str BondLocked = ''bond locked''"
| "as_str DeadlineExpired = ''deadline expired''"
| "as_str DeadlineNotReached = ''deadline not reached''"
| "as_str InvalidDeadlineOrder = ''invalid deadline order''"
| "as_str InvalidAmount = ''invalid amount''"
| "as_str InvalidPubkey = ''invalid pubkey''"
| "as_str DuplicateExecutionKey = ''duplicate execution key''"
| "as_str ExecutionKeyNotFound = ''execution key not found''"
| "as_str ExecutionKeyLimit = ''execution key limit''"
| "as_str InvalidReceiptField = ''invalid receipt field''"
| "as_str InvalidEd25519Instruction = ''invalid ed25519 instruction''"
| "as_str MissingEd25519Instruction = ''missing ed25519 instruction''"
| "as_str InvalidSignature = ''invalid signature''"
| "as_str EscrowNotEmpty = ''escrow not empty''"
| "as_str EscrowUnexpectedBalance = ''escrow unexpected balance''"
| "as_str ChallengeBondMustBeZero = ''challenge bond must be zero''"
| "as_str InvalidChallengeStatus = ''invalid challenge status''"
| "as_str MathOverflow = ''math overflow''"
| "as_str AccountNotWritable = ''account not writable''"
| "as_str MissingSignature = ''missing signature''"
| "as_str InvalidRentRecipient = ''invalid rent recipient''"
| "as_str InvalidConfig = ''invalid config''"
| "as_str ProviderInactive = ''provider inactive''"
| "as_str FutureTimestamp = ''future timestamp''"
| "as_str ReceiptExpired = ''receipt expired''"

text \<open>All variants, in the order of their codes.\<close>

definition all_errors :: "ProtocolError list" where
  "all_errors = [
    InvalidInstructionData,
    EmptyInstructionData,
    UnknownInstruction,
    InstructionNotImplemented,
    InvalidInstructionLength,
    InvalidAccountData,
    InvalidAccountDiscriminator,
    UnsupportedAccountVersion,
    InvalidAccountLength,
    InvalidJobState,
    InvalidStateTransition,
    InvalidReceiptLength,
    InvalidReceiptDomain,
    UnsupportedReceiptVersion,
    InvalidReceiptTimestamps,
    InvalidBoolean,
    InvalidProviderStatus,
    IntegerOverflow,
    Unauthorized,
    ProtocolPaused,
    AlreadyInitialized,
    UninitializedAccount,
    InvalidPda,
    InvalidBump,
    InvalidOwner,
    InvalidMint,
    InvalidTokenProgram,
    InvalidTokenAccount,
    InvalidTokenAccountOwner,
    InvalidTokenAccountMint,
    InvalidTokenAccountAuthority,
    InvalidAssociatedTokenAccount,
    TokenAccountFrozen,
    InsufficientFunds,
    InsufficientBond,
    BondLocked,
    DeadlineExpired,
    DeadlineNotReached,
    InvalidDeadlineOrder,
    InvalidAmount,
    InvalidPubkey,
    DuplicateExecutionKey,
    ExecutionKeyNotFound,
    ExecutionKeyLimit,
    InvalidReceiptField,
    InvalidEd25519Instruction,
    MissingEd25519Instruction,
    InvalidSignature,
    EscrowNotEmpty,
    EscrowUnexpectedBalance,
    ChallengeBondMustBeZero,
    InvalidChallengeStatus,
    MathOverflow,
    AccountNotWritable,
    MissingSignature,
    InvalidRentRecipient,
    InvalidConfig,
    ProviderInactive,
    FutureTimestamp,
    ReceiptExpired]"

lemma set_all_errors: "set all_errors = UNIV"
proof -
  have "e \<in> set all_errors" for e by (cases e) (simp_all add: all_errors_def)
  then show ?thesis by blast
qed

lemma codes_all_errors: "map error_code all_errors = map word_of_nat [1..<61]"
  by (simp add: all_errors_def upt_rec)

lemma distinct_error_codes: "distinct (map error_code all_errors)"
  by (simp add: all_errors_def)

lemma inj_error_code: "inj error_code"
  using distinct_error_codes by (simp add: distinct_map set_all_errors)

lemma error_code_eq_iff [simp]: "error_code a = error_code b \<longleftrightarrow> a = b"
  using inj_error_code by (auto dest: injD)

lemma error_code_nonzero: "error_code e \<noteq> 0"
  by (cases e) simp_all

text \<open>
  Error codes are a faithful numbering: different errors have different codes, and the codes are exactly 1 to 60.
\<close>

theorem error_codes_faithful: "inj error_code \<and> range error_code = word_of_nat ` {1..60}"
proof -
  have "error_code ` set all_errors = word_of_nat ` set [1..<61]"
    using arg_cong [OF codes_all_errors, of set] by simp
  moreover have "set [1..<61] = {1..60 :: nat}" by auto
  ultimately show ?thesis by (simp add: inj_error_code set_all_errors)
qed

end
