(* ===== verification/Job_State.thy ===== *)
theory Job_State
  imports Protocol_Error
begin

text \<open>
  The job state machine of \<^verbatim>\<open>crates/agentbond-types/src/state.rs\<close>: the nine states with
  their byte values, the terminal states, and \<open>validate_transition\<close>, the only gate through
  which the program changes a job's state.

  Every one-byte enumeration of the protocol (job states here, instruction and event kinds in
  their own theories) follows one contract, the locale \<open>byte_enum\<close>: \<open>from_u8\<close> accepts exactly
  the bytes \<open>as_u8\<close> produces and rejects every other byte with one fixed error.
\<close>

section \<open>One-byte enumerations\<close>

locale byte_enum =
  fixes as_u8 :: "'k \<Rightarrow> byte"
    and from_u8 :: "byte \<Rightarrow> ProtocolError + 'k"
    and unknown :: ProtocolError
  assumes from_as: "from_u8 (as_u8 k) = Inr k"
    and as_from: "from_u8 b = Inr k \<Longrightarrow> as_u8 k = b"
    and from_error: "from_u8 b = Inl e \<Longrightarrow> e = unknown"
begin

lemma as_u8_eq_iff: "as_u8 k = as_u8 k' \<longleftrightarrow> k = k'"
  using from_as by (metis sum.inject(2))

lemma from_u8_eq_Inr: "from_u8 b = Inr k \<longleftrightarrow> b = as_u8 k"
  using from_as as_from by blast

lemma from_u8_rejects: "from_u8 b = Inl unknown \<longleftrightarrow> b \<notin> range as_u8"
proof (cases "from_u8 b")
  case (Inl e)
  then have "e = unknown" by (rule from_error)
  moreover have "b \<notin> range as_u8" using Inl from_as by auto
  ultimately show ?thesis using Inl by simp
next
  case (Inr k)
  then have "b = as_u8 k" using as_from by blast
  with Inr show ?thesis by auto
qed

end

section \<open>States\<close>

datatype JobState =
    Created
  | Funded
  | Accepted
  | Submitted
  | Challenged
  | Settled
  | Refunded
  | Expired
  | Slashed

primrec job_state_as_u8 :: "JobState \<Rightarrow> byte" where
  "job_state_as_u8 Created = 0"
| "job_state_as_u8 Funded = 1"
| "job_state_as_u8 Accepted = 2"
| "job_state_as_u8 Submitted = 3"
| "job_state_as_u8 Challenged = 4"
| "job_state_as_u8 Settled = 5"
| "job_state_as_u8 Refunded = 6"
| "job_state_as_u8 Expired = 7"
| "job_state_as_u8 Slashed = 8"

definition job_state_from_u8 :: "byte \<Rightarrow> ProtocolError + JobState" where
  "job_state_from_u8 v =
     (if v = 0 then Inr Created
      else if v = 1 then Inr Funded
      else if v = 2 then Inr Accepted
      else if v = 3 then Inr Submitted
      else if v = 4 then Inr Challenged
      else if v = 5 then Inr Settled
      else if v = 6 then Inr Refunded
      else if v = 7 then Inr Expired
      else if v = 8 then Inr Slashed
      else Inl InvalidJobState)"

primrec is_terminal :: "JobState \<Rightarrow> bool" where
  "is_terminal Created = False"
| "is_terminal Funded = False"
| "is_terminal Accepted = False"
| "is_terminal Submitted = False"
| "is_terminal Challenged = False"
| "is_terminal Settled = True"
| "is_terminal Refunded = True"
| "is_terminal Expired = True"
| "is_terminal Slashed = True"

section \<open>Transitions\<close>

fun transition_allowed :: "JobState \<Rightarrow> JobState \<Rightarrow> bool" where
  "transition_allowed Created Funded = True"
| "transition_allowed Created Expired = True"
| "transition_allowed Funded Accepted = True"
| "transition_allowed Funded Refunded = True"
| "transition_allowed Accepted Submitted = True"
| "transition_allowed Accepted Refunded = True"
| "transition_allowed Submitted Settled = True"
| "transition_allowed Submitted Challenged = True"
| "transition_allowed Challenged Settled = True"
| "transition_allowed Challenged Refunded = True"
| "transition_allowed Challenged Slashed = True"
| "transition_allowed _ _ = False"

definition validate_transition :: "JobState \<Rightarrow> JobState \<Rightarrow> ProtocolError + unit" where
  "validate_transition s t =
     (if job_state_as_u8 s = job_state_as_u8 t then Inl InvalidStateTransition
      else if is_terminal s then Inl InvalidStateTransition
      else if transition_allowed s t then Inr ()
      else Inl InvalidStateTransition)"

interpretation job_state: byte_enum job_state_as_u8 job_state_from_u8 InvalidJobState
proof unfold_locales
  show "job_state_from_u8 (job_state_as_u8 k) = Inr k" for k
    by (cases k) (simp_all add: job_state_from_u8_def)
qed (auto simp: job_state_from_u8_def split: if_splits)

text \<open>The two early returns of \<open>validate_transition\<close> are redundant: the table alone decides.\<close>

lemma validate_transition_ok [simp]:
  "validate_transition s t = Inr u \<longleftrightarrow> transition_allowed s t"
  by (cases s; cases t) (simp_all add: validate_transition_def)

lemma validate_transition_err:
  "validate_transition s t = Inl e \<longleftrightarrow> e = InvalidStateTransition \<and> \<not> transition_allowed s t"
  by (cases s; cases t) (auto simp: validate_transition_def)

lemma terminal_no_transition: "is_terminal s \<Longrightarrow> \<not> transition_allowed s t"
  by (cases s; cases t) simp_all

lemma nonterminal_transition: "\<not> is_terminal s \<Longrightarrow> \<exists>t. transition_allowed s t"
  by (cases s) (auto intro: exI [of _ Expired] exI [of _ Refunded] exI [of _ Settled])

section \<open>Runs of the machine\<close>

text \<open>Paths through the machine, as the step relation the gate allows.\<close>

inductive job_path :: "JobState \<Rightarrow> JobState list \<Rightarrow> JobState \<Rightarrow> bool" where
  path_nil: "job_path s [] s"
| path_cons: "validate_transition s t = Inr () \<Longrightarrow> job_path t ts u \<Longrightarrow> job_path s (t # ts) u"

inductive_cases job_path_nilE [elim!]: "job_path s [] t"
inductive_cases job_path_consE [elim]: "job_path s (t # ts) u"
inductive_simps job_path_nil_iff [simp]: "job_path s [] t"
inductive_simps job_path_cons_iff: "job_path s (t # ts) u"

text \<open>The remaining distance to a terminal state; every transition decreases it.\<close>

primrec job_fuel :: "JobState \<Rightarrow> nat" where
  "job_fuel Created = 5"
| "job_fuel Funded = 4"
| "job_fuel Accepted = 3"
| "job_fuel Submitted = 2"
| "job_fuel Challenged = 1"
| "job_fuel Settled = 0"
| "job_fuel Refunded = 0"
| "job_fuel Expired = 0"
| "job_fuel Slashed = 0"

lemma transition_decreases: "transition_allowed s t \<Longrightarrow> job_fuel t < job_fuel s"
  by (cases s; cases t) simp_all

lemma job_path_length: "job_path s ts t \<Longrightarrow> length ts + job_fuel t \<le> job_fuel s"
proof (induction rule: job_path.induct)
  case (path_cons s t ts u)
  then have "job_fuel t < job_fuel s" by (simp add: transition_decreases)
  with path_cons.IH show ?case by simp
qed simp

lemma job_path_terminal_stuck: "job_path s ts t \<Longrightarrow> is_terminal s \<Longrightarrow> ts = [] \<and> t = s"
  by (induction rule: job_path.induct) (auto dest: terminal_no_transition)

text \<open>A run that visits a state never comes back to it.\<close>

lemma job_path_fuel_less:
  "job_path s ts t \<Longrightarrow> u \<in> set ts \<Longrightarrow> job_fuel u < job_fuel s"
proof (induction arbitrary: u rule: job_path.induct)
  case (path_cons s t ts v)
  have "job_fuel t < job_fuel s" using path_cons.hyps by (simp add: transition_decreases)
  with path_cons show ?case by (auto dest: order.strict_trans)
qed simp

lemma job_path_distinct: "job_path s ts t \<Longrightarrow> distinct (s # ts)"
proof (induction rule: job_path.induct)
  case (path_cons s t ts u)
  have "job_path s (t # ts) u" using path_cons.hyps by (rule job_path.path_cons)
  then have "s \<notin> set (t # ts)" by (metis job_path_fuel_less less_irrefl)
  with path_cons.IH show ?case by simp
qed simp

section \<open>Every job ends\<close>

text \<open>
  C21. The state machine of a job ends: the transitions the gate allows lead from any state through pairwise different
  states, at most five of them, and a state allows no transition exactly when it is terminal.
\<close>

theorem job_state_machine_ends:
  "(\<forall>s ts t. job_path s ts t \<longrightarrow> distinct (s # ts) \<and> length ts \<le> 5) \<and>
   (\<forall>s. (\<forall>t. validate_transition s t = Inl InvalidStateTransition) \<longleftrightarrow> is_terminal s)"
proof (intro conjI allI impI)
  fix s ts t assume p: "job_path s ts t"
  show "distinct (s # ts)" using p by (rule job_path_distinct)
  have "job_fuel s \<le> 5" by (cases s) simp_all
  with job_path_length [OF p] show "length ts \<le> 5" by simp
next
  fix s show "(\<forall>t. validate_transition s t = Inl InvalidStateTransition) \<longleftrightarrow> is_terminal s"
    using terminal_no_transition nonterminal_transition by (auto simp: validate_transition_err)
qed

theorem job_state_machine_ends_witness:
  "job_path Created [Funded, Accepted, Submitted, Challenged, Slashed] Slashed \<and>
   distinct [Created, Funded, Accepted, Submitted, Challenged, Slashed]"
proof -
  have "job_path Created [Funded, Accepted, Submitted, Challenged, Slashed] Slashed"
    by (simp add: job_path_cons_iff)
  with conjunct1 [OF job_state_machine_ends] show ?thesis by blast
qed

end
