(* ===== verification/Account_Codec.thy ===== *)
theory Account_Codec
  imports Job_State
begin

text \<open>
  The five account layouts of \<^verbatim>\<open>crates/agentbond-types/src/accounts.rs\<close>, with their encoders
  and decoders written over byte buffers at the offsets the source uses.

  The contract of an encoder and its decoder is the locale \<open>codec\<close>: a well-formed value encodes
  and decodes back to itself, and a decoded value is well formed. \<open>canonical_codec\<close> adds that the
  decoder accepts one encoding per value only, \<open>account_codec\<close> that the encoding has a fixed
  length and a discriminator in front and that every buffer of another length or discriminator
  is rejected. All five layouts are account codecs; all but \<open>ProviderBondAccount\<close>, whose
  reserved byte is not checked, are canonical.
\<close>

section \<open>Constants\<close>

abbreviation (input) ACCOUNT_LAYOUT_VERSION :: byte where "ACCOUNT_LAYOUT_VERSION \<equiv> 1"

abbreviation (input) CONFIG_ACCOUNT_DISCRIMINATOR :: byte where "CONFIG_ACCOUNT_DISCRIMINATOR \<equiv> 1"
abbreviation (input) PROVIDER_ACCOUNT_DISCRIMINATOR :: byte where "PROVIDER_ACCOUNT_DISCRIMINATOR \<equiv> 2"
abbreviation (input) PROVIDER_BOND_ACCOUNT_DISCRIMINATOR :: byte where
  "PROVIDER_BOND_ACCOUNT_DISCRIMINATOR \<equiv> 3"
abbreviation (input) JOB_ACCOUNT_DISCRIMINATOR :: byte where "JOB_ACCOUNT_DISCRIMINATOR \<equiv> 4"
abbreviation (input) CHALLENGE_ACCOUNT_DISCRIMINATOR :: byte where "CHALLENGE_ACCOUNT_DISCRIMINATOR \<equiv> 5"

abbreviation (input) PROVIDER_STATUS_ACTIVE :: byte where "PROVIDER_STATUS_ACTIVE \<equiv> 1"
abbreviation (input) PROVIDER_STATUS_INACTIVE :: byte where "PROVIDER_STATUS_INACTIVE \<equiv> 2"

abbreviation (input) MAX_EXECUTION_KEYS :: nat where "MAX_EXECUTION_KEYS \<equiv> 4"

abbreviation (input) CONFIG_ACCOUNT_LEN :: nat where "CONFIG_ACCOUNT_LEN \<equiv> 149"
abbreviation (input) PROVIDER_ACCOUNT_LEN :: nat where "PROVIDER_ACCOUNT_LEN \<equiv> 165"
abbreviation (input) PROVIDER_BOND_ACCOUNT_LEN :: nat where "PROVIDER_BOND_ACCOUNT_LEN \<equiv> 116"
abbreviation (input) JOB_ACCOUNT_LEN :: nat where "JOB_ACCOUNT_LEN \<equiv> 253"
abbreviation (input) CHALLENGE_ACCOUNT_LEN :: nat where "CHALLENGE_ACCOUNT_LEN \<equiv> 116"

section \<open>Field readers\<close>

definition read_bool :: "byte \<Rightarrow> ProtocolError + bool" where
  "read_bool b = (if b = 0 then Inr False else if b = 1 then Inr True else Inl InvalidBoolean)"

definition write_bool :: "bool \<Rightarrow> byte" where
  "write_bool v = (if v then 1 else 0)"

definition require_len :: "bytes \<Rightarrow> nat \<Rightarrow> ProtocolError + unit" where
  "require_len data expected =
     (if length data \<noteq> expected then Inl InvalidAccountLength else Inr ())"

definition read_u64 :: "bytes \<Rightarrow> nat \<Rightarrow> ProtocolError + u64" where
  "read_u64 data offset =
     tryE (ok_or (get_range data offset (offset + 8)) InvalidAccountData) (\<lambda>bs.
     Inr (from_le bs))"

definition read_i64 :: "bytes \<Rightarrow> nat \<Rightarrow> ProtocolError + i64" where
  "read_i64 data offset =
     tryE (ok_or (get_range data offset (offset + 8)) InvalidAccountData) (\<lambda>bs.
     Inr (from_le bs))"

definition read_pubkey :: "bytes \<Rightarrow> nat \<Rightarrow> ProtocolError + bytes32" where
  "read_pubkey data offset =
     tryE (ok_or (get_range data offset (offset + 32)) InvalidAccountData) (\<lambda>bs.
     Inr (array32 bs))"

lemma read_bool_eq_Inr [result_inv]: "read_bool b = Inr v \<longleftrightarrow> b = write_bool v"
  by (cases v) (auto simp: read_bool_def write_bool_def)

lemma read_write_bool [simp]: "read_bool (write_bool v) = Inr v"
  by (simp add: read_bool_eq_Inr)

lemma require_len_eq_Inr [result_inv]: "require_len data n = Inr u \<longleftrightarrow> length data = n"
  by (simp add: require_len_def)

lemma require_len_wrong [simp]: "length data \<noteq> n \<Longrightarrow> require_len data n = Inl InvalidAccountLength"
  by (simp add: require_len_def)

lemma require_len_right [simp]: "length data = n \<Longrightarrow> require_len data n = Inr ()"
  by (simp add: require_len_def)

lemma read_u64_in [simp]: "offset + 8 \<le> length data \<Longrightarrow>
    read_u64 data offset = Inr (from_le (seg offset (offset + 8) data))"
  by (simp add: read_u64_def)

lemma read_i64_in [simp]: "offset + 8 \<le> length data \<Longrightarrow>
    read_i64 data offset = Inr (from_le (seg offset (offset + 8) data))"
  by (simp add: read_i64_def)

lemma read_pubkey_in [simp]: "offset + 32 \<le> length data \<Longrightarrow>
    read_pubkey data offset = Inr (array32 (seg offset (offset + 32) data))"
  by (simp add: read_pubkey_def)

section \<open>The contracts of a codec and of an account layout\<close>

locale codec =
  fixes encode :: "'a \<Rightarrow> ProtocolError + bytes"
    and decode :: "bytes \<Rightarrow> ProtocolError + 'a"
    and ok :: "'a \<Rightarrow> bool"
  assumes encode_ok: "ok x \<Longrightarrow> \<exists>d. encode x = Inr d"
    and decode_encode: "ok x \<Longrightarrow> encode x = Inr d \<Longrightarrow> decode d = Inr x"
    and decode_ok: "decode d = Inr x \<Longrightarrow> ok x"
begin

lemma encode_inj: "ok x \<Longrightarrow> ok y \<Longrightarrow> encode x = encode y \<Longrightarrow> x = y"
  using encode_ok decode_encode by (metis sum.inject(2))

lemma reencode: "decode d = Inr x \<Longrightarrow> \<exists>d'. encode x = Inr d' \<and> decode d' = Inr x"
  using decode_ok encode_ok decode_encode by metis

end

locale canonical_codec = codec +
  assumes canonical: "decode d = Inr x \<Longrightarrow> encode x = Inr d"
begin

lemma decode_inj: "decode d = Inr x \<Longrightarrow> decode d' = Inr x \<Longrightarrow> d = d'"
  using canonical by (metis sum.inject(2))

lemma decode_iff: "decode d = Inr x \<longleftrightarrow> ok x \<and> encode x = Inr d"
  using canonical decode_ok decode_encode by blast

end

locale account_codec = codec +
  fixes len :: nat
    and disc :: byte
  assumes len_pos: "0 < len"
    and encode_len: "ok x \<Longrightarrow> encode x = Inr d \<Longrightarrow> length d = len"
    and encode_disc: "ok x \<Longrightarrow> encode x = Inr d \<Longrightarrow> d ! 0 = disc"
    and decode_len: "length d \<noteq> len \<Longrightarrow> decode d = Inl InvalidAccountLength"
    and decode_disc: "length d = len \<Longrightarrow> d ! 0 \<noteq> disc \<Longrightarrow>
      decode d = Inl InvalidAccountDiscriminator"
begin

lemma decode_Inr_len: "decode d = Inr x \<Longrightarrow> length d = len"
  using decode_len by fastforce

lemma decode_Inr_disc: "decode d = Inr x \<Longrightarrow> d ! 0 = disc"
  using decode_len decode_disc by (metis Inl_Inr_False)

lemma decode_zeros: "disc \<noteq> 0 \<Longrightarrow> decode (replicate n 0) \<noteq> Inr x"
  using decode_Inr_disc decode_Inr_len len_pos by fastforce

lemma encode_keeps_len: "decode d = Inr x \<Longrightarrow> ok y \<Longrightarrow> encode y = Inr d' \<Longrightarrow> length d' = length d"
  using decode_Inr_len encode_len by metis

end

section \<open>Config\<close>

record ConfigAccount =
  config_bump :: byte
  config_paused :: bool
  config_admin :: bytes32
  config_genesis_hash :: bytes32
  config_allowed_mint :: bytes32
  config_token_program :: bytes32
  config_mint_decimals :: byte
  config_min_provider_bond :: u64
  config_challenge_duration_seconds :: i64

definition config_encode :: "ConfigAccount \<Rightarrow> bytes" where
  "config_encode c =
     (let out = replicate CONFIG_ACCOUNT_LEN 0;
          out = out[0 := CONFIG_ACCOUNT_DISCRIMINATOR];
          out = out[1 := ACCOUNT_LAYOUT_VERSION];
          out = out[2 := config_bump c];
          out = out[3 := write_bool (config_paused c)];
          out = put 4 36 (to_bytes (config_admin c)) out;
          out = put 36 68 (to_bytes (config_genesis_hash c)) out;
          out = put 68 100 (to_bytes (config_allowed_mint c)) out;
          out = put 100 132 (to_bytes (config_token_program c)) out;
          out = out[132 := config_mint_decimals c];
          out = put 133 141 (le_bytes 8 (config_min_provider_bond c)) out;
          out = put 141 149 (le_bytes 8 (config_challenge_duration_seconds c)) out
      in out)"

definition config_decode :: "bytes \<Rightarrow> ProtocolError + ConfigAccount" where
  "config_decode data =
     tryE (require_len data CONFIG_ACCOUNT_LEN) (\<lambda>_.
     tryE (ensure (data ! 0 = CONFIG_ACCOUNT_DISCRIMINATOR) InvalidAccountDiscriminator) (\<lambda>_.
     tryE (ensure (data ! 1 = ACCOUNT_LAYOUT_VERSION) UnsupportedAccountVersion) (\<lambda>_.
     tryE (read_bool (data ! 3)) (\<lambda>paused.
     tryE (read_pubkey data 4) (\<lambda>admin.
     tryE (read_pubkey data 36) (\<lambda>genesis_hash.
     tryE (read_pubkey data 68) (\<lambda>allowed_mint.
     tryE (read_pubkey data 100) (\<lambda>token_program.
     tryE (read_u64 data 133) (\<lambda>min_provider_bond.
     tryE (read_i64 data 141) (\<lambda>challenge_duration_seconds.
     Inr \<lparr>config_bump = data ! 2, config_paused = paused, config_admin = admin,
          config_genesis_hash = genesis_hash, config_allowed_mint = allowed_mint,
          config_token_program = token_program, config_mint_decimals = data ! 132,
          config_min_provider_bond = min_provider_bond,
          config_challenge_duration_seconds = challenge_duration_seconds\<rparr>))))))))))"

lemma length_config_encode [simp]: "length (config_encode c) = CONFIG_ACCOUNT_LEN"
  by (simp add: config_encode_def Let_def layout)

lemma config_decode_encode [simp]: "config_decode (config_encode c) = Inr c"
  by (simp add: config_encode_def config_decode_def Let_def layout)

lemma config_decode_canonical: "config_decode d = Inr c \<Longrightarrow> config_encode c = d"
  by (rule eq_by_cuts [of "[1,2,3,4,36,68,100,132,133,141,149]"])
    (clarsimp simp: config_decode_def result_inv config_encode_def Let_def layout seg_single)

lemma config_decode_rejects:
  "length d \<noteq> CONFIG_ACCOUNT_LEN \<Longrightarrow> config_decode d = Inl InvalidAccountLength"
  "length d = CONFIG_ACCOUNT_LEN \<Longrightarrow> d ! 0 \<noteq> CONFIG_ACCOUNT_DISCRIMINATOR \<Longrightarrow>
     config_decode d = Inl InvalidAccountDiscriminator"
  by (simp_all add: config_decode_def)

interpretation config: account_codec
  "\<lambda>c. Inr (config_encode c)" config_decode "\<lambda>_. True" CONFIG_ACCOUNT_LEN CONFIG_ACCOUNT_DISCRIMINATOR
proof unfold_locales
  show "d ! 0 = CONFIG_ACCOUNT_DISCRIMINATOR" if "Inr (config_encode x) = Inr d" for x d
    using that by (auto simp: config_encode_def Let_def layout)
qed (auto simp: config_decode_rejects)

interpretation config_canonical: canonical_codec
  "\<lambda>c. Inr (config_encode c)" config_decode "\<lambda>_. True"
  by unfold_locales (simp add: config_decode_canonical)

section \<open>Provider\<close>

record ProviderAccount =
  provider_bump :: byte
  provider_status :: byte
  provider_authority :: bytes32
  provider_execution_key_count :: byte
  provider_execution_keys :: "bytes32 list"

text \<open>\<open>execution_keys\<close> is an array of \<^const>\<open>MAX_EXECUTION_KEYS\<close> keys; the status and count
  conditions are the ones both directions of the codec check.\<close>

definition provider_ok :: "ProviderAccount \<Rightarrow> bool" where
  "provider_ok p \<longleftrightarrow>
     (provider_status p = PROVIDER_STATUS_ACTIVE \<or> provider_status p = PROVIDER_STATUS_INACTIVE) \<and>
     unat (provider_execution_key_count p) \<le> MAX_EXECUTION_KEYS \<and>
     length (provider_execution_keys p) = MAX_EXECUTION_KEYS"

fun put_keys :: "nat \<Rightarrow> bytes32 list \<Rightarrow> bytes \<Rightarrow> bytes" where
  "put_keys index [] out = out"
| "put_keys index (key # keys) out =
     (let start = 37 + index * 32
      in put_keys (index + 1) keys (put start (start + 32) (to_bytes key) out))"

definition provider_encode :: "ProviderAccount \<Rightarrow> ProtocolError + bytes" where
  "provider_encode p =
     tryE (ensure (\<not> (provider_status p \<noteq> PROVIDER_STATUS_ACTIVE \<and>
                      provider_status p \<noteq> PROVIDER_STATUS_INACTIVE)) InvalidProviderStatus) (\<lambda>_.
     tryE (ensure (\<not> unat (provider_execution_key_count p) > MAX_EXECUTION_KEYS)
             InvalidAccountData) (\<lambda>_.
     Inr (let out = replicate PROVIDER_ACCOUNT_LEN 0;
              out = out[0 := PROVIDER_ACCOUNT_DISCRIMINATOR];
              out = out[1 := ACCOUNT_LAYOUT_VERSION];
              out = out[2 := provider_bump p];
              out = out[3 := provider_status p];
              out = put 4 36 (to_bytes (provider_authority p)) out;
              out = out[36 := provider_execution_key_count p];
              out = put_keys 0 (provider_execution_keys p) out
          in out)))"

fun read_keys :: "bytes \<Rightarrow> nat \<Rightarrow> nat \<Rightarrow> ProtocolError + bytes32 list" where
  "read_keys data index 0 = Inr []"
| "read_keys data index (Suc n) =
     (let start = 37 + index * 32
      in tryE (read_pubkey data start) (\<lambda>key.
         tryE (read_keys data (index + 1) n) (\<lambda>keys. Inr (key # keys))))"

definition provider_decode :: "bytes \<Rightarrow> ProtocolError + ProviderAccount" where
  "provider_decode data =
     tryE (require_len data PROVIDER_ACCOUNT_LEN) (\<lambda>_.
     tryE (ensure (data ! 0 = PROVIDER_ACCOUNT_DISCRIMINATOR) InvalidAccountDiscriminator) (\<lambda>_.
     tryE (ensure (data ! 1 = ACCOUNT_LAYOUT_VERSION) UnsupportedAccountVersion) (\<lambda>_.
     tryE (ensure (\<not> (data ! 3 \<noteq> PROVIDER_STATUS_ACTIVE \<and> data ! 3 \<noteq> PROVIDER_STATUS_INACTIVE))
             InvalidProviderStatus) (\<lambda>_.
     tryE (ensure (\<not> unat (data ! 36) > MAX_EXECUTION_KEYS) InvalidAccountData) (\<lambda>_.
     tryE (read_keys data 0 MAX_EXECUTION_KEYS) (\<lambda>execution_keys.
     tryE (read_pubkey data 4) (\<lambda>authority.
     Inr \<lparr>provider_bump = data ! 2, provider_status = data ! 3, provider_authority = authority,
          provider_execution_key_count = data ! 36,
          provider_execution_keys = execution_keys\<rparr>)))))))"

definition contains_execution_key :: "ProviderAccount \<Rightarrow> bytes32 \<Rightarrow> bool" where
  "contains_execution_key p key \<longleftrightarrow>
     list_ex (\<lambda>existing. existing = key)
       (take (unat (provider_execution_key_count p)) (provider_execution_keys p))"

lemma contains_execution_key_iff:
  "contains_execution_key p key \<longleftrightarrow>
     key \<in> set (take (unat (provider_execution_key_count p)) (provider_execution_keys p))"
  by (auto simp: contains_execution_key_def list_ex_iff)

lemma length_4_conv: "length xs = 4 \<longleftrightarrow> (\<exists>a b c d. xs = [a, b, c, d])"
  by (auto simp: numeral_eq_Suc length_Suc_conv)

lemma read_keys_4: "length data = PROVIDER_ACCOUNT_LEN \<Longrightarrow>
    read_keys data 0 MAX_EXECUTION_KEYS =
      Inr [array32 (seg 37 69 data), array32 (seg 69 101 data),
           array32 (seg 101 133 data), array32 (seg 133 165 data)]"
proof -
  assume len: "length data = PROVIDER_ACCOUNT_LEN"
  have four: "(4 :: nat) = Suc (Suc (Suc (Suc 0)))" by simp
  show ?thesis unfolding four read_keys.simps using len by simp
qed

lemma provider_encode_eq_Inr [result_inv]:
  "provider_encode p = Inr d \<longleftrightarrow>
     (provider_status p = PROVIDER_STATUS_ACTIVE \<or> provider_status p = PROVIDER_STATUS_INACTIVE) \<and>
     unat (provider_execution_key_count p) \<le> MAX_EXECUTION_KEYS \<and>
     d = put_keys 0 (provider_execution_keys p)
       ((put 4 36 (to_bytes (provider_authority p))
         ((replicate PROVIDER_ACCOUNT_LEN 0)[0 := PROVIDER_ACCOUNT_DISCRIMINATOR,
           1 := ACCOUNT_LAYOUT_VERSION, 2 := provider_bump p, 3 := provider_status p]))
        [36 := provider_execution_key_count p])"
  by (auto simp: provider_encode_def result_inv Let_def)

lemma provider_encode_ok: "provider_ok p \<Longrightarrow> \<exists>d. provider_encode p = Inr d"
  by (auto simp: provider_ok_def provider_encode_eq_Inr)

lemma length_provider_encode:
  "provider_ok p \<Longrightarrow> provider_encode p = Inr d \<Longrightarrow> length d = PROVIDER_ACCOUNT_LEN"
  by (auto simp: provider_ok_def provider_encode_eq_Inr length_4_conv layout)

lemma provider_decode_encode:
  "provider_ok p \<Longrightarrow> provider_encode p = Inr d \<Longrightarrow> provider_decode d = Inr p"
  by (auto simp: provider_ok_def provider_encode_eq_Inr length_4_conv layout provider_decode_def
      read_keys_4)

lemma provider_decode_ok: "provider_decode d = Inr p \<Longrightarrow> provider_ok p"
  by (auto simp: provider_decode_def result_inv provider_ok_def read_keys_4)

lemma provider_decode_canonical:
  assumes "provider_decode d = Inr p"
  shows "provider_encode p = Inr d"
proof -
  obtain d' where d': "provider_encode p = Inr d'"
    using provider_encode_ok [OF provider_decode_ok [OF assms]] ..
  have "agree_on_cuts 0 [1,2,3,4,36,37,69,101,133,165] d' d"
    using assms d'
    by (clarsimp simp: provider_decode_def result_inv read_keys_4 layout seg_single)
  then have "d' = d" by (rule eq_by_cuts)
  with d' show ?thesis by simp
qed

lemma provider_decode_rejects:
  "length d \<noteq> PROVIDER_ACCOUNT_LEN \<Longrightarrow> provider_decode d = Inl InvalidAccountLength"
  "length d = PROVIDER_ACCOUNT_LEN \<Longrightarrow> d ! 0 \<noteq> PROVIDER_ACCOUNT_DISCRIMINATOR \<Longrightarrow>
     provider_decode d = Inl InvalidAccountDiscriminator"
  by (simp_all add: provider_decode_def)

interpretation provider: account_codec
  provider_encode provider_decode provider_ok PROVIDER_ACCOUNT_LEN PROVIDER_ACCOUNT_DISCRIMINATOR
proof unfold_locales
  show "d ! 0 = PROVIDER_ACCOUNT_DISCRIMINATOR" if "provider_ok x" "provider_encode x = Inr d" for x d
    using that by (auto simp: provider_ok_def provider_encode_eq_Inr length_4_conv layout)
qed (auto intro: length_provider_encode provider_decode_encode provider_decode_ok
      simp: provider_encode_ok provider_decode_rejects)

interpretation provider_canonical: canonical_codec provider_encode provider_decode provider_ok
  by unfold_locales (rule provider_decode_canonical)

section \<open>Provider bond\<close>

record ProviderBondAccount =
  bond_bump :: byte
  bond_provider :: bytes32
  bond_mint :: bytes32
  bond_token_program :: bytes32
  bond_deposited :: u64
  bond_locked :: u64

definition unlocked :: "ProviderBondAccount \<Rightarrow> ProtocolError + u64" where
  "unlocked b = ok_or (checked_sub (bond_deposited b) (bond_locked b)) MathOverflow"

definition bond_ok :: "ProviderBondAccount \<Rightarrow> bool" where
  "bond_ok b \<longleftrightarrow> bond_locked b \<le> bond_deposited b"

definition bond_encode :: "ProviderBondAccount \<Rightarrow> ProtocolError + bytes" where
  "bond_encode b =
     tryE (ensure (\<not> bond_locked b > bond_deposited b) InvalidAccountData) (\<lambda>_.
     Inr (let out = replicate PROVIDER_BOND_ACCOUNT_LEN 0;
              out = out[0 := PROVIDER_BOND_ACCOUNT_DISCRIMINATOR];
              out = out[1 := ACCOUNT_LAYOUT_VERSION];
              out = out[2 := bond_bump b];
              out = out[3 := 0];
              out = put 4 36 (to_bytes (bond_provider b)) out;
              out = put 36 68 (to_bytes (bond_mint b)) out;
              out = put 68 100 (to_bytes (bond_token_program b)) out;
              out = put 100 108 (le_bytes 8 (bond_deposited b)) out;
              out = put 108 116 (le_bytes 8 (bond_locked b)) out
          in out))"

definition bond_decode :: "bytes \<Rightarrow> ProtocolError + ProviderBondAccount" where
  "bond_decode data =
     tryE (require_len data PROVIDER_BOND_ACCOUNT_LEN) (\<lambda>_.
     tryE (ensure (data ! 0 = PROVIDER_BOND_ACCOUNT_DISCRIMINATOR) InvalidAccountDiscriminator) (\<lambda>_.
     tryE (ensure (data ! 1 = ACCOUNT_LAYOUT_VERSION) UnsupportedAccountVersion) (\<lambda>_.
     tryE (read_pubkey data 4) (\<lambda>provider.
     tryE (read_pubkey data 36) (\<lambda>mint.
     tryE (read_pubkey data 68) (\<lambda>token_program.
     tryE (read_u64 data 100) (\<lambda>deposited.
     tryE (read_u64 data 108) (\<lambda>locked.
     let account = \<lparr>bond_bump = data ! 2, bond_provider = provider, bond_mint = mint,
                    bond_token_program = token_program, bond_deposited = deposited,
                    bond_locked = locked\<rparr>
     in tryE (ensure (\<not> bond_locked account > bond_deposited account) InvalidAccountData) (\<lambda>_.
        Inr account)))))))))"

lemma bond_encode_ok: "bond_ok b \<Longrightarrow> \<exists>d. bond_encode b = Inr d"
  by (auto simp: bond_ok_def bond_encode_def Let_def not_less)

lemma bond_encode_Inr_ok: "bond_encode b = Inr d \<Longrightarrow> bond_ok b"
  by (auto simp: bond_ok_def bond_encode_def result_inv not_less)

lemma length_bond_encode: "bond_encode b = Inr d \<Longrightarrow> length d = PROVIDER_BOND_ACCOUNT_LEN"
  by (auto simp: bond_encode_def result_inv Let_def layout)

lemma bond_decode_encode: "bond_encode b = Inr d \<Longrightarrow> bond_decode d = Inr b"
  by (auto simp: bond_encode_def bond_decode_def result_inv Let_def layout)

lemma bond_decode_ok: "bond_decode d = Inr b \<Longrightarrow> bond_ok b"
  by (auto simp: bond_ok_def bond_decode_def result_inv Let_def not_less)

lemma bond_decode_rejects:
  "length d \<noteq> PROVIDER_BOND_ACCOUNT_LEN \<Longrightarrow> bond_decode d = Inl InvalidAccountLength"
  "length d = PROVIDER_BOND_ACCOUNT_LEN \<Longrightarrow> d ! 0 \<noteq> PROVIDER_BOND_ACCOUNT_DISCRIMINATOR \<Longrightarrow>
     bond_decode d = Inl InvalidAccountDiscriminator"
  by (simp_all add: bond_decode_def)

lemma unlocked_ok: "bond_ok b \<Longrightarrow> unlocked b = Inr (bond_deposited b - bond_locked b)"
  by (simp add: unlocked_def bond_ok_def checked_sub_def)

interpretation bond: account_codec
  bond_encode bond_decode bond_ok PROVIDER_BOND_ACCOUNT_LEN PROVIDER_BOND_ACCOUNT_DISCRIMINATOR
proof unfold_locales
  show "d ! 0 = PROVIDER_BOND_ACCOUNT_DISCRIMINATOR" if "bond_encode x = Inr d" for x d
    using that by (auto simp: bond_encode_def result_inv Let_def layout)
qed (auto intro: length_bond_encode bond_decode_encode bond_decode_ok
      simp: bond_encode_ok bond_decode_rejects)

section \<open>Job\<close>

record JobAccount =
  job_bump :: byte
  job_state :: JobState
  job_buyer :: bytes32
  job_provider :: bytes32
  job_mint :: bytes32
  job_token_program :: bytes32
  job_amount :: u64
  job_nonce :: u64
  job_fund_deadline :: i64
  job_accept_deadline :: i64
  job_work_deadline :: i64
  job_auto_settle_deadline :: i64
  job_receipt_digest :: bytes32
  job_request_hash :: bytes32
  job_locked_bond :: u64
  job_mint_decimals :: byte

definition job_encode :: "JobAccount \<Rightarrow> bytes" where
  "job_encode j =
     (let out = replicate JOB_ACCOUNT_LEN 0;
          out = out[0 := JOB_ACCOUNT_DISCRIMINATOR];
          out = out[1 := ACCOUNT_LAYOUT_VERSION];
          out = out[2 := job_bump j];
          out = out[3 := job_state_as_u8 (job_state j)];
          out = put 4 36 (to_bytes (job_buyer j)) out;
          out = put 36 68 (to_bytes (job_provider j)) out;
          out = put 68 100 (to_bytes (job_mint j)) out;
          out = put 100 132 (to_bytes (job_token_program j)) out;
          out = put 132 140 (le_bytes 8 (job_amount j)) out;
          out = put 140 148 (le_bytes 8 (job_nonce j)) out;
          out = put 148 156 (le_bytes 8 (job_fund_deadline j)) out;
          out = put 156 164 (le_bytes 8 (job_accept_deadline j)) out;
          out = put 164 172 (le_bytes 8 (job_work_deadline j)) out;
          out = put 172 180 (le_bytes 8 (job_auto_settle_deadline j)) out;
          out = put 180 212 (to_bytes (job_receipt_digest j)) out;
          out = put 212 244 (to_bytes (job_request_hash j)) out;
          out = put 244 252 (le_bytes 8 (job_locked_bond j)) out;
          out = out[252 := job_mint_decimals j]
      in out)"

definition job_decode :: "bytes \<Rightarrow> ProtocolError + JobAccount" where
  "job_decode data =
     tryE (require_len data JOB_ACCOUNT_LEN) (\<lambda>_.
     tryE (ensure (data ! 0 = JOB_ACCOUNT_DISCRIMINATOR) InvalidAccountDiscriminator) (\<lambda>_.
     tryE (ensure (data ! 1 = ACCOUNT_LAYOUT_VERSION) UnsupportedAccountVersion) (\<lambda>_.
     tryE (job_state_from_u8 (data ! 3)) (\<lambda>state.
     tryE (read_pubkey data 4) (\<lambda>buyer.
     tryE (read_pubkey data 36) (\<lambda>provider.
     tryE (read_pubkey data 68) (\<lambda>mint.
     tryE (read_pubkey data 100) (\<lambda>token_program.
     tryE (read_u64 data 132) (\<lambda>amount.
     tryE (read_u64 data 140) (\<lambda>nonce.
     tryE (read_i64 data 148) (\<lambda>fund_deadline.
     tryE (read_i64 data 156) (\<lambda>accept_deadline.
     tryE (read_i64 data 164) (\<lambda>work_deadline.
     tryE (read_i64 data 172) (\<lambda>auto_settle_deadline.
     tryE (read_pubkey data 180) (\<lambda>receipt_digest.
     tryE (read_pubkey data 212) (\<lambda>request_hash.
     tryE (read_u64 data 244) (\<lambda>locked_bond.
     Inr \<lparr>job_bump = data ! 2, job_state = state, job_buyer = buyer, job_provider = provider,
          job_mint = mint, job_token_program = token_program, job_amount = amount,
          job_nonce = nonce, job_fund_deadline = fund_deadline,
          job_accept_deadline = accept_deadline, job_work_deadline = work_deadline,
          job_auto_settle_deadline = auto_settle_deadline, job_receipt_digest = receipt_digest,
          job_request_hash = request_hash, job_locked_bond = locked_bond,
          job_mint_decimals = data ! 252\<rparr>)))))))))))))))))"

lemma length_job_encode [simp]: "length (job_encode j) = JOB_ACCOUNT_LEN"
  by (simp add: job_encode_def Let_def layout)

lemma job_decode_encode [simp]: "job_decode (job_encode j) = Inr j"
  by (simp add: job_encode_def job_decode_def Let_def layout job_state.from_as)

lemma job_decode_canonical: "job_decode d = Inr j \<Longrightarrow> job_encode j = d"
  by (rule eq_by_cuts
        [of "[1,2,3,4,36,68,100,132,140,148,156,164,172,180,212,244,252,253]"])
    (clarsimp simp: job_decode_def result_inv job_encode_def Let_def layout seg_single
      job_state.from_u8_eq_Inr)

lemma job_decode_rejects:
  "length d \<noteq> JOB_ACCOUNT_LEN \<Longrightarrow> job_decode d = Inl InvalidAccountLength"
  "length d = JOB_ACCOUNT_LEN \<Longrightarrow> d ! 0 \<noteq> JOB_ACCOUNT_DISCRIMINATOR \<Longrightarrow>
     job_decode d = Inl InvalidAccountDiscriminator"
  by (simp_all add: job_decode_def)

interpretation job: account_codec
  "\<lambda>j. Inr (job_encode j)" job_decode "\<lambda>_. True" JOB_ACCOUNT_LEN JOB_ACCOUNT_DISCRIMINATOR
proof unfold_locales
  show "d ! 0 = JOB_ACCOUNT_DISCRIMINATOR" if "Inr (job_encode x) = Inr d" for x d
    using that by (auto simp: job_encode_def Let_def layout)
qed (auto simp: job_decode_rejects)

interpretation job_canonical: canonical_codec "\<lambda>j. Inr (job_encode j)" job_decode "\<lambda>_. True"
  by unfold_locales (simp add: job_decode_canonical)

section \<open>Challenge\<close>

record ChallengeAccount =
  challenge_bump :: byte
  challenge_status :: byte
  challenge_job :: bytes32
  challenge_buyer :: bytes32
  challenge_reason_hash :: bytes32
  challenge_bond_amount :: u64
  challenge_deadline :: i64

abbreviation (input) STATUS_OPEN :: byte where "STATUS_OPEN \<equiv> 1"
abbreviation (input) STATUS_RESOLVED :: byte where "STATUS_RESOLVED \<equiv> 2"

definition challenge_ok :: "ChallengeAccount \<Rightarrow> bool" where
  "challenge_ok c \<longleftrightarrow>
     (challenge_status c = STATUS_OPEN \<or> challenge_status c = STATUS_RESOLVED) \<and>
     challenge_bond_amount c = 0"

definition challenge_encode :: "ChallengeAccount \<Rightarrow> ProtocolError + bytes" where
  "challenge_encode c =
     tryE (ensure (\<not> (challenge_status c \<noteq> STATUS_OPEN \<and> challenge_status c \<noteq> STATUS_RESOLVED))
             InvalidChallengeStatus) (\<lambda>_.
     tryE (ensure (\<not> challenge_bond_amount c \<noteq> 0) ChallengeBondMustBeZero) (\<lambda>_.
     Inr (let out = replicate CHALLENGE_ACCOUNT_LEN 0;
              out = out[0 := CHALLENGE_ACCOUNT_DISCRIMINATOR];
              out = out[1 := ACCOUNT_LAYOUT_VERSION];
              out = out[2 := challenge_bump c];
              out = out[3 := challenge_status c];
              out = put 4 36 (to_bytes (challenge_job c)) out;
              out = put 36 68 (to_bytes (challenge_buyer c)) out;
              out = put 68 100 (to_bytes (challenge_reason_hash c)) out;
              out = put 100 108 (le_bytes 8 (challenge_bond_amount c)) out;
              out = put 108 116 (le_bytes 8 (challenge_deadline c)) out
          in out)))"

definition challenge_decode :: "bytes \<Rightarrow> ProtocolError + ChallengeAccount" where
  "challenge_decode data =
     tryE (require_len data CHALLENGE_ACCOUNT_LEN) (\<lambda>_.
     tryE (ensure (data ! 0 = CHALLENGE_ACCOUNT_DISCRIMINATOR) InvalidAccountDiscriminator) (\<lambda>_.
     tryE (ensure (data ! 1 = ACCOUNT_LAYOUT_VERSION) UnsupportedAccountVersion) (\<lambda>_.
     tryE (ensure (\<not> (data ! 3 \<noteq> STATUS_OPEN \<and> data ! 3 \<noteq> STATUS_RESOLVED))
             InvalidChallengeStatus) (\<lambda>_.
     tryE (read_pubkey data 4) (\<lambda>job.
     tryE (read_pubkey data 36) (\<lambda>buyer.
     tryE (read_pubkey data 68) (\<lambda>reason_hash.
     tryE (read_u64 data 100) (\<lambda>bond_amount.
     tryE (read_i64 data 108) (\<lambda>deadline.
     let account = \<lparr>challenge_bump = data ! 2, challenge_status = data ! 3, challenge_job = job,
                    challenge_buyer = buyer, challenge_reason_hash = reason_hash,
                    challenge_bond_amount = bond_amount, challenge_deadline = deadline\<rparr>
     in tryE (ensure (\<not> challenge_bond_amount account \<noteq> 0) ChallengeBondMustBeZero) (\<lambda>_.
        Inr account))))))))))"

lemma challenge_encode_ok: "challenge_ok c \<Longrightarrow> \<exists>d. challenge_encode c = Inr d"
  by (auto simp: challenge_ok_def challenge_encode_def Let_def)

lemma challenge_encode_Inr_ok: "challenge_encode c = Inr d \<Longrightarrow> challenge_ok c"
  by (auto simp: challenge_ok_def challenge_encode_def result_inv)

lemma length_challenge_encode: "challenge_encode c = Inr d \<Longrightarrow> length d = CHALLENGE_ACCOUNT_LEN"
  by (auto simp: challenge_encode_def result_inv Let_def layout)

lemma challenge_decode_encode: "challenge_encode c = Inr d \<Longrightarrow> challenge_decode d = Inr c"
  by (auto simp: challenge_encode_def challenge_decode_def result_inv Let_def layout)

lemma challenge_decode_ok: "challenge_decode d = Inr c \<Longrightarrow> challenge_ok c"
  by (auto simp: challenge_ok_def challenge_decode_def result_inv Let_def)

lemma challenge_decode_rejects:
  "length d \<noteq> CHALLENGE_ACCOUNT_LEN \<Longrightarrow> challenge_decode d = Inl InvalidAccountLength"
  "length d = CHALLENGE_ACCOUNT_LEN \<Longrightarrow> d ! 0 \<noteq> CHALLENGE_ACCOUNT_DISCRIMINATOR \<Longrightarrow>
     challenge_decode d = Inl InvalidAccountDiscriminator"
  by (simp_all add: challenge_decode_def)

lemma challenge_decode_canonical:
  assumes "challenge_decode d = Inr c"
  shows "challenge_encode c = Inr d"
proof -
  obtain d' where d': "challenge_encode c = Inr d'"
    using challenge_encode_ok [OF challenge_decode_ok [OF assms]] ..
  have "length d = CHALLENGE_ACCOUNT_LEN"
    using assms challenge_decode_rejects(1) [of d] by auto
  then have amount: "le_bytes 8 (0 :: u64) = seg 100 108 d" if "from_le (seg 100 108 d) = (0 :: u64)"
    using that le_bytes_from_le [of 8 "seg 100 108 d", where ?'a = 64] by simp
  have "agree_on_cuts 0 [1,2,3,4,36,68,100,108,116] d' d"
    using assms d'
    by (clarsimp simp: challenge_decode_def challenge_encode_def Let_def result_inv layout seg_single
        amount)
  then have "d' = d" by (rule eq_by_cuts)
  with d' show ?thesis by simp
qed

interpretation challenge: account_codec
  challenge_encode challenge_decode challenge_ok CHALLENGE_ACCOUNT_LEN
  CHALLENGE_ACCOUNT_DISCRIMINATOR
proof unfold_locales
  show "d ! 0 = CHALLENGE_ACCOUNT_DISCRIMINATOR" if "challenge_encode x = Inr d" for x d
    using that by (auto simp: challenge_encode_def result_inv Let_def layout)
qed (auto intro: length_challenge_encode challenge_decode_encode challenge_decode_ok
      simp: challenge_encode_ok challenge_decode_rejects)

interpretation challenge_canonical: canonical_codec challenge_encode challenge_decode challenge_ok
  by unfold_locales (rule challenge_decode_canonical)

section \<open>The layouts\<close>

text \<open>
  The configuration account's decoder accepts exactly the encoder's output: every configuration survives the round trip and every
  other buffer is rejected.
\<close>

theorem config_layout_exact: "config_decode d = Inr c \<longleftrightarrow> config_encode c = d"
  using config_decode_encode config_decode_canonical by blast

text \<open>
  The provider account's decoder accepts exactly the encodings of well-formed providers (known status, at most four keys in the four slots), and
  the encoder refuses every other status and count.
\<close>

theorem provider_layout_exact:
  "provider_decode d = Inr p \<longleftrightarrow> length (provider_execution_keys p) = MAX_EXECUTION_KEYS \<and> provider_encode p = Inr d"
proof
  assume "provider_decode d = Inr p"
  with provider_decode_ok provider_decode_canonical
  show "length (provider_execution_keys p) = MAX_EXECUTION_KEYS \<and> provider_encode p = Inr d"
    by (auto simp: provider_ok_def)
next
  assume enc: "length (provider_execution_keys p) = MAX_EXECUTION_KEYS \<and> provider_encode p = Inr d"
  then have "provider_ok p" by (auto simp: provider_ok_def provider_encode_eq_Inr)
  with enc provider_decode_encode show "provider_decode d = Inr p" by blast
qed

text \<open>
  The bond account's encoder output is exactly what the decoder accepts with a zero reserved byte. The decoder does not look at
  that byte, so of all five layouts this one alone is read from more than one buffer.
\<close>

theorem bond_layout_exact: "bond_encode b = Inr d \<longleftrightarrow> bond_decode d = Inr b \<and> d ! 3 = 0"
proof
  assume "bond_encode b = Inr d"
  then show "bond_decode d = Inr b \<and> d ! 3 = 0"
    using bond_decode_encode by (auto simp: bond_encode_def result_inv Let_def layout)
next
  assume d: "bond_decode d = Inr b \<and> d ! 3 = 0"
  then obtain d' where d': "bond_encode b = Inr d'" using bond_encode_ok bond_decode_ok by blast
  have "agree_on_cuts 0 [1,2,3,4,36,68,100,108,116] d' d"
    using d d' by (clarsimp simp: bond_decode_def bond_encode_def Let_def result_inv layout seg_single)
  then have "d' = d" by (rule eq_by_cuts)
  with d' show "bond_encode b = Inr d" by simp
qed

text \<open>Every value of the reserved byte is accepted, and means the account that the zero byte means.\<close>

lemma bond_decode_reserved: "bond_decode (d[3 := x]) = bond_decode d"
proof (cases "length d = PROVIDER_BOND_ACCOUNT_LEN")
  case True
  then show ?thesis by (simp add: bond_decode_def read_pubkey_def read_u64_def get_range_def seg_update_after layout)
next
  case False
  then show ?thesis by (simp add: bond_decode_rejects(1))
qed

lemma bond_decode_any_reserved: "bond_decode d = Inr b \<longleftrightarrow> bond_encode b = Inr (d[3 := 0])"
proof
  assume d: "bond_decode d = Inr b"
  then have "length d = PROVIDER_BOND_ACCOUNT_LEN" by (simp add: bond_decode_def result_inv)
  then have "d[3 := 0] ! 3 = 0" by simp
  with d show "bond_encode b = Inr (d[3 := 0])" by (simp add: bond_layout_exact bond_decode_reserved)
next
  assume "bond_encode b = Inr (d[3 := 0])"
  then show "bond_decode d = Inr b" by (simp add: bond_layout_exact bond_decode_reserved)
qed

text \<open>
  The job account's decoder accepts exactly the encoder's output.
\<close>

theorem job_layout_exact: "job_decode d = Inr j \<longleftrightarrow> job_encode j = d"
  using job_decode_encode job_decode_canonical by blast

text \<open>
  The challenge account's decoder accepts exactly the encoder's output, and both refuse an unknown status and a challenge bond.
\<close>

theorem challenge_layout_exact: "challenge_decode d = Inr c \<longleftrightarrow> challenge_encode c = Inr d"
  using challenge_decode_encode challenge_decode_canonical by blast

end
