(* ===== verification/Receipt.thy ===== *)
theory Receipt
  imports Account_Codec
begin

text \<open>
  Signed work receipts, from \<^verbatim>\<open>crates/agentbond-types/src/receipt.rs\<close>: the 334-byte frozen
  layout an execution key signs, its validation, and the digest stored with the job. SHA-256
  comes from the \<open>sha2\<close> crate and is the argument \<open>sha256\<close> of \<open>receipt_digest\<close>.
\<close>

definition RECEIPT_DOMAIN :: bytes where
  "RECEIPT_DOMAIN = byte_string ''AGENTBOND_RECEIPT_V1''"

abbreviation (input) RECEIPT_VERSION_V1 :: u16 where "RECEIPT_VERSION_V1 \<equiv> 1"
abbreviation (input) RECEIPT_ENCODED_LEN :: nat where "RECEIPT_ENCODED_LEN \<equiv> 334"
abbreviation (input) RECEIPT_OFFSET_DOMAIN :: nat where "RECEIPT_OFFSET_DOMAIN \<equiv> 0"
abbreviation (input) RECEIPT_OFFSET_VERSION :: nat where "RECEIPT_OFFSET_VERSION \<equiv> 20"
abbreviation (input) RECEIPT_OFFSET_PROGRAM_ID :: nat where "RECEIPT_OFFSET_PROGRAM_ID \<equiv> 22"
abbreviation (input) RECEIPT_OFFSET_GENESIS_HASH :: nat where "RECEIPT_OFFSET_GENESIS_HASH \<equiv> 54"
abbreviation (input) RECEIPT_OFFSET_JOB :: nat where "RECEIPT_OFFSET_JOB \<equiv> 86"
abbreviation (input) RECEIPT_OFFSET_BUYER :: nat where "RECEIPT_OFFSET_BUYER \<equiv> 118"
abbreviation (input) RECEIPT_OFFSET_PROVIDER :: nat where "RECEIPT_OFFSET_PROVIDER \<equiv> 150"
abbreviation (input) RECEIPT_OFFSET_REQUEST_HASH :: nat where "RECEIPT_OFFSET_REQUEST_HASH \<equiv> 182"
abbreviation (input) RECEIPT_OFFSET_RESULT_HASH :: nat where "RECEIPT_OFFSET_RESULT_HASH \<equiv> 214"
abbreviation (input) RECEIPT_OFFSET_ARTIFACT_HASH :: nat where "RECEIPT_OFFSET_ARTIFACT_HASH \<equiv> 246"
abbreviation (input) RECEIPT_OFFSET_SOFTWARE_HASH :: nat where "RECEIPT_OFFSET_SOFTWARE_HASH \<equiv> 278"
abbreviation (input) RECEIPT_OFFSET_NONCE :: nat where "RECEIPT_OFFSET_NONCE \<equiv> 310"
abbreviation (input) RECEIPT_OFFSET_CREATED_AT :: nat where "RECEIPT_OFFSET_CREATED_AT \<equiv> 318"
abbreviation (input) RECEIPT_OFFSET_EXPIRES_AT :: nat where "RECEIPT_OFFSET_EXPIRES_AT \<equiv> 326"

record AgentBondWorkReceiptV1 =
  receipt_program_id :: bytes32
  receipt_genesis_hash :: bytes32
  receipt_job :: bytes32
  receipt_buyer :: bytes32
  receipt_provider :: bytes32
  receipt_request_hash :: bytes32
  receipt_result_hash :: bytes32
  receipt_artifact_hash :: bytes32
  receipt_software_hash :: bytes32
  receipt_job_nonce :: u64
  receipt_created_at :: i64
  receipt_expires_at :: i64

definition receipt_validate :: "AgentBondWorkReceiptV1 \<Rightarrow> ProtocolError + unit" where
  "receipt_validate r =
     (if receipt_expires_at r <s receipt_created_at r then Inl InvalidReceiptTimestamps
      else Inr ())"

definition receipt_encode :: "AgentBondWorkReceiptV1 \<Rightarrow> ProtocolError + bytes" where
  "receipt_encode r =
     tryE (receipt_validate r) (\<lambda>_.
     Inr (let out = replicate RECEIPT_ENCODED_LEN 0;
              out = put RECEIPT_OFFSET_DOMAIN RECEIPT_OFFSET_VERSION RECEIPT_DOMAIN out;
              out = put RECEIPT_OFFSET_VERSION RECEIPT_OFFSET_PROGRAM_ID
                      (le_bytes 2 RECEIPT_VERSION_V1) out;
              out = put RECEIPT_OFFSET_PROGRAM_ID RECEIPT_OFFSET_GENESIS_HASH
                      (to_bytes (receipt_program_id r)) out;
              out = put RECEIPT_OFFSET_GENESIS_HASH RECEIPT_OFFSET_JOB
                      (to_bytes (receipt_genesis_hash r)) out;
              out = put RECEIPT_OFFSET_JOB RECEIPT_OFFSET_BUYER (to_bytes (receipt_job r)) out;
              out = put RECEIPT_OFFSET_BUYER RECEIPT_OFFSET_PROVIDER (to_bytes (receipt_buyer r)) out;
              out = put RECEIPT_OFFSET_PROVIDER RECEIPT_OFFSET_REQUEST_HASH
                      (to_bytes (receipt_provider r)) out;
              out = put RECEIPT_OFFSET_REQUEST_HASH RECEIPT_OFFSET_RESULT_HASH
                      (to_bytes (receipt_request_hash r)) out;
              out = put RECEIPT_OFFSET_RESULT_HASH RECEIPT_OFFSET_ARTIFACT_HASH
                      (to_bytes (receipt_result_hash r)) out;
              out = put RECEIPT_OFFSET_ARTIFACT_HASH RECEIPT_OFFSET_SOFTWARE_HASH
                      (to_bytes (receipt_artifact_hash r)) out;
              out = put RECEIPT_OFFSET_SOFTWARE_HASH RECEIPT_OFFSET_NONCE
                      (to_bytes (receipt_software_hash r)) out;
              out = put RECEIPT_OFFSET_NONCE RECEIPT_OFFSET_CREATED_AT
                      (le_bytes 8 (receipt_job_nonce r)) out;
              out = put RECEIPT_OFFSET_CREATED_AT RECEIPT_OFFSET_EXPIRES_AT
                      (le_bytes 8 (receipt_created_at r)) out;
              out = put RECEIPT_OFFSET_EXPIRES_AT RECEIPT_ENCODED_LEN
                      (le_bytes 8 (receipt_expires_at r)) out
          in out))"

definition receipt_decode :: "bytes \<Rightarrow> ProtocolError + AgentBondWorkReceiptV1" where
  "receipt_decode data =
     tryE (ensure (length data = RECEIPT_ENCODED_LEN) InvalidReceiptLength) (\<lambda>_.
     tryE (ensure (seg RECEIPT_OFFSET_DOMAIN RECEIPT_OFFSET_VERSION data = RECEIPT_DOMAIN)
             InvalidReceiptDomain) (\<lambda>_.
     let version = from_le [data ! RECEIPT_OFFSET_VERSION, data ! (RECEIPT_OFFSET_VERSION + 1)]
     in tryE (ensure (version = RECEIPT_VERSION_V1) UnsupportedReceiptVersion) (\<lambda>_.
     let receipt = \<lparr>
           receipt_program_id =
             array32 (seg RECEIPT_OFFSET_PROGRAM_ID RECEIPT_OFFSET_GENESIS_HASH data),
           receipt_genesis_hash = array32 (seg RECEIPT_OFFSET_GENESIS_HASH RECEIPT_OFFSET_JOB data),
           receipt_job = array32 (seg RECEIPT_OFFSET_JOB RECEIPT_OFFSET_BUYER data),
           receipt_buyer = array32 (seg RECEIPT_OFFSET_BUYER RECEIPT_OFFSET_PROVIDER data),
           receipt_provider =
             array32 (seg RECEIPT_OFFSET_PROVIDER RECEIPT_OFFSET_REQUEST_HASH data),
           receipt_request_hash =
             array32 (seg RECEIPT_OFFSET_REQUEST_HASH RECEIPT_OFFSET_RESULT_HASH data),
           receipt_result_hash =
             array32 (seg RECEIPT_OFFSET_RESULT_HASH RECEIPT_OFFSET_ARTIFACT_HASH data),
           receipt_artifact_hash =
             array32 (seg RECEIPT_OFFSET_ARTIFACT_HASH RECEIPT_OFFSET_SOFTWARE_HASH data),
           receipt_software_hash =
             array32 (seg RECEIPT_OFFSET_SOFTWARE_HASH RECEIPT_OFFSET_NONCE data),
           receipt_job_nonce = from_le (seg RECEIPT_OFFSET_NONCE RECEIPT_OFFSET_CREATED_AT data),
           receipt_created_at =
             from_le (seg RECEIPT_OFFSET_CREATED_AT RECEIPT_OFFSET_EXPIRES_AT data),
           receipt_expires_at = from_le (seg RECEIPT_OFFSET_EXPIRES_AT RECEIPT_ENCODED_LEN data)\<rparr>
     in tryE (receipt_validate receipt) (\<lambda>_. Inr receipt))))"

definition receipt_digest :: "(bytes \<Rightarrow> bytes32) \<Rightarrow> AgentBondWorkReceiptV1 \<Rightarrow> ProtocolError + bytes32" where
  "receipt_digest sha256 r = tryE (receipt_encode r) (\<lambda>encoded. Inr (sha256 encoded))"

definition receipt_ok :: "AgentBondWorkReceiptV1 \<Rightarrow> bool" where
  "receipt_ok r \<longleftrightarrow> \<not> receipt_expires_at r <s receipt_created_at r"

lemma receipt_validate_eq_Inr [result_inv]: "receipt_validate r = Inr u \<longleftrightarrow> receipt_ok r"
  by (simp add: receipt_validate_def receipt_ok_def)

lemma receipt_validate_ok [simp]: "receipt_ok r \<Longrightarrow> receipt_validate r = Inr ()"
  by (simp add: receipt_validate_eq_Inr)

lemma length_RECEIPT_DOMAIN [simp]: "length RECEIPT_DOMAIN = 20"
  by (simp add: RECEIPT_DOMAIN_def)

lemma receipt_encode_ok: "receipt_ok r \<Longrightarrow> \<exists>d. receipt_encode r = Inr d"
  by (simp add: receipt_encode_def)

lemma receipt_encode_Inr_ok: "receipt_encode r = Inr d \<Longrightarrow> receipt_ok r"
  by (auto simp: receipt_encode_def result_inv)

lemma length_receipt_encode: "receipt_encode r = Inr d \<Longrightarrow> length d = RECEIPT_ENCODED_LEN"
  by (auto simp: receipt_encode_def result_inv Let_def layout)

text \<open>The two version bytes, read one by one in the decoder and written as a slice by the encoder.\<close>

lemma version_bytes:
  "length d = RECEIPT_ENCODED_LEN \<Longrightarrow> from_le [d ! 20, d ! 21] = (v :: u16) \<longleftrightarrow> seg 20 22 d = le_bytes 2 v"
proof -
  assume len: "length d = RECEIPT_ENCODED_LEN"
  have s: "seg 20 22 d = [d ! 20, d ! 21]"
    using len seg_append [of 20 21 22 d] by (simp add: seg_single)
  show ?thesis
  proof
    assume "from_le [d ! 20, d ! 21] = v"
    then show "seg 20 22 d = le_bytes 2 v"
      using le_bytes_from_le [of 2 "[d ! 20, d ! 21]", where ?'a = 16] s by auto
  next
    assume "seg 20 22 d = le_bytes 2 v"
    then have "from_le (seg 20 22 d) = v" by simp
    then show "from_le [d ! 20, d ! 21] = v" by (simp only: s)
  qed
qed

lemma receipt_decode_encode: "receipt_encode r = Inr d \<Longrightarrow> receipt_decode d = Inr r"
proof -
  assume enc: "receipt_encode r = Inr d"
  then have len: "length d = RECEIPT_ENCODED_LEN" by (rule length_receipt_encode)
  show ?thesis
    using enc
    by (auto simp: receipt_decode_def len version_bytes [OF len, simplified])
      (auto simp: receipt_encode_def result_inv Let_def layout receipt_ok_def receipt_validate_def)
qed

lemma receipt_decode_ok: "receipt_decode d = Inr r \<Longrightarrow> receipt_ok r"
  by (auto simp: receipt_decode_def result_inv Let_def)

lemma receipt_decode_canonical:
  assumes dec: "receipt_decode d = Inr r"
  shows "receipt_encode r = Inr d"
proof -
  obtain d' where d': "receipt_encode r = Inr d'"
    using receipt_encode_ok [OF receipt_decode_ok [OF dec]] ..
  have len: "length d = RECEIPT_ENCODED_LEN"
    using dec by (auto simp: receipt_decode_def result_inv)
  have "agree_on_cuts 0 [20,22,54,86,118,150,182,214,246,278,310,318,326,334] d' d"
    using dec d'
    by (clarsimp simp: receipt_decode_def receipt_encode_def Let_def result_inv layout len
        version_bytes [OF len, simplified])
  then have "d' = d" by (rule eq_by_cuts)
  with d' show ?thesis by simp
qed

text \<open>The bytes a key signs determine the receipt and the other way round: no two receipts share
  an encoding, and no receipt has two.\<close>

interpretation receipt: canonical_codec receipt_encode receipt_decode receipt_ok
  by unfold_locales
    (auto intro: receipt_encode_ok receipt_decode_encode receipt_decode_ok receipt_decode_canonical)

text \<open>
  Receipt bytes and receipts correspond one to one: the decoder accepts exactly the 334-byte encodings of valid receipts. So a signature over
  the bytes is a signature over one receipt, field by field.
\<close>

theorem receipt_decode_exact: "receipt_decode d = Inr r \<longleftrightarrow> receipt_encode r = Inr d"
  using receipt_decode_encode receipt_decode_canonical by blast

end
