(* ===== verification/Instruction_Codec.thy ===== *)
theory Instruction_Codec
  imports Receipt
begin

text \<open>
  Instruction data, from \<^verbatim>\<open>crates/agentbond-types/src/instruction.rs\<close>: nineteen kinds, each a
  one-byte discriminator and a payload of a fixed length, the parser the program's entry point
  calls, and the encoders the clients use. The kinds carry the suffix \<open>Kind\<close> to keep them apart
  from the constructors of \<open>Instruction\<close>.
\<close>

section \<open>Kinds\<close>

abbreviation (input) INSTRUCTION_DISCRIMINATOR_LEN :: nat where "INSTRUCTION_DISCRIMINATOR_LEN \<equiv> 1"
abbreviation (input) INITIALIZE_CONFIG_PAYLOAD_LEN :: nat where "INITIALIZE_CONFIG_PAYLOAD_LEN \<equiv> 113"
abbreviation (input) SET_PAUSED_PAYLOAD_LEN :: nat where "SET_PAUSED_PAYLOAD_LEN \<equiv> 1"
abbreviation (input) ADD_EXECUTION_KEY_PAYLOAD_LEN :: nat where "ADD_EXECUTION_KEY_PAYLOAD_LEN \<equiv> 32"
abbreviation (input) REVOKE_EXECUTION_KEY_PAYLOAD_LEN :: nat where
  "REVOKE_EXECUTION_KEY_PAYLOAD_LEN \<equiv> 32"
abbreviation (input) DEPOSIT_BOND_PAYLOAD_LEN :: nat where "DEPOSIT_BOND_PAYLOAD_LEN \<equiv> 8"
abbreviation (input) WITHDRAW_BOND_PAYLOAD_LEN :: nat where "WITHDRAW_BOND_PAYLOAD_LEN \<equiv> 8"
abbreviation (input) CREATE_JOB_PAYLOAD_LEN :: nat where "CREATE_JOB_PAYLOAD_LEN \<equiv> 80"
abbreviation (input) SUBMIT_RECEIPT_PAYLOAD_LEN :: nat where
  "SUBMIT_RECEIPT_PAYLOAD_LEN \<equiv> RECEIPT_ENCODED_LEN"
abbreviation (input) CHALLENGE_WORK_PAYLOAD_LEN :: nat where "CHALLENGE_WORK_PAYLOAD_LEN \<equiv> 32"

datatype InstructionKind =
    InitializeConfigKind
  | RegisterProviderKind
  | AddExecutionKeyKind
  | RevokeExecutionKeyKind
  | DepositBondKind
  | WithdrawBondKind
  | CreateJobKind
  | FundJobKind
  | AcceptJobKind
  | SubmitReceiptKind
  | AcceptWorkKind
  | ChallengeWorkKind
  | ResolveTimeoutSettleKind
  | ResolveTimeoutRefundKind
  | ExpireUnfundedKind
  | ExpireUnacceptedKind
  | SlashBondKind
  | CloseJobKind
  | SetPausedKind

primrec kind_as_u8 :: "InstructionKind \<Rightarrow> byte" where
  "kind_as_u8 InitializeConfigKind = 0"
| "kind_as_u8 RegisterProviderKind = 1"
| "kind_as_u8 AddExecutionKeyKind = 2"
| "kind_as_u8 RevokeExecutionKeyKind = 3"
| "kind_as_u8 DepositBondKind = 4"
| "kind_as_u8 WithdrawBondKind = 5"
| "kind_as_u8 CreateJobKind = 6"
| "kind_as_u8 FundJobKind = 7"
| "kind_as_u8 AcceptJobKind = 8"
| "kind_as_u8 SubmitReceiptKind = 9"
| "kind_as_u8 AcceptWorkKind = 10"
| "kind_as_u8 ChallengeWorkKind = 11"
| "kind_as_u8 ResolveTimeoutSettleKind = 12"
| "kind_as_u8 ResolveTimeoutRefundKind = 13"
| "kind_as_u8 ExpireUnfundedKind = 14"
| "kind_as_u8 ExpireUnacceptedKind = 15"
| "kind_as_u8 SlashBondKind = 16"
| "kind_as_u8 CloseJobKind = 17"
| "kind_as_u8 SetPausedKind = 18"

definition kind_from_u8 :: "byte \<Rightarrow> ProtocolError + InstructionKind" where
  "kind_from_u8 v =
     (if v = 0 then Inr InitializeConfigKind
      else if v = 1 then Inr RegisterProviderKind
      else if v = 2 then Inr AddExecutionKeyKind
      else if v = 3 then Inr RevokeExecutionKeyKind
      else if v = 4 then Inr DepositBondKind
      else if v = 5 then Inr WithdrawBondKind
      else if v = 6 then Inr CreateJobKind
      else if v = 7 then Inr FundJobKind
      else if v = 8 then Inr AcceptJobKind
      else if v = 9 then Inr SubmitReceiptKind
      else if v = 10 then Inr AcceptWorkKind
      else if v = 11 then Inr ChallengeWorkKind
      else if v = 12 then Inr ResolveTimeoutSettleKind
      else if v = 13 then Inr ResolveTimeoutRefundKind
      else if v = 14 then Inr ExpireUnfundedKind
      else if v = 15 then Inr ExpireUnacceptedKind
      else if v = 16 then Inr SlashBondKind
      else if v = 17 then Inr CloseJobKind
      else if v = 18 then Inr SetPausedKind
      else Inl UnknownInstruction)"

primrec expected_payload_len :: "InstructionKind \<Rightarrow> nat" where
  "expected_payload_len InitializeConfigKind = INITIALIZE_CONFIG_PAYLOAD_LEN"
| "expected_payload_len RegisterProviderKind = 0"
| "expected_payload_len AddExecutionKeyKind = ADD_EXECUTION_KEY_PAYLOAD_LEN"
| "expected_payload_len RevokeExecutionKeyKind = REVOKE_EXECUTION_KEY_PAYLOAD_LEN"
| "expected_payload_len DepositBondKind = DEPOSIT_BOND_PAYLOAD_LEN"
| "expected_payload_len WithdrawBondKind = WITHDRAW_BOND_PAYLOAD_LEN"
| "expected_payload_len CreateJobKind = CREATE_JOB_PAYLOAD_LEN"
| "expected_payload_len FundJobKind = 0"
| "expected_payload_len AcceptJobKind = 0"
| "expected_payload_len SubmitReceiptKind = SUBMIT_RECEIPT_PAYLOAD_LEN"
| "expected_payload_len AcceptWorkKind = 0"
| "expected_payload_len ChallengeWorkKind = CHALLENGE_WORK_PAYLOAD_LEN"
| "expected_payload_len ResolveTimeoutSettleKind = 0"
| "expected_payload_len ResolveTimeoutRefundKind = 0"
| "expected_payload_len ExpireUnfundedKind = 0"
| "expected_payload_len ExpireUnacceptedKind = 0"
| "expected_payload_len SlashBondKind = 0"
| "expected_payload_len CloseJobKind = 0"
| "expected_payload_len SetPausedKind = SET_PAUSED_PAYLOAD_LEN"

section \<open>Instructions and their payloads\<close>

record InitializeConfigPayload =
  icp_genesis_hash :: bytes32
  icp_allowed_mint :: bytes32
  icp_token_program :: bytes32
  icp_mint_decimals :: byte
  icp_min_provider_bond :: u64
  icp_challenge_duration_seconds :: i64

record CreateJobPayload =
  cjp_job_nonce :: u64
  cjp_amount :: u64
  cjp_request_hash :: bytes32
  cjp_fund_deadline :: i64
  cjp_accept_deadline :: i64
  cjp_work_deadline :: i64
  cjp_auto_settle_deadline :: i64

datatype Instruction =
    InitializeConfig InitializeConfigPayload
  | RegisterProvider
  | AddExecutionKey bytes32
  | RevokeExecutionKey bytes32
  | DepositBond u64
  | WithdrawBond u64
  | CreateJob CreateJobPayload
  | FundJob
  | AcceptJob
  | SubmitReceipt AgentBondWorkReceiptV1
  | AcceptWork
  | ChallengeWork bytes32
  | ResolveTimeoutSettle
  | ResolveTimeoutRefund
  | ExpireUnfunded
  | ExpireUnaccepted
  | SlashBond
  | CloseJob
  | SetPaused bool

primrec instruction_kind :: "Instruction \<Rightarrow> InstructionKind" where
  "instruction_kind (InitializeConfig x) = InitializeConfigKind"
| "instruction_kind RegisterProvider = RegisterProviderKind"
| "instruction_kind (AddExecutionKey x) = AddExecutionKeyKind"
| "instruction_kind (RevokeExecutionKey x) = RevokeExecutionKeyKind"
| "instruction_kind (DepositBond x) = DepositBondKind"
| "instruction_kind (WithdrawBond x) = WithdrawBondKind"
| "instruction_kind (CreateJob x) = CreateJobKind"
| "instruction_kind FundJob = FundJobKind"
| "instruction_kind AcceptJob = AcceptJobKind"
| "instruction_kind (SubmitReceipt x) = SubmitReceiptKind"
| "instruction_kind AcceptWork = AcceptWorkKind"
| "instruction_kind (ChallengeWork x) = ChallengeWorkKind"
| "instruction_kind ResolveTimeoutSettle = ResolveTimeoutSettleKind"
| "instruction_kind ResolveTimeoutRefund = ResolveTimeoutRefundKind"
| "instruction_kind ExpireUnfunded = ExpireUnfundedKind"
| "instruction_kind ExpireUnaccepted = ExpireUnacceptedKind"
| "instruction_kind SlashBond = SlashBondKind"
| "instruction_kind CloseJob = CloseJobKind"
| "instruction_kind (SetPaused x) = SetPausedKind"

section \<open>Parsing\<close>

text \<open>The readers of this module differ from the account readers in the error they return.\<close>

definition ix_read_pubkey :: "bytes \<Rightarrow> nat \<Rightarrow> ProtocolError + bytes32" where
  "ix_read_pubkey data offset =
     tryE (ok_or (get_range data offset (offset + 32)) InvalidInstructionData) (\<lambda>bs.
     Inr (array32 bs))"

definition ix_read_u64 :: "bytes \<Rightarrow> nat \<Rightarrow> ProtocolError + u64" where
  "ix_read_u64 data offset =
     tryE (ok_or (get_range data offset (offset + 8)) InvalidInstructionData) (\<lambda>bs.
     Inr (from_le bs))"

definition ix_read_i64 :: "bytes \<Rightarrow> nat \<Rightarrow> ProtocolError + i64" where
  "ix_read_i64 data offset =
     tryE (ok_or (get_range data offset (offset + 8)) InvalidInstructionData) (\<lambda>bs.
     Inr (from_le bs))"

definition ix_read_bool :: "byte \<Rightarrow> ProtocolError + bool" where
  "ix_read_bool b = (if b = 0 then Inr False else if b = 1 then Inr True else Inl InvalidBoolean)"

definition parse_payload :: "InstructionKind \<Rightarrow> bytes \<Rightarrow> ProtocolError + Instruction" where
  "parse_payload kind payload =
     (case kind of
        InitializeConfigKind \<Rightarrow>
          tryE (ix_read_pubkey payload 0) (\<lambda>genesis_hash.
          tryE (ix_read_pubkey payload 32) (\<lambda>allowed_mint.
          tryE (ix_read_pubkey payload 64) (\<lambda>token_program.
          tryE (ix_read_u64 payload 97) (\<lambda>min_provider_bond.
          tryE (ix_read_i64 payload 105) (\<lambda>challenge_duration_seconds.
          Inr (InitializeConfig \<lparr>icp_genesis_hash = genesis_hash, icp_allowed_mint = allowed_mint,
            icp_token_program = token_program, icp_mint_decimals = payload ! 96,
            icp_min_provider_bond = min_provider_bond,
            icp_challenge_duration_seconds = challenge_duration_seconds\<rparr>))))))
      | RegisterProviderKind \<Rightarrow> Inr RegisterProvider
      | AddExecutionKeyKind \<Rightarrow> tryE (ix_read_pubkey payload 0) (\<lambda>key. Inr (AddExecutionKey key))
      | RevokeExecutionKeyKind \<Rightarrow> tryE (ix_read_pubkey payload 0) (\<lambda>key. Inr (RevokeExecutionKey key))
      | DepositBondKind \<Rightarrow> tryE (ix_read_u64 payload 0) (\<lambda>amount. Inr (DepositBond amount))
      | WithdrawBondKind \<Rightarrow> tryE (ix_read_u64 payload 0) (\<lambda>amount. Inr (WithdrawBond amount))
      | CreateJobKind \<Rightarrow>
          tryE (ix_read_u64 payload 0) (\<lambda>job_nonce.
          tryE (ix_read_u64 payload 8) (\<lambda>amount.
          tryE (ix_read_pubkey payload 16) (\<lambda>request_hash.
          tryE (ix_read_i64 payload 48) (\<lambda>fund_deadline.
          tryE (ix_read_i64 payload 56) (\<lambda>accept_deadline.
          tryE (ix_read_i64 payload 64) (\<lambda>work_deadline.
          tryE (ix_read_i64 payload 72) (\<lambda>auto_settle_deadline.
          Inr (CreateJob \<lparr>cjp_job_nonce = job_nonce, cjp_amount = amount,
            cjp_request_hash = request_hash, cjp_fund_deadline = fund_deadline,
            cjp_accept_deadline = accept_deadline, cjp_work_deadline = work_deadline,
            cjp_auto_settle_deadline = auto_settle_deadline\<rparr>))))))))
      | FundJobKind \<Rightarrow> Inr FundJob
      | AcceptJobKind \<Rightarrow> Inr AcceptJob
      | SubmitReceiptKind \<Rightarrow> tryE (receipt_decode payload) (\<lambda>receipt. Inr (SubmitReceipt receipt))
      | AcceptWorkKind \<Rightarrow> Inr AcceptWork
      | ChallengeWorkKind \<Rightarrow> tryE (ix_read_pubkey payload 0) (\<lambda>reason_hash. Inr (ChallengeWork reason_hash))
      | ResolveTimeoutSettleKind \<Rightarrow> Inr ResolveTimeoutSettle
      | ResolveTimeoutRefundKind \<Rightarrow> Inr ResolveTimeoutRefund
      | ExpireUnfundedKind \<Rightarrow> Inr ExpireUnfunded
      | ExpireUnacceptedKind \<Rightarrow> Inr ExpireUnaccepted
      | SlashBondKind \<Rightarrow> Inr SlashBond
      | CloseJobKind \<Rightarrow> Inr CloseJob
      | SetPausedKind \<Rightarrow> tryE (ix_read_bool (payload ! 0)) (\<lambda>paused. Inr (SetPaused paused)))"

definition parse_instruction :: "bytes \<Rightarrow> ProtocolError + Instruction" where
  "parse_instruction data =
     tryE (ensure (data \<noteq> []) EmptyInstructionData) (\<lambda>_.
     tryE (kind_from_u8 (data ! 0)) (\<lambda>kind.
     let payload = drop INSTRUCTION_DISCRIMINATOR_LEN data
     in tryE (ensure (length payload = expected_payload_len kind) InvalidInstructionLength) (\<lambda>_.
        parse_payload kind payload)))"

section \<open>Encoding\<close>

definition encode_initialize_config :: "InitializeConfigPayload \<Rightarrow> bytes" where
  "encode_initialize_config p =
     (let out = replicate (1 + INITIALIZE_CONFIG_PAYLOAD_LEN) 0;
          out = out[0 := kind_as_u8 InitializeConfigKind];
          out = put 1 33 (to_bytes (icp_genesis_hash p)) out;
          out = put 33 65 (to_bytes (icp_allowed_mint p)) out;
          out = put 65 97 (to_bytes (icp_token_program p)) out;
          out = out[97 := icp_mint_decimals p];
          out = put 98 106 (le_bytes 8 (icp_min_provider_bond p)) out;
          out = put 106 114 (le_bytes 8 (icp_challenge_duration_seconds p)) out
      in out)"

definition encode_set_paused :: "bool \<Rightarrow> bytes" where
  "encode_set_paused paused = [kind_as_u8 SetPausedKind, if paused then 1 else 0]"

definition encode_add_execution_key :: "bytes32 \<Rightarrow> bytes" where
  "encode_add_execution_key key =
     (let out = replicate 33 0;
          out = out[0 := kind_as_u8 AddExecutionKeyKind];
          out = put 1 33 (to_bytes key) out
      in out)"

definition encode_revoke_execution_key :: "bytes32 \<Rightarrow> bytes" where
  "encode_revoke_execution_key key =
     (let out = replicate 33 0;
          out = out[0 := kind_as_u8 RevokeExecutionKeyKind];
          out = put 1 33 (to_bytes key) out
      in out)"

definition encode_deposit_bond :: "u64 \<Rightarrow> bytes" where
  "encode_deposit_bond amount =
     (let out = replicate 9 0;
          out = out[0 := kind_as_u8 DepositBondKind];
          out = put 1 9 (le_bytes 8 amount) out
      in out)"

definition encode_withdraw_bond :: "u64 \<Rightarrow> bytes" where
  "encode_withdraw_bond amount =
     (let out = replicate 9 0;
          out = out[0 := kind_as_u8 WithdrawBondKind];
          out = put 1 9 (le_bytes 8 amount) out
      in out)"

definition encode_create_job :: "CreateJobPayload \<Rightarrow> bytes" where
  "encode_create_job p =
     (let out = replicate (1 + CREATE_JOB_PAYLOAD_LEN) 0;
          out = out[0 := kind_as_u8 CreateJobKind];
          out = put 1 9 (le_bytes 8 (cjp_job_nonce p)) out;
          out = put 9 17 (le_bytes 8 (cjp_amount p)) out;
          out = put 17 49 (to_bytes (cjp_request_hash p)) out;
          out = put 49 57 (le_bytes 8 (cjp_fund_deadline p)) out;
          out = put 57 65 (le_bytes 8 (cjp_accept_deadline p)) out;
          out = put 65 73 (le_bytes 8 (cjp_work_deadline p)) out;
          out = put 73 81 (le_bytes 8 (cjp_auto_settle_deadline p)) out
      in out)"

definition encode_submit_receipt :: "AgentBondWorkReceiptV1 \<Rightarrow> ProtocolError + bytes" where
  "encode_submit_receipt receipt =
     (let out = replicate (1 + SUBMIT_RECEIPT_PAYLOAD_LEN) 0;
          out = out[0 := kind_as_u8 SubmitReceiptKind]
      in tryE (receipt_encode receipt) (\<lambda>encoded.
         Inr (put 1 (1 + SUBMIT_RECEIPT_PAYLOAD_LEN) encoded out)))"

definition encode_challenge_work :: "bytes32 \<Rightarrow> bytes" where
  "encode_challenge_work reason_hash =
     (let out = replicate 33 0;
          out = out[0 := kind_as_u8 ChallengeWorkKind];
          out = put 1 33 (to_bytes reason_hash) out
      in out)"

definition encode_empty :: "InstructionKind \<Rightarrow> ProtocolError + bytes" where
  "encode_empty kind =
     (if expected_payload_len kind \<noteq> 0 then Inl InvalidInstructionData
      else Inr [kind_as_u8 kind])"

text \<open>The encoder a client picks for an instruction.\<close>

primrec encode_instruction :: "Instruction \<Rightarrow> ProtocolError + bytes" where
  "encode_instruction (InitializeConfig p) = Inr (encode_initialize_config p)"
| "encode_instruction RegisterProvider = encode_empty RegisterProviderKind"
| "encode_instruction (AddExecutionKey key) = Inr (encode_add_execution_key key)"
| "encode_instruction (RevokeExecutionKey key) = Inr (encode_revoke_execution_key key)"
| "encode_instruction (DepositBond amount) = Inr (encode_deposit_bond amount)"
| "encode_instruction (WithdrawBond amount) = Inr (encode_withdraw_bond amount)"
| "encode_instruction (CreateJob p) = Inr (encode_create_job p)"
| "encode_instruction FundJob = encode_empty FundJobKind"
| "encode_instruction AcceptJob = encode_empty AcceptJobKind"
| "encode_instruction (SubmitReceipt r) = encode_submit_receipt r"
| "encode_instruction AcceptWork = encode_empty AcceptWorkKind"
| "encode_instruction (ChallengeWork reason_hash) = Inr (encode_challenge_work reason_hash)"
| "encode_instruction ResolveTimeoutSettle = encode_empty ResolveTimeoutSettleKind"
| "encode_instruction ResolveTimeoutRefund = encode_empty ResolveTimeoutRefundKind"
| "encode_instruction ExpireUnfunded = encode_empty ExpireUnfundedKind"
| "encode_instruction ExpireUnaccepted = encode_empty ExpireUnacceptedKind"
| "encode_instruction SlashBond = encode_empty SlashBondKind"
| "encode_instruction CloseJob = encode_empty CloseJobKind"
| "encode_instruction (SetPaused paused) = Inr (encode_set_paused paused)"

primrec instruction_ok :: "Instruction \<Rightarrow> bool" where
  "instruction_ok (InitializeConfig p) = True"
| "instruction_ok RegisterProvider = True"
| "instruction_ok (AddExecutionKey key) = True"
| "instruction_ok (RevokeExecutionKey key) = True"
| "instruction_ok (DepositBond amount) = True"
| "instruction_ok (WithdrawBond amount) = True"
| "instruction_ok (CreateJob p) = True"
| "instruction_ok FundJob = True"
| "instruction_ok AcceptJob = True"
| "instruction_ok (SubmitReceipt r) = receipt_ok r"
| "instruction_ok AcceptWork = True"
| "instruction_ok (ChallengeWork reason_hash) = True"
| "instruction_ok ResolveTimeoutSettle = True"
| "instruction_ok ResolveTimeoutRefund = True"
| "instruction_ok ExpireUnfunded = True"
| "instruction_ok ExpireUnaccepted = True"
| "instruction_ok SlashBond = True"
| "instruction_ok CloseJob = True"
| "instruction_ok (SetPaused paused) = True"

section \<open>The parser inverts the encoders\<close>

interpretation kind: byte_enum kind_as_u8 kind_from_u8 UnknownInstruction
proof unfold_locales
  show "kind_from_u8 (kind_as_u8 k) = Inr k" for k
    by (cases k) (simp_all add: kind_from_u8_def)
qed (auto simp: kind_from_u8_def split: if_splits)

lemma seg_drop [simp]: "seg a b (drop k xs) = seg (a + k) (b + k) xs"
  by (simp add: seg_def drop_take add.commute)

lemma drop_put_rest: "length xs = n \<Longrightarrow> a \<le> n \<Longrightarrow> n \<le> b \<Longrightarrow> drop a (put a b src xs) = src"
  by (simp add: put_def)

lemma ix_reads_in [simp]:
  "offset + 32 \<le> length data \<Longrightarrow>
     ix_read_pubkey data offset = Inr (array32 (seg offset (offset + 32) data))"
  "offset + 8 \<le> length data \<Longrightarrow>
     ix_read_u64 data offset = Inr (from_le (seg offset (offset + 8) data))"
  "offset + 8 \<le> length data \<Longrightarrow>
     ix_read_i64 data offset = Inr (from_le (seg offset (offset + 8) data))"
  by (simp_all add: ix_read_pubkey_def ix_read_u64_def ix_read_i64_def)

lemma ix_read_bool_eq_Inr [result_inv]: "ix_read_bool b = Inr v \<longleftrightarrow> b = (if v then 1 else 0)"
  by (cases v) (auto simp: ix_read_bool_def)

lemmas encoder_defs = encode_initialize_config_def encode_set_paused_def encode_add_execution_key_def
  encode_revoke_execution_key_def encode_deposit_bond_def encode_withdraw_bond_def
  encode_create_job_def encode_submit_receipt_def encode_challenge_work_def encode_empty_def

lemma parse_instruction_split:
  assumes "data ! 0 = kind_as_u8 kind" "length data = Suc (expected_payload_len kind)"
  shows "parse_instruction data = parse_payload kind (drop 1 data)"
proof -
  have "data \<noteq> []" using assms(2) by auto
  with assms show ?thesis by (simp add: parse_instruction_def kind.from_as)
qed

lemma encode_instruction_head:
  assumes "encode_instruction ins = Inr d"
  shows "d ! 0 = kind_as_u8 (instruction_kind ins)"
    and "length d = Suc (expected_payload_len (instruction_kind ins))"
  using assms
  by (cases ins; auto simp: encoder_defs Let_def layout result_inv length_receipt_encode)+

lemma encode_instruction_ok: "instruction_ok ins \<Longrightarrow> \<exists>d. encode_instruction ins = Inr d"
  by (cases ins) (auto simp: encoder_defs Let_def dest: receipt_encode_ok)

lemma parse_payload_encode:
  "encode_instruction ins = Inr d \<Longrightarrow> parse_payload (instruction_kind ins) (drop 1 d) = Inr ins"
  by (cases ins)
    (auto simp: encoder_defs Let_def layout result_inv parse_payload_def ix_read_bool_def
      drop_put_rest receipt_decode_encode split: if_splits)

lemma parse_encode: "encode_instruction ins = Inr d \<Longrightarrow> parse_instruction d = Inr ins"
  using parse_instruction_split [OF encode_instruction_head] parse_payload_encode by simp

lemma parse_instruction_eq_Inr:
  "parse_instruction d = Inr ins \<longleftrightarrow>
     (\<exists>kind. d \<noteq> [] \<and> d ! 0 = kind_as_u8 kind \<and> length d = Suc (expected_payload_len kind) \<and>
        parse_payload kind (drop 1 d) = Inr ins)"
  by (cases d) (auto simp: parse_instruction_def result_inv kind.from_u8_eq_Inr Let_def)

lemma parse_payload_kind:
  "length p = expected_payload_len kind \<Longrightarrow> parse_payload kind p = Inr ins \<Longrightarrow>
     instruction_kind ins = kind \<and> instruction_ok ins"
  by (cases kind) (auto simp: parse_payload_def result_inv receipt_decode_ok)

text \<open>Cut points of each payload, behind the discriminator.\<close>

primrec payload_cuts :: "InstructionKind \<Rightarrow> nat list" where
  "payload_cuts InitializeConfigKind = [1, 33, 65, 97, 98, 106, 114]"
| "payload_cuts RegisterProviderKind = [1]"
| "payload_cuts AddExecutionKeyKind = [1, 33]"
| "payload_cuts RevokeExecutionKeyKind = [1, 33]"
| "payload_cuts DepositBondKind = [1, 9]"
| "payload_cuts WithdrawBondKind = [1, 9]"
| "payload_cuts CreateJobKind = [1, 9, 17, 49, 57, 65, 73, 81]"
| "payload_cuts FundJobKind = [1]"
| "payload_cuts AcceptJobKind = [1]"
| "payload_cuts SubmitReceiptKind = [1, 335]"
| "payload_cuts AcceptWorkKind = [1]"
| "payload_cuts ChallengeWorkKind = [1, 33]"
| "payload_cuts ResolveTimeoutSettleKind = [1]"
| "payload_cuts ResolveTimeoutRefundKind = [1]"
| "payload_cuts ExpireUnfundedKind = [1]"
| "payload_cuts ExpireUnacceptedKind = [1]"
| "payload_cuts SlashBondKind = [1]"
| "payload_cuts CloseJobKind = [1]"
| "payload_cuts SetPausedKind = [1, 2]"

lemma seg_to_end: "length xs = n \<Longrightarrow> seg a n xs = drop a xs"
  by (simp add: seg_def)

lemma parse_canonical_cuts:
  assumes head: "d ! 0 = kind_as_u8 kind" "length d = Suc (expected_payload_len kind)"
    and pay: "parse_payload kind (drop 1 d) = Inr ins"
    and enc: "encode_instruction ins = Inr d'"
  shows "agree_on_cuts 0 (payload_cuts kind) d' d"
  using assms
  by (cases kind)
    (auto simp: parse_payload_def result_inv encoder_defs Let_def layout seg_single
      seg_to_end drop_put_rest dest!: receipt_decode_canonical)

lemma parse_canonical:
  assumes "parse_instruction d = Inr ins"
  shows "encode_instruction ins = Inr d"
proof -
  obtain kind where k: "d ! 0 = kind_as_u8 kind" "length d = Suc (expected_payload_len kind)"
    "parse_payload kind (drop 1 d) = Inr ins"
    using assms by (auto simp: parse_instruction_eq_Inr)
  then have "instruction_ok ins" by (auto dest!: parse_payload_kind [rotated])
  then obtain d' where d': "encode_instruction ins = Inr d'" using encode_instruction_ok by blast
  have "d' = d" by (rule eq_by_cuts [OF parse_canonical_cuts [OF k d']])
  with d' show ?thesis by simp
qed

lemma parse_ok: "parse_instruction d = Inr ins \<Longrightarrow> instruction_ok ins"
  by (auto simp: parse_instruction_eq_Inr dest!: parse_payload_kind [rotated])

interpretation instruction: canonical_codec encode_instruction parse_instruction instruction_ok
  by unfold_locales (auto intro: parse_encode parse_ok parse_canonical simp: encode_instruction_ok)

section \<open>Error branches of the parser\<close>

lemma parse_empty: "parse_instruction [] = Inl EmptyInstructionData"
  by (simp add: parse_instruction_def)

lemma parse_unknown:
  "d \<noteq> [] \<Longrightarrow> d ! 0 \<notin> range kind_as_u8 \<Longrightarrow> parse_instruction d = Inl UnknownInstruction"
  using kind.from_u8_rejects [of "d ! 0"] by (simp add: parse_instruction_def)

lemma parse_wrong_length:
  "d \<noteq> [] \<Longrightarrow> d ! 0 = kind_as_u8 kind \<Longrightarrow> length d \<noteq> Suc (expected_payload_len kind) \<Longrightarrow>
     parse_instruction d = Inl InvalidInstructionLength"
  by (cases d) (auto simp: parse_instruction_def kind.from_as Let_def)

section \<open>The wire format\<close>

text \<open>
  C18. Instruction data and instructions correspond one to one: \<open>parse_instruction\<close> accepts exactly the buffers the encoders
  produce, and reads back the instruction that was encoded. No instruction has two encodings and no buffer two readings.
\<close>

theorem parse_instruction_exact: "parse_instruction d = Inr i \<longleftrightarrow> encode_instruction i = Inr d"
  using parse_encode parse_canonical by blast

end
