(* ===== verification/Event_Codec.thy ===== *)
theory Event_Codec
  imports Account_Codec
begin

text \<open>
  Protocol events, from \<^verbatim>\<open>crates/agentbond-types/src/events.rs\<close>: the seventeen kinds, the event
  record, its 82-byte wire form, and the event kind of each terminal job state.
\<close>

abbreviation (input) EVENT_VERSION :: byte where "EVENT_VERSION \<equiv> 1"
abbreviation (input) EVENT_ENCODED_LEN :: nat where "EVENT_ENCODED_LEN \<equiv> 82"

datatype ProtocolEventKind =
    ConfigInitialized
  | PauseChanged
  | ProviderRegistered
  | ExecutionKeyAdded
  | ExecutionKeyRevoked
  | BondDeposited
  | BondWithdrawn
  | JobCreated
  | JobFunded
  | JobAccepted
  | ReceiptSubmitted
  | JobChallenged
  | JobSettled
  | JobRefunded
  | JobExpired
  | JobSlashed
  | JobClosed

primrec event_kind_as_u8 :: "ProtocolEventKind \<Rightarrow> byte" where
  "event_kind_as_u8 ConfigInitialized = 1"
| "event_kind_as_u8 PauseChanged = 2"
| "event_kind_as_u8 ProviderRegistered = 3"
| "event_kind_as_u8 ExecutionKeyAdded = 4"
| "event_kind_as_u8 ExecutionKeyRevoked = 5"
| "event_kind_as_u8 BondDeposited = 6"
| "event_kind_as_u8 BondWithdrawn = 7"
| "event_kind_as_u8 JobCreated = 8"
| "event_kind_as_u8 JobFunded = 9"
| "event_kind_as_u8 JobAccepted = 10"
| "event_kind_as_u8 ReceiptSubmitted = 11"
| "event_kind_as_u8 JobChallenged = 12"
| "event_kind_as_u8 JobSettled = 13"
| "event_kind_as_u8 JobRefunded = 14"
| "event_kind_as_u8 JobExpired = 15"
| "event_kind_as_u8 JobSlashed = 16"
| "event_kind_as_u8 JobClosed = 17"

definition event_kind_from_u8 :: "byte \<Rightarrow> ProtocolError + ProtocolEventKind" where
  "event_kind_from_u8 v =
     (if v = 1 then Inr ConfigInitialized
      else if v = 2 then Inr PauseChanged
      else if v = 3 then Inr ProviderRegistered
      else if v = 4 then Inr ExecutionKeyAdded
      else if v = 5 then Inr ExecutionKeyRevoked
      else if v = 6 then Inr BondDeposited
      else if v = 7 then Inr BondWithdrawn
      else if v = 8 then Inr JobCreated
      else if v = 9 then Inr JobFunded
      else if v = 10 then Inr JobAccepted
      else if v = 11 then Inr ReceiptSubmitted
      else if v = 12 then Inr JobChallenged
      else if v = 13 then Inr JobSettled
      else if v = 14 then Inr JobRefunded
      else if v = 15 then Inr JobExpired
      else if v = 16 then Inr JobSlashed
      else if v = 17 then Inr JobClosed
      else Inl InvalidAccountData)"

fun for_terminal_state :: "JobState \<Rightarrow> ProtocolEventKind option" where
  "for_terminal_state Settled = Some JobSettled"
| "for_terminal_state Refunded = Some JobRefunded"
| "for_terminal_state Expired = Some JobExpired"
| "for_terminal_state Slashed = Some JobSlashed"
| "for_terminal_state _ = None"

record ProtocolEvent =
  event_kind :: ProtocolEventKind
  event_subject :: bytes32
  event_actor :: bytes32
  event_amount :: u64
  event_timestamp :: i64

definition event_encode :: "ProtocolEvent \<Rightarrow> bytes" where
  "event_encode e =
     (let out = replicate EVENT_ENCODED_LEN 0;
          out = out[0 := EVENT_VERSION];
          out = out[1 := event_kind_as_u8 (event_kind e)];
          out = put 2 34 (to_bytes (event_subject e)) out;
          out = put 34 66 (to_bytes (event_actor e)) out;
          out = put 66 74 (le_bytes 8 (event_amount e)) out;
          out = put 74 82 (le_bytes 8 (event_timestamp e)) out
      in out)"

text \<open>After the length check no slice is out of range, so the reads are the plain segments.\<close>

definition event_decode :: "bytes \<Rightarrow> ProtocolError + ProtocolEvent" where
  "event_decode data =
     tryE (ensure (length data = EVENT_ENCODED_LEN) InvalidAccountLength) (\<lambda>_.
     tryE (ensure (data ! 0 = EVENT_VERSION) UnsupportedAccountVersion) (\<lambda>_.
     let subject = array32 (seg 2 34 data);
         actor = array32 (seg 34 66 data);
         amount = from_le (seg 66 74 data);
         timestamp = from_le (seg 74 82 data)
     in tryE (event_kind_from_u8 (data ! 1)) (\<lambda>kind.
        Inr \<lparr>event_kind = kind, event_subject = subject, event_actor = actor,
             event_amount = amount, event_timestamp = timestamp\<rparr>)))"

interpretation event_kind: byte_enum event_kind_as_u8 event_kind_from_u8 InvalidAccountData
proof unfold_locales
  show "event_kind_from_u8 (event_kind_as_u8 k) = Inr k" for k
    by (cases k) (simp_all add: event_kind_from_u8_def)
qed (auto simp: event_kind_from_u8_def split: if_splits)

lemma length_event_encode [simp]: "length (event_encode e) = EVENT_ENCODED_LEN"
  by (simp add: event_encode_def Let_def layout)

lemma event_decode_encode [simp]: "event_decode (event_encode e) = Inr e"
  by (simp add: event_encode_def event_decode_def Let_def layout event_kind.from_as)

lemma event_decode_canonical: "event_decode d = Inr e \<Longrightarrow> event_encode e = d"
  by (rule eq_by_cuts [of "[1,2,34,66,74,82]"])
    (clarsimp simp: event_decode_def result_inv event_encode_def Let_def layout seg_single
      event_kind.from_u8_eq_Inr)

interpretation event: canonical_codec "\<lambda>e. Inr (event_encode e)" event_decode "\<lambda>_. True"
  by unfold_locales (auto simp: event_decode_canonical)

lemma for_terminal_state_iff: "for_terminal_state s \<noteq> None \<longleftrightarrow> is_terminal s"
  by (cases s) simp_all

lemma for_terminal_state_inj:
  "for_terminal_state s = Some k \<Longrightarrow> for_terminal_state t = Some k \<Longrightarrow> s = t"
  by (cases s; cases t) auto

text \<open>
  Event records: the decoder accepts exactly the encoder's output, so a log line has one reading.
\<close>

theorem event_record_exact: "event_decode d = Inr e \<longleftrightarrow> event_encode e = d"
  using event_decode_encode event_decode_canonical by blast

end
