(* ===== verification/Pda_Seeds.thy ===== *)
theory Pda_Seeds
  imports Prelude
begin

text \<open>
  The seed lists program-derived addresses are computed from, from
  \<^verbatim>\<open>crates/agentbond-types/src/pda.rs\<close>.

  The runtime hashes the concatenation of the seeds, so two accounts can only be told apart if
  the concatenations differ. The lemmas at the end show that they do: with the bump byte added,
  the five seed lists have five different total lengths, and each determines its fields.
\<close>

definition CONFIG_SEED :: bytes where "CONFIG_SEED = byte_string ''config''"
definition PROVIDER_SEED :: bytes where "PROVIDER_SEED = byte_string ''provider''"
definition BOND_SEED :: bytes where "BOND_SEED = byte_string ''bond''"
definition JOB_SEED :: bytes where "JOB_SEED = byte_string ''job''"
definition CHALLENGE_SEED :: bytes where "CHALLENGE_SEED = byte_string ''challenge''"

definition job_nonce_le_bytes :: "u64 \<Rightarrow> bytes" where
  "job_nonce_le_bytes nonce = le_bytes 8 nonce"

definition config_seed_parts :: "bytes list" where
  "config_seed_parts = [CONFIG_SEED]"

definition provider_seed_parts :: "bytes32 \<Rightarrow> bytes list" where
  "provider_seed_parts authority = [PROVIDER_SEED, to_bytes authority]"

definition bond_seed_parts :: "bytes32 \<Rightarrow> bytes32 \<Rightarrow> bytes list" where
  "bond_seed_parts authority mint = [BOND_SEED, to_bytes authority, to_bytes mint]"

definition job_seed_parts :: "bytes32 \<Rightarrow> bytes32 \<Rightarrow> bytes \<Rightarrow> bytes list" where
  "job_seed_parts buyer provider nonce_le = [JOB_SEED, to_bytes buyer, to_bytes provider, nonce_le]"

definition challenge_seed_parts :: "bytes32 \<Rightarrow> bytes list" where
  "challenge_seed_parts job = [CHALLENGE_SEED, to_bytes job]"

lemma length_seeds [simp]:
  "length CONFIG_SEED = 6" "length PROVIDER_SEED = 8" "length BOND_SEED = 4"
  "length JOB_SEED = 3" "length CHALLENGE_SEED = 9"
  by (simp_all add: CONFIG_SEED_def PROVIDER_SEED_def BOND_SEED_def JOB_SEED_def CHALLENGE_SEED_def)

lemma length_job_nonce_le_bytes [simp]: "length (job_nonce_le_bytes n) = 8"
  by (simp add: job_nonce_le_bytes_def)

lemma job_nonce_le_bytes_eq_iff [simp]: "job_nonce_le_bytes m = job_nonce_le_bytes n \<longleftrightarrow> m = n"
proof
  assume "job_nonce_le_bytes m = job_nonce_le_bytes n"
  then have "(from_le (le_bytes 8 m) :: u64) = from_le (le_bytes 8 n)"
    by (simp only: job_nonce_le_bytes_def)
  then show "m = n" by simp
qed simp

section \<open>Domain separation\<close>

lemma provider_seeds_inj:
  "concat (provider_seed_parts a @ [[b]]) = concat (provider_seed_parts a' @ [[b']]) \<longleftrightarrow>
     a = a' \<and> b = b'"
  by (auto simp: provider_seed_parts_def bytes32_eq_iff)

lemma bond_seeds_inj:
  "concat (bond_seed_parts p m @ [[b]]) = concat (bond_seed_parts p' m' @ [[b']]) \<longleftrightarrow>
     p = p' \<and> m = m' \<and> b = b'"
  by (auto simp: bond_seed_parts_def bytes32_eq_iff)

lemma job_seeds_inj:
  "concat (job_seed_parts x p (job_nonce_le_bytes n) @ [[b]]) =
     concat (job_seed_parts x' p' (job_nonce_le_bytes n') @ [[b']]) \<longleftrightarrow>
     x = x' \<and> p = p' \<and> n = n' \<and> b = b'"
  by (auto simp: job_seed_parts_def bytes32_eq_iff)

lemma challenge_seeds_inj:
  "concat (challenge_seed_parts j @ [[b]]) = concat (challenge_seed_parts j' @ [[b']]) \<longleftrightarrow>
     j = j' \<and> b = b'"
  by (auto simp: challenge_seed_parts_def bytes32_eq_iff)

lemma length_concat_seeds:
  "length (concat (config_seed_parts @ [[b]])) = 7"
  "length (concat (provider_seed_parts a @ [[b]])) = 41"
  "length (concat (bond_seed_parts a m @ [[b]])) = 69"
  "length (concat (job_seed_parts x p (job_nonce_le_bytes n) @ [[b]])) = 76"
  "length (concat (challenge_seed_parts j @ [[b]])) = 42"
  by (simp_all add: config_seed_parts_def provider_seed_parts_def bond_seed_parts_def
      job_seed_parts_def challenge_seed_parts_def)

text \<open>
  Addresses are kept apart by their seeds: the bytes hashed for a program account, with its bump, determine which kind of account it is
  and every field it is derived from.
\<close>

theorem seeds_determine_the_account:
  "(concat (provider_seed_parts a @ [[x]]) = concat (provider_seed_parts a' @ [[y]]) \<longleftrightarrow> a = a' \<and> x = y) \<and>
   (concat (bond_seed_parts a m @ [[x]]) = concat (bond_seed_parts a' m' @ [[y]]) \<longleftrightarrow> a = a' \<and> m = m' \<and> x = y) \<and>
   (concat (job_seed_parts b p (job_nonce_le_bytes n) @ [[x]]) =
      concat (job_seed_parts b' p' (job_nonce_le_bytes n') @ [[y]]) \<longleftrightarrow> b = b' \<and> p = p' \<and> n = n' \<and> x = y) \<and>
   (concat (challenge_seed_parts j @ [[x]]) = concat (challenge_seed_parts j' @ [[y]]) \<longleftrightarrow> j = j' \<and> x = y) \<and>
   distinct [length (concat (config_seed_parts @ [[x]])), length (concat (provider_seed_parts a @ [[x]])),
     length (concat (bond_seed_parts a m @ [[x]])), length (concat (job_seed_parts b p (job_nonce_le_bytes n) @ [[x]])),
     length (concat (challenge_seed_parts j @ [[x]]))]"
  by (simp only: provider_seeds_inj bond_seeds_inj job_seeds_inj challenge_seeds_inj length_concat_seeds) simp

end
