(* ===== verification/Runtime.thy ===== *)
theory Runtime
  imports Instruction_Codec Event_Codec Pda_Seeds
begin

text \<open>
  What the program sees of the Solana runtime.

  \<^item> The ledger: an account is its lamports, its owner and its data (\<open>account\<close>); \<open>world\<close> maps
    every address to an account, keeps the data logs written so far and the clock's timestamp
    (\<open>None\<close> when the clock cannot be read). An \<open>AccountView\<close> is what an instruction is given: an
    address with its signer and writable flags. Two views of one address see the same account.
  \<^item> The library code the program calls is not part of the repository. It is the parameter
    \<open>runtime\<close>, one field per function: address derivation, the SPL token state readers, the
    cross-program invocations, closing an account, the Instructions sysvar and SHA-256.
  \<^item> What the program relies on of that code is stated as predicates on a \<open>runtime\<close>
    (\<open>pda_law\<close>, \<open>token_state_law\<close>, \<open>transfer_law\<close>, \<open>create_law\<close>, \<open>close_token_law\<close>,
    \<open>close_view_law\<close>), the documented behaviour of each function. They are hypotheses of the
    properties that need them.

  An instruction that fails is rolled back by the runtime, so a handler's result is either an
  error or the world after it.
\<close>

type_synonym address = bytes32

section \<open>Errors\<close>

text \<open>\<open>ProgramError\<close>: the program returns \<open>Custom\<close> and \<open>InvalidSeeds\<close> itself; any other variant
  reaches it from the library code only.\<close>

datatype ProgramError = Custom u32 | InvalidSeeds | LibraryError nat

section \<open>The ledger\<close>

record account =
  acct_lamports :: u64
  acct_owner :: address
  acct_data :: bytes

record world =
  w_accounts :: "address \<Rightarrow> account"
  w_logs :: "bytes list"
  w_clock :: "i64 option"

record AccountView =
  view_address :: address
  view_is_signer :: bool
  view_is_writable :: bool

abbreviation acct :: "world \<Rightarrow> AccountView \<Rightarrow> account" where
  "acct w v \<equiv> w_accounts w (view_address v)"

definition owned_by :: "AccountView \<Rightarrow> address \<Rightarrow> world \<Rightarrow> bool" where
  "owned_by v owner w \<longleftrightarrow> acct_owner (acct w v) = owner"

definition data_len :: "AccountView \<Rightarrow> world \<Rightarrow> nat" where
  "data_len v w = length (acct_data (acct w v))"

definition is_data_empty :: "AccountView \<Rightarrow> world \<Rightarrow> bool" where
  "is_data_empty v w \<longleftrightarrow> data_len v w = 0"

definition lamports :: "AccountView \<Rightarrow> world \<Rightarrow> u64" where
  "lamports v w = acct_lamports (acct w v)"

definition set_account :: "address \<Rightarrow> account \<Rightarrow> world \<Rightarrow> world" where
  "set_account a x w = w\<lparr>w_accounts := (w_accounts w)(a := x)\<rparr>"

definition set_lamports :: "AccountView \<Rightarrow> u64 \<Rightarrow> world \<Rightarrow> world" where
  "set_lamports v n w = set_account (view_address v) ((acct w v)\<lparr>acct_lamports := n\<rparr>) w"

definition set_data :: "AccountView \<Rightarrow> bytes \<Rightarrow> world \<Rightarrow> world" where
  "set_data v d w = set_account (view_address v) ((acct w v)\<lparr>acct_data := d\<rparr>) w"

section \<open>Library code\<close>

record token_state =
  token_mint :: address
  token_owner :: address
  token_amount_of :: u64
  token_is_frozen :: bool
  token_has_delegate :: bool

record mint_state =
  mint_is_initialized :: bool
  mint_decimals_of :: byte

record instructions_sysvar =
  ixs_current_index :: u16
  ixs_relative :: "int \<Rightarrow> (address \<times> bytes) option"

record runtime =
  system_program_id :: address
  token_program_id :: address
  create_program_address :: "bytes list \<Rightarrow> address \<Rightarrow> address option"
  try_find_program_address :: "bytes list \<Rightarrow> address \<Rightarrow> (address \<times> byte) option"
  mint_from_account :: "account \<Rightarrow> mint_state option"
  token_from_account :: "account \<Rightarrow> token_state option"
  minimum_balance :: "world \<Rightarrow> nat \<Rightarrow> u64 option"
  cpi_create_account ::
    "AccountView \<Rightarrow> AccountView \<Rightarrow> u64 \<Rightarrow> nat \<Rightarrow> address \<Rightarrow> bytes list \<Rightarrow> world \<Rightarrow> ProgramError + world"
  cpi_transfer_checked ::
    "AccountView \<Rightarrow> AccountView \<Rightarrow> AccountView \<Rightarrow> AccountView \<Rightarrow> u64 \<Rightarrow> byte \<Rightarrow> bytes list option \<Rightarrow>
       world \<Rightarrow> ProgramError + world"
  cpi_close_account ::
    "AccountView \<Rightarrow> AccountView \<Rightarrow> AccountView \<Rightarrow> bytes list \<Rightarrow> world \<Rightarrow> ProgramError + world"
  view_close :: "AccountView \<Rightarrow> world \<Rightarrow> ProgramError + world"
  instructions_from_view :: "AccountView \<Rightarrow> world \<Rightarrow> instructions_sysvar option"
  sha256 :: "bytes \<Rightarrow> bytes32"

abbreviation token_at :: "runtime \<Rightarrow> world \<Rightarrow> address \<Rightarrow> token_state option" where
  "token_at rt w a \<equiv> token_from_account rt (w_accounts w a)"

section \<open>Documented behaviour of the library code\<close>

text \<open>Two worlds that differ at most in the accounts at \<open>as\<close>.\<close>

definition same_except :: "address set \<Rightarrow> world \<Rightarrow> world \<Rightarrow> bool" where
  "same_except as w w' \<longleftrightarrow>
     (\<forall>a. a \<notin> as \<longrightarrow> w_accounts w' a = w_accounts w a) \<and>
     w_logs w' = w_logs w \<and> w_clock w' = w_clock w"

text \<open>A found address is the one the bump it comes with creates; addresses are hashes of the
  concatenated seeds and the program, taken to be free of collisions.\<close>

definition pda_law :: "runtime \<Rightarrow> bool" where
  "pda_law rt \<longleftrightarrow>
     (\<forall>seeds pid a bump. try_find_program_address rt seeds pid = Some (a, bump) \<longrightarrow>
        create_program_address rt (seeds @ [[bump]]) pid = Some a) \<and>
     (\<forall>seeds seeds' pid pid' a. create_program_address rt seeds pid = Some a \<longrightarrow>
        create_program_address rt seeds' pid' = Some a \<longrightarrow> concat seeds = concat seeds' \<and> pid = pid')"

text \<open>Reading a token account checks that the token program owns it; the state is read from the
  data.\<close>

definition token_state_law :: "runtime \<Rightarrow> bool" where
  "token_state_law rt \<longleftrightarrow>
     (\<forall>x t. token_from_account rt x = Some t \<longrightarrow> acct_owner x = token_program_id rt) \<and>
     (\<forall>x y. acct_owner x = acct_owner y \<longrightarrow> acct_data x = acct_data y \<longrightarrow>
        token_from_account rt x = token_from_account rt y)"

text \<open>A checked transfer between two token accounts of one mint moves exactly the amount and changes
  nothing else of them, but that a transfer by the source's delegate can use the delegation up; both belong to the
  token program before and after. A transfer from an account to itself leaves it alone.\<close>

definition transfer_law :: "runtime \<Rightarrow> bool" where
  "transfer_law rt \<longleftrightarrow>
     (\<forall>src mint dst auth amount decimals seeds w w'.
        cpi_transfer_checked rt src mint dst auth amount decimals seeds w = Inr w' \<longrightarrow>
        same_except {view_address src, view_address dst} w w' \<and>
        acct_owner (acct w' src) = token_program_id rt \<and>
        acct_owner (acct w' dst) = token_program_id rt \<and>
        (\<exists>s d. token_at rt w (view_address src) = Some s \<and> token_at rt w (view_address dst) = Some d \<and>
           token_mint s = token_mint d \<and> amount \<le> token_amount_of s \<and>
           (if view_address src = view_address dst then token_at rt w' (view_address src) = Some s
            else unat (token_amount_of d) + unat amount < 2 ^ 64 \<and>
                 (\<exists>del. (del \<longrightarrow> token_has_delegate s) \<and>
                    token_at rt w' (view_address src) =
                      Some (s\<lparr>token_amount_of := token_amount_of s - amount, token_has_delegate := del\<rparr>)) \<and>
                 token_at rt w' (view_address dst) =
                   Some (d\<lparr>token_amount_of := token_amount_of d + amount\<rparr>))))"

text \<open>Creating an account gives it the requested owner and zeroed data; of every other account at
  most the lamports (of the payer) change.\<close>

definition create_law :: "runtime \<Rightarrow> bool" where
  "create_law rt \<longleftrightarrow>
     (\<forall>payer v balance space owner seeds w w'.
        cpi_create_account rt payer v balance space owner seeds w = Inr w' \<longrightarrow>
        same_except {view_address payer, view_address v} w w' \<and>
        acct_owner (acct w' v) = owner \<and> acct_data (acct w' v) = replicate space 0 \<and>
        (\<forall>a. a \<noteq> view_address v \<longrightarrow>
           acct_owner (w_accounts w' a) = acct_owner (w_accounts w a) \<and>
           acct_data (w_accounts w' a) = acct_data (w_accounts w a)))"

text \<open>Closing a token account requires a token account with an empty balance, hands the account
  back to the system program and changes at most the lamports of the destination.\<close>

definition close_token_law :: "runtime \<Rightarrow> bool" where
  "close_token_law rt \<longleftrightarrow>
     (\<forall>v dst auth seeds w w'.
        cpi_close_account rt v dst auth seeds w = Inr w' \<longrightarrow>
        same_except {view_address v, view_address dst} w w' \<and>
        acct_owner (acct w v) = token_program_id rt \<and>
        acct_owner (acct w' v) = system_program_id rt \<and> acct_data (acct w' v) = [] \<and>
        (\<forall>a. a \<noteq> view_address v \<longrightarrow>
           acct_owner (w_accounts w' a) = acct_owner (w_accounts w a) \<and>
           acct_data (w_accounts w' a) = acct_data (w_accounts w a)))"

text \<open>Closing a view empties the account and hands it back to the system program.\<close>

definition close_view_law :: "runtime \<Rightarrow> bool" where
  "close_view_law rt \<longleftrightarrow>
     (\<forall>v w w'. view_close rt v w = Inr w' \<longrightarrow>
        same_except {view_address v} w w' \<and>
        acct_owner (acct w' v) = system_program_id rt \<and> acct_data (acct w' v) = [] \<and>
        acct_lamports (acct w' v) = 0)"

lemmas runtime_laws = pda_law_def token_state_law_def transfer_law_def create_law_def
  close_token_law_def close_view_law_def

section \<open>Reading back\<close>

lemma w_accounts_set_account [simp]:
  "w_accounts (set_account a x w) = (w_accounts w)(a := x)"
  by (simp add: set_account_def)

lemma set_account_frame [simp]:
  "w_logs (set_account a x w) = w_logs w" "w_clock (set_account a x w) = w_clock w"
  by (simp_all add: set_account_def)

lemma w_accounts_set_data:
  "w_accounts (set_data v d w) = (w_accounts w)(view_address v := (acct w v)\<lparr>acct_data := d\<rparr>)"
  by (simp add: set_data_def)

lemma w_accounts_set_lamports:
  "w_accounts (set_lamports v n w) =
     (w_accounts w)(view_address v := (acct w v)\<lparr>acct_lamports := n\<rparr>)"
  by (simp add: set_lamports_def)

lemma set_frame [simp]:
  "w_logs (set_data v d w) = w_logs w" "w_clock (set_data v d w) = w_clock w"
  "w_logs (set_lamports v n w) = w_logs w" "w_clock (set_lamports v n w) = w_clock w"
  by (simp_all add: set_data_def set_lamports_def)

lemma same_except_refl [simp]: "same_except as w w"
  by (simp add: same_except_def)

lemma same_except_mono: "same_except as w w' \<Longrightarrow> as \<subseteq> bs \<Longrightarrow> same_except bs w w'"
  by (auto simp: same_except_def)

lemma same_except_trans:
  "same_except as w w' \<Longrightarrow> same_except bs w' w'' \<Longrightarrow> same_except (as \<union> bs) w w''"
  by (auto simp: same_except_def)

lemma same_except_at: "same_except as w w' \<Longrightarrow> a \<notin> as \<Longrightarrow> w_accounts w' a = w_accounts w a"
  by (simp add: same_except_def)

lemma same_except_set_data: "same_except {view_address v} w (set_data v d w)"
  by (simp add: same_except_def w_accounts_set_data)

lemma same_except_set_lamports: "same_except {view_address v} w (set_lamports v n w)"
  by (simp add: same_except_def w_accounts_set_lamports)

end
