(* ===== verification/Program_Accounts.thy ===== *)
theory Program_Accounts
  imports Runtime
begin

text \<open>
  The account checks of \<^verbatim>\<open>programs/agentbond/src/accounts.rs\<close> with the error conversion
  (\<^verbatim>\<open>error.rs\<close>), the program ids (\<^verbatim>\<open>constants.rs\<close>), the address functions (\<^verbatim>\<open>pda.rs\<close>) and
  event emission (\<^verbatim>\<open>events.rs\<close>) they go with.
\<close>

section \<open>Errors\<close>

definition to_program_error :: "ProtocolError \<Rightarrow> ProgramError" where
  "to_program_error e = Custom (error_code e)"

definition from_protocol :: "ProtocolError \<Rightarrow> ProgramError" where
  "from_protocol e = to_program_error e"

definition fail :: "ProtocolError \<Rightarrow> ProgramError" where
  "fail e = from_protocol e"

lemma fail_eq_iff [simp]: "fail a = fail b \<longleftrightarrow> a = b"
  by (simp add: fail_def from_protocol_def to_program_error_def)

section \<open>Program ids\<close>

definition ED25519_PROGRAM_ID :: address where
  "ED25519_PROGRAM_ID = array32 [
    0x03, 0x7d, 0x46, 0xd6, 0x7c, 0x93, 0xfb, 0xbe, 0x12, 0xf9, 0x42, 0x8f, 0x83, 0x8d, 0x40, 0xff,
    0x05, 0x70, 0x74, 0x49, 0x27, 0xf4, 0x8a, 0x64, 0xfc, 0xca, 0x70, 0x44, 0x80, 0x00, 0x00, 0x00]"

definition ASSOCIATED_TOKEN_PROGRAM_ID :: address where
  "ASSOCIATED_TOKEN_PROGRAM_ID = array32 [
    0x8c, 0x97, 0x25, 0x8f, 0x4e, 0x24, 0x89, 0xf1, 0xbb, 0x3d, 0x10, 0x29, 0x14, 0x8e, 0x0d, 0x83,
    0x0b, 0x5a, 0x13, 0x99, 0xda, 0xff, 0x10, 0x84, 0x04, 0x8e, 0x7b, 0xd8, 0xdb, 0xe9, 0xf8, 0x59]"

definition TOKEN_2022_PROGRAM_ID :: address where
  "TOKEN_2022_PROGRAM_ID = array32 [
    0x06, 0xdd, 0xf6, 0xe1, 0xee, 0x75, 0x8f, 0xde, 0x18, 0x42, 0x5d, 0xbc, 0xe4, 0x6c, 0xcd, 0xda,
    0xb6, 0x1a, 0xfc, 0x4d, 0x83, 0xb9, 0x0d, 0x27, 0xfe, 0xbd, 0xf9, 0x28, 0xd8, 0xa1, 0x8b, 0xfc]"

abbreviation (input) ED25519_SIGNATURE_OFFSETS_START :: nat where
  "ED25519_SIGNATURE_OFFSETS_START \<equiv> 2"
abbreviation (input) ED25519_SIGNATURE_OFFSETS_SERIALIZED_SIZE :: nat where
  "ED25519_SIGNATURE_OFFSETS_SERIALIZED_SIZE \<equiv> 14"
abbreviation (input) ED25519_PUBKEY_SERIALIZED_SIZE :: nat where
  "ED25519_PUBKEY_SERIALIZED_SIZE \<equiv> 32"
abbreviation (input) ED25519_SIGNATURE_SERIALIZED_SIZE :: nat where
  "ED25519_SIGNATURE_SERIALIZED_SIZE \<equiv> 64"
abbreviation (input) ED25519_CURRENT_INSTRUCTION_INDEX :: u16 where
  "ED25519_CURRENT_INSTRUCTION_INDEX \<equiv> 0xffff"

section \<open>Addresses\<close>

definition config_address :: "runtime \<Rightarrow> address \<Rightarrow> ProgramError + (address \<times> byte)" where
  "config_address rt program_id =
     ok_or (try_find_program_address rt config_seed_parts program_id) InvalidSeeds"

definition provider_address :: "runtime \<Rightarrow> address \<Rightarrow> bytes32 \<Rightarrow> ProgramError + (address \<times> byte)" where
  "provider_address rt program_id authority =
     ok_or (try_find_program_address rt (provider_seed_parts authority) program_id) InvalidSeeds"

definition bond_address ::
    "runtime \<Rightarrow> address \<Rightarrow> bytes32 \<Rightarrow> bytes32 \<Rightarrow> ProgramError + (address \<times> byte)" where
  "bond_address rt program_id authority mint =
     ok_or (try_find_program_address rt (bond_seed_parts authority mint) program_id) InvalidSeeds"

definition job_address ::
    "runtime \<Rightarrow> address \<Rightarrow> bytes32 \<Rightarrow> bytes32 \<Rightarrow> u64 \<Rightarrow> ProgramError + (address \<times> byte)" where
  "job_address rt program_id buyer provider nonce =
     ok_or (try_find_program_address rt
       (job_seed_parts buyer provider (job_nonce_le_bytes nonce)) program_id) InvalidSeeds"

definition challenge_address :: "runtime \<Rightarrow> address \<Rightarrow> bytes32 \<Rightarrow> ProgramError + (address \<times> byte)" where
  "challenge_address rt program_id job =
     ok_or (try_find_program_address rt (challenge_seed_parts job) program_id) InvalidSeeds"

section \<open>Account checks\<close>

definition require_signer :: "AccountView \<Rightarrow> ProgramError + unit" where
  "require_signer v = ensure (view_is_signer v) (fail MissingSignature)"

definition require_writable :: "AccountView \<Rightarrow> ProgramError + unit" where
  "require_writable v = ensure (view_is_writable v) (fail AccountNotWritable)"

definition require_readonly :: "AccountView \<Rightarrow> ProgramError + unit" where
  "require_readonly v = ensure (\<not> view_is_writable v) (fail InvalidConfig)"

definition require_system_program :: "runtime \<Rightarrow> AccountView \<Rightarrow> ProgramError + unit" where
  "require_system_program rt v = ensure (view_address v = system_program_id rt) (fail InvalidOwner)"

text \<open>An address and a \<open>[u8; 32]\<close> are one type here.\<close>

definition address_from_bytes :: "bytes32 \<Rightarrow> address" where
  [simp]: "address_from_bytes bs = bs"

definition pubkey_eq :: "AccountView \<Rightarrow> bytes32 \<Rightarrow> bool" where
  "pubkey_eq v expected \<longleftrightarrow> view_address v = expected"

definition require_keys_eq :: "address \<Rightarrow> bytes32 \<Rightarrow> ProtocolError \<Rightarrow> ProgramError + unit" where
  "require_keys_eq actual expected e = ensure (actual = expected) (fail e)"

definition require_account_key :: "AccountView \<Rightarrow> address \<Rightarrow> ProtocolError \<Rightarrow> ProgramError + unit" where
  "require_account_key v expected e = ensure (view_address v = expected) (fail e)"

definition require_owner :: "AccountView \<Rightarrow> address \<Rightarrow> world \<Rightarrow> ProgramError + unit" where
  "require_owner v owner w = ensure (owned_by v owner w) (fail InvalidOwner)"

definition require_uninitialized :: "runtime \<Rightarrow> AccountView \<Rightarrow> world \<Rightarrow> ProgramError + unit" where
  "require_uninitialized rt v w =
     ensure (\<not> (\<not> owned_by v (system_program_id rt) w \<or> \<not> is_data_empty v w))
       (fail AlreadyInitialized)"

definition create_pda_account ::
    "runtime \<Rightarrow> AccountView \<Rightarrow> AccountView \<Rightarrow> address \<Rightarrow> nat \<Rightarrow> bytes list \<Rightarrow> world \<Rightarrow>
       ProgramError + world" where
  "create_pda_account rt payer v program_id space signer_seeds w =
     tryE (require_writable v) (\<lambda>_.
     tryE (require_uninitialized rt v w) (\<lambda>_.
     tryE (ok_or (minimum_balance rt w space) (fail InvalidAccountData)) (\<lambda>balance.
     cpi_create_account rt payer v balance space program_id signer_seeds w)))"

definition write_account_data :: "AccountView \<Rightarrow> bytes \<Rightarrow> world \<Rightarrow> ProgramError + world" where
  "write_account_data v d w =
     tryE (require_writable v) (\<lambda>_.
     tryE (ensure (data_len v w = length d) (fail InvalidAccountLength)) (\<lambda>_.
     Inr (set_data v d w)))"

definition close_pda_account ::
    "runtime \<Rightarrow> AccountView \<Rightarrow> AccountView \<Rightarrow> world \<Rightarrow> ProgramError + world" where
  "close_pda_account rt v recipient w =
     tryE (require_writable v) (\<lambda>_.
     tryE (require_writable recipient) (\<lambda>_.
     tryE (ok_or (checked_add (lamports recipient w) (lamports v w)) (fail MathOverflow))
       (\<lambda>recipient_lamports.
     let w = set_lamports recipient recipient_lamports w;
         w = set_lamports v 0 w;
         w = set_data v (replicate (data_len v w) 0) w
     in view_close rt v w)))"

section \<open>Stored bumps\<close>

definition validate_config_pda ::
    "runtime \<Rightarrow> address \<Rightarrow> AccountView \<Rightarrow> byte \<Rightarrow> world \<Rightarrow> ProgramError + unit" where
  "validate_config_pda rt program_id v bump w =
     tryE (ok_or (create_program_address rt [CONFIG_SEED, [bump]] program_id) (fail InvalidPda))
       (\<lambda>expected.
     tryE (require_account_key v expected InvalidPda) (\<lambda>_.
     require_owner v program_id w))"

definition validate_provider_pda ::
    "runtime \<Rightarrow> address \<Rightarrow> AccountView \<Rightarrow> bytes32 \<Rightarrow> byte \<Rightarrow> world \<Rightarrow> ProgramError + unit" where
  "validate_provider_pda rt program_id v authority bump w =
     (let parts = provider_seed_parts authority
      in tryE (ok_or (create_program_address rt [parts ! 0, parts ! 1, [bump]] program_id)
             (fail InvalidPda)) (\<lambda>expected.
         tryE (require_account_key v expected InvalidPda) (\<lambda>_.
         require_owner v program_id w)))"

definition validate_bond_pda ::
    "runtime \<Rightarrow> address \<Rightarrow> AccountView \<Rightarrow> bytes32 \<Rightarrow> bytes32 \<Rightarrow> byte \<Rightarrow> world \<Rightarrow> ProgramError + unit" where
  "validate_bond_pda rt program_id v authority mint bump w =
     (let parts = bond_seed_parts authority mint
      in tryE (ok_or (create_program_address rt [parts ! 0, parts ! 1, parts ! 2, [bump]] program_id)
             (fail InvalidPda)) (\<lambda>expected.
         tryE (require_account_key v expected InvalidPda) (\<lambda>_.
         require_owner v program_id w)))"

definition validate_job_pda ::
    "runtime \<Rightarrow> address \<Rightarrow> AccountView \<Rightarrow> bytes32 \<Rightarrow> bytes32 \<Rightarrow> u64 \<Rightarrow> byte \<Rightarrow> world \<Rightarrow>
       ProgramError + unit" where
  "validate_job_pda rt program_id v buyer provider nonce bump w =
     (let parts = job_seed_parts buyer provider (job_nonce_le_bytes nonce)
      in tryE (ok_or (create_program_address rt [parts ! 0, parts ! 1, parts ! 2, parts ! 3, [bump]]
             program_id) (fail InvalidPda)) (\<lambda>expected.
         tryE (require_account_key v expected InvalidPda) (\<lambda>_.
         require_owner v program_id w)))"

definition validate_challenge_pda ::
    "runtime \<Rightarrow> address \<Rightarrow> AccountView \<Rightarrow> bytes32 \<Rightarrow> byte \<Rightarrow> world \<Rightarrow> ProgramError + unit" where
  "validate_challenge_pda rt program_id v job bump w =
     (let parts = challenge_seed_parts job
      in tryE (ok_or (create_program_address rt [parts ! 0, parts ! 1, [bump]] program_id)
             (fail InvalidPda)) (\<lambda>expected.
         tryE (require_account_key v expected InvalidPda) (\<lambda>_.
         require_owner v program_id w)))"

definition provider_signer_seeds :: "bytes32 \<Rightarrow> byte \<Rightarrow> bytes list" where
  "provider_signer_seeds authority bump = [PROVIDER_SEED, to_bytes authority, [bump]]"

definition bond_signer_seeds :: "bytes32 \<Rightarrow> bytes32 \<Rightarrow> byte \<Rightarrow> bytes list" where
  "bond_signer_seeds authority mint bump = [BOND_SEED, to_bytes authority, to_bytes mint, [bump]]"

definition job_signer_seeds :: "bytes32 \<Rightarrow> bytes32 \<Rightarrow> bytes \<Rightarrow> byte \<Rightarrow> bytes list" where
  "job_signer_seeds buyer provider nonce_le bump =
     [JOB_SEED, to_bytes buyer, to_bytes provider, nonce_le, [bump]]"

definition challenge_signer_seeds :: "bytes32 \<Rightarrow> byte \<Rightarrow> bytes list" where
  "challenge_signer_seeds job bump = [CHALLENGE_SEED, to_bytes job, [bump]]"

section \<open>Events\<close>

text \<open>On the chain an event is one data log; \<open>emit\<close> cannot fail.\<close>

definition emit ::
    "ProtocolEventKind \<Rightarrow> address \<Rightarrow> address \<Rightarrow> u64 \<Rightarrow> i64 \<Rightarrow> world \<Rightarrow> ProgramError + world" where
  "emit kind subject actor amount timestamp w =
     (let event = \<lparr>event_kind = kind, event_subject = subject, event_actor = actor,
                   event_amount = amount, event_timestamp = timestamp\<rparr>
      in Inr (w\<lparr>w_logs := w_logs w @ [event_encode event]\<rparr>))"

section \<open>Inversion\<close>

lemma require_eq_Inr [result_inv]:
  "require_signer v = Inr u \<longleftrightarrow> view_is_signer v"
  "require_writable v = Inr u \<longleftrightarrow> view_is_writable v"
  "require_readonly v = Inr u \<longleftrightarrow> \<not> view_is_writable v"
  "require_system_program rt v = Inr u \<longleftrightarrow> view_address v = system_program_id rt"
  "require_keys_eq x y e = Inr u \<longleftrightarrow> x = y"
  "require_account_key v y e = Inr u \<longleftrightarrow> view_address v = y"
  "require_owner v y w = Inr u \<longleftrightarrow> owned_by v y w"
  "require_uninitialized rt v w = Inr u \<longleftrightarrow> owned_by v (system_program_id rt) w \<and> is_data_empty v w"
  by (auto simp: require_signer_def require_writable_def require_readonly_def
      require_system_program_def require_keys_eq_def require_account_key_def require_owner_def
      require_uninitialized_def result_inv)

lemma emit_eq_Inr [result_inv]:
  "emit kind subject actor amount timestamp w = Inr w' \<longleftrightarrow>
     w' = w\<lparr>w_logs := w_logs w @ [event_encode \<lparr>event_kind = kind, event_subject = subject,
       event_actor = actor, event_amount = amount, event_timestamp = timestamp\<rparr>]\<rparr>"
  by (auto simp: emit_def)

lemma write_account_data_eq_Inr [result_inv]:
  "write_account_data v d w = Inr w' \<longleftrightarrow>
     view_is_writable v \<and> data_len v w = length d \<and> w' = set_data v d w"
  by (auto simp: write_account_data_def result_inv)

lemma create_pda_account_eq_Inr [result_inv]:
  "create_pda_account rt payer v program_id space seeds w = Inr w' \<longleftrightarrow>
     view_is_writable v \<and> owned_by v (system_program_id rt) w \<and> is_data_empty v w \<and>
     (\<exists>balance. minimum_balance rt w space = Some balance \<and>
        cpi_create_account rt payer v balance space program_id seeds w = Inr w')"
  by (auto simp: create_pda_account_def result_inv)

text \<open>Where an account has to lie for its stored bump to be accepted.\<close>

lemma validate_pda_eq_Inr [result_inv]:
  "validate_config_pda rt pid v bump w = Inr u \<longleftrightarrow>
     create_program_address rt (config_seed_parts @ [[bump]]) pid = Some (view_address v) \<and>
     owned_by v pid w"
  "validate_provider_pda rt pid v a bump w = Inr u \<longleftrightarrow>
     create_program_address rt (provider_seed_parts a @ [[bump]]) pid = Some (view_address v) \<and>
     owned_by v pid w"
  "validate_bond_pda rt pid v a m bump w = Inr u \<longleftrightarrow>
     create_program_address rt (bond_seed_parts a m @ [[bump]]) pid = Some (view_address v) \<and>
     owned_by v pid w"
  "validate_job_pda rt pid v x p n bump w = Inr u \<longleftrightarrow>
     create_program_address rt (job_seed_parts x p (job_nonce_le_bytes n) @ [[bump]]) pid =
       Some (view_address v) \<and> owned_by v pid w"
  "validate_challenge_pda rt pid v j bump w = Inr u \<longleftrightarrow>
     create_program_address rt (challenge_seed_parts j @ [[bump]]) pid = Some (view_address v) \<and>
     owned_by v pid w"
  by (auto simp: validate_config_pda_def validate_provider_pda_def validate_bond_pda_def
      validate_job_pda_def validate_challenge_pda_def config_seed_parts_def provider_seed_parts_def
      bond_seed_parts_def job_seed_parts_def challenge_seed_parts_def result_inv Let_def)

text \<open>The signer seeds of a program account are its seed parts and its bump.\<close>

lemma signer_seeds:
  "provider_signer_seeds a bump = provider_seed_parts a @ [[bump]]"
  "bond_signer_seeds a m bump = bond_seed_parts a m @ [[bump]]"
  "job_signer_seeds x p n bump = job_seed_parts x p n @ [[bump]]"
  "challenge_signer_seeds j bump = challenge_seed_parts j @ [[bump]]"
  by (simp_all add: provider_signer_seeds_def bond_signer_seeds_def job_signer_seeds_def
      challenge_signer_seeds_def provider_seed_parts_def bond_seed_parts_def job_seed_parts_def
      challenge_seed_parts_def)

end
