(* ===== verification/Program_Token.thy ===== *)
theory Program_Token
  imports Program_Accounts
begin

text \<open>
  The token checks and token movements of \<^verbatim>\<open>programs/agentbond/src/token.rs\<close>. Reading the state
  of a mint or token account and the two invocations of the token program are library code
  (fields of \<open>runtime\<close>); everything the program checks around them is here.
\<close>

definition require_legacy_token_program :: "runtime \<Rightarrow> AccountView \<Rightarrow> ProgramError + unit" where
  "require_legacy_token_program rt token_program =
     tryE (ensure (view_address token_program \<noteq> TOKEN_2022_PROGRAM_ID) (fail InvalidTokenProgram)) (\<lambda>_.
     ensure (view_address token_program = token_program_id rt) (fail InvalidTokenProgram))"

definition require_legacy_token_program_id :: "runtime \<Rightarrow> bytes32 \<Rightarrow> ProgramError + unit" where
  "require_legacy_token_program_id rt token_program =
     tryE (ensure (token_program \<noteq> TOKEN_2022_PROGRAM_ID) (fail InvalidTokenProgram)) (\<lambda>_.
     ensure (token_program = token_program_id rt) (fail InvalidTokenProgram))"

definition validate_mint ::
    "runtime \<Rightarrow> AccountView \<Rightarrow> bytes32 \<Rightarrow> byte \<Rightarrow> world \<Rightarrow> ProgramError + unit" where
  "validate_mint rt mint_account expected_mint expected_decimals w =
     tryE (require_account_key mint_account expected_mint InvalidMint) (\<lambda>_.
     tryE (ensure (owned_by mint_account (token_program_id rt) w) (fail InvalidMint)) (\<lambda>_.
     tryE (ok_or (mint_from_account rt (acct w mint_account)) (fail InvalidMint)) (\<lambda>mint.
     tryE (ensure (mint_is_initialized mint) (fail InvalidMint)) (\<lambda>_.
     ensure (mint_decimals_of mint = expected_decimals) (fail InvalidMint)))))"

definition parse_token_account :: "runtime \<Rightarrow> AccountView \<Rightarrow> world \<Rightarrow> ProgramError + token_state" where
  "parse_token_account rt v w =
     tryE (ensure (owned_by v (token_program_id rt) w) (fail InvalidTokenAccountOwner)) (\<lambda>_.
     ok_or (token_from_account rt (acct w v)) (fail InvalidTokenAccount))"

definition validate_token_account ::
    "runtime \<Rightarrow> AccountView \<Rightarrow> bytes32 \<Rightarrow> address \<Rightarrow> world \<Rightarrow> ProgramError + u64" where
  "validate_token_account rt v expected_mint expected_owner w =
     tryE (parse_token_account rt v w) (\<lambda>token.
     tryE (ensure (token_mint token = expected_mint) (fail InvalidTokenAccountMint)) (\<lambda>_.
     tryE (ensure (token_owner token = expected_owner) (fail InvalidTokenAccountAuthority)) (\<lambda>_.
     tryE (ensure (\<not> token_is_frozen token) (fail TokenAccountFrozen)) (\<lambda>_.
     tryE (ensure (\<not> token_has_delegate token) (fail InvalidTokenAccountAuthority)) (\<lambda>_.
     Inr (token_amount_of token))))))"

definition associated_token_address :: "runtime \<Rightarrow> address \<Rightarrow> address \<Rightarrow> ProgramError + address" where
  "associated_token_address rt wallet mint =
     (let seeds = [to_bytes wallet, to_bytes (token_program_id rt), to_bytes mint]
      in ok_or (map_option fst (try_find_program_address rt seeds ASSOCIATED_TOKEN_PROGRAM_ID))
           (fail InvalidAssociatedTokenAccount))"

definition validate_ata ::
    "runtime \<Rightarrow> AccountView \<Rightarrow> address \<Rightarrow> bytes32 \<Rightarrow> world \<Rightarrow> ProgramError + u64" where
  "validate_ata rt v wallet mint w =
     tryE (associated_token_address rt wallet mint) (\<lambda>expected.
     tryE (require_account_key v expected InvalidAssociatedTokenAccount) (\<lambda>_.
     validate_token_account rt v mint wallet w))"

definition transfer_checked ::
    "runtime \<Rightarrow> AccountView \<Rightarrow> AccountView \<Rightarrow> AccountView \<Rightarrow> AccountView \<Rightarrow> u64 \<Rightarrow> byte \<Rightarrow>
       bytes list option \<Rightarrow> world \<Rightarrow> ProgramError + world" where
  "transfer_checked rt src mint dst authority amount decimals signer_seeds w =
     tryE (require_writable src) (\<lambda>_.
     tryE (require_writable dst) (\<lambda>_.
     cpi_transfer_checked rt src mint dst authority amount decimals signer_seeds w))"

definition close_token_account ::
    "runtime \<Rightarrow> AccountView \<Rightarrow> AccountView \<Rightarrow> AccountView \<Rightarrow> bytes list \<Rightarrow> world \<Rightarrow>
       ProgramError + world" where
  "close_token_account rt v destination authority signer_seeds w =
     tryE (require_writable v) (\<lambda>_.
     tryE (require_writable destination) (\<lambda>_.
     cpi_close_account rt v destination authority signer_seeds w))"

definition return_surplus_to_buyer ::
    "runtime \<Rightarrow> AccountView \<Rightarrow> AccountView \<Rightarrow> AccountView \<Rightarrow> AccountView \<Rightarrow> u64 \<Rightarrow> byte \<Rightarrow>
       bytes list \<Rightarrow> world \<Rightarrow> ProgramError + world" where
  "return_surplus_to_buyer rt escrow mint buyer_token authority job_principal decimals signer_seeds w =
     tryE (parse_token_account rt escrow w) (\<lambda>token.
     let balance = token_amount_of token
     in tryE (ensure (\<not> balance < job_principal) (fail EscrowUnexpectedBalance)) (\<lambda>_.
     tryE (ok_or (checked_sub balance job_principal) (fail MathOverflow)) (\<lambda>surplus.
     if surplus > 0
     then transfer_checked rt escrow mint buyer_token authority surplus decimals (Some signer_seeds) w
     else Inr w)))"

definition token_amount :: "runtime \<Rightarrow> AccountView \<Rightarrow> world \<Rightarrow> ProgramError + u64" where
  "token_amount rt v w = tryE (parse_token_account rt v w) (\<lambda>token. Inr (token_amount_of token))"

section \<open>Inversion\<close>

lemma require_legacy_eq_Inr [result_inv]:
  "require_legacy_token_program rt v = Inr u \<longleftrightarrow>
     view_address v \<noteq> TOKEN_2022_PROGRAM_ID \<and> view_address v = token_program_id rt"
  "require_legacy_token_program_id rt a = Inr u \<longleftrightarrow>
     a \<noteq> TOKEN_2022_PROGRAM_ID \<and> a = token_program_id rt"
  by (auto simp: require_legacy_token_program_def require_legacy_token_program_id_def result_inv)

lemma validate_mint_eq_Inr [result_inv]:
  "validate_mint rt v m d w = Inr u \<longleftrightarrow>
     view_address v = m \<and> owned_by v (token_program_id rt) w \<and>
     (\<exists>mint. mint_from_account rt (acct w v) = Some mint \<and> mint_is_initialized mint \<and>
        mint_decimals_of mint = d)"
  by (auto simp: validate_mint_def result_inv)

lemma parse_token_account_eq_Inr [result_inv]:
  "parse_token_account rt v w = Inr t \<longleftrightarrow>
     owned_by v (token_program_id rt) w \<and> token_at rt w (view_address v) = Some t"
  by (auto simp: parse_token_account_def result_inv)

text \<open>The state a validated token account has: the expected mint and owner, neither frozen nor
  delegated.\<close>

definition plain_token :: "bytes32 \<Rightarrow> address \<Rightarrow> token_state \<Rightarrow> bool" where
  "plain_token mint owner t \<longleftrightarrow>
     token_mint t = mint \<and> token_owner t = owner \<and> \<not> token_is_frozen t \<and> \<not> token_has_delegate t"

lemma validate_token_account_eq_Inr [result_inv]:
  "validate_token_account rt v m a w = Inr n \<longleftrightarrow>
     owned_by v (token_program_id rt) w \<and>
     (\<exists>t. token_at rt w (view_address v) = Some t \<and> plain_token m a t \<and> n = token_amount_of t)"
  by (auto simp: validate_token_account_def result_inv plain_token_def)

text \<open>The associated token address as a partial function; \<open>validate_ata\<close> pins an account to it.\<close>

definition ata :: "runtime \<Rightarrow> address \<Rightarrow> address \<Rightarrow> address option" where
  "ata rt wallet mint =
     map_option fst (try_find_program_address rt
       [to_bytes wallet, to_bytes (token_program_id rt), to_bytes mint] ASSOCIATED_TOKEN_PROGRAM_ID)"

lemma associated_token_address_eq_Inr [result_inv]:
  "associated_token_address rt wallet mint = Inr a \<longleftrightarrow> ata rt wallet mint = Some a"
  by (simp add: associated_token_address_def ata_def result_inv)

lemma validate_ata_eq_Inr [result_inv]:
  "validate_ata rt v wallet mint w = Inr n \<longleftrightarrow>
     ata rt wallet mint = Some (view_address v) \<and>
     validate_token_account rt v mint wallet w = Inr n"
  by (auto simp: validate_ata_def result_inv)

lemma transfer_checked_eq_Inr [result_inv]:
  "transfer_checked rt src mint dst auth amount decimals seeds w = Inr w' \<longleftrightarrow>
     view_is_writable src \<and> view_is_writable dst \<and>
     cpi_transfer_checked rt src mint dst auth amount decimals seeds w = Inr w'"
  by (auto simp: transfer_checked_def result_inv)

lemma close_token_account_eq_Inr [result_inv]:
  "close_token_account rt v dst auth seeds w = Inr w' \<longleftrightarrow>
     view_is_writable v \<and> view_is_writable dst \<and> cpi_close_account rt v dst auth seeds w = Inr w'"
  by (auto simp: close_token_account_def result_inv)

lemma token_amount_eq_Inr [result_inv]:
  "token_amount rt v w = Inr n \<longleftrightarrow>
     owned_by v (token_program_id rt) w \<and>
     (\<exists>t. token_at rt w (view_address v) = Some t \<and> n = token_amount_of t)"
  by (auto simp: token_amount_def result_inv)

lemma return_surplus_eq_Inr [result_inv]:
  "return_surplus_to_buyer rt escrow mint buyer_token auth job_principal decimals seeds w = Inr w' \<longleftrightarrow>
     owned_by escrow (token_program_id rt) w \<and>
     (\<exists>t. token_at rt w (view_address escrow) = Some t \<and> job_principal \<le> token_amount_of t \<and>
        (if token_amount_of t = job_principal then w' = w
         else transfer_checked rt escrow mint buyer_token auth (token_amount_of t - job_principal)
                decimals (Some seeds) w = Inr w'))"
  by (auto simp: return_surplus_to_buyer_def result_inv Let_def checked_sub_def word_gt_0
      split: if_splits)

section \<open>What a transfer does to the token accounts\<close>

lemma transfer_frame:
  assumes "transfer_law rt" "cpi_transfer_checked rt src mint dst auth amount decimals seeds w = Inr w'"
  shows "same_except {view_address src, view_address dst} w w'"
    and "acct_owner (acct w' src) = token_program_id rt"
    and "acct_owner (acct w' dst) = token_program_id rt"
  using assms unfolding transfer_law_def by blast+

lemma token_at_same: "same_except as w w' \<Longrightarrow> a \<notin> as \<Longrightarrow> token_at rt w' a = token_at rt w a"
  by (simp add: same_except_at)

end
