(* ===== verification/Program_Ed25519.thy ===== *)
theory Program_Ed25519
  imports Program_Accounts
begin

text \<open>
  Signature introspection, from \<^verbatim>\<open>programs/agentbond/src/ed25519.rs\<close>: the program does not verify
  a signature itself, it checks that the instruction before it is a call of the Ed25519
  precompile whose one signature covers exactly the receipt bytes, and reads the key from it.
\<close>

definition require_self_index :: "u16 \<Rightarrow> u16 \<Rightarrow> ProtocolError + unit" where
  "require_self_index index ed25519_index =
     (if index = ED25519_CURRENT_INSTRUCTION_INDEX \<or> index = ed25519_index then Inr ()
      else Inl InvalidEd25519Instruction)"

text \<open>Offsets are at most 65535 here, so the \<open>usize\<close> additions of the source cannot overflow and
  their \<open>checked_add\<close> always yields the sum.\<close>

definition read_u16 :: "bytes \<Rightarrow> nat \<Rightarrow> ProtocolError + u16" where
  "read_u16 data offset =
     (let end = offset + 2
      in tryE (ok_or (get_range data offset end) InvalidEd25519Instruction) (\<lambda>bytes.
         Inr (from_le [bytes ! 0, bytes ! 1])))"

definition slice_checked :: "bytes \<Rightarrow> nat \<Rightarrow> nat \<Rightarrow> ProtocolError + bytes" where
  "slice_checked data offset len =
     (let end = offset + len in ok_or (get_range data offset end) InvalidEd25519Instruction)"

definition parse_ed25519_instruction_data :: "bytes \<Rightarrow> bytes \<Rightarrow> u16 \<Rightarrow> ProtocolError + bytes32" where
  "parse_ed25519_instruction_data data message ed25519_index =
     tryE (ensure (length message = RECEIPT_ENCODED_LEN) InvalidReceiptLength) (\<lambda>_.
     tryE (ensure (\<not> length data < ED25519_SIGNATURE_OFFSETS_START) InvalidEd25519Instruction) (\<lambda>_.
     let num_signatures = unat (data ! 0)
     in tryE (ensure (num_signatures = 1) InvalidEd25519Instruction) (\<lambda>_.
     let offsets_end = ED25519_SIGNATURE_OFFSETS_START + ED25519_SIGNATURE_OFFSETS_SERIALIZED_SIZE
     in tryE (ensure (\<not> length data < offsets_end) InvalidEd25519Instruction) (\<lambda>_.
     let offsets = seg ED25519_SIGNATURE_OFFSETS_START offsets_end data
     in tryE (read_u16 offsets 0) (\<lambda>signature_offset.
     tryE (read_u16 offsets 2) (\<lambda>signature_instruction_index.
     tryE (read_u16 offsets 4) (\<lambda>public_key_offset.
     tryE (read_u16 offsets 6) (\<lambda>public_key_instruction_index.
     tryE (read_u16 offsets 8) (\<lambda>message_data_offset.
     tryE (read_u16 offsets 10) (\<lambda>message_data_size.
     tryE (read_u16 offsets 12) (\<lambda>message_instruction_index.
     tryE (require_self_index signature_instruction_index ed25519_index) (\<lambda>_.
     tryE (require_self_index public_key_instruction_index ed25519_index) (\<lambda>_.
     tryE (require_self_index message_instruction_index ed25519_index) (\<lambda>_.
     tryE (slice_checked data (unat public_key_offset) ED25519_PUBKEY_SERIALIZED_SIZE) (\<lambda>pubkey_bytes.
     let pubkey = array32 pubkey_bytes
     in tryE (slice_checked data (unat signature_offset) ED25519_SIGNATURE_SERIALIZED_SIZE)
          (\<lambda>signature.
     tryE (ensure (unat message_data_size = RECEIPT_ENCODED_LEN) InvalidEd25519Instruction) (\<lambda>_.
     tryE (slice_checked data (unat message_data_offset) (unat message_data_size)) (\<lambda>signed_message.
     tryE (ensure (signed_message = message) InvalidSignature) (\<lambda>_.
     Inr pubkey)))))))))))))))))))"

definition verify_preceding_ed25519 ::
    "runtime \<Rightarrow> AccountView \<Rightarrow> bytes \<Rightarrow> world \<Rightarrow> ProgramError + bytes32" where
  "verify_preceding_ed25519 rt sysvar message w =
     tryE (ensure (length message = RECEIPT_ENCODED_LEN) (fail InvalidReceiptLength)) (\<lambda>_.
     tryE (ok_or (instructions_from_view rt sysvar w) (fail InvalidEd25519Instruction)) (\<lambda>instructions.
     tryE (ok_or (ixs_relative instructions (- 1)) (fail MissingEd25519Instruction)) (\<lambda>ed25519_ix.
     tryE (ensure (fst ed25519_ix = ED25519_PROGRAM_ID) (fail MissingEd25519Instruction)) (\<lambda>_.
     tryE (ok_or (checked_sub (ixs_current_index instructions) 1) (fail InvalidEd25519Instruction))
       (\<lambda>ed25519_index.
     map_err fail (parse_ed25519_instruction_data (snd ed25519_ix) message ed25519_index))))))"

section \<open>What an accepted precompile call says\<close>

text \<open>The layout of the precompile's data: one signature, with the offsets of the signature, the
  key and the message taken from this very instruction.\<close>

definition u16_at :: "bytes \<Rightarrow> nat \<Rightarrow> u16" where
  "u16_at data i = from_le [data ! i, data ! (i + 1)]"

definition self_index :: "u16 \<Rightarrow> u16 \<Rightarrow> bool" where
  "self_index index here \<longleftrightarrow> index = 0xffff \<or> index = here"

text \<open>\<open>precompile_call data here sig key msg\<close>: the data asks the precompile to check one signature,
  \<open>sig\<close> by \<open>key\<close> over \<open>msg\<close>, all three inside this instruction.\<close>

definition precompile_call :: "bytes \<Rightarrow> u16 \<Rightarrow> bytes \<Rightarrow> bytes32 \<Rightarrow> bytes \<Rightarrow> bool" where
  "precompile_call data here sig key msg \<longleftrightarrow>
     16 \<le> length data \<and> data ! 0 = 1 \<and>
     self_index (u16_at data 4) here \<and> self_index (u16_at data 8) here \<and>
     self_index (u16_at data 14) here \<and>
     get_range data (unat (u16_at data 2)) (unat (u16_at data 2) + 64) = Some sig \<and>
     get_range data (unat (u16_at data 6)) (unat (u16_at data 6) + 32) = Some (to_bytes key) \<and>
     get_range data (unat (u16_at data 10)) (unat (u16_at data 10) + unat (u16_at data 12)) = Some msg"

lemma require_self_index_eq_Inr [result_inv]:
  "require_self_index i here = Inr u \<longleftrightarrow> self_index i here"
  by (simp add: require_self_index_def self_index_def)

lemma read_u16_offsets:
  assumes "16 \<le> length data" "i + 2 \<le> 14" "j = i + 2"
  shows "read_u16 (seg 2 16 data) i = Inr (u16_at data j)"
  using assms by (simp add: read_u16_def u16_at_def add.commute)

lemma unat_byte_eq_1: "unat (b :: byte) = Suc 0 \<longleftrightarrow> b = 1"
  by (metis One_nat_def unat_1 word_unat_eq_iff)

lemma array32_eqI: "to_bytes key = bs \<Longrightarrow> array32 bs = key"
  by (metis array32_to_bytes)

lemma slice_checked_eq_Inr [result_inv]:
  "slice_checked data offset n = Inr bs \<longleftrightarrow> get_range data offset (offset + n) = Some bs"
  by (simp add: slice_checked_def ok_or_eq_Inr)

lemma parse_ed25519_eq_Inr [result_inv]:
  "parse_ed25519_instruction_data data message here = Inr key \<longleftrightarrow>
     length message = RECEIPT_ENCODED_LEN \<and> (\<exists>sig. precompile_call data here sig key message)"
proof (cases "16 \<le> length data")
  case False
  then show ?thesis
    by (auto simp: parse_ed25519_instruction_data_def precompile_call_def result_inv Let_def)
next
  case True
  have reads: "read_u16 (seg 2 16 data) 0 = Inr (u16_at data 2)"
    "read_u16 (seg 2 16 data) 2 = Inr (u16_at data 4)"
    "read_u16 (seg 2 16 data) 4 = Inr (u16_at data 6)"
    "read_u16 (seg 2 16 data) 6 = Inr (u16_at data 8)"
    "read_u16 (seg 2 16 data) 8 = Inr (u16_at data 10)"
    "read_u16 (seg 2 16 data) 10 = Inr (u16_at data 12)"
    "read_u16 (seg 2 16 data) 12 = Inr (u16_at data 14)"
    using True by (auto intro!: read_u16_offsets)
  show ?thesis
    using True
    by (auto simp: parse_ed25519_instruction_data_def precompile_call_def result_inv Let_def reads
        unat_byte_eq_1 intro: array32_eqI)
qed

section \<open>Acceptance\<close>

text \<open>
  C20. Signature introspection accepts a precompile instruction for a message exactly when the message has the length of a receipt and the
  instruction's data asks for one signature, with signature, key and message taken from this very instruction, in bounds, and the message is
  the expected one; the key returned is the key the precompile checked. No other data is accepted and none makes it read out of bounds.
\<close>

theorem ed25519_acceptance:
  "parse_ed25519_instruction_data data message here = Inr key \<longleftrightarrow>
     length message = RECEIPT_ENCODED_LEN \<and> (\<exists>sig. precompile_call data here sig key message)"
  by (rule parse_ed25519_eq_Inr)

end
