(* ===== verification/Helpers.thy ===== *)
theory Helpers
  imports Program_Token Program_Ed25519
begin

text \<open>
  The shared steps of the handlers, from \<^verbatim>\<open>programs/agentbond/src/processor/helpers.rs\<close>.

  The source borrows an account's data before it decodes it. A borrow fails only while another one
  is held, and no handler holds one across a load, so \<open>try_borrow\<close> always succeeds and loading is
  a function of the ledger.

  What the ledger means to the protocol is read through \<open>stored_at\<close>: the record that a program
  account holds, if the program owns the account and its data decodes. The locale \<open>account_store\<close>
  is the contract between the layouts and the handlers: loading returns what is stored, saving
  replaces exactly that. It is interpreted for the five layouts.
\<close>

section \<open>Clock and account lists\<close>

definition now_ts :: "world \<Rightarrow> ProgramError + i64" where
  "now_ts w = ok_or (w_clock w) (fail InvalidAccountData)"

text \<open>An iterator over the accounts is the list of the accounts still to come.\<close>

definition next_account :: "AccountView list \<Rightarrow> ProgramError + (AccountView \<times> AccountView list)" where
  "next_account accounts =
     (case accounts of [] \<Rightarrow> Inl (fail InvalidAccountData) | v # rest \<Rightarrow> Inr (v, rest))"

definition next_opt :: "AccountView list \<Rightarrow> AccountView option \<times> AccountView list" where
  "next_opt accounts = (case accounts of [] \<Rightarrow> (None, []) | v # rest \<Rightarrow> (Some v, rest))"

section \<open>Loading and saving\<close>

definition load_config :: "AccountView \<Rightarrow> world \<Rightarrow> ProgramError + ConfigAccount" where
  "load_config v w =
     tryE (ensure (data_len v w = CONFIG_ACCOUNT_LEN) (fail InvalidAccountLength)) (\<lambda>_.
     map_err fail (config_decode (acct_data (acct w v))))"

definition load_provider :: "AccountView \<Rightarrow> world \<Rightarrow> ProgramError + ProviderAccount" where
  "load_provider v w =
     tryE (ensure (data_len v w = PROVIDER_ACCOUNT_LEN) (fail InvalidAccountLength)) (\<lambda>_.
     map_err fail (provider_decode (acct_data (acct w v))))"

definition load_bond :: "AccountView \<Rightarrow> world \<Rightarrow> ProgramError + ProviderBondAccount" where
  "load_bond v w =
     tryE (ensure (data_len v w = PROVIDER_BOND_ACCOUNT_LEN) (fail InvalidAccountLength)) (\<lambda>_.
     map_err fail (bond_decode (acct_data (acct w v))))"

definition load_job :: "AccountView \<Rightarrow> world \<Rightarrow> ProgramError + JobAccount" where
  "load_job v w =
     tryE (ensure (data_len v w = JOB_ACCOUNT_LEN) (fail InvalidAccountLength)) (\<lambda>_.
     map_err fail (job_decode (acct_data (acct w v))))"

definition load_challenge :: "AccountView \<Rightarrow> world \<Rightarrow> ProgramError + ChallengeAccount" where
  "load_challenge v w =
     tryE (ensure (data_len v w = CHALLENGE_ACCOUNT_LEN) (fail InvalidAccountLength)) (\<lambda>_.
     map_err fail (challenge_decode (acct_data (acct w v))))"

definition save_config :: "AccountView \<Rightarrow> ConfigAccount \<Rightarrow> world \<Rightarrow> ProgramError + world" where
  "save_config v config w = write_account_data v (config_encode config) w"

definition save_provider :: "AccountView \<Rightarrow> ProviderAccount \<Rightarrow> world \<Rightarrow> ProgramError + world" where
  "save_provider v provider w =
     tryE (map_err fail (provider_encode provider)) (\<lambda>d. write_account_data v d w)"

definition save_bond :: "AccountView \<Rightarrow> ProviderBondAccount \<Rightarrow> world \<Rightarrow> ProgramError + world" where
  "save_bond v bond w =
     tryE (map_err fail (bond_encode bond)) (\<lambda>d. write_account_data v d w)"

definition save_job :: "AccountView \<Rightarrow> JobAccount \<Rightarrow> world \<Rightarrow> ProgramError + world" where
  "save_job v job w = write_account_data v (job_encode job) w"

definition save_challenge :: "AccountView \<Rightarrow> ChallengeAccount \<Rightarrow> world \<Rightarrow> ProgramError + world" where
  "save_challenge v challenge w =
     tryE (map_err fail (challenge_encode challenge)) (\<lambda>d. write_account_data v d w)"

section \<open>Guards\<close>

definition require_not_paused :: "ConfigAccount \<Rightarrow> ProgramError + unit" where
  "require_not_paused config = ensure (\<not> config_paused config) (fail ProtocolPaused)"

definition require_admin :: "AccountView \<Rightarrow> ConfigAccount \<Rightarrow> ProgramError + unit" where
  "require_admin admin config =
     tryE (ensure (view_is_signer admin) (fail MissingSignature)) (\<lambda>_.
     require_keys_eq (view_address admin) (config_admin config) Unauthorized)"

definition load_validated_config ::
    "runtime \<Rightarrow> address \<Rightarrow> AccountView \<Rightarrow> world \<Rightarrow> ProgramError + ConfigAccount" where
  "load_validated_config rt program_id v w =
     tryE (require_owner v program_id w) (\<lambda>_.
     tryE (load_config v w) (\<lambda>config.
     tryE (validate_config_pda rt program_id v (config_bump config) w) (\<lambda>_.
     Inr config)))"

definition load_validated_config_readonly ::
    "runtime \<Rightarrow> address \<Rightarrow> AccountView \<Rightarrow> world \<Rightarrow> ProgramError + ConfigAccount" where
  "load_validated_config_readonly rt program_id v w =
     tryE (require_readonly v) (\<lambda>_.
     load_validated_config rt program_id v w)"

definition load_validated_provider ::
    "runtime \<Rightarrow> address \<Rightarrow> AccountView \<Rightarrow> world \<Rightarrow> ProgramError + ProviderAccount" where
  "load_validated_provider rt program_id v w =
     tryE (require_owner v program_id w) (\<lambda>_.
     tryE (load_provider v w) (\<lambda>provider.
     tryE (validate_provider_pda rt program_id v (provider_authority provider)
             (provider_bump provider) w) (\<lambda>_.
     Inr provider)))"

definition load_validated_bond ::
    "runtime \<Rightarrow> address \<Rightarrow> AccountView \<Rightarrow> world \<Rightarrow> ProgramError + ProviderBondAccount" where
  "load_validated_bond rt program_id v w =
     tryE (require_owner v program_id w) (\<lambda>_.
     tryE (load_bond v w) (\<lambda>bond.
     tryE (validate_bond_pda rt program_id v (bond_provider bond) (bond_mint bond)
             (bond_bump bond) w) (\<lambda>_.
     Inr bond)))"

definition load_validated_job ::
    "runtime \<Rightarrow> address \<Rightarrow> AccountView \<Rightarrow> world \<Rightarrow> ProgramError + JobAccount" where
  "load_validated_job rt program_id v w =
     tryE (require_owner v program_id w) (\<lambda>_.
     tryE (load_job v w) (\<lambda>job.
     tryE (validate_job_pda rt program_id v (job_buyer job) (job_provider job)
             (job_nonce job) (job_bump job) w) (\<lambda>_.
     Inr job)))"

definition load_validated_challenge ::
    "runtime \<Rightarrow> address \<Rightarrow> AccountView \<Rightarrow> bytes32 \<Rightarrow> world \<Rightarrow> ProgramError + ChallengeAccount" where
  "load_validated_challenge rt program_id v job w =
     tryE (require_owner v program_id w) (\<lambda>_.
     tryE (load_challenge v w) (\<lambda>challenge.
     tryE (validate_challenge_pda rt program_id v job (challenge_bump challenge) w) (\<lambda>_.
     tryE (ensure (challenge_job challenge = job) (fail InvalidPda)) (\<lambda>_.
     Inr challenge))))"

section \<open>Job and bond bookkeeping\<close>

text \<open>The source updates \<open>job\<close> and \<open>bond\<close> through mutable references; the updated records are
  returned here.\<close>

definition transition_job :: "JobAccount \<Rightarrow> JobState \<Rightarrow> ProgramError + JobAccount" where
  "transition_job job to =
     tryE (map_err fail (validate_transition (job_state job) to)) (\<lambda>_.
     Inr (job\<lparr>job_state := to\<rparr>))"

definition unlock_job_bond ::
    "JobAccount \<Rightarrow> ProviderBondAccount \<Rightarrow> ProgramError + (JobAccount \<times> ProviderBondAccount)" where
  "unlock_job_bond job bond =
     (if job_locked_bond job = 0 then Inr (job, bond)
      else
        tryE (ensure (\<not> bond_locked bond < job_locked_bond job) (fail InvalidAccountData)) (\<lambda>_.
        tryE (ok_or (checked_sub (bond_locked bond) (job_locked_bond job)) (fail MathOverflow))
          (\<lambda>locked.
        let bond = bond\<lparr>bond_locked := locked\<rparr>;
            job = job\<lparr>job_locked_bond := 0\<rparr>
        in Inr (job, bond))))"

definition job_nonce_bytes :: "JobAccount \<Rightarrow> bytes" where
  "job_nonce_bytes job = le_bytes 8 (job_nonce job)"

definition refund_principal_to_buyer ::
    "runtime \<Rightarrow> JobAccount \<Rightarrow> AccountView \<Rightarrow> AccountView \<Rightarrow> AccountView \<Rightarrow> AccountView \<Rightarrow>
       AccountView \<Rightarrow> byte \<Rightarrow> world \<Rightarrow> ProgramError + world" where
  "refund_principal_to_buyer rt job job_account escrow mint buyer_token token_program decimals w =
     tryE (require_writable job_account) (\<lambda>_.
     tryE (require_legacy_token_program_id rt (job_token_program job)) (\<lambda>_.
     tryE (ensure (view_address token_program = job_token_program job) (fail InvalidTokenProgram)) (\<lambda>_.
     tryE (validate_mint rt mint (job_mint job) decimals w) (\<lambda>_.
     tryE (validate_ata rt escrow (view_address job_account) (job_mint job) w) (\<lambda>_.
     tryE (validate_ata rt buyer_token (address_from_bytes (job_buyer job)) (job_mint job) w) (\<lambda>_.
     let nonce = job_nonce_bytes job;
         bump = job_bump job;
         seeds = job_signer_seeds (job_buyer job) (job_provider job) nonce bump
     in tryE (parse_token_account rt escrow w) (\<lambda>token.
     let balance = token_amount_of token
     in tryE (ensure (\<not> balance < job_amount job) (fail EscrowUnexpectedBalance)) (\<lambda>_.
     transfer_checked rt escrow mint buyer_token job_account balance decimals (Some seeds) w))))))))"

section \<open>What a program account stores\<close>

definition stored_at ::
    "(bytes \<Rightarrow> ProtocolError + 'a) \<Rightarrow> address \<Rightarrow> world \<Rightarrow> address \<Rightarrow> 'a option" where
  "stored_at decode pid w a =
     (if acct_owner (w_accounts w a) = pid
      then (case decode (acct_data (w_accounts w a)) of Inr x \<Rightarrow> Some x | Inl _ \<Rightarrow> None)
      else None)"

abbreviation config_at :: "address \<Rightarrow> world \<Rightarrow> address \<Rightarrow> ConfigAccount option" where
  "config_at \<equiv> stored_at config_decode"
abbreviation provider_at :: "address \<Rightarrow> world \<Rightarrow> address \<Rightarrow> ProviderAccount option" where
  "provider_at \<equiv> stored_at provider_decode"
abbreviation bond_at :: "address \<Rightarrow> world \<Rightarrow> address \<Rightarrow> ProviderBondAccount option" where
  "bond_at \<equiv> stored_at bond_decode"
abbreviation job_at :: "address \<Rightarrow> world \<Rightarrow> address \<Rightarrow> JobAccount option" where
  "job_at \<equiv> stored_at job_decode"
abbreviation challenge_at :: "address \<Rightarrow> world \<Rightarrow> address \<Rightarrow> ChallengeAccount option" where
  "challenge_at \<equiv> stored_at challenge_decode"

lemma stored_at_eq_Some:
  "stored_at decode pid w a = Some x \<longleftrightarrow>
     acct_owner (w_accounts w a) = pid \<and> decode (acct_data (w_accounts w a)) = Inr x"
  by (auto simp: stored_at_def split: sum.splits)

lemma stored_at_cong:
  "acct_owner (w_accounts w' a) = acct_owner (w_accounts w a) \<Longrightarrow>
   acct_data (w_accounts w' a) = acct_data (w_accounts w a) \<Longrightarrow>
   stored_at decode pid w' a = stored_at decode pid w a"
  by (simp add: stored_at_def)

lemma stored_at_same:
  "same_except as w w' \<Longrightarrow> a \<notin> as \<Longrightarrow> stored_at decode pid w' a = stored_at decode pid w a"
  by (simp add: stored_at_def same_except_def)

lemma stored_at_other_owner: "acct_owner (w_accounts w a) \<noteq> pid \<Longrightarrow> stored_at decode pid w a = None"
  by (simp add: stored_at_def)

lemma stored_at_logs [simp]: "stored_at decode pid (w\<lparr>w_logs := l\<rparr>) = stored_at decode pid w"
  by (simp add: stored_at_def fun_eq_iff)

locale account_store = account_codec encode decode ok len disc
  for encode :: "'a \<Rightarrow> ProtocolError + bytes" and decode ok len disc +
  fixes load :: "AccountView \<Rightarrow> world \<Rightarrow> ProgramError + 'a"
    and save :: "AccountView \<Rightarrow> 'a \<Rightarrow> world \<Rightarrow> ProgramError + world"
  assumes load_law: "load v w =
      tryE (ensure (data_len v w = len) (fail InvalidAccountLength)) (\<lambda>_.
      map_err fail (decode (acct_data (acct w v))))"
    and save_law: "save v x w =
      tryE (map_err fail (encode x)) (\<lambda>d. write_account_data v d w)"
begin

lemma load_eq_Inr: "load v w = Inr x \<longleftrightarrow> decode (acct_data (acct w v)) = Inr x"
  using decode_Inr_len by (auto simp: load_law result_inv data_len_def)

lemma load_owned: "load v w = Inr x \<and> owned_by v pid w \<longleftrightarrow> stored_at decode pid w (view_address v) = Some x"
  by (auto simp: load_eq_Inr stored_at_eq_Some owned_by_def)

lemma save_eq_Inr: "save v x w = Inr w' \<longleftrightarrow>
    view_is_writable v \<and> (\<exists>d. encode x = Inr d \<and> data_len v w = length d \<and> w' = set_data v d w)"
  by (auto simp: save_law result_inv)

lemma save_same: "save v x w = Inr w' \<Longrightarrow> same_except {view_address v} w w'"
  by (auto simp: save_eq_Inr same_except_set_data)

lemma save_owner: "save v x w = Inr w' \<Longrightarrow> acct_owner (w_accounts w' a) = acct_owner (w_accounts w a)"
  by (auto simp: save_eq_Inr w_accounts_set_data)

lemma stored_after_save:
  assumes "save v x w = Inr w'" "ok x" "owned_by v pid w"
  shows "stored_at decode pid w' = (stored_at decode pid w)(view_address v \<mapsto> x)"
proof -
  obtain d where "encode x = Inr d" "w' = set_data v d w"
    using assms(1) by (auto simp: save_eq_Inr)
  with assms(2,3) decode_encode show ?thesis
    by (auto simp: stored_at_def w_accounts_set_data owned_by_def fun_eq_iff)
qed

lemma other_kind: "acct_data (w_accounts w a) ! 0 \<noteq> disc \<Longrightarrow> stored_at decode pid w a = None"
  using decode_Inr_disc by (fastforce simp: stored_at_def split: sum.splits)

lemma kind_of: "stored_at decode pid w a = Some x \<Longrightarrow> acct_data (w_accounts w a) ! 0 = disc"
  using other_kind by force

lemma kind_after_save:
  "save v x w = Inr w' \<Longrightarrow> ok x \<Longrightarrow> acct_data (acct w' v) ! 0 = disc"
  using encode_disc by (auto simp: save_eq_Inr w_accounts_set_data)

lemma stored_ok: "stored_at decode pid w a = Some x \<Longrightarrow> ok x"
  using decode_ok by (auto simp: stored_at_eq_Some)

lemma save_succeeds:
  assumes "ok x" "view_is_writable v" "data_len v w = len"
  shows "\<exists>w'. save v x w = Inr w'"
  using assms encode_ok encode_len by (metis save_eq_Inr)

lemma load_kind_error:
  "data_len v w = len \<Longrightarrow> acct_data (acct w v) ! 0 \<noteq> disc \<Longrightarrow>
   load v w = Inl (fail InvalidAccountDiscriminator)"
  by (simp add: load_law data_len_def decode_disc)

end

interpretation config_store: account_store "\<lambda>c. Inr (config_encode c)" config_decode "\<lambda>_. True"
  CONFIG_ACCOUNT_LEN CONFIG_ACCOUNT_DISCRIMINATOR load_config save_config
  by unfold_locales (simp_all add: load_config_def save_config_def)

interpretation provider_store: account_store provider_encode provider_decode provider_ok
  PROVIDER_ACCOUNT_LEN PROVIDER_ACCOUNT_DISCRIMINATOR load_provider save_provider
  by unfold_locales (simp_all add: load_provider_def save_provider_def)

interpretation bond_store: account_store bond_encode bond_decode bond_ok
  PROVIDER_BOND_ACCOUNT_LEN PROVIDER_BOND_ACCOUNT_DISCRIMINATOR load_bond save_bond
  by unfold_locales (simp_all add: load_bond_def save_bond_def)

interpretation job_store: account_store "\<lambda>j. Inr (job_encode j)" job_decode "\<lambda>_. True"
  JOB_ACCOUNT_LEN JOB_ACCOUNT_DISCRIMINATOR load_job save_job
  by unfold_locales (simp_all add: load_job_def save_job_def)

interpretation challenge_store: account_store challenge_encode challenge_decode challenge_ok
  CHALLENGE_ACCOUNT_LEN CHALLENGE_ACCOUNT_DISCRIMINATOR load_challenge save_challenge
  by unfold_locales (simp_all add: load_challenge_def save_challenge_def)

section \<open>Inversion\<close>

lemma now_ts_eq_Inr [result_inv]: "now_ts w = Inr t \<longleftrightarrow> w_clock w = Some t"
  by (simp add: now_ts_def result_inv)

lemma next_account_eq_Inr [result_inv]: "next_account xs = Inr r \<longleftrightarrow> xs = fst r # snd r"
  by (cases xs) (auto simp: next_account_def)

lemma next_account_simps [simp]:
  "next_account [] = Inl (fail InvalidAccountData)" "next_account (v # rest) = Inr (v, rest)"
  by (simp_all add: next_account_def)

lemma next_opt_simps [simp]: "next_opt [] = (None, [])" "next_opt (v # rest) = (Some v, rest)"
  by (simp_all add: next_opt_def)

lemma require_config_eq_Inr [result_inv]:
  "require_not_paused c = Inr u \<longleftrightarrow> \<not> config_paused c"
  "require_admin v c = Inr u \<longleftrightarrow> view_is_signer v \<and> view_address v = config_admin c"
  by (auto simp: require_not_paused_def require_admin_def result_inv)

text \<open>A validated load returns the record stored at an address derived from its own fields.\<close>

definition config_derived :: "runtime \<Rightarrow> address \<Rightarrow> address \<Rightarrow> ConfigAccount \<Rightarrow> bool" where
  "config_derived rt pid a c \<longleftrightarrow>
     create_program_address rt (config_seed_parts @ [[config_bump c]]) pid = Some a"

definition provider_derived :: "runtime \<Rightarrow> address \<Rightarrow> address \<Rightarrow> ProviderAccount \<Rightarrow> bool" where
  "provider_derived rt pid a p \<longleftrightarrow>
     create_program_address rt (provider_seed_parts (provider_authority p) @ [[provider_bump p]]) pid =
       Some a"

definition bond_derived :: "runtime \<Rightarrow> address \<Rightarrow> address \<Rightarrow> ProviderBondAccount \<Rightarrow> bool" where
  "bond_derived rt pid a b \<longleftrightarrow>
     create_program_address rt (bond_seed_parts (bond_provider b) (bond_mint b) @ [[bond_bump b]]) pid =
       Some a"

definition job_derived :: "runtime \<Rightarrow> address \<Rightarrow> address \<Rightarrow> JobAccount \<Rightarrow> bool" where
  "job_derived rt pid a j \<longleftrightarrow>
     create_program_address rt (job_seed_parts (job_buyer j) (job_provider j)
       (job_nonce_le_bytes (job_nonce j)) @ [[job_bump j]]) pid = Some a"

definition challenge_derived ::
    "runtime \<Rightarrow> address \<Rightarrow> address \<Rightarrow> bytes32 \<Rightarrow> ChallengeAccount \<Rightarrow> bool" where
  "challenge_derived rt pid a job c \<longleftrightarrow>
     create_program_address rt (challenge_seed_parts job @ [[challenge_bump c]]) pid = Some a"

lemma load_validated_config_eq_Inr [result_inv]:
  "load_validated_config rt pid v w = Inr c \<longleftrightarrow>
     config_at pid w (view_address v) = Some c \<and> config_derived rt pid (view_address v) c"
  by (auto simp: load_validated_config_def result_inv config_derived_def
      config_store.load_owned [symmetric])

lemma load_validated_config_readonly_eq_Inr [result_inv]:
  "load_validated_config_readonly rt pid v w = Inr c \<longleftrightarrow>
     \<not> view_is_writable v \<and> config_at pid w (view_address v) = Some c \<and>
     config_derived rt pid (view_address v) c"
  by (auto simp: load_validated_config_readonly_def result_inv)

lemma load_validated_provider_eq_Inr [result_inv]:
  "load_validated_provider rt pid v w = Inr p \<longleftrightarrow>
     provider_at pid w (view_address v) = Some p \<and> provider_derived rt pid (view_address v) p"
  by (auto simp: load_validated_provider_def result_inv provider_derived_def
      provider_store.load_owned [symmetric])

lemma load_validated_bond_eq_Inr [result_inv]:
  "load_validated_bond rt pid v w = Inr b \<longleftrightarrow>
     bond_at pid w (view_address v) = Some b \<and> bond_derived rt pid (view_address v) b"
  by (auto simp: load_validated_bond_def result_inv bond_derived_def
      bond_store.load_owned [symmetric])

lemma load_validated_job_eq_Inr [result_inv]:
  "load_validated_job rt pid v w = Inr j \<longleftrightarrow>
     job_at pid w (view_address v) = Some j \<and> job_derived rt pid (view_address v) j"
  by (auto simp: load_validated_job_def result_inv job_derived_def
      job_store.load_owned [symmetric])

lemma load_validated_challenge_eq_Inr [result_inv]:
  "load_validated_challenge rt pid v job w = Inr c \<longleftrightarrow>
     challenge_at pid w (view_address v) = Some c \<and>
     challenge_derived rt pid (view_address v) job c \<and> challenge_job c = job"
  by (auto simp: load_validated_challenge_def result_inv challenge_derived_def
      challenge_store.load_owned [symmetric])

lemma transition_job_eq_Inr [result_inv]:
  "transition_job j to = Inr j' \<longleftrightarrow>
     transition_allowed (job_state j) to \<and> j' = j\<lparr>job_state := to\<rparr>"
  by (auto simp: transition_job_def result_inv validate_transition_ok)

lemma unlock_job_bond_eq_Inr:
  "unlock_job_bond j b = Inr r \<longleftrightarrow>
     job_locked_bond j \<le> bond_locked b \<and>
     r = (j\<lparr>job_locked_bond := 0\<rparr>, b\<lparr>bond_locked := bond_locked b - job_locked_bond j\<rparr>)"
  by (auto simp: unlock_job_bond_def result_inv Let_def checked_sub_def not_less split: if_splits)

text \<open>The refund empties the escrow into the buyer's associated account.\<close>

lemma refund_principal_eq_Inr [result_inv]:
  "refund_principal_to_buyer rt j job_account escrow mint buyer_token token_program decimals w = Inr w' \<longleftrightarrow>
     view_is_writable job_account \<and>
     job_token_program j \<noteq> TOKEN_2022_PROGRAM_ID \<and> job_token_program j = token_program_id rt \<and>
     view_address token_program = job_token_program j \<and>
     validate_mint rt mint (job_mint j) decimals w = Inr () \<and>
     (\<exists>n. validate_ata rt escrow (view_address job_account) (job_mint j) w = Inr n \<and>
        job_amount j \<le> n \<and>
        (\<exists>m. validate_ata rt buyer_token (job_buyer j) (job_mint j) w = Inr m) \<and>
        transfer_checked rt escrow mint buyer_token job_account n decimals
          (Some (job_signer_seeds (job_buyer j) (job_provider j) (job_nonce_bytes j) (job_bump j))) w =
          Inr w')"
  by (auto simp: refund_principal_to_buyer_def result_inv Let_def not_less)

text \<open>Running a handler backwards: \<open>handler_start\<close> names the accounts it was given, \<open>handler_inv\<close>
  turns the checks it passed into facts.\<close>

lemma tryE_next:
  "tryE (next_account xs) f = Inr y \<longleftrightarrow> (\<exists>v rest. xs = v # rest \<and> f (v, rest) = Inr y)"
  by (cases xs) auto

lemmas handler_start = Let_def tryE_next split_conv

lemmas handler_inv = tryE_eq_Inr ensure_eq_Inr ok_or_eq_Inr map_err_eq_Inr now_ts_eq_Inr
  require_eq_Inr require_config_eq_Inr require_legacy_eq_Inr
  load_validated_config_eq_Inr load_validated_config_readonly_eq_Inr load_validated_provider_eq_Inr
  load_validated_bond_eq_Inr load_validated_job_eq_Inr load_validated_challenge_eq_Inr
  transition_job_eq_Inr unlock_job_bond_eq_Inr
  simp_thms ex_simps split_paired_Ex split_conv

end
