(* ===== verification/Ledger.thy ===== *)
theory Ledger
  imports Helpers
begin

text \<open>
  The protocol's view of the ledger. \<open>ledger_of rt pid w\<close> forgets bytes, lamports and logs and
  keeps what the protocol is about: the records its accounts store, the token accounts and the
  clock. Every step a handler takes on the world acts on this view in a simple way, shown once
  here; the handlers' effects are compositions of these.

  \<open>deployment rt pid\<close> collects the documented behaviour of the library code and that the program,
  the token program and the system program are three different programs.
\<close>

record ledger =
  l_config :: "address \<Rightarrow> ConfigAccount option"
  l_provider :: "address \<Rightarrow> ProviderAccount option"
  l_bond :: "address \<Rightarrow> ProviderBondAccount option"
  l_job :: "address \<Rightarrow> JobAccount option"
  l_challenge :: "address \<Rightarrow> ChallengeAccount option"
  l_token :: "address \<Rightarrow> token_state option"
  l_now :: "i64 option"

definition ledger_of :: "runtime \<Rightarrow> address \<Rightarrow> world \<Rightarrow> ledger" where
  "ledger_of rt pid w =
     \<lparr>l_config = config_at pid w, l_provider = provider_at pid w, l_bond = bond_at pid w,
      l_job = job_at pid w, l_challenge = challenge_at pid w, l_token = token_at rt w,
      l_now = w_clock w\<rparr>"

lemma ledger_of_simps [simp]:
  "l_config (ledger_of rt pid w) = config_at pid w"
  "l_provider (ledger_of rt pid w) = provider_at pid w"
  "l_bond (ledger_of rt pid w) = bond_at pid w"
  "l_job (ledger_of rt pid w) = job_at pid w"
  "l_challenge (ledger_of rt pid w) = challenge_at pid w"
  "l_token (ledger_of rt pid w) = token_at rt w"
  "l_now (ledger_of rt pid w) = w_clock w"
  by (simp_all add: ledger_of_def)

definition deployment :: "runtime \<Rightarrow> address \<Rightarrow> bool" where
  "deployment rt pid \<longleftrightarrow>
     pda_law rt \<and> token_state_law rt \<and> transfer_law rt \<and> create_law rt \<and> close_token_law rt \<and>
     close_view_law rt \<and> pid \<noteq> token_program_id rt \<and> pid \<noteq> system_program_id rt \<and>
     system_program_id rt \<noteq> token_program_id rt"

lemma deploymentD:
  assumes "deployment rt pid"
  shows "pda_law rt" "token_state_law rt" "transfer_law rt" "create_law rt" "close_token_law rt"
    "close_view_law rt" "pid \<noteq> token_program_id rt" "pid \<noteq> system_program_id rt"
    "system_program_id rt \<noteq> token_program_id rt"
  using assms by (auto simp: deployment_def)

section \<open>Token movements\<close>

definition change_amount ::
    "address \<Rightarrow> (u64 \<Rightarrow> u64) \<Rightarrow> (address \<Rightarrow> token_state option) \<Rightarrow> address \<Rightarrow> token_state option" where
  "change_amount a f T = T(a := map_option (\<lambda>t. t\<lparr>token_amount_of := f (token_amount_of t)\<rparr>) (T a))"

definition move_tokens ::
    "address \<Rightarrow> address \<Rightarrow> u64 \<Rightarrow> (address \<Rightarrow> token_state option) \<Rightarrow> address \<Rightarrow> token_state option" where
  "move_tokens src dst n T =
     (if src = dst then T
      else change_amount dst (\<lambda>x. x + n) (change_amount src (\<lambda>x. x - n) T))"

text \<open>A movement the token program accepts: both accounts exist and have one mint, the source has the amount and the
  destination can hold it.\<close>

definition can_move :: "address \<Rightarrow> address \<Rightarrow> u64 \<Rightarrow> (address \<Rightarrow> token_state option) \<Rightarrow> bool" where
  "can_move src dst n T \<longleftrightarrow>
     (\<exists>s d. T src = Some s \<and> T dst = Some d \<and> token_mint s = token_mint d \<and> n \<le> token_amount_of s \<and>
        (src \<noteq> dst \<longrightarrow> unat (token_amount_of d) + unat n < 2 ^ 64))"

lemma move_tokens_simps [simp]:
  "a \<noteq> src \<Longrightarrow> a \<noteq> dst \<Longrightarrow> move_tokens src dst n T a = T a"
  "move_tokens src src n T = T"
  by (simp_all add: move_tokens_def change_amount_def)

text \<open>A movement changes amounts only.\<close>

definition same_holder :: "token_state \<Rightarrow> token_state \<Rightarrow> bool" where
  "same_holder s t \<longleftrightarrow>
     token_mint s = token_mint t \<and> token_owner s = token_owner t \<and>
     token_is_frozen s = token_is_frozen t \<and> token_has_delegate s = token_has_delegate t"

lemma move_tokens_holder:
  "T a = Some t \<Longrightarrow> \<exists>t'. move_tokens src dst n T a = Some t' \<and> same_holder t t'"
  by (auto simp: move_tokens_def change_amount_def same_holder_def)

text \<open>Of an account without a delegate, a transfer changes the balance only. Every account the handlers transfer from
  is validated to be one.\<close>

definition undelegated :: "(address \<Rightarrow> token_state option) \<Rightarrow> address \<Rightarrow> bool" where
  "undelegated T a \<longleftrightarrow> (\<forall>t. T a = Some t \<longrightarrow> \<not> token_has_delegate t)"

lemma undelegated_move [simp]: "undelegated (move_tokens src dst n T) a \<longleftrightarrow> undelegated T a"
  by (cases "T a") (auto simp: undelegated_def move_tokens_def change_amount_def)

lemma validated_undelegated:
  "validate_token_account rt v m owner w = Inr n \<Longrightarrow> undelegated (token_at rt w) (view_address v)"
  by (auto simp: undelegated_def validate_token_account_eq_Inr plain_token_def)

lemma move_tokens_None [simp]: "move_tokens src dst n T a = None \<longleftrightarrow> T a = None"
  by (auto simp: move_tokens_def change_amount_def)

section \<open>Steps of a handler on the view\<close>

lemma token_at_unowned:
  "token_state_law rt \<Longrightarrow> acct_owner (w_accounts w a) \<noteq> token_program_id rt \<Longrightarrow> token_at rt w a = None"
  by (metis not_Some_eq token_state_law_def)

lemma token_at_cong:
  "token_state_law rt \<Longrightarrow> acct_owner (w_accounts w' a) = acct_owner (w_accounts w a) \<Longrightarrow>
   acct_data (w_accounts w' a) = acct_data (w_accounts w a) \<Longrightarrow> token_at rt w' a = token_at rt w a"
  by (metis token_state_law_def)

text \<open>Two worlds whose accounts outside \<open>A\<close> have the same owners and data: their views differ at
  most at \<open>A\<close>.\<close>

definition same_content :: "address set \<Rightarrow> world \<Rightarrow> world \<Rightarrow> bool" where
  "same_content A w w' \<longleftrightarrow> w_clock w' = w_clock w \<and>
     (\<forall>a. a \<notin> A \<longrightarrow> acct_owner (w_accounts w' a) = acct_owner (w_accounts w a) \<and>
        acct_data (w_accounts w' a) = acct_data (w_accounts w a))"

lemma same_content_if_same: "same_except A w w' \<Longrightarrow> same_content A w w'"
  by (simp add: same_content_def same_except_def)

lemma same_content_trans: "same_content A w w' \<Longrightarrow> same_content B w' w'' \<Longrightarrow> same_content (A \<union> B) w w''"
  by (simp add: same_content_def)

lemma stored_outside:
  "same_content A w w' \<Longrightarrow> a \<notin> A \<Longrightarrow> stored_at decode pid w' a = stored_at decode pid w a"
  by (rule stored_at_cong) (simp_all add: same_content_def)

lemma stored_upd:
  assumes "same_content {a} w w'"
  shows "stored_at decode pid w' = (stored_at decode pid w)(a := stored_at decode pid w' a)"
  by (rule ext) (simp add: stored_outside [OF assms])

lemma token_outside:
  "token_state_law rt \<Longrightarrow> same_content A w w' \<Longrightarrow> a \<notin> A \<Longrightarrow> token_at rt w' a = token_at rt w a"
  by (rule token_at_cong) (simp_all add: same_content_def)

lemma token_upd:
  assumes "token_state_law rt" "same_content {a} w w'"
  shows "token_at rt w' = (token_at rt w)(a := token_at rt w' a)"
  by (rule ext) (simp add: token_outside [OF assms])

lemma ledger_upd:
  assumes "token_state_law rt" "same_content {a} w w'"
  shows "ledger_of rt pid w' = (ledger_of rt pid w)\<lparr>
    l_config := (config_at pid w)(a := config_at pid w' a),
    l_provider := (provider_at pid w)(a := provider_at pid w' a),
    l_bond := (bond_at pid w)(a := bond_at pid w' a),
    l_job := (job_at pid w)(a := job_at pid w' a),
    l_challenge := (challenge_at pid w)(a := challenge_at pid w' a),
    l_token := (token_at rt w)(a := token_at rt w' a)\<rparr>"
proof -
  have "w_clock w' = w_clock w"
    using assms(2) by (simp add: same_content_def)
  then show ?thesis
    unfolding ledger_of_def
    by (simp add: token_upd [OF assms, symmetric] stored_upd [OF assms(2), symmetric])
qed

lemma ledger_logs [simp]: "ledger_of rt pid (w\<lparr>w_logs := l\<rparr>) = ledger_of rt pid w"
  by (simp add: ledger_of_def)

lemma ledger_emit: "emit kind subject actor n t w = Inr w' \<Longrightarrow> ledger_of rt pid w' = ledger_of rt pid w"
  by (auto simp: emit_eq_Inr)

lemmas other_kinds = config_store.other_kind provider_store.other_kind bond_store.other_kind
  job_store.other_kind challenge_store.other_kind

lemma stored_empty:
  assumes "acct_data (w_accounts w a) = []"
  shows "config_at pid w a = None" "provider_at pid w a = None" "bond_at pid w a = None"
    "job_at pid w a = None" "challenge_at pid w a = None"
  using assms by (simp_all add: stored_at_def config_decode_rejects provider_decode_rejects
      bond_decode_rejects job_decode_rejects challenge_decode_rejects)

text \<open>An account of the program is not a token account.\<close>

lemma token_at_program:
  "deployment rt pid \<Longrightarrow> acct_owner (w_accounts w a) = pid \<Longrightarrow> token_at rt w a = None"
  by (metis deploymentD(2,7) token_at_unowned)

lemma token_at_system:
  "deployment rt pid \<Longrightarrow> acct_owner (w_accounts w a) = system_program_id rt \<Longrightarrow> token_at rt w a = None"
  by (metis deploymentD(2,9) token_at_unowned)

lemma ledger_save:
  assumes D: "deployment rt pid" and o: "acct_owner (acct w v) = pid"
    and k: "acct_data (acct w v) ! 0 \<in> {0, disc}"
    and w': "w' = set_data v d w" "d ! 0 = disc"
  shows "disc = JOB_ACCOUNT_DISCRIMINATOR \<Longrightarrow> job_decode d = Inr j \<Longrightarrow>
      ledger_of rt pid w' = (ledger_of rt pid w)\<lparr>l_job := (job_at pid w)(view_address v \<mapsto> j)\<rparr>"
    and "disc = PROVIDER_BOND_ACCOUNT_DISCRIMINATOR \<Longrightarrow> bond_decode d = Inr b \<Longrightarrow>
      ledger_of rt pid w' = (ledger_of rt pid w)\<lparr>l_bond := (bond_at pid w)(view_address v \<mapsto> b)\<rparr>"
    and "disc = PROVIDER_ACCOUNT_DISCRIMINATOR \<Longrightarrow> provider_decode d = Inr p \<Longrightarrow>
      ledger_of rt pid w' = (ledger_of rt pid w)\<lparr>l_provider := (provider_at pid w)(view_address v \<mapsto> p)\<rparr>"
    and "disc = CONFIG_ACCOUNT_DISCRIMINATOR \<Longrightarrow> config_decode d = Inr c \<Longrightarrow>
      ledger_of rt pid w' = (ledger_of rt pid w)\<lparr>l_config := (config_at pid w)(view_address v \<mapsto> c)\<rparr>"
    and "disc = CHALLENGE_ACCOUNT_DISCRIMINATOR \<Longrightarrow> challenge_decode d = Inr ch \<Longrightarrow>
      ledger_of rt pid w' =
        (ledger_of rt pid w)\<lparr>l_challenge := (challenge_at pid w)(view_address v \<mapsto> ch)\<rparr>"
proof -
  have same: "same_content {view_address v} w w'"
    by (simp add: w' same_content_if_same same_except_set_data)
  have after: "acct_owner (acct w' v) = pid" "acct_data (acct w' v) = d"
    by (simp_all add: w' w_accounts_set_data o)
  have tok: "token_at rt w (view_address v) = None" "token_at rt w' (view_address v) = None"
    using D o after by (simp_all add: token_at_program)
  have other: "disc \<noteq> CONFIG_ACCOUNT_DISCRIMINATOR \<Longrightarrow>
      config_at pid w' (view_address v) = config_at pid w (view_address v)"
    "disc \<noteq> PROVIDER_ACCOUNT_DISCRIMINATOR \<Longrightarrow>
      provider_at pid w' (view_address v) = provider_at pid w (view_address v)"
    "disc \<noteq> PROVIDER_BOND_ACCOUNT_DISCRIMINATOR \<Longrightarrow>
      bond_at pid w' (view_address v) = bond_at pid w (view_address v)"
    "disc \<noteq> JOB_ACCOUNT_DISCRIMINATOR \<Longrightarrow>
      job_at pid w' (view_address v) = job_at pid w (view_address v)"
    "disc \<noteq> CHALLENGE_ACCOUNT_DISCRIMINATOR \<Longrightarrow>
      challenge_at pid w' (view_address v) = challenge_at pid w (view_address v)"
    using k w'(2) after by (auto simp: other_kinds)
  have stored:
    "config_decode d = Inr c \<Longrightarrow> config_at pid w' (view_address v) = Some c"
    "provider_decode d = Inr p \<Longrightarrow> provider_at pid w' (view_address v) = Some p"
    "bond_decode d = Inr b \<Longrightarrow> bond_at pid w' (view_address v) = Some b"
    "job_decode d = Inr j \<Longrightarrow> job_at pid w' (view_address v) = Some j"
    "challenge_decode d = Inr ch \<Longrightarrow> challenge_at pid w' (view_address v) = Some ch"
    using after by (simp_all add: stored_at_eq_Some)
  note upd = ledger_upd [OF deploymentD(2) [OF D] same, of pid]
  show "disc = JOB_ACCOUNT_DISCRIMINATOR \<Longrightarrow> job_decode d = Inr j \<Longrightarrow>
      ledger_of rt pid w' = (ledger_of rt pid w)\<lparr>l_job := (job_at pid w)(view_address v \<mapsto> j)\<rparr>"
    by (subst upd) (simp add: other tok stored fun_upd_idem ledger_of_def)
  show "disc = PROVIDER_BOND_ACCOUNT_DISCRIMINATOR \<Longrightarrow> bond_decode d = Inr b \<Longrightarrow>
      ledger_of rt pid w' = (ledger_of rt pid w)\<lparr>l_bond := (bond_at pid w)(view_address v \<mapsto> b)\<rparr>"
    by (subst upd) (simp add: other tok stored fun_upd_idem ledger_of_def)
  show "disc = PROVIDER_ACCOUNT_DISCRIMINATOR \<Longrightarrow> provider_decode d = Inr p \<Longrightarrow>
      ledger_of rt pid w' = (ledger_of rt pid w)\<lparr>l_provider := (provider_at pid w)(view_address v \<mapsto> p)\<rparr>"
    by (subst upd) (simp add: other tok stored fun_upd_idem ledger_of_def)
  show "disc = CONFIG_ACCOUNT_DISCRIMINATOR \<Longrightarrow> config_decode d = Inr c \<Longrightarrow>
      ledger_of rt pid w' = (ledger_of rt pid w)\<lparr>l_config := (config_at pid w)(view_address v \<mapsto> c)\<rparr>"
    by (subst upd) (simp add: other tok stored fun_upd_idem ledger_of_def)
  show "disc = CHALLENGE_ACCOUNT_DISCRIMINATOR \<Longrightarrow> challenge_decode d = Inr ch \<Longrightarrow>
      ledger_of rt pid w' =
        (ledger_of rt pid w)\<lparr>l_challenge := (challenge_at pid w)(view_address v \<mapsto> ch)\<rparr>"
    by (subst upd) (simp add: other tok stored fun_upd_idem ledger_of_def)
qed

text \<open>Saving a record over one of the same kind, or into a fresh account of the program.\<close>

definition fresh_account :: "address \<Rightarrow> AccountView \<Rightarrow> world \<Rightarrow> bool" where
  "fresh_account pid v w \<longleftrightarrow>
     acct_owner (acct w v) = pid \<and> (\<exists>n. acct_data (acct w v) = replicate n 0 \<and> 0 < n)"

lemma ledger_save_job:
  assumes "deployment rt pid" "save_job v j w = Inr w'"
    and "job_at pid w (view_address v) \<noteq> None \<or> fresh_account pid v w"
  shows "ledger_of rt pid w' = (ledger_of rt pid w)\<lparr>l_job := (job_at pid w)(view_address v \<mapsto> j)\<rparr>"
  using assms job_store.kind_of [of pid w "view_address v"]
  by (intro ledger_save(1) [where d = "job_encode j"])
     (auto simp: job_store.save_eq_Inr fresh_account_def stored_at_eq_Some job.encode_disc)

lemma ledger_save_bond:
  assumes "deployment rt pid" "save_bond v b w = Inr w'"
    and "bond_at pid w (view_address v) \<noteq> None \<or> fresh_account pid v w"
  shows "ledger_of rt pid w' = (ledger_of rt pid w)\<lparr>l_bond := (bond_at pid w)(view_address v \<mapsto> b)\<rparr>"
proof -
  obtain d where "bond_encode b = Inr d" "w' = set_data v d w"
    using assms(2) by (auto simp: bond_store.save_eq_Inr)
  with assms bond_store.kind_of [of pid w "view_address v"] show ?thesis
    by (intro ledger_save(2) [where d = d])
       (auto simp: fresh_account_def stored_at_eq_Some bond_decode_encode
         intro: bond.encode_disc bond_encode_Inr_ok)
qed

lemma ledger_save_provider:
  assumes "deployment rt pid" "save_provider v p w = Inr w'" "provider_ok p"
    and "provider_at pid w (view_address v) \<noteq> None \<or> fresh_account pid v w"
  shows "ledger_of rt pid w' =
    (ledger_of rt pid w)\<lparr>l_provider := (provider_at pid w)(view_address v \<mapsto> p)\<rparr>"
proof -
  obtain d where "provider_encode p = Inr d" "w' = set_data v d w"
    using assms(2) by (auto simp: provider_store.save_eq_Inr)
  with assms provider_store.kind_of [of pid w "view_address v"] show ?thesis
    by (intro ledger_save(3) [where d = d])
       (auto simp: fresh_account_def stored_at_eq_Some provider_decode_encode
         intro: provider.encode_disc)
qed

lemma ledger_save_config:
  assumes "deployment rt pid" "save_config v c w = Inr w'"
    and "config_at pid w (view_address v) \<noteq> None \<or> fresh_account pid v w"
  shows "ledger_of rt pid w' = (ledger_of rt pid w)\<lparr>l_config := (config_at pid w)(view_address v \<mapsto> c)\<rparr>"
  using assms config_store.kind_of [of pid w "view_address v"]
  by (intro ledger_save(4) [where d = "config_encode c"])
     (auto simp: config_store.save_eq_Inr fresh_account_def stored_at_eq_Some config.encode_disc)

lemma ledger_save_challenge:
  assumes "deployment rt pid" "save_challenge v c w = Inr w'"
    and "challenge_at pid w (view_address v) \<noteq> None \<or> fresh_account pid v w"
  shows "ledger_of rt pid w' =
    (ledger_of rt pid w)\<lparr>l_challenge := (challenge_at pid w)(view_address v \<mapsto> c)\<rparr>"
proof -
  obtain d where "challenge_encode c = Inr d" "w' = set_data v d w"
    using assms(2) by (auto simp: challenge_store.save_eq_Inr)
  with assms challenge_store.kind_of [of pid w "view_address v"] show ?thesis
    by (intro ledger_save(5) [where d = d])
       (auto simp: fresh_account_def stored_at_eq_Some challenge_decode_encode
         intro: challenge.encode_disc challenge_encode_Inr_ok)
qed

text \<open>A created account holds nothing yet; nothing was there before.\<close>

lemma stored_zeros:
  "acct_data (w_accounts w a) ! 0 = 0 \<Longrightarrow> config_at pid w a = None"
  "acct_data (w_accounts w a) ! 0 = 0 \<Longrightarrow> provider_at pid w a = None"
  "acct_data (w_accounts w a) ! 0 = 0 \<Longrightarrow> bond_at pid w a = None"
  "acct_data (w_accounts w a) ! 0 = 0 \<Longrightarrow> job_at pid w a = None"
  "acct_data (w_accounts w a) ! 0 = 0 \<Longrightarrow> challenge_at pid w a = None"
  by (simp_all add: other_kinds)

lemma ledger_create:
  assumes D: "deployment rt pid" and n: "0 < n"
    and c: "create_pda_account rt payer v pid n seeds w = Inr w'"
  shows "ledger_of rt pid w' = ledger_of rt pid w" "fresh_account pid v w'"
    "config_at pid w (view_address v) = None" "provider_at pid w (view_address v) = None"
    "bond_at pid w (view_address v) = None" "job_at pid w (view_address v) = None"
    "challenge_at pid w (view_address v) = None"
proof -
  from c have before: "acct_owner (acct w v) = system_program_id rt" "acct_data (acct w v) = []"
    by (auto simp: result_inv owned_by_def is_data_empty_def data_len_def)
  from c obtain balance where "cpi_create_account rt payer v balance n pid seeds w = Inr w'"
    by (auto simp: result_inv)
  with deploymentD(4) [OF D] have "same_except {view_address payer, view_address v} w w'"
    and "\<forall>a. a \<noteq> view_address v \<longrightarrow>
           acct_owner (w_accounts w' a) = acct_owner (w_accounts w a) \<and>
           acct_data (w_accounts w' a) = acct_data (w_accounts w a)"
    and after: "acct_owner (acct w' v) = pid" "acct_data (acct w' v) = replicate n 0"
    unfolding create_law_def by blast+
  then have same: "same_content {view_address v} w w'"
    by (simp add: same_content_def same_except_def)
  have "acct_data (acct w' v) ! 0 = 0" using after n by simp
  note none = stored_zeros [OF this] stored_empty [OF before(2)]
  have tok: "token_at rt w (view_address v) = None" "token_at rt w' (view_address v) = None"
    using token_at_program [OF D] token_at_system [OF D] after before by blast+
  show "ledger_of rt pid w' = ledger_of rt pid w"
    by (subst ledger_upd [OF deploymentD(2) [OF D] same])
       (simp add: none tok fun_upd_idem ledger_of_def)
  show "fresh_account pid v w'"
    using after n by (auto simp: fresh_account_def)
  show "config_at pid w (view_address v) = None" "provider_at pid w (view_address v) = None"
    "bond_at pid w (view_address v) = None" "job_at pid w (view_address v) = None"
    "challenge_at pid w (view_address v) = None"
    by (fact none)+
qed

text \<open>Closing an account of the program.\<close>

lemma close_pda_account_content:
  assumes D: "deployment rt pid" and c: "close_pda_account rt v recipient w = Inr w'"
  shows "same_content {view_address v} w w'"
    "acct_owner (acct w' v) = system_program_id rt" "acct_data (acct w' v) = []"
proof -
  from c obtain n where
    "view_close rt v (set_data v (replicate (data_len v (set_lamports v 0 (set_lamports recipient n w))) 0)
       (set_lamports v 0 (set_lamports recipient n w))) = Inr w'"
    by (auto simp: close_pda_account_def result_inv Let_def)
  then show "same_content {view_address v} w w'"
    and "acct_owner (acct w' v) = system_program_id rt" "acct_data (acct w' v) = []"
    using deploymentD(6) [OF D] unfolding close_view_law_def
    by (auto simp: same_content_def same_except_def w_accounts_set_data w_accounts_set_lamports
        dest!: spec)
qed

lemma ledger_close:
  assumes D: "deployment rt pid" and c: "close_pda_account rt v recipient w = Inr w'"
  shows "job_at pid w (view_address v) = Some j \<Longrightarrow>
      ledger_of rt pid w' = (ledger_of rt pid w)\<lparr>l_job := (job_at pid w)(view_address v := None)\<rparr>"
    and "challenge_at pid w (view_address v) = Some ch \<Longrightarrow>
      ledger_of rt pid w' =
        (ledger_of rt pid w)\<lparr>l_challenge := (challenge_at pid w)(view_address v := None)\<rparr>"
proof -
  note after = close_pda_account_content [OF D c]
  note upd = ledger_upd [OF deploymentD(2) [OF D] after(1)] stored_empty [OF after(3)]
  have tok: "token_at rt w' (view_address v) = None"
    using token_at_system [OF D] after(2) by blast
  show "ledger_of rt pid w' = (ledger_of rt pid w)\<lparr>l_job := (job_at pid w)(view_address v := None)\<rparr>"
    if "job_at pid w (view_address v) = Some j"
    using that job_store.kind_of [OF that] D tok
    by (subst upd) (simp add: upd other_kinds stored_at_eq_Some token_at_program fun_upd_idem ledger_of_def)
  show "ledger_of rt pid w' =
        (ledger_of rt pid w)\<lparr>l_challenge := (challenge_at pid w)(view_address v := None)\<rparr>"
    if "challenge_at pid w (view_address v) = Some ch"
    using that challenge_store.kind_of [OF that] D tok
    by (subst upd) (simp add: upd other_kinds stored_at_eq_Some token_at_program fun_upd_idem ledger_of_def)
qed

text \<open>Token movements leave the program's accounts alone.\<close>

lemma stored_frame_owner:
  assumes "same_content A w w'"
    and "\<forall>a\<in>A. acct_owner (w_accounts w a) \<noteq> pid \<and> acct_owner (w_accounts w' a) \<noteq> pid"
  shows "stored_at decode pid w' = stored_at decode pid w"
proof
  fix a show "stored_at decode pid w' a = stored_at decode pid w a"
    using stored_outside [OF assms(1)] assms(2) by (cases "a \<in> A") (auto simp: stored_at_other_owner)
qed

lemma transfer_keeps:
  assumes D: "deployment rt pid" and t: "transfer_checked rt src mint dst auth amount decimals seeds w = Inr w'"
    and o: "acct_owner (w_accounts w a) = pid"
  shows "w_accounts w' a = w_accounts w a"
proof -
  have t': "cpi_transfer_checked rt src mint dst auth amount decimals seeds w = Inr w'"
    using t by (simp add: result_inv)
  obtain s d where "token_at rt w (view_address src) = Some s" "token_at rt w (view_address dst) = Some d"
    using deploymentD(3) [OF D] t' unfolding transfer_law_def by blast
  then have "a \<notin> {view_address src, view_address dst}"
    using token_at_program [OF D o] by auto
  then show ?thesis
    using same_except_at [OF transfer_frame(1) [OF deploymentD(3) [OF D] t']] by blast
qed

lemma transfer_keeps_fresh:
  assumes "deployment rt pid" "transfer_checked rt src mint dst auth amount decimals seeds w = Inr w'"
    "fresh_account pid v w"
  shows "fresh_account pid v w'"
  using assms transfer_keeps [OF assms(1,2)] by (auto simp: fresh_account_def)

lemma ledger_transfer:
  assumes D: "deployment rt pid"
    and t: "transfer_checked rt src mint dst auth amount decimals seeds w = Inr w'"
    and u: "undelegated (token_at rt w) (view_address src)"
  shows "ledger_of rt pid w' = (ledger_of rt pid w)\<lparr>
      l_token := move_tokens (view_address src) (view_address dst) amount (token_at rt w)\<rparr>"
    and "can_move (view_address src) (view_address dst) amount (token_at rt w)"
proof -
  let ?s = "view_address src" and ?d = "view_address dst"
  have t': "cpi_transfer_checked rt src mint dst auth amount decimals seeds w = Inr w'"
    using t by (simp add: result_inv)
  note laws = deploymentD(2,3) [OF D]
  note frame = transfer_frame [OF laws(2) t']
  from laws(2) t' obtain s d where
    sd: "token_at rt w ?s = Some s" "token_at rt w ?d = Some d" "token_mint s = token_mint d"
      "amount \<le> token_amount_of s" and
    law: "if ?s = ?d then token_at rt w' ?s = Some s
     else unat (token_amount_of d) + unat amount < 2 ^ 64 \<and>
       (\<exists>del. (del \<longrightarrow> token_has_delegate s) \<and>
          token_at rt w' ?s = Some (s\<lparr>token_amount_of := token_amount_of s - amount, token_has_delegate := del\<rparr>)) \<and>
       token_at rt w' ?d = Some (d\<lparr>token_amount_of := token_amount_of d + amount\<rparr>)"
    unfolding transfer_law_def by blast
  have "\<not> token_has_delegate s" using u sd(1) by (simp add: undelegated_def)
  then have tok: "if ?s = ?d then token_at rt w' ?s = Some s
     else unat (token_amount_of d) + unat amount < 2 ^ 64 \<and>
       token_at rt w' ?s = Some (s\<lparr>token_amount_of := token_amount_of s - amount\<rparr>) \<and>
       token_at rt w' ?d = Some (d\<lparr>token_amount_of := token_amount_of d + amount\<rparr>)"
    using law by (auto split: if_splits)
  show "can_move ?s ?d amount (token_at rt w)"
    using sd tok by (auto simp: can_move_def split: if_splits)
  have tokens: "token_at rt w' = move_tokens ?s ?d amount (token_at rt w)"
  proof
    fix a show "token_at rt w' a = move_tokens ?s ?d amount (token_at rt w) a"
      using sd tok token_at_same [OF frame(1), of a]
      by (cases "a \<in> {?s, ?d}") (auto simp: move_tokens_def change_amount_def split: if_splits)
  qed
  have "acct_owner (w_accounts w ?s) = token_program_id rt" "acct_owner (w_accounts w ?d) = token_program_id rt"
    using sd(1,2) laws(1) unfolding token_state_law_def by blast+
  then have owners: "\<forall>a\<in>{?s, ?d}. acct_owner (w_accounts w a) \<noteq> pid \<and> acct_owner (w_accounts w' a) \<noteq> pid"
    using frame(2,3) deploymentD(7) [OF D] by auto
  have "w_clock w' = w_clock w" using frame(1) by (simp add: same_except_def)
  then show "ledger_of rt pid w' = (ledger_of rt pid w)\<lparr>
      l_token := move_tokens ?s ?d amount (token_at rt w)\<rparr>"
    by (simp add: ledger_of_def tokens
        stored_frame_owner [OF same_content_if_same [OF frame(1)] owners])
qed

lemma ledger_close_token:
  assumes D: "deployment rt pid"
    and c: "close_token_account rt v dst auth seeds w = Inr w'"
  shows "ledger_of rt pid w' = (ledger_of rt pid w)\<lparr>l_token := (token_at rt w)(view_address v := None)\<rparr>"
proof -
  have c': "cpi_close_account rt v dst auth seeds w = Inr w'"
    using c by (simp add: result_inv)
  from deploymentD(5) [OF D] c' have "same_except {view_address v, view_address dst} w w'"
    and o: "acct_owner (acct w v) = token_program_id rt" "acct_owner (acct w' v) = system_program_id rt"
    and "\<forall>a. a \<noteq> view_address v \<longrightarrow>
           acct_owner (w_accounts w' a) = acct_owner (w_accounts w a) \<and>
           acct_data (w_accounts w' a) = acct_data (w_accounts w a)"
    unfolding close_token_law_def by blast+
  then have same: "same_content {view_address v} w w'"
    by (simp add: same_content_def same_except_def)
  have owners: "\<forall>a\<in>{view_address v}. acct_owner (w_accounts w a) \<noteq> pid \<and> acct_owner (w_accounts w' a) \<noteq> pid"
    using o deploymentD(7,8) [OF D] by auto
  have clock: "w_clock w' = w_clock w" using same by (simp add: same_content_def)
  have "token_at rt w' = (token_at rt w)(view_address v := None)"
    using token_upd [OF deploymentD(2) [OF D] same] token_at_system [OF D o(2)] by simp
  then show ?thesis
    using clock by (simp add: ledger_of_def stored_frame_owner [OF same owners])
qed

text \<open>Reading the fields of a view that is known.\<close>

lemma ledger_fields:
  assumes "ledger_of rt pid w = L"
  shows "config_at pid w = l_config L" "provider_at pid w = l_provider L" "bond_at pid w = l_bond L"
    "job_at pid w = l_job L" "challenge_at pid w = l_challenge L" "token_at rt w = l_token L"
    "w_clock w = l_now L"
  using assms by auto

end
