(* ===== verification/Protocol.thy ===== *)
theory Protocol
  imports Ledger "HOL-Library.Multiset"
begin

text \<open>
  The abstract protocol: what an instruction may do to the protocol's view of the ledger, one rule
  per kind of change, with who has to sign, when, and which records and balances change. It knows
  nothing of accounts lists, bytes, lamports or library calls. The handlers refine it (theories
  \<open>Config_Handlers\<close> to \<open>Resolve_Handlers\<close>), and the invariants of the protocol are proved
  about it alone (theory \<open>Invariants\<close>).

  \<open>protocol_step rt pid S L L'\<close>: with the signatures of the addresses \<open>S\<close>, one instruction takes
  the ledger \<open>L\<close> to \<open>L'\<close>.
\<close>

section \<open>Vocabulary of the rules\<close>

definition signers :: "AccountView list \<Rightarrow> address set" where
  "signers accounts = {view_address v | v. v \<in> set accounts \<and> view_is_signer v}"

definition vacant :: "ledger \<Rightarrow> address \<Rightarrow> bool" where
  "vacant L a \<longleftrightarrow> l_config L a = None \<and> l_provider L a = None \<and> l_bond L a = None \<and>
     l_job L a = None \<and> l_challenge L a = None"

definition config_in_force :: "runtime \<Rightarrow> address \<Rightarrow> ledger \<Rightarrow> ConfigAccount \<Rightarrow> bool" where
  "config_in_force rt pid L c \<longleftrightarrow> (\<exists>a. l_config L a = Some c \<and> config_derived rt pid a c)"

definition registered :: "runtime \<Rightarrow> address \<Rightarrow> ledger \<Rightarrow> ProviderAccount \<Rightarrow> bool" where
  "registered rt pid L p \<longleftrightarrow> (\<exists>a. l_provider L a = Some p \<and> provider_derived rt pid a p)"

definition active_keys :: "ProviderAccount \<Rightarrow> bytes32 list" where
  "active_keys p = take (unat (provider_execution_key_count p)) (provider_execution_keys p)"

text \<open>\<open>holds T a mint owner n\<close>: at \<open>a\<close> there is a token account for this mint and owner, neither
  frozen nor delegated, with balance \<open>n\<close>.\<close>

definition holds :: "(address \<Rightarrow> token_state option) \<Rightarrow> address \<Rightarrow> address \<Rightarrow> address \<Rightarrow> u64 \<Rightarrow> bool" where
  "holds T a mint owner n \<longleftrightarrow> (\<exists>t. T a = Some t \<and> plain_token mint owner t \<and> token_amount_of t = n)"

definition bond_matches :: "ProviderBondAccount \<Rightarrow> JobAccount \<Rightarrow> bool" where
  "bond_matches b j \<longleftrightarrow> bond_provider b = job_provider j \<and> bond_mint b = job_mint j"

definition new_config :: "byte \<Rightarrow> address \<Rightarrow> InitializeConfigPayload \<Rightarrow> ConfigAccount" where
  "new_config bump admin payload =
     \<lparr>config_bump = bump, config_paused = False, config_admin = admin,
      config_genesis_hash = icp_genesis_hash payload, config_allowed_mint = icp_allowed_mint payload,
      config_token_program = icp_token_program payload, config_mint_decimals = icp_mint_decimals payload,
      config_min_provider_bond = icp_min_provider_bond payload,
      config_challenge_duration_seconds = icp_challenge_duration_seconds payload\<rparr>"

definition new_provider :: "byte \<Rightarrow> address \<Rightarrow> ProviderAccount" where
  "new_provider bump authority =
     \<lparr>provider_bump = bump, provider_status = PROVIDER_STATUS_ACTIVE, provider_authority = authority,
      provider_execution_key_count = 0,
      provider_execution_keys = replicate MAX_EXECUTION_KEYS (fill32 0)\<rparr>"

definition new_bond :: "byte \<Rightarrow> address \<Rightarrow> ConfigAccount \<Rightarrow> ProviderBondAccount" where
  "new_bond bump authority c =
     \<lparr>bond_bump = bump, bond_provider = authority, bond_mint = config_allowed_mint c,
      bond_token_program = config_token_program c, bond_deposited = 0, bond_locked = 0\<rparr>"

definition new_job ::
    "byte \<Rightarrow> address \<Rightarrow> address \<Rightarrow> ConfigAccount \<Rightarrow> CreateJobPayload \<Rightarrow> JobAccount" where
  "new_job bump buyer provider c payload =
     \<lparr>job_bump = bump, job_state = Created, job_buyer = buyer, job_provider = provider,
      job_mint = config_allowed_mint c, job_token_program = config_token_program c,
      job_amount = cjp_amount payload, job_nonce = cjp_job_nonce payload,
      job_fund_deadline = cjp_fund_deadline payload, job_accept_deadline = cjp_accept_deadline payload,
      job_work_deadline = cjp_work_deadline payload,
      job_auto_settle_deadline = cjp_auto_settle_deadline payload,
      job_receipt_digest = fill32 0, job_request_hash = cjp_request_hash payload,
      job_locked_bond = 0, job_mint_decimals = config_mint_decimals c\<rparr>"

definition deadlines_ordered :: "i64 \<Rightarrow> CreateJobPayload \<Rightarrow> bool" where
  "deadlines_ordered now payload \<longleftrightarrow>
     now <s cjp_fund_deadline payload \<and> cjp_fund_deadline payload <s cjp_accept_deadline payload \<and>
     cjp_accept_deadline payload <s cjp_work_deadline payload \<and>
     cjp_work_deadline payload <s cjp_auto_settle_deadline payload"

text \<open>Releasing a job's share of the bond, and paying out a settled escrow: what exceeds the job's
  amount goes to the buyer, the amount to the provider.\<close>

definition release_bond :: "JobAccount \<Rightarrow> ProviderBondAccount \<Rightarrow> ProviderBondAccount" where
  "release_bond j b = b\<lparr>bond_locked := bond_locked b - job_locked_bond j\<rparr>"

definition pay_out ::
    "address \<Rightarrow> address \<Rightarrow> address \<Rightarrow> u64 \<Rightarrow> u64 \<Rightarrow> (address \<Rightarrow> token_state option) \<Rightarrow>
       address \<Rightarrow> token_state option" where
  "pay_out escrow provider_token buyer_token amount balance T =
     move_tokens escrow provider_token amount (move_tokens escrow buyer_token (balance - amount) T)"

definition can_pay_out ::
    "address \<Rightarrow> address \<Rightarrow> address \<Rightarrow> u64 \<Rightarrow> u64 \<Rightarrow> (address \<Rightarrow> token_state option) \<Rightarrow> bool" where
  "can_pay_out escrow provider_token buyer_token amount balance T \<longleftrightarrow>
     can_move escrow buyer_token (balance - amount) T \<and>
     can_move escrow provider_token amount (move_tokens escrow buyer_token (balance - amount) T)"

definition due :: "i64 \<Rightarrow> ledger \<Rightarrow> bool" where
  "due deadline L \<longleftrightarrow> (\<exists>now. l_now L = Some now \<and> deadline \<le>s now)"

definition before :: "i64 \<Rightarrow> ledger \<Rightarrow> bool" where
  "before deadline L \<longleftrightarrow> (\<exists>now. l_now L = Some now \<and> now <s deadline)"

section \<open>The rules\<close>

inductive protocol_step :: "runtime \<Rightarrow> address \<Rightarrow> address set \<Rightarrow> ledger \<Rightarrow> ledger \<Rightarrow> bool"
  for rt :: runtime and pid :: address and S :: "address set" where
  initialize: "config_admin c \<in> S \<Longrightarrow>
    try_find_program_address rt config_seed_parts pid = Some (a, config_bump c) \<Longrightarrow> vacant L a \<Longrightarrow>
    \<not> config_paused c \<Longrightarrow> config_min_provider_bond c \<noteq> 0 \<Longrightarrow>
    0 <s config_challenge_duration_seconds c \<Longrightarrow> config_token_program c = token_program_id rt \<Longrightarrow>
    protocol_step rt pid S L (L\<lparr>l_config := (l_config L)(a \<mapsto> c)\<rparr>)"
| pause: "l_config L a = Some c \<Longrightarrow> config_derived rt pid a c \<Longrightarrow> config_admin c \<in> S \<Longrightarrow>
    protocol_step rt pid S L (L\<lparr>l_config := (l_config L)(a \<mapsto> c\<lparr>config_paused := paused\<rparr>)\<rparr>)"
| register: "config_in_force rt pid L c \<Longrightarrow> \<not> config_paused c \<Longrightarrow> authority \<in> S \<Longrightarrow>
    try_find_program_address rt (provider_seed_parts authority) pid = Some (a, bump) \<Longrightarrow>
    vacant L a \<Longrightarrow>
    protocol_step rt pid S L (L\<lparr>l_provider := (l_provider L)(a \<mapsto> new_provider bump authority)\<rparr>)"
| add_key: "l_provider L a = Some p \<Longrightarrow> provider_derived rt pid a p \<Longrightarrow> provider_authority p \<in> S \<Longrightarrow>
    provider_status p = PROVIDER_STATUS_ACTIVE \<Longrightarrow> key \<noteq> fill32 0 \<Longrightarrow> key \<notin> set (active_keys p) \<Longrightarrow>
    provider_ok q \<Longrightarrow> active_keys q = active_keys p @ [key] \<Longrightarrow>
    provider_authority q = provider_authority p \<Longrightarrow> provider_bump q = provider_bump p \<Longrightarrow>
    provider_status q = provider_status p \<Longrightarrow>
    protocol_step rt pid S L (L\<lparr>l_provider := (l_provider L)(a \<mapsto> q)\<rparr>)"
| revoke_key: "l_provider L a = Some p \<Longrightarrow> provider_derived rt pid a p \<Longrightarrow> provider_authority p \<in> S \<Longrightarrow>
    key \<in> set (active_keys p) \<Longrightarrow> provider_ok q \<Longrightarrow>
    mset (active_keys q) = mset (active_keys p) - {#key#} \<Longrightarrow>
    provider_authority q = provider_authority p \<Longrightarrow> provider_bump q = provider_bump p \<Longrightarrow>
    provider_status q = provider_status p \<Longrightarrow>
    protocol_step rt pid S L (L\<lparr>l_provider := (l_provider L)(a \<mapsto> q)\<rparr>)"
| deposit: "config_in_force rt pid L c \<Longrightarrow> \<not> config_paused c \<Longrightarrow> registered rt pid L p \<Longrightarrow>
    provider_authority p = authority \<Longrightarrow> provider_status p = PROVIDER_STATUS_ACTIVE \<Longrightarrow> authority \<in> S \<Longrightarrow>
    try_find_program_address rt (bond_seed_parts authority (config_allowed_mint c)) pid = Some (a, bump) \<Longrightarrow>
    vacant L a \<and> b = new_bond bump authority c \<or>
      l_bond L a = Some b \<and> bond_provider b = authority \<and> bond_mint b = config_allowed_mint c \<Longrightarrow>
    ata rt a (bond_mint b) = Some vault \<Longrightarrow> holds (l_token L) vault (bond_mint b) a x \<Longrightarrow>
    holds (l_token L) src (bond_mint b) authority y \<Longrightarrow> can_move src vault n (l_token L) \<Longrightarrow> n \<noteq> 0 \<Longrightarrow>
    unat (bond_deposited b) + unat n < 2 ^ 64 \<Longrightarrow>
    protocol_step rt pid S L (L\<lparr>
      l_bond := (l_bond L)(a \<mapsto> b\<lparr>bond_deposited := bond_deposited b + n\<rparr>),
      l_token := move_tokens src vault n (l_token L)\<rparr>)"
| withdraw: "l_bond L a = Some b \<Longrightarrow> bond_derived rt pid a b \<Longrightarrow> bond_provider b \<in> S \<Longrightarrow> n \<noteq> 0 \<Longrightarrow>
    n \<le> bond_deposited b - bond_locked b \<Longrightarrow> ata rt a (bond_mint b) = Some vault \<Longrightarrow>
    holds (l_token L) vault (bond_mint b) a x \<Longrightarrow>
    holds (l_token L) dst (bond_mint b) (bond_provider b) y \<Longrightarrow> can_move vault dst n (l_token L) \<Longrightarrow>
    protocol_step rt pid S L (L\<lparr>
      l_bond := (l_bond L)(a \<mapsto> b\<lparr>bond_deposited := bond_deposited b - n\<rparr>),
      l_token := move_tokens vault dst n (l_token L)\<rparr>)"
| create: "config_in_force rt pid L c \<Longrightarrow> \<not> config_paused c \<Longrightarrow> registered rt pid L p \<Longrightarrow>
    provider_status p = PROVIDER_STATUS_ACTIVE \<Longrightarrow> buyer \<in> S \<Longrightarrow> cjp_amount payload \<noteq> 0 \<Longrightarrow>
    cjp_request_hash payload \<noteq> fill32 0 \<Longrightarrow>
    l_now L = Some now \<Longrightarrow> deadlines_ordered now payload \<Longrightarrow>
    try_find_program_address rt (job_seed_parts buyer (provider_authority p)
      (job_nonce_le_bytes (cjp_job_nonce payload))) pid = Some (a, bump) \<Longrightarrow> vacant L a \<Longrightarrow>
    protocol_step rt pid S L (L\<lparr>
      l_job := (l_job L)(a \<mapsto> new_job bump buyer (provider_authority p) c payload)\<rparr>)"
| fund: "config_in_force rt pid L c \<Longrightarrow> \<not> config_paused c \<Longrightarrow> l_job L a = Some j \<Longrightarrow>
    job_derived rt pid a j \<Longrightarrow> job_buyer j \<in> S \<Longrightarrow> job_state j = Created \<Longrightarrow>
    before (job_fund_deadline j) L \<Longrightarrow> ata rt a (job_mint j) = Some escrow \<Longrightarrow>
    holds (l_token L) escrow (job_mint j) a 0 \<Longrightarrow>
    holds (l_token L) src (job_mint j) (job_buyer j) x \<Longrightarrow>
    can_move src escrow (job_amount j) (l_token L) \<Longrightarrow>
    protocol_step rt pid S L (L\<lparr>
      l_job := (l_job L)(a \<mapsto> j\<lparr>job_state := Funded\<rparr>),
      l_token := move_tokens src escrow (job_amount j) (l_token L)\<rparr>)"
| accept: "config_in_force rt pid L c \<Longrightarrow> \<not> config_paused c \<Longrightarrow> registered rt pid L p \<Longrightarrow>
    provider_status p = PROVIDER_STATUS_ACTIVE \<Longrightarrow> l_job L a = Some j \<Longrightarrow> job_derived rt pid a j \<Longrightarrow>
    job_provider j = provider_authority p \<Longrightarrow> job_provider j \<in> S \<Longrightarrow> job_state j = Funded \<Longrightarrow>
    before (job_accept_deadline j) L \<Longrightarrow> l_bond L ba = Some b \<Longrightarrow> bond_derived rt pid ba b \<Longrightarrow>
    bond_matches b j \<Longrightarrow> m = config_min_provider_bond c \<Longrightarrow>
    unat (bond_locked b) + unat m \<le> unat (bond_deposited b) \<Longrightarrow>
    protocol_step rt pid S L (L\<lparr>
      l_bond := (l_bond L)(ba \<mapsto> b\<lparr>bond_locked := bond_locked b + m\<rparr>),
      l_job := (l_job L)(a \<mapsto> j\<lparr>job_locked_bond := m, job_state := Accepted\<rparr>)\<rparr>)"
| submit: "registered rt pid L p \<Longrightarrow> provider_status p = PROVIDER_STATUS_ACTIVE \<Longrightarrow>
    l_job L a = Some j \<Longrightarrow> job_derived rt pid a j \<Longrightarrow> job_provider j = provider_authority p \<Longrightarrow>
    job_state j = Accepted \<Longrightarrow> \<not> (\<exists>now. l_now L = Some now \<and> job_work_deadline j <s now) \<Longrightarrow>
    key \<in> set (active_keys p) \<Longrightarrow>
    protocol_step rt pid S L (L\<lparr>
      l_job := (l_job L)(a \<mapsto> j\<lparr>job_receipt_digest := digest, job_state := Submitted\<rparr>)\<rparr>)"
| settle: "l_job L a = Some j \<Longrightarrow> job_derived rt pid a j \<Longrightarrow> job_state j = Submitted \<Longrightarrow>
    job_buyer j \<in> S \<or> due (job_auto_settle_deadline j) L \<Longrightarrow>
    l_bond L ba = Some b \<Longrightarrow> bond_derived rt pid ba b \<Longrightarrow> bond_matches b j \<Longrightarrow>
    job_locked_bond j \<le> bond_locked b \<Longrightarrow> ata rt a (job_mint j) = Some escrow \<Longrightarrow>
    ata rt (job_provider j) (job_mint j) = Some provider_token \<Longrightarrow>
    ata rt (job_buyer j) (job_mint j) = Some buyer_token \<Longrightarrow>
    holds (l_token L) escrow (job_mint j) a balance \<Longrightarrow> job_amount j \<le> balance \<Longrightarrow>
    can_pay_out escrow provider_token buyer_token (job_amount j) balance (l_token L) \<Longrightarrow>
    protocol_step rt pid S L (L\<lparr>
      l_bond := (l_bond L)(ba \<mapsto> release_bond j b),
      l_job := (l_job L)(a \<mapsto> j\<lparr>job_locked_bond := 0, job_state := Settled\<rparr>),
      l_token := pay_out escrow provider_token buyer_token (job_amount j) balance (l_token L)\<rparr>)"
| challenge: "config_in_force rt pid L c \<Longrightarrow> l_job L a = Some j \<Longrightarrow> job_derived rt pid a j \<Longrightarrow>
    job_buyer j \<in> S \<Longrightarrow> job_state j = Submitted \<Longrightarrow> l_now L = Some now \<Longrightarrow>
    now <s job_auto_settle_deadline j \<Longrightarrow>
    try_find_program_address rt (challenge_seed_parts a) pid = Some (ca, bump) \<Longrightarrow> vacant L ca \<Longrightarrow>
    sint deadline = sint now + sint (config_challenge_duration_seconds c) \<Longrightarrow>
    protocol_step rt pid S L (L\<lparr>
      l_challenge := (l_challenge L)(ca \<mapsto> \<lparr>challenge_bump = bump, challenge_status = STATUS_OPEN,
        challenge_job = a, challenge_buyer = job_buyer j, challenge_reason_hash = reason,
        challenge_bond_amount = 0, challenge_deadline = deadline\<rparr>),
      l_job := (l_job L)(a \<mapsto> j\<lparr>job_state := Challenged\<rparr>)\<rparr>)"
| settle_challenged: "l_job L a = Some j \<Longrightarrow> job_derived rt pid a j \<Longrightarrow> job_state j = Challenged \<Longrightarrow>
    l_challenge L ca = Some ch \<Longrightarrow> challenge_derived rt pid ca a ch \<Longrightarrow> challenge_job ch = a \<Longrightarrow>
    challenge_status ch = STATUS_OPEN \<Longrightarrow> due (challenge_deadline ch) L \<Longrightarrow>
    l_bond L ba = Some b \<Longrightarrow> bond_derived rt pid ba b \<Longrightarrow> bond_matches b j \<Longrightarrow>
    job_locked_bond j \<le> bond_locked b \<Longrightarrow> ata rt a (job_mint j) = Some escrow \<Longrightarrow>
    ata rt (job_provider j) (job_mint j) = Some provider_token \<Longrightarrow>
    ata rt (job_buyer j) (job_mint j) = Some buyer_token \<Longrightarrow>
    holds (l_token L) escrow (job_mint j) a balance \<Longrightarrow> job_amount j \<le> balance \<Longrightarrow>
    can_pay_out escrow provider_token buyer_token (job_amount j) balance (l_token L) \<Longrightarrow>
    protocol_step rt pid S L (L\<lparr>
      l_challenge := (l_challenge L)(ca := None),
      l_bond := (l_bond L)(ba \<mapsto> release_bond j b),
      l_job := (l_job L)(a \<mapsto> j\<lparr>job_locked_bond := 0, job_state := Settled\<rparr>),
      l_token := pay_out escrow provider_token buyer_token (job_amount j) balance (l_token L)\<rparr>)"
| refund: "l_job L a = Some j \<Longrightarrow> job_derived rt pid a j \<Longrightarrow>
    job_state j = Funded \<and> due (job_accept_deadline j) L \<or>
      job_state j = Accepted \<and> (\<exists>now. l_now L = Some now \<and> job_work_deadline j <s now) \<Longrightarrow>
    ata rt a (job_mint j) = Some escrow \<Longrightarrow>
    ata rt (job_buyer j) (job_mint j) = Some buyer_token \<Longrightarrow>
    holds (l_token L) escrow (job_mint j) a balance \<Longrightarrow> job_amount j \<le> balance \<Longrightarrow>
    job_locked_bond j = 0 \<and> bonds = l_bond L \<or>
      l_bond L ba = Some b \<and> bond_derived rt pid ba b \<and> bond_matches b j \<and>
      job_locked_bond j \<le> bond_locked b \<and> bonds = (l_bond L)(ba \<mapsto> release_bond j b) \<Longrightarrow>
    can_move escrow buyer_token balance (l_token L) \<Longrightarrow>
    protocol_step rt pid S L (L\<lparr>
      l_bond := bonds,
      l_job := (l_job L)(a \<mapsto> j\<lparr>job_locked_bond := 0, job_state := Refunded\<rparr>),
      l_token := move_tokens escrow buyer_token balance (l_token L)\<rparr>)"
| expire: "l_job L a = Some j \<Longrightarrow> job_derived rt pid a j \<Longrightarrow> job_state j = Created \<Longrightarrow>
    due (job_fund_deadline j) L \<Longrightarrow>
    protocol_step rt pid S L (L\<lparr>l_job := (l_job L)(a \<mapsto> j\<lparr>job_state := Expired\<rparr>)\<rparr>)"
| slash: "config_in_force rt pid L c \<Longrightarrow> config_admin c \<in> S \<Longrightarrow> l_job L a = Some j \<Longrightarrow>
    job_derived rt pid a j \<Longrightarrow> job_state j = Challenged \<Longrightarrow>
    l_challenge L ca = Some ch \<Longrightarrow> challenge_derived rt pid ca a ch \<Longrightarrow> challenge_job ch = a \<Longrightarrow>
    challenge_status ch = STATUS_OPEN \<Longrightarrow> before (challenge_deadline ch) L \<Longrightarrow>
    l_bond L ba = Some b \<Longrightarrow> bond_derived rt pid ba b \<Longrightarrow> bond_matches b j \<Longrightarrow>
    n = job_locked_bond j \<Longrightarrow> n \<noteq> 0 \<Longrightarrow> n \<le> bond_locked b \<Longrightarrow> n \<le> bond_deposited b \<Longrightarrow>
    ata rt a (job_mint j) = Some escrow \<Longrightarrow> ata rt ba (bond_mint b) = Some vault \<Longrightarrow>
    ata rt (job_buyer j) (job_mint j) = Some buyer_token \<Longrightarrow>
    holds (l_token L) escrow (job_mint j) a balance \<Longrightarrow> job_amount j \<le> balance \<Longrightarrow>
    can_move escrow buyer_token balance (l_token L) \<Longrightarrow>
    can_move vault buyer_token n (move_tokens escrow buyer_token balance (l_token L)) \<Longrightarrow>
    protocol_step rt pid S L (L\<lparr>
      l_challenge := (l_challenge L)(ca := None),
      l_bond := (l_bond L)(ba \<mapsto> b\<lparr>bond_locked := bond_locked b - n, bond_deposited := bond_deposited b - n\<rparr>),
      l_job := (l_job L)(a \<mapsto> j\<lparr>job_locked_bond := 0, job_state := Slashed\<rparr>),
      l_token := move_tokens vault buyer_token n (move_tokens escrow buyer_token balance (l_token L))\<rparr>)"
| close: "l_job L a = Some j \<Longrightarrow> job_derived rt pid a j \<Longrightarrow> job_buyer j \<in> S \<Longrightarrow> is_terminal (job_state j) \<Longrightarrow>
    tokens = l_token L \<or>
      l_token L e = Some t \<and> token_amount_of t = 0 \<and> tokens = (l_token L)(e := None) \<Longrightarrow>
    protocol_step rt pid S L (L\<lparr>l_job := (l_job L)(a := None), l_token := tokens\<rparr>)"

section \<open>From checks to the vocabulary\<close>

lemma holdsI:
  "validate_token_account rt v mint owner w = Inr n \<Longrightarrow> holds (token_at rt w) (view_address v) mint owner n"
  by (auto simp: result_inv holds_def)

lemma validate_ataD:
  assumes "validate_ata rt v wallet mint w = Inr n"
  shows "ata rt wallet mint = Some (view_address v)" "holds (token_at rt w) (view_address v) mint wallet n"
  using assms by (auto simp: validate_ata_eq_Inr intro: holdsI)

lemma signersI: "v \<in> set accounts \<Longrightarrow> view_is_signer v \<Longrightarrow> view_address v \<in> signers accounts"
  by (auto simp: signers_def)

lemma beforeI: "w_clock w = Some now \<Longrightarrow> \<not> deadline \<le>s now \<Longrightarrow> before deadline (ledger_of rt pid w)"
  by (simp add: before_def signed.not_le)

lemma dueI: "w_clock w = Some now \<Longrightarrow> \<not> now <s deadline \<Longrightarrow> due deadline (ledger_of rt pid w)"
  by (simp add: due_def signed.not_less)

lemma vacantI:
  "config_at pid w a = None \<Longrightarrow> provider_at pid w a = None \<Longrightarrow> bond_at pid w a = None \<Longrightarrow>
   job_at pid w a = None \<Longrightarrow> challenge_at pid w a = None \<Longrightarrow> vacant (ledger_of rt pid w) a"
  by (simp add: vacant_def)

lemma create_vacant:
  "deployment rt pid \<Longrightarrow> 0 < n \<Longrightarrow> create_pda_account rt payer v pid n seeds w = Inr w' \<Longrightarrow>
   vacant (ledger_of rt pid w) (view_address v)"
  by (intro vacantI) (auto dest: ledger_create)

lemma config_in_forceI:
  "config_at pid w a = Some c \<Longrightarrow> config_derived rt pid a c \<Longrightarrow>
   config_in_force rt pid (ledger_of rt pid w) c"
  by (auto simp: config_in_force_def)

lemma registeredI:
  "provider_at pid w a = Some p \<Longrightarrow> provider_derived rt pid a p \<Longrightarrow>
   registered rt pid (ledger_of rt pid w) p"
  by (auto simp: registered_def)

lemma move_nothing [simp]: "move_tokens src dst 0 T = T"
  by (auto simp: move_tokens_def change_amount_def fun_eq_iff map_option.identity option.map_ident
      split: option.splits)

lemma can_move_nothing:
  "T src = Some s \<Longrightarrow> T dst = Some d \<Longrightarrow> token_mint s = token_mint d \<Longrightarrow> can_move src dst 0 T"
  using unsigned_less [of "token_amount_of d"] by (auto simp: can_move_def)

lemma holds_undelegated: "holds T a m owner n \<Longrightarrow> undelegated T a"
  by (auto simp: holds_def undelegated_def plain_token_def)

text \<open>The two transfers of a settlement pay out the escrow.\<close>

lemma pay_out_steps:
  assumes D: "deployment rt pid"
    and s: "return_surplus_to_buyer rt escrow mint buyer_token auth amount decimals seeds w = Inr w1"
    and t: "transfer_checked rt escrow mint provider_token auth amount decimals' seeds' w1 = Inr w2"
    and e: "holds (token_at rt w) (view_address escrow) m a balance"
    and b: "holds (token_at rt w) (view_address buyer_token) m a' x"
  shows "amount \<le> balance"
    and "ledger_of rt pid w2 = (ledger_of rt pid w)\<lparr>l_token := pay_out (view_address escrow)
       (view_address provider_token) (view_address buyer_token) amount balance (token_at rt w)\<rparr>"
    and "can_pay_out (view_address escrow) (view_address provider_token) (view_address buyer_token)
       amount balance (token_at rt w)"
proof -
  from e obtain te where te: "token_at rt w (view_address escrow) = Some te" "token_amount_of te = balance"
    "token_mint te = m"
    by (auto simp: holds_def plain_token_def)
  from b obtain tb where tb: "token_at rt w (view_address buyer_token) = Some tb" "token_mint tb = m"
    by (auto simp: holds_def plain_token_def)
  from s te show "amount \<le> balance" by (auto simp: result_inv)
  have first: "ledger_of rt pid w1 = (ledger_of rt pid w)\<lparr>l_token := move_tokens (view_address escrow)
      (view_address buyer_token) (balance - amount) (token_at rt w)\<rparr> \<and>
    can_move (view_address escrow) (view_address buyer_token) (balance - amount) (token_at rt w)"
  proof (cases "balance = amount")
    case True
    then show ?thesis using s te tb by (auto simp: result_inv can_move_nothing ledger_of_def)
  next
    case False
    then have "transfer_checked rt escrow mint buyer_token auth (balance - amount) decimals (Some seeds) w = Inr w1"
      using s te by (auto simp: return_surplus_eq_Inr)
    from ledger_transfer [OF D this holds_undelegated [OF e]] show ?thesis by blast
  qed
  have "token_at rt w1 = move_tokens (view_address escrow) (view_address buyer_token) (balance - amount) (token_at rt w)"
    using first by (simp add: ledger_fields [OF conjunct1 [OF first]])
  with holds_undelegated [OF e] have "undelegated (token_at rt w1) (view_address escrow)" by simp
  note second = ledger_transfer [OF D t this]
  show "ledger_of rt pid w2 = (ledger_of rt pid w)\<lparr>l_token := pay_out (view_address escrow)
       (view_address provider_token) (view_address buyer_token) amount balance (token_at rt w)\<rparr>"
    using first second(1) by (simp add: pay_out_def ledger_fields [OF conjunct1 [OF first]])
  show "can_pay_out (view_address escrow) (view_address provider_token) (view_address buyer_token)
       amount balance (token_at rt w)"
    using first second(2) by (simp add: can_pay_out_def ledger_fields [OF conjunct1 [OF first]])
qed

end
