(* ===== verification/Config_Handlers.thy ===== *)
theory Config_Handlers
  imports Protocol
begin

text \<open>
  The two handlers of the administrator, from \<^verbatim>\<open>processor/initialize_config.rs\<close> and
  \<^verbatim>\<open>processor/set_paused.rs\<close>, with what a successful run needs and does.
\<close>

definition process_initialize_config ::
    "runtime \<Rightarrow> address \<Rightarrow> AccountView list \<Rightarrow> InitializeConfigPayload \<Rightarrow> world \<Rightarrow>
       ProgramError + world" where
  "process_initialize_config rt program_id accounts payload w =
     tryE (next_account accounts) (\<lambda>(admin, accounts).
     tryE (next_account accounts) (\<lambda>(config_account, accounts).
     tryE (next_account accounts) (\<lambda>(system_program, accounts).
     tryE (require_signer admin) (\<lambda>_.
     tryE (require_system_program rt system_program) (\<lambda>_.
     tryE (require_legacy_token_program_id rt (icp_token_program payload)) (\<lambda>_.
     tryE (ensure (icp_min_provider_bond payload \<noteq> 0) (fail InvalidAmount)) (\<lambda>_.
     tryE (ensure (\<not> icp_challenge_duration_seconds payload \<le>s 0) (fail InvalidConfig)) (\<lambda>_.
     tryE (ensure (\<not> (icp_allowed_mint payload = fill32 0 \<or> icp_genesis_hash payload = fill32 0))
             (fail InvalidPubkey)) (\<lambda>_.
     tryE (ok_or (try_find_program_address rt [CONFIG_SEED] program_id) (fail InvalidPda))
       (\<lambda>(expected, bump).
     tryE (ensure (view_address config_account = expected) (fail InvalidPda)) (\<lambda>_.
     tryE (require_uninitialized rt config_account w) (\<lambda>_.
     let seeds = [CONFIG_SEED, [bump]]
     in tryE (create_pda_account rt admin config_account program_id CONFIG_ACCOUNT_LEN seeds w) (\<lambda>w.
     let config = \<lparr>config_bump = bump, config_paused = False, config_admin = view_address admin,
                   config_genesis_hash = icp_genesis_hash payload,
                   config_allowed_mint = icp_allowed_mint payload,
                   config_token_program = icp_token_program payload,
                   config_mint_decimals = icp_mint_decimals payload,
                   config_min_provider_bond = icp_min_provider_bond payload,
                   config_challenge_duration_seconds = icp_challenge_duration_seconds payload\<rparr>
     in tryE (save_config config_account config w) (\<lambda>w.
     tryE (now_ts w) (\<lambda>now.
     emit ConfigInitialized (view_address config_account) (view_address admin) 0 now w)))))))))))))))"

definition process_set_paused ::
    "runtime \<Rightarrow> address \<Rightarrow> AccountView list \<Rightarrow> bool \<Rightarrow> world \<Rightarrow> ProgramError + world" where
  "process_set_paused rt program_id accounts paused w =
     tryE (next_account accounts) (\<lambda>(admin, accounts).
     tryE (next_account accounts) (\<lambda>(config_account, accounts).
     tryE (require_signer admin) (\<lambda>_.
     tryE (require_writable config_account) (\<lambda>_.
     tryE (load_validated_config rt program_id config_account w) (\<lambda>config.
     tryE (require_admin admin config) (\<lambda>_.
     let config = config\<lparr>config_paused := paused\<rparr>
     in tryE (save_config config_account config w) (\<lambda>w.
     tryE (now_ts w) (\<lambda>now.
     emit PauseChanged (view_address config_account) (view_address admin) (if paused then 1 else 0)
       now w))))))))"

section \<open>What a successful run has checked and done\<close>

lemma initialize_config_inv:
  assumes "process_initialize_config rt pid accounts payload w = Inr w'"
  obtains (run) admin config_account system_program rest bump now w1 w2
  where "accounts = admin # config_account # system_program # rest" "view_is_signer admin"
    "icp_token_program payload = token_program_id rt" "icp_min_provider_bond payload \<noteq> 0"
    "\<not> icp_challenge_duration_seconds payload \<le>s 0"
    "try_find_program_address rt [CONFIG_SEED] pid = Some (view_address config_account, bump)"
    "create_pda_account rt admin config_account pid CONFIG_ACCOUNT_LEN [CONFIG_SEED, [bump]] w = Inr w1"
    "save_config config_account (new_config bump (view_address admin) payload) w1 = Inr w2"
    "emit ConfigInitialized (view_address config_account) (view_address admin) 0 now w2 = Inr w'"
  using assms unfolding process_initialize_config_def handler_start
  by (simp (no_asm_use) only: handler_inv)
     (elim exE conjE, rule that, (assumption | rule refl | simp add: new_config_def)+)

lemma set_paused_inv:
  assumes "process_set_paused rt pid accounts paused w = Inr w'"
  obtains (run) admin config_account rest c now w1
  where "accounts = admin # config_account # rest" "view_is_signer admin"
    "config_at pid w (view_address config_account) = Some c"
    "config_derived rt pid (view_address config_account) c" "view_address admin = config_admin c"
    "save_config config_account (c\<lparr>config_paused := paused\<rparr>) w = Inr w1"
    "emit PauseChanged (view_address config_account) (view_address admin) (if paused then 1 else 0) now
       w1 = Inr w'"
  using assms unfolding process_set_paused_def handler_start
  by (simp (no_asm_use) only: handler_inv)
     (elim exE conjE, rule that, (assumption | rule refl | simp)+)

section \<open>Refinement of the protocol\<close>

lemma initialize_config_refines:
  assumes D: "deployment rt pid" and p: "process_initialize_config rt pid accounts payload w = Inr w'"
  shows "protocol_step rt pid (signers accounts) (ledger_of rt pid w) (ledger_of rt pid w')"
  using p
proof (cases rule: initialize_config_inv)
  case (run admin config_account system_program rest bump now w1 w2)
  let ?c = "new_config bump (view_address admin) payload"
  note create = ledger_create [OF D zero_less_numeral run(7)]
  note save = ledger_save_config [OF D run(8) disjI2 [OF create(2)]]
  have w': "ledger_of rt pid w' =
      (ledger_of rt pid w)\<lparr>l_config := (config_at pid w)(view_address config_account \<mapsto> ?c)\<rparr>"
    by (simp add: ledger_emit [OF run(9)] save create(1) ledger_fields [OF create(1)])
  have "view_address admin \<in> signers accounts" using run(1,2) by (simp add: signersI)
  then show ?thesis unfolding w'
    using run protocol_step.initialize [of ?c "signers accounts" rt pid "view_address config_account"
        "ledger_of rt pid w"] create_vacant [OF D zero_less_numeral run(7)]
    by (simp add: new_config_def config_seed_parts_def signed.not_le)
qed

lemma set_paused_refines:
  assumes D: "deployment rt pid" and p: "process_set_paused rt pid accounts paused w = Inr w'"
  shows "protocol_step rt pid (signers accounts) (ledger_of rt pid w) (ledger_of rt pid w')"
  using p
proof (cases rule: set_paused_inv)
  case (run admin config_account rest c now w1)
  have w': "ledger_of rt pid w' = (ledger_of rt pid w)\<lparr>
      l_config := (config_at pid w)(view_address config_account \<mapsto> c\<lparr>config_paused := paused\<rparr>)\<rparr>"
    using run(3) by (simp add: ledger_emit [OF run(7)] ledger_save_config [OF D run(6)])
  have "config_admin c \<in> signers accounts"
    using signersI [of admin accounts] run(1,2,5) by simp
  then show ?thesis unfolding w'
    using run protocol_step.pause [of "ledger_of rt pid w" "view_address config_account" c rt pid]
    by simp
qed

end
