(* ===== verification/Provider_Handlers.thy ===== *)
theory Provider_Handlers
  imports Protocol
begin

text \<open>
  Provider registration and the provider's execution keys, from
  \<^verbatim>\<open>processor/register_provider.rs\<close> and \<^verbatim>\<open>processor/execution_keys.rs\<close>.
\<close>

definition process_register_provider ::
    "runtime \<Rightarrow> address \<Rightarrow> AccountView list \<Rightarrow> world \<Rightarrow> ProgramError + world" where
  "process_register_provider rt program_id accounts w =
     tryE (next_account accounts) (\<lambda>(authority, accounts).
     tryE (next_account accounts) (\<lambda>(config_account, accounts).
     tryE (next_account accounts) (\<lambda>(provider_account, accounts).
     tryE (next_account accounts) (\<lambda>(system_program, accounts).
     tryE (require_signer authority) (\<lambda>_.
     tryE (require_system_program rt system_program) (\<lambda>_.
     tryE (load_validated_config_readonly rt program_id config_account w) (\<lambda>config.
     tryE (require_not_paused config) (\<lambda>_.
     let authority_bytes = view_address authority
     in tryE (ok_or (try_find_program_address rt [PROVIDER_SEED, to_bytes authority_bytes] program_id)
             (fail InvalidPda)) (\<lambda>(expected, bump).
     tryE (ensure (view_address provider_account = expected) (fail InvalidPda)) (\<lambda>_.
     tryE (require_uninitialized rt provider_account w) (\<lambda>_.
     let seeds = [PROVIDER_SEED, to_bytes authority_bytes, [bump]]
     in tryE (create_pda_account rt authority provider_account program_id PROVIDER_ACCOUNT_LEN seeds w)
       (\<lambda>w.
     let provider = \<lparr>provider_bump = bump, provider_status = PROVIDER_STATUS_ACTIVE,
                     provider_authority = authority_bytes, provider_execution_key_count = 0,
                     provider_execution_keys = replicate MAX_EXECUTION_KEYS (fill32 0)\<rparr>
     in tryE (save_provider provider_account provider w) (\<lambda>w.
     tryE (now_ts w) (\<lambda>now.
     emit ProviderRegistered (view_address provider_account) (view_address authority) 0 now w))))))))))))))"

definition add_execution_key ::
    "runtime \<Rightarrow> address \<Rightarrow> AccountView list \<Rightarrow> bytes32 \<Rightarrow> world \<Rightarrow> ProgramError + world" where
  "add_execution_key rt program_id accounts key w =
     tryE (next_account accounts) (\<lambda>(authority, accounts).
     tryE (next_account accounts) (\<lambda>(provider_account, accounts).
     tryE (require_signer authority) (\<lambda>_.
     tryE (require_writable provider_account) (\<lambda>_.
     tryE (ensure (key \<noteq> fill32 0) (fail InvalidPubkey)) (\<lambda>_.
     tryE (load_validated_provider rt program_id provider_account w) (\<lambda>provider.
     tryE (require_keys_eq (view_address authority) (provider_authority provider) Unauthorized) (\<lambda>_.
     tryE (ensure (provider_status provider = PROVIDER_STATUS_ACTIVE) (fail ProviderInactive)) (\<lambda>_.
     tryE (ensure (\<not> contains_execution_key provider key) (fail DuplicateExecutionKey)) (\<lambda>_.
     let count = unat (provider_execution_key_count provider)
     in tryE (ensure (\<not> count \<ge> MAX_EXECUTION_KEYS) (fail ExecutionKeyLimit)) (\<lambda>_.
     let provider = provider\<lparr>provider_execution_keys := (provider_execution_keys provider)[count := key]\<rparr>
     in tryE (ok_or (checked_add (provider_execution_key_count provider) 1) (fail MathOverflow))
       (\<lambda>new_count.
     let provider = provider\<lparr>provider_execution_key_count := new_count\<rparr>
     in tryE (save_provider provider_account provider w) (\<lambda>w.
     tryE (now_ts w) (\<lambda>now.
     emit ExecutionKeyAdded (view_address provider_account) (view_address authority) 0 now w)))))))))))))"

text \<open>The search loop of \<open>revoke_execution_key\<close>: the first index below \<open>count\<close> that holds the
  key.\<close>

fun find_key :: "bytes32 list \<Rightarrow> bytes32 \<Rightarrow> nat \<Rightarrow> nat \<Rightarrow> nat option" where
  "find_key keys key index 0 = None"
| "find_key keys key index (Suc n) =
     (if keys ! index = key then Some index else find_key keys key (index + 1) n)"

definition revoke_execution_key ::
    "runtime \<Rightarrow> address \<Rightarrow> AccountView list \<Rightarrow> bytes32 \<Rightarrow> world \<Rightarrow> ProgramError + world" where
  "revoke_execution_key rt program_id accounts key w =
     tryE (next_account accounts) (\<lambda>(authority, accounts).
     tryE (next_account accounts) (\<lambda>(provider_account, accounts).
     tryE (require_signer authority) (\<lambda>_.
     tryE (require_writable provider_account) (\<lambda>_.
     tryE (load_validated_provider rt program_id provider_account w) (\<lambda>provider.
     tryE (require_keys_eq (view_address authority) (provider_authority provider) Unauthorized) (\<lambda>_.
     let count = unat (provider_execution_key_count provider);
         found = find_key (provider_execution_keys provider) key 0 count
     in tryE (ok_or found (fail ExecutionKeyNotFound)) (\<lambda>index.
     tryE (ok_or (if 1 \<le> count then Some (count - 1) else None) (fail MathOverflow)) (\<lambda>last_index.
     let keys = provider_execution_keys provider;
         keys = (if index \<noteq> last_index then keys[index := keys ! last_index] else keys);
         keys = keys[last_index := fill32 0];
         provider = provider\<lparr>provider_execution_keys := keys\<rparr>
     in tryE (ok_or (checked_sub (provider_execution_key_count provider) 1) (fail MathOverflow))
       (\<lambda>new_count.
     let provider = provider\<lparr>provider_execution_key_count := new_count\<rparr>
     in tryE (save_provider provider_account provider w) (\<lambda>w.
     tryE (now_ts w) (\<lambda>now.
     emit ExecutionKeyRevoked (view_address provider_account) (view_address authority) 0 now w)))))))))))"

section \<open>The key list\<close>

lemma find_key_eq_Some:
  "find_key keys key index n = Some k \<longleftrightarrow>
     index \<le> k \<and> k < index + n \<and> keys ! k = key \<and> (\<forall>i. index \<le> i \<and> i < k \<longrightarrow> keys ! i \<noteq> key)"
proof (induction n arbitrary: index)
  case (Suc n)
  show ?case
    by (auto simp: Suc.IH le_Suc_eq Suc_le_eq) (metis le_neq_implies_less less_irrefl order.refl)+
qed simp

lemma find_key_eq_None:
  "find_key keys key index n = None \<longleftrightarrow> (\<forall>i. index \<le> i \<and> i < index + n \<longrightarrow> keys ! i \<noteq> key)"
proof (induction n arbitrary: index)
  case (Suc n)
  have "index \<le> i \<and> i < index + Suc n \<longleftrightarrow> i = index \<or> Suc index \<le> i \<and> i < Suc index + n" for i
    by auto
  then show ?case by (auto simp: Suc.IH)
qed auto

lemma take_append_key: "n < length xs \<Longrightarrow> take (Suc n) (xs[n := x]) = take n xs @ [x]"
  by (simp add: take_Suc_conv_app_nth)

text \<open>Removing by overwriting with the last entry: the order may change, the contents lose exactly
  the removed key.\<close>

lemma swap_remove:
  assumes "i \<le> m" "m < length xs"
  shows "mset (take m ((if i \<noteq> m then xs[i := xs ! m] else xs)[m := z])) = mset (take (Suc m) xs) - {#xs ! i#}"
proof (cases "i = m")
  case True
  then show ?thesis using assms by (simp add: take_Suc_conv_app_nth)
next
  case False
  with assms have i: "i < length (take m xs)" by simp
  have "mset (take m (xs[i := xs ! m])) = add_mset (xs ! m) (mset (take m xs) - {#xs ! i#})"
    using i by (simp add: take_update_swap mset_update)
  moreover have "xs ! i \<in># mset (take m xs)"
    using i by (metis length_take min_less_iff_conj nth_mem nth_take set_mset_mset)
  ultimately show ?thesis using False assms by (simp add: take_Suc_conv_app_nth)
qed

definition keys_added :: "ProviderAccount \<Rightarrow> bytes32 \<Rightarrow> byte \<Rightarrow> ProviderAccount" where
  "keys_added p key n = p\<lparr>
     provider_execution_keys :=
       (provider_execution_keys p)[unat (provider_execution_key_count p) := key],
     provider_execution_key_count := n\<rparr>"

definition keys_removed :: "ProviderAccount \<Rightarrow> nat \<Rightarrow> nat \<Rightarrow> byte \<Rightarrow> ProviderAccount" where
  "keys_removed p i m n = p\<lparr>
     provider_execution_keys :=
       (if i \<noteq> m then (provider_execution_keys p)[i := provider_execution_keys p ! m]
        else provider_execution_keys p)[m := fill32 0],
     provider_execution_key_count := n\<rparr>"

lemma active_keys_added:
  assumes "provider_ok p" "unat (provider_execution_key_count p) < MAX_EXECUTION_KEYS"
    "unat n = unat (provider_execution_key_count p) + 1"
  shows "provider_ok (keys_added p key n)" "active_keys (keys_added p key n) = active_keys p @ [key]"
  using assms by (auto simp: provider_ok_def keys_added_def active_keys_def take_append_key)

lemma active_keys_removed:
  assumes "provider_ok p" "i \<le> m" "Suc m = unat (provider_execution_key_count p)" "unat n = m"
  shows "provider_ok (keys_removed p i m n)"
    "mset (active_keys (keys_removed p i m n)) = mset (active_keys p) - {#provider_execution_keys p ! i#}"
  using assms swap_remove [of i m "provider_execution_keys p" "fill32 0"]
  by (auto simp: provider_ok_def keys_removed_def active_keys_def)

lemma if_Some_eq: "(if c then Some x else None) = Some y \<longleftrightarrow> c \<and> y = x"
  by auto

section \<open>What a successful run has checked and done\<close>

lemma register_provider_inv:
  assumes "process_register_provider rt pid accounts w = Inr w'"
  obtains (run) authority config_account provider_account system_program rest c bump now w1 w2
  where "accounts = authority # config_account # provider_account # system_program # rest"
    "view_is_signer authority" "config_at pid w (view_address config_account) = Some c"
    "config_derived rt pid (view_address config_account) c" "\<not> config_paused c"
    "try_find_program_address rt [PROVIDER_SEED, to_bytes (view_address authority)] pid =
       Some (view_address provider_account, bump)"
    "create_pda_account rt authority provider_account pid PROVIDER_ACCOUNT_LEN
       [PROVIDER_SEED, to_bytes (view_address authority), [bump]] w = Inr w1"
    "save_provider provider_account (new_provider bump (view_address authority)) w1 = Inr w2"
    "emit ProviderRegistered (view_address provider_account) (view_address authority) 0 now w2 = Inr w'"
  using assms unfolding process_register_provider_def handler_start
  by (simp (no_asm_use) only: handler_inv)
     (elim exE conjE, rule that [unfolded new_provider_def], (assumption | rule refl | simp)+)

lemma add_execution_key_inv:
  assumes "add_execution_key rt pid accounts key w = Inr w'"
  obtains (run) authority provider_account rest p n now w1
  where "accounts = authority # provider_account # rest" "view_is_signer authority"
    "key \<noteq> fill32 0" "provider_at pid w (view_address provider_account) = Some p"
    "provider_derived rt pid (view_address provider_account) p"
    "view_address authority = provider_authority p" "provider_status p = PROVIDER_STATUS_ACTIVE"
    "\<not> contains_execution_key p key"
    "\<not> unat (provider_execution_key_count p) \<ge> MAX_EXECUTION_KEYS"
    "checked_add (provider_execution_key_count p) 1 = Some n"
    "save_provider provider_account (keys_added p key n) w = Inr w1"
    "emit ExecutionKeyAdded (view_address provider_account) (view_address authority) 0 now w1 = Inr w'"
  using assms unfolding add_execution_key_def handler_start
  by (simp (no_asm_use) only: handler_inv)
     (elim exE conjE, rule that [unfolded keys_added_def], (assumption | rule refl | simp)+)

lemma revoke_execution_key_inv:
  assumes "revoke_execution_key rt pid accounts key w = Inr w'"
  obtains (run) authority provider_account rest p i n now w1
  where "accounts = authority # provider_account # rest" "view_is_signer authority"
    "provider_at pid w (view_address provider_account) = Some p"
    "provider_derived rt pid (view_address provider_account) p"
    "view_address authority = provider_authority p"
    "find_key (provider_execution_keys p) key 0 (unat (provider_execution_key_count p)) = Some i"
    "checked_sub (provider_execution_key_count p) 1 = Some n"
    "save_provider provider_account (keys_removed p i (unat (provider_execution_key_count p) - 1) n) w =
       Inr w1"
    "emit ExecutionKeyRevoked (view_address provider_account) (view_address authority) 0 now w1 = Inr w'"
  using assms unfolding revoke_execution_key_def handler_start
  by (simp (no_asm_use) only: handler_inv if_Some_eq conj_assoc)
     (elim exE conjE, rule that [unfolded keys_removed_def], (assumption | rule refl | simp)+)

section \<open>Refinement of the protocol\<close>

lemma register_provider_refines:
  assumes D: "deployment rt pid" and p: "process_register_provider rt pid accounts w = Inr w'"
  shows "protocol_step rt pid (signers accounts) (ledger_of rt pid w) (ledger_of rt pid w')"
  using p
proof (cases rule: register_provider_inv)
  case (run authority config_account provider_account system_program rest c bump now w1 w2)
  let ?p = "new_provider bump (view_address authority)"
  note create = ledger_create [OF D zero_less_numeral run(7)]
  have ok: "provider_ok ?p" by (simp add: new_provider_def provider_ok_def)
  note save = ledger_save_provider [OF D run(8) ok disjI2 [OF create(2)]]
  have w': "ledger_of rt pid w' =
      (ledger_of rt pid w)\<lparr>l_provider := (provider_at pid w)(view_address provider_account \<mapsto> ?p)\<rparr>"
    by (simp add: ledger_emit [OF run(9)] save create(1) ledger_fields [OF create(1)])
  have "view_address authority \<in> signers accounts" using run(1,2) by (simp add: signersI)
  then show ?thesis unfolding w'
    using run config_in_forceI [OF run(3,4)] create_vacant [OF D zero_less_numeral run(7)]
      protocol_step.register [of rt pid "ledger_of rt pid w" c "view_address authority" "signers accounts"
        "view_address provider_account" bump]
    by (simp add: provider_seed_parts_def)
qed

lemma add_execution_key_effect:
  assumes D: "deployment rt pid" and p: "add_execution_key rt pid accounts key w = Inr w'"
  obtains (run) authority provider_account rest p q
  where "accounts = authority # provider_account # rest" "view_is_signer authority"
    "provider_at pid w (view_address provider_account) = Some p"
    "provider_derived rt pid (view_address provider_account) p"
    "provider_authority p = view_address authority" "provider_status p = PROVIDER_STATUS_ACTIVE"
    "key \<noteq> fill32 0" "key \<notin> set (active_keys p)" "length (active_keys p) < MAX_EXECUTION_KEYS"
    "provider_ok q" "active_keys q = active_keys p @ [key]" "provider_authority q = provider_authority p"
    "provider_bump q = provider_bump p" "provider_status q = provider_status p"
    "ledger_of rt pid w' =
      (ledger_of rt pid w)\<lparr>l_provider := (provider_at pid w)(view_address provider_account \<mapsto> q)\<rparr>"
  using p
proof (cases rule: add_execution_key_inv)
  case (run authority provider_account rest p n now w1)
  let ?q = "keys_added p key n"
  have keys: "provider_ok ?q" "active_keys ?q = active_keys p @ [key]"
    using active_keys_added [of p n key] provider_store.stored_ok [OF run(4)] run(9,10)
    by (auto simp: checked_add_eq_Some)
  have w': "ledger_of rt pid w' =
      (ledger_of rt pid w)\<lparr>l_provider := (provider_at pid w)(view_address provider_account \<mapsto> ?q)\<rparr>"
    using run(4) by (simp add: ledger_emit [OF run(12)] ledger_save_provider [OF D run(11) keys(1)])
  show thesis
    using run(8,9) by (intro that [OF run(1,2,4,5) run(6) [symmetric] run(7,3) _ _ keys _ _ _ w'])
      (auto simp: keys_added_def contains_execution_key_iff active_keys_def)
qed

lemma add_execution_key_refines:
  assumes D: "deployment rt pid" and p: "add_execution_key rt pid accounts key w = Inr w'"
  shows "protocol_step rt pid (signers accounts) (ledger_of rt pid w) (ledger_of rt pid w')"
  using D p
proof (cases rule: add_execution_key_effect)
  case (run authority provider_account rest p q)
  have "provider_authority p \<in> signers accounts"
    using signersI [of authority accounts] run(1,2,5) by simp
  then show ?thesis unfolding run(15)
    using run(3,4,6-14) protocol_step.add_key [of "ledger_of rt pid w" "view_address provider_account" p rt pid
        "signers accounts" key q]
    by simp
qed

lemma revoke_execution_key_effect:
  assumes D: "deployment rt pid" and p: "revoke_execution_key rt pid accounts key w = Inr w'"
  obtains (run) authority provider_account rest p q
  where "accounts = authority # provider_account # rest" "view_is_signer authority"
    "provider_at pid w (view_address provider_account) = Some p"
    "provider_derived rt pid (view_address provider_account) p"
    "provider_authority p = view_address authority" "key \<in> set (active_keys p)"
    "provider_ok q" "mset (active_keys q) = mset (active_keys p) - {#key#}"
    "provider_authority q = provider_authority p" "provider_bump q = provider_bump p"
    "provider_status q = provider_status p"
    "ledger_of rt pid w' =
      (ledger_of rt pid w)\<lparr>l_provider := (provider_at pid w)(view_address provider_account \<mapsto> q)\<rparr>"
  using p
proof (cases rule: revoke_execution_key_inv)
  case (run authority provider_account rest p i n now w1)
  let ?m = "unat (provider_execution_key_count p) - 1"
  let ?q = "keys_removed p i ?m n"
  have i: "i < unat (provider_execution_key_count p)" "provider_execution_keys p ! i = key"
    using run(6) by (auto simp: find_key_eq_Some)
  have ok: "provider_ok p" by (rule provider_store.stored_ok [OF run(3)])
  have keys: "provider_ok ?q" "mset (active_keys ?q) = mset (active_keys p) - {#key#}"
    using active_keys_removed [OF ok, of i ?m n] run(7) i by (auto simp: checked_sub_eq_Some)
  have key: "key \<in> set (active_keys p)"
    using i ok by (auto simp: active_keys_def in_set_conv_nth provider_ok_def)
  have w': "ledger_of rt pid w' =
      (ledger_of rt pid w)\<lparr>l_provider := (provider_at pid w)(view_address provider_account \<mapsto> ?q)\<rparr>"
    using run(3) by (simp add: ledger_emit [OF run(9)] ledger_save_provider [OF D run(8) keys(1)])
  show thesis
    by (rule that [OF run(1-4) run(5) [symmetric] key keys _ _ _ w']) (simp_all add: keys_removed_def)
qed

lemma revoke_execution_key_refines:
  assumes D: "deployment rt pid" and p: "revoke_execution_key rt pid accounts key w = Inr w'"
  shows "protocol_step rt pid (signers accounts) (ledger_of rt pid w) (ledger_of rt pid w')"
  using D p
proof (cases rule: revoke_execution_key_effect)
  case (run authority provider_account rest p q)
  have "provider_authority p \<in> signers accounts"
    using signersI [of authority accounts] run(1,2,5) by simp
  then show ?thesis unfolding run(12)
    using run(3,4,6-11) protocol_step.revoke_key [of "ledger_of rt pid w" "view_address provider_account" p rt pid
        "signers accounts" key q]
    by simp
qed

end
