(* ===== verification/Bond_Handlers.thy ===== *)
theory Bond_Handlers
  imports Protocol
begin

text \<open>
  The provider's bond: \<^verbatim>\<open>processor/deposit_bond.rs\<close> and \<^verbatim>\<open>processor/withdraw_bond.rs\<close>.
\<close>

text \<open>The \<open>let bond = if ... else ...\<close> of the deposit: the account is created on the first deposit and
  loaded afterwards.\<close>

definition open_bond ::
    "runtime \<Rightarrow> address \<Rightarrow> AccountView \<Rightarrow> AccountView \<Rightarrow> ConfigAccount \<Rightarrow> byte \<Rightarrow> world \<Rightarrow>
       ProgramError + (world \<times> ProviderBondAccount)" where
  "open_bond rt program_id authority bond_account config bump w =
     (let authority_bytes = view_address authority
      in if owned_by bond_account (system_program_id rt) w \<and> is_data_empty bond_account w
      then
        tryE (require_uninitialized rt bond_account w) (\<lambda>_.
        let seeds = [BOND_SEED, to_bytes authority_bytes, to_bytes (config_allowed_mint config), [bump]]
        in tryE (create_pda_account rt authority bond_account program_id
               PROVIDER_BOND_ACCOUNT_LEN seeds w) (\<lambda>w.
        Inr (w, \<lparr>bond_bump = bump, bond_provider = authority_bytes,
                 bond_mint = config_allowed_mint config,
                 bond_token_program = config_token_program config,
                 bond_deposited = 0, bond_locked = 0\<rparr>)))
      else
        tryE (require_writable bond_account) (\<lambda>_.
        tryE (load_validated_bond rt program_id bond_account w) (\<lambda>existing.
        tryE (ensure (\<not> (bond_provider existing \<noteq> authority_bytes \<or>
                         bond_mint existing \<noteq> config_allowed_mint config)) (fail InvalidPda)) (\<lambda>_.
        Inr (w, existing)))))"

definition process_deposit_bond ::
    "runtime \<Rightarrow> address \<Rightarrow> AccountView list \<Rightarrow> u64 \<Rightarrow> world \<Rightarrow> ProgramError + world" where
  "process_deposit_bond rt program_id accounts amount w =
     tryE (next_account accounts) (\<lambda>(authority, accounts).
     tryE (next_account accounts) (\<lambda>(config_account, accounts).
     tryE (next_account accounts) (\<lambda>(provider_account, accounts).
     tryE (next_account accounts) (\<lambda>(bond_account, accounts).
     tryE (next_account accounts) (\<lambda>(bond_vault, accounts).
     tryE (next_account accounts) (\<lambda>(authority_token, accounts).
     tryE (next_account accounts) (\<lambda>(mint, accounts).
     tryE (next_account accounts) (\<lambda>(token_program, accounts).
     tryE (next_account accounts) (\<lambda>(system_program, accounts).
     tryE (require_signer authority) (\<lambda>_.
     tryE (require_system_program rt system_program) (\<lambda>_.
     tryE (require_legacy_token_program rt token_program) (\<lambda>_.
     tryE (ensure (amount \<noteq> 0) (fail InvalidAmount)) (\<lambda>_.
     tryE (load_validated_config_readonly rt program_id config_account w) (\<lambda>config.
     tryE (require_not_paused config) (\<lambda>_.
     tryE (ensure (view_address token_program = config_token_program config) (fail InvalidTokenProgram)) (\<lambda>_.
     tryE (load_validated_provider rt program_id provider_account w) (\<lambda>provider.
     tryE (ensure (provider_authority provider = view_address authority) (fail Unauthorized)) (\<lambda>_.
     tryE (ensure (provider_status provider = PROVIDER_STATUS_ACTIVE) (fail ProviderInactive)) (\<lambda>_.
     tryE (validate_mint rt mint (config_allowed_mint config) (config_mint_decimals config) w) (\<lambda>_.
     tryE (validate_token_account rt authority_token (config_allowed_mint config)
             (view_address authority) w) (\<lambda>_.
     let authority_bytes = view_address authority
     in tryE (ok_or (try_find_program_address rt
             [BOND_SEED, to_bytes authority_bytes, to_bytes (config_allowed_mint config)] program_id)
             (fail InvalidPda)) (\<lambda>(expected_bond, bump).
     tryE (ensure (view_address bond_account = expected_bond) (fail InvalidPda)) (\<lambda>_.
     tryE (open_bond rt program_id authority bond_account config bump w) (\<lambda>(w, bond).
     let vault_owner = view_address bond_account
     in tryE (validate_ata rt bond_vault vault_owner (config_allowed_mint config) w) (\<lambda>_.
     tryE (associated_token_address rt vault_owner (address_from_bytes (config_allowed_mint config)))
       (\<lambda>expected_vault.
     tryE (ensure (view_address bond_vault = expected_vault) (fail InvalidAssociatedTokenAccount)) (\<lambda>_.
     tryE (transfer_checked rt authority_token mint bond_vault authority amount
             (config_mint_decimals config) None w) (\<lambda>w.
     tryE (ok_or (checked_add (bond_deposited bond) amount) (fail MathOverflow)) (\<lambda>deposited.
     let bond = bond\<lparr>bond_deposited := deposited\<rparr>
     in tryE (save_bond bond_account bond w) (\<lambda>w.
     tryE (now_ts w) (\<lambda>now.
     emit BondDeposited (view_address bond_account) (view_address authority) amount now w)))))))))))))))))))))))))))))))"

definition process_withdraw_bond ::
    "runtime \<Rightarrow> address \<Rightarrow> AccountView list \<Rightarrow> u64 \<Rightarrow> world \<Rightarrow> ProgramError + world" where
  "process_withdraw_bond rt program_id accounts amount w =
     tryE (next_account accounts) (\<lambda>(authority, accounts).
     tryE (next_account accounts) (\<lambda>(bond_account, accounts).
     tryE (next_account accounts) (\<lambda>(bond_vault, accounts).
     tryE (next_account accounts) (\<lambda>(authority_token, accounts).
     tryE (next_account accounts) (\<lambda>(mint, accounts).
     tryE (next_account accounts) (\<lambda>(token_program, accounts).
     tryE (require_signer authority) (\<lambda>_.
     tryE (require_writable bond_account) (\<lambda>_.
     tryE (require_legacy_token_program rt token_program) (\<lambda>_.
     tryE (ensure (amount \<noteq> 0) (fail InvalidAmount)) (\<lambda>_.
     tryE (load_validated_bond rt program_id bond_account w) (\<lambda>bond.
     tryE (ensure (bond_provider bond = view_address authority) (fail Unauthorized)) (\<lambda>_.
     tryE (ensure (view_address token_program = bond_token_program bond) (fail InvalidTokenProgram)) (\<lambda>_.
     tryE (map_err fail (unlocked bond)) (\<lambda>unlocked.
     tryE (ensure (\<not> amount > unlocked) (fail InsufficientBond)) (\<lambda>_.
     tryE (ok_or (mint_from_account rt (acct w mint)) (fail InvalidMint)) (\<lambda>mint_state.
     let decimals = mint_decimals_of mint_state
     in tryE (validate_mint rt mint (bond_mint bond) decimals w) (\<lambda>_.
     tryE (validate_ata rt bond_vault (view_address bond_account) (bond_mint bond) w) (\<lambda>_.
     tryE (validate_token_account rt authority_token (bond_mint bond) (view_address authority) w) (\<lambda>_.
     let bump = bond_bump bond;
         seeds = bond_signer_seeds (bond_provider bond) (bond_mint bond) bump
     in tryE (transfer_checked rt bond_vault mint authority_token bond_account amount decimals
             (Some seeds) w) (\<lambda>w.
     tryE (ok_or (checked_sub (bond_deposited bond) amount) (fail MathOverflow)) (\<lambda>deposited.
     let bond = bond\<lparr>bond_deposited := deposited\<rparr>
     in tryE (ensure (\<not> bond_locked bond > bond_deposited bond) (fail InvalidAccountData)) (\<lambda>_.
     tryE (save_bond bond_account bond w) (\<lambda>w.
     tryE (now_ts w) (\<lambda>now.
     emit BondWithdrawn (view_address bond_account) (view_address authority) amount now w))))))))))))))))))))))))"

section \<open>What a successful run has checked and done\<close>

lemma deposit_bond_inv:
  assumes "process_deposit_bond rt pid accounts n w = Inr w'"
  obtains (run) authority config_account provider_account bond_account bond_vault authority_token mint
    token_program system_program rest c p bump w0 b x y d now w1 w2
  where "accounts = authority # config_account # provider_account # bond_account # bond_vault #
      authority_token # mint # token_program # system_program # rest"
    "view_is_signer authority" "n \<noteq> 0" "config_at pid w (view_address config_account) = Some c"
    "config_derived rt pid (view_address config_account) c" "\<not> config_paused c"
    "provider_at pid w (view_address provider_account) = Some p"
    "provider_derived rt pid (view_address provider_account) p"
    "provider_authority p = view_address authority" "provider_status p = PROVIDER_STATUS_ACTIVE"
    "validate_token_account rt authority_token (config_allowed_mint c) (view_address authority) w = Inr y"
    "try_find_program_address rt
       [BOND_SEED, to_bytes (view_address authority), to_bytes (config_allowed_mint c)] pid =
       Some (view_address bond_account, bump)"
    "open_bond rt pid authority bond_account c bump w = Inr (w0, b)"
    "validate_ata rt bond_vault (view_address bond_account) (config_allowed_mint c) w0 = Inr x"
    "transfer_checked rt authority_token mint bond_vault authority n (config_mint_decimals c) None w0 = Inr w1"
    "checked_add (bond_deposited b) n = Some d"
    "save_bond bond_account (b\<lparr>bond_deposited := d\<rparr>) w1 = Inr w2"
    "emit BondDeposited (view_address bond_account) (view_address authority) n now w2 = Inr w'"
  using assms unfolding process_deposit_bond_def handler_start
  by (simp (no_asm_use) only: handler_inv)
     (elim exE conjE, hypsubst, rule that, (assumption | rule refl | simp)+)

lemma open_bond_cases:
  assumes "open_bond rt pid authority bond_account c bump w = Inr (w0, b)"
  obtains (created) seeds
  where "create_pda_account rt authority bond_account pid PROVIDER_BOND_ACCOUNT_LEN seeds w = Inr w0"
    "b = new_bond bump (view_address authority) c"
  | (existing) "w0 = w" "bond_at pid w (view_address bond_account) = Some b"
    "bond_derived rt pid (view_address bond_account) b"
    "bond_provider b = view_address authority" "bond_mint b = config_allowed_mint c"
  using assms
  by (auto simp: open_bond_def handler_inv Let_def new_bond_def split: if_splits)

lemma withdraw_bond_inv:
  assumes "process_withdraw_bond rt pid accounts n w = Inr w'"
  obtains (run) authority bond_account bond_vault authority_token mint token_program rest b u x y d now w1 w2
    and ms :: mint_state
  where "accounts = authority # bond_account # bond_vault # authority_token # mint # token_program # rest"
    "view_is_signer authority" "n \<noteq> 0" "bond_at pid w (view_address bond_account) = Some b"
    "bond_derived rt pid (view_address bond_account) b" "bond_provider b = view_address authority"
    "unlocked b = Inr u" "\<not> u < n"
    "validate_ata rt bond_vault (view_address bond_account) (bond_mint b) w = Inr x"
    "validate_token_account rt authority_token (bond_mint b) (view_address authority) w = Inr y"
    "transfer_checked rt bond_vault mint authority_token bond_account n (mint_decimals_of ms)
       (Some (bond_signer_seeds (bond_provider b) (bond_mint b) (bond_bump b))) w = Inr w1"
    "checked_sub (bond_deposited b) n = Some d"
    "save_bond bond_account (b\<lparr>bond_deposited := d\<rparr>) w1 = Inr w2"
    "emit BondWithdrawn (view_address bond_account) (view_address authority) n now w2 = Inr w'"
  using assms unfolding process_withdraw_bond_def handler_start
  by (simp (no_asm_use) only: handler_inv)
     (elim exE conjE, hypsubst, rule that, (assumption | rule refl | simp)+)

section \<open>Refinement of the protocol\<close>

lemma deposit_bond_refines:
  assumes D: "deployment rt pid" and p: "process_deposit_bond rt pid accounts n w = Inr w'"
  shows "protocol_step rt pid (signers accounts) (ledger_of rt pid w) (ledger_of rt pid w')"
  using p
proof (cases rule: deposit_bond_inv)
  case (run authority config_account provider_account bond_account bond_vault authority_token mint
    token_program system_program rest c p bump w0 b x y d now w1 w2)
  let ?L = "ledger_of rt pid w" and ?a = "view_address bond_account" and ?m = "config_allowed_mint c"
  have opened: "ledger_of rt pid w0 = ?L"
    "bond_at pid w0 ?a \<noteq> None \<or> fresh_account pid bond_account w0" "bond_mint b = ?m"
    "vacant ?L ?a \<and> b = new_bond bump (view_address authority) c \<or>
     bond_at pid w ?a = Some b \<and> bond_provider b = view_address authority \<and> bond_mint b = ?m"
    using run(13) by (cases rule: open_bond_cases;
        auto simp: new_bond_def dest: ledger_create [OF D zero_less_numeral]
          create_vacant [OF D zero_less_numeral])+
  have "undelegated (token_at rt w0) (view_address authority_token)"
    using validated_undelegated [OF run(11)] by (simp add: ledger_fields [OF opened(1)])
  note t = ledger_transfer [OF D run(15) this]
  have "bond_at pid w1 ?a \<noteq> None \<or> fresh_account pid bond_account w1"
    using opened(2) transfer_keeps_fresh [OF D run(15)] by (auto simp: ledger_fields [OF t(1)])
  note save = ledger_save_bond [OF D run(17) this]
  have d: "d = bond_deposited b + n" "unat (bond_deposited b) + unat n < 2 ^ 64"
    using run(16) by (auto simp: checked_add_def split: if_splits)
  have w': "ledger_of rt pid w' = ?L\<lparr>l_bond := (bond_at pid w)(?a \<mapsto> b\<lparr>bond_deposited := bond_deposited b + n\<rparr>),
      l_token := move_tokens (view_address authority_token) (view_address bond_vault) n (token_at rt w)\<rparr>"
    by (simp add: ledger_emit [OF run(18)] save t(1) ledger_fields [OF t(1)] opened(1)
        ledger_fields [OF opened(1)] d(1))
  have "view_address authority \<in> signers accounts" using run(1,2) by (simp add: signersI)
  then show ?thesis unfolding w'
    using run(3,6,9,10,12) d(2) opened(3,4) config_in_forceI [OF run(4,5)] registeredI [OF run(7,8)]
      validate_ataD [OF run(14)] holdsI [OF run(11)] t(2)
      protocol_step.deposit [of rt pid ?L c p "view_address authority" "signers accounts" ?a bump b
        "view_address bond_vault" x "view_address authority_token" y n]
    by (simp add: bond_seed_parts_def ledger_fields [OF opened(1)])
qed

lemma withdraw_bond_effect:
  assumes D: "deployment rt pid" and p: "process_withdraw_bond rt pid accounts n w = Inr w'"
  obtains (run) authority bond_account bond_vault authority_token mint token_program rest b x y
  where "accounts = authority # bond_account # bond_vault # authority_token # mint # token_program # rest"
    "view_is_signer authority" "n \<noteq> 0" "bond_at pid w (view_address bond_account) = Some b"
    "bond_derived rt pid (view_address bond_account) b" "bond_provider b = view_address authority"
    "n \<le> bond_deposited b - bond_locked b"
    "ata rt (view_address bond_account) (bond_mint b) = Some (view_address bond_vault)"
    "holds (token_at rt w) (view_address bond_vault) (bond_mint b) (view_address bond_account) x"
    "holds (token_at rt w) (view_address authority_token) (bond_mint b) (bond_provider b) y"
    "can_move (view_address bond_vault) (view_address authority_token) n (token_at rt w)"
    "ledger_of rt pid w' = (ledger_of rt pid w)\<lparr>
      l_bond := (bond_at pid w)(view_address bond_account \<mapsto> b\<lparr>bond_deposited := bond_deposited b - n\<rparr>),
      l_token := move_tokens (view_address bond_vault) (view_address authority_token) n (token_at rt w)\<rparr>"
  using p
proof (cases rule: withdraw_bond_inv)
  case (run authority bond_account bond_vault authority_token mint token_program rest b u x y d now w1 w2 ms)
  have u: "n \<le> bond_deposited b - bond_locked b"
    using run(7,8) unlocked_ok [OF bond_store.stored_ok [OF run(4)]] by simp
  have d: "d = bond_deposited b - n"
    using run(12) by (simp add: checked_sub_def split: if_splits)
  note t = ledger_transfer [OF D run(11) holds_undelegated [OF validate_ataD(2) [OF run(9)]]]
  have w': "ledger_of rt pid w' = (ledger_of rt pid w)\<lparr>
      l_bond := (bond_at pid w)(view_address bond_account \<mapsto> b\<lparr>bond_deposited := bond_deposited b - n\<rparr>),
      l_token := move_tokens (view_address bond_vault) (view_address authority_token) n (token_at rt w)\<rparr>"
    using run(4)
    by (simp add: ledger_emit [OF run(14)] ledger_save_bond [OF D run(13)] t(1) ledger_fields [OF t(1)] d)
  from that [OF run(1-6) u validate_ataD [OF run(9)] _ t(2) w'] holdsI [OF run(10)] run(6) show thesis by simp
qed

lemma withdraw_bond_refines:
  assumes D: "deployment rt pid" and p: "process_withdraw_bond rt pid accounts n w = Inr w'"
  shows "protocol_step rt pid (signers accounts) (ledger_of rt pid w) (ledger_of rt pid w')"
  using D p
proof (cases rule: withdraw_bond_effect)
  case (run authority bond_account bond_vault authority_token mint token_program rest b x y)
  have "bond_provider b \<in> signers accounts" using run(1,2,6) by (simp add: signersI)
  then show ?thesis unfolding run(12)
    using run(3-5,7-11)
      protocol_step.withdraw [of "ledger_of rt pid w" "view_address bond_account" b rt pid "signers accounts" n
        "view_address bond_vault" x "view_address authority_token" y]
    by simp
qed

end
