(* ===== verification/Job_Handlers.thy ===== *)
theory Job_Handlers
  imports Protocol
begin

text \<open>
  The life of a job up to its resolution: \<^verbatim>\<open>processor/create_job.rs\<close>, \<^verbatim>\<open>fund_job.rs\<close>,
  \<^verbatim>\<open>accept_job.rs\<close>, \<^verbatim>\<open>submit_receipt.rs\<close>, \<^verbatim>\<open>accept_work.rs\<close> and \<^verbatim>\<open>challenge_work.rs\<close>.
\<close>

definition process_create_job ::
    "runtime \<Rightarrow> address \<Rightarrow> AccountView list \<Rightarrow> CreateJobPayload \<Rightarrow> world \<Rightarrow> ProgramError + world" where
  "process_create_job rt program_id accounts payload w =
     tryE (next_account accounts) (\<lambda>(buyer, accounts).
     tryE (next_account accounts) (\<lambda>(config_account, accounts).
     tryE (next_account accounts) (\<lambda>(provider_account, accounts).
     tryE (next_account accounts) (\<lambda>(job_account, accounts).
     tryE (next_account accounts) (\<lambda>(system_program, accounts).
     tryE (require_signer buyer) (\<lambda>_.
     tryE (require_system_program rt system_program) (\<lambda>_.
     tryE (load_validated_config_readonly rt program_id config_account w) (\<lambda>config.
     tryE (require_not_paused config) (\<lambda>_.
     tryE (require_legacy_token_program_id rt (config_token_program config)) (\<lambda>_.
     tryE (ensure (cjp_amount payload \<noteq> 0) (fail InvalidAmount)) (\<lambda>_.
     tryE (ensure (cjp_request_hash payload \<noteq> fill32 0) (fail InvalidPubkey)) (\<lambda>_.
     tryE (now_ts w) (\<lambda>now.
     tryE (ensure (now <s cjp_fund_deadline payload \<and>
                   cjp_fund_deadline payload <s cjp_accept_deadline payload \<and>
                   cjp_accept_deadline payload <s cjp_work_deadline payload \<and>
                   cjp_work_deadline payload <s cjp_auto_settle_deadline payload)
             (fail InvalidDeadlineOrder)) (\<lambda>_.
     tryE (load_validated_provider rt program_id provider_account w) (\<lambda>provider.
     tryE (ensure (provider_status provider = PROVIDER_STATUS_ACTIVE) (fail ProviderInactive)) (\<lambda>_.
     let buyer_bytes = view_address buyer;
         nonce = le_bytes 8 (cjp_job_nonce payload)
     in tryE (ok_or (try_find_program_address rt
             [JOB_SEED, to_bytes buyer_bytes, to_bytes (provider_authority provider), nonce] program_id)
             (fail InvalidPda)) (\<lambda>(expected, bump).
     tryE (ensure (view_address job_account = expected) (fail InvalidPda)) (\<lambda>_.
     tryE (require_uninitialized rt job_account w) (\<lambda>_.
     let seeds = [JOB_SEED, to_bytes buyer_bytes, to_bytes (provider_authority provider), nonce, [bump]]
     in tryE (create_pda_account rt buyer job_account program_id JOB_ACCOUNT_LEN seeds w) (\<lambda>w.
     let job = \<lparr>job_bump = bump, job_state = Created, job_buyer = buyer_bytes,
                job_provider = provider_authority provider, job_mint = config_allowed_mint config,
                job_token_program = config_token_program config, job_amount = cjp_amount payload,
                job_nonce = cjp_job_nonce payload,
                job_fund_deadline = cjp_fund_deadline payload,
                job_accept_deadline = cjp_accept_deadline payload,
                job_work_deadline = cjp_work_deadline payload,
                job_auto_settle_deadline = cjp_auto_settle_deadline payload,
                job_receipt_digest = fill32 0, job_request_hash = cjp_request_hash payload,
                job_locked_bond = 0, job_mint_decimals = config_mint_decimals config\<rparr>
     in tryE (save_job job_account job w) (\<lambda>w.
     emit JobCreated (view_address job_account) (view_address buyer) (cjp_amount payload) now
       w)))))))))))))))))))))"

definition process_fund_job ::
    "runtime \<Rightarrow> address \<Rightarrow> AccountView list \<Rightarrow> world \<Rightarrow> ProgramError + world" where
  "process_fund_job rt program_id accounts w =
     tryE (next_account accounts) (\<lambda>(buyer, accounts).
     tryE (next_account accounts) (\<lambda>(config_account, accounts).
     tryE (next_account accounts) (\<lambda>(job_account, accounts).
     tryE (next_account accounts) (\<lambda>(buyer_token, accounts).
     tryE (next_account accounts) (\<lambda>(escrow, accounts).
     tryE (next_account accounts) (\<lambda>(mint, accounts).
     tryE (next_account accounts) (\<lambda>(token_program, accounts).
     tryE (require_signer buyer) (\<lambda>_.
     tryE (require_writable job_account) (\<lambda>_.
     tryE (require_legacy_token_program rt token_program) (\<lambda>_.
     tryE (load_validated_config_readonly rt program_id config_account w) (\<lambda>config.
     tryE (require_not_paused config) (\<lambda>_.
     tryE (load_validated_job rt program_id job_account w) (\<lambda>job.
     tryE (ensure (job_buyer job = view_address buyer) (fail Unauthorized)) (\<lambda>_.
     tryE (ensure (job_state job = Created) (fail InvalidStateTransition)) (\<lambda>_.
     tryE (now_ts w) (\<lambda>now.
     tryE (ensure (\<not> job_fund_deadline job \<le>s now) (fail DeadlineExpired)) (\<lambda>_.
     tryE (ensure (\<not> (job_mint job \<noteq> config_allowed_mint config \<or>
                      job_token_program job \<noteq> config_token_program config)) (fail InvalidConfig)) (\<lambda>_.
     tryE (ensure (view_address token_program = job_token_program job) (fail InvalidTokenProgram)) (\<lambda>_.
     tryE (validate_mint rt mint (job_mint job) (job_mint_decimals job) w) (\<lambda>_.
     tryE (validate_token_account rt buyer_token (job_mint job) (view_address buyer) w) (\<lambda>_.
     tryE (validate_ata rt escrow (view_address job_account) (job_mint job) w) (\<lambda>escrow_balance.
     tryE (ensure (escrow_balance = 0) (fail EscrowNotEmpty)) (\<lambda>_.
     tryE (transfer_checked rt buyer_token mint escrow buyer (job_amount job)
             (job_mint_decimals job) None w) (\<lambda>w.
     tryE (token_amount rt escrow w) (\<lambda>funded.
     tryE (ensure (funded = job_amount job) (fail EscrowUnexpectedBalance)) (\<lambda>_.
     tryE (transition_job job Funded) (\<lambda>job.
     tryE (save_job job_account job w) (\<lambda>w.
     emit JobFunded (view_address job_account) (view_address buyer) (job_amount job) now
       w))))))))))))))))))))))))))))"

definition process_accept_job ::
    "runtime \<Rightarrow> address \<Rightarrow> AccountView list \<Rightarrow> world \<Rightarrow> ProgramError + world" where
  "process_accept_job rt program_id accounts w =
     tryE (next_account accounts) (\<lambda>(authority, accounts).
     tryE (next_account accounts) (\<lambda>(config_account, accounts).
     tryE (next_account accounts) (\<lambda>(provider_account, accounts).
     tryE (next_account accounts) (\<lambda>(bond_account, accounts).
     tryE (next_account accounts) (\<lambda>(job_account, accounts).
     tryE (require_signer authority) (\<lambda>_.
     tryE (require_writable bond_account) (\<lambda>_.
     tryE (require_writable job_account) (\<lambda>_.
     tryE (load_validated_config_readonly rt program_id config_account w) (\<lambda>config.
     tryE (require_not_paused config) (\<lambda>_.
     tryE (load_validated_provider rt program_id provider_account w) (\<lambda>provider.
     tryE (ensure (provider_authority provider = view_address authority) (fail Unauthorized)) (\<lambda>_.
     tryE (ensure (provider_status provider = PROVIDER_STATUS_ACTIVE) (fail ProviderInactive)) (\<lambda>_.
     tryE (load_validated_job rt program_id job_account w) (\<lambda>job.
     tryE (ensure (job_provider job = provider_authority provider) (fail Unauthorized)) (\<lambda>_.
     tryE (ensure (job_state job = Funded) (fail InvalidStateTransition)) (\<lambda>_.
     tryE (now_ts w) (\<lambda>now.
     tryE (ensure (\<not> job_accept_deadline job \<le>s now) (fail DeadlineExpired)) (\<lambda>_.
     tryE (load_validated_bond rt program_id bond_account w) (\<lambda>bond.
     tryE (ensure (\<not> (bond_provider bond \<noteq> provider_authority provider \<or>
                      bond_mint bond \<noteq> job_mint job)) (fail InvalidPda)) (\<lambda>_.
     tryE (ensure (bond_token_program bond = job_token_program job) (fail InvalidTokenProgram)) (\<lambda>_.
     tryE (map_err fail (unlocked bond)) (\<lambda>unlocked.
     tryE (ensure (\<not> unlocked < config_min_provider_bond config) (fail InsufficientBond)) (\<lambda>_.
     tryE (ok_or (checked_add (bond_locked bond) (config_min_provider_bond config)) (fail MathOverflow))
       (\<lambda>locked.
     let bond = bond\<lparr>bond_locked := locked\<rparr>
     in tryE (ensure (\<not> bond_locked bond > bond_deposited bond) (fail InvalidAccountData)) (\<lambda>_.
     let job = job\<lparr>job_locked_bond := config_min_provider_bond config\<rparr>
     in tryE (transition_job job Accepted) (\<lambda>job.
     tryE (save_bond bond_account bond w) (\<lambda>w.
     tryE (save_job job_account job w) (\<lambda>w.
     emit JobAccepted (view_address job_account) (view_address authority) (job_locked_bond job) now
       w))))))))))))))))))))))))))))"

definition process_submit_receipt ::
    "runtime \<Rightarrow> address \<Rightarrow> AccountView list \<Rightarrow> AgentBondWorkReceiptV1 \<Rightarrow> world \<Rightarrow>
       ProgramError + world" where
  "process_submit_receipt rt program_id accounts receipt w =
     tryE (next_account accounts) (\<lambda>(config_account, accounts).
     tryE (next_account accounts) (\<lambda>(provider_account, accounts).
     tryE (next_account accounts) (\<lambda>(job_account, accounts).
     tryE (next_account accounts) (\<lambda>(instructions_sysvar, accounts).
     tryE (require_writable job_account) (\<lambda>_.
     tryE (load_validated_config_readonly rt program_id config_account w) (\<lambda>config.
     tryE (load_validated_provider rt program_id provider_account w) (\<lambda>provider.
     tryE (ensure (provider_status provider = PROVIDER_STATUS_ACTIVE) (fail ProviderInactive)) (\<lambda>_.
     tryE (load_validated_job rt program_id job_account w) (\<lambda>job.
     tryE (ensure (job_state job = Accepted) (fail InvalidStateTransition)) (\<lambda>_.
     tryE (ensure (job_provider job = provider_authority provider) (fail Unauthorized)) (\<lambda>_.
     tryE (now_ts w) (\<lambda>now.
     tryE (ensure (\<not> job_work_deadline job <s now) (fail DeadlineExpired)) (\<lambda>_.
     tryE (ensure (\<not> receipt_expires_at receipt <s now) (fail ReceiptExpired)) (\<lambda>_.
     tryE (ensure (\<not> now <s receipt_created_at receipt) (fail FutureTimestamp)) (\<lambda>_.
     tryE (ensure (receipt_program_id receipt = program_id) (fail InvalidReceiptField)) (\<lambda>_.
     tryE (ensure (receipt_genesis_hash receipt = config_genesis_hash config) (fail InvalidReceiptField)) (\<lambda>_.
     tryE (ensure (receipt_job receipt = view_address job_account) (fail InvalidReceiptField)) (\<lambda>_.
     tryE (ensure (receipt_buyer receipt = job_buyer job) (fail InvalidReceiptField)) (\<lambda>_.
     tryE (ensure (receipt_provider receipt = job_provider job) (fail InvalidReceiptField)) (\<lambda>_.
     tryE (ensure (receipt_request_hash receipt = job_request_hash job) (fail InvalidReceiptField)) (\<lambda>_.
     tryE (ensure (receipt_job_nonce receipt = job_nonce job) (fail InvalidReceiptField)) (\<lambda>_.
     tryE (map_err fail (receipt_encode receipt)) (\<lambda>encoded.
     tryE (verify_preceding_ed25519 rt instructions_sysvar encoded w) (\<lambda>signer_key.
     tryE (ensure (contains_execution_key provider signer_key) (fail InvalidSignature)) (\<lambda>_.
     tryE (map_err fail (receipt_digest (sha256 rt) receipt)) (\<lambda>digest.
     let job = job\<lparr>job_receipt_digest := digest\<rparr>
     in tryE (transition_job job Submitted) (\<lambda>job.
     tryE (save_job job_account job w) (\<lambda>w.
     emit ReceiptSubmitted (view_address job_account) signer_key 0 now
       w))))))))))))))))))))))))))))"

definition process_accept_work ::
    "runtime \<Rightarrow> address \<Rightarrow> AccountView list \<Rightarrow> world \<Rightarrow> ProgramError + world" where
  "process_accept_work rt program_id accounts w =
     tryE (next_account accounts) (\<lambda>(buyer, accounts).
     tryE (next_account accounts) (\<lambda>(job_account, accounts).
     tryE (next_account accounts) (\<lambda>(bond_account, accounts).
     tryE (next_account accounts) (\<lambda>(escrow, accounts).
     tryE (next_account accounts) (\<lambda>(provider_token, accounts).
     tryE (next_account accounts) (\<lambda>(buyer_token, accounts).
     tryE (next_account accounts) (\<lambda>(mint, accounts).
     tryE (next_account accounts) (\<lambda>(token_program, accounts).
     tryE (require_signer buyer) (\<lambda>_.
     tryE (require_writable job_account) (\<lambda>_.
     tryE (require_writable bond_account) (\<lambda>_.
     tryE (require_legacy_token_program rt token_program) (\<lambda>_.
     tryE (load_validated_job rt program_id job_account w) (\<lambda>job.
     tryE (ensure (job_buyer job = view_address buyer) (fail Unauthorized)) (\<lambda>_.
     tryE (ensure (job_state job = Submitted) (fail InvalidStateTransition)) (\<lambda>_.
     tryE (ensure (view_address token_program = job_token_program job) (fail InvalidTokenProgram)) (\<lambda>_.
     tryE (validate_mint rt mint (job_mint job) (job_mint_decimals job) w) (\<lambda>_.
     tryE (validate_ata rt escrow (view_address job_account) (job_mint job) w) (\<lambda>_.
     tryE (validate_ata rt provider_token (address_from_bytes (job_provider job)) (job_mint job) w) (\<lambda>_.
     tryE (validate_ata rt buyer_token (view_address buyer) (job_mint job) w) (\<lambda>_.
     tryE (load_validated_bond rt program_id bond_account w) (\<lambda>bond.
     tryE (ensure (\<not> (bond_provider bond \<noteq> job_provider job \<or> bond_mint bond \<noteq> job_mint job))
             (fail InvalidPda)) (\<lambda>_.
     let nonce = job_nonce_bytes job;
         bump = job_bump job;
         seeds = job_signer_seeds (job_buyer job) (job_provider job) nonce bump
     in tryE (return_surplus_to_buyer rt escrow mint buyer_token job_account (job_amount job)
             (job_mint_decimals job) seeds w) (\<lambda>w.
     tryE (transfer_checked rt escrow mint provider_token job_account (job_amount job)
             (job_mint_decimals job) (Some seeds) w) (\<lambda>w.
     tryE (token_amount rt escrow w) (\<lambda>left_over.
     tryE (ensure (left_over = 0) (fail EscrowNotEmpty)) (\<lambda>_.
     let amount = job_amount job
     in tryE (unlock_job_bond job bond) (\<lambda>(job, bond).
     tryE (transition_job job Settled) (\<lambda>job.
     tryE (save_bond bond_account bond w) (\<lambda>w.
     tryE (save_job job_account job w) (\<lambda>w.
     tryE (now_ts w) (\<lambda>now.
     emit JobSettled (view_address job_account) (view_address buyer) amount now
       w)))))))))))))))))))))))))))))))"

definition process_challenge_work ::
    "runtime \<Rightarrow> address \<Rightarrow> AccountView list \<Rightarrow> bytes32 \<Rightarrow> world \<Rightarrow> ProgramError + world" where
  "process_challenge_work rt program_id accounts reason_hash w =
     tryE (next_account accounts) (\<lambda>(buyer, accounts).
     tryE (next_account accounts) (\<lambda>(config_account, accounts).
     tryE (next_account accounts) (\<lambda>(job_account, accounts).
     tryE (next_account accounts) (\<lambda>(challenge_account, accounts).
     tryE (next_account accounts) (\<lambda>(system_program, accounts).
     tryE (require_signer buyer) (\<lambda>_.
     tryE (require_writable job_account) (\<lambda>_.
     tryE (require_system_program rt system_program) (\<lambda>_.
     tryE (load_validated_config_readonly rt program_id config_account w) (\<lambda>config.
     tryE (load_validated_job rt program_id job_account w) (\<lambda>job.
     tryE (ensure (job_buyer job = view_address buyer) (fail Unauthorized)) (\<lambda>_.
     tryE (ensure (job_state job = Submitted) (fail InvalidStateTransition)) (\<lambda>_.
     tryE (now_ts w) (\<lambda>now.
     tryE (ensure (\<not> job_auto_settle_deadline job \<le>s now) (fail DeadlineExpired)) (\<lambda>_.
     let job_key = view_address job_account
     in tryE (ok_or (try_find_program_address rt [CHALLENGE_SEED, to_bytes job_key] program_id)
             (fail InvalidPda)) (\<lambda>(expected, bump).
     tryE (ensure (view_address challenge_account = expected) (fail InvalidPda)) (\<lambda>_.
     tryE (require_uninitialized rt challenge_account w) (\<lambda>_.
     tryE (ok_or (checked_add_signed now (config_challenge_duration_seconds config)) (fail MathOverflow))
       (\<lambda>deadline.
     let seeds = [CHALLENGE_SEED, to_bytes job_key, [bump]]
     in tryE (create_pda_account rt buyer challenge_account program_id CHALLENGE_ACCOUNT_LEN seeds w)
       (\<lambda>w.
     let challenge = \<lparr>challenge_bump = bump, challenge_status = STATUS_OPEN, challenge_job = job_key,
                      challenge_buyer = job_buyer job, challenge_reason_hash = reason_hash,
                      challenge_bond_amount = 0, challenge_deadline = deadline\<rparr>
     in tryE (save_challenge challenge_account challenge w) (\<lambda>w.
     tryE (transition_job job Challenged) (\<lambda>job.
     tryE (save_job job_account job w) (\<lambda>w.
     emit JobChallenged (view_address job_account) (view_address buyer) 0 now
       w))))))))))))))))))))))"

section \<open>What a successful run has checked and done\<close>

lemma create_job_inv:
  assumes "process_create_job rt pid accounts payload w = Inr w'"
  obtains (run) buyer config_account provider_account job_account system_program rest c now p bump w1 w2
  where "accounts = buyer # config_account # provider_account # job_account # system_program # rest"
    "view_is_signer buyer" "config_at pid w (view_address config_account) = Some c"
    "config_derived rt pid (view_address config_account) c" "\<not> config_paused c"
    "cjp_amount payload \<noteq> 0" "cjp_request_hash payload \<noteq> fill32 0" "w_clock w = Some now"
    "deadlines_ordered now payload" "provider_at pid w (view_address provider_account) = Some p"
    "provider_derived rt pid (view_address provider_account) p"
    "provider_status p = PROVIDER_STATUS_ACTIVE"
    "try_find_program_address rt [JOB_SEED, to_bytes (view_address buyer),
       to_bytes (provider_authority p), le_bytes 8 (cjp_job_nonce payload)] pid =
       Some (view_address job_account, bump)"
    "create_pda_account rt buyer job_account pid JOB_ACCOUNT_LEN [JOB_SEED, to_bytes (view_address buyer),
       to_bytes (provider_authority p), le_bytes 8 (cjp_job_nonce payload), [bump]] w = Inr w1"
    "save_job job_account (new_job bump (view_address buyer) (provider_authority p) c payload) w1 = Inr w2"
    "emit JobCreated (view_address job_account) (view_address buyer) (cjp_amount payload) now w2 = Inr w'"
  using assms unfolding process_create_job_def handler_start
  by (simp (no_asm_use) only: handler_inv)
     (elim exE conjE, hypsubst, rule that [unfolded new_job_def deadlines_ordered_def],
      (assumption | rule refl | simp)+)

lemma fund_job_inv:
  assumes "process_fund_job rt pid accounts w = Inr w'"
  obtains (run) buyer config_account job_account buyer_token escrow mint token_program rest c j now x w1 w2
  where "accounts = buyer # config_account # job_account # buyer_token # escrow # mint # token_program # rest"
    "view_is_signer buyer" "config_at pid w (view_address config_account) = Some c"
    "config_derived rt pid (view_address config_account) c" "\<not> config_paused c"
    "job_at pid w (view_address job_account) = Some j" "job_derived rt pid (view_address job_account) j"
    "job_buyer j = view_address buyer" "job_state j = Created" "w_clock w = Some now"
    "\<not> job_fund_deadline j \<le>s now"
    "validate_token_account rt buyer_token (job_mint j) (view_address buyer) w = Inr x"
    "validate_ata rt escrow (view_address job_account) (job_mint j) w = Inr 0"
    "transfer_checked rt buyer_token mint escrow buyer (job_amount j) (job_mint_decimals j) None w = Inr w1"
    "save_job job_account (j\<lparr>job_state := Funded\<rparr>) w1 = Inr w2"
    "emit JobFunded (view_address job_account) (view_address buyer) (job_amount j) now w2 = Inr w'"
  using assms unfolding process_fund_job_def handler_start
  by (simp (no_asm_use) only: handler_inv)
     (elim exE conjE, hypsubst, rule that, (assumption | rule refl | simp)+)

lemma accept_job_inv:
  assumes "process_accept_job rt pid accounts w = Inr w'"
  obtains (run) authority config_account provider_account bond_account job_account rest c p j now b u k w1 w2
  where "accounts = authority # config_account # provider_account # bond_account # job_account # rest"
    "view_is_signer authority" "config_at pid w (view_address config_account) = Some c"
    "config_derived rt pid (view_address config_account) c" "\<not> config_paused c"
    "provider_at pid w (view_address provider_account) = Some p"
    "provider_derived rt pid (view_address provider_account) p"
    "provider_authority p = view_address authority" "provider_status p = PROVIDER_STATUS_ACTIVE"
    "job_at pid w (view_address job_account) = Some j" "job_derived rt pid (view_address job_account) j"
    "job_provider j = provider_authority p" "job_state j = Funded" "w_clock w = Some now"
    "\<not> job_accept_deadline j \<le>s now" "bond_at pid w (view_address bond_account) = Some b"
    "bond_derived rt pid (view_address bond_account) b" "bond_provider b = provider_authority p"
    "bond_mint b = job_mint j" "unlocked b = Inr u" "\<not> u < config_min_provider_bond c"
    "checked_add (bond_locked b) (config_min_provider_bond c) = Some k" "\<not> bond_deposited b < k"
    "save_bond bond_account (b\<lparr>bond_locked := k\<rparr>) w = Inr w1"
    "save_job job_account (j\<lparr>job_locked_bond := config_min_provider_bond c, job_state := Accepted\<rparr>) w1 =
       Inr w2"
    "emit JobAccepted (view_address job_account) (view_address authority) (config_min_provider_bond c) now
       w2 = Inr w'"
  using assms unfolding process_accept_job_def handler_start
  by (simp (no_asm_use) only: handler_inv)
     (elim exE conjE, hypsubst, rule that, (assumption | rule refl | simp)+)

lemma submit_receipt_inv:
  assumes "process_submit_receipt rt pid accounts r w = Inr w'"
  obtains (run) config_account provider_account job_account instructions rest c p j now message key digest w1
  where "accounts = config_account # provider_account # job_account # instructions # rest"
    "config_at pid w (view_address config_account) = Some c"
    "config_derived rt pid (view_address config_account) c"
    "provider_at pid w (view_address provider_account) = Some p"
    "provider_derived rt pid (view_address provider_account) p"
    "provider_status p = PROVIDER_STATUS_ACTIVE"
    "job_at pid w (view_address job_account) = Some j" "job_derived rt pid (view_address job_account) j"
    "job_state j = Accepted" "job_provider j = provider_authority p" "w_clock w = Some now"
    "\<not> job_work_deadline j <s now" "\<not> receipt_expires_at r <s now" "\<not> now <s receipt_created_at r"
    "receipt_program_id r = pid" "receipt_genesis_hash r = config_genesis_hash c"
    "receipt_job r = view_address job_account" "receipt_buyer r = job_buyer j"
    "receipt_provider r = job_provider j" "receipt_request_hash r = job_request_hash j"
    "receipt_job_nonce r = job_nonce j" "receipt_encode r = Inr message"
    "verify_preceding_ed25519 rt instructions message w = Inr key" "contains_execution_key p key"
    "receipt_digest (sha256 rt) r = Inr digest"
    "save_job job_account (j\<lparr>job_receipt_digest := digest, job_state := Submitted\<rparr>) w = Inr w1"
    "emit ReceiptSubmitted (view_address job_account) key 0 now w1 = Inr w'"
  using assms unfolding process_submit_receipt_def handler_start
  by (simp (no_asm_use) only: handler_inv)
     (elim exE conjE, hypsubst, rule that, (assumption | rule refl | simp)+)

lemma accept_work_inv:
  assumes "process_accept_work rt pid accounts w = Inr w'"
  obtains (run) buyer job_account bond_account escrow provider_token buyer_token mint token_program rest
    j x y z b now w1 w2 w3 w4
  where "accounts = buyer # job_account # bond_account # escrow # provider_token # buyer_token # mint #
      token_program # rest"
    "view_is_signer buyer" "job_at pid w (view_address job_account) = Some j"
    "job_derived rt pid (view_address job_account) j" "job_buyer j = view_address buyer"
    "job_state j = Submitted" "validate_ata rt escrow (view_address job_account) (job_mint j) w = Inr x"
    "validate_ata rt provider_token (job_provider j) (job_mint j) w = Inr y"
    "validate_ata rt buyer_token (view_address buyer) (job_mint j) w = Inr z"
    "bond_at pid w (view_address bond_account) = Some b" "bond_derived rt pid (view_address bond_account) b"
    "bond_provider b = job_provider j" "bond_mint b = job_mint j"
    "return_surplus_to_buyer rt escrow mint buyer_token job_account (job_amount j) (job_mint_decimals j)
       (job_signer_seeds (job_buyer j) (job_provider j) (job_nonce_bytes j) (job_bump j)) w = Inr w1"
    "transfer_checked rt escrow mint provider_token job_account (job_amount j) (job_mint_decimals j)
       (Some (job_signer_seeds (job_buyer j) (job_provider j) (job_nonce_bytes j) (job_bump j))) w1 = Inr w2"
    "token_amount rt escrow w2 = Inr 0" "job_locked_bond j \<le> bond_locked b"
    "save_bond bond_account (release_bond j b) w2 = Inr w3"
    "save_job job_account (j\<lparr>job_locked_bond := 0, job_state := Settled\<rparr>) w3 = Inr w4"
    "emit JobSettled (view_address job_account) (view_address buyer) (job_amount j) now w4 = Inr w'"
  using assms unfolding process_accept_work_def handler_start
  by (simp (no_asm_use) only: handler_inv address_from_bytes_def)
     (elim exE conjE, hypsubst, rule that [unfolded release_bond_def], (assumption | rule refl | simp)+)

lemma challenge_work_inv:
  assumes "process_challenge_work rt pid accounts reason w = Inr w'"
  obtains (run) buyer config_account job_account challenge_account system_program rest c j now bump
    deadline w1 w2 w3
  where "accounts = buyer # config_account # job_account # challenge_account # system_program # rest"
    "view_is_signer buyer" "config_at pid w (view_address config_account) = Some c"
    "config_derived rt pid (view_address config_account) c"
    "job_at pid w (view_address job_account) = Some j" "job_derived rt pid (view_address job_account) j"
    "job_buyer j = view_address buyer" "job_state j = Submitted" "w_clock w = Some now"
    "\<not> job_auto_settle_deadline j \<le>s now"
    "try_find_program_address rt [CHALLENGE_SEED, to_bytes (view_address job_account)] pid =
       Some (view_address challenge_account, bump)"
    "checked_add_signed now (config_challenge_duration_seconds c) = Some deadline"
    "create_pda_account rt buyer challenge_account pid CHALLENGE_ACCOUNT_LEN
       [CHALLENGE_SEED, to_bytes (view_address job_account), [bump]] w = Inr w1"
    "save_challenge challenge_account \<lparr>challenge_bump = bump, challenge_status = STATUS_OPEN,
       challenge_job = view_address job_account, challenge_buyer = job_buyer j,
       challenge_reason_hash = reason, challenge_bond_amount = 0, challenge_deadline = deadline\<rparr> w1 = Inr w2"
    "save_job job_account (j\<lparr>job_state := Challenged\<rparr>) w2 = Inr w3"
    "emit JobChallenged (view_address job_account) (view_address buyer) 0 now w3 = Inr w'"
  using assms unfolding process_challenge_work_def handler_start
  by (simp (no_asm_use) only: handler_inv)
     (elim exE conjE, hypsubst, rule that, (assumption | rule refl | simp)+)

section \<open>Refinement of the protocol\<close>

lemma create_job_refines:
  assumes D: "deployment rt pid" and p: "process_create_job rt pid accounts payload w = Inr w'"
  shows "protocol_step rt pid (signers accounts) (ledger_of rt pid w) (ledger_of rt pid w')"
  using p
proof (cases rule: create_job_inv)
  case (run buyer config_account provider_account job_account system_program rest c now p bump w1 w2)
  let ?L = "ledger_of rt pid w" and ?a = "view_address job_account"
  let ?j = "new_job bump (view_address buyer) (provider_authority p) c payload"
  note create = ledger_create [OF D zero_less_numeral run(14)]
  note save = ledger_save_job [OF D run(15) disjI2 [OF create(2)]]
  have w': "ledger_of rt pid w' = ?L\<lparr>l_job := (job_at pid w)(?a \<mapsto> ?j)\<rparr>"
    by (simp add: ledger_emit [OF run(16)] save create(1) ledger_fields [OF create(1)])
  have "view_address buyer \<in> signers accounts" using run(1,2) by (simp add: signersI)
  then show ?thesis unfolding w'
    using run(5-9,12,13) config_in_forceI [OF run(3,4)] registeredI [OF run(10,11)]
      create_vacant [OF D zero_less_numeral run(14)]
      protocol_step.create [of rt pid ?L c p "view_address buyer" "signers accounts" payload now ?a bump]
    by (simp add: job_seed_parts_def job_nonce_le_bytes_def)
qed

lemma fund_job_effect:
  assumes D: "deployment rt pid" and p: "process_fund_job rt pid accounts w = Inr w'"
  obtains (run) buyer config_account job_account buyer_token escrow mint token_program rest c j now x
  where "accounts = buyer # config_account # job_account # buyer_token # escrow # mint # token_program # rest"
    "view_is_signer buyer" "config_at pid w (view_address config_account) = Some c"
    "config_derived rt pid (view_address config_account) c" "\<not> config_paused c"
    "job_at pid w (view_address job_account) = Some j" "job_derived rt pid (view_address job_account) j"
    "job_buyer j = view_address buyer" "job_state j = Created" "w_clock w = Some now"
    "now <s job_fund_deadline j"
    "ata rt (view_address job_account) (job_mint j) = Some (view_address escrow)"
    "holds (token_at rt w) (view_address escrow) (job_mint j) (view_address job_account) 0"
    "holds (token_at rt w) (view_address buyer_token) (job_mint j) (job_buyer j) x"
    "can_move (view_address buyer_token) (view_address escrow) (job_amount j) (token_at rt w)"
    "ledger_of rt pid w' = (ledger_of rt pid w)\<lparr>
      l_job := (job_at pid w)(view_address job_account \<mapsto> j\<lparr>job_state := Funded\<rparr>),
      l_token := move_tokens (view_address buyer_token) (view_address escrow) (job_amount j) (token_at rt w)\<rparr>"
  using p
proof (cases rule: fund_job_inv)
  case (run buyer config_account job_account buyer_token escrow mint token_program rest c j now x w1 w2)
  note t = ledger_transfer [OF D run(14) validated_undelegated [OF run(12)]] and escrow = validate_ataD [OF run(13)]
  have w': "ledger_of rt pid w' = (ledger_of rt pid w)\<lparr>
      l_job := (job_at pid w)(view_address job_account \<mapsto> j\<lparr>job_state := Funded\<rparr>),
      l_token := move_tokens (view_address buyer_token) (view_address escrow) (job_amount j) (token_at rt w)\<rparr>"
    using run(6)
    by (simp add: ledger_emit [OF run(16)] ledger_save_job [OF D run(15)] t(1) ledger_fields [OF t(1)])
  have "now <s job_fund_deadline j" using run(11) by (simp add: signed.not_le)
  with that run(1-10) holdsI [OF run(12)] escrow t(2) w' show thesis by simp
qed

lemma fund_job_refines:
  assumes D: "deployment rt pid" and p: "process_fund_job rt pid accounts w = Inr w'"
  shows "protocol_step rt pid (signers accounts) (ledger_of rt pid w) (ledger_of rt pid w')"
  using D p
proof (cases rule: fund_job_effect)
  case (run buyer config_account job_account buyer_token escrow mint token_program rest c j now x)
  let ?L = "ledger_of rt pid w" and ?a = "view_address job_account"
  have "job_buyer j \<in> signers accounts" using run(1,2,8) by (simp add: signersI)
  moreover have "before (job_fund_deadline j) ?L" using run(10,11) by (simp add: before_def)
  ultimately show ?thesis unfolding run(16)
    using run(5-7,9,12-15) config_in_forceI [OF run(3,4)]
      protocol_step.fund [of rt pid ?L c ?a j "signers accounts" "view_address escrow"
        "view_address buyer_token" x]
    by simp
qed

lemma accept_job_effect:
  assumes D: "deployment rt pid" and p: "process_accept_job rt pid accounts w = Inr w'"
  obtains (run) authority config_account provider_account bond_account job_account rest c p j now b m
  where "accounts = authority # config_account # provider_account # bond_account # job_account # rest"
    "view_is_signer authority" "config_at pid w (view_address config_account) = Some c"
    "config_derived rt pid (view_address config_account) c" "\<not> config_paused c"
    "provider_at pid w (view_address provider_account) = Some p"
    "provider_derived rt pid (view_address provider_account) p"
    "provider_authority p = view_address authority" "provider_status p = PROVIDER_STATUS_ACTIVE"
    "job_at pid w (view_address job_account) = Some j" "job_derived rt pid (view_address job_account) j"
    "job_provider j = view_address authority" "job_state j = Funded" "w_clock w = Some now"
    "now <s job_accept_deadline j" "bond_at pid w (view_address bond_account) = Some b"
    "bond_derived rt pid (view_address bond_account) b" "bond_matches b j"
    "m = config_min_provider_bond c" "unat (bond_locked b) + unat m \<le> unat (bond_deposited b)"
    "ledger_of rt pid w' = (ledger_of rt pid w)\<lparr>
      l_bond := (bond_at pid w)(view_address bond_account \<mapsto> b\<lparr>bond_locked := bond_locked b + m\<rparr>),
      l_job := (job_at pid w)(view_address job_account \<mapsto> j\<lparr>job_locked_bond := m, job_state := Accepted\<rparr>)\<rparr>"
  using p
proof (cases rule: accept_job_inv)
  case (run authority config_account provider_account bond_account job_account rest c p j now b u k w1 w2)
  let ?L = "ledger_of rt pid w" and ?a = "view_address job_account" and ?ba = "view_address bond_account"
  let ?m = "config_min_provider_bond c"
  have k: "k = bond_locked b + ?m" "unat k = unat (bond_locked b) + unat ?m"
    using run(22) by (auto simp: checked_add_def unat_word_ariths split: if_splits)
  have le: "unat (bond_locked b) + unat ?m \<le> unat (bond_deposited b)"
    using run(23) k(2) by (simp add: word_less_nat_alt)
  have save: "ledger_of rt pid w1 = ?L\<lparr>l_bond := (bond_at pid w)(?ba \<mapsto> b\<lparr>bond_locked := k\<rparr>)\<rparr>"
    using run(16) by (simp add: ledger_save_bond [OF D run(24)])
  have w': "ledger_of rt pid w' = ?L\<lparr>
      l_bond := (bond_at pid w)(?ba \<mapsto> b\<lparr>bond_locked := bond_locked b + ?m\<rparr>),
      l_job := (job_at pid w)(?a \<mapsto> j\<lparr>job_locked_bond := ?m, job_state := Accepted\<rparr>)\<rparr>"
    using run(10)
    by (simp add: ledger_emit [OF run(26)] ledger_save_job [OF D run(25)] save ledger_fields [OF save] k(1))
  show thesis
    by (rule that [OF run(1-11) _ run(13,14) _ run(16,17) _ refl le w'])
       (use run(8,12,15,18,19) in \<open>simp_all add: signed.not_le bond_matches_def\<close>)
qed

lemma accept_job_refines:
  assumes D: "deployment rt pid" and p: "process_accept_job rt pid accounts w = Inr w'"
  shows "protocol_step rt pid (signers accounts) (ledger_of rt pid w) (ledger_of rt pid w')"
  using D p
proof (cases rule: accept_job_effect)
  case (run authority config_account provider_account bond_account job_account rest c p j now b m)
  let ?L = "ledger_of rt pid w"
  have "job_provider j \<in> signers accounts" "before (job_accept_deadline j) ?L"
    using signersI [of authority accounts] run(1,2,12,14,15) by (simp_all add: before_def)
  then show ?thesis unfolding run(21)
    using run(5,8-13,16-20) config_in_forceI [OF run(3,4)] registeredI [OF run(6,7)]
      protocol_step.accept [of rt pid ?L c p "view_address job_account" j "signers accounts"
        "view_address bond_account" b m]
    by simp
qed

lemma submit_receipt_refines:
  assumes D: "deployment rt pid" and p: "process_submit_receipt rt pid accounts r w = Inr w'"
  shows "protocol_step rt pid (signers accounts) (ledger_of rt pid w) (ledger_of rt pid w')"
  using p
proof (cases rule: submit_receipt_inv)
  case (run config_account provider_account job_account instructions rest c p j now message key digest w1)
  let ?L = "ledger_of rt pid w" and ?a = "view_address job_account"
  have w': "ledger_of rt pid w' = ?L\<lparr>
      l_job := (job_at pid w)(?a \<mapsto> j\<lparr>job_receipt_digest := digest, job_state := Submitted\<rparr>)\<rparr>"
    using run(7) by (simp add: ledger_emit [OF run(27)] ledger_save_job [OF D run(26)])
  show ?thesis unfolding w'
    using run(6-12,24) registeredI [OF run(4,5)]
      protocol_step.submit [of rt pid ?L p ?a j key "signers accounts" digest]
    by (simp add: contains_execution_key_iff active_keys_def)
qed

lemma accept_work_effect:
  assumes D: "deployment rt pid" and p: "process_accept_work rt pid accounts w = Inr w'"
  obtains (run) buyer job_account bond_account escrow provider_token buyer_token mint token_program rest
    j b balance
  where "accounts = buyer # job_account # bond_account # escrow # provider_token # buyer_token # mint #
      token_program # rest"
    "view_is_signer buyer" "job_at pid w (view_address job_account) = Some j"
    "job_derived rt pid (view_address job_account) j" "job_buyer j = view_address buyer"
    "job_state j = Submitted" "bond_at pid w (view_address bond_account) = Some b"
    "bond_derived rt pid (view_address bond_account) b" "bond_matches b j"
    "job_locked_bond j \<le> bond_locked b"
    "ata rt (view_address job_account) (job_mint j) = Some (view_address escrow)"
    "ata rt (job_provider j) (job_mint j) = Some (view_address provider_token)"
    "ata rt (job_buyer j) (job_mint j) = Some (view_address buyer_token)"
    "holds (token_at rt w) (view_address escrow) (job_mint j) (view_address job_account) balance"
    "job_amount j \<le> balance"
    "can_pay_out (view_address escrow) (view_address provider_token) (view_address buyer_token)
      (job_amount j) balance (token_at rt w)"
    "ledger_of rt pid w' = (ledger_of rt pid w)\<lparr>
      l_bond := (bond_at pid w)(view_address bond_account \<mapsto> release_bond j b),
      l_job := (job_at pid w)(view_address job_account \<mapsto> j\<lparr>job_locked_bond := 0, job_state := Settled\<rparr>),
      l_token := pay_out (view_address escrow) (view_address provider_token) (view_address buyer_token)
        (job_amount j) balance (token_at rt w)\<rparr>"
    "\<exists>t. token_at rt w' (view_address escrow) = Some t \<and> token_amount_of t = 0"
  using p
proof (cases rule: accept_work_inv)
  case (run buyer job_account bond_account escrow provider_token buyer_token mint token_program rest
    j x y z b now w1 w2 w3 w4)
  let ?L = "ledger_of rt pid w" and ?a = "view_address job_account" and ?ba = "view_address bond_account"
  let ?j = "j\<lparr>job_locked_bond := 0, job_state := Settled\<rparr>"
  note escrow = validate_ataD [OF run(7)] and provider = validate_ataD [OF run(8)]
    and buyer = validate_ataD [OF run(9)]
  note pay = pay_out_steps [OF D run(14,15) escrow(2) buyer(2)]
  have save: "ledger_of rt pid w3 = (ledger_of rt pid w2)\<lparr>l_bond := (bond_at pid w)(?ba \<mapsto> release_bond j b)\<rparr>"
    using run(10) by (simp add: ledger_save_bond [OF D run(18)] ledger_fields [OF pay(2)])
  have w4: "ledger_of rt pid w' = (ledger_of rt pid w3)\<lparr>l_job := (job_at pid w)(?a \<mapsto> ?j)\<rparr>"
    using run(3) by (simp add: ledger_emit [OF run(20)] ledger_save_job [OF D run(19)]
        ledger_fields [OF save] ledger_fields [OF pay(2)])
  have w': "ledger_of rt pid w' = ?L\<lparr>
      l_bond := (bond_at pid w)(?ba \<mapsto> release_bond j b), l_job := (job_at pid w)(?a \<mapsto> ?j),
      l_token := pay_out (view_address escrow) (view_address provider_token) (view_address buyer_token)
        (job_amount j) x (token_at rt w)\<rparr>"
    by (simp add: w4 save pay(2))
  have "token_at rt w' (view_address escrow) = token_at rt w2 (view_address escrow)"
    using fun_cong [OF ledger_fields(6) [OF w4]] fun_cong [OF ledger_fields(6) [OF save]] by simp
  with run(16) have "\<exists>t. token_at rt w' (view_address escrow) = Some t \<and> token_amount_of t = 0"
    by (auto simp: token_amount_eq_Inr)
  then show thesis
    using run(5,12,13) escrow provider buyer
    by (intro that [OF run(1-6,10,11) _ run(17) _ _ _ _ pay(1,3) w']) (simp_all add: bond_matches_def)
qed

lemma accept_work_refines:
  assumes D: "deployment rt pid" and p: "process_accept_work rt pid accounts w = Inr w'"
  shows "protocol_step rt pid (signers accounts) (ledger_of rt pid w) (ledger_of rt pid w')"
  using D p
proof (cases rule: accept_work_effect)
  case (run buyer job_account bond_account escrow provider_token buyer_token mint token_program rest
    j b balance)
  have "job_buyer j \<in> signers accounts" using run(1,2,5) by (simp add: signersI)
  then show ?thesis unfolding run(17)
    using run(3,4,6-16)
      protocol_step.settle [of "ledger_of rt pid w" "view_address job_account" j rt pid "signers accounts"
        "view_address bond_account" b "view_address escrow" "view_address provider_token"
        "view_address buyer_token" balance]
    by simp
qed

lemma challenge_work_effect:
  assumes D: "deployment rt pid" and p: "process_challenge_work rt pid accounts reason w = Inr w'"
  obtains (run) buyer config_account job_account challenge_account system_program rest c j now bump deadline
  where "accounts = buyer # config_account # job_account # challenge_account # system_program # rest"
    "view_is_signer buyer" "config_at pid w (view_address config_account) = Some c"
    "config_derived rt pid (view_address config_account) c"
    "job_at pid w (view_address job_account) = Some j" "job_derived rt pid (view_address job_account) j"
    "job_buyer j = view_address buyer" "job_state j = Submitted" "w_clock w = Some now"
    "now <s job_auto_settle_deadline j"
    "try_find_program_address rt (challenge_seed_parts (view_address job_account)) pid =
       Some (view_address challenge_account, bump)"
    "vacant (ledger_of rt pid w) (view_address challenge_account)"
    "challenge_at pid w (view_address challenge_account) = None"
    "sint deadline = sint now + sint (config_challenge_duration_seconds c)"
    "ledger_of rt pid w' = (ledger_of rt pid w)\<lparr>
      l_challenge := (challenge_at pid w)(view_address challenge_account \<mapsto>
        \<lparr>challenge_bump = bump, challenge_status = STATUS_OPEN, challenge_job = view_address job_account,
         challenge_buyer = job_buyer j, challenge_reason_hash = reason, challenge_bond_amount = 0,
         challenge_deadline = deadline\<rparr>),
      l_job := (job_at pid w)(view_address job_account \<mapsto> j\<lparr>job_state := Challenged\<rparr>)\<rparr>"
  using p
proof (cases rule: challenge_work_inv)
  case (run buyer config_account job_account challenge_account system_program rest c j now bump
    deadline w1 w2 w3)
  note create = ledger_create [OF D zero_less_numeral run(13)]
  note save = ledger_save_challenge [OF D run(14) disjI2 [OF create(2)]]
  note save' = trans [OF save, unfolded create(1) ledger_fields [OF create(1)], OF refl]
  show thesis
    by (rule that [OF run(1-9)])
       (use run(5,10-12) create(7) create_vacant [OF D zero_less_numeral run(13)] in
         \<open>simp_all add: ledger_emit [OF run(16)] ledger_save_job [OF D run(15)] save' ledger_fields [OF save']
            challenge_seed_parts_def checked_add_signed_eq_Some signed.not_le\<close>)
qed

lemma challenge_work_refines:
  assumes D: "deployment rt pid" and p: "process_challenge_work rt pid accounts reason w = Inr w'"
  shows "protocol_step rt pid (signers accounts) (ledger_of rt pid w) (ledger_of rt pid w')"
  using D p
proof (cases rule: challenge_work_effect)
  case (run buyer config_account job_account challenge_account system_program rest c j now bump deadline)
  have "job_buyer j \<in> signers accounts" using run(1,2,7) by (simp add: signersI)
  then show ?thesis unfolding run(15)
    using run(5,6,8-12,14) config_in_forceI [OF run(3,4)]
      protocol_step.challenge [of rt pid "ledger_of rt pid w" c "view_address job_account" j "signers accounts" now
        "view_address challenge_account" bump deadline reason]
    by simp
qed

end
