(* ===== verification/Resolve_Handlers.thy ===== *)
theory Resolve_Handlers
  imports Protocol
begin

text \<open>
  The handlers of \<^verbatim>\<open>processor/resolve.rs\<close>: the ways a job ends without the buyer's acceptance,
  and closing the account of a job that has ended.
\<close>

text \<open>The \<open>match job.state\<close> of \<open>resolve_timeout_settle\<close>: when the job may be settled without the
  buyer. A challenge that has run out is closed here.\<close>

definition settle_gate ::
    "runtime \<Rightarrow> address \<Rightarrow> AccountView \<Rightarrow> AccountView option \<Rightarrow> AccountView \<Rightarrow> JobAccount \<Rightarrow> i64 \<Rightarrow>
       world \<Rightarrow> ProgramError + world" where
  "settle_gate rt program_id job_account challenge_account buyer job now w =
     (case job_state job of
        Submitted \<Rightarrow>
          tryE (ensure (\<not> now <s job_auto_settle_deadline job) (fail DeadlineNotReached)) (\<lambda>_.
          Inr w)
      | Challenged \<Rightarrow>
          tryE (ok_or challenge_account (fail InvalidAccountData)) (\<lambda>challenge_account.
          tryE (load_validated_challenge rt program_id challenge_account
                  (view_address job_account) w) (\<lambda>challenge.
          tryE (ensure (challenge_status challenge = STATUS_OPEN) (fail InvalidChallengeStatus)) (\<lambda>_.
          tryE (ensure (\<not> now <s challenge_deadline challenge) (fail DeadlineNotReached)) (\<lambda>_.
          tryE (ensure (view_address buyer = challenge_buyer challenge) (fail InvalidRentRecipient)) (\<lambda>_.
          tryE (require_writable challenge_account) (\<lambda>_.
          close_pda_account rt challenge_account buyer w))))))
      | _ \<Rightarrow> Inl (fail InvalidStateTransition))"

definition resolve_timeout_settle ::
    "runtime \<Rightarrow> address \<Rightarrow> AccountView list \<Rightarrow> world \<Rightarrow> ProgramError + world" where
  "resolve_timeout_settle rt program_id accounts w =
     tryE (next_account accounts) (\<lambda>(payer, accounts).
     tryE (next_account accounts) (\<lambda>(job_account, accounts).
     tryE (next_account accounts) (\<lambda>(bond_account, accounts).
     tryE (next_account accounts) (\<lambda>(escrow, accounts).
     tryE (next_account accounts) (\<lambda>(provider_token, accounts).
     tryE (next_account accounts) (\<lambda>(buyer_token, accounts).
     tryE (next_account accounts) (\<lambda>(buyer, accounts).
     tryE (next_account accounts) (\<lambda>(mint, accounts).
     tryE (next_account accounts) (\<lambda>(token_program, accounts).
     let (challenge_account, accounts) = next_opt accounts
     in tryE (require_writable job_account) (\<lambda>_.
     tryE (require_writable bond_account) (\<lambda>_.
     tryE (require_legacy_token_program rt token_program) (\<lambda>_.
     tryE (load_validated_job rt program_id job_account w) (\<lambda>job.
     tryE (now_ts w) (\<lambda>now.
     tryE (settle_gate rt program_id job_account challenge_account buyer job now w) (\<lambda>w.
     tryE (ensure (view_address token_program = job_token_program job) (fail InvalidTokenProgram)) (\<lambda>_.
     tryE (validate_mint rt mint (job_mint job) (job_mint_decimals job) w) (\<lambda>_.
     tryE (validate_ata rt escrow (view_address job_account) (job_mint job) w) (\<lambda>_.
     tryE (validate_ata rt provider_token (address_from_bytes (job_provider job)) (job_mint job) w) (\<lambda>_.
     tryE (validate_ata rt buyer_token (address_from_bytes (job_buyer job)) (job_mint job) w) (\<lambda>_.
     tryE (ensure (view_address buyer = job_buyer job) (fail InvalidRentRecipient)) (\<lambda>_.
     tryE (load_validated_bond rt program_id bond_account w) (\<lambda>bond.
     tryE (ensure (\<not> (bond_provider bond \<noteq> job_provider job \<or> bond_mint bond \<noteq> job_mint job))
             (fail InvalidPda)) (\<lambda>_.
     let nonce = job_nonce_bytes job;
         bump = job_bump job;
         seeds = job_signer_seeds (job_buyer job) (job_provider job) nonce bump
     in tryE (return_surplus_to_buyer rt escrow mint buyer_token job_account (job_amount job)
             (job_mint_decimals job) seeds w) (\<lambda>w.
     tryE (transfer_checked rt escrow mint provider_token job_account (job_amount job)
             (job_mint_decimals job) (Some seeds) w) (\<lambda>w.
     tryE (token_amount rt escrow w) (\<lambda>left_over.
     tryE (ensure (left_over = 0) (fail EscrowNotEmpty)) (\<lambda>_.
     let amount = job_amount job
     in tryE (unlock_job_bond job bond) (\<lambda>(job, bond).
     tryE (transition_job job Settled) (\<lambda>job.
     tryE (save_bond bond_account bond w) (\<lambda>w.
     tryE (save_job job_account job w) (\<lambda>w.
     emit JobSettled (view_address job_account) (address_from_bytes (job_provider job)) amount now
       w)))))))))))))))))))))))))))))))"

text \<open>The \<open>match job.state\<close> of \<open>refund_internal\<close>.\<close>

definition refund_gate :: "JobAccount \<Rightarrow> i64 \<Rightarrow> bool \<Rightarrow> ProgramError + unit" where
  "refund_gate job now funded_only =
     (case job_state job of
        Funded \<Rightarrow> ensure (\<not> now <s job_accept_deadline job) (fail DeadlineNotReached)
      | Accepted \<Rightarrow>
          (if \<not> funded_only
           then ensure (\<not> now \<le>s job_work_deadline job) (fail DeadlineNotReached)
           else Inl (fail InvalidStateTransition))
      | _ \<Rightarrow> Inl (fail InvalidStateTransition))"

text \<open>The \<open>let mut bond = if ... else ...\<close> of \<open>refund_internal\<close>: the job with its share of the bond
  released, and the bond to save, if any.\<close>

definition refund_bond ::
    "runtime \<Rightarrow> address \<Rightarrow> AccountView \<Rightarrow> JobAccount \<Rightarrow> world \<Rightarrow>
       ProgramError + (JobAccount \<times> ProviderBondAccount option)" where
  "refund_bond rt program_id bond_account job w =
     (if data_len bond_account w = PROVIDER_BOND_ACCOUNT_LEN \<and> owned_by bond_account program_id w
      then
        tryE (require_writable bond_account) (\<lambda>_.
        tryE (load_validated_bond rt program_id bond_account w) (\<lambda>bond.
        if bond_provider bond = job_provider job \<and> bond_mint bond = job_mint job
        then tryE (unlock_job_bond job bond) (\<lambda>(job, bond). Inr (job, Some bond))
        else if job_locked_bond job = 0 then Inr (job, None)
        else Inl (fail InvalidPda)))
      else if job_locked_bond job = 0 then Inr (job, None)
      else Inl (fail InvalidAccountData))"

definition refund_internal ::
    "runtime \<Rightarrow> address \<Rightarrow> AccountView list \<Rightarrow> bool \<Rightarrow> world \<Rightarrow> ProgramError + world" where
  "refund_internal rt program_id accounts funded_only w =
     tryE (next_account accounts) (\<lambda>(payer, accounts).
     tryE (next_account accounts) (\<lambda>(job_account, accounts).
     tryE (next_account accounts) (\<lambda>(bond_account, accounts).
     tryE (next_account accounts) (\<lambda>(escrow, accounts).
     tryE (next_account accounts) (\<lambda>(buyer_token, accounts).
     tryE (next_account accounts) (\<lambda>(buyer, accounts).
     tryE (next_account accounts) (\<lambda>(mint, accounts).
     tryE (next_account accounts) (\<lambda>(token_program, accounts).
     tryE (require_writable job_account) (\<lambda>_.
     tryE (require_legacy_token_program rt token_program) (\<lambda>_.
     tryE (load_validated_job rt program_id job_account w) (\<lambda>job.
     tryE (now_ts w) (\<lambda>now.
     tryE (refund_gate job now funded_only) (\<lambda>_.
     tryE (ensure (view_address buyer = job_buyer job) (fail InvalidRentRecipient)) (\<lambda>_.
     tryE (refund_principal_to_buyer rt job job_account escrow mint buyer_token token_program
             (job_mint_decimals job) w) (\<lambda>w.
     tryE (refund_bond rt program_id bond_account job w) (\<lambda>(job, bond).
     let amount = job_amount job
     in tryE (transition_job job Refunded) (\<lambda>job.
     tryE (case bond of Some bond \<Rightarrow> save_bond bond_account bond w | None \<Rightarrow> Inr w) (\<lambda>w.
     tryE (save_job job_account job w) (\<lambda>w.
     emit JobRefunded (view_address job_account) (view_address buyer) amount now
       w)))))))))))))))))))"

definition resolve_timeout_refund ::
    "runtime \<Rightarrow> address \<Rightarrow> AccountView list \<Rightarrow> world \<Rightarrow> ProgramError + world" where
  "resolve_timeout_refund rt program_id accounts w = refund_internal rt program_id accounts False w"

definition expire_unaccepted ::
    "runtime \<Rightarrow> address \<Rightarrow> AccountView list \<Rightarrow> world \<Rightarrow> ProgramError + world" where
  "expire_unaccepted rt program_id accounts w = refund_internal rt program_id accounts True w"

definition expire_unfunded ::
    "runtime \<Rightarrow> address \<Rightarrow> AccountView list \<Rightarrow> world \<Rightarrow> ProgramError + world" where
  "expire_unfunded rt program_id accounts w =
     tryE (next_account accounts) (\<lambda>(payer, accounts).
     tryE (next_account accounts) (\<lambda>(job_account, accounts).
     tryE (require_writable job_account) (\<lambda>_.
     tryE (load_validated_job rt program_id job_account w) (\<lambda>job.
     tryE (ensure (job_state job = Created) (fail InvalidStateTransition)) (\<lambda>_.
     tryE (now_ts w) (\<lambda>now.
     tryE (ensure (\<not> now <s job_fund_deadline job) (fail DeadlineNotReached)) (\<lambda>_.
     tryE (transition_job job Expired) (\<lambda>job.
     tryE (save_job job_account job w) (\<lambda>w.
     emit JobExpired (view_address job_account) (address_from_bytes (job_buyer job)) 0 now w)))))))))"

definition slash_bond ::
    "runtime \<Rightarrow> address \<Rightarrow> AccountView list \<Rightarrow> world \<Rightarrow> ProgramError + world" where
  "slash_bond rt program_id accounts w =
     tryE (next_account accounts) (\<lambda>(admin, accounts).
     tryE (next_account accounts) (\<lambda>(config_account, accounts).
     tryE (next_account accounts) (\<lambda>(job_account, accounts).
     tryE (next_account accounts) (\<lambda>(bond_account, accounts).
     tryE (next_account accounts) (\<lambda>(bond_vault, accounts).
     tryE (next_account accounts) (\<lambda>(escrow, accounts).
     tryE (next_account accounts) (\<lambda>(buyer_token, accounts).
     tryE (next_account accounts) (\<lambda>(buyer, accounts).
     tryE (next_account accounts) (\<lambda>(challenge_account, accounts).
     tryE (next_account accounts) (\<lambda>(mint, accounts).
     tryE (next_account accounts) (\<lambda>(token_program, accounts).
     tryE (require_signer admin) (\<lambda>_.
     tryE (require_writable job_account) (\<lambda>_.
     tryE (require_writable bond_account) (\<lambda>_.
     tryE (require_writable challenge_account) (\<lambda>_.
     tryE (require_legacy_token_program rt token_program) (\<lambda>_.
     tryE (load_validated_config_readonly rt program_id config_account w) (\<lambda>config.
     tryE (ensure (view_address admin = config_admin config) (fail Unauthorized)) (\<lambda>_.
     tryE (load_validated_job rt program_id job_account w) (\<lambda>job.
     tryE (ensure (job_state job = Challenged) (fail InvalidStateTransition)) (\<lambda>_.
     tryE (load_validated_challenge rt program_id challenge_account (view_address job_account) w)
       (\<lambda>challenge.
     tryE (ensure (challenge_status challenge = STATUS_OPEN) (fail InvalidChallengeStatus)) (\<lambda>_.
     tryE (now_ts w) (\<lambda>now.
     tryE (ensure (\<not> challenge_deadline challenge \<le>s now) (fail DeadlineExpired)) (\<lambda>_.
     tryE (ensure (view_address buyer = job_buyer job) (fail InvalidRentRecipient)) (\<lambda>_.
     tryE (refund_principal_to_buyer rt job job_account escrow mint buyer_token token_program
             (job_mint_decimals job) w) (\<lambda>w.
     tryE (load_validated_bond rt program_id bond_account w) (\<lambda>bond.
     tryE (ensure (\<not> (bond_provider bond \<noteq> job_provider job \<or> bond_mint bond \<noteq> job_mint job))
             (fail InvalidPda)) (\<lambda>_.
     let slash_amount = job_locked_bond job
     in tryE (ensure (slash_amount \<noteq> 0) (fail InvalidAmount)) (\<lambda>_.
     tryE (ensure (\<not> (bond_locked bond < slash_amount \<or> bond_deposited bond < slash_amount))
             (fail InsufficientBond)) (\<lambda>_.
     tryE (validate_ata rt bond_vault (view_address bond_account) (bond_mint bond) w) (\<lambda>_.
     tryE (validate_mint rt mint (job_mint job) (job_mint_decimals job) w) (\<lambda>_.
     let bump = bond_bump bond;
         seeds = bond_signer_seeds (bond_provider bond) (bond_mint bond) bump
     in tryE (transfer_checked rt bond_vault mint buyer_token bond_account slash_amount
             (job_mint_decimals job) (Some seeds) w) (\<lambda>w.
     tryE (ok_or (checked_sub (bond_locked bond) slash_amount) (fail MathOverflow)) (\<lambda>locked.
     let bond = bond\<lparr>bond_locked := locked\<rparr>
     in tryE (ok_or (checked_sub (bond_deposited bond) slash_amount) (fail MathOverflow)) (\<lambda>deposited.
     let bond = bond\<lparr>bond_deposited := deposited\<rparr>;
         job = job\<lparr>job_locked_bond := 0\<rparr>
     in tryE (transition_job job Slashed) (\<lambda>job.
     tryE (save_bond bond_account bond w) (\<lambda>w.
     tryE (save_job job_account job w) (\<lambda>w.
     tryE (close_pda_account rt challenge_account buyer w) (\<lambda>w.
     emit JobSlashed (view_address job_account) (view_address admin) slash_amount now
       w)))))))))))))))))))))))))))))))))))))))"

text \<open>The \<open>if let Some(escrow)\<close> of \<open>close_job\<close>.\<close>

definition close_escrow ::
    "runtime \<Rightarrow> AccountView option \<Rightarrow> AccountView option \<Rightarrow> AccountView \<Rightarrow> AccountView \<Rightarrow>
       JobAccount \<Rightarrow> world \<Rightarrow> ProgramError + world" where
  "close_escrow rt escrow token_program rent_recipient job_account job w =
     (case escrow of
        None \<Rightarrow> Inr w
      | Some escrow \<Rightarrow>
          (if \<not> owned_by escrow (system_program_id rt) w \<and> data_len escrow w > 0
           then
             tryE (ok_or token_program (fail InvalidTokenProgram)) (\<lambda>token_program.
             tryE (require_legacy_token_program rt token_program) (\<lambda>_.
             tryE (token_amount rt escrow w) (\<lambda>left_over.
             tryE (ensure (left_over = 0) (fail EscrowNotEmpty)) (\<lambda>_.
             let nonce = job_nonce_bytes job;
                 bump = job_bump job;
                 seeds = job_signer_seeds (job_buyer job) (job_provider job) nonce bump
             in close_token_account rt escrow rent_recipient job_account seeds w))))
           else Inr w))"

definition close_job ::
    "runtime \<Rightarrow> address \<Rightarrow> AccountView list \<Rightarrow> world \<Rightarrow> ProgramError + world" where
  "close_job rt program_id accounts w =
     tryE (next_account accounts) (\<lambda>(buyer, accounts).
     tryE (next_account accounts) (\<lambda>(job_account, accounts).
     tryE (next_account accounts) (\<lambda>(rent_recipient, accounts).
     let (escrow, accounts) = next_opt accounts;
         (token_program, accounts) = next_opt accounts
     in tryE (require_signer buyer) (\<lambda>_.
     tryE (require_writable job_account) (\<lambda>_.
     tryE (load_validated_job rt program_id job_account w) (\<lambda>job.
     tryE (ensure (job_buyer job = view_address buyer) (fail Unauthorized)) (\<lambda>_.
     tryE (ensure (is_terminal (job_state job)) (fail InvalidStateTransition)) (\<lambda>_.
     tryE (ensure (view_address rent_recipient = view_address buyer) (fail InvalidRentRecipient)) (\<lambda>_.
     tryE (close_escrow rt escrow token_program rent_recipient job_account job w) (\<lambda>w.
     let amount = job_amount job
     in tryE (close_pda_account rt job_account rent_recipient w) (\<lambda>w.
     tryE (now_ts w) (\<lambda>now.
     emit JobClosed (address_from_bytes (job_buyer job)) (view_address buyer) amount now
       w))))))))))))"

section \<open>What a successful run has checked and done\<close>

lemma settle_gate_cases:
  assumes "settle_gate rt pid job_account challenge_account buyer j now w = Inr w'"
  obtains (submitted) "job_state j = Submitted" "\<not> now <s job_auto_settle_deadline j" "w' = w"
  | (challenged) cv ch where "job_state j = Challenged" "challenge_account = Some cv"
    "challenge_at pid w (view_address cv) = Some ch"
    "challenge_derived rt pid (view_address cv) (view_address job_account) ch"
    "challenge_job ch = view_address job_account" "challenge_status ch = STATUS_OPEN"
    "\<not> now <s challenge_deadline ch" "close_pda_account rt cv buyer w = Inr w'"
  using assms by (auto simp: settle_gate_def handler_inv split: JobState.splits)

lemma timeout_settle_inv:
  assumes "resolve_timeout_settle rt pid accounts w = Inr w'"
  obtains (run) payer job_account bond_account escrow provider_token buyer_token buyer mint token_program
    rest j now x y z b w0 w1 w2 w3 w4
  where "accounts = payer # job_account # bond_account # escrow # provider_token # buyer_token # buyer #
      mint # token_program # rest"
    "job_at pid w (view_address job_account) = Some j" "job_derived rt pid (view_address job_account) j"
    "w_clock w = Some now"
    "settle_gate rt pid job_account (fst (next_opt rest)) buyer j now w = Inr w0"
    "validate_ata rt escrow (view_address job_account) (job_mint j) w0 = Inr x"
    "validate_ata rt provider_token (job_provider j) (job_mint j) w0 = Inr y"
    "validate_ata rt buyer_token (job_buyer j) (job_mint j) w0 = Inr z"
    "bond_at pid w0 (view_address bond_account) = Some b" "bond_derived rt pid (view_address bond_account) b"
    "bond_provider b = job_provider j" "bond_mint b = job_mint j"
    "return_surplus_to_buyer rt escrow mint buyer_token job_account (job_amount j) (job_mint_decimals j)
       (job_signer_seeds (job_buyer j) (job_provider j) (job_nonce_bytes j) (job_bump j)) w0 = Inr w1"
    "transfer_checked rt escrow mint provider_token job_account (job_amount j) (job_mint_decimals j)
       (Some (job_signer_seeds (job_buyer j) (job_provider j) (job_nonce_bytes j) (job_bump j))) w1 = Inr w2"
    "token_amount rt escrow w2 = Inr 0" "job_locked_bond j \<le> bond_locked b"
    "save_bond bond_account (release_bond j b) w2 = Inr w3"
    "save_job job_account (j\<lparr>job_locked_bond := 0, job_state := Settled\<rparr>) w3 = Inr w4"
    "emit JobSettled (view_address job_account) (job_provider j) (job_amount j) now w4 = Inr w'"
  using assms unfolding resolve_timeout_settle_def handler_start case_prod_beta
  by (simp (no_asm_use) only: handler_inv address_from_bytes_def fst_conv snd_conv)
     (elim exE conjE, hypsubst, rule that [unfolded release_bond_def], (assumption | rule refl | simp)+)

lemma if_eq_Inr: "(if c then m else n) = Inr x \<longleftrightarrow> c \<and> m = Inr x \<or> \<not> c \<and> n = Inr x"
  by simp

lemma refund_gate_eq_Inr:
  "refund_gate j now funded_only = Inr u \<longleftrightarrow>
     job_state j = Funded \<and> \<not> now <s job_accept_deadline j \<or>
     job_state j = Accepted \<and> \<not> funded_only \<and> \<not> now \<le>s job_work_deadline j"
  by (auto simp: refund_gate_def result_inv split: JobState.splits)

lemma refund_bond_cases:
  assumes "refund_bond rt pid bond_account j w = Inr (j', ob)"
  obtains (released) b where "bond_at pid w (view_address bond_account) = Some b"
    "bond_derived rt pid (view_address bond_account) b" "bond_matches b j"
    "job_locked_bond j \<le> bond_locked b" "j' = j\<lparr>job_locked_bond := 0\<rparr>" "ob = Some (release_bond j b)"
  | (unlocked) "job_locked_bond j = 0" "j' = j" "ob = None"
  using assms
  by (auto simp: refund_bond_def handler_inv if_eq_Inr bond_matches_def release_bond_def)

lemma refund_internal_inv:
  assumes "refund_internal rt pid accounts funded_only w = Inr w'"
  obtains (run) payer job_account bond_account escrow buyer_token buyer mint token_program rest
    j now u w1 j' ob w2 w3
  where "accounts = payer # job_account # bond_account # escrow # buyer_token # buyer # mint #
      token_program # rest"
    "job_at pid w (view_address job_account) = Some j" "job_derived rt pid (view_address job_account) j"
    "w_clock w = Some now" "refund_gate j now funded_only = Inr u" "view_address buyer = job_buyer j"
    "refund_principal_to_buyer rt j job_account escrow mint buyer_token token_program
       (job_mint_decimals j) w = Inr w1"
    "refund_bond rt pid bond_account j w1 = Inr (j', ob)"
    "(case ob of Some b \<Rightarrow> save_bond bond_account b w1 | None \<Rightarrow> Inr w1) = Inr w2"
    "save_job job_account (j'\<lparr>job_state := Refunded\<rparr>) w2 = Inr w3"
    "emit JobRefunded (view_address job_account) (view_address buyer) (job_amount j') now w3 = Inr w'"
  using assms unfolding refund_internal_def handler_start
  by (simp (no_asm_use) only: handler_inv)
     (elim exE conjE, hypsubst, rule that, (assumption | rule refl | simp)+)

lemma expire_unfunded_inv:
  assumes "expire_unfunded rt pid accounts w = Inr w'"
  obtains (run) payer job_account rest j now w1
  where "accounts = payer # job_account # rest" "job_at pid w (view_address job_account) = Some j"
    "job_derived rt pid (view_address job_account) j" "job_state j = Created" "w_clock w = Some now"
    "\<not> now <s job_fund_deadline j" "save_job job_account (j\<lparr>job_state := Expired\<rparr>) w = Inr w1"
    "emit JobExpired (view_address job_account) (job_buyer j) 0 now w1 = Inr w'"
  using assms unfolding expire_unfunded_def handler_start
  by (simp (no_asm_use) only: handler_inv address_from_bytes_def)
     (elim exE conjE, hypsubst, rule that, (assumption | rule refl | simp)+)

lemma slash_bond_inv:
  assumes "slash_bond rt pid accounts w = Inr w'"
  obtains (run) admin config_account job_account bond_account bond_vault escrow buyer_token buyer
    challenge_account mint token_program rest c j ch now w1 b x w2 k d w3 w4 w5
  where "accounts = admin # config_account # job_account # bond_account # bond_vault # escrow #
      buyer_token # buyer # challenge_account # mint # token_program # rest"
    "view_is_signer admin" "config_at pid w (view_address config_account) = Some c"
    "config_derived rt pid (view_address config_account) c" "view_address admin = config_admin c"
    "job_at pid w (view_address job_account) = Some j" "job_derived rt pid (view_address job_account) j"
    "job_state j = Challenged" "challenge_at pid w (view_address challenge_account) = Some ch"
    "challenge_derived rt pid (view_address challenge_account) (view_address job_account) ch"
    "challenge_job ch = view_address job_account" "challenge_status ch = STATUS_OPEN"
    "w_clock w = Some now" "\<not> challenge_deadline ch \<le>s now"
    "refund_principal_to_buyer rt j job_account escrow mint buyer_token token_program
       (job_mint_decimals j) w = Inr w1"
    "bond_at pid w1 (view_address bond_account) = Some b" "bond_derived rt pid (view_address bond_account) b"
    "bond_provider b = job_provider j" "bond_mint b = job_mint j" "job_locked_bond j \<noteq> 0"
    "validate_ata rt bond_vault (view_address bond_account) (bond_mint b) w1 = Inr x"
    "transfer_checked rt bond_vault mint buyer_token bond_account (job_locked_bond j) (job_mint_decimals j)
       (Some (bond_signer_seeds (bond_provider b) (bond_mint b) (bond_bump b))) w1 = Inr w2"
    "checked_sub (bond_locked b) (job_locked_bond j) = Some k"
    "checked_sub (bond_deposited b) (job_locked_bond j) = Some d"
    "save_bond bond_account (b\<lparr>bond_locked := k, bond_deposited := d\<rparr>) w2 = Inr w3"
    "save_job job_account (j\<lparr>job_locked_bond := 0, job_state := Slashed\<rparr>) w3 = Inr w4"
    "close_pda_account rt challenge_account buyer w4 = Inr w5"
    "emit JobSlashed (view_address job_account) (view_address admin) (job_locked_bond j) now w5 = Inr w'"
  using assms unfolding slash_bond_def handler_start
  by (simp (no_asm_use) only: handler_inv address_from_bytes_def)
     (elim exE conjE, hypsubst, rule that, (assumption | rule refl | simp)+)

lemma close_escrow_cases:
  assumes "close_escrow rt escrow token_program recipient job_account j w = Inr w'"
  obtains (kept) "w' = w"
  | (closed) e t seeds where "escrow = Some e" "token_at rt w (view_address e) = Some t" "token_amount_of t = 0"
    "close_token_account rt e recipient job_account seeds w = Inr w'"
  using assms
  by (auto simp: close_escrow_def handler_inv Let_def token_amount_eq_Inr split: option.splits if_splits)

lemma close_job_inv:
  assumes "close_job rt pid accounts w = Inr w'"
  obtains (run) buyer job_account rent_recipient rest j w1 w2 now
  where "accounts = buyer # job_account # rent_recipient # rest" "view_is_signer buyer"
    "job_at pid w (view_address job_account) = Some j" "job_derived rt pid (view_address job_account) j"
    "job_buyer j = view_address buyer" "is_terminal (job_state j)"
    "close_escrow rt (fst (next_opt rest)) (fst (next_opt (snd (next_opt rest)))) rent_recipient
       job_account j w = Inr w1"
    "close_pda_account rt job_account rent_recipient w1 = Inr w2"
    "emit JobClosed (job_buyer j) (view_address buyer) (job_amount j) now w2 = Inr w'"
  using assms unfolding close_job_def handler_start case_prod_beta
  by (simp (no_asm_use) only: handler_inv address_from_bytes_def fst_conv snd_conv)
     (elim exE conjE, hypsubst, rule that, (assumption | rule refl | simp)+)

section \<open>Refinement of the protocol\<close>

text \<open>The refund of a job's escrow, shared by the timeout and the slashing.\<close>

lemma refund_principal_steps:
  assumes D: "deployment rt pid"
    and r: "refund_principal_to_buyer rt j job_account escrow mint buyer_token token_program decimals w = Inr w'"
  obtains balance where "ata rt (view_address job_account) (job_mint j) = Some (view_address escrow)"
    "ata rt (job_buyer j) (job_mint j) = Some (view_address buyer_token)"
    "holds (token_at rt w) (view_address escrow) (job_mint j) (view_address job_account) balance"
    "job_amount j \<le> balance"
    "can_move (view_address escrow) (view_address buyer_token) balance (token_at rt w)"
    "ledger_of rt pid w' = (ledger_of rt pid w)\<lparr>l_token := move_tokens (view_address escrow)
       (view_address buyer_token) balance (token_at rt w)\<rparr>"
proof -
  from r obtain n m where
    *: "validate_ata rt escrow (view_address job_account) (job_mint j) w = Inr n" "job_amount j \<le> n"
      "validate_ata rt buyer_token (job_buyer j) (job_mint j) w = Inr m"
      "transfer_checked rt escrow mint buyer_token job_account n decimals
        (Some (job_signer_seeds (job_buyer j) (job_provider j) (job_nonce_bytes j) (job_bump j))) w = Inr w'"
    by (simp only: refund_principal_eq_Inr) blast
  from validate_ataD [OF *(1)] validate_ataD [OF *(3)] *(2)
    ledger_transfer [OF D *(4) holds_undelegated [OF validate_ataD(2) [OF *(1)]]] that
  show thesis by blast
qed

lemma expire_unfunded_refines:
  assumes D: "deployment rt pid" and p: "expire_unfunded rt pid accounts w = Inr w'"
  shows "protocol_step rt pid (signers accounts) (ledger_of rt pid w) (ledger_of rt pid w')"
  using p
proof (cases rule: expire_unfunded_inv)
  case (run payer job_account rest j now w1)
  have w': "ledger_of rt pid w' = (ledger_of rt pid w)\<lparr>
      l_job := (job_at pid w)(view_address job_account \<mapsto> j\<lparr>job_state := Expired\<rparr>)\<rparr>"
    using run(2) by (simp add: ledger_emit [OF run(8)] ledger_save_job [OF D run(7)])
  show ?thesis unfolding w'
    using run(2-4) dueI [OF run(5,6)]
      protocol_step.expire [of "ledger_of rt pid w" "view_address job_account" j rt pid]
    by simp
qed

lemma refund_internal_effect:
  assumes D: "deployment rt pid" and p: "refund_internal rt pid accounts funded_only w = Inr w'"
  obtains (run) payer job_account bond_account escrow buyer_token buyer mint token_program rest
    j now balance bonds b
  where "accounts = payer # job_account # bond_account # escrow # buyer_token # buyer # mint #
      token_program # rest"
    "job_at pid w (view_address job_account) = Some j" "job_derived rt pid (view_address job_account) j"
    "w_clock w = Some now"
    "job_state j = Funded \<and> job_accept_deadline j \<le>s now \<or>
     job_state j = Accepted \<and> \<not> funded_only \<and> job_work_deadline j <s now"
    "ata rt (view_address job_account) (job_mint j) = Some (view_address escrow)"
    "ata rt (job_buyer j) (job_mint j) = Some (view_address buyer_token)"
    "holds (token_at rt w) (view_address escrow) (job_mint j) (view_address job_account) balance"
    "job_amount j \<le> balance"
    "can_move (view_address escrow) (view_address buyer_token) balance (token_at rt w)"
    "job_locked_bond j = 0 \<and> bonds = bond_at pid w \<or>
     bond_at pid w (view_address bond_account) = Some b \<and> bond_derived rt pid (view_address bond_account) b \<and>
     bond_matches b j \<and> job_locked_bond j \<le> bond_locked b \<and>
     bonds = (bond_at pid w)(view_address bond_account \<mapsto> release_bond j b)"
    "ledger_of rt pid w' = (ledger_of rt pid w)\<lparr>l_bond := bonds,
      l_job := (job_at pid w)(view_address job_account \<mapsto> j\<lparr>job_locked_bond := 0, job_state := Refunded\<rparr>),
      l_token := move_tokens (view_address escrow) (view_address buyer_token) balance (token_at rt w)\<rparr>"
  using p
proof (cases rule: refund_internal_inv)
  case (run payer job_account bond_account escrow buyer_token buyer mint token_program rest
    j now u w1 j' ob w2 w3)
  let ?L = "ledger_of rt pid w" and ?a = "view_address job_account" and ?ba = "view_address bond_account"
  let ?j = "j\<lparr>job_locked_bond := 0, job_state := Refunded\<rparr>"
  obtain balance where r: "ata rt ?a (job_mint j) = Some (view_address escrow)"
    "ata rt (job_buyer j) (job_mint j) = Some (view_address buyer_token)"
    "holds (token_at rt w) (view_address escrow) (job_mint j) ?a balance" "job_amount j \<le> balance"
    "can_move (view_address escrow) (view_address buyer_token) balance (token_at rt w)"
    "ledger_of rt pid w1 = ?L\<lparr>l_token := move_tokens (view_address escrow)
       (view_address buyer_token) balance (token_at rt w)\<rparr>"
    using refund_principal_steps [OF D run(7)] .
  note w1 = ledger_fields [OF r(6)]
  obtain bonds b where bonds: "ledger_of rt pid w2 = (ledger_of rt pid w1)\<lparr>l_bond := bonds\<rparr>"
    "j'\<lparr>job_state := Refunded\<rparr> = ?j"
    "job_locked_bond j = 0 \<and> bonds = bond_at pid w \<or>
     bond_at pid w ?ba = Some b \<and> bond_derived rt pid ?ba b \<and> bond_matches b j \<and>
     job_locked_bond j \<le> bond_locked b \<and> bonds = (bond_at pid w)(?ba \<mapsto> release_bond j b)"
    using run(8)
  proof (cases rule: refund_bond_cases)
    case (released b)
    with run(9) have "save_bond bond_account (release_bond j b) w1 = Inr w2" by simp
    from ledger_save_bond [OF D this] released that show thesis by (simp add: w1) blast
  next
    case unlocked
    with run(9) have "w2 = w1" by simp
    with unlocked that [of "bond_at pid w"] show thesis by (simp add: r(6) w1 ledger_of_def)
  qed
  have w': "ledger_of rt pid w' = ?L\<lparr>l_bond := bonds, l_job := (job_at pid w)(?a \<mapsto> ?j),
      l_token := move_tokens (view_address escrow) (view_address buyer_token) balance (token_at rt w)\<rparr>"
    using run(2) bonds(2)
    by (simp add: ledger_emit [OF run(11)] ledger_save_job [OF D run(10)] ledger_fields [OF bonds(1)]
        bonds(1) w1 r(6))
  show thesis
    using run(5) by (intro that [OF run(1-4) _ r(1-5) bonds(3) w']) (auto simp: refund_gate_eq_Inr signed.not_le signed.not_less)
qed

lemma refund_internal_refines:
  assumes D: "deployment rt pid" and p: "refund_internal rt pid accounts funded_only w = Inr w'"
  shows "protocol_step rt pid (signers accounts) (ledger_of rt pid w) (ledger_of rt pid w')"
  using D p
proof (cases rule: refund_internal_effect)
  case (run payer job_account bond_account escrow buyer_token buyer mint token_program rest
    j now balance bonds b)
  have "job_state j = Funded \<and> due (job_accept_deadline j) (ledger_of rt pid w) \<or>
      job_state j = Accepted \<and> (\<exists>now. l_now (ledger_of rt pid w) = Some now \<and> job_work_deadline j <s now)"
    using run(4,5) by (auto simp: due_def)
  then show ?thesis unfolding run(12)
    using run(2,3,6-11)
      protocol_step.refund [of "ledger_of rt pid w" "view_address job_account" j rt pid "view_address escrow"
        "view_address buyer_token" balance bonds "view_address bond_account" b "signers accounts"]
    by simp
qed

text \<open>A settlement after the gate, whichever way it was passed.\<close>

lemma timeout_settle_view:
  assumes D: "deployment rt pid" and p: "resolve_timeout_settle rt pid accounts w = Inr w'"
  obtains (run) a j now w0 job_account cv buyer ba b escrow provider_token buyer_token balance
  where "a = view_address job_account" "job_at pid w a = Some j" "job_derived rt pid a j"
    "w_clock w = Some now" "settle_gate rt pid job_account cv buyer j now w = Inr w0"
    "bond_at pid w0 ba = Some b" "bond_derived rt pid ba b" "bond_matches b j"
    "job_locked_bond j \<le> bond_locked b" "ata rt a (job_mint j) = Some escrow"
    "ata rt (job_provider j) (job_mint j) = Some provider_token"
    "ata rt (job_buyer j) (job_mint j) = Some buyer_token"
    "holds (token_at rt w0) escrow (job_mint j) a balance" "job_amount j \<le> balance"
    "can_pay_out escrow provider_token buyer_token (job_amount j) balance (token_at rt w0)"
    "job_at pid w0 a \<noteq> None \<longrightarrow> ledger_of rt pid w' = (ledger_of rt pid w0)\<lparr>
      l_bond := (bond_at pid w0)(ba \<mapsto> release_bond j b),
      l_job := (job_at pid w0)(a \<mapsto> j\<lparr>job_locked_bond := 0, job_state := Settled\<rparr>),
      l_token := pay_out escrow provider_token buyer_token (job_amount j) balance (token_at rt w0)\<rparr>"
  using p
proof (cases rule: timeout_settle_inv)
  case (run payer job_account bond_account escrow provider_token buyer_token buyer mint token_program
    rest j now x y z b w0 w1 w2 w3 w4)
  let ?a = "view_address job_account" and ?ba = "view_address bond_account"
  note escrow = validate_ataD [OF run(6)] and provider = validate_ataD [OF run(7)]
    and buyer = validate_ataD [OF run(8)]
  note pay = pay_out_steps [OF D run(13,14) escrow(2) buyer(2)]
  have save: "ledger_of rt pid w3 = (ledger_of rt pid w2)\<lparr>l_bond := (bond_at pid w0)(?ba \<mapsto> release_bond j b)\<rparr>"
    using run(9) by (simp add: ledger_save_bond [OF D run(17)] ledger_fields [OF pay(2)])
  have w': "ledger_of rt pid w' = (ledger_of rt pid w0)\<lparr>
      l_bond := (bond_at pid w0)(?ba \<mapsto> release_bond j b),
      l_job := (job_at pid w0)(?a \<mapsto> j\<lparr>job_locked_bond := 0, job_state := Settled\<rparr>),
      l_token := pay_out (view_address escrow) (view_address provider_token) (view_address buyer_token)
        (job_amount j) x (token_at rt w0)\<rparr>" if "job_at pid w0 ?a \<noteq> None"
    using that by (simp add: ledger_emit [OF run(19)] ledger_save_job [OF D run(18)] save
        ledger_fields [OF save] ledger_fields [OF pay(2)] pay(2))
  have "bond_matches b j" using run(11,12) by (simp add: bond_matches_def)
  with that [OF refl run(2-5) run(9,10) _ run(16) escrow(1) provider(1) buyer(1) escrow(2) pay(1,3)] w'
  show thesis by blast
qed

lemma timeout_settle_refines:
  assumes D: "deployment rt pid" and p: "resolve_timeout_settle rt pid accounts w = Inr w'"
  shows "protocol_step rt pid (signers accounts) (ledger_of rt pid w) (ledger_of rt pid w')"
  using D p
proof (cases rule: timeout_settle_view)
  case (run a j now w0 job_account cv buyer ba b escrow provider_token buyer_token balance)
  note j = run(2,3) and now = run(4) and b = run(6-9) and t = run(10-15) and w' = run(16)
  from run(5) show ?thesis
  proof (cases rule: settle_gate_cases)
    case submitted
    with run(1) j b t w' dueI [OF now]
      protocol_step.settle [of "ledger_of rt pid w" a j rt pid "signers accounts" ba b escrow provider_token
        buyer_token balance]
    show ?thesis by simp
  next
    case (challenged v ch)
    have w0: "ledger_of rt pid w0 = (ledger_of rt pid w)\<lparr>l_challenge := (challenge_at pid w)(view_address v := None)\<rparr>"
      by (rule ledger_close(2) [OF D challenged(8,3)])
    note [simp] = ledger_fields [OF w0]
    show ?thesis
      using challenged j b t w' dueI [OF now challenged(7)]
        protocol_step.settle_challenged [of "ledger_of rt pid w" a j rt pid "view_address v" ch ba b escrow
          provider_token buyer_token balance "signers accounts"]
      by (simp add: run(1) w0)
  qed
qed

lemma slash_bond_effect:
  assumes D: "deployment rt pid" and p: "slash_bond rt pid accounts w = Inr w'"
  obtains (run) admin config_account job_account bond_account bond_vault escrow buyer_token buyer
    challenge_account mint token_program rest c j ch now b balance n
  where "accounts = admin # config_account # job_account # bond_account # bond_vault # escrow # buyer_token #
      buyer # challenge_account # mint # token_program # rest"
    "view_is_signer admin" "config_at pid w (view_address config_account) = Some c"
    "config_derived rt pid (view_address config_account) c" "config_admin c = view_address admin"
    "job_at pid w (view_address job_account) = Some j" "job_derived rt pid (view_address job_account) j"
    "job_state j = Challenged" "challenge_at pid w (view_address challenge_account) = Some ch"
    "challenge_derived rt pid (view_address challenge_account) (view_address job_account) ch"
    "challenge_job ch = view_address job_account" "challenge_status ch = STATUS_OPEN"
    "w_clock w = Some now" "now <s challenge_deadline ch"
    "bond_at pid w (view_address bond_account) = Some b" "bond_derived rt pid (view_address bond_account) b"
    "bond_matches b j" "n = job_locked_bond j" "n \<noteq> 0" "n \<le> bond_locked b" "n \<le> bond_deposited b"
    "ata rt (view_address job_account) (job_mint j) = Some (view_address escrow)"
    "ata rt (view_address bond_account) (bond_mint b) = Some (view_address bond_vault)"
    "ata rt (job_buyer j) (job_mint j) = Some (view_address buyer_token)"
    "holds (token_at rt w) (view_address escrow) (job_mint j) (view_address job_account) balance"
    "job_amount j \<le> balance"
    "can_move (view_address escrow) (view_address buyer_token) balance (token_at rt w)"
    "can_move (view_address bond_vault) (view_address buyer_token) n
      (move_tokens (view_address escrow) (view_address buyer_token) balance (token_at rt w))"
    "ledger_of rt pid w' = (ledger_of rt pid w)\<lparr>
      l_challenge := (challenge_at pid w)(view_address challenge_account := None),
      l_bond := (bond_at pid w)(view_address bond_account \<mapsto>
        b\<lparr>bond_locked := bond_locked b - n, bond_deposited := bond_deposited b - n\<rparr>),
      l_job := (job_at pid w)(view_address job_account \<mapsto> j\<lparr>job_locked_bond := 0, job_state := Slashed\<rparr>),
      l_token := move_tokens (view_address bond_vault) (view_address buyer_token) n
        (move_tokens (view_address escrow) (view_address buyer_token) balance (token_at rt w))\<rparr>"
  using p
proof (cases rule: slash_bond_inv)
  case (run admin config_account job_account bond_account bond_vault escrow buyer_token buyer
    challenge_account mint token_program rest c j ch now w1 b x w2 k d w3 w4 w5)
  let ?L = "ledger_of rt pid w" and ?a = "view_address job_account" and ?ba = "view_address bond_account"
  let ?n = "job_locked_bond j"
  obtain balance where r: "ata rt ?a (job_mint j) = Some (view_address escrow)"
    "ata rt (job_buyer j) (job_mint j) = Some (view_address buyer_token)"
    "holds (token_at rt w) (view_address escrow) (job_mint j) ?a balance" "job_amount j \<le> balance"
    "can_move (view_address escrow) (view_address buyer_token) balance (token_at rt w)"
    "ledger_of rt pid w1 = ?L\<lparr>l_token := move_tokens (view_address escrow)
       (view_address buyer_token) balance (token_at rt w)\<rparr>"
    using refund_principal_steps [OF D run(15)] .
  note w1 = ledger_fields [OF r(6)]
  have bond: "bond_at pid w ?ba = Some b" using run(16) by (simp add: w1)
  have kd: "k = bond_locked b - ?n" "d = bond_deposited b - ?n" "?n \<le> bond_locked b" "?n \<le> bond_deposited b"
    using run(23,24) by (auto simp: checked_sub_def split: if_splits)
  note t = ledger_transfer [OF D run(22) holds_undelegated [OF validate_ataD(2) [OF run(21)]]]
  note w2 = ledger_fields [OF t(1)]
  have w3: "ledger_of rt pid w3 = (ledger_of rt pid w2)\<lparr>
      l_bond := (bond_at pid w)(?ba \<mapsto> b\<lparr>bond_locked := k, bond_deposited := d\<rparr>)\<rparr>"
    using bond by (simp add: ledger_save_bond [OF D run(25)] w2 w1)
  have w4: "ledger_of rt pid w4 = (ledger_of rt pid w3)\<lparr>
      l_job := (job_at pid w)(?a \<mapsto> j\<lparr>job_locked_bond := 0, job_state := Slashed\<rparr>)\<rparr>"
    using run(6) by (simp add: ledger_save_job [OF D run(26)] ledger_fields [OF w3] w2 w1)
  have ch: "challenge_at pid w4 (view_address challenge_account) = Some ch"
    using run(9) by (simp add: ledger_fields [OF w4] ledger_fields [OF w3] w2 w1)
  have w': "ledger_of rt pid w' = ?L\<lparr>
      l_challenge := (challenge_at pid w)(view_address challenge_account := None),
      l_bond := (bond_at pid w)(?ba \<mapsto> b\<lparr>bond_locked := bond_locked b - ?n, bond_deposited := bond_deposited b - ?n\<rparr>),
      l_job := (job_at pid w)(?a \<mapsto> j\<lparr>job_locked_bond := 0, job_state := Slashed\<rparr>),
      l_token := move_tokens (view_address bond_vault) (view_address buyer_token) ?n
        (move_tokens (view_address escrow) (view_address buyer_token) balance (token_at rt w))\<rparr>"
    by (simp add: ledger_emit [OF run(28)] ledger_close(2) [OF D run(27) ch] ledger_fields [OF w4]
        ledger_fields [OF w3] w4 w3 t(1) w2 w1 r(6) kd(1,2))
  from that [OF run(1-4) run(5) [symmetric] run(6-13) _ bond run(17) _ refl _ kd(3,4) r(1) _ r(2-5) _ w'] run(14,18-21) validate_ataD(1) [OF run(21)] t(2)
  show thesis by (simp add: bond_matches_def signed.not_le w1)
qed

lemma slash_bond_refines:
  assumes D: "deployment rt pid" and p: "slash_bond rt pid accounts w = Inr w'"
  shows "protocol_step rt pid (signers accounts) (ledger_of rt pid w) (ledger_of rt pid w')"
  using D p
proof (cases rule: slash_bond_effect)
  case (run admin config_account job_account bond_account bond_vault escrow buyer_token buyer
    challenge_account mint token_program rest c j ch now b balance n)
  let ?L = "ledger_of rt pid w"
  have "config_admin c \<in> signers accounts" "before (challenge_deadline ch) ?L"
    using signersI [of admin accounts] run(1,2,5,13,14) by (simp_all add: before_def)
  then show ?thesis unfolding run(29)
    using run(6-12,15-28) config_in_forceI [OF run(3,4)]
      protocol_step.slash [of rt pid ?L c "signers accounts" "view_address job_account" j
        "view_address challenge_account" ch "view_address bond_account" b n "view_address escrow"
        "view_address bond_vault" "view_address buyer_token" balance]
    by simp
qed

lemma close_job_effect:
  assumes D: "deployment rt pid" and p: "close_job rt pid accounts w = Inr w'"
  obtains (run) buyer job_account rent_recipient rest j tokens e t
  where "accounts = buyer # job_account # rent_recipient # rest" "view_is_signer buyer"
    "job_at pid w (view_address job_account) = Some j" "job_derived rt pid (view_address job_account) j"
    "job_buyer j = view_address buyer" "is_terminal (job_state j)"
    "tokens = token_at rt w \<or>
      token_at rt w e = Some t \<and> token_amount_of t = 0 \<and> tokens = (token_at rt w)(e := None)"
    "ledger_of rt pid w' = (ledger_of rt pid w)\<lparr>
      l_job := (job_at pid w)(view_address job_account := None), l_token := tokens\<rparr>"
  using p
proof (cases rule: close_job_inv)
  case (run buyer job_account rent_recipient rest j w1 w2 now)
  let ?L = "ledger_of rt pid w" and ?a = "view_address job_account"
  obtain tokens e t where w1: "ledger_of rt pid w1 = ?L\<lparr>l_token := tokens\<rparr>"
    and tokens: "tokens = token_at rt w \<or>
      token_at rt w e = Some t \<and> token_amount_of t = 0 \<and> tokens = (token_at rt w)(e := None)"
    using run(7)
  proof (cases rule: close_escrow_cases)
    case kept
    then show thesis using that [of "token_at rt w"] by (simp add: ledger_of_def)
  next
    case (closed e t seeds)
    then show thesis using that [of "(token_at rt w)(view_address e := None)" "view_address e" t]
      by (simp add: ledger_close_token [OF D closed(4)])
  qed
  have "job_at pid w1 ?a = Some j" using run(3) by (simp add: ledger_fields [OF w1])
  then have w': "ledger_of rt pid w' = ?L\<lparr>l_job := (job_at pid w)(?a := None), l_token := tokens\<rparr>"
    by (simp add: ledger_emit [OF run(9)] ledger_close(1) [OF D run(8)] ledger_fields [OF w1] w1)
  show thesis by (rule that [OF run(1-6) tokens w'])
qed

lemma close_job_refines:
  assumes D: "deployment rt pid" and p: "close_job rt pid accounts w = Inr w'"
  shows "protocol_step rt pid (signers accounts) (ledger_of rt pid w) (ledger_of rt pid w')"
  using D p
proof (cases rule: close_job_effect)
  case (run buyer job_account rent_recipient rest j tokens e t)
  have "job_buyer j \<in> signers accounts" using run(1,2,5) by (simp add: signersI)
  then show ?thesis unfolding run(8)
    using run(3,4,6,7)
      protocol_step.close [of "ledger_of rt pid w" "view_address job_account" j rt pid "signers accounts" tokens e t]
    by simp
qed

end
