(* ===== verification/Entrypoint.thy ===== *)
theory Entrypoint
  imports Config_Handlers Provider_Handlers Bond_Handlers Job_Handlers Resolve_Handlers
begin

text \<open>
  Dispatch: \<^verbatim>\<open>processor/mod.rs\<close> and \<^verbatim>\<open>entrypoint.rs\<close>.
\<close>

definition process ::
    "runtime \<Rightarrow> address \<Rightarrow> AccountView list \<Rightarrow> bytes \<Rightarrow> world \<Rightarrow> ProgramError + world" where
  "process rt program_id accounts instruction_data w =
     tryE (map_err from_protocol (parse_instruction instruction_data)) (\<lambda>instruction.
     case instruction of
       InitializeConfig payload \<Rightarrow> process_initialize_config rt program_id accounts payload w
     | SetPaused paused \<Rightarrow> process_set_paused rt program_id accounts paused w
     | RegisterProvider \<Rightarrow> process_register_provider rt program_id accounts w
     | AddExecutionKey key \<Rightarrow> add_execution_key rt program_id accounts key w
     | RevokeExecutionKey key \<Rightarrow> revoke_execution_key rt program_id accounts key w
     | DepositBond amount \<Rightarrow> process_deposit_bond rt program_id accounts amount w
     | WithdrawBond amount \<Rightarrow> process_withdraw_bond rt program_id accounts amount w
     | CreateJob payload \<Rightarrow> process_create_job rt program_id accounts payload w
     | FundJob \<Rightarrow> process_fund_job rt program_id accounts w
     | AcceptJob \<Rightarrow> process_accept_job rt program_id accounts w
     | SubmitReceipt receipt \<Rightarrow> process_submit_receipt rt program_id accounts receipt w
     | AcceptWork \<Rightarrow> process_accept_work rt program_id accounts w
     | ChallengeWork reason_hash \<Rightarrow> process_challenge_work rt program_id accounts reason_hash w
     | ResolveTimeoutSettle \<Rightarrow> resolve_timeout_settle rt program_id accounts w
     | ResolveTimeoutRefund \<Rightarrow> resolve_timeout_refund rt program_id accounts w
     | ExpireUnfunded \<Rightarrow> expire_unfunded rt program_id accounts w
     | ExpireUnaccepted \<Rightarrow> expire_unaccepted rt program_id accounts w
     | SlashBond \<Rightarrow> slash_bond rt program_id accounts w
     | CloseJob \<Rightarrow> close_job rt program_id accounts w)"

definition process_instruction ::
    "runtime \<Rightarrow> address \<Rightarrow> AccountView list \<Rightarrow> bytes \<Rightarrow> world \<Rightarrow> ProgramError + world" where
  "process_instruction rt program_id accounts instruction_data w =
     process rt program_id accounts instruction_data w"

text \<open>A dispatched instruction is one that parses; its handler decides the rest.\<close>

lemma process_refines:
  assumes D: "deployment rt pid" and p: "process rt pid accounts data w = Inr w'"
  shows "protocol_step rt pid (signers accounts) (ledger_of rt pid w) (ledger_of rt pid w')"
proof -
  from p obtain i where "parse_instruction data = Inr i"
    by (auto simp: process_def result_inv)
  with p D show ?thesis
    by (cases i) (auto simp: process_def resolve_timeout_refund_def expire_unaccepted_def
        intro: initialize_config_refines set_paused_refines register_provider_refines
          add_execution_key_refines revoke_execution_key_refines deposit_bond_refines
          withdraw_bond_refines create_job_refines fund_job_refines accept_job_refines
          submit_receipt_refines accept_work_refines challenge_work_refines timeout_settle_refines
          refund_internal_refines expire_unfunded_refines slash_bond_refines close_job_refines)
qed

text \<open>
  Malformed instruction data is rejected before any handler runs, with its own error code: no data, an unknown discriminator, a payload of
  the wrong length.
\<close>

theorem malformed_data_rejected:
  "process_instruction rt pid accounts [] w = Inl (Custom (error_code EmptyInstructionData)) \<and>
   (data \<noteq> [] \<longrightarrow> 19 \<le> data ! 0 \<longrightarrow>
      process_instruction rt pid accounts data w = Inl (Custom (error_code UnknownInstruction))) \<and>
   (data \<noteq> [] \<longrightarrow> data ! 0 = kind_as_u8 kind \<longrightarrow> length data \<noteq> 1 + expected_payload_len kind \<longrightarrow>
      process_instruction rt pid accounts data w = Inl (Custom (error_code InvalidInstructionLength)))"
proof -
  have "data ! 0 \<notin> range kind_as_u8" if "19 \<le> data ! 0"
  proof
    assume "data ! 0 \<in> range kind_as_u8"
    then obtain k where "data ! 0 = kind_as_u8 k" by blast
    with that show False by (cases k) (simp_all add: word_le_nat_alt)
  qed
  then show ?thesis
    using parse_unknown [of data] parse_wrong_length [of data kind] parse_empty
    by (auto simp: process_instruction_def process_def from_protocol_def to_program_error_def)
qed

theorem malformed_data_rejected_witness:
  "\<forall>rt pid accounts w.
     process_instruction rt pid accounts [200, 1] w = Inl (Custom (error_code UnknownInstruction)) \<and>
     process_instruction rt pid accounts [kind_as_u8 FundJobKind, 1] w =
       Inl (Custom (error_code InvalidInstructionLength))"
proof (intro allI)
  fix rt pid accounts w
  show "process_instruction rt pid accounts [200, 1] w = Inl (Custom (error_code UnknownInstruction)) \<and>
     process_instruction rt pid accounts [kind_as_u8 FundJobKind, 1] w =
       Inl (Custom (error_code InvalidInstructionLength))"
    using malformed_data_rejected [of rt pid accounts w "[200, 1]"]
      malformed_data_rejected [of rt pid accounts w "[kind_as_u8 FundJobKind, 1]" FundJobKind]
    by (simp add: word_le_nat_alt)
qed

end
