(* ===== verification/Invariants.thy ===== *)
theory Invariants
  imports Protocol
begin

text \<open>
  Invariants of the abstract protocol, along every interleaving of instructions with the rest of
  the chain.

  \<open>reachable rt pid L\<close>: the ledger \<open>L\<close> can arise from one without program accounts by
  instructions (\<open>protocol_step\<close>, whose signers are ordinary addresses) and by what others do
  (\<open>env_step\<close>): the clock moves, token accounts change, but the token program debits or closes
  an account owned by an address of this program only when the program signs for it.

  The invariants, each preserved by both kinds of steps:
  \<^item> \<open>placed\<close>: every record lies at the address found from its own fields, so there is one account
    per configuration, provider, bond, job and challenge; owners named in records are ordinary
    addresses.
  \<^item> \<open>keys_ok\<close>: a provider's keys are distinct and none is the zero key.
  \<^item> \<open>terms_ok\<close>: a job's amount is positive and its deadlines are ordered; its share of the bond is
    locked exactly while it is accepted, submitted or challenged.
  \<^item> \<open>challenges_ok\<close>: a job is challenged exactly while its challenge record exists.
  \<^item> \<open>locks_ok\<close>: what a bond has locked is the sum of what its jobs have locked.
  \<^item> \<open>solvent\<close>: the escrow of a job that is being worked on holds at least the job's
    amount, and a bond's vault at least what the bond has deposited.
\<close>

section \<open>Runs\<close>

definition is_pda :: "runtime \<Rightarrow> address \<Rightarrow> address \<Rightarrow> bool" where
  "is_pda rt pid a \<longleftrightarrow> (\<exists>seeds. create_program_address rt seeds pid = Some a)"

text \<open>At least \<open>n\<close> tokens of a mint in an account owned by \<open>owner\<close>.\<close>

definition funds :: "(address \<Rightarrow> token_state option) \<Rightarrow> address \<Rightarrow> address \<Rightarrow> address \<Rightarrow> u64 \<Rightarrow> bool" where
  "funds T a mint owner n \<longleftrightarrow>
     (\<exists>t. T a = Some t \<and> token_mint t = mint \<and> token_owner t = owner \<and> n \<le> token_amount_of t)"

definition env_step :: "runtime \<Rightarrow> address \<Rightarrow> ledger \<Rightarrow> ledger \<Rightarrow> bool" where
  "env_step rt pid L L' \<longleftrightarrow>
     l_config L' = l_config L \<and> l_provider L' = l_provider L \<and> l_bond L' = l_bond L \<and>
     l_job L' = l_job L \<and> l_challenge L' = l_challenge L \<and>
     (\<forall>a mint owner n. is_pda rt pid owner \<longrightarrow> funds (l_token L) a mint owner n \<longrightarrow>
        funds (l_token L') a mint owner n)"

inductive reachable :: "runtime \<Rightarrow> address \<Rightarrow> ledger \<Rightarrow> bool" for rt :: runtime and pid :: address where
  start: "(\<And>a. vacant L a) \<Longrightarrow> reachable rt pid L"
| instruction: "reachable rt pid L \<Longrightarrow> protocol_step rt pid S L L' \<Longrightarrow>
    (\<And>s. s \<in> S \<Longrightarrow> \<not> is_pda rt pid s) \<Longrightarrow> reachable rt pid L'"
| environment: "reachable rt pid L \<Longrightarrow> env_step rt pid L L' \<Longrightarrow> reachable rt pid L'"

text \<open>The contract of an invariant, so that every one of them is lifted to reachable ledgers once:
  it holds of an empty ledger and is kept by both kinds of steps, given the invariants \<open>J\<close> shown
  before it.\<close>

locale ledger_invariant =
  fixes J I :: "runtime \<Rightarrow> address \<Rightarrow> ledger \<Rightarrow> bool"
  assumes J_reachable: "deployment rt pid \<Longrightarrow> reachable rt pid L \<Longrightarrow> J rt pid L"
    and I_start: "(\<And>a. vacant L a) \<Longrightarrow> I rt pid L"
    and I_step: "deployment rt pid \<Longrightarrow> J rt pid L \<Longrightarrow> I rt pid L \<Longrightarrow> protocol_step rt pid S L L' \<Longrightarrow>
      (\<And>s. s \<in> S \<Longrightarrow> \<not> is_pda rt pid s) \<Longrightarrow> I rt pid L'"
    and I_env: "deployment rt pid \<Longrightarrow> J rt pid L \<Longrightarrow> I rt pid L \<Longrightarrow> env_step rt pid L L' \<Longrightarrow> I rt pid L'"
begin

lemma holds_on_runs:
  assumes "deployment rt pid" "reachable rt pid L"
  shows "I rt pid L"
  using assms(2)
proof (induction rule: reachable.induct)
  case (start L)
  then show ?case by (rule I_start)
next
  case (instruction L S L')
  then show ?case using I_step [OF assms(1) J_reachable [OF assms(1)]] by blast
next
  case (environment L L')
  then show ?case using I_env [OF assms(1) J_reachable [OF assms(1)]] by blast
qed

end

text \<open>A property of all entries of a partial map, kept by updates entry by entry.\<close>

definition all_at :: "('k \<Rightarrow> 'v \<Rightarrow> bool) \<Rightarrow> ('k \<Rightarrow> 'v option) \<Rightarrow> bool" where
  "all_at P f \<longleftrightarrow> (\<forall>k v. f k = Some v \<longrightarrow> P k v)"

lemma all_atD: "all_at P f \<Longrightarrow> f k = Some v \<Longrightarrow> P k v"
  by (simp add: all_at_def)

lemma all_at_upd: "all_at P f \<Longrightarrow> P k v \<Longrightarrow> all_at P (f(k \<mapsto> v))"
  by (simp add: all_at_def)

lemma all_at_del: "all_at P f \<Longrightarrow> all_at P (f(k := None))"
  by (simp add: all_at_def)

lemma all_at_empty: "(\<And>k. f k = None) \<Longrightarrow> all_at P f"
  by (simp add: all_at_def)

section \<open>Where records lie\<close>

definition config_placed :: "runtime \<Rightarrow> address \<Rightarrow> address \<Rightarrow> ConfigAccount \<Rightarrow> bool" where
  "config_placed rt pid a c \<longleftrightarrow>
     try_find_program_address rt config_seed_parts pid = Some (a, config_bump c) \<and>
     config_min_provider_bond c \<noteq> 0 \<and> 0 <s config_challenge_duration_seconds c"

definition provider_placed :: "runtime \<Rightarrow> address \<Rightarrow> address \<Rightarrow> ProviderAccount \<Rightarrow> bool" where
  "provider_placed rt pid a p \<longleftrightarrow>
     try_find_program_address rt (provider_seed_parts (provider_authority p)) pid = Some (a, provider_bump p) \<and>
     \<not> is_pda rt pid (provider_authority p)"

definition bond_placed :: "runtime \<Rightarrow> address \<Rightarrow> address \<Rightarrow> ProviderBondAccount \<Rightarrow> bool" where
  "bond_placed rt pid a b \<longleftrightarrow>
     try_find_program_address rt (bond_seed_parts (bond_provider b) (bond_mint b)) pid = Some (a, bond_bump b) \<and>
     \<not> is_pda rt pid (bond_provider b)"

definition job_placed :: "runtime \<Rightarrow> address \<Rightarrow> address \<Rightarrow> JobAccount \<Rightarrow> bool" where
  "job_placed rt pid a j \<longleftrightarrow>
     try_find_program_address rt (job_seed_parts (job_buyer j) (job_provider j)
       (job_nonce_le_bytes (job_nonce j))) pid = Some (a, job_bump j) \<and>
     \<not> is_pda rt pid (job_buyer j) \<and> \<not> is_pda rt pid (job_provider j)"

definition challenge_placed :: "runtime \<Rightarrow> address \<Rightarrow> address \<Rightarrow> ChallengeAccount \<Rightarrow> bool" where
  "challenge_placed rt pid a ch \<longleftrightarrow>
     try_find_program_address rt (challenge_seed_parts (challenge_job ch)) pid = Some (a, challenge_bump ch)"

definition placed :: "runtime \<Rightarrow> address \<Rightarrow> ledger \<Rightarrow> bool" where
  "placed rt pid L \<longleftrightarrow>
     all_at (config_placed rt pid) (l_config L) \<and> all_at (provider_placed rt pid) (l_provider L) \<and>
     all_at (bond_placed rt pid) (l_bond L) \<and> all_at (job_placed rt pid) (l_job L) \<and>
     all_at (challenge_placed rt pid) (l_challenge L)"

lemma placedD:
  assumes "placed rt pid L"
  shows "l_config L a = Some c \<Longrightarrow> config_placed rt pid a c"
    "l_provider L a = Some p \<Longrightarrow> provider_placed rt pid a p"
    "l_bond L a = Some b \<Longrightarrow> bond_placed rt pid a b"
    "l_job L a = Some j \<Longrightarrow> job_placed rt pid a j"
    "l_challenge L a = Some ch \<Longrightarrow> challenge_placed rt pid a ch"
  using assms by (auto simp: placed_def dest: all_atD)

text \<open>The fields a record's place depends on are never changed.\<close>

lemma placed_simps [simp]:
  "config_placed rt pid a (c\<lparr>config_paused := x\<rparr>) = config_placed rt pid a c"
  "bond_placed rt pid a (b\<lparr>bond_deposited := n\<rparr>) = bond_placed rt pid a b"
  "bond_placed rt pid a (b\<lparr>bond_locked := n\<rparr>) = bond_placed rt pid a b"
  "job_placed rt pid a (j\<lparr>job_state := s\<rparr>) = job_placed rt pid a j"
  "job_placed rt pid a (j\<lparr>job_locked_bond := n\<rparr>) = job_placed rt pid a j"
  "job_placed rt pid a (j\<lparr>job_receipt_digest := d\<rparr>) = job_placed rt pid a j"
  "bond_placed rt pid a (release_bond j b) = bond_placed rt pid a b"
  by (simp_all add: config_placed_def bond_placed_def job_placed_def release_bond_def)

lemma new_placed [simp]:
  "provider_placed rt pid a (new_provider bump authority) \<longleftrightarrow>
     try_find_program_address rt (provider_seed_parts authority) pid = Some (a, bump) \<and>
     \<not> is_pda rt pid authority"
  "bond_placed rt pid a (new_bond bump authority c) \<longleftrightarrow>
     try_find_program_address rt (bond_seed_parts authority (config_allowed_mint c)) pid = Some (a, bump) \<and>
     \<not> is_pda rt pid authority"
  "job_placed rt pid a (new_job bump buyer provider c payload) \<longleftrightarrow>
     try_find_program_address rt (job_seed_parts buyer provider
       (job_nonce_le_bytes (cjp_job_nonce payload))) pid = Some (a, bump) \<and>
     \<not> is_pda rt pid buyer \<and> \<not> is_pda rt pid provider"
  "challenge_placed rt pid a \<lparr>challenge_bump = bump, challenge_status = st, challenge_job = job,
     challenge_buyer = buyer, challenge_reason_hash = r, challenge_bond_amount = n, challenge_deadline = d\<rparr> \<longleftrightarrow>
     try_find_program_address rt (challenge_seed_parts job) pid = Some (a, bump)"
  by (simp_all add: provider_placed_def bond_placed_def job_placed_def challenge_placed_def
      new_provider_def new_bond_def new_job_def)

lemma placed_registered:
  "placed rt pid L \<Longrightarrow> registered rt pid L p \<Longrightarrow> \<not> is_pda rt pid (provider_authority p)"
  by (auto simp: registered_def provider_placed_def dest: placedD)

lemma provider_placed_cong:
  "provider_placed rt pid a p \<Longrightarrow> provider_authority q = provider_authority p \<Longrightarrow>
   provider_bump q = provider_bump p \<Longrightarrow> provider_placed rt pid a q"
  by (simp add: provider_placed_def)

lemma placed_step:
  assumes "protocol_step rt pid S L L'" "placed rt pid L" "\<And>s. s \<in> S \<Longrightarrow> \<not> is_pda rt pid s"
  shows "placed rt pid L'"
  using assms(1)
proof (cases rule: protocol_step.cases)
  case (initialize c a)
  then show ?thesis using assms(2)
    by (auto simp: placed_def config_placed_def intro!: all_at_upd)
next
  case (add_key a p key q)
  then show ?thesis using assms(2) provider_placed_cong [OF placedD(2) [OF assms(2)]]
    by (auto simp: placed_def intro!: all_at_upd)
next
  case (revoke_key a p key q)
  then show ?thesis using assms(2) provider_placed_cong [OF placedD(2) [OF assms(2)]]
    by (auto simp: placed_def intro!: all_at_upd)
qed (use assms(2,3) placedD [OF assms(2)] placed_registered [OF assms(2)] in
  \<open>auto simp: placed_def intro!: all_at_upd all_at_del\<close>)

lemma placed_start: "(\<And>a. vacant L a) \<Longrightarrow> placed rt pid L"
  by (simp add: placed_def vacant_def all_at_empty)

lemma placed_env: "placed rt pid L \<Longrightarrow> env_step rt pid L L' \<Longrightarrow> placed rt pid L'"
  by (simp add: placed_def env_step_def)

interpretation placed: ledger_invariant "\<lambda>_ _ _. True" placed
  by unfold_locales (blast intro: placed_start placed_step placed_env)+

section \<open>Execution keys\<close>

definition provider_keys_ok :: "ProviderAccount \<Rightarrow> bool" where
  "provider_keys_ok p \<longleftrightarrow> provider_ok p \<and> distinct (active_keys p) \<and> fill32 0 \<notin> set (active_keys p)"

definition keys_ok :: "runtime \<Rightarrow> address \<Rightarrow> ledger \<Rightarrow> bool" where
  "keys_ok rt pid L \<longleftrightarrow> all_at (\<lambda>_. provider_keys_ok) (l_provider L)"

lemma distinct_mset_remove:
  "distinct xs \<Longrightarrow> x \<in> set xs \<Longrightarrow> mset ys = mset xs - {#x#} \<Longrightarrow> distinct ys \<and> set ys = set xs - {x}"
  by (metis distinct_remove1 mset_eq_imp_distinct_iff mset_eq_setD mset_remove1 set_remove1_eq)

lemma keys_ok_new [simp]: "provider_keys_ok (new_provider bump authority)"
  by (simp add: provider_keys_ok_def new_provider_def provider_ok_def active_keys_def)

lemma keys_ok_step:
  assumes "protocol_step rt pid S L L'" "keys_ok rt pid L"
  shows "keys_ok rt pid L'"
  using assms(1)
proof (cases rule: protocol_step.cases)
  case (add_key a p key q)
  then have "provider_keys_ok q"
    using all_atD [OF assms(2) [unfolded keys_ok_def]] by (simp add: provider_keys_ok_def)
  then show ?thesis using add_key assms(2) by (simp add: keys_ok_def all_at_upd)
next
  case (revoke_key a p key q)
  then have "provider_keys_ok q"
    using all_atD [OF assms(2) [unfolded keys_ok_def]] distinct_mset_remove [of "active_keys p" key "active_keys q"]
    by (simp add: provider_keys_ok_def)
  then show ?thesis using revoke_key assms(2) by (simp add: keys_ok_def all_at_upd)
qed (use assms(2) in \<open>simp_all add: keys_ok_def all_at_upd\<close>)

lemma keys_ok_start: "(\<And>a. vacant L a) \<Longrightarrow> keys_ok rt pid L"
  by (simp add: keys_ok_def vacant_def all_at_empty)

lemma keys_ok_env: "keys_ok rt pid L \<Longrightarrow> env_step rt pid L L' \<Longrightarrow> keys_ok rt pid L'"
  by (simp add: keys_ok_def env_step_def)

interpretation keys: ledger_invariant "\<lambda>_ _ _. True" keys_ok
  by unfold_locales (blast intro: keys_ok_start keys_ok_step keys_ok_env)+

section \<open>Terms and locks of a job\<close>

definition holding :: "JobState \<Rightarrow> bool" where
  "holding s \<longleftrightarrow> s = Accepted \<or> s = Submitted \<or> s = Challenged"

definition job_terms_ok :: "JobAccount \<Rightarrow> bool" where
  "job_terms_ok j \<longleftrightarrow> job_amount j \<noteq> 0 \<and> job_fund_deadline j <s job_accept_deadline j \<and>
     job_accept_deadline j <s job_work_deadline j \<and> job_work_deadline j <s job_auto_settle_deadline j \<and>
     (job_locked_bond j \<noteq> 0 \<longleftrightarrow> holding (job_state j))"

definition terms_ok :: "runtime \<Rightarrow> address \<Rightarrow> ledger \<Rightarrow> bool" where
  "terms_ok rt pid L \<longleftrightarrow> all_at (\<lambda>_. job_terms_ok) (l_job L)"

lemma terms_ok_step:
  assumes "protocol_step rt pid S L L'" "placed rt pid L" "terms_ok rt pid L"
  shows "terms_ok rt pid L'"
proof -
  have min: "config_min_provider_bond c \<noteq> 0" if "config_in_force rt pid L c" for c
    using that placedD(1) [OF assms(2)] by (auto simp: config_in_force_def config_placed_def)
  have j: "job_terms_ok j" if "l_job L a = Some j" for a j
    using that assms(3) by (auto simp: terms_ok_def dest: all_atD)
  show ?thesis
    using assms(1)
  proof (cases rule: protocol_step.cases)
    case (create c p buyer payload now a bump)
    then show ?thesis using assms(3)
      by (auto simp: terms_ok_def job_terms_ok_def new_job_def deadlines_ordered_def holding_def
          intro!: all_at_upd)
  next
    case (accept c p a j ba b m)
    then show ?thesis using assms(3) j min
      by (auto simp: terms_ok_def job_terms_ok_def holding_def intro!: all_at_upd)
  qed (use assms(3) j in \<open>auto simp: terms_ok_def job_terms_ok_def holding_def intro!: all_at_upd all_at_del\<close>)
qed

lemma terms_ok_start: "(\<And>a. vacant L a) \<Longrightarrow> terms_ok rt pid L"
  by (simp add: terms_ok_def vacant_def all_at_empty)

lemma terms_ok_env: "terms_ok rt pid L \<Longrightarrow> env_step rt pid L L' \<Longrightarrow> terms_ok rt pid L'"
  by (simp add: terms_ok_def env_step_def)

interpretation terms: ledger_invariant placed terms_ok
  by unfold_locales (blast intro: placed.holds_on_runs terms_ok_start terms_ok_step terms_ok_env)+

section \<open>Challenges\<close>

definition challenge_open :: "(address \<Rightarrow> JobAccount option) \<Rightarrow> ChallengeAccount \<Rightarrow> bool" where
  "challenge_open J ch \<longleftrightarrow> challenge_status ch = STATUS_OPEN \<and>
     (\<exists>j. J (challenge_job ch) = Some j \<and> job_state j = Challenged \<and> challenge_buyer ch = job_buyer j)"

definition challenges_ok :: "runtime \<Rightarrow> address \<Rightarrow> ledger \<Rightarrow> bool" where
  "challenges_ok rt pid L \<longleftrightarrow>
     all_at (\<lambda>_. challenge_open (l_job L)) (l_challenge L) \<and>
     all_at (\<lambda>a j. job_state j = Challenged \<longrightarrow> (\<exists>ca ch. l_challenge L ca = Some ch \<and> challenge_job ch = a))
       (l_job L)"

lemma challenges_okI:
  assumes "\<And>ca ch. l_challenge L ca = Some ch \<Longrightarrow> challenge_open (l_job L) ch"
    and "\<And>a j. l_job L a = Some j \<Longrightarrow> job_state j = Challenged \<Longrightarrow>
      \<exists>ca ch. l_challenge L ca = Some ch \<and> challenge_job ch = a"
  shows "challenges_ok rt pid L"
  using assms by (simp add: challenges_ok_def all_at_def)

lemma challenges_okD:
  assumes "challenges_ok rt pid L"
  shows "l_challenge L ca = Some ch \<Longrightarrow> challenge_open (l_job L) ch"
    and "l_job L a = Some j \<Longrightarrow> job_state j = Challenged \<Longrightarrow>
      \<exists>ca ch. l_challenge L ca = Some ch \<and> challenge_job ch = a"
  using assms by (simp_all add: challenges_ok_def all_at_def)

lemma challenge_open_upd [simp]:
  "challenge_job ch \<noteq> a \<Longrightarrow> challenge_open (J(a := x)) ch = challenge_open J ch"
  by (simp add: challenge_open_def)

lemma challenge_job_ne:
  "challenge_open J ch \<Longrightarrow> (\<And>j. J a = Some j \<Longrightarrow> job_state j \<noteq> Challenged) \<Longrightarrow> challenge_job ch \<noteq> a"
  by (auto simp: challenge_open_def)

lemma challenges_ok_job:
  assumes "challenges_ok rt pid L" "\<And>j. l_job L a = Some j \<Longrightarrow> job_state j \<noteq> Challenged"
    "\<And>j'. x = Some j' \<Longrightarrow> job_state j' \<noteq> Challenged" "l_job L' = (l_job L)(a := x)"
    "l_challenge L' = l_challenge L"
  shows "challenges_ok rt pid L'"
proof (rule challenges_okI)
  show "challenge_open (l_job L') ch" if "l_challenge L' ca = Some ch" for ca ch
    using that assms(2,4,5) challenges_okD(1) [OF assms(1), of ca ch] challenge_job_ne [of "l_job L" ch a]
    by simp
  show "\<exists>ca ch. l_challenge L' ca = Some ch \<and> challenge_job ch = k"
    if "l_job L' k = Some j" "job_state j = Challenged" for k j
    using that assms(3-5) challenges_okD(2) [OF assms(1), of k j] by (simp split: if_splits)
qed

lemma challenges_ok_resolve:
  assumes "placed rt pid L" "challenges_ok rt pid L" "l_job L a = Some j" "l_challenge L ca = Some ch"
    "challenge_job ch = a" "job_state j' \<noteq> Challenged" "l_job L' = (l_job L)(a \<mapsto> j')"
    "l_challenge L' = (l_challenge L)(ca := None)"
  shows "challenges_ok rt pid L'"
proof (rule challenges_okI)
  fix ca' ch' assume ch': "l_challenge L' ca' = Some ch'"
  then have *: "ca' \<noteq> ca" "l_challenge L ca' = Some ch'" using assms(8) by (auto split: if_splits)
  have "challenge_job ch' \<noteq> a"
    using *(1) assms(5) placedD(5) [OF assms(1) *(2)] placedD(5) [OF assms(1,4)]
    by (auto simp: challenge_placed_def)
  then show "challenge_open (l_job L') ch'"
    using challenges_okD(1) [OF assms(2) *(2)] assms(7) by simp
next
  fix k v assume v: "l_job L' k = Some v" "job_state v = Challenged"
  then have *: "k \<noteq> a" "l_job L k = Some v" using assms(6,7) by (auto split: if_splits)
  from challenges_okD(2) [OF assms(2) *(2) v(2)] obtain ca' ch' where
    "l_challenge L ca' = Some ch'" "challenge_job ch' = k" by blast
  then show "\<exists>ca ch. l_challenge L' ca = Some ch \<and> challenge_job ch = k"
    using *(1) assms(4,5,8) by (intro exI [of _ ca'] exI [of _ ch']) auto
qed

lemma challenges_ok_step:
  assumes "protocol_step rt pid S L L'" "placed rt pid L" "challenges_ok rt pid L"
  shows "challenges_ok rt pid L'"
  using assms(1)
proof (cases rule: protocol_step.cases)
  case (create c p buyer payload now a bump)
  then show ?thesis by (intro challenges_ok_job [OF assms(3)]) (auto simp: vacant_def new_job_def)
next
  case (fund c a j escrow src x)
  then show ?thesis by (intro challenges_ok_job [OF assms(3)]) auto
next
  case (accept c p a j ba b m)
  then show ?thesis by (intro challenges_ok_job [OF assms(3)]) auto
next
  case (submit p a j key digest)
  then show ?thesis by (intro challenges_ok_job [OF assms(3)]) auto
next
  case (settle a j ba b escrow provider_token buyer_token balance)
  then show ?thesis by (intro challenges_ok_job [OF assms(3)]) auto
next
  case (challenge c a j now ca bump deadline reason)
  let ?ch = "\<lparr>challenge_bump = bump, challenge_status = STATUS_OPEN, challenge_job = a,
    challenge_buyer = job_buyer j, challenge_reason_hash = reason, challenge_bond_amount = 0,
    challenge_deadline = deadline\<rparr>"
  have ne: "challenge_job ch \<noteq> a" if "l_challenge L ca' = Some ch" for ca' ch
    using challenge(3,6) by (intro challenge_job_ne [OF challenges_okD(1) [OF assms(3) that]]) simp
  show ?thesis
  proof (rule challenges_okI)
    show "challenge_open (l_job L') ch" if "l_challenge L' ca' = Some ch" for ca' ch
      using that challenges_okD(1) [OF assms(3), of ca' ch] ne [of ca' ch] challenge(1)
      by (cases "ca' = ca") (auto simp: challenge_open_def)
    show "\<exists>ca ch. l_challenge L' ca = Some ch \<and> challenge_job ch = k"
      if "l_job L' k = Some v" "job_state v = Challenged" for k v
    proof (cases "k = a")
      case True
      then show ?thesis using challenge(1) by (intro exI [of _ ca] exI [of _ ?ch]) simp
    next
      case False
      with that challenge(1) obtain ca' ch where
        "l_challenge L ca' = Some ch" "challenge_job ch = k" "ca' \<noteq> ca"
        using challenges_okD(2) [OF assms(3), of k v] challenge(10) by (fastforce simp: vacant_def)
      then show ?thesis using challenge(1) by (intro exI [of _ ca'] exI [of _ ch]) simp
    qed
  qed
next
  case (settle_challenged a j ca ch ba b escrow provider_token buyer_token balance)
  then show ?thesis by (intro challenges_ok_resolve [OF assms(2,3)]) auto
next
  case (refund a j escrow buyer_token balance bonds ba b)
  then show ?thesis by (intro challenges_ok_job [OF assms(3)]) auto
next
  case (expire a j)
  then show ?thesis by (intro challenges_ok_job [OF assms(3)]) auto
next
  case (slash c a j ca ch ba b n escrow vault buyer_token balance)
  then show ?thesis by (intro challenges_ok_resolve [OF assms(2,3)]) auto
next
  case (close a j tokens e t)
  then show ?thesis by (intro challenges_ok_job [OF assms(3), where x = None]) auto
qed (use assms(3) in \<open>auto simp: challenges_ok_def\<close>)

lemma challenges_ok_start: "(\<And>a. vacant L a) \<Longrightarrow> challenges_ok rt pid L"
  by (simp add: challenges_ok_def vacant_def all_at_empty)

lemma challenges_ok_env: "challenges_ok rt pid L \<Longrightarrow> env_step rt pid L L' \<Longrightarrow> challenges_ok rt pid L'"
  by (simp add: challenges_ok_def env_step_def)

interpretation challenges: ledger_invariant placed challenges_ok
  by unfold_locales
     (blast intro: placed.holds_on_runs challenges_ok_start challenges_ok_step challenges_ok_env)+

section \<open>Locked bonds\<close>

fun share :: "address \<Rightarrow> address \<Rightarrow> JobAccount option \<Rightarrow> nat" where
  "share provider mint None = 0"
| "share provider mint (Some j) =
     (if job_provider j = provider \<and> job_mint j = mint then unat (job_locked_bond j) else 0)"

text \<open>What all jobs of a provider have locked in a mint. There are finitely many addresses, so the
  sum ranges over all of them.\<close>

definition locked_total :: "(address \<Rightarrow> JobAccount option) \<Rightarrow> address \<Rightarrow> address \<Rightarrow> nat" where
  "locked_total J provider mint = (\<Sum>a\<in>UNIV. share provider mint (J a))"

text \<open>A bond for the job's provider and mint exists.\<close>

definition backed :: "(address \<Rightarrow> ProviderBondAccount option) \<Rightarrow> JobAccount \<Rightarrow> bool" where
  "backed B j \<longleftrightarrow> (\<exists>ba b. B ba = Some b \<and> bond_matches b j)"

definition locks_balanced ::
    "(address \<Rightarrow> ProviderBondAccount option) \<Rightarrow> (address \<Rightarrow> JobAccount option) \<Rightarrow> bool" where
  "locks_balanced B J \<longleftrightarrow>
     all_at (\<lambda>_ b. bond_ok b \<and> unat (bond_locked b) = locked_total J (bond_provider b) (bond_mint b)) B \<and>
     all_at (\<lambda>_ j. job_locked_bond j \<noteq> 0 \<longrightarrow> backed B j) J"

definition locks_ok :: "runtime \<Rightarrow> address \<Rightarrow> ledger \<Rightarrow> bool" where
  "locks_ok rt pid L \<longleftrightarrow> locks_balanced (l_bond L) (l_job L)"

lemma backed_same:
  assumes "B ba = Some b" "bond_provider b' = bond_provider b" "bond_mint b' = bond_mint b"
  shows "backed (B(ba \<mapsto> b')) j \<longleftrightarrow> backed B j"
  using assms unfolding backed_def bond_matches_def
  by (metis fun_upd_other fun_upd_same option.inject)

lemma backed_new: "B ba = None \<Longrightarrow> backed B j \<Longrightarrow> backed (B(ba \<mapsto> b)) j"
  unfolding backed_def by (metis fun_upd_other option.distinct(1))

lemma backed_cong:
  "job_provider j' = job_provider j \<Longrightarrow> job_mint j' = job_mint j \<Longrightarrow> backed B j' = backed B j"
  by (simp add: backed_def bond_matches_def)

lemma locks_balancedD:
  assumes "locks_balanced B J"
  shows "B ba = Some b \<Longrightarrow> bond_ok b"
    "B ba = Some b \<Longrightarrow> unat (bond_locked b) = locked_total J (bond_provider b) (bond_mint b)"
    "J a = Some j \<Longrightarrow> job_locked_bond j \<noteq> 0 \<Longrightarrow> backed B j"
  using assms by (auto simp: locks_balanced_def all_at_def)

lemma locks_balancedI:
  assumes "\<And>ba b. B ba = Some b \<Longrightarrow> bond_ok b"
    "\<And>ba b. B ba = Some b \<Longrightarrow> unat (bond_locked b) = locked_total J (bond_provider b) (bond_mint b)"
    "\<And>a j. J a = Some j \<Longrightarrow> job_locked_bond j \<noteq> 0 \<Longrightarrow> backed B j"
  shows "locks_balanced B J"
  using assms by (auto simp: locks_balanced_def all_at_def)

lemma locked_total_upd:
  "locked_total (J(a := x)) p m + share p m (J a) = locked_total J p m + share p m x"
proof -
  have "(\<Sum>k\<in>UNIV - {a}. share p m ((J(a := x)) k)) = (\<Sum>k\<in>UNIV - {a}. share p m (J k))"
    by (rule sum.cong) auto
  then show ?thesis
    unfolding locked_total_def
    using sum.remove [of UNIV a "\<lambda>k. share p m ((J(a := x)) k)"] sum.remove [of UNIV a "\<lambda>k. share p m (J k)"]
    by simp
qed

text \<open>A job changes and its share does not.\<close>

lemma locks_balanced_job:
  assumes "locks_balanced B J" "\<And>p m. share p m x = share p m (J a)"
    "\<And>j. x = Some j \<Longrightarrow> job_locked_bond j \<noteq> 0 \<Longrightarrow> backed B j"
  shows "locks_balanced B (J(a := x))"
proof -
  have "locked_total (J(a := x)) p m = locked_total J p m" for p m
    using locked_total_upd [of J a x p m] assms(2) by simp
  then show ?thesis using assms(1,3) by (auto simp: locks_balanced_def all_at_def)
qed

text \<open>A job and its bond change together by the same amount. Another bond of the same provider and
  mint does not exist.\<close>

lemma locks_balanced_move:
  assumes inv: "locks_balanced B J" and j: "J a = Some j" and b: "B ba = Some b" "bond_matches b j"
    and unique: "\<And>ba' b'. B ba' = Some b' \<Longrightarrow> bond_matches b' j \<Longrightarrow> ba' = ba"
    and j': "job_provider j' = job_provider j" "job_mint j' = job_mint j"
    and b': "bond_provider b' = bond_provider b" "bond_mint b' = bond_mint b" "bond_ok b'"
    and moved: "unat (bond_locked b') + unat (job_locked_bond j) = unat (bond_locked b) + unat (job_locked_bond j')"
  shows "locks_balanced (B(ba \<mapsto> b')) (J(a \<mapsto> j'))"
proof (rule locks_balancedI)
  show "bond_ok c" if "(B(ba \<mapsto> b')) k = Some c" for k c
    using that b'(3) locks_balancedD(1) [OF inv] by (auto split: if_splits)
  show "unat (bond_locked c) = locked_total (J(a \<mapsto> j')) (bond_provider c) (bond_mint c)"
    if "(B(ba \<mapsto> b')) k = Some c" for k c
  proof (cases "k = ba")
    case True
    then show ?thesis
      using that b b' j j' moved locks_balancedD(2) [OF inv b(1)]
        locked_total_upd [of J a "Some j'" "bond_provider b" "bond_mint b"]
      by (auto simp: bond_matches_def)
  next
    case False
    then have "B k = Some c" "\<not> bond_matches c j" using that unique by auto
    then show ?thesis
      using j j' locks_balancedD(2) [OF inv, of k c]
        locked_total_upd [of J a "Some j'" "bond_provider c" "bond_mint c"]
      by (auto simp: bond_matches_def)
  qed
  have "backed B j" using b by (auto simp: backed_def)
  then show "backed (B(ba \<mapsto> b')) i" if "(J(a \<mapsto> j')) x = Some i" "job_locked_bond i \<noteq> 0" for x i
    using that locks_balancedD(3) [OF inv, of x i] backed_cong [OF j', of B]
    by (auto simp: backed_same [where B = B, OF b(1) b'(1,2)] split: if_splits)
qed

lemma bond_unique:
  assumes "placed rt pid L" "l_bond L ba = Some b" "l_bond L ba' = Some b'" "bond_matches b j" "bond_matches b' j"
  shows "ba' = ba"
  using assms(4,5) placedD(3) [OF assms(1,2)] placedD(3) [OF assms(1,3)]
  by (simp add: bond_placed_def bond_matches_def)

lemma locks_balanced_bond:
  assumes "locks_balanced B J" "B ba = Some b" "bond_provider b' = bond_provider b" "bond_mint b' = bond_mint b"
    "bond_locked b' = bond_locked b" "bond_ok b'"
  shows "locks_balanced (B(ba \<mapsto> b')) J"
  using assms(2-) locks_balancedD [OF assms(1)]
  by (intro locks_balancedI) (auto simp: backed_same [where B = B, OF assms(2-4)] split: if_splits)

text \<open>The first deposit opens a bond no job has a share of.\<close>

lemma locks_balanced_new_bond:
  assumes inv: "locks_balanced B J" and none: "B ba = None" and b: "bond_locked b = 0" "bond_ok b"
    and unbacked: "\<And>k c. B k = Some c \<Longrightarrow> bond_provider c = bond_provider b \<Longrightarrow> bond_mint c = bond_mint b \<Longrightarrow> False"
  shows "locks_balanced (B(ba \<mapsto> b)) J"
proof -
  have "share (bond_provider b) (bond_mint b) (J a) = 0" for a
  proof (cases "J a")
    case (Some j)
    have "\<not> backed B j" if "job_provider j = bond_provider b" "job_mint j = bond_mint b"
      using that unbacked by (auto simp: backed_def bond_matches_def)
    then have "job_locked_bond j = 0" if "job_provider j = bond_provider b" "job_mint j = bond_mint b"
      using that locks_balancedD(3) [OF inv Some] by blast
    then show ?thesis using Some by simp
  qed simp
  then have "locked_total J (bond_provider b) (bond_mint b) = 0"
    by (simp add: locked_total_def)
  then show ?thesis
    using b locks_balancedD [OF inv] backed_new [where B = B, OF none]
    by (intro locks_balancedI) (auto split: if_splits)
qed

lemma bond_ok_unat: "bond_ok b \<longleftrightarrow> unat (bond_locked b) \<le> unat (bond_deposited b)"
  by (simp add: bond_ok_def word_le_nat_alt)

lemma locks_ok_step:
  assumes step: "protocol_step rt pid S L L'" and placed: "placed rt pid L" and terms: "terms_ok rt pid L"
    and inv: "locks_ok rt pid L"
  shows "locks_ok rt pid L'"
proof -
  note I = inv [unfolded locks_ok_def]
  have unlocked: "job_locked_bond j = 0" if "l_job L a = Some j" "\<not> holding (job_state j)" for a j
    using that terms by (auto simp: terms_ok_def job_terms_ok_def dest: all_atD)
  have same: "locks_balanced (l_bond L) ((l_job L)(a \<mapsto> j'))"
    if "l_job L a = Some j" "job_provider j' = job_provider j" "job_mint j' = job_mint j"
      "job_locked_bond j' = job_locked_bond j" for a j j'
    using that locks_balancedD(3) [OF I that(1)] backed_cong [OF that(2,3)]
    by (intro locks_balanced_job [OF I]) auto
  have release: "locks_balanced ((l_bond L)(ba \<mapsto> b')) ((l_job L)(a \<mapsto> j'))"
    if "l_job L a = Some j" "l_bond L ba = Some b" "bond_matches b j" "job_provider j' = job_provider j"
      "job_mint j' = job_mint j" "bond_provider b' = bond_provider b" "bond_mint b' = bond_mint b" "bond_ok b'"
      "unat (bond_locked b') + unat (job_locked_bond j) = unat (bond_locked b) + unat (job_locked_bond j')"
    for a j j' ba b b'
    using that bond_unique [OF placed that(2) _ that(3)]
    by (intro locks_balanced_move [OF I that(1-3)]) auto
  have released: "bond_ok (release_bond j b) \<and>
      unat (bond_locked (release_bond j b)) + unat (job_locked_bond j) = unat (bond_locked b)"
    if "l_bond L ba = Some b" "job_locked_bond j \<le> bond_locked b" for ba b j
    using that locks_balancedD(1) [OF I that(1)]
    by (auto simp: release_bond_def bond_ok_unat unat_sub word_le_nat_alt)
  show ?thesis
    using step
  proof (cases rule: protocol_step.cases)
    case (deposit c p authority a bump b vault x src y n)
    have d: "unat (bond_deposited b + n) = unat (bond_deposited b) + unat n"
      using deposit(15) by (simp add: unat_word_ariths)
    from deposit(9) show ?thesis
    proof (elim disjE conjE)
      assume b: "vacant L a" "b = new_bond bump authority c"
      have "k = a" if "l_bond L k = Some e" "bond_provider e = authority" "bond_mint e = config_allowed_mint c" for k e
        using placedD(3) [OF placed that(1)] that(2,3) deposit(8) by (simp add: bond_placed_def)
      then show ?thesis using b deposit(1)
        by (auto simp: locks_ok_def new_bond_def vacant_def bond_ok_def intro!: locks_balanced_new_bond [OF I])
    next
      assume b: "l_bond L a = Some b"
      then show ?thesis using deposit(1) d locks_balancedD(1) [OF I b]
        by (auto simp: locks_ok_def bond_ok_unat intro!: locks_balanced_bond [OF I])
    qed
  next
    case (withdraw a b n vault x dst y)
    have "bond_ok b" using withdraw(2) by (rule locks_balancedD(1) [OF I])
    then have "bond_ok (b\<lparr>bond_deposited := bond_deposited b - n\<rparr>)"
      using withdraw(6) by (auto simp: bond_ok_def word_le_nat_alt unat_sub)
    then show ?thesis using withdraw(1,2)
      by (auto simp: locks_ok_def intro!: locks_balanced_bond [OF I])
  next
    case (create c p buyer payload now a bump)
    then show ?thesis
      by (auto simp: locks_ok_def new_job_def vacant_def intro!: locks_balanced_job [OF I])
  next
    case (fund c a j escrow src x)
    then show ?thesis by (auto simp: locks_ok_def intro: same)
  next
    case (accept c p a j ba b m)
    have u: "unat (bond_locked b + m) = unat (bond_locked b) + unat m"
      using accept(16) order_le_less_trans [OF accept(16) unat_u64_less] by (simp add: unat_word_ariths)
    with accept show ?thesis
      by (auto simp: locks_ok_def bond_ok_unat unlocked holding_def intro!: release)
  next
    case (submit p a j key digest)
    then show ?thesis by (auto simp: locks_ok_def intro: same)
  next
    case (settle a j ba b escrow provider_token buyer_token balance)
    then show ?thesis using released [of ba b j]
      by (auto simp: locks_ok_def release_bond_def intro!: release)
  next
    case (challenge c a j now ca bump deadline reason)
    then show ?thesis by (auto simp: locks_ok_def intro: same)
  next
    case (settle_challenged a j ca ch ba b escrow provider_token buyer_token balance)
    then show ?thesis using released [of ba b j]
      by (auto simp: locks_ok_def release_bond_def intro!: release)
  next
    case (refund a j escrow buyer_token balance bonds ba b)
    from refund(9) show ?thesis
    proof (elim disjE conjE)
      assume "job_locked_bond j = 0" "bonds = l_bond L"
      then show ?thesis using refund(1,2) by (auto simp: locks_ok_def intro!: same)
    next
      assume "l_bond L ba = Some b" "bond_matches b j" "job_locked_bond j \<le> bond_locked b"
        "bonds = (l_bond L)(ba \<mapsto> release_bond j b)"
      then show ?thesis using refund(1,2) released [of ba b j]
        by (auto simp: locks_ok_def release_bond_def intro!: release)
    qed
  next
    case (expire a j)
    then show ?thesis by (auto simp: locks_ok_def intro: same)
  next
    case (slash c a j ca ch ba b n escrow vault buyer_token balance)
    have "bond_ok b" using slash(12) by (rule locks_balancedD(1) [OF I])
    then show ?thesis using slash
      by (auto simp: locks_ok_def bond_ok_unat unat_sub word_le_nat_alt intro!: release)
  next
    case (close a j tokens e t)
    then have "job_locked_bond j = 0" by (auto intro!: unlocked simp: holding_def is_terminal_def)
    then show ?thesis using close
      by (auto simp: locks_ok_def intro!: locks_balanced_job [OF I, where x = None])
  qed (use inv in \<open>auto simp: locks_ok_def\<close>)
qed

lemma locks_ok_start:
  assumes "\<And>a. vacant L a"
  shows "locks_ok rt pid L"
  using assms by (auto simp: locks_ok_def vacant_def intro!: locks_balancedI)

lemma locks_ok_env: "locks_ok rt pid L \<Longrightarrow> env_step rt pid L L' \<Longrightarrow> locks_ok rt pid L'"
  by (simp add: locks_ok_def env_step_def)

definition placed_terms :: "runtime \<Rightarrow> address \<Rightarrow> ledger \<Rightarrow> bool" where
  "placed_terms rt pid L \<longleftrightarrow> placed rt pid L \<and> terms_ok rt pid L"

lemma placed_terms_reachable: "deployment rt pid \<Longrightarrow> reachable rt pid L \<Longrightarrow> placed_terms rt pid L"
  by (simp add: placed_terms_def placed.holds_on_runs terms.holds_on_runs)

interpretation locks: ledger_invariant placed_terms locks_ok
proof unfold_locales
  show "locks_ok rt pid L'" if "placed_terms rt pid L" "locks_ok rt pid L" "protocol_step rt pid S L L'"
    for rt pid L S L'
    using that locks_ok_step by (auto simp: placed_terms_def)
qed (blast intro: placed_terms_reachable locks_ok_start locks_ok_env)+

section \<open>Solvency\<close>

lemma ata_inj:
  assumes "pda_law rt" "ata rt w m = Some e" "ata rt w' m' = Some e"
  shows "w' = w" "m' = m"
proof -
  let ?seeds = "\<lambda>w m. [to_bytes w, to_bytes (token_program_id rt), to_bytes m]"
  obtain b b' where "try_find_program_address rt (?seeds w m) ASSOCIATED_TOKEN_PROGRAM_ID = Some (e, b)"
    "try_find_program_address rt (?seeds w' m') ASSOCIATED_TOKEN_PROGRAM_ID = Some (e, b')"
    using assms(2,3) by (auto simp: ata_def)
  then have "concat (?seeds w m @ [[b]]) = concat (?seeds w' m' @ [[b']])"
    using assms(1) unfolding pda_law_def by blast
  then show "w' = w" "m' = m" by (simp_all add: bytes32_eq_iff)
qed

definition owner_at :: "(address \<Rightarrow> token_state option) \<Rightarrow> address \<Rightarrow> address option" where
  "owner_at T a = map_option token_owner (T a)"

lemma owner_at_move [simp]: "owner_at (move_tokens src dst n T) = owner_at T"
  by (auto simp: owner_at_def move_tokens_def change_amount_def fun_eq_iff option.map_comp comp_def)

lemma holds_owner: "holds T a m h n \<Longrightarrow> owner_at T a = Some h"
  by (auto simp: holds_def owner_at_def plain_token_def)

lemma funds_owner: "funds T a m h n \<Longrightarrow> owner_at T a = Some h"
  by (auto simp: funds_def owner_at_def)

lemma holds_funds: "holds T a m h n \<Longrightarrow> funds T a m h n"
  by (auto simp: holds_def funds_def plain_token_def)

text \<open>How a movement affects the funds of an account: nobody but the source loses, the destination
  gains, the source keeps what was not moved.\<close>

lemma funds_others:
  assumes "funds T a m h n" "can_move src dst k T" "owner_at T src \<noteq> Some h"
  shows "funds (move_tokens src dst k T) a m h n"
proof -
  from assms(1) obtain t where t: "T a = Some t" "token_mint t = m" "token_owner t = h" "n \<le> token_amount_of t"
    by (auto simp: funds_def)
  then have "a \<noteq> src" using assms(3) by (auto simp: owner_at_def)
  moreover have "n \<le> token_amount_of t + k" if "a = dst" "src \<noteq> dst"
    using that assms(2) t(1,4) by (auto simp: can_move_def word_le_nat_alt unat_word_ariths)
  ultimately show ?thesis
    using t by (cases "a = dst") (auto simp: funds_def move_tokens_def change_amount_def)
qed

lemma funds_source:
  assumes "funds T src m h n" "can_move src dst k T" "k \<le> n"
  shows "funds (move_tokens src dst k T) src m h (n - k)"
proof -
  from assms(1) obtain t where t: "T src = Some t" "token_mint t = m" "token_owner t = h" "n \<le> token_amount_of t"
    by (auto simp: funds_def)
  have "n - k \<le> token_amount_of t - k" "n - k \<le> token_amount_of t"
    using t(4) assms(3) by (auto simp: word_le_nat_alt unat_sub)
  then show ?thesis
    using t by (cases "src = dst") (auto simp: funds_def move_tokens_def change_amount_def)
qed

lemma funds_destination:
  assumes "funds T dst m h n" "can_move src dst k T" "src \<noteq> dst"
  shows "funds (move_tokens src dst k T) dst m h (n + k)"
proof -
  from assms(1) obtain t where t: "T dst = Some t" "token_mint t = m" "token_owner t = h" "n \<le> token_amount_of t"
    by (auto simp: funds_def)
  have "n + k \<le> token_amount_of t + k"
    using t(1,4) assms(2,3) by (auto simp: can_move_def word_le_nat_alt unat_word_ariths)
  then show ?thesis
    using t assms(3) by (auto simp: funds_def move_tokens_def change_amount_def)
qed

lemma funds_closed:
  "funds T a m h n \<Longrightarrow> n \<noteq> 0 \<Longrightarrow> T e = Some t \<Longrightarrow> token_amount_of t = 0 \<Longrightarrow> funds (T(e := None)) a m h n"
  by (auto simp: funds_def)

text \<open>The escrow of a job from its funding to its end, and the vault of a bond with a deposit.\<close>

definition in_escrow :: "JobState \<Rightarrow> bool" where
  "in_escrow s \<longleftrightarrow> s = Funded \<or> holding s"

definition escrow_ok :: "runtime \<Rightarrow> (address \<Rightarrow> token_state option) \<Rightarrow> address \<Rightarrow> JobAccount \<Rightarrow> bool" where
  "escrow_ok rt T a j \<longleftrightarrow> (in_escrow (job_state j) \<longrightarrow>
     (\<exists>e. ata rt a (job_mint j) = Some e \<and> funds T e (job_mint j) a (job_amount j)))"

definition vault_ok :: "runtime \<Rightarrow> (address \<Rightarrow> token_state option) \<Rightarrow> address \<Rightarrow> ProviderBondAccount \<Rightarrow> bool" where
  "vault_ok rt T a b \<longleftrightarrow> (bond_deposited b \<noteq> 0 \<longrightarrow>
     (\<exists>v. ata rt a (bond_mint b) = Some v \<and> funds T v (bond_mint b) a (bond_deposited b)))"

definition solvent :: "runtime \<Rightarrow> address \<Rightarrow> ledger \<Rightarrow> bool" where
  "solvent rt pid L \<longleftrightarrow> all_at (escrow_ok rt (l_token L)) (l_job L) \<and> all_at (vault_ok rt (l_token L)) (l_bond L)"

lemma solvent_start: "(\<And>a. vacant L a) \<Longrightarrow> solvent rt pid L"
  by (simp add: solvent_def vacant_def all_at_empty)

lemma placed_pda:
  assumes "placed rt pid L" "pda_law rt"
  shows "l_job L a = Some j \<Longrightarrow> is_pda rt pid a" "l_bond L a = Some b \<Longrightarrow> is_pda rt pid a"
    "l_job L a = Some j \<Longrightarrow> l_bond L a = Some b \<Longrightarrow> False"
proof -
  have job: "create_program_address rt (job_seed_parts (job_buyer j) (job_provider j)
      (job_nonce_le_bytes (job_nonce j)) @ [[job_bump j]]) pid = Some a" if "l_job L a = Some j"
    using placedD(4) [OF assms(1) that] assms(2) unfolding job_placed_def pda_law_def by blast
  have bond: "create_program_address rt (bond_seed_parts (bond_provider b) (bond_mint b) @ [[bond_bump b]]) pid =
      Some a" if "l_bond L a = Some b"
    using placedD(3) [OF assms(1) that] assms(2) unfolding bond_placed_def pda_law_def by blast
  show "is_pda rt pid a" if "l_job L a = Some j" using job [OF that] by (auto simp: is_pda_def)
  show "is_pda rt pid a" if "l_bond L a = Some b" using bond [OF that] by (auto simp: is_pda_def)
  show False if "l_job L a = Some j" "l_bond L a = Some b"
  proof -
    have "concat (job_seed_parts (job_buyer j) (job_provider j) (job_nonce_le_bytes (job_nonce j)) @ [[job_bump j]]) =
        concat (bond_seed_parts (bond_provider b) (bond_mint b) @ [[bond_bump b]])"
      using job [OF that(1)] bond [OF that(2)] assms(2) unfolding pda_law_def by blast
    from arg_cong [OF this, of length] show False by (simp only: length_concat_seeds)
  qed
qed

lemma solvent_env:
  assumes "deployment rt pid" "placed rt pid L" "solvent rt pid L" "env_step rt pid L L'"
  shows "solvent rt pid L'"
  using assms(3,4) placed_pda(1,2) [OF assms(2) deploymentD(1) [OF assms(1)]]
  unfolding solvent_def env_step_def all_at_def escrow_ok_def vault_ok_def by metis

lemma escrow_ok_move:
  "escrow_ok rt T a j \<Longrightarrow> can_move src dst k T \<Longrightarrow> owner_at T src \<noteq> Some a \<Longrightarrow>
   escrow_ok rt (move_tokens src dst k T) a j"
  by (auto simp: escrow_ok_def intro: funds_others)

lemma vault_ok_move:
  "vault_ok rt T a b \<Longrightarrow> can_move src dst k T \<Longrightarrow> owner_at T src \<noteq> Some a \<Longrightarrow>
   vault_ok rt (move_tokens src dst k T) a b"
  by (auto simp: vault_ok_def intro: funds_others)

lemma all_at_mono: "all_at P f \<Longrightarrow> (\<And>k v. f k = Some v \<Longrightarrow> P k v \<Longrightarrow> Q k v) \<Longrightarrow> all_at Q f"
  by (simp add: all_at_def)

lemma all_at_upd_mono:
  "all_at P f \<Longrightarrow> (\<And>k v. k \<noteq> a \<Longrightarrow> f k = Some v \<Longrightarrow> P k v \<Longrightarrow> Q k v) \<Longrightarrow> Q a x \<Longrightarrow> all_at Q (f(a \<mapsto> x))"
  by (simp add: all_at_def)

lemma escrow_ok_idle: "\<not> in_escrow (job_state j) \<Longrightarrow> escrow_ok rt T a j"
  by (simp add: escrow_ok_def)

lemma escrow_ok_cong:
  "escrow_ok rt T a j \<Longrightarrow> job_mint j' = job_mint j \<Longrightarrow> job_amount j' = job_amount j \<Longrightarrow>
   (in_escrow (job_state j') \<Longrightarrow> in_escrow (job_state j)) \<Longrightarrow> escrow_ok rt T a j'"
  by (simp add: escrow_ok_def)

lemma vault_ok_cong:
  "vault_ok rt T a b \<Longrightarrow> bond_mint b' = bond_mint b \<Longrightarrow> bond_deposited b' = bond_deposited b \<Longrightarrow>
   vault_ok rt T a b'"
  by (simp add: vault_ok_def)

text \<open>Paying out an escrow leaves the funds of every other owner alone.\<close>

lemma pay_out_others:
  assumes "can_pay_out escrow p b n x T" "owner_at T escrow = Some a" "k \<noteq> a"
  shows "escrow_ok rt T k j \<Longrightarrow> escrow_ok rt (pay_out escrow p b n x T) k j"
    "vault_ok rt T k v \<Longrightarrow> vault_ok rt (pay_out escrow p b n x T) k v"
  using assms by (auto simp: can_pay_out_def pay_out_def intro!: escrow_ok_move vault_ok_move)

lemma solventD:
  assumes "solvent rt pid L"
  shows "l_job L a = Some j \<Longrightarrow> escrow_ok rt (l_token L) a j" "l_bond L a = Some b \<Longrightarrow> vault_ok rt (l_token L) a b"
  using assms by (auto simp: solvent_def dest: all_atD)

lemma solventI:
  assumes "\<And>a j. l_job L a = Some j \<Longrightarrow> escrow_ok rt (l_token L) a j"
    "\<And>a b. l_bond L a = Some b \<Longrightarrow> vault_ok rt (l_token L) a b"
  shows "solvent rt pid L"
  using assms by (simp add: solvent_def all_at_def)

text \<open>A bond's vault holds the deposit even when there is none, once it is known to exist.\<close>

lemma vault_funds:
  "vault_ok rt T a b \<Longrightarrow> ata rt a (bond_mint b) = Some v \<Longrightarrow> holds T v (bond_mint b) a x \<Longrightarrow>
   funds T v (bond_mint b) a (bond_deposited b)"
  by (cases "bond_deposited b = 0") (auto simp: vault_ok_def holds_def funds_def plain_token_def)

text \<open>Tokens of an ordinary address move into a vault or an escrow.\<close>

lemma solvent_credit:
  assumes S: "solvent rt pid L" and pda: "\<And>a j. l_job L a = Some j \<Longrightarrow> is_pda rt pid a"
      "\<And>a b. l_bond L a = Some b \<Longrightarrow> is_pda rt pid a"
    and src: "owner_at (l_token L) src = Some h" "\<not> is_pda rt pid h" and m: "can_move src dst n (l_token L)"
    and T: "l_token L' = move_tokens src dst n (l_token L)"
    and J: "\<And>k j. l_job L' k = Some j \<Longrightarrow> l_job L k = Some j \<or> escrow_ok rt (l_token L') k j"
    and B: "\<And>k b. l_bond L' k = Some b \<Longrightarrow> l_bond L k = Some b \<or> vault_ok rt (l_token L') k b"
  shows "solvent rt pid L'"
proof (rule solventI)
  show "escrow_ok rt (l_token L') k j" if "l_job L' k = Some j" for k j
    using J [OF that] pda(1) src m solventD(1) [OF S] unfolding T by (auto intro: escrow_ok_move)
  show "vault_ok rt (l_token L') k b" if "l_bond L' k = Some b" for k b
    using B [OF that] pda(2) src m solventD(2) [OF S] unfolding T by (auto intro: vault_ok_move)
qed

text \<open>An escrow is emptied and its job leaves the states that need it.\<close>

lemma solvent_release:
  assumes S: "solvent rt pid L" and j: "l_job L a = Some j" "\<not> in_escrow (job_state j')"
    and T: "\<And>k i. k \<noteq> a \<Longrightarrow> escrow_ok rt (l_token L) k i \<Longrightarrow> escrow_ok rt (l_token L') k i"
    and J: "l_job L' = (l_job L)(a \<mapsto> j')"
    and B: "\<And>k b. l_bond L' k = Some b \<Longrightarrow> vault_ok rt (l_token L') k b"
  shows "solvent rt pid L'"
  using solventD(1) [OF S] j T J B by (intro solventI) (auto simp: escrow_ok_idle split: if_splits)

lemma solvent_deposit:
  assumes D: "deployment rt pid" and inv: "placed rt pid L" "solvent rt pid L"
    and a: "is_pda rt pid a" and h: "\<not> is_pda rt pid h"
    and b: "bond_deposited b = 0 \<or> l_bond L a = Some b" "ata rt a (bond_mint b) = Some vault"
      "holds (l_token L) vault (bond_mint b) a x" "holds (l_token L) src (bond_mint b) h y"
      "can_move src vault n (l_token L)"
  shows "solvent rt pid (L\<lparr>l_bond := (l_bond L)(a \<mapsto> b\<lparr>bond_deposited := bond_deposited b + n\<rparr>),
      l_token := move_tokens src vault n (l_token L)\<rparr>)"
proof -
  have "vault_ok rt (l_token L) a b"
    using b(1) solventD(2) [OF inv(2)] by (auto simp: vault_ok_def)
  from vault_funds [OF this b(2,3)] have "funds (l_token L) vault (bond_mint b) a (bond_deposited b)" .
  moreover have "src \<noteq> vault"
    using holds_owner [OF b(3)] holds_owner [OF b(4)] a h by auto
  ultimately have "vault_ok rt (move_tokens src vault n (l_token L)) a (b\<lparr>bond_deposited := bond_deposited b + n\<rparr>)"
    using funds_destination [OF _ b(5)] b(2) by (simp add: vault_ok_def)
  then show ?thesis
    using placed_pda(1,2) [OF inv(1) deploymentD(1) [OF D]] holds_owner [OF b(4)] h b(5)
    by (intro solvent_credit [OF inv(2)]) (auto split: if_splits)
qed

text \<open>Tokens leave a vault together with the deposit; \<open>k\<close> is the part of the deposit given up.\<close>

lemma vault_debit:
  assumes "vault_ok rt T a b" "ata rt a (bond_mint b) = Some v" "owner_at T v = Some a" "can_move v dst k T"
    "k \<noteq> 0" "k \<le> bond_deposited b" "bond_mint b' = bond_mint b" "bond_deposited b' = bond_deposited b - k"
  shows "vault_ok rt (move_tokens v dst k T) a b'"
proof -
  have "bond_deposited b \<noteq> 0" using assms(5,6) by auto
  then have "funds T v (bond_mint b) a (bond_deposited b)"
    using assms(1,2) by (auto simp: vault_ok_def)
  from funds_source [OF this assms(4,6)] show ?thesis
    using assms(2,7,8) by (simp add: vault_ok_def)
qed

lemma solvent_withdraw:
  assumes D: "deployment rt pid" and inv: "placed rt pid L" "solvent rt pid L"
    and b: "l_bond L a = Some b" "n \<noteq> 0" "n \<le> bond_deposited b" "ata rt a (bond_mint b) = Some vault"
      "holds (l_token L) vault (bond_mint b) a x" "can_move vault dst n (l_token L)"
  shows "solvent rt pid (L\<lparr>l_bond := (l_bond L)(a \<mapsto> b\<lparr>bond_deposited := bond_deposited b - n\<rparr>),
      l_token := move_tokens vault dst n (l_token L)\<rparr>)"
proof -
  note own = holds_owner [OF b(5)]
  have "vault_ok rt (move_tokens vault dst n (l_token L)) a (b\<lparr>bond_deposited := bond_deposited b - n\<rparr>)"
    by (rule vault_debit [OF solventD(2) [OF inv(2) b(1)] b(4) own b(6,2,3)]) simp_all
  then show ?thesis
    using own b(1,6) solventD [OF inv(2)] placed_pda(3) [OF inv(1) deploymentD(1) [OF D]]
    by (intro solventI) (auto intro!: escrow_ok_move vault_ok_move split: if_splits)
qed

lemma solvent_settle:
  assumes D: "deployment rt pid" and inv: "placed rt pid L" "solvent rt pid L"
    and j: "l_job L a = Some j" "l_job L' = (l_job L)(a \<mapsto> j')" "\<not> in_escrow (job_state j')"
    and b: "l_bond L ba = Some b" "l_bond L' = (l_bond L)(ba \<mapsto> release_bond j b)"
    and t: "holds (l_token L) escrow m a balance" "can_pay_out escrow p d n balance (l_token L)"
      "l_token L' = pay_out escrow p d n balance (l_token L)"
  shows "solvent rt pid L'"
proof -
  note own = holds_owner [OF t(1)]
  have "vault_ok rt (l_token L') k c" if "l_bond L' k = Some c" for k c
  proof -
    from that b obtain c0 where c0: "l_bond L k = Some c0" "bond_mint c = bond_mint c0"
      "bond_deposited c = bond_deposited c0" by (auto simp: release_bond_def split: if_splits)
    with placed_pda(3) [OF inv(1) deploymentD(1) [OF D] j(1)] have "k \<noteq> a" by blast
    from pay_out_others(2) [OF t(2) own this solventD(2) [OF inv(2) c0(1)]] t(3) c0(2,3) show ?thesis
      by (auto intro: vault_ok_cong)
  qed
  then show ?thesis
    using pay_out_others(1) [OF t(2) own] t(3) by (intro solvent_release [OF inv(2) j(1,3) _ j(2)]) auto
qed

lemma solvent_refund:
  assumes D: "deployment rt pid" and inv: "placed rt pid L" "solvent rt pid L"
    and j: "l_job L a = Some j" "l_job L' = (l_job L)(a \<mapsto> j')" "\<not> in_escrow (job_state j')"
    and b: "\<And>k c. l_bond L' k = Some c \<Longrightarrow> \<exists>c0. l_bond L k = Some c0 \<and> bond_mint c = bond_mint c0 \<and>
      bond_deposited c = bond_deposited c0"
    and t: "holds (l_token L) escrow m a balance" "can_move escrow d balance (l_token L)"
      "l_token L' = move_tokens escrow d balance (l_token L)"
  shows "solvent rt pid L'"
proof -
  note own = holds_owner [OF t(1)]
  have "vault_ok rt (l_token L') k c" if "l_bond L' k = Some c" for k c
  proof -
    from b [OF that] obtain c0 where c0: "l_bond L k = Some c0" "bond_mint c = bond_mint c0"
      "bond_deposited c = bond_deposited c0" by blast
    with placed_pda(3) [OF inv(1) deploymentD(1) [OF D] j(1)] have "k \<noteq> a" by blast
    with vault_ok_move [OF solventD(2) [OF inv(2) c0(1)] t(2)] own t(3) c0(2,3) show ?thesis
      by (auto intro: vault_ok_cong)
  qed
  then show ?thesis
    using escrow_ok_move [OF _ t(2)] own t(3) by (intro solvent_release [OF inv(2) j(1,3) _ j(2)]) auto
qed

lemma solvent_slash:
  assumes D: "deployment rt pid" and inv: "placed rt pid L" "solvent rt pid L"
    and j: "l_job L a = Some j" "l_job L' = (l_job L)(a \<mapsto> j')" "\<not> in_escrow (job_state j')"
    and b: "l_bond L ba = Some b" "l_bond L' = (l_bond L)(ba \<mapsto> b')" "bond_mint b' = bond_mint b"
      "bond_deposited b' = bond_deposited b - n" "n \<noteq> 0" "n \<le> bond_deposited b" "ata rt ba (bond_mint b) = Some vault"
    and t: "holds (l_token L) escrow m a balance" "can_move escrow d balance (l_token L)"
      "can_move vault d n (move_tokens escrow d balance (l_token L))"
      "l_token L' = move_tokens vault d n (move_tokens escrow d balance (l_token L))"
  shows "solvent rt pid L'"
proof -
  let ?T = "move_tokens escrow d balance (l_token L)"
  note own = holds_owner [OF t(1)]
  note apart = placed_pda(3) [OF inv(1) deploymentD(1) [OF D]]
  have "bond_deposited b \<noteq> 0" using b(5,6) by auto
  then have vault: "owner_at (l_token L) vault = Some ba"
    using solventD(2) [OF inv(2) b(1)] b(7) by (auto simp: vault_ok_def dest: funds_owner)
  have first: "vault_ok rt ?T k c" if "l_bond L k = Some c" for k c
    using vault_ok_move [OF solventD(2) [OF inv(2) that] t(2)] own apart [OF j(1)] that by auto
  have "vault_ok rt (l_token L') k c" if "l_bond L' k = Some c" for k c
  proof (cases "k = ba")
    case True
    then show ?thesis
      using vault_debit [OF first [OF b(1)] b(7) _ t(3) b(5,6,3,4)] vault that b(2) t(4) by simp
  next
    case False
    then show ?thesis using vault_ok_move [OF first t(3)] vault that b(2) t(4) by auto
  qed
  moreover have "escrow_ok rt (l_token L') k i" if "k \<noteq> a" "escrow_ok rt (l_token L) k i" "l_job L k = Some i" for k i
    using that escrow_ok_move [OF escrow_ok_move [OF that(2) t(2)] t(3)] own vault t(4) apart [OF that(3)] b(1) by auto
  ultimately show ?thesis
    using j solventD(1) [OF inv(2)] by (intro solventI) (auto simp: escrow_ok_idle split: if_splits)
qed

lemma solvent_close:
  assumes inv: "terms_ok rt pid L" "solvent rt pid L"
    and t: "T = l_token L \<or> l_token L e = Some t \<and> token_amount_of t = 0 \<and> T = (l_token L)(e := None)"
  shows "solvent rt pid (L\<lparr>l_job := (l_job L)(a := None), l_token := T\<rparr>)"
proof -
  have keep: "funds T x m h n" if "funds (l_token L) x m h n" "n \<noteq> 0" for x m h n
    using t that by (auto intro: funds_closed)
  have "escrow_ok rt T k i" if "l_job L k = Some i" for k i
    using that solventD(1) [OF inv(2) that] inv(1) keep
    by (auto simp: escrow_ok_def terms_ok_def job_terms_ok_def dest: all_atD)
  moreover have "vault_ok rt T k b" if "l_bond L k = Some b" for k b
    using solventD(2) [OF inv(2) that] keep by (auto simp: vault_ok_def)
  ultimately show ?thesis by (intro solventI) (auto split: if_splits)
qed

text \<open>A job moves on within or outside its funded states; no token moves.\<close>

lemma solvent_job:
  assumes "solvent rt pid L" "l_token L' = l_token L" "l_job L' = (l_job L)(a \<mapsto> j')"
    "escrow_ok rt (l_token L) a j'"
    "\<And>k c. l_bond L' k = Some c \<Longrightarrow> \<exists>c0. l_bond L k = Some c0 \<and> bond_mint c = bond_mint c0 \<and>
      bond_deposited c = bond_deposited c0"
  shows "solvent rt pid L'"
proof (rule solventI)
  show "escrow_ok rt (l_token L') k i" if "l_job L' k = Some i" for k i
    using that assms(2-4) solventD(1) [OF assms(1)] by (auto split: if_splits)
  show "vault_ok rt (l_token L') k c" if "l_bond L' k = Some c" for k c
    using assms(5) [OF that] vault_ok_cong [OF solventD(2) [OF assms(1)]] assms(2) by metis
qed

lemma solvent_step:
  assumes D: "deployment rt pid" and inv: "placed rt pid L" "terms_ok rt pid L" "locks_ok rt pid L" "solvent rt pid L"
    and step: "protocol_step rt pid S L L'" and signers: "\<And>s. s \<in> S \<Longrightarrow> \<not> is_pda rt pid s"
  shows "solvent rt pid L'"
proof -
  note sol = inv(4)
  have esc: "escrow_ok rt (l_token L) a j'" if "l_job L a = Some j" "job_mint j' = job_mint j"
    "job_amount j' = job_amount j" "in_escrow (job_state j') \<Longrightarrow> in_escrow (job_state j)" for a j j'
    using that by (rule escrow_ok_cong [OF solventD(1) [OF sol]])
  show ?thesis
    using step
  proof (cases rule: protocol_step.cases)
    case (deposit c p authority a bump b vault x src y n)
    have "is_pda rt pid a" using deposit(8) deploymentD(1) [OF D] unfolding pda_law_def is_pda_def by blast
    with deposit signers show ?thesis
      by (auto simp: new_bond_def intro!: solvent_deposit [OF D inv(1) sol])
  next
    case (withdraw a b n vault x dst y)
    have "bond_ok b" using inv(3) withdraw(2) by (auto simp: locks_ok_def dest: locks_balancedD(1))
    then have "n \<le> bond_deposited b"
      using withdraw(6) by (auto simp: bond_ok_def word_le_nat_alt unat_sub)
    then show ?thesis using withdraw by (auto intro!: solvent_withdraw [OF D inv(1) sol])
  next
    case (create c p buyer payload now a bump)
    then show ?thesis
      by (intro solvent_job [OF sol]) (auto simp: new_job_def in_escrow_def holding_def intro!: escrow_ok_idle)
  next
    case (fund c a j escrow src x)
    have ne: "src \<noteq> escrow"
      using holds_owner [OF fund(10)] holds_owner [OF fund(11)] fund(4,6) signers
        placed_pda(1) [OF inv(1) deploymentD(1) [OF D] fund(4)] by auto
    have "escrow_ok rt (l_token L') a (j\<lparr>job_state := Funded\<rparr>)"
      using funds_destination [OF holds_funds [OF fund(10)] fund(12) ne] fund(1,9) by (auto simp: escrow_ok_def)
    with fund signers holds_owner [OF fund(11)] placed_pda(1,2) [OF inv(1) deploymentD(1) [OF D]]
    show ?thesis by (intro solvent_credit [OF sol, where src = src and dst = escrow]) (auto split: if_splits)
  next
    case (accept c p a j ba b m)
    then show ?thesis
      by (intro solvent_job [OF sol]) (auto simp: in_escrow_def holding_def intro!: esc [of a j] split: if_splits)
  next
    case (submit p a j key digest)
    then show ?thesis
      by (intro solvent_job [OF sol]) (auto simp: in_escrow_def holding_def intro!: esc [of a j])
  next
    case (settle a j ba b escrow provider_token buyer_token balance)
    then show ?thesis by (intro solvent_settle [OF D inv(1) sol settle(2)]) (auto simp: in_escrow_def holding_def)
  next
    case (challenge c a j now ca bump deadline reason)
    then show ?thesis
      by (intro solvent_job [OF sol]) (auto simp: in_escrow_def holding_def intro!: esc [of a j])
  next
    case (settle_challenged a j ca ch ba b escrow provider_token buyer_token balance)
    then show ?thesis
      by (intro solvent_settle [OF D inv(1) sol settle_challenged(2)]) (auto simp: in_escrow_def holding_def)
  next
    case (refund a j escrow buyer_token balance bonds ba b)
    then show ?thesis
      by (intro solvent_refund [OF D inv(1) sol refund(2)])
         (auto simp: in_escrow_def holding_def release_bond_def split: if_splits)
  next
    case (expire a j)
    then show ?thesis
      by (intro solvent_job [OF sol]) (auto simp: in_escrow_def holding_def intro!: escrow_ok_idle)
  next
    case (slash c a j ca ch ba b n escrow vault buyer_token balance)
    then show ?thesis
      by (intro solvent_slash [OF D inv(1) sol slash(4), where ba = ba and b = b and n = n and vault = vault
            and escrow = escrow and d = buyer_token and balance = balance and m = "job_mint j" and
            b' = "b\<lparr>bond_locked := bond_locked b - n, bond_deposited := bond_deposited b - n\<rparr>" and
            j' = "j\<lparr>job_locked_bond := 0, job_state := Slashed\<rparr>"])
         (simp_all add: in_escrow_def holding_def)
  next
    case (close a j tokens e t)
    then show ?thesis using solvent_close [OF inv(2) sol] by simp
  qed (use sol in \<open>auto simp: solvent_def\<close>)
qed

definition books_ok :: "runtime \<Rightarrow> address \<Rightarrow> ledger \<Rightarrow> bool" where
  "books_ok rt pid L \<longleftrightarrow> placed rt pid L \<and> terms_ok rt pid L \<and> locks_ok rt pid L"

lemma books_ok_reachable: "deployment rt pid \<Longrightarrow> reachable rt pid L \<Longrightarrow> books_ok rt pid L"
  by (simp add: books_ok_def placed.holds_on_runs terms.holds_on_runs locks.holds_on_runs)

interpretation solvency: ledger_invariant books_ok solvent
proof unfold_locales
  show "solvent rt pid L'" if "deployment rt pid" "books_ok rt pid L" "solvent rt pid L"
    "protocol_step rt pid S L L'" "\<And>s. s \<in> S \<Longrightarrow> \<not> is_pda rt pid s" for rt pid L S L'
    using that solvent_step by (auto simp: books_ok_def)
  show "solvent rt pid L'" if "deployment rt pid" "books_ok rt pid L" "solvent rt pid L" "env_step rt pid L L'"
    for rt pid L L'
    using that solvent_env by (auto simp: books_ok_def)
qed (blast intro: books_ok_reachable solvent_start)+

end
