(* ===== verification/History.thy ===== *)
theory History
  imports Entrypoint Invariants
begin

text \<open>
  Histories of the deployed program. \<open>history rt pid w\<close>: the world \<open>w\<close> can arise from one in which
  the program has no records yet, by instructions the entrypoint accepts and by what the rest of
  the chain does in between, in any order.

  What others can do (\<open>others_step\<close>) is what the runtime and the token program allow: data of the
  program's accounts stays, an account newly assigned to the program has zeroed data, and tokens
  of an address of the program are not taken. Everything else (clock, lamports, token accounts of
  others, new deposits into any account, logs) may change freely. A transaction is never signed by an
  address of the program: only the program itself can sign for those, in its own invocations.

  Every history is a run of the abstract protocol (\<open>history_reachable\<close>), so its invariants hold of
  the bytes on the chain. The last section shows what every accepted instruction does to a job and to the
  supply of a mint.
\<close>

section \<open>Histories\<close>

definition zeroed :: "bytes \<Rightarrow> bool" where
  "zeroed d \<longleftrightarrow> (\<forall>x\<in>set d. x = 0)"

definition others_step :: "runtime \<Rightarrow> address \<Rightarrow> world \<Rightarrow> world \<Rightarrow> bool" where
  "others_step rt pid w w' \<longleftrightarrow>
     (\<forall>a. acct_owner (w_accounts w a) = pid \<longrightarrow>
        acct_owner (w_accounts w' a) = pid \<and> acct_data (w_accounts w' a) = acct_data (w_accounts w a)) \<and>
     (\<forall>a. acct_owner (w_accounts w a) \<noteq> pid \<longrightarrow> acct_owner (w_accounts w' a) = pid \<longrightarrow>
        zeroed (acct_data (w_accounts w' a))) \<and>
     (\<forall>a mint owner n. is_pda rt pid owner \<longrightarrow> funds (token_at rt w) a mint owner n \<longrightarrow>
        funds (token_at rt w') a mint owner n)"

inductive history :: "runtime \<Rightarrow> address \<Rightarrow> world \<Rightarrow> bool" for rt :: runtime and pid :: address where
  genesis: "(\<And>a. acct_owner (w_accounts w a) = pid \<Longrightarrow> zeroed (acct_data (w_accounts w a))) \<Longrightarrow>
    history rt pid w"
| call: "history rt pid w \<Longrightarrow> process_instruction rt pid accounts data w = Inr w' \<Longrightarrow>
    (\<And>s. s \<in> signers accounts \<Longrightarrow> \<not> is_pda rt pid s) \<Longrightarrow> history rt pid w'"
| others: "history rt pid w \<Longrightarrow> others_step rt pid w w' \<Longrightarrow> history rt pid w'"

lemma zeroed_replicate: "zeroed d \<Longrightarrow> d = replicate (length d) 0"
  by (metis replicate_length_same zeroed_def)

lemma zeroed_no_record:
  assumes "zeroed (acct_data (w_accounts w a))"
  shows "config_at pid w a = None" "provider_at pid w a = None" "bond_at pid w a = None"
    "job_at pid w a = None" "challenge_at pid w a = None"
  using zeroed_replicate [OF assms] config.decode_zeros provider.decode_zeros bond.decode_zeros
    job.decode_zeros challenge.decode_zeros
  by (auto simp: stored_at_def split: sum.splits) metis+

lemma others_step_records:
  assumes "others_step rt pid w w'"
  shows "config_at pid w' = config_at pid w" "provider_at pid w' = provider_at pid w"
    "bond_at pid w' = bond_at pid w" "job_at pid w' = job_at pid w" "challenge_at pid w' = challenge_at pid w"
proof -
  have "config_at pid w' a = config_at pid w a \<and> provider_at pid w' a = provider_at pid w a \<and>
    bond_at pid w' a = bond_at pid w a \<and> job_at pid w' a = job_at pid w a \<and>
    challenge_at pid w' a = challenge_at pid w a" for a
  proof (cases "acct_owner (w_accounts w a) = pid")
    case True
    then show ?thesis using assms by (simp add: others_step_def stored_at_cong)
  next
    case False
    then show ?thesis
    proof (cases "acct_owner (w_accounts w' a) = pid")
      case True
      with False assms have "zeroed (acct_data (w_accounts w' a))" by (simp add: others_step_def)
      from zeroed_no_record [OF this] False show ?thesis by (simp add: stored_at_other_owner)
    qed (simp add: stored_at_other_owner False)
  qed
  then show "config_at pid w' = config_at pid w" "provider_at pid w' = provider_at pid w"
    "bond_at pid w' = bond_at pid w" "job_at pid w' = job_at pid w" "challenge_at pid w' = challenge_at pid w"
    by (simp_all add: fun_eq_iff)
qed

lemma history_reachable:
  assumes D: "deployment rt pid" and h: "history rt pid w"
  shows "reachable rt pid (ledger_of rt pid w)"
  using h
proof (induction rule: history.induct)
  case (genesis w)
  have "vacant (ledger_of rt pid w) a" for a
    using genesis [of a] zeroed_no_record [of w a pid]
    by (cases "acct_owner (w_accounts w a) = pid") (simp_all add: vacant_def stored_at_other_owner)
  then show ?case by (rule reachable.start)
next
  case (call w accounts data w')
  then show ?case
    using process_refines [OF D, of accounts data w w']
    by (auto simp: process_instruction_def intro: reachable.instruction)
next
  case (others w w')
  then have "env_step rt pid (ledger_of rt pid w) (ledger_of rt pid w')"
    using others_step_records [OF others.hyps(2)] by (simp add: env_step_def others_step_def)
  with others.IH show ?case by (rule reachable.environment)
qed

lemma history_invariants:
  assumes "deployment rt pid" "history rt pid w"
  shows "placed rt pid (ledger_of rt pid w)" "keys_ok rt pid (ledger_of rt pid w)"
    "terms_ok rt pid (ledger_of rt pid w)" "challenges_ok rt pid (ledger_of rt pid w)"
    "locks_ok rt pid (ledger_of rt pid w)" "solvent rt pid (ledger_of rt pid w)"
  using placed.holds_on_runs keys.holds_on_runs terms.holds_on_runs challenges.holds_on_runs
    locks.holds_on_runs solvency.holds_on_runs assms(1) history_reachable [OF assms] by blast+

section \<open>What an instruction does to a job\<close>

text \<open>The terms a job was created with.\<close>

definition same_terms :: "JobAccount \<Rightarrow> JobAccount \<Rightarrow> bool" where
  "same_terms j j' \<longleftrightarrow>
     j' = j\<lparr>job_state := job_state j', job_locked_bond := job_locked_bond j', job_receipt_digest := job_receipt_digest j'\<rparr>"

lemma same_terms_refl [simp]: "same_terms j j"
  by (simp add: same_terms_def)

lemma job_step:
  assumes "protocol_step rt pid S L L'" "l_job L a = Some j"
  shows "l_job L' a = None \<and> is_terminal (job_state j) \<or>
    (\<exists>j'. l_job L' a = Some j' \<and> same_terms j j' \<and> (j' = j \<or> transition_allowed (job_state j) (job_state j')))"
  using assms by (cases rule: protocol_step.cases) (auto simp: same_terms_def vacant_def)

section \<open>The supply of a mint\<close>

fun units_of :: "address \<Rightarrow> token_state option \<Rightarrow> nat" where
  "units_of mint None = 0"
| "units_of mint (Some t) = (if token_mint t = mint then unat (token_amount_of t) else 0)"

definition total_supply :: "(address \<Rightarrow> token_state option) \<Rightarrow> address \<Rightarrow> nat" where
  "total_supply T mint = (\<Sum>a\<in>UNIV. units_of mint (T a))"

lemma supply_upd: "total_supply (T(a := x)) m + units_of m (T a) = total_supply T m + units_of m x"
proof -
  have "(\<Sum>k\<in>UNIV - {a}. units_of m ((T(a := x)) k)) = (\<Sum>k\<in>UNIV - {a}. units_of m (T k))"
    by (rule sum.cong) auto
  then show ?thesis
    unfolding total_supply_def
    using sum.remove [of UNIV a "\<lambda>k. units_of m ((T(a := x)) k)"] sum.remove [of UNIV a "\<lambda>k. units_of m (T k)"]
    by simp
qed

lemma supply_move:
  assumes "can_move src dst n T"
  shows "total_supply (move_tokens src dst n T) m = total_supply T m"
proof (cases "src = dst")
  case False
  from assms obtain s d where sd: "T src = Some s" "T dst = Some d" "token_mint s = token_mint d"
    "n \<le> token_amount_of s" "unat (token_amount_of d) + unat n < 2 ^ 64"
    using False by (auto simp: can_move_def)
  let ?s = "s\<lparr>token_amount_of := token_amount_of s - n\<rparr>" and ?d = "d\<lparr>token_amount_of := token_amount_of d + n\<rparr>"
  have move: "move_tokens src dst n T = T(src \<mapsto> ?s, dst \<mapsto> ?d)"
    using False sd(1,2) by (simp add: move_tokens_def change_amount_def)
  have "unat (token_amount_of s - n) = unat (token_amount_of s) - unat n"
    "unat (token_amount_of d + n) = unat (token_amount_of d) + unat n" "unat n \<le> unat (token_amount_of s)"
    using sd(4,5) by (simp_all add: unat_sub unat_word_ariths word_le_nat_alt)
  then show ?thesis
    unfolding move using supply_upd [of T src "Some ?s" m] supply_upd [of "T(src \<mapsto> ?s)" dst "Some ?d" m] sd(1-3) False
    by (auto split: if_splits)
qed simp

lemma supply_close: "T a = Some t \<Longrightarrow> token_amount_of t = 0 \<Longrightarrow> total_supply (T(a := None)) m = total_supply T m"
  using supply_upd [of T a None m] by (auto split: if_splits)

lemma supply_step:
  assumes "protocol_step rt pid S L L'"
  shows "total_supply (l_token L') m = total_supply (l_token L) m"
  using assms
  by (cases rule: protocol_step.cases) (auto simp: supply_move supply_close pay_out_def can_pay_out_def)

end
