(* ===== verification/Sample_Runtime.thy ===== *)
theory Sample_Runtime
  imports Ledger
begin

text \<open>
  A concrete runtime: the library code the program calls, written out for a small deployment with
  one provider, one buyer, one mint and one job. It shows that the hypotheses of the development
  can hold together (\<open>sample_deployment\<close>), and the witnesses evaluate the handlers on it.

  Program addresses come from a table of seeds. A token account has the layout of the token
  program (mint, owner, amount, delegate tag, state byte), so that a transfer rewrites the amount
  in place. The Instructions sysvar holds the data of the preceding Ed25519 instruction.
\<close>

section \<open>Addresses\<close>

definition "PROGRAM = fill32 9"
definition "TOKEN = fill32 6"
definition "ADMIN = fill32 11"
definition "BUYER = fill32 12"
definition "PROVIDER = fill32 13"
definition "EXEC_KEY = fill32 14"
definition "MINT = fill32 15"
definition "GENESIS = fill32 16"
definition "SYSVAR = fill32 17"
definition "CONFIG_PDA = fill32 101"
definition "PROVIDER_PDA = fill32 102"
definition "BOND_PDA = fill32 103"
definition "JOB_PDA = fill32 104"
definition "CHALLENGE_PDA = fill32 105"
definition "ESCROW = fill32 106"
definition "VAULT = fill32 107"
definition "PROVIDER_ATA = fill32 108"
definition "BUYER_ATA = fill32 109"
definition "SYSTEM = fill32 0"

lemmas sample_addresses = PROGRAM_def TOKEN_def ADMIN_def BUYER_def PROVIDER_def EXEC_KEY_def MINT_def
  GENESIS_def SYSVAR_def CONFIG_PDA_def PROVIDER_PDA_def BOND_PDA_def JOB_PDA_def CHALLENGE_PDA_def
  ESCROW_def VAULT_def PROVIDER_ATA_def BUYER_ATA_def SYSTEM_def

definition pda_table :: "((bytes list \<times> address) \<times> address) list" where
  "pda_table =
     [((config_seed_parts, PROGRAM), CONFIG_PDA),
      ((provider_seed_parts PROVIDER, PROGRAM), PROVIDER_PDA),
      ((bond_seed_parts PROVIDER MINT, PROGRAM), BOND_PDA),
      ((job_seed_parts BUYER PROVIDER (job_nonce_le_bytes 1), PROGRAM), JOB_PDA),
      ((challenge_seed_parts JOB_PDA, PROGRAM), CHALLENGE_PDA),
      (([to_bytes JOB_PDA, to_bytes TOKEN, to_bytes MINT], ASSOCIATED_TOKEN_PROGRAM_ID), ESCROW),
      (([to_bytes BOND_PDA, to_bytes TOKEN, to_bytes MINT], ASSOCIATED_TOKEN_PROGRAM_ID), VAULT),
      (([to_bytes PROVIDER, to_bytes TOKEN, to_bytes MINT], ASSOCIATED_TOKEN_PROGRAM_ID), PROVIDER_ATA),
      (([to_bytes BUYER, to_bytes TOKEN, to_bytes MINT], ASSOCIATED_TOKEN_PROGRAM_ID), BUYER_ATA)]"

definition sample_find :: "bytes list \<Rightarrow> address \<Rightarrow> (address \<times> byte) option" where
  "sample_find seeds pid = map_option (\<lambda>a. (a, 255)) (map_of pda_table (seeds, pid))"

definition sample_create_address :: "bytes list \<Rightarrow> address \<Rightarrow> address option" where
  "sample_create_address seeds pid =
     (if seeds \<noteq> [] \<and> last seeds = [255] then map_of pda_table (butlast seeds, pid) else None)"

section \<open>Token accounts\<close>

definition sample_token :: "account \<Rightarrow> token_state option" where
  "sample_token x =
     (if acct_owner x = TOKEN \<and> length (acct_data x) = 165 \<and> acct_data x ! 108 \<noteq> 0
      then Some \<lparr>token_mint = array32 (seg 0 32 (acct_data x)), token_owner = array32 (seg 32 64 (acct_data x)),
        token_amount_of = from_le (seg 64 72 (acct_data x)), token_is_frozen = (acct_data x ! 108 = 2),
        token_has_delegate = (acct_data x ! 72 \<noteq> 0)\<rparr>
      else None)"

definition sample_mint :: "account \<Rightarrow> mint_state option" where
  "sample_mint x =
     (if acct_owner x = TOKEN \<and> length (acct_data x) = 82
      then Some \<lparr>mint_is_initialized = (acct_data x ! 45 = 1), mint_decimals_of = acct_data x ! 44\<rparr>
      else None)"

definition with_amount :: "u64 \<Rightarrow> account \<Rightarrow> account" where
  "with_amount n x = x\<lparr>acct_data := put 64 72 (le_bytes 8 n) (acct_data x)\<rparr>"

definition sample_transfer :: "AccountView \<Rightarrow> AccountView \<Rightarrow> AccountView \<Rightarrow> AccountView \<Rightarrow> u64 \<Rightarrow> byte \<Rightarrow>
    bytes list option \<Rightarrow> world \<Rightarrow> ProgramError + world" where
  "sample_transfer src mint dst auth amount decimals seeds w =
     (case (sample_token (acct w src), sample_token (acct w dst)) of
        (Some s, Some d) \<Rightarrow>
          if token_amount_of s < amount \<or> token_mint s \<noteq> token_mint d then Inl (LibraryError 1)
          else if view_address src = view_address dst then Inr w
          else (case checked_add (token_amount_of d) amount of
            None \<Rightarrow> Inl (LibraryError 2)
          | Some t \<Rightarrow> Inr (set_account (view_address dst) (with_amount t (acct w dst))
              (set_account (view_address src) (with_amount (token_amount_of s - amount) (acct w src)) w)))
      | _ \<Rightarrow> Inl (LibraryError 3))"

definition sample_close_token :: "AccountView \<Rightarrow> AccountView \<Rightarrow> AccountView \<Rightarrow> bytes list \<Rightarrow> world \<Rightarrow>
    ProgramError + world" where
  "sample_close_token v dst auth seeds w =
     (case sample_token (acct w v) of
        Some t \<Rightarrow>
          if token_amount_of t \<noteq> 0 \<or> view_address v = view_address dst then Inl (LibraryError 4)
          else Inr (set_account (view_address v) \<lparr>acct_lamports = 0, acct_owner = SYSTEM, acct_data = []\<rparr>
            (set_lamports dst (lamports dst w + lamports v w) w))
      | None \<Rightarrow> Inl (LibraryError 3))"

section \<open>System accounts\<close>

definition sample_create :: "AccountView \<Rightarrow> AccountView \<Rightarrow> u64 \<Rightarrow> nat \<Rightarrow> address \<Rightarrow> bytes list \<Rightarrow> world \<Rightarrow>
    ProgramError + world" where
  "sample_create payer v balance space owner seeds w =
     (if view_address payer = view_address v \<or> lamports payer w < balance then Inl (LibraryError 5)
      else Inr (set_account (view_address v)
        \<lparr>acct_lamports = balance, acct_owner = owner, acct_data = replicate space 0\<rparr>
        (set_lamports payer (lamports payer w - balance) w)))"

definition sample_close_view :: "AccountView \<Rightarrow> world \<Rightarrow> ProgramError + world" where
  "sample_close_view v w =
     Inr (set_account (view_address v) \<lparr>acct_lamports = 0, acct_owner = SYSTEM, acct_data = []\<rparr> w)"

definition sample_instructions :: "AccountView \<Rightarrow> world \<Rightarrow> instructions_sysvar option" where
  "sample_instructions v w =
     (if view_address v = SYSVAR
      then Some \<lparr>ixs_current_index = 1,
        ixs_relative = (\<lambda>i. if i = - 1 then Some (ED25519_PROGRAM_ID, acct_data (acct w v)) else None)\<rparr>
      else None)"

definition sample_runtime :: runtime where
  "sample_runtime =
     \<lparr>system_program_id = SYSTEM, token_program_id = TOKEN,
      create_program_address = sample_create_address, try_find_program_address = sample_find,
      mint_from_account = sample_mint, token_from_account = sample_token,
      minimum_balance = (\<lambda>w space. Some (of_nat (space + 128))),
      cpi_create_account = sample_create, cpi_transfer_checked = sample_transfer,
      cpi_close_account = sample_close_token, view_close = sample_close_view,
      instructions_from_view = sample_instructions, sha256 = (\<lambda>bs. array32 (drop 214 bs))\<rparr>"

lemma sample_runtime_simps [simp]:
  "system_program_id sample_runtime = SYSTEM" "token_program_id sample_runtime = TOKEN"
  "create_program_address sample_runtime = sample_create_address"
  "try_find_program_address sample_runtime = sample_find"
  "mint_from_account sample_runtime = sample_mint" "token_from_account sample_runtime = sample_token"
  "minimum_balance sample_runtime = (\<lambda>w space. Some (of_nat (space + 128)))"
  "cpi_create_account sample_runtime = sample_create"
  "cpi_transfer_checked sample_runtime = sample_transfer"
  "cpi_close_account sample_runtime = sample_close_token"
  "view_close sample_runtime = sample_close_view"
  "instructions_from_view sample_runtime = sample_instructions"
  "sha256 sample_runtime = (\<lambda>bs. array32 (drop 214 bs))"
  by (simp_all add: sample_runtime_def)

section \<open>The laws hold\<close>

lemma table_inj:
  assumes "distinct (map snd t)" "map_of t x = Some a" "map_of t y = Some a"
  shows "x = y"
  using assms by (metis distinct_map inj_on_def map_of_SomeD prod.inject snd_conv)

lemma pda_table_distinct: "distinct (map snd pda_table)"
  by (simp add: pda_table_def sample_addresses)

lemma sample_create_address_eq_Some:
  "sample_create_address s p = Some a \<longleftrightarrow> (\<exists>t. s = t @ [[255]] \<and> map_of pda_table (t, p) = Some a)"
  by (cases s rule: rev_cases) (auto simp: sample_create_address_def)

lemma sample_pda: "pda_law sample_runtime"
proof -
  have "concat s = concat s' \<and> p = p'"
    if "sample_create_address s p = Some a" "sample_create_address s' p' = Some a" for s s' p p' a
  proof -
    from that obtain t t' where t: "s = t @ [[255]]" "map_of pda_table (t, p) = Some a"
      "s' = t' @ [[255]]" "map_of pda_table (t', p') = Some a"
      unfolding sample_create_address_eq_Some by blast
    from table_inj [OF pda_table_distinct t(2,4)] t(1,3) show ?thesis by simp
  qed
  moreover have "sample_create_address (s @ [[bump]]) p = Some a" if "sample_find s p = Some (a, bump)" for s p a bump
    using that by (simp add: sample_find_def sample_create_address_eq_Some)
  ultimately show ?thesis unfolding pda_law_def sample_runtime_simps by blast
qed

lemma sample_tokens: "token_state_law sample_runtime"
  by (auto simp: token_state_law_def sample_token_def split: if_splits)

lemma sample_token_with_amount:
  assumes "sample_token x = Some t"
  shows "sample_token (with_amount n x) = Some (t\<lparr>token_amount_of := n\<rparr>)"
  using assms by (auto simp: sample_token_def with_amount_def layout split: if_splits)

lemma sample_token_owner: "sample_token x = Some t \<Longrightarrow> acct_owner x = TOKEN"
  by (simp add: sample_token_def split: if_splits)

lemma sample_transfer_law: "transfer_law sample_runtime"
  unfolding transfer_law_def
proof (intro allI impI)
  fix src mint dst auth amount decimals seeds w w'
  assume "cpi_transfer_checked sample_runtime src mint dst auth amount decimals seeds w = Inr w'"
  then obtain s d where t: "sample_token (acct w src) = Some s" "sample_token (acct w dst) = Some d"
    "token_mint s = token_mint d" "amount \<le> token_amount_of s" and
    w': "if view_address src = view_address dst then w' = w
      else (\<exists>t. unat t = unat (token_amount_of d) + unat amount \<and>
        w' = set_account (view_address dst) (with_amount t (acct w dst))
          (set_account (view_address src) (with_amount (token_amount_of s - amount) (acct w src)) w))"
    by (auto simp: sample_transfer_def not_less result_inv split: option.splits if_splits)
  have amount: "t = token_amount_of d + amount" "unat (token_amount_of d) + unat amount < 2 ^ 64"
    if "unat t = unat (token_amount_of d) + unat amount" for t
    using that unat_u64_less [of t] by (auto simp: word_unat_eq_iff unat_word_ariths)
  have delegate: "\<exists>del. (del \<longrightarrow> token_has_delegate s) \<and> s\<lparr>token_amount_of := n\<rparr> = s\<lparr>token_amount_of := n, token_has_delegate := del\<rparr>" for n
    by (rule exI [of _ "token_has_delegate s"]) simp
  show "same_except {view_address src, view_address dst} w w' \<and>
    acct_owner (acct w' src) = token_program_id sample_runtime \<and>
    acct_owner (acct w' dst) = token_program_id sample_runtime \<and>
    (\<exists>s d. token_at sample_runtime w (view_address src) = Some s \<and>
       token_at sample_runtime w (view_address dst) = Some d \<and> token_mint s = token_mint d \<and> amount \<le> token_amount_of s \<and>
       (if view_address src = view_address dst then token_at sample_runtime w' (view_address src) = Some s
        else unat (token_amount_of d) + unat amount < 2 ^ 64 \<and>
          (\<exists>del. (del \<longrightarrow> token_has_delegate s) \<and> token_at sample_runtime w' (view_address src) =
             Some (s\<lparr>token_amount_of := token_amount_of s - amount, token_has_delegate := del\<rparr>)) \<and>
          token_at sample_runtime w' (view_address dst) = Some (d\<lparr>token_amount_of := token_amount_of d + amount\<rparr>)))"
    using t w' amount sample_token_with_amount [OF t(1)] sample_token_with_amount [OF t(2)]
      sample_token_owner [OF t(1)] sample_token_owner [OF t(2)] delegate
    by (auto simp: same_except_def with_amount_def split: if_splits)
qed

lemma sample_create_law: "create_law sample_runtime"
  by (auto simp: create_law_def sample_create_def same_except_def w_accounts_set_lamports split: if_splits)

lemma sample_close_token_law: "close_token_law sample_runtime"
  by (auto simp: close_token_law_def sample_close_token_def same_except_def w_accounts_set_lamports
      sample_token_def split: option.splits if_splits)

lemma sample_close_view_law: "close_view_law sample_runtime"
  by (auto simp: close_view_law_def sample_close_view_def same_except_def)

lemma sample_deployment [simp]: "deployment sample_runtime PROGRAM"
  by (simp add: deployment_def sample_pda sample_tokens sample_transfer_law sample_create_law
      sample_close_token_law sample_close_view_law sample_addresses)

end
