(* ===== verification/Sample_World.thy ===== *)
theory Sample_World
  imports History Sample_Runtime
begin

text \<open>
  Concrete worlds for the sample runtime and concrete runs of the handlers on them. \<open>stage s k e now\<close>
  is the chain with the job in state \<open>s\<close>, \<open>k\<close> of the bond locked for it, \<open>e\<close> tokens in its escrow and
  the clock at \<open>now\<close>; every run below is evaluated by the simplifier from the handler's definition.
\<close>

section \<open>Accounts\<close>

definition program_account :: "bytes \<Rightarrow> account" where
  "program_account d = \<lparr>acct_lamports = 1000, acct_owner = PROGRAM, acct_data = d\<rparr>"

definition token_account :: "address \<Rightarrow> u64 \<Rightarrow> account" where
  "token_account owner n = \<lparr>acct_lamports = 1000, acct_owner = TOKEN,
     acct_data = put 64 72 (le_bytes 8 n) (to_bytes MINT @ to_bytes owner @ replicate 44 0 @ [1] @ replicate 56 0)\<rparr>"

definition mint_account :: account where
  "mint_account = \<lparr>acct_lamports = 1000, acct_owner = TOKEN, acct_data = replicate 44 0 @ [6, 1] @ replicate 36 0\<rparr>"

definition wallet :: account where
  "wallet = \<lparr>acct_lamports = 1000000, acct_owner = SYSTEM, acct_data = []\<rparr>"

definition unused :: account where
  "unused = \<lparr>acct_lamports = 0, acct_owner = SYSTEM, acct_data = []\<rparr>"

definition sample_config :: ConfigAccount where
  "sample_config = \<lparr>config_bump = 255, config_paused = False, config_admin = ADMIN,
     config_genesis_hash = GENESIS, config_allowed_mint = MINT, config_token_program = TOKEN,
     config_mint_decimals = 6, config_min_provider_bond = 50, config_challenge_duration_seconds = 60\<rparr>"

definition sample_provider :: ProviderAccount where
  "sample_provider = \<lparr>provider_bump = 255, provider_status = PROVIDER_STATUS_ACTIVE,
     provider_authority = PROVIDER, provider_execution_key_count = 1,
     provider_execution_keys = [EXEC_KEY, fill32 0, fill32 0, fill32 0]\<rparr>"

definition sample_bond :: "u64 \<Rightarrow> ProviderBondAccount" where
  "sample_bond k = \<lparr>bond_bump = 255, bond_provider = PROVIDER, bond_mint = MINT,
     bond_token_program = TOKEN, bond_deposited = 500, bond_locked = k\<rparr>"

definition sample_job :: "JobState \<Rightarrow> u64 \<Rightarrow> JobAccount" where
  "sample_job s k = \<lparr>job_bump = 255, job_state = s, job_buyer = BUYER, job_provider = PROVIDER,
     job_mint = MINT, job_token_program = TOKEN, job_amount = 100, job_nonce = 1,
     job_fund_deadline = 100, job_accept_deadline = 200, job_work_deadline = 300,
     job_auto_settle_deadline = 400, job_receipt_digest = fill32 0, job_request_hash = fill32 7,
     job_locked_bond = k, job_mint_decimals = 6\<rparr>"

definition sample_challenge :: ChallengeAccount where
  "sample_challenge = \<lparr>challenge_bump = 255, challenge_status = STATUS_OPEN, challenge_job = JOB_PDA,
     challenge_buyer = BUYER, challenge_reason_hash = fill32 8, challenge_bond_amount = 0,
     challenge_deadline = 410\<rparr>"

definition sample_receipt :: AgentBondWorkReceiptV1 where
  "sample_receipt = \<lparr>receipt_program_id = PROGRAM, receipt_genesis_hash = GENESIS, receipt_job = JOB_PDA,
     receipt_buyer = BUYER, receipt_provider = PROVIDER, receipt_request_hash = fill32 7,
     receipt_result_hash = fill32 21, receipt_artifact_hash = fill32 22, receipt_software_hash = fill32 23,
     receipt_job_nonce = 1, receipt_created_at = 210, receipt_expires_at = 390\<rparr>"

text \<open>The precompile's data for one signature by the execution key over the receipt: count, padding,
  the offsets, the key, a signature and the message.\<close>

definition sample_ed25519 :: bytes where
  "sample_ed25519 = [1, 0] @ [48, 0, 255, 255, 16, 0, 255, 255, 112, 0, 78, 1, 255, 255] @
     to_bytes EXEC_KEY @ replicate 64 3 @ projr (receipt_encode sample_receipt)"

definition world_of :: "(address \<times> account) list \<Rightarrow> i64 \<Rightarrow> world" where
  "world_of xs now =
     \<lparr>w_accounts = (\<lambda>a. case map_of xs a of Some x \<Rightarrow> x | None \<Rightarrow> unused), w_logs = [], w_clock = Some now\<rparr>"

definition base_accounts :: "(address \<times> account) list" where
  "base_accounts =
     [(VAULT, token_account BOND_PDA 500), (PROVIDER_ATA, token_account PROVIDER 1000),
      (BUYER_ATA, token_account BUYER 1000), (MINT, mint_account), (ADMIN, wallet), (BUYER, wallet),
      (PROVIDER, wallet), (SYSVAR, \<lparr>acct_lamports = 0, acct_owner = SYSTEM, acct_data = sample_ed25519\<rparr>)]"

definition stage :: "JobState \<Rightarrow> u64 \<Rightarrow> u64 \<Rightarrow> i64 \<Rightarrow> world" where
  "stage s k e now = world_of
     ([(CONFIG_PDA, program_account (config_encode sample_config)),
       (PROVIDER_PDA, program_account (projr (provider_encode sample_provider))),
       (BOND_PDA, program_account (projr (bond_encode (sample_bond k)))),
       (JOB_PDA, program_account (job_encode (sample_job s k))),
       (ESCROW, token_account JOB_PDA e)] @
      (if s = Challenged then [(CHALLENGE_PDA, program_account (projr (challenge_encode sample_challenge)))] else []) @
      base_accounts) now"

definition view :: "bool \<Rightarrow> bool \<Rightarrow> address \<Rightarrow> AccountView" where
  "view signer writable a = \<lparr>view_address = a, view_is_signer = signer, view_is_writable = writable\<rparr>"

lemma view_simps [simp]:
  "view_address (view s m a) = a" "view_is_signer (view s m a) = s" "view_is_writable (view s m a) = m"
  by (simp_all add: view_def)

section \<open>Reading the sample accounts\<close>

lemma addresses_apart:
  "distinct [CONFIG_PDA, PROVIDER_PDA, BOND_PDA, JOB_PDA, CHALLENGE_PDA, ESCROW, VAULT, PROVIDER_ATA, BUYER_ATA,
     MINT, ADMIN, BUYER, PROVIDER, SYSVAR, TOKEN, SYSTEM, PROGRAM]"
  "distinct [PROGRAM, SYSTEM, TOKEN, SYSVAR, PROVIDER, BUYER, ADMIN, MINT,
     BUYER_ATA, PROVIDER_ATA, VAULT, ESCROW, CHALLENGE_PDA, JOB_PDA, BOND_PDA, PROVIDER_PDA, CONFIG_PDA]"
  by (simp_all add: sample_addresses)

lemmas addresses_apart_simps [simp] = addresses_apart [simplified]

lemma not_zero [simp]: "MINT \<noteq> fill32 0" "GENESIS \<noteq> fill32 0" "EXEC_KEY \<noteq> fill32 0"
  by (simp_all add: sample_addresses)

lemma token_not_2022 [simp]: "TOKEN \<noteq> TOKEN_2022_PROGRAM_ID"
proof
  assume "TOKEN = TOKEN_2022_PROGRAM_ID"
  then have "to_bytes TOKEN ! 1 = to_bytes TOKEN_2022_PROGRAM_ID ! 1" by simp
  then show False by (simp add: TOKEN_def TOKEN_2022_PROGRAM_ID_def)
qed

lemma token_account_read [simp]:
  "sample_token (token_account owner n) = Some \<lparr>token_mint = MINT, token_owner = owner, token_amount_of = n,
     token_is_frozen = False, token_has_delegate = False\<rparr>"
  by (simp add: sample_token_def token_account_def layout nth_append) (simp add: seg_def)

lemma with_amount_token_account [simp]: "with_amount m (token_account owner n) = token_account owner m"
  by (simp add: with_amount_def token_account_def put_def)

lemma mint_account_read [simp]:
  "sample_mint mint_account = Some \<lparr>mint_is_initialized = True, mint_decimals_of = 6\<rparr>"
  by (simp add: sample_mint_def mint_account_def nth_append)

lemma token_account_fields [simp]:
  "acct_owner (token_account owner n) = TOKEN" "acct_owner mint_account = TOKEN"
  "acct_owner (program_account d) = PROGRAM" "acct_data (program_account d) = d"
  "acct_owner unused = SYSTEM" "acct_data unused = []" "acct_owner wallet = SYSTEM" "acct_lamports wallet = 1000000"
  by (simp_all add: token_account_def mint_account_def program_account_def unused_def wallet_def)

lemma sample_records_ok [simp]: "provider_ok sample_provider" "k \<le> 500 \<Longrightarrow> bond_ok (sample_bond k)"
  "challenge_ok sample_challenge" "receipt_ok sample_receipt"
  by (simp_all add: provider_ok_def sample_provider_def bond_ok_def sample_bond_def challenge_ok_def
      sample_challenge_def receipt_ok_def sample_receipt_def)

lemma encoded_records [simp]:
  "provider_decode (projr (provider_encode sample_provider)) = Inr sample_provider"
  "k \<le> 500 \<Longrightarrow> bond_decode (projr (bond_encode (sample_bond k))) = Inr (sample_bond k)"
  "challenge_decode (projr (challenge_encode sample_challenge)) = Inr sample_challenge"
  using provider.encode_ok provider_decode_encode bond.encode_ok bond_decode_encode challenge.encode_ok
    challenge_decode_encode sample_records_ok
  by (metis sum.sel(2))+

section \<open>Looking accounts up in a stage\<close>

lemma stage_clock [simp]: "w_clock (stage s k e now) = Some now"
  by (simp add: stage_def world_of_def)

lemma stage_accounts [simp]:
  "w_accounts (stage s k e now) CONFIG_PDA = program_account (config_encode sample_config)"
  "w_accounts (stage s k e now) PROVIDER_PDA = program_account (projr (provider_encode sample_provider))"
  "w_accounts (stage s k e now) BOND_PDA = program_account (projr (bond_encode (sample_bond k)))"
  "w_accounts (stage s k e now) JOB_PDA = program_account (job_encode (sample_job s k))"
  "w_accounts (stage s k e now) ESCROW = token_account JOB_PDA e"
  "w_accounts (stage s k e now) VAULT = token_account BOND_PDA 500"
  "w_accounts (stage s k e now) PROVIDER_ATA = token_account PROVIDER 1000"
  "w_accounts (stage s k e now) BUYER_ATA = token_account BUYER 1000"
  "w_accounts (stage s k e now) MINT = mint_account"
  "w_accounts (stage s k e now) ADMIN = wallet"
  "w_accounts (stage s k e now) BUYER = wallet"
  "w_accounts (stage s k e now) PROVIDER = wallet"
  "w_accounts (stage Challenged k e now) CHALLENGE_PDA = program_account (projr (challenge_encode sample_challenge))"
  "s \<noteq> Challenged \<Longrightarrow> w_accounts (stage s k e now) CHALLENGE_PDA = unused"
  "w_accounts (stage s k e now) SYSVAR = \<lparr>acct_lamports = 0, acct_owner = SYSTEM, acct_data = sample_ed25519\<rparr>"
  by (simp_all add: stage_def world_of_def base_accounts_def sample_addresses)

lemma stage_records [simp]:
  "config_at PROGRAM (stage s k e now) CONFIG_PDA = Some sample_config"
  "provider_at PROGRAM (stage s k e now) PROVIDER_PDA = Some sample_provider"
  "k \<le> 500 \<Longrightarrow> bond_at PROGRAM (stage s k e now) BOND_PDA = Some (sample_bond k)"
  "job_at PROGRAM (stage s k e now) JOB_PDA = Some (sample_job s k)"
  "challenge_at PROGRAM (stage Challenged k e now) CHALLENGE_PDA = Some sample_challenge"
  by (simp_all add: stored_at_def)

lemma seed_facts [simp]:
  "sample_create_address (config_seed_parts @ [[255]]) PROGRAM = Some CONFIG_PDA"
  "sample_create_address (provider_seed_parts PROVIDER @ [[255]]) PROGRAM = Some PROVIDER_PDA"
  "sample_create_address (bond_seed_parts PROVIDER MINT @ [[255]]) PROGRAM = Some BOND_PDA"
  "sample_create_address (job_seed_parts BUYER PROVIDER (job_nonce_le_bytes 1) @ [[255]]) PROGRAM = Some JOB_PDA"
  "sample_create_address (challenge_seed_parts JOB_PDA @ [[255]]) PROGRAM = Some CHALLENGE_PDA"
  "sample_find config_seed_parts PROGRAM = Some (CONFIG_PDA, 255)"
  "sample_find (provider_seed_parts PROVIDER) PROGRAM = Some (PROVIDER_PDA, 255)"
  "sample_find (bond_seed_parts PROVIDER MINT) PROGRAM = Some (BOND_PDA, 255)"
  "sample_find (job_seed_parts BUYER PROVIDER (job_nonce_le_bytes 1)) PROGRAM = Some (JOB_PDA, 255)"
  "sample_find (challenge_seed_parts JOB_PDA) PROGRAM = Some (CHALLENGE_PDA, 255)"
  by (simp_all add: sample_create_address_eq_Some sample_find_def pda_table_def config_seed_parts_def
      provider_seed_parts_def bond_seed_parts_def job_seed_parts_def challenge_seed_parts_def
      to_bytes_inject sample_addresses CHALLENGE_SEED_def PROVIDER_SEED_def byte_string_def)

lemma ata_facts [simp]:
  "ata sample_runtime JOB_PDA MINT = Some ESCROW" "ata sample_runtime BOND_PDA MINT = Some VAULT"
  "ata sample_runtime PROVIDER MINT = Some PROVIDER_ATA" "ata sample_runtime BUYER MINT = Some BUYER_ATA"
  by (simp_all add: ata_def sample_find_def pda_table_def config_seed_parts_def
      provider_seed_parts_def bond_seed_parts_def job_seed_parts_def challenge_seed_parts_def
      to_bytes_inject sample_addresses)

lemma derived_facts [simp]:
  "config_derived sample_runtime PROGRAM CONFIG_PDA sample_config"
  "provider_derived sample_runtime PROGRAM PROVIDER_PDA sample_provider"
  "bond_derived sample_runtime PROGRAM BOND_PDA (sample_bond k)"
  "job_derived sample_runtime PROGRAM JOB_PDA (sample_job s k)"
  "challenge_derived sample_runtime PROGRAM CHALLENGE_PDA JOB_PDA sample_challenge"
  by (simp_all add: config_derived_def provider_derived_def bond_derived_def job_derived_def
      challenge_derived_def sample_config_def sample_provider_def sample_bond_def sample_job_def sample_challenge_def)

section \<open>Runs\<close>

text \<open>A loaded record is the stored one.\<close>

lemma load_facts:
  "config_at pid w (view_address v) = Some c \<Longrightarrow> config_derived rt pid (view_address v) c \<Longrightarrow>
     load_validated_config rt pid v w = Inr c"
  "provider_at pid w (view_address v) = Some p \<Longrightarrow> provider_derived rt pid (view_address v) p \<Longrightarrow>
     load_validated_provider rt pid v w = Inr p"
  "bond_at pid w (view_address v) = Some b \<Longrightarrow> bond_derived rt pid (view_address v) b \<Longrightarrow>
     load_validated_bond rt pid v w = Inr b"
  "job_at pid w (view_address v) = Some j \<Longrightarrow> job_derived rt pid (view_address v) j \<Longrightarrow>
     load_validated_job rt pid v w = Inr j"
  by (simp_all add: load_validated_config_eq_Inr load_validated_provider_eq_Inr load_validated_bond_eq_Inr
      load_validated_job_eq_Inr)

lemma token_facts:
  "ata rt a m = Some (view_address v) \<Longrightarrow> validate_token_account rt v m a w = Inr n \<Longrightarrow> validate_ata rt v a m w = Inr n"
  "w_accounts w (view_address v) = token_account a n \<Longrightarrow> validate_token_account sample_runtime v MINT a w = Inr n"
  "w_accounts w (view_address v) = token_account a n \<Longrightarrow> token_amount sample_runtime v w = Inr n"
  "view_address v = MINT \<Longrightarrow> w_accounts w MINT = mint_account \<Longrightarrow> validate_mint sample_runtime v MINT 6 w = Inr ()"
  by (simp_all add: validate_ata_eq_Inr validate_token_account_eq_Inr token_amount_eq_Inr validate_mint_eq_Inr
      owned_by_def plain_token_def)

lemma save_fact: "view_is_writable v \<Longrightarrow> data_len v w = JOB_ACCOUNT_LEN \<Longrightarrow> save_job v j w = Inr (set_data v (job_encode j) w)"
  by (simp add: save_job_def write_account_data_def require_writable_def)

lemmas checks = next_account_def require_signer_def require_writable_def require_readonly_def
  require_legacy_token_program_def require_not_paused_def now_ts_def load_validated_config_readonly_def
  data_len_def owned_by_def transfer_checked_def transition_job_def validate_transition_def emit_def

lemmas sample_fields = sample_config_def sample_provider_def sample_bond_def sample_job_def sample_challenge_def

lemma sample_config_fields [simp]:
  "\<not> config_paused sample_config" "config_admin sample_config = ADMIN" "config_token_program sample_config = TOKEN"
  "config_allowed_mint sample_config = MINT" "config_mint_decimals sample_config = 6"
  "config_min_provider_bond sample_config = 50" "config_challenge_duration_seconds sample_config = 60"
  "config_genesis_hash sample_config = GENESIS"
  by (simp_all add: sample_config_def)

lemma sample_job_fields [simp]:
  "job_state (sample_job s k) = s" "job_buyer (sample_job s k) = BUYER" "job_provider (sample_job s k) = PROVIDER"
  "job_mint (sample_job s k) = MINT" "job_token_program (sample_job s k) = TOKEN" "job_amount (sample_job s k) = 100"
  "job_fund_deadline (sample_job s k) = 100" "job_accept_deadline (sample_job s k) = 200"
  "job_work_deadline (sample_job s k) = 300" "job_auto_settle_deadline (sample_job s k) = 400"
  "job_request_hash (sample_job s k) = fill32 7" "job_locked_bond (sample_job s k) = k" "job_nonce (sample_job s k) = 1"
  "job_mint_decimals (sample_job s k) = 6" "(sample_job s k)\<lparr>job_state := t\<rparr> = sample_job t k"
  "(sample_job s k)\<lparr>job_locked_bond := m\<rparr> = sample_job s m"
  by (simp_all add: sample_job_def)

definition fund_accounts :: "AccountView list" where
  "fund_accounts = [view True True BUYER, view False False CONFIG_PDA, view False True JOB_PDA,
     view False True BUYER_ATA, view False True ESCROW, view False False MINT, view False False TOKEN]"

lemma fund_runs: "\<exists>w'. process_fund_job sample_runtime PROGRAM fund_accounts (stage Created 0 0 50) = Inr w'"
  by (simp add: process_fund_job_def fund_accounts_def checks load_facts token_facts sample_transfer_def
      checked_add_def save_fact)

definition accept_work_accounts :: "AccountView list" where
  "accept_work_accounts = [view True True BUYER, view False True JOB_PDA, view False True BOND_PDA,
     view False True ESCROW, view False True PROVIDER_ATA, view False True BUYER_ATA, view False False MINT,
     view False False TOKEN]"

lemma save_bond_fact:
  "view_is_writable v \<Longrightarrow> data_len v w = PROVIDER_BOND_ACCOUNT_LEN \<Longrightarrow> bond_ok b \<Longrightarrow>
   save_bond v b w = Inr (set_data v (projr (bond_encode b)) w)"
  using bond.encode_ok bond.encode_len
  by (fastforce simp: save_bond_def write_account_data_def require_writable_def)

lemma bond_len [simp]: "k \<le> 500 \<Longrightarrow> length (projr (bond_encode (sample_bond k))) = PROVIDER_BOND_ACCOUNT_LEN"
  using encoded_records(2) bond.decode_Inr_len by blast

lemma accept_work_runs:
  "\<exists>w'. process_accept_work sample_runtime PROGRAM accept_work_accounts (stage Submitted 50 130 350) = Inr w'"
  apply (simp add: process_accept_work_def accept_work_accounts_def checks load_facts)
  apply (simp add: sample_fields token_facts return_surplus_to_buyer_def parse_token_account_def checks
     sample_transfer_def checked_add_def checked_sub_def address_from_bytes_def Let_def unlock_job_bond_def)
  apply (simp add: save_bond_fact bond_ok_def data_len_def token_facts save_fact w_accounts_set_data)
  done

section \<open>A history\<close>

text \<open>From a chain without program accounts: the administrator initialises the protocol, the provider
  registers, the buyer creates a job and funds it.\<close>

lemma parse_encoded: "instruction_ok i \<Longrightarrow> parse_instruction (projr (encode_instruction i)) = Inr i"
  using encode_instruction_ok parse_encode by (metis sum.sel(2))

definition init_payload :: InitializeConfigPayload where
  "init_payload = \<lparr>icp_genesis_hash = GENESIS, icp_allowed_mint = MINT, icp_token_program = TOKEN,
     icp_mint_decimals = 6, icp_min_provider_bond = 50, icp_challenge_duration_seconds = 60\<rparr>"

definition sample_job_payload :: CreateJobPayload where
  "sample_job_payload = \<lparr>cjp_job_nonce = 1, cjp_amount = 100, cjp_request_hash = fill32 7, cjp_fund_deadline = 100, cjp_accept_deadline = 200,
     cjp_work_deadline = 300, cjp_auto_settle_deadline = 400\<rparr>"

definition day0 :: world where
  "day0 = world_of ((ESCROW, token_account JOB_PDA 0) # base_accounts) 50"

definition init_accounts :: "AccountView list" where
  "init_accounts = [view True True ADMIN, view False True CONFIG_PDA, view False False SYSTEM]"

definition day1 :: world where
  "day1 = projr (process_initialize_config sample_runtime PROGRAM init_accounts init_payload day0)"

lemma day0_accounts [simp]:
  "w_accounts day0 CONFIG_PDA = unused" "w_accounts day0 PROVIDER_PDA = unused" "w_accounts day0 JOB_PDA = unused"
  "w_accounts day0 ESCROW = token_account JOB_PDA 0" "w_accounts day0 BUYER_ATA = token_account BUYER 1000"
  "w_accounts day0 MINT = mint_account" "w_accounts day0 ADMIN = wallet" "w_accounts day0 BUYER = wallet"
  "w_accounts day0 PROVIDER = wallet" "w_clock day0 = Some 50"
  by (simp_all add: day0_def world_of_def base_accounts_def)

lemma seed_forms: "[CONFIG_SEED] = config_seed_parts" "[PROVIDER_SEED, to_bytes a] = provider_seed_parts a"
  "[JOB_SEED, to_bytes a, to_bytes b, le_bytes 8 n] = job_seed_parts a b (job_nonce_le_bytes n)"
  by (simp_all add: config_seed_parts_def provider_seed_parts_def job_seed_parts_def job_nonce_le_bytes_def)

lemmas create_checks = checks require_system_program_def require_legacy_token_program_id_def
  require_uninitialized_def create_pda_account_def seed_forms is_data_empty_def sample_create_def
  write_account_data_def w_accounts_set_lamports lamports_def w_accounts_set_data word_sle_eq word_sless_alt

lemma init_runs:
  "process_initialize_config sample_runtime PROGRAM init_accounts init_payload day0 = Inr day1"
  "w_clock day1 = Some 50"
  "w_accounts day1 = (w_accounts day0)(ADMIN := wallet\<lparr>acct_lamports := 999723\<rparr>,
     CONFIG_PDA := \<lparr>acct_lamports = 277, acct_owner = PROGRAM, acct_data = config_encode sample_config\<rparr>)"
  by (simp_all add: day1_def process_initialize_config_def init_accounts_def init_payload_def create_checks
      save_config_def sample_config_def)

definition register_accounts :: "AccountView list" where
  "register_accounts = [view True True PROVIDER, view False False CONFIG_PDA, view False True PROVIDER_PDA,
     view False False SYSTEM]"

definition day2 :: world where
  "day2 = projr (process_register_provider sample_runtime PROGRAM register_accounts day1)"

definition new_sample_provider :: ProviderAccount where
  "new_sample_provider = \<lparr>provider_bump = 255, provider_status = PROVIDER_STATUS_ACTIVE,
     provider_authority = PROVIDER, provider_execution_key_count = 0,
     provider_execution_keys = replicate MAX_EXECUTION_KEYS (fill32 0)\<rparr>"

definition new_provider_bytes :: bytes where
  "new_provider_bytes = projr (provider_encode new_sample_provider)"

lemma new_provider_encoded:
  "provider_encode new_sample_provider = Inr new_provider_bytes"
  "provider_decode new_provider_bytes = Inr new_sample_provider"
  "length new_provider_bytes = PROVIDER_ACCOUNT_LEN"
  "provider_derived sample_runtime PROGRAM PROVIDER_PDA new_sample_provider"
proof -
  have ok: "provider_ok new_sample_provider" by (simp add: provider_ok_def new_sample_provider_def)
  then obtain d where d: "provider_encode new_sample_provider = Inr d" using provider.encode_ok by blast
  with ok show "provider_encode new_sample_provider = Inr new_provider_bytes"
    "provider_decode new_provider_bytes = Inr new_sample_provider"
    "length new_provider_bytes = PROVIDER_ACCOUNT_LEN"
    using provider_decode_encode provider.encode_len by (auto simp: new_provider_bytes_def)
qed (simp add: provider_derived_def new_sample_provider_def)

lemma config_day1 [simp]: "config_at PROGRAM day1 CONFIG_PDA = Some sample_config"
  by (simp add: stored_at_def init_runs)

lemma register_runs:
  "process_register_provider sample_runtime PROGRAM register_accounts day1 = Inr day2"
  "w_clock day2 = Some 50"
  "w_accounts day2 = (w_accounts day1)(PROVIDER := wallet\<lparr>acct_lamports := 999707\<rparr>,
     PROVIDER_PDA := \<lparr>acct_lamports = 293, acct_owner = PROGRAM, acct_data = new_provider_bytes\<rparr>)"
  by (simp_all add: day2_def process_register_provider_def register_accounts_def create_checks init_runs
      load_facts save_provider_def new_sample_provider_def [symmetric] new_provider_encoded)

definition create_accounts :: "AccountView list" where
  "create_accounts = [view True True BUYER, view False False CONFIG_PDA, view False False PROVIDER_PDA,
     view False True JOB_PDA, view False False SYSTEM]"

definition day3 :: world where
  "day3 = projr (process_create_job sample_runtime PROGRAM create_accounts sample_job_payload day2)"

lemma records_day2 [simp]:
  "config_at PROGRAM day2 CONFIG_PDA = Some sample_config"
  "provider_at PROGRAM day2 PROVIDER_PDA = Some new_sample_provider"
  by (simp_all add: stored_at_def init_runs register_runs new_provider_encoded)

lemma create_runs:
  "process_create_job sample_runtime PROGRAM create_accounts sample_job_payload day2 = Inr day3"
  "w_clock day3 = Some 50"
  "w_accounts day3 = (w_accounts day2)(BUYER := wallet\<lparr>acct_lamports := 999619\<rparr>,
     JOB_PDA := \<lparr>acct_lamports = 381, acct_owner = PROGRAM, acct_data = job_encode (sample_job Created 0)\<rparr>)"
  using new_provider_encoded(4)
  by (simp_all add: day3_def process_create_job_def create_accounts_def create_checks init_runs register_runs
      load_facts save_job_def sample_job_payload_def new_sample_provider_def sample_job_def)

definition day4 :: world where
  "day4 = projr (process_fund_job sample_runtime PROGRAM fund_accounts day3)"

lemma records_day3 [simp]:
  "config_at PROGRAM day3 CONFIG_PDA = Some sample_config"
  "job_at PROGRAM day3 JOB_PDA = Some (sample_job Created 0)"
  by (simp_all add: stored_at_def init_runs register_runs create_runs)

lemma funding_runs:
  "process_fund_job sample_runtime PROGRAM fund_accounts day3 = Inr day4"
  "job_at PROGRAM day4 JOB_PDA = Some (sample_job Funded 0)"
  by (simp_all add: day4_def process_fund_job_def fund_accounts_def create_checks load_facts sample_config_fields
      init_runs register_runs create_runs token_facts sample_transfer_def checked_add_def save_fact
      stored_at_def w_accounts_set_data)

lemma day4_accounts:
  "w_clock day4 = Some 50"
  "w_accounts day4 = (w_accounts day3)(BUYER_ATA := token_account BUYER 900, ESCROW := token_account JOB_PDA 100,
     JOB_PDA := (w_accounts day3 JOB_PDA)\<lparr>acct_data := job_encode (sample_job Funded 0)\<rparr>)"
  by (simp_all add: day4_def process_fund_job_def fund_accounts_def create_checks load_facts
      init_runs register_runs create_runs token_facts sample_transfer_def checked_add_def save_fact)

definition deposit_accounts :: "AccountView list" where
  "deposit_accounts = [view True True PROVIDER, view False False CONFIG_PDA, view False False PROVIDER_PDA,
     view False True BOND_PDA, view False True VAULT, view False True PROVIDER_ATA, view False False MINT,
     view False False TOKEN, view False False SYSTEM]"

definition day5 :: world where
  "day5 = projr (process_deposit_bond sample_runtime PROGRAM deposit_accounts 500 day4)"

lemma more_day0_accounts [simp]:
  "w_accounts day0 BOND_PDA = unused" "w_accounts day0 VAULT = token_account BOND_PDA 500"
  "w_accounts day0 PROVIDER_ATA = token_account PROVIDER 1000"
  by (simp_all add: day0_def world_of_def base_accounts_def)

lemma records_day4 [simp]:
  "config_at PROGRAM day4 CONFIG_PDA = Some sample_config"
  "provider_at PROGRAM day4 PROVIDER_PDA = Some new_sample_provider"
  by (simp_all add: stored_at_def init_runs register_runs create_runs day4_accounts new_provider_encoded)

lemma new_sample_provider_fields [simp]:
  "provider_authority new_sample_provider = PROVIDER" "provider_status new_sample_provider = PROVIDER_STATUS_ACTIVE"
  by (simp_all add: new_sample_provider_def)

lemma bond_encoded:
  "k \<le> 500 \<Longrightarrow> bond_encode (sample_bond k) = Inr (projr (bond_encode (sample_bond k)))"
  using bond.encode_ok [of "sample_bond k"] by force

lemma bond_seed_form: "[BOND_SEED, to_bytes a, to_bytes m] = bond_seed_parts a m"
  by (simp add: bond_seed_parts_def)

lemma vault_address: "associated_token_address sample_runtime BOND_PDA MINT = Inr VAULT"
  by (simp add: associated_token_address_eq_Inr)

lemma deposit_runs:
  "process_deposit_bond sample_runtime PROGRAM deposit_accounts 500 day4 = Inr day5"
  "w_clock day5 = Some 50"
  "w_accounts day5 = (w_accounts day4)(PROVIDER := wallet\<lparr>acct_lamports := 999463\<rparr>,
     PROVIDER_ATA := token_account PROVIDER 500, VAULT := token_account BOND_PDA 1000,
     BOND_PDA := \<lparr>acct_lamports = 244, acct_owner = PROGRAM, acct_data = projr (bond_encode (sample_bond 0))\<rparr>)"
  using new_provider_encoded(4)
  by (simp_all add: day5_def process_deposit_bond_def deposit_accounts_def create_checks load_facts bond_seed_form
      open_bond_def vault_address address_from_bytes_def save_bond_fact bond_ok_def
      init_runs register_runs create_runs day4_accounts token_facts sample_transfer_def checked_add_def
      sample_bond_def)

definition accept_accounts :: "AccountView list" where
  "accept_accounts = [view True True PROVIDER, view False False CONFIG_PDA, view False False PROVIDER_PDA,
     view False True BOND_PDA, view False True JOB_PDA]"

definition day6 :: world where
  "day6 = projr (process_accept_job sample_runtime PROGRAM accept_accounts day5)"

lemma records_day5 [simp]:
  "config_at PROGRAM day5 CONFIG_PDA = Some sample_config"
  "provider_at PROGRAM day5 PROVIDER_PDA = Some new_sample_provider"
  "job_at PROGRAM day5 JOB_PDA = Some (sample_job Funded 0)"
  "bond_at PROGRAM day5 BOND_PDA = Some (sample_bond 0)"
  by (simp_all add: stored_at_def init_runs register_runs create_runs day4_accounts deposit_runs new_provider_encoded)

lemma sample_bond_fields [simp]:
  "bond_provider (sample_bond k) = PROVIDER" "bond_mint (sample_bond k) = MINT"
  "bond_token_program (sample_bond k) = TOKEN" "bond_deposited (sample_bond k) = 500"
  "bond_locked (sample_bond k) = k" "(sample_bond k)\<lparr>bond_locked := m\<rparr> = sample_bond m"
  by (simp_all add: sample_bond_def)

lemma accept_runs:
  "process_accept_job sample_runtime PROGRAM accept_accounts day5 = Inr day6"
  "job_at PROGRAM day6 JOB_PDA = Some (sample_job Accepted 50)"
  "bond_at PROGRAM day6 BOND_PDA = Some (sample_bond 50)"
  "provider_at PROGRAM day6 PROVIDER_PDA = Some new_sample_provider"
  using new_provider_encoded(4)
  by (simp_all add: day6_def process_accept_job_def accept_accounts_def create_checks load_facts
      init_runs register_runs create_runs day4_accounts deposit_runs checked_add_def unlocked_def checked_sub_def
      save_bond_fact save_fact stored_at_def new_provider_encoded)

lemma sample_pdas: "is_pda sample_runtime PROGRAM a \<Longrightarrow> a \<in> {CONFIG_PDA, PROVIDER_PDA, BOND_PDA, JOB_PDA, CHALLENGE_PDA}"
proof -
  have "PROGRAM \<noteq> ASSOCIATED_TOKEN_PROGRAM_ID"
  proof
    assume "PROGRAM = ASSOCIATED_TOKEN_PROGRAM_ID"
    then have "to_bytes PROGRAM ! 0 = to_bytes ASSOCIATED_TOKEN_PROGRAM_ID ! 0" by simp
    then show False by (simp add: PROGRAM_def ASSOCIATED_TOKEN_PROGRAM_ID_def)
  qed
  moreover assume "is_pda sample_runtime PROGRAM a"
  then obtain t where "((t, PROGRAM), a) \<in> set pda_table"
    by (auto simp: is_pda_def sample_create_address_eq_Some dest: map_of_SomeD)
  ultimately show ?thesis by (auto simp: pda_table_def)
qed

lemma wallets_sign [simp]: "\<not> is_pda sample_runtime PROGRAM ADMIN" "\<not> is_pda sample_runtime PROGRAM BUYER"
  "\<not> is_pda sample_runtime PROGRAM PROVIDER"
  using sample_pdas by fastforce+

lemma signers_view [simp]:
  "signers [] = {}" "signers (view s m a # vs) = (if s then insert a (signers vs) else signers vs)"
  by (auto simp: signers_def) (metis view_simps(1,2))

lemma sample_call:
  assumes "history sample_runtime PROGRAM w" "instruction_ok i"
    "process_instruction sample_runtime PROGRAM accounts (projr (encode_instruction i)) w = Inr w'"
    "\<forall>s\<in>signers accounts. s \<in> {ADMIN, BUYER, PROVIDER}"
  shows "history sample_runtime PROGRAM w'"
  by (rule history.call [OF assms(1,3)]) (use assms(4) in auto)

lemma day3_history: "history sample_runtime PROGRAM day3"
proof -
  have "history sample_runtime PROGRAM day0"
    by (rule history.genesis)
       (auto simp: day0_def world_of_def base_accounts_def zeroed_def unused_def split: if_splits)
  then have "history sample_runtime PROGRAM day1"
    by (rule sample_call [where i = "InitializeConfig init_payload" and accounts = init_accounts])
       (simp_all add: process_instruction_def process_def parse_encoded init_runs init_accounts_def [THEN arg_cong, of signers]
          del: encode_instruction.simps)
  then have "history sample_runtime PROGRAM day2"
    by (rule sample_call [where i = RegisterProvider and accounts = register_accounts])
       (simp_all add: process_instruction_def process_def parse_encoded register_runs register_accounts_def [THEN arg_cong, of signers]
          del: encode_instruction.simps)
  then show ?thesis
    by (rule sample_call [where i = "CreateJob sample_job_payload" and accounts = create_accounts])
       (simp_all add: process_instruction_def process_def parse_encoded create_runs create_accounts_def [THEN arg_cong, of signers]
          del: encode_instruction.simps)
qed

lemma day5_history: "history sample_runtime PROGRAM day5"
proof -
  have "history sample_runtime PROGRAM day4"
    by (rule sample_call [OF day3_history, where i = FundJob and accounts = fund_accounts])
       (simp_all add: process_instruction_def process_def parse_encoded funding_runs fund_accounts_def [THEN arg_cong, of signers]
          del: encode_instruction.simps)
  then show ?thesis
    by (rule sample_call [where i = "DepositBond 500" and accounts = deposit_accounts])
       (simp_all add: process_instruction_def process_def parse_encoded deposit_runs deposit_accounts_def [THEN arg_cong, of signers]
          del: encode_instruction.simps)
qed

lemma sample_history: "history sample_runtime PROGRAM day6"
  by (rule sample_call [OF day5_history, where i = AcceptJob and accounts = accept_accounts])
     (simp_all add: process_instruction_def process_def parse_encoded accept_runs accept_accounts_def [THEN arg_cong, of signers]
       del: encode_instruction.simps)

lemma accept_dispatched:
  "process_instruction sample_runtime PROGRAM accept_accounts (projr (encode_instruction AcceptJob)) day5 = Inr day6"
  by (simp add: process_instruction_def process_def parse_encoded accept_runs del: encode_instruction.simps)

section \<open>Runs of the later handlers\<close>

lemma challenge_loaded:
  "load_validated_challenge sample_runtime PROGRAM (view x y CHALLENGE_PDA) JOB_PDA (stage Challenged k e now) =
     Inr sample_challenge"
  by (simp add: load_validated_challenge_eq_Inr) (simp add: sample_challenge_def)

lemma sample_challenge_fields [simp]:
  "challenge_status sample_challenge = STATUS_OPEN" "challenge_deadline sample_challenge = 410"
  "challenge_job sample_challenge = JOB_PDA"
  by (simp_all add: sample_challenge_def)

lemma sample_provider_fields [simp]:
  "provider_authority sample_provider = PROVIDER" "provider_status sample_provider = PROVIDER_STATUS_ACTIVE"
  "provider_execution_key_count sample_provider = 1"
  "provider_execution_keys sample_provider = [EXEC_KEY, fill32 0, fill32 0, fill32 0]"
  by (simp_all add: sample_provider_def)

lemma bond_refund_fields [simp]:
  "release_bond (sample_job s k) (sample_bond k) = sample_bond 0"
  "bond_ok ((sample_bond k)\<lparr>bond_deposited := n\<rparr>) \<longleftrightarrow> k \<le> n"
  by (simp_all add: release_bond_def bond_ok_def)

lemmas token_checks = token_facts require_legacy_token_program_id_def address_from_bytes_def
  parse_token_account_def sample_transfer_def checked_add_def checked_sub_def save_bond_fact bond_ok_def save_fact
  w_accounts_set_data stored_at_def

lemma account_sizes [simp]:
  "acct_lamports (token_account a n) = 1000" "acct_lamports (program_account d) = 1000"
  "acct_data (token_account a n) \<noteq> []"
  by (simp_all add: token_account_def program_account_def put_def)

lemma save_provider_fact:
  "view_is_writable v \<Longrightarrow> data_len v w = PROVIDER_ACCOUNT_LEN \<Longrightarrow> provider_ok p \<Longrightarrow>
   save_provider v p w = Inr (set_data v (projr (provider_encode p)) w)"
  using provider.encode_ok provider.encode_len
  by (fastforce simp: save_provider_def write_account_data_def require_writable_def)

lemma save_challenge_fact:
  "view_is_writable v \<Longrightarrow> data_len v w = CHALLENGE_ACCOUNT_LEN \<Longrightarrow> challenge_ok c \<Longrightarrow>
   save_challenge v c w = Inr (set_data v (projr (challenge_encode c)) w)"
  using challenge.encode_ok challenge.encode_len
  by (fastforce simp: save_challenge_def write_account_data_def require_writable_def)

lemma provider_len [simp]: "length (projr (provider_encode sample_provider)) = PROVIDER_ACCOUNT_LEN"
  using encoded_records(1) provider.decode_Inr_len by blast

lemma challenge_seed_form: "[CHALLENGE_SEED, to_bytes a] = challenge_seed_parts a"
  by (simp add: challenge_seed_parts_def)

lemma sample_receipt_fields [simp]:
  "receipt_program_id sample_receipt = PROGRAM" "receipt_genesis_hash sample_receipt = GENESIS"
  "receipt_job sample_receipt = JOB_PDA" "receipt_buyer sample_receipt = BUYER"
  "receipt_provider sample_receipt = PROVIDER" "receipt_request_hash sample_receipt = fill32 7"
  "receipt_job_nonce sample_receipt = 1" "receipt_created_at sample_receipt = 210"
  "receipt_expires_at sample_receipt = 390"
  by (simp_all add: sample_receipt_def)

definition sample_message :: bytes where
  "sample_message = projr (receipt_encode sample_receipt)"

lemma sample_message:
  "receipt_encode sample_receipt = Inr sample_message" "length sample_message = RECEIPT_ENCODED_LEN"
proof -
  obtain d where d: "receipt_encode sample_receipt = Inr d"
    using receipt_encode_ok [OF sample_records_ok(4)] by blast
  then show "receipt_encode sample_receipt = Inr sample_message" "length sample_message = RECEIPT_ENCODED_LEN"
    using length_receipt_encode [OF d] by (simp_all add: sample_message_def)
qed

lemma sample_signature:
  "verify_preceding_ed25519 sample_runtime (view x y SYSVAR) sample_message (stage s k e now) = Inr EXEC_KEY"
proof -
  let ?d = "sample_ed25519"
  have d: "?d = [1, 0, 48, 0, 255, 255, 16, 0, 255, 255, 112, 0, 78, 1, 255, 255] @ to_bytes EXEC_KEY @
      replicate 64 3 @ sample_message"
    by (simp add: sample_ed25519_def sample_message_def)
  have u: "u16_at ?d 2 = 48" "u16_at ?d 4 = 0xffff" "u16_at ?d 6 = 16" "u16_at ?d 8 = 0xffff" "u16_at ?d 10 = 112"
    "u16_at ?d 12 = 334" "u16_at ?d 14 = 0xffff"
    by (simp_all add: u16_at_def d)
  have "precompile_call ?d 0 (replicate 64 3) EXEC_KEY sample_message"
    using sample_message(2) unfolding precompile_call_def u self_index_def
    by (simp add: d get_range_def seg_def)
  then have "parse_ed25519_instruction_data ?d sample_message 0 = Inr EXEC_KEY"
    using sample_message(2) by (auto simp: parse_ed25519_eq_Inr)
  then show ?thesis
    by (simp add: verify_preceding_ed25519_def sample_message(2) sample_instructions_def checked_sub_def)
qed

definition withdraw_accounts :: "AccountView list" where
  "withdraw_accounts = [view True False PROVIDER, view False True BOND_PDA, view False True VAULT,
     view False True PROVIDER_ATA, view False False MINT, view False False TOKEN]"

lemma withdraw_runs:
  "\<exists>w'. process_withdraw_bond sample_runtime PROGRAM withdraw_accounts 400 (stage Accepted 50 100 250) = Inr w'"
  by (simp add: process_withdraw_bond_def withdraw_accounts_def checks load_facts token_checks unlocked_def)

definition refund_accounts :: "AccountView list" where
  "refund_accounts = [view True False ADMIN, view False True JOB_PDA, view False True BOND_PDA,
     view False True ESCROW, view False True BUYER_ATA, view False False BUYER, view False False MINT,
     view False False TOKEN]"

lemma refund_runs:
  "\<exists>w'. refund_internal sample_runtime PROGRAM refund_accounts False (stage Accepted 50 130 301) = Inr w'"
  by (simp add: refund_internal_def refund_accounts_def checks load_facts refund_gate_def
      refund_principal_to_buyer_def token_checks refund_bond_def unlock_job_bond_def)

definition slash_accounts :: "AccountView list" where
  "slash_accounts = [view True False ADMIN, view False False CONFIG_PDA, view False True JOB_PDA,
     view False True BOND_PDA, view False True VAULT, view False True ESCROW, view False True BUYER_ATA,
     view False True BUYER, view False True CHALLENGE_PDA, view False False MINT, view False False TOKEN]"

lemma slash_runs:
  "\<exists>w'. slash_bond sample_runtime PROGRAM slash_accounts (stage Challenged 50 100 405) = Inr w'"
  by (simp add: slash_bond_def slash_accounts_def checks load_facts challenge_loaded refund_principal_to_buyer_def
      token_checks close_pda_account_def lamports_def w_accounts_set_lamports sample_close_view_def program_account_def)

definition settle_accounts :: "AccountView list" where
  "settle_accounts = [view True False ADMIN, view False True JOB_PDA, view False True BOND_PDA,
     view False True ESCROW, view False True PROVIDER_ATA, view False True BUYER_ATA, view False True BUYER,
     view False False MINT, view False False TOKEN]"

lemma settle_runs:
  "\<exists>w'. resolve_timeout_settle sample_runtime PROGRAM settle_accounts (stage Submitted 50 100 400) = Inr w'"
  by (simp add: resolve_timeout_settle_def settle_accounts_def checks load_facts settle_gate_def next_opt_def
      token_checks return_surplus_to_buyer_def unlock_job_bond_def)

definition challenge_accounts :: "AccountView list" where
  "challenge_accounts = [view True True BUYER, view False False CONFIG_PDA, view False True JOB_PDA,
     view False True CHALLENGE_PDA, view False False SYSTEM]"

lemma challenge_runs:
  "\<exists>w'. process_challenge_work sample_runtime PROGRAM challenge_accounts (fill32 8) (stage Submitted 50 100 350) = Inr w'"
  by (simp add: process_challenge_work_def challenge_accounts_def create_checks load_facts save_fact
      checked_add_signed_def challenge_seed_form save_challenge_fact challenge_ok_def)

definition submit_accounts :: "AccountView list" where
  "submit_accounts = [view False False CONFIG_PDA, view False False PROVIDER_PDA, view False True JOB_PDA,
     view False False SYSVAR]"

lemma submit_runs:
  "\<exists>w'. process_submit_receipt sample_runtime PROGRAM submit_accounts sample_receipt (stage Accepted 50 100 250) = Inr w'"
  by (simp add: process_submit_receipt_def submit_accounts_def checks load_facts save_fact
      sample_message sample_signature contains_execution_key_iff receipt_digest_def word_sless_alt)

definition expire_accounts :: "AccountView list" where
  "expire_accounts = [view True False ADMIN, view False True JOB_PDA]"

lemma expire_runs:
  "\<exists>w'. expire_unfunded sample_runtime PROGRAM expire_accounts (stage Created 0 0 100) = Inr w'"
  by (simp add: expire_unfunded_def expire_accounts_def checks load_facts save_fact)

definition close_accounts :: "AccountView list" where
  "close_accounts = [view True True BUYER, view False True JOB_PDA, view True True BUYER, view False True ESCROW,
     view False False TOKEN]"

lemma close_runs:
  "\<exists>w'. close_job sample_runtime PROGRAM close_accounts (stage Settled 0 0 500) = Inr w'"
  by (simp add: close_job_def close_accounts_def checks load_facts next_opt_def close_escrow_def token_checks
     close_token_account_def sample_close_token_def close_pda_account_def lamports_def w_accounts_set_lamports sample_close_view_def)

definition key_accounts :: "AccountView list" where
  "key_accounts = [view True False PROVIDER, view False True PROVIDER_PDA]"

text \<open>The history goes on: the provider registers an execution key and revokes it.\<close>

definition day7 :: world where
  "day7 = projr (add_execution_key sample_runtime PROGRAM key_accounts EXEC_KEY day6)"

lemma new_sample_provider_keys [simp]:
  "provider_execution_key_count new_sample_provider = 0"
  "new_sample_provider\<lparr>provider_execution_keys := [EXEC_KEY, fill32 0, fill32 0, fill32 0],
     provider_execution_key_count := 1\<rparr> = sample_provider"
  "provider_execution_keys new_sample_provider = [fill32 0, fill32 0, fill32 0, fill32 0]"
  by (simp_all add: new_sample_provider_def sample_provider_def numeral_eq_Suc)

lemma day6_provider:
  "w_clock day6 = Some 50" "acct_data (w_accounts day6 PROVIDER_PDA) = new_provider_bytes"
  "acct_owner (w_accounts day6 PROVIDER_PDA) = PROGRAM"
  using new_provider_encoded(4)
  by (simp_all add: day6_def process_accept_job_def accept_accounts_def create_checks load_facts
      init_runs register_runs create_runs day4_accounts deposit_runs checked_add_def unlocked_def checked_sub_def
      save_bond_fact save_fact)

lemma add_key_runs:
  "add_execution_key sample_runtime PROGRAM key_accounts EXEC_KEY day6 = Inr day7"
  "w_clock day7 = Some 50" "provider_at PROGRAM day7 PROVIDER_PDA = Some sample_provider"
  "length (acct_data (w_accounts day7 PROVIDER_PDA)) = PROVIDER_ACCOUNT_LEN"
  using new_provider_encoded(4)
  by (simp_all add: day7_def add_execution_key_def key_accounts_def checks load_facts require_keys_eq_def
      contains_execution_key_iff checked_add_def save_provider_fact accept_runs day6_provider new_provider_encoded
      w_accounts_set_data stored_at_def)

lemma revoke_runs: "\<exists>w'. revoke_execution_key sample_runtime PROGRAM key_accounts EXEC_KEY day7 = Inr w'"
  by (simp add: revoke_execution_key_def key_accounts_def checks load_facts require_keys_eq_def
      checked_sub_def save_provider_fact provider_ok_def add_key_runs)

lemma day7_history: "history sample_runtime PROGRAM day7"
  by (rule sample_call [OF sample_history, where i = "AddExecutionKey EXEC_KEY" and accounts = key_accounts])
     (simp_all add: process_instruction_def process_def parse_encoded add_key_runs key_accounts_def [THEN arg_cong, of signers]
          del: encode_instruction.simps)

text \<open>Time passes: the same chain when the job may be submitted.\<close>

definition day8 :: world where
  "day8 = day7\<lparr>w_clock := Some 250\<rparr>"

lemma day8_history: "history sample_runtime PROGRAM day8"
  by (rule history.others [OF day7_history]) (simp add: others_step_def day8_def)

lemma day6_elsewhere: "a \<notin> {BOND_PDA, JOB_PDA} \<Longrightarrow> w_accounts day6 a = w_accounts day5 a"
  using new_provider_encoded(4)
  by (simp add: day6_def process_accept_job_def accept_accounts_def create_checks load_facts
      init_runs register_runs create_runs day4_accounts deposit_runs checked_add_def unlocked_def checked_sub_def
      save_bond_fact save_fact)

lemma day7_elsewhere: "a \<noteq> PROVIDER_PDA \<Longrightarrow> w_accounts day7 a = w_accounts day6 a"
  using new_provider_encoded(4)
  by (simp add: day7_def add_execution_key_def key_accounts_def checks load_facts require_keys_eq_def
      contains_execution_key_iff checked_add_def save_provider_fact accept_runs day6_provider new_provider_encoded
      w_accounts_set_data)

lemma day8_records [simp]:
  "w_clock day8 = Some 250" "config_at PROGRAM day8 CONFIG_PDA = Some sample_config"
  "provider_at PROGRAM day8 PROVIDER_PDA = Some sample_provider"
  "job_at PROGRAM day8 JOB_PDA = Some (sample_job Accepted 50)"
  "acct_data (w_accounts day8 SYSVAR) = sample_ed25519"
proof -
  have same: "config_at PROGRAM day8 = config_at PROGRAM day7" "provider_at PROGRAM day8 = provider_at PROGRAM day7"
    "job_at PROGRAM day8 = job_at PROGRAM day7" "w_accounts day8 = w_accounts day7"
    by (simp_all add: day8_def stored_at_def fun_eq_iff)
  have "config_at PROGRAM day7 CONFIG_PDA = config_at PROGRAM day5 CONFIG_PDA"
    "job_at PROGRAM day7 JOB_PDA = job_at PROGRAM day6 JOB_PDA"
    by (simp_all add: stored_at_def day7_elsewhere day6_elsewhere)
  then show "config_at PROGRAM day8 CONFIG_PDA = Some sample_config"
    "job_at PROGRAM day8 JOB_PDA = Some (sample_job Accepted 50)"
    unfolding same by (simp_all add: accept_runs(2))
  show "provider_at PROGRAM day8 PROVIDER_PDA = Some sample_provider"
    unfolding same by (rule add_key_runs(3))
  show "acct_data (w_accounts day8 SYSVAR) = sample_ed25519"
    unfolding same
    by (simp add: day7_elsewhere day6_elsewhere deposit_runs day4_accounts create_runs register_runs init_runs)
       (simp add: day0_def world_of_def base_accounts_def)
qed (simp add: day8_def)

end
