(* ===== verification/Event_Log.thy ===== *)
theory Event_Log
  imports Entrypoint
begin

text \<open>
  The program's data log. Every handler ends in one \<open>emit\<close> of \<^verbatim>\<open>programs/agentbond/src/events.rs\<close>,
  and nothing else it does writes to the log: the steps of the handlers keep it (\<open>keeps_log\<close>), so an
  accepted instruction appends exactly one event record, which \<open>event_decode\<close> reads back.
\<close>

section \<open>Steps that keep the log\<close>

lemma same_except_logs: "same_except A w w' \<Longrightarrow> w_logs w' = w_logs w"
  by (simp add: same_except_def)

lemmas saves_keep_log =
  config_store.save_same [THEN same_except_logs] provider_store.save_same [THEN same_except_logs]
  bond_store.save_same [THEN same_except_logs] job_store.save_same [THEN same_except_logs]
  challenge_store.save_same [THEN same_except_logs]

lemma transfer_keeps_log:
  "deployment rt pid \<Longrightarrow> transfer_checked rt src mint dst auth n d seeds w = Inr w' \<Longrightarrow> w_logs w' = w_logs w"
  using transfer_frame(1) [OF deploymentD(3), THEN same_except_logs] by (auto simp: transfer_checked_eq_Inr)

lemma create_keeps_log:
  assumes "deployment rt pid" "create_pda_account rt payer v prog n seeds w = Inr w'"
  shows "w_logs w' = w_logs w"
proof -
  from assms(2) obtain balance where "cpi_create_account rt payer v balance n prog seeds w = Inr w'"
    by (auto simp: create_pda_account_eq_Inr)
  with deploymentD(4) [OF assms(1)] have "same_except {view_address payer, view_address v} w w'"
    unfolding create_law_def by blast
  then show ?thesis by (rule same_except_logs)
qed

lemma close_keeps_log:
  assumes "deployment rt pid" "close_pda_account rt v recipient w = Inr w'"
  shows "w_logs w' = w_logs w"
proof -
  from assms(2) obtain n where
    "view_close rt v (set_data v (replicate (data_len v (set_lamports v 0 (set_lamports recipient n w))) 0)
       (set_lamports v 0 (set_lamports recipient n w))) = Inr w'"
    by (auto simp: close_pda_account_def result_inv Let_def)
  with deploymentD(6) [OF assms(1)] have "same_except {view_address v}
    (set_data v (replicate (data_len v (set_lamports v 0 (set_lamports recipient n w))) 0)
       (set_lamports v 0 (set_lamports recipient n w))) w'"
    unfolding close_view_law_def by blast
  from same_except_logs [OF this] show ?thesis by simp
qed

lemma close_token_keeps_log:
  assumes "deployment rt pid" "close_token_account rt v dst auth seeds w = Inr w'"
  shows "w_logs w' = w_logs w"
proof -
  from assms have "same_except {view_address v, view_address dst} w w'"
    using deploymentD(5) [OF assms(1)] unfolding close_token_law_def close_token_account_eq_Inr by blast
  then show ?thesis by (rule same_except_logs)
qed

lemma surplus_keeps_log:
  "deployment rt pid \<Longrightarrow> return_surplus_to_buyer rt escrow mint buyer_token auth n d seeds w = Inr w' \<Longrightarrow>
   w_logs w' = w_logs w"
  by (auto simp: return_surplus_eq_Inr dest: transfer_keeps_log split: if_splits)

lemma refund_keeps_log:
  "deployment rt pid \<Longrightarrow>
   refund_principal_to_buyer rt j job_account escrow mint buyer_token token_program d w = Inr w' \<Longrightarrow>
   w_logs w' = w_logs w"
  by (auto simp: refund_principal_eq_Inr dest: transfer_keeps_log)

lemma open_bond_keeps_log:
  "deployment rt pid \<Longrightarrow> open_bond rt pid authority bond_account c bump w = Inr (w', b) \<Longrightarrow> w_logs w' = w_logs w"
  by (erule open_bond_cases) (auto dest: create_keeps_log)

lemma settle_gate_keeps_log:
  "deployment rt pid \<Longrightarrow> settle_gate rt pid job_account cv buyer j now w = Inr w' \<Longrightarrow> w_logs w' = w_logs w"
  by (erule settle_gate_cases) (auto dest: close_keeps_log)

lemma close_escrow_keeps_log:
  "deployment rt pid \<Longrightarrow> close_escrow rt escrow token_program recipient job_account j w = Inr w' \<Longrightarrow>
   w_logs w' = w_logs w"
  by (erule close_escrow_cases) (auto dest: close_token_keeps_log)

lemma refund_save_keeps_log:
  "(case ob of Some b \<Rightarrow> save_bond bond_account b w | None \<Rightarrow> Inr w) = Inr w' \<Longrightarrow> w_logs w' = w_logs w"
  by (auto split: option.splits dest: saves_keep_log)

section \<open>One event per instruction\<close>

definition logs_one :: "world \<Rightarrow> world \<Rightarrow> bool" where
  "logs_one w w' \<longleftrightarrow> (\<exists>e. w_logs w' = w_logs w @ [event_encode e])"

lemma emit_logs_one: "w_logs w1 = w_logs w \<Longrightarrow> emit kind a b n t w1 = Inr w' \<Longrightarrow> logs_one w w'"
  by (auto simp: logs_one_def emit_eq_Inr)

lemma process_logs_one:
  assumes D: "deployment rt pid" and p: "process rt pid accounts data w = Inr w'"
  shows "logs_one w w'"
proof -
  note keeps_log = transfer_keeps_log [OF D] create_keeps_log [OF D] close_keeps_log [OF D]
    surplus_keeps_log [OF D] refund_keeps_log [OF D] open_bond_keeps_log [OF D] settle_gate_keeps_log [OF D]
    close_escrow_keeps_log [OF D] refund_save_keeps_log saves_keep_log
  from p obtain i where "parse_instruction data = Inr i"
    by (auto simp: process_def result_inv)
  with p show ?thesis
    by (cases i)
       (simp_all add: process_def resolve_timeout_refund_def expire_unaccepted_def,
        (erule initialize_config_inv set_paused_inv register_provider_inv add_execution_key_inv
           revoke_execution_key_inv deposit_bond_inv withdraw_bond_inv create_job_inv fund_job_inv accept_job_inv
           submit_receipt_inv accept_work_inv challenge_work_inv timeout_settle_inv refund_internal_inv
           expire_unfunded_inv slash_bond_inv close_job_inv,
         (drule keeps_log)+, erule emit_logs_one [rotated], simp)+)
qed

end
