(* ===== verification/Handler_Contracts.thy ===== *)
theory Handler_Contracts
  imports Sample_World Event_Log
begin

text \<open>
  What each handler of \<^verbatim>\<open>programs/agentbond/src/processor\<close> guarantees when it succeeds: who signed, in
  which state and before which deadline, and exactly how the ledger's view changes. \<open>ledger_of\<close> of the
  world after is \<open>ledger_of\<close> of the world before with the fields listed, so everything not listed is
  unchanged. Each property comes with a run on the sample runtime.
\<close>

section \<open>Funding and accepting\<close>

text \<open>
  C10. Funding. \<open>fund_job\<close> succeeds only for the buyer, before the funding deadline, on a created job whose
  associated escrow account is empty, while the protocol is not paused; it moves exactly the job's amount from the buyer's
  token account to the escrow and marks the job funded, and changes nothing else.
\<close>

theorem fund_job_contract:
  assumes "deployment rt pid" "process_fund_job rt pid accounts w = Inr w'"
  shows "\<exists>buyer config_account job_account buyer_token escrow mint token_program rest c j now x.
    accounts = buyer # config_account # job_account # buyer_token # escrow # mint # token_program # rest \<and>
    view_is_signer buyer \<and> config_at pid w (view_address config_account) = Some c \<and> \<not> config_paused c \<and>
    job_at pid w (view_address job_account) = Some j \<and> job_buyer j = view_address buyer \<and> job_state j = Created \<and>
    w_clock w = Some now \<and> now <s job_fund_deadline j \<and>
    ata rt (view_address job_account) (job_mint j) = Some (view_address escrow) \<and>
    holds (token_at rt w) (view_address escrow) (job_mint j) (view_address job_account) 0 \<and>
    holds (token_at rt w) (view_address buyer_token) (job_mint j) (job_buyer j) x \<and>
    ledger_of rt pid w' = (ledger_of rt pid w)\<lparr>
      l_job := (job_at pid w)(view_address job_account \<mapsto> j\<lparr>job_state := Funded\<rparr>),
      l_token := move_tokens (view_address buyer_token) (view_address escrow) (job_amount j) (token_at rt w)\<rparr>"
  using assms by (cases rule: fund_job_effect) blast

theorem fund_job_contract_witness:
  "\<exists>w' j. process_fund_job sample_runtime PROGRAM fund_accounts (stage Created 0 0 50) = Inr w' \<and>
     job_at PROGRAM w' JOB_PDA = Some j \<and> job_state j = Funded"
proof -
  obtain w' where w': "process_fund_job sample_runtime PROGRAM fund_accounts (stage Created 0 0 50) = Inr w'"
    using fund_runs by blast
  from fund_job_contract [OF sample_deployment w'] show ?thesis
    using w' by (auto simp: fund_accounts_def dest!: ledger_fields(4))
qed

text \<open>
  C11. Accepting a job. \<open>accept_job\<close> succeeds only for the job's registered, active provider, before the acceptance
  deadline, on a funded job, while the protocol is not paused; it locks exactly the configured minimum
  of the provider's bond, never more than is deposited and unlocked, and moves no token.
\<close>

theorem accept_job_contract:
  assumes "deployment rt pid" "process_accept_job rt pid accounts w = Inr w'"
  shows "\<exists>authority config_account provider_account bond_account job_account rest c p j now b.
    accounts = authority # config_account # provider_account # bond_account # job_account # rest \<and>
    view_is_signer authority \<and> config_at pid w (view_address config_account) = Some c \<and> \<not> config_paused c \<and>
    provider_at pid w (view_address provider_account) = Some p \<and> provider_authority p = view_address authority \<and>
    provider_status p = PROVIDER_STATUS_ACTIVE \<and>
    job_at pid w (view_address job_account) = Some j \<and> job_provider j = view_address authority \<and>
    job_state j = Funded \<and> w_clock w = Some now \<and> now <s job_accept_deadline j \<and>
    bond_at pid w (view_address bond_account) = Some b \<and> bond_matches b j \<and>
    unat (bond_locked b) + unat (config_min_provider_bond c) \<le> unat (bond_deposited b) \<and>
    ledger_of rt pid w' = (ledger_of rt pid w)\<lparr>
      l_bond := (bond_at pid w)(view_address bond_account \<mapsto>
        b\<lparr>bond_locked := bond_locked b + config_min_provider_bond c\<rparr>),
      l_job := (job_at pid w)(view_address job_account \<mapsto>
        j\<lparr>job_locked_bond := config_min_provider_bond c, job_state := Accepted\<rparr>)\<rparr>"
  using assms by (cases rule: accept_job_effect) blast

theorem accept_job_contract_witness:
  "process_accept_job sample_runtime PROGRAM accept_accounts day5 = Inr day6 \<and>
   (\<exists>b. bond_at PROGRAM day5 BOND_PDA = Some b \<and> unat (bond_locked b) + 50 \<le> unat (bond_deposited b))"
  using accept_job_contract [OF sample_deployment accept_runs(1)] accept_runs(1)
  by (auto simp: accept_accounts_def)

section \<open>Receipts\<close>

text \<open>
  C12. A receipt is accepted only with a registered signature. When \<open>submit_receipt\<close> succeeds, the instruction before it
  in the transaction was a call of the Ed25519 precompile for one signature over exactly the bytes of
  the receipt, by a key that is registered for the job's provider; the receipt names this program,
  this cluster, this job, its buyer, provider, request and nonce; its validity period and the work deadline include the
  current time. The job then stores the digest of those bytes and is submitted.
\<close>

theorem submit_receipt_contract:
  assumes "deployment rt pid" "process_submit_receipt rt pid accounts r w = Inr w'"
  shows "\<exists>config_account provider_account job_account sysvar rest c p j now message key sig ixs data.
    accounts = config_account # provider_account # job_account # sysvar # rest \<and>
    config_at pid w (view_address config_account) = Some c \<and>
    provider_at pid w (view_address provider_account) = Some p \<and> provider_status p = PROVIDER_STATUS_ACTIVE \<and>
    job_at pid w (view_address job_account) = Some j \<and> job_state j = Accepted \<and>
    job_provider j = provider_authority p \<and> w_clock w = Some now \<and> now \<le>s job_work_deadline j \<and>
    receipt_created_at r \<le>s now \<and> now \<le>s receipt_expires_at r \<and>
    receipt_program_id r = pid \<and> receipt_genesis_hash r = config_genesis_hash c \<and>
    receipt_job r = view_address job_account \<and> receipt_buyer r = job_buyer j \<and>
    receipt_provider r = job_provider j \<and> receipt_request_hash r = job_request_hash j \<and>
    receipt_job_nonce r = job_nonce j \<and> receipt_encode r = Inr message \<and>
    instructions_from_view rt sysvar w = Some ixs \<and> ixs_relative ixs (- 1) = Some (ED25519_PROGRAM_ID, data) \<and>
    precompile_call data (ixs_current_index ixs - 1) sig key message \<and> key \<in> set (active_keys p) \<and>
    ledger_of rt pid w' = (ledger_of rt pid w)\<lparr>l_job := (job_at pid w)(view_address job_account \<mapsto>
      j\<lparr>job_receipt_digest := sha256 rt message, job_state := Submitted\<rparr>)\<rparr>"
  using assms(2)
proof (cases rule: submit_receipt_inv)
  case (run config_account provider_account job_account sysvar rest c p j now message key digest w1)
  from run(23) obtain ixs data sig where ixs: "instructions_from_view rt sysvar w = Some ixs"
    "ixs_relative ixs (- 1) = Some (ED25519_PROGRAM_ID, data)"
    "precompile_call data (ixs_current_index ixs - 1) sig key message"
    by (auto simp: verify_preceding_ed25519_def result_inv checked_sub_def split: if_splits)
  have "digest = sha256 rt message" using run(22,25) by (simp add: receipt_digest_def)
  moreover have "key \<in> set (active_keys p)"
    using run(24) by (simp add: contains_execution_key_iff active_keys_def)
  moreover have "ledger_of rt pid w' = (ledger_of rt pid w)\<lparr>l_job := (job_at pid w)(view_address job_account \<mapsto>
      j\<lparr>job_receipt_digest := digest, job_state := Submitted\<rparr>)\<rparr>"
    using run(7) by (simp add: ledger_emit [OF run(27)] ledger_save_job [OF assms(1) run(26)])
  ultimately show ?thesis
    using run(1,2,4,6,7,9-22) ixs unfolding signed.not_less by blast
qed

theorem submit_receipt_contract_witness:
  "\<exists>w' j. process_submit_receipt sample_runtime PROGRAM submit_accounts sample_receipt (stage Accepted 50 100 250) =
     Inr w' \<and> job_at PROGRAM w' JOB_PDA = Some j \<and> job_state j = Submitted"
proof -
  obtain w' where w': "process_submit_receipt sample_runtime PROGRAM submit_accounts sample_receipt
      (stage Accepted 50 100 250) = Inr w'"
    using submit_runs by blast
  from submit_receipt_contract [OF sample_deployment w'] show ?thesis
    using w' by (auto simp: submit_accounts_def dest!: ledger_fields(4))
qed

section \<open>Settling, refunding, slashing\<close>

text \<open>
  C13. Paying the provider. \<open>accept_work\<close> succeeds only for the job's buyer on a submitted job. The whole escrow is paid
  out: the job's amount to the provider's associated account, anything above it back to the buyer's,
  and nothing is left; the job's share of the bond is released and the job is settled.
\<close>

theorem accept_work_contract:
  assumes "deployment rt pid" "process_accept_work rt pid accounts w = Inr w'"
  shows "\<exists>buyer job_account bond_account escrow provider_token buyer_token mint token_program rest j b balance t.
    accounts = buyer # job_account # bond_account # escrow # provider_token # buyer_token # mint #
      token_program # rest \<and>
    view_is_signer buyer \<and> job_at pid w (view_address job_account) = Some j \<and> job_buyer j = view_address buyer \<and>
    job_state j = Submitted \<and> bond_at pid w (view_address bond_account) = Some b \<and> bond_matches b j \<and>
    job_locked_bond j \<le> bond_locked b \<and>
    ata rt (view_address job_account) (job_mint j) = Some (view_address escrow) \<and>
    ata rt (job_provider j) (job_mint j) = Some (view_address provider_token) \<and>
    ata rt (job_buyer j) (job_mint j) = Some (view_address buyer_token) \<and>
    holds (token_at rt w) (view_address escrow) (job_mint j) (view_address job_account) balance \<and>
    job_amount j \<le> balance \<and>
    ledger_of rt pid w' = (ledger_of rt pid w)\<lparr>
      l_bond := (bond_at pid w)(view_address bond_account \<mapsto> release_bond j b),
      l_job := (job_at pid w)(view_address job_account \<mapsto> j\<lparr>job_locked_bond := 0, job_state := Settled\<rparr>),
      l_token := move_tokens (view_address escrow) (view_address provider_token) (job_amount j)
        (move_tokens (view_address escrow) (view_address buyer_token) (balance - job_amount j) (token_at rt w))\<rparr> \<and>
    token_at rt w' (view_address escrow) = Some t \<and> token_amount_of t = 0"
  using assms by (cases rule: accept_work_effect) (unfold pay_out_def, blast)

theorem accept_work_contract_witness:
  "\<exists>w' t. process_accept_work sample_runtime PROGRAM accept_work_accounts (stage Submitted 50 130 350) = Inr w' \<and>
     token_at sample_runtime w' ESCROW = Some t \<and> token_amount_of t = 0"
proof -
  obtain w' where w': "process_accept_work sample_runtime PROGRAM accept_work_accounts (stage Submitted 50 130 350) = Inr w'"
    using accept_work_runs by blast
  from accept_work_contract [OF sample_deployment w'] show ?thesis
    using w' by (auto simp: accept_work_accounts_def)
qed

text \<open>
  C14. Refunding. \<open>resolve_timeout_refund\<close> and \<open>expire_unaccepted\<close> need no particular signer; they succeed only on a job that was not
  accepted by its acceptance deadline, or (not for \<open>expire_unaccepted\<close>) was accepted but has no receipt after its work deadline. The whole escrow
  goes to the buyer's associated account, the job's share of the bond is released, the job is refunded.
\<close>

theorem refund_contract:
  assumes "deployment rt pid" "refund_internal rt pid accounts funded_only w = Inr w'"
  shows "\<exists>payer job_account bond_account escrow buyer_token buyer mint token_program rest j now balance bonds b.
    accounts = payer # job_account # bond_account # escrow # buyer_token # buyer # mint # token_program # rest \<and>
    job_at pid w (view_address job_account) = Some j \<and> w_clock w = Some now \<and>
    (job_state j = Funded \<and> job_accept_deadline j \<le>s now \<or>
     job_state j = Accepted \<and> \<not> funded_only \<and> job_work_deadline j <s now) \<and>
    ata rt (view_address job_account) (job_mint j) = Some (view_address escrow) \<and>
    ata rt (job_buyer j) (job_mint j) = Some (view_address buyer_token) \<and>
    holds (token_at rt w) (view_address escrow) (job_mint j) (view_address job_account) balance \<and>
    job_amount j \<le> balance \<and>
    (job_locked_bond j = 0 \<and> bonds = bond_at pid w \<or>
     bond_at pid w (view_address bond_account) = Some b \<and> bond_matches b j \<and> job_locked_bond j \<le> bond_locked b \<and>
     bonds = (bond_at pid w)(view_address bond_account \<mapsto> release_bond j b)) \<and>
    ledger_of rt pid w' = (ledger_of rt pid w)\<lparr>l_bond := bonds,
      l_job := (job_at pid w)(view_address job_account \<mapsto> j\<lparr>job_locked_bond := 0, job_state := Refunded\<rparr>),
      l_token := move_tokens (view_address escrow) (view_address buyer_token) balance (token_at rt w)\<rparr>"
  using assms by (cases rule: refund_internal_effect) blast

theorem refund_contract_witness:
  "\<exists>w' j. refund_internal sample_runtime PROGRAM refund_accounts False (stage Accepted 50 130 301) = Inr w' \<and>
     job_at PROGRAM w' JOB_PDA = Some j \<and> job_state j = Refunded"
proof -
  obtain w' where w': "refund_internal sample_runtime PROGRAM refund_accounts False (stage Accepted 50 130 301) = Inr w'"
    using refund_runs by blast
  from refund_contract [OF sample_deployment w'] show ?thesis
    using w' by (auto simp: refund_accounts_def dest!: ledger_fields(4))
qed

text \<open>
  C15. Slashing. \<open>slash_bond\<close> succeeds only for the protocol's administrator, on a challenged job with an open challenge, before the challenge's
  deadline. The buyer's associated account receives the whole escrow and, from the provider's vault,
  exactly what was locked for the job; the bond loses that amount, locked and deposited; the challenge is
  closed and the job is slashed.
\<close>

theorem slash_bond_contract:
  assumes "deployment rt pid" "slash_bond rt pid accounts w = Inr w'"
  shows "\<exists>admin config_account job_account bond_account bond_vault escrow buyer_token buyer challenge_account mint
      token_program rest c j ch now b balance.
    accounts = admin # config_account # job_account # bond_account # bond_vault # escrow # buyer_token #
      buyer # challenge_account # mint # token_program # rest \<and>
    view_is_signer admin \<and> config_at pid w (view_address config_account) = Some c \<and>
    config_admin c = view_address admin \<and> job_at pid w (view_address job_account) = Some j \<and>
    job_state j = Challenged \<and> challenge_at pid w (view_address challenge_account) = Some ch \<and>
    challenge_job ch = view_address job_account \<and> challenge_status ch = STATUS_OPEN \<and>
    w_clock w = Some now \<and> now <s challenge_deadline ch \<and>
    bond_at pid w (view_address bond_account) = Some b \<and> bond_matches b j \<and> job_locked_bond j \<noteq> 0 \<and>
    job_locked_bond j \<le> bond_locked b \<and> job_locked_bond j \<le> bond_deposited b \<and>
    ata rt (view_address bond_account) (bond_mint b) = Some (view_address bond_vault) \<and>
    ata rt (job_buyer j) (job_mint j) = Some (view_address buyer_token) \<and>
    holds (token_at rt w) (view_address escrow) (job_mint j) (view_address job_account) balance \<and>
    job_amount j \<le> balance \<and>
    ledger_of rt pid w' = (ledger_of rt pid w)\<lparr>
      l_challenge := (challenge_at pid w)(view_address challenge_account := None),
      l_bond := (bond_at pid w)(view_address bond_account \<mapsto> b\<lparr>bond_locked := bond_locked b - job_locked_bond j,
        bond_deposited := bond_deposited b - job_locked_bond j\<rparr>),
      l_job := (job_at pid w)(view_address job_account \<mapsto> j\<lparr>job_locked_bond := 0, job_state := Slashed\<rparr>),
      l_token := move_tokens (view_address bond_vault) (view_address buyer_token) (job_locked_bond j)
        (move_tokens (view_address escrow) (view_address buyer_token) balance (token_at rt w))\<rparr>"
  using assms by (cases rule: slash_bond_effect) (hypsubst, blast)

theorem slash_bond_contract_witness:
  "\<exists>w' j. slash_bond sample_runtime PROGRAM slash_accounts (stage Challenged 50 100 405) = Inr w' \<and>
     job_at PROGRAM w' JOB_PDA = Some j \<and> job_state j = Slashed"
proof -
  obtain w' where w': "slash_bond sample_runtime PROGRAM slash_accounts (stage Challenged 50 100 405) = Inr w'"
    using slash_runs by blast
  from slash_bond_contract [OF sample_deployment w'] show ?thesis
    using w' by (auto simp: slash_accounts_def dest!: ledger_fields(4))
qed

text \<open>
  Settling by timeout. \<open>resolve_timeout_settle\<close> needs no particular signer. It succeeds only on a submitted job whose
  automatic settlement is due, or on a challenged job whose open challenge has passed its deadline unresolved; that
  challenge is then closed. The escrow is paid out as by the buyer's acceptance, the bond share released, the job settled.
\<close>

theorem timeout_settle_contract:
  assumes "deployment rt pid" "resolve_timeout_settle rt pid accounts w = Inr w'"
  shows "\<exists>a j now ba b escrow provider_token buyer_token balance challenges.
    job_at pid w a = Some j \<and> job_derived rt pid a j \<and> w_clock w = Some now \<and>
    (job_state j = Submitted \<and> job_auto_settle_deadline j \<le>s now \<and> challenges = challenge_at pid w \<or>
     job_state j = Challenged \<and> (\<exists>ca ch. challenge_at pid w ca = Some ch \<and> challenge_job ch = a \<and>
       challenge_status ch = STATUS_OPEN \<and> challenge_deadline ch \<le>s now \<and>
       challenges = (challenge_at pid w)(ca := None))) \<and>
    bond_at pid w ba = Some b \<and> bond_matches b j \<and> ata rt a (job_mint j) = Some escrow \<and>
    ata rt (job_provider j) (job_mint j) = Some provider_token \<and>
    ata rt (job_buyer j) (job_mint j) = Some buyer_token \<and>
    holds (token_at rt w) escrow (job_mint j) a balance \<and> job_amount j \<le> balance \<and>
    ledger_of rt pid w' = (ledger_of rt pid w)\<lparr>l_challenge := challenges,
      l_bond := (bond_at pid w)(ba \<mapsto> release_bond j b),
      l_job := (job_at pid w)(a \<mapsto> j\<lparr>job_locked_bond := 0, job_state := Settled\<rparr>),
      l_token := pay_out escrow provider_token buyer_token (job_amount j) balance (token_at rt w)\<rparr>"
  using assms
proof (cases rule: timeout_settle_view)
  case (run a j now w0 job_account cv buyer ba b escrow provider_token buyer_token balance)
  from run(5) show ?thesis
  proof (cases rule: settle_gate_cases)
    case submitted
    with run(16,2) have "ledger_of rt pid w' = (ledger_of rt pid w)\<lparr>l_challenge := challenge_at pid w,
      l_bond := (bond_at pid w)(ba \<mapsto> release_bond j b),
      l_job := (job_at pid w)(a \<mapsto> j\<lparr>job_locked_bond := 0, job_state := Settled\<rparr>),
      l_token := pay_out escrow provider_token buyer_token (job_amount j) balance (token_at rt w)\<rparr>"
      by (simp add: ledger_of_def)
    with run(2-4,6,8,10-14) submitted show ?thesis unfolding signed.not_less by blast
  next
    case (challenged v ch)
    have w0: "ledger_of rt pid w0 = (ledger_of rt pid w)\<lparr>l_challenge := (challenge_at pid w)(view_address v := None)\<rparr>"
      by (rule ledger_close(2) [OF assms(1) challenged(8,3)])
    have "ledger_of rt pid w' = (ledger_of rt pid w)\<lparr>l_challenge := (challenge_at pid w)(view_address v := None),
      l_bond := (bond_at pid w)(ba \<mapsto> release_bond j b),
      l_job := (job_at pid w)(a \<mapsto> j\<lparr>job_locked_bond := 0, job_state := Settled\<rparr>),
      l_token := pay_out escrow provider_token buyer_token (job_amount j) balance (token_at rt w)\<rparr>"
      using run(16,2) by (simp add: ledger_fields [OF w0] w0)
    moreover have "bond_at pid w ba = Some b" "holds (token_at rt w) escrow (job_mint j) a balance"
      using run(6,13) by (simp_all add: ledger_fields [OF w0])
    moreover have "challenge_job ch = a" using challenged(5) run(1) by simp
    ultimately show ?thesis
      using run(2-4,8,10-12,14) challenged(1,3,6,7) unfolding signed.not_less by blast
  qed
qed

theorem timeout_settle_contract_witness:
  "\<exists>w' a j. resolve_timeout_settle sample_runtime PROGRAM settle_accounts (stage Submitted 50 100 400) = Inr w' \<and>
     job_at PROGRAM w' a = Some j \<and> job_state j = Settled"
proof -
  obtain w' where w': "resolve_timeout_settle sample_runtime PROGRAM settle_accounts (stage Submitted 50 100 400) = Inr w'"
    using settle_runs by blast
  from timeout_settle_contract [OF sample_deployment w'] show ?thesis
    using w' by (fastforce dest!: ledger_fields(4))
qed

text \<open>
  Challenging. \<open>challenge_work\<close> succeeds only for the job's buyer, on a submitted job, before its automatic
  settlement. It creates the job's challenge record, open, with a deadline of exactly the configured duration after now
  (without overflow), and marks the job challenged.
\<close>

theorem challenge_work_contract:
  assumes "deployment rt pid" "process_challenge_work rt pid accounts reason w = Inr w'"
  shows "\<exists>buyer config_account job_account challenge_account system_program rest c j now bump deadline.
    accounts = buyer # config_account # job_account # challenge_account # system_program # rest \<and>
    view_is_signer buyer \<and> config_at pid w (view_address config_account) = Some c \<and>
    job_at pid w (view_address job_account) = Some j \<and> job_buyer j = view_address buyer \<and> job_state j = Submitted \<and>
    w_clock w = Some now \<and> now <s job_auto_settle_deadline j \<and>
    challenge_at pid w (view_address challenge_account) = None \<and>
    sint deadline = sint now + sint (config_challenge_duration_seconds c) \<and>
    ledger_of rt pid w' = (ledger_of rt pid w)\<lparr>
      l_challenge := (challenge_at pid w)(view_address challenge_account \<mapsto>
        \<lparr>challenge_bump = bump, challenge_status = STATUS_OPEN, challenge_job = view_address job_account,
         challenge_buyer = job_buyer j, challenge_reason_hash = reason, challenge_bond_amount = 0,
         challenge_deadline = deadline\<rparr>),
      l_job := (job_at pid w)(view_address job_account \<mapsto> j\<lparr>job_state := Challenged\<rparr>)\<rparr>"
  using assms by (cases rule: challenge_work_effect) blast

theorem challenge_work_contract_witness:
  "\<exists>w' j. process_challenge_work sample_runtime PROGRAM challenge_accounts (fill32 8) (stage Submitted 50 100 350) =
     Inr w' \<and> job_at PROGRAM w' JOB_PDA = Some j \<and> job_state j = Challenged"
proof -
  obtain w' where w': "process_challenge_work sample_runtime PROGRAM challenge_accounts (fill32 8)
      (stage Submitted 50 100 350) = Inr w'"
    using challenge_runs by blast
  from challenge_work_contract [OF sample_deployment w'] show ?thesis
    using w' by (auto simp: challenge_accounts_def dest!: ledger_fields(4))
qed

section \<open>Bonds\<close>

text \<open>
  C16. Withdrawing. \<open>withdraw_bond\<close> succeeds only for the bond's provider and for a positive amount that is not locked; it moves
  exactly that amount from the vault to a token account of the provider and lowers the deposit by it.
\<close>

theorem withdraw_bond_contract:
  assumes "deployment rt pid" "process_withdraw_bond rt pid accounts n w = Inr w'"
  shows "\<exists>authority bond_account bond_vault authority_token mint token_program rest b y.
    accounts = authority # bond_account # bond_vault # authority_token # mint # token_program # rest \<and>
    view_is_signer authority \<and> bond_at pid w (view_address bond_account) = Some b \<and>
    bond_provider b = view_address authority \<and> 0 < n \<and> n \<le> bond_deposited b - bond_locked b \<and>
    ata rt (view_address bond_account) (bond_mint b) = Some (view_address bond_vault) \<and>
    holds (token_at rt w) (view_address authority_token) (bond_mint b) (bond_provider b) y \<and>
    ledger_of rt pid w' = (ledger_of rt pid w)\<lparr>
      l_bond := (bond_at pid w)(view_address bond_account \<mapsto> b\<lparr>bond_deposited := bond_deposited b - n\<rparr>),
      l_token := move_tokens (view_address bond_vault) (view_address authority_token) n (token_at rt w)\<rparr>"
  using assms by (cases rule: withdraw_bond_effect) (unfold word_gt_0, blast)

theorem withdraw_bond_contract_witness:
  "\<exists>w' b. process_withdraw_bond sample_runtime PROGRAM withdraw_accounts 400 (stage Accepted 50 100 250) = Inr w' \<and>
     bond_at PROGRAM w' BOND_PDA = Some b \<and> bond_deposited b = 100"
proof -
  obtain w' where w': "process_withdraw_bond sample_runtime PROGRAM withdraw_accounts 400 (stage Accepted 50 100 250) = Inr w'"
    using withdraw_runs by blast
  from withdraw_bond_contract [OF sample_deployment w'] show ?thesis
    using w' by (auto simp: withdraw_accounts_def dest!: ledger_fields(3))
qed

section \<open>Execution keys\<close>

text \<open>
  Registering a key. \<open>add_execution_key\<close> succeeds only for the active provider's own authority, for a non-zero key that is
  not registered yet, while a slot is free; it appends exactly that key.
\<close>

theorem add_execution_key_contract:
  assumes "deployment rt pid" "add_execution_key rt pid accounts key w = Inr w'"
  shows "\<exists>authority provider_account rest p q. accounts = authority # provider_account # rest \<and>
    view_is_signer authority \<and> provider_at pid w (view_address provider_account) = Some p \<and>
    provider_authority p = view_address authority \<and> provider_status p = PROVIDER_STATUS_ACTIVE \<and>
    key \<noteq> fill32 0 \<and> key \<notin> set (active_keys p) \<and> length (active_keys p) < MAX_EXECUTION_KEYS \<and>
    active_keys q = active_keys p @ [key] \<and> provider_authority q = provider_authority p \<and>
    provider_status q = provider_status p \<and>
    ledger_of rt pid w' =
      (ledger_of rt pid w)\<lparr>l_provider := (provider_at pid w)(view_address provider_account \<mapsto> q)\<rparr>"
  using assms by (cases rule: add_execution_key_effect) blast

theorem add_execution_key_contract_witness:
  "\<exists>q. add_execution_key sample_runtime PROGRAM key_accounts EXEC_KEY day6 = Inr day7 \<and>
     provider_at PROGRAM day7 PROVIDER_PDA = Some q \<and> active_keys q = [EXEC_KEY]"
  using add_execution_key_contract [OF sample_deployment add_key_runs(1)] add_key_runs(1) accept_runs(4)
  by (auto simp: key_accounts_def active_keys_def dest!: ledger_fields(2))

text \<open>
  Revoking a key. In every history, when \<open>revoke_execution_key\<close> succeeds, the provider's own authority signed, the
  key was registered, and afterwards it is not: exactly this key is gone, so no receipt signed by it is accepted any more.
\<close>

theorem revoke_execution_key_contract:
  assumes "deployment rt pid" "history rt pid w" "revoke_execution_key rt pid accounts key w = Inr w'"
  shows "\<exists>authority provider_account rest p q. accounts = authority # provider_account # rest \<and>
    view_is_signer authority \<and> provider_at pid w (view_address provider_account) = Some p \<and>
    provider_authority p = view_address authority \<and> key \<in> set (active_keys p) \<and>
    set (active_keys q) = set (active_keys p) - {key} \<and> \<not> contains_execution_key q key \<and>
    ledger_of rt pid w' =
      (ledger_of rt pid w)\<lparr>l_provider := (provider_at pid w)(view_address provider_account \<mapsto> q)\<rparr>"
  using assms(1,3)
proof (cases rule: revoke_execution_key_effect)
  case (run authority provider_account rest p q)
  have "distinct (active_keys p)"
    using history_invariants(2) [OF assms(1,2)] run(3) by (auto simp: keys_ok_def provider_keys_ok_def dest: all_atD)
  from distinct_mset_remove [OF this run(6,8)] have "set (active_keys q) = set (active_keys p) - {key}" by simp
  moreover from this have "\<not> contains_execution_key q key"
    by (simp add: contains_execution_key_iff active_keys_def)
  ultimately show ?thesis using run(1-3,5,6,12) by blast
qed

theorem revoke_execution_key_contract_witness:
  "\<exists>w' q. revoke_execution_key sample_runtime PROGRAM key_accounts EXEC_KEY day7 = Inr w' \<and>
     provider_at PROGRAM w' PROVIDER_PDA = Some q \<and> \<not> contains_execution_key q EXEC_KEY"
proof -
  obtain w' where w': "revoke_execution_key sample_runtime PROGRAM key_accounts EXEC_KEY day7 = Inr w'"
    using revoke_runs by blast
  from revoke_execution_key_contract [OF sample_deployment day7_history w'] show ?thesis
    using w' by (auto simp: key_accounts_def dest!: ledger_fields(2))
qed

section \<open>Ending\<close>

text \<open>
  Expiry is always available. Anyone can expire a job: \<open>expire_unfunded\<close> succeeds exactly when the job account is given as writable, holds a
  created job at its derived address, and the clock has reached the funding deadline.
\<close>

theorem expire_unfunded_available:
  "(\<exists>w'. expire_unfunded rt pid (payer # job_account # rest) w = Inr w') \<longleftrightarrow>
     view_is_writable job_account \<and> (\<exists>j now. job_at pid w (view_address job_account) = Some j \<and>
       job_derived rt pid (view_address job_account) j \<and> job_state j = Created \<and> w_clock w = Some now \<and>
       job_fund_deadline j \<le>s now)"
  (is "?runs \<longleftrightarrow> ?ready")
proof
  assume ?runs
  then obtain w' where "expire_unfunded rt pid (payer # job_account # rest) w = Inr w'" by blast
  then show ?ready
    by (cases rule: expire_unfunded_inv) (auto simp: signed.not_less job_store.save_eq_Inr)
next
  assume ?ready
  then obtain j now where v: "view_is_writable job_account" "job_at pid w (view_address job_account) = Some j"
    "job_derived rt pid (view_address job_account) j" "job_state j = Created" "w_clock w = Some now"
    "job_fund_deadline j \<le>s now" by blast
  have "length (acct_data (acct w job_account)) = JOB_ACCOUNT_LEN"
    using v(2) job.decode_Inr_len by (auto simp: stored_at_eq_Some)
  with v show ?runs
    by (simp add: expire_unfunded_def next_account_def require_writable_def load_facts now_ts_def signed.not_less
        transition_job_def validate_transition_def save_fact data_len_def emit_def)
qed

text \<open>
  Closing. \<open>close_job\<close> succeeds only for the job's buyer and only on a job that has ended; it removes the job's record and at most one
  token account, an empty one.
\<close>

theorem close_job_contract:
  assumes "deployment rt pid" "close_job rt pid accounts w = Inr w'"
  shows "\<exists>buyer job_account rent_recipient rest j tokens e t.
    accounts = buyer # job_account # rent_recipient # rest \<and> view_is_signer buyer \<and>
    job_at pid w (view_address job_account) = Some j \<and> job_buyer j = view_address buyer \<and>
    is_terminal (job_state j) \<and>
    (tokens = token_at rt w \<or>
      token_at rt w e = Some t \<and> token_amount_of t = 0 \<and> tokens = (token_at rt w)(e := None)) \<and>
    ledger_of rt pid w' = (ledger_of rt pid w)\<lparr>
      l_job := (job_at pid w)(view_address job_account := None), l_token := tokens\<rparr>"
  using assms by (cases rule: close_job_effect) blast

theorem close_job_contract_witness:
  "\<exists>w'. close_job sample_runtime PROGRAM close_accounts (stage Settled 0 0 500) = Inr w' \<and>
     job_at PROGRAM w' JOB_PDA = None"
proof -
  obtain w' where w': "close_job sample_runtime PROGRAM close_accounts (stage Settled 0 0 500) = Inr w'"
    using close_runs by blast
  from close_job_contract [OF sample_deployment w'] show ?thesis
    using w' by (auto simp: close_accounts_def dest!: ledger_fields(4))
qed

section \<open>All instructions\<close>

text \<open>
  C17. The pause switch. While the protocol is paused nothing new is taken on: an accepted registration, deposit, job
  creation, funding or acceptance was given the program's configuration account as its second account, and that configuration was not paused.
\<close>

theorem paused_protocol_takes_nothing_on:
  assumes "process_instruction rt pid accounts data w = Inr w'" "parse_instruction data = Inr i"
    "instruction_kind i \<in> {RegisterProviderKind, DepositBondKind, CreateJobKind, FundJobKind, AcceptJobKind}"
  shows "\<exists>first config_account rest c. accounts = first # config_account # rest \<and>
    config_at pid w (view_address config_account) = Some c \<and>
    config_derived rt pid (view_address config_account) c \<and> \<not> config_paused c"
  using assms
  by (cases i) (auto simp: process_instruction_def process_def elim!: register_provider_inv deposit_bond_inv
      create_job_inv fund_job_inv accept_job_inv)

theorem paused_protocol_takes_nothing_on_witness:
  "parse_instruction (projr (encode_instruction AcceptJob)) = Inr AcceptJob \<and>
   (\<exists>first config_account rest c. accept_accounts = first # config_account # rest \<and>
     config_at PROGRAM day5 (view_address config_account) = Some c \<and> \<not> config_paused c)"
proof -
  have parse: "parse_instruction (projr (encode_instruction AcceptJob)) = Inr AcceptJob"
    by (rule parse_encoded) simp
  from paused_protocol_takes_nothing_on [OF accept_dispatched parse] parse show ?thesis by auto
qed

text \<open>
  One event per instruction. An accepted instruction appends exactly one record to the program's data log, and \<open>ProtocolEvent::decode\<close>
  reads it back.
\<close>

theorem one_event_per_instruction:
  assumes "deployment rt pid" "process_instruction rt pid accounts data w = Inr w'"
  shows "\<exists>e d. w_logs w' = w_logs w @ [d] \<and> event_decode d = Inr e"
  using process_logs_one [OF assms(1), of accounts data w w'] assms(2)
  by (auto simp: process_instruction_def logs_one_def)

theorem one_event_per_instruction_witness:
  "\<exists>e d. w_logs day6 = w_logs day5 @ [d] \<and> event_decode d = Inr e"
  by (rule one_event_per_instruction [OF sample_deployment accept_dispatched])

end
