(* ===== verification/Sdk_Plan.thy ===== *)
theory Sdk_Plan
  imports Program_Token
begin

text \<open>
  The client library's plans, from \<^verbatim>\<open>host/crates/agentbond-sdk/src/plan.rs\<close>, its errors
  (\<^verbatim>\<open>error.rs\<close>), its addresses (\<^verbatim>\<open>address.rs\<close>) and the check a plan passes before it is sent
  (\<open>validate_plan_instructions\<close> of \<^verbatim>\<open>submit.rs\<close>).

  A plan is what crosses a process boundary: program ids and account keys are written as text, the
  instruction data in base 64. The crates that do this, and the derivation of addresses on the
  client's side, are library code: the parameter \<open>client\<close>, one field per function, with the
  documented behaviour in \<open>text_law\<close> (writing and reading back) and \<open>client_law\<close> (the client
  derives the addresses the chain derives).
\<close>

section \<open>Library code\<close>

record client =
  client_find_program_address :: "bytes list \<Rightarrow> address \<Rightarrow> (address \<times> byte) option"
  get_associated_token_address_with_program_id :: "address \<Rightarrow> address \<Rightarrow> address \<Rightarrow> address"
  spl_token_id :: address
  pubkey_to_string :: "address \<Rightarrow> string"
  pubkey_from_str :: "string \<Rightarrow> address option"
  pubkey_from_str_const :: "string \<Rightarrow> address"
  base64_encode :: "bytes \<Rightarrow> string"
  base64_decode :: "string \<Rightarrow> string + bytes"

definition ED25519_PROGRAM_ID_STR :: string where
  "ED25519_PROGRAM_ID_STR = ''Ed25519SigVerify111111111111111111111111111''"

definition SYSVAR_INSTRUCTIONS_STR :: string where
  "SYSVAR_INSTRUCTIONS_STR = ''Sysvar1nstructions1111111111111111111111111''"

text \<open>Keys and data survive being written and read; the text of the precompile's id denotes the id
  the program compares with.\<close>

definition text_law :: "client \<Rightarrow> bool" where
  "text_law cl \<longleftrightarrow>
     (\<forall>a. pubkey_from_str cl (pubkey_to_string cl a) = Some a) \<and>
     (\<forall>d. base64_decode cl (base64_encode cl d) = Inr d) \<and>
     (\<forall>s a. pubkey_from_str cl s = Some a \<longrightarrow> pubkey_from_str_const cl s = a) \<and>
     pubkey_from_str cl ED25519_PROGRAM_ID_STR = Some ED25519_PROGRAM_ID"

text \<open>Client and chain derive the same addresses and know the same programs; the default key is the
  system program's.\<close>

definition client_law :: "runtime \<Rightarrow> client \<Rightarrow> bool" where
  "client_law rt cl \<longleftrightarrow>
     (\<forall>seeds pid. client_find_program_address cl seeds pid = try_find_program_address rt seeds pid) \<and>
     (\<forall>wallet mint a. ata rt wallet mint = Some a \<longrightarrow>
        get_associated_token_address_with_program_id cl wallet mint (token_program_id rt) = a) \<and>
     spl_token_id cl = token_program_id rt \<and> system_program_id rt = fill32 0"

lemma text_lawD:
  assumes "text_law cl"
  shows "pubkey_from_str cl (pubkey_to_string cl a) = Some a"
    and "base64_decode cl (base64_encode cl d) = Inr d"
    and "pubkey_from_str cl ED25519_PROGRAM_ID_STR = Some ED25519_PROGRAM_ID"
    and "pubkey_from_str_const cl ED25519_PROGRAM_ID_STR = ED25519_PROGRAM_ID"
    and "pubkey_to_string cl a = pubkey_to_string cl b \<longleftrightarrow> a = b"
proof -
  show parse: "pubkey_from_str cl (pubkey_to_string cl a) = Some a" for a
    using assms by (simp add: text_law_def)
  show "pubkey_to_string cl a = pubkey_to_string cl b \<longleftrightarrow> a = b"
    by (metis option.inject parse)
qed (use assms in \<open>simp_all add: text_law_def\<close>)

lemma client_lawD:
  assumes "client_law rt cl"
  shows "client_find_program_address cl seeds pid = try_find_program_address rt seeds pid"
    and "ata rt wallet mint = Some a \<Longrightarrow>
      get_associated_token_address_with_program_id cl wallet mint (spl_token_id cl) = a"
    and "spl_token_id cl = token_program_id rt" "system_program_id rt = fill32 0"
  using assms by (simp_all add: client_law_def)

section \<open>Errors\<close>

datatype SdkError =
    InvalidPubkey string
  | SdkInvalidAmount
  | SdkInvalidDeadlineOrder
  | InvalidInput string
  | WrongOwner
  | WrongAddress
  | SdkDecode string
  | SdkRpc string
  | SdkSerde string
  | SdkProtocol string

definition sdk_from_protocol :: "ProtocolError \<Rightarrow> SdkError" where
  "sdk_from_protocol value = SdkProtocol (as_str value)"

section \<open>Addresses\<close>

record Pda =
  pda_address :: address
  pda_bump :: byte

definition PROGRAM_ID_BYTES :: bytes where
  "PROGRAM_ID_BYTES = [
    0x0a, 0x9e, 0xb1, 0x6d, 0x2c, 0x84, 0x3f, 0x51, 0x7a, 0xc2, 0x08, 0xd4, 0x6e, 0x35, 0x91, 0xbf,
    0x14, 0x67, 0xda, 0x2c, 0x58, 0x03, 0xee, 0x49, 0xb7, 0x1f, 0x85, 0x20, 0xcd, 0x63, 0xa4, 0x7e]"

definition sdk_program_id :: address where
  "sdk_program_id = array32 PROGRAM_ID_BYTES"

definition find_pda :: "client \<Rightarrow> bytes list \<Rightarrow> address \<Rightarrow> SdkError + Pda" where
  "find_pda cl seeds program_id =
     ok_or (map_option (\<lambda>(address, bump). \<lparr>pda_address = address, pda_bump = bump\<rparr>)
       (client_find_program_address cl seeds program_id)) (InvalidInput ''pda derivation failed'')"

definition config_pda :: "client \<Rightarrow> address \<Rightarrow> SdkError + Pda" where
  "config_pda cl program_id = find_pda cl config_seed_parts program_id"

definition provider_pda :: "client \<Rightarrow> address \<Rightarrow> address \<Rightarrow> SdkError + Pda" where
  "provider_pda cl program_id authority = find_pda cl (provider_seed_parts authority) program_id"

definition provider_bond_pda :: "client \<Rightarrow> address \<Rightarrow> address \<Rightarrow> address \<Rightarrow> SdkError + Pda" where
  "provider_bond_pda cl program_id authority mint = find_pda cl (bond_seed_parts authority mint) program_id"

definition job_pda :: "client \<Rightarrow> address \<Rightarrow> address \<Rightarrow> address \<Rightarrow> u64 \<Rightarrow> SdkError + Pda" where
  "job_pda cl program_id buyer provider nonce =
     find_pda cl (job_seed_parts buyer provider (job_nonce_le_bytes nonce)) program_id"

definition challenge_pda :: "client \<Rightarrow> address \<Rightarrow> address \<Rightarrow> SdkError + Pda" where
  "challenge_pda cl program_id job = find_pda cl (challenge_seed_parts job) program_id"

definition bond_vault_ata :: "client \<Rightarrow> address \<Rightarrow> address \<Rightarrow> address" where
  "bond_vault_ata cl bond_pda mint =
     get_associated_token_address_with_program_id cl bond_pda mint (spl_token_id cl)"

definition job_escrow_ata :: "client \<Rightarrow> address \<Rightarrow> address \<Rightarrow> address" where
  "job_escrow_ata cl job mint = get_associated_token_address_with_program_id cl job mint (spl_token_id cl)"

definition user_settlement_ata :: "client \<Rightarrow> address \<Rightarrow> address \<Rightarrow> address" where
  "user_settlement_ata cl owner mint =
     get_associated_token_address_with_program_id cl owner mint (spl_token_id cl)"

definition parse_pubkey :: "client \<Rightarrow> string \<Rightarrow> SdkError + address" where
  "parse_pubkey cl s = ok_or (pubkey_from_str cl s) (InvalidPubkey s)"

lemma find_pda_eq_Inr [result_inv]:
  "find_pda cl seeds pid = Inr p \<longleftrightarrow>
     client_find_program_address cl seeds pid = Some (pda_address p, pda_bump p)"
  by (cases p) (auto simp: find_pda_def result_inv)

lemmas pda_defs = config_pda_def provider_pda_def provider_bond_pda_def job_pda_def challenge_pda_def
lemmas ata_defs = bond_vault_ata_def job_escrow_ata_def user_settlement_ata_def

section \<open>Plans\<close>

text \<open>\<open>AccountMeta\<close> and \<open>Instruction\<close> are the transaction library's structures; \<open>AccountMeta::new\<close>
  makes a writable meta, \<open>new_readonly\<close> a read-only one.\<close>

record AccountMeta =
  meta_pubkey :: address
  meta_is_signer :: bool
  meta_is_writable :: bool

definition meta_new :: "address \<Rightarrow> bool \<Rightarrow> AccountMeta" where
  "meta_new pubkey is_signer = \<lparr>meta_pubkey = pubkey, meta_is_signer = is_signer, meta_is_writable = True\<rparr>"

definition meta_new_readonly :: "address \<Rightarrow> bool \<Rightarrow> AccountMeta" where
  "meta_new_readonly pubkey is_signer =
     \<lparr>meta_pubkey = pubkey, meta_is_signer = is_signer, meta_is_writable = False\<rparr>"

record tx_instruction =
  ix_program_id :: address
  ix_accounts :: "AccountMeta list"
  ix_data :: bytes

record AccountMetaPlan =
  amp_pubkey :: string
  amp_is_signer :: bool
  amp_is_writable :: bool

record PlannedInstruction =
  pi_program_id :: string
  pi_accounts :: "AccountMetaPlan list"
  pi_data_base64 :: string

record InstructionPlan =
  plan_action :: string
  plan_program_id :: string
  plan_instructions :: "PlannedInstruction list"
  plan_required_signers :: "string list"
  plan_expires_at :: "i64 option"
  plan_mint :: "string option"
  plan_amount :: "u64 option"

record PlanSummary =
  summary_action :: string
  summary_program_id :: string
  summary_required_signers :: "string list"
  summary_mint :: "string option"
  summary_amount :: "u64 option"
  summary_expires_at :: "i64 option"

definition planned_from :: "client \<Rightarrow> tx_instruction \<Rightarrow> PlannedInstruction" where
  "planned_from cl ix =
     \<lparr>pi_program_id = pubkey_to_string cl (ix_program_id ix),
      pi_accounts = map (\<lambda>a. \<lparr>amp_pubkey = pubkey_to_string cl (meta_pubkey a),
        amp_is_signer = meta_is_signer a, amp_is_writable = meta_is_writable a\<rparr>) (ix_accounts ix),
      pi_data_base64 = base64_encode cl (ix_data ix)\<rparr>"

definition plan_new ::
    "client \<Rightarrow> string \<Rightarrow> address \<Rightarrow> tx_instruction list \<Rightarrow> address list \<Rightarrow> i64 option \<Rightarrow> InstructionPlan" where
  "plan_new cl action program_id instructions required_signers expires_at =
     \<lparr>plan_action = action, plan_program_id = pubkey_to_string cl program_id,
      plan_instructions = map (planned_from cl) instructions,
      plan_required_signers = map (pubkey_to_string cl) required_signers,
      plan_expires_at = expires_at, plan_mint = None, plan_amount = None\<rparr>"

definition with_mint_amount :: "client \<Rightarrow> InstructionPlan \<Rightarrow> address \<Rightarrow> u64 \<Rightarrow> InstructionPlan" where
  "with_mint_amount cl plan mint amount =
     plan\<lparr>plan_mint := Some (pubkey_to_string cl mint), plan_amount := Some amount\<rparr>"

definition summary :: "InstructionPlan \<Rightarrow> PlanSummary" where
  "summary plan =
     \<lparr>summary_action = plan_action plan, summary_program_id = plan_program_id plan,
      summary_required_signers = plan_required_signers plan, summary_mint = plan_mint plan,
      summary_amount = plan_amount plan, summary_expires_at = plan_expires_at plan\<rparr>"

text \<open>Collecting an iterator of results stops at the first error.\<close>

fun collect_results :: "('a \<Rightarrow> 'e + 'b) \<Rightarrow> 'a list \<Rightarrow> 'e + 'b list" where
  "collect_results f [] = Inr []"
| "collect_results f (x # xs) = tryE (f x) (\<lambda>y. tryE (collect_results f xs) (\<lambda>ys. Inr (y # ys)))"

definition to_meta :: "client \<Rightarrow> AccountMetaPlan \<Rightarrow> SdkError + AccountMeta" where
  "to_meta cl a =
     tryE (ok_or (pubkey_from_str cl (amp_pubkey a)) (InvalidPubkey (amp_pubkey a))) (\<lambda>pubkey.
     Inr (if amp_is_writable a
          then (if amp_is_signer a then meta_new pubkey True else meta_new pubkey False)
          else if amp_is_signer a then meta_new_readonly pubkey True
          else meta_new_readonly pubkey False))"

definition to_instruction :: "client \<Rightarrow> PlannedInstruction \<Rightarrow> SdkError + tx_instruction" where
  "to_instruction cl p =
     tryE (ok_or (pubkey_from_str cl (pi_program_id p)) (InvalidPubkey (pi_program_id p))) (\<lambda>program_id.
     tryE (collect_results (to_meta cl) (pi_accounts p)) (\<lambda>accounts.
     tryE (map_err (\<lambda>e. InvalidInput (''invalid instruction data base64: '' @ e))
       (base64_decode cl (pi_data_base64 p))) (\<lambda>data.
     Inr \<lparr>ix_program_id = program_id, ix_accounts = accounts, ix_data = data\<rparr>)))"

definition to_solana_instructions :: "client \<Rightarrow> InstructionPlan \<Rightarrow> SdkError + tx_instruction list" where
  "to_solana_instructions cl plan = collect_results (to_instruction cl) (plan_instructions plan)"

lemma collect_results_map:
  "(\<And>x. x \<in> set xs \<Longrightarrow> f (g x) = Inr x) \<Longrightarrow> collect_results f (map g xs) = Inr xs"
  by (induction xs) auto

lemma collect_results_eq_Inr [result_inv]:
  "collect_results f xs = Inr ys \<longleftrightarrow> list_all2 (\<lambda>x y. f x = Inr y) xs ys"
proof (induction xs arbitrary: ys)
  case (Cons x xs)
  then show ?case by (cases ys) (auto simp: result_inv)
qed auto

lemma to_meta_planned:
  "text_law cl \<Longrightarrow> to_meta cl \<lparr>amp_pubkey = pubkey_to_string cl (meta_pubkey a),
     amp_is_signer = meta_is_signer a, amp_is_writable = meta_is_writable a\<rparr> = Inr a"
  by (cases a) (simp add: to_meta_def text_lawD meta_new_def meta_new_readonly_def)

lemma to_instruction_planned: "text_law cl \<Longrightarrow> to_instruction cl (planned_from cl ix) = Inr ix"
  by (cases ix) (simp add: to_instruction_def planned_from_def text_lawD
      collect_results_map [where f = "to_meta cl"] to_meta_planned)

lemma plan_round_trip:
  "text_law cl \<Longrightarrow> to_solana_instructions cl (plan_new cl action pid ixs signers expiry) = Inr ixs"
  by (simp add: to_solana_instructions_def plan_new_def collect_results_map to_instruction_planned)

lemma plan_new_simps [simp]:
  "plan_program_id (plan_new cl action pid ixs signers expiry) = pubkey_to_string cl pid"
  "plan_required_signers (plan_new cl action pid ixs signers expiry) = map (pubkey_to_string cl) signers"
  "plan_expires_at (plan_new cl action pid ixs signers expiry) = expiry"
  "plan_action (plan_new cl action pid ixs signers expiry) = action"
  by (simp_all add: plan_new_def)

section \<open>The check before sending\<close>

text \<open>The loop over the instructions: each goes to the planned program, or to the precompile with an
  instruction of the planned program right behind it.\<close>

fun check_programs :: "client \<Rightarrow> address \<Rightarrow> address \<Rightarrow> tx_instruction list \<Rightarrow> SdkError + unit" where
  "check_programs cl plan_program ed25519 [] = Inr ()"
| "check_programs cl plan_program ed25519 (ix # ixs) =
     (if ix_program_id ix = plan_program then check_programs cl plan_program ed25519 ixs
      else if ix_program_id ix = ed25519 then
        (case ixs of
           [] \<Rightarrow> Inl (InvalidInput ''Ed25519 instruction must precede SubmitReceipt'')
         | next # _ \<Rightarrow>
             (if ix_program_id next \<noteq> plan_program
              then Inl (InvalidInput ''Ed25519 instruction must immediately precede AgentBond SubmitReceipt'')
              else check_programs cl plan_program ed25519 ixs))
      else Inl (InvalidInput (''plan contains disallowed program '' @ pubkey_to_string cl (ix_program_id ix))))"

definition meta_signers :: "client \<Rightarrow> tx_instruction list \<Rightarrow> string set" where
  "meta_signers cl ixs =
     set (map (\<lambda>acc. pubkey_to_string cl (meta_pubkey acc)) (filter meta_is_signer (concat (map ix_accounts ixs))))"

fun check_required :: "string set \<Rightarrow> string list \<Rightarrow> SdkError + unit" where
  "check_required present [] = Inr ()"
| "check_required present (required # rest) =
     (if required \<notin> present
      then Inl (InvalidInput (''required signer '' @ required @ '' missing from instruction account metadata''))
      else check_required present rest)"

definition validate_plan_instructions :: "client \<Rightarrow> InstructionPlan \<Rightarrow> address \<Rightarrow> i64 \<Rightarrow> SdkError + unit" where
  "validate_plan_instructions cl plan expected_program now =
     tryE (ok_or (pubkey_from_str cl (plan_program_id plan)) (InvalidPubkey (plan_program_id plan))) (\<lambda>plan_program.
     tryE (ensure (plan_program = expected_program)
       (InvalidInput ''plan.program_id does not match configured program'')) (\<lambda>_.
     tryE (ensure (\<not> (case plan_expires_at plan of None \<Rightarrow> False | Some expires \<Rightarrow> expires <s now))
       (InvalidInput ''plan has expired'')) (\<lambda>_.
     tryE (to_solana_instructions cl plan) (\<lambda>ixs.
     tryE (ensure (ixs \<noteq> []) (InvalidInput ''plan has no instructions'')) (\<lambda>_.
     tryE (ok_or (pubkey_from_str cl ED25519_PROGRAM_ID_STR) (InvalidInput ''bad ed25519 program id'')) (\<lambda>ed25519.
     tryE (check_programs cl plan_program ed25519 ixs) (\<lambda>_.
     check_required (meta_signers cl ixs) (plan_required_signers plan))))))))"

lemma check_required_eq_Inr [result_inv]:
  "check_required present required = Inr u \<longleftrightarrow> set required \<subseteq> present"
  by (induction required) auto

text \<open>What the loop accepts, by position.\<close>

definition programs_allowed :: "address \<Rightarrow> tx_instruction list \<Rightarrow> bool" where
  "programs_allowed pid ixs \<longleftrightarrow>
     (\<forall>i < length ixs. ix_program_id (ixs ! i) = pid \<or>
        ix_program_id (ixs ! i) = ED25519_PROGRAM_ID \<and> Suc i < length ixs \<and> ix_program_id (ixs ! Suc i) = pid)"

lemma programs_allowed_Nil [simp]: "programs_allowed pid []"
  by (simp add: programs_allowed_def)

lemma programs_allowed_Cons [simp]:
  "programs_allowed pid (ix # ixs) \<longleftrightarrow>
     (ix_program_id ix = pid \<or>
        ix_program_id ix = ED25519_PROGRAM_ID \<and> ixs \<noteq> [] \<and> ix_program_id (hd ixs) = pid) \<and>
     programs_allowed pid ixs"
proof -
  have "Suc 0 < length (ix # ixs) \<and> ix_program_id ((ix # ixs) ! Suc 0) = pid \<longleftrightarrow>
      ixs \<noteq> [] \<and> ix_program_id (hd ixs) = pid"
    by (cases ixs) simp_all
  then show ?thesis
    by (simp only: programs_allowed_def list.size(4) add_0_right add_Suc_right All_less_Suc2 nth_Cons_0 nth_Cons_Suc
        Suc_less_eq One_nat_def)
qed

lemma check_programs_eq_Inr [result_inv]:
  "check_programs cl pid ED25519_PROGRAM_ID ixs = Inr u \<longleftrightarrow> programs_allowed pid ixs"
proof (induction ixs)
  case (Cons ix ixs)
  then show ?case by (cases ixs) auto
qed simp

lemma validate_plan_eq_Inr:
  assumes "text_law cl"
  shows "validate_plan_instructions cl plan pid now = Inr u \<longleftrightarrow>
    pubkey_from_str cl (plan_program_id plan) = Some pid \<and>
    (\<forall>t. plan_expires_at plan = Some t \<longrightarrow> now \<le>s t) \<and>
    (\<exists>ixs. to_solana_instructions cl plan = Inr ixs \<and> ixs \<noteq> [] \<and> programs_allowed pid ixs \<and>
       set (plan_required_signers plan) \<subseteq> meta_signers cl ixs)"
  using text_lawD(3) [OF assms]
  by (auto simp: validate_plan_instructions_def result_inv signed.not_less split: option.splits)

end
