(* ===== verification/Sdk_Instruction.thy ===== *)
theory Sdk_Instruction
  imports Sdk_Plan
begin

text \<open>
  The client's instruction builders, \<^verbatim>\<open>host/crates/agentbond-sdk/src/instruction.rs\<close>: one function per
  instruction of the program (\<open>SubmitReceipt\<close> has its own, in \<open>Sdk_Receipt\<close>). Each derives the addresses,
  lists the account metas in the order the handler takes them, encodes the data and wraps the
  instruction into a plan.

  \<open>built\<close> collects the builders into one relation between an instruction of the program and the
  plans that ask for it, and \<open>built_plan\<close> shows what all of them share.
\<close>

section \<open>Shared checks\<close>

definition system_program :: address where
  "system_program = fill32 0"

definition empty :: "InstructionKind \<Rightarrow> SdkError + bytes" where
  "empty kind = map_err sdk_from_protocol (encode_empty kind)"

definition require_amount :: "u64 \<Rightarrow> SdkError + unit" where
  "require_amount amount = ensure (amount \<noteq> 0) SdkInvalidAmount"

definition require_deadline_order :: "i64 \<Rightarrow> i64 \<Rightarrow> i64 \<Rightarrow> i64 \<Rightarrow> i64 \<Rightarrow> SdkError + unit" where
  "require_deadline_order now fund accept work auto_settle =
     ensure (now <s fund \<and> fund <s accept \<and> accept <s work \<and> work <s auto_settle) SdkInvalidDeadlineOrder"

text \<open>The field access of \<open>config_pda(program_id)?.address\<close>.\<close>

abbreviation address_of :: "SdkError + Pda \<Rightarrow> SdkError + address" where
  "address_of r \<equiv> tryE r (\<lambda>p. Inr (pda_address p))"

section \<open>Builders\<close>

definition plan_initialize_config ::
    "client \<Rightarrow> address \<Rightarrow> address \<Rightarrow> InitializeConfigPayload \<Rightarrow> SdkError + InstructionPlan" where
  "plan_initialize_config cl program_id admin payload =
     tryE (ensure (icp_min_provider_bond payload \<noteq> 0) SdkInvalidAmount) (\<lambda>_.
     tryE (ensure (\<not> icp_challenge_duration_seconds payload \<le>s 0)
       (InvalidInput ''challenge_duration must be > 0'')) (\<lambda>_.
     tryE (address_of (config_pda cl program_id)) (\<lambda>config.
     let ix = \<lparr>ix_program_id = program_id, ix_accounts = [
           meta_new admin True,
           meta_new config False,
           meta_new_readonly system_program False], ix_data = encode_initialize_config payload\<rparr>
     in Inr (plan_new cl ''initialize_config'' program_id [ix] [admin] None))))"

definition plan_set_paused ::
    "client \<Rightarrow> address \<Rightarrow> address \<Rightarrow> bool \<Rightarrow> SdkError + InstructionPlan" where
  "plan_set_paused cl program_id admin paused =
     tryE (address_of (config_pda cl program_id)) (\<lambda>config.
     let ix = \<lparr>ix_program_id = program_id, ix_accounts = [
           meta_new_readonly admin True,
           meta_new config False], ix_data = encode_set_paused paused\<rparr>
     in Inr (plan_new cl ''set_paused'' program_id [ix] [admin] None))"

definition plan_register_provider ::
    "client \<Rightarrow> address \<Rightarrow> address \<Rightarrow> SdkError + InstructionPlan" where
  "plan_register_provider cl program_id authority =
     tryE (address_of (config_pda cl program_id)) (\<lambda>config.
     tryE (address_of (provider_pda cl program_id authority)) (\<lambda>provider.
     tryE (empty RegisterProviderKind) (\<lambda>data.
     let ix = \<lparr>ix_program_id = program_id, ix_accounts = [
           meta_new authority True,
           meta_new_readonly config False,
           meta_new provider False,
           meta_new_readonly system_program False], ix_data = data\<rparr>
     in Inr (plan_new cl ''register_provider'' program_id [ix] [authority] None))))"

definition plan_add_execution_key ::
    "client \<Rightarrow> address \<Rightarrow> address \<Rightarrow> bytes32 \<Rightarrow> SdkError + InstructionPlan" where
  "plan_add_execution_key cl program_id authority key =
     tryE (ensure (key \<noteq> fill32 0) (InvalidInput ''execution key must be nonzero'')) (\<lambda>_.
     tryE (address_of (provider_pda cl program_id authority)) (\<lambda>provider.
     let ix = \<lparr>ix_program_id = program_id, ix_accounts = [
           meta_new_readonly authority True,
           meta_new provider False], ix_data = encode_add_execution_key key\<rparr>
     in Inr (plan_new cl ''add_execution_key'' program_id [ix] [authority] None)))"

definition plan_revoke_execution_key ::
    "client \<Rightarrow> address \<Rightarrow> address \<Rightarrow> bytes32 \<Rightarrow> SdkError + InstructionPlan" where
  "plan_revoke_execution_key cl program_id authority key =
     tryE (address_of (provider_pda cl program_id authority)) (\<lambda>provider.
     let ix = \<lparr>ix_program_id = program_id, ix_accounts = [
           meta_new_readonly authority True,
           meta_new provider False], ix_data = encode_revoke_execution_key key\<rparr>
     in Inr (plan_new cl ''revoke_execution_key'' program_id [ix] [authority] None))"

definition plan_deposit_bond ::
    "client \<Rightarrow> address \<Rightarrow> address \<Rightarrow> address \<Rightarrow> u64 \<Rightarrow> SdkError + InstructionPlan" where
  "plan_deposit_bond cl program_id authority mint amount =
     tryE (require_amount amount) (\<lambda>_.
     tryE (address_of (config_pda cl program_id)) (\<lambda>config.
     tryE (address_of (provider_pda cl program_id authority)) (\<lambda>provider.
     tryE (address_of (provider_bond_pda cl program_id authority mint)) (\<lambda>bond.
     let vault = bond_vault_ata cl bond mint;
         authority_ata = user_settlement_ata cl authority mint
     in let ix = \<lparr>ix_program_id = program_id, ix_accounts = [
           meta_new authority True,
           meta_new_readonly config False,
           meta_new_readonly provider False,
           meta_new bond False,
           meta_new vault False,
           meta_new authority_ata False,
           meta_new_readonly mint False,
           meta_new_readonly (spl_token_id cl) False,
           meta_new_readonly system_program False], ix_data = encode_deposit_bond amount\<rparr>
     in Inr (plan_new cl ''deposit_bond'' program_id [ix] [authority] None)))))"

definition plan_withdraw_bond ::
    "client \<Rightarrow> address \<Rightarrow> address \<Rightarrow> address \<Rightarrow> u64 \<Rightarrow> SdkError + InstructionPlan" where
  "plan_withdraw_bond cl program_id authority mint amount =
     tryE (require_amount amount) (\<lambda>_.
     tryE (address_of (provider_bond_pda cl program_id authority mint)) (\<lambda>bond.
     let vault = bond_vault_ata cl bond mint;
         authority_ata = user_settlement_ata cl authority mint
     in let ix = \<lparr>ix_program_id = program_id, ix_accounts = [
           meta_new_readonly authority True,
           meta_new bond False,
           meta_new vault False,
           meta_new authority_ata False,
           meta_new_readonly mint False,
           meta_new_readonly (spl_token_id cl) False], ix_data = encode_withdraw_bond amount\<rparr>
     in Inr (plan_new cl ''withdraw_bond'' program_id [ix] [authority] None)))"

definition plan_create_job ::
    "client \<Rightarrow> address \<Rightarrow> address \<Rightarrow> address \<Rightarrow> i64 \<Rightarrow> CreateJobPayload \<Rightarrow> SdkError + InstructionPlan" where
  "plan_create_job cl program_id buyer provider_auth now payload =
     tryE (require_amount (cjp_amount payload)) (\<lambda>_.
     tryE (require_deadline_order now (cjp_fund_deadline payload) (cjp_accept_deadline payload)
       (cjp_work_deadline payload) (cjp_auto_settle_deadline payload)) (\<lambda>_.
     tryE (ensure (cjp_request_hash payload \<noteq> fill32 0) (InvalidInput ''request_hash must be nonzero'')) (\<lambda>_.
     tryE (address_of (config_pda cl program_id)) (\<lambda>config.
     tryE (address_of (provider_pda cl program_id provider_auth)) (\<lambda>provider.
     tryE (address_of (job_pda cl program_id buyer provider_auth (cjp_job_nonce payload))) (\<lambda>job.
     let ix = \<lparr>ix_program_id = program_id, ix_accounts = [
           meta_new buyer True,
           meta_new_readonly config False,
           meta_new_readonly provider False,
           meta_new job False,
           meta_new_readonly system_program False], ix_data = encode_create_job payload\<rparr>
     in Inr (plan_new cl ''create_job'' program_id [ix] [buyer] (Some (cjp_fund_deadline payload)))))))))"

definition plan_fund_job ::
    "client \<Rightarrow> address \<Rightarrow> address \<Rightarrow> address \<Rightarrow> address \<Rightarrow> u64 \<Rightarrow> SdkError + InstructionPlan" where
  "plan_fund_job cl program_id buyer provider_auth mint nonce =
     tryE (address_of (config_pda cl program_id)) (\<lambda>config.
     tryE (address_of (job_pda cl program_id buyer provider_auth nonce)) (\<lambda>job.
     let buyer_ata = user_settlement_ata cl buyer mint;
         escrow = job_escrow_ata cl job mint
     in tryE (empty FundJobKind) (\<lambda>data.
     let ix = \<lparr>ix_program_id = program_id, ix_accounts = [
           meta_new_readonly buyer True,
           meta_new_readonly config False,
           meta_new job False,
           meta_new buyer_ata False,
           meta_new escrow False,
           meta_new_readonly mint False,
           meta_new_readonly (spl_token_id cl) False], ix_data = data\<rparr>
     in Inr (plan_new cl ''fund_job'' program_id [ix] [buyer] None))))"

definition plan_accept_job ::
    "client \<Rightarrow> address \<Rightarrow> address \<Rightarrow> address \<Rightarrow> address \<Rightarrow> u64 \<Rightarrow> SdkError + InstructionPlan" where
  "plan_accept_job cl program_id provider_auth buyer mint nonce =
     tryE (address_of (config_pda cl program_id)) (\<lambda>config.
     tryE (address_of (provider_pda cl program_id provider_auth)) (\<lambda>provider.
     tryE (address_of (provider_bond_pda cl program_id provider_auth mint)) (\<lambda>bond.
     tryE (address_of (job_pda cl program_id buyer provider_auth nonce)) (\<lambda>job.
     tryE (empty AcceptJobKind) (\<lambda>data.
     let ix = \<lparr>ix_program_id = program_id, ix_accounts = [
           meta_new_readonly provider_auth True,
           meta_new_readonly config False,
           meta_new_readonly provider False,
           meta_new bond False,
           meta_new job False], ix_data = data\<rparr>
     in Inr (plan_new cl ''accept_job'' program_id [ix] [provider_auth] None))))))"

definition plan_accept_work ::
    "client \<Rightarrow> address \<Rightarrow> address \<Rightarrow> address \<Rightarrow> address \<Rightarrow> u64 \<Rightarrow> SdkError + InstructionPlan" where
  "plan_accept_work cl program_id buyer provider_auth mint nonce =
     tryE (address_of (job_pda cl program_id buyer provider_auth nonce)) (\<lambda>job.
     tryE (address_of (provider_bond_pda cl program_id provider_auth mint)) (\<lambda>bond.
     let escrow = job_escrow_ata cl job mint;
         provider_ata = user_settlement_ata cl provider_auth mint;
         buyer_ata = user_settlement_ata cl buyer mint
     in tryE (empty AcceptWorkKind) (\<lambda>data.
     let ix = \<lparr>ix_program_id = program_id, ix_accounts = [
           meta_new_readonly buyer True,
           meta_new job False,
           meta_new bond False,
           meta_new escrow False,
           meta_new provider_ata False,
           meta_new buyer_ata False,
           meta_new_readonly mint False,
           meta_new_readonly (spl_token_id cl) False], ix_data = data\<rparr>
     in Inr (plan_new cl ''accept_work'' program_id [ix] [buyer] None))))"

definition plan_challenge_work ::
    "client \<Rightarrow> address \<Rightarrow> address \<Rightarrow> address \<Rightarrow> u64 \<Rightarrow> bytes32 \<Rightarrow> SdkError + InstructionPlan" where
  "plan_challenge_work cl program_id buyer provider_auth nonce reason_hash =
     tryE (address_of (config_pda cl program_id)) (\<lambda>config.
     tryE (address_of (job_pda cl program_id buyer provider_auth nonce)) (\<lambda>job.
     tryE (address_of (challenge_pda cl program_id job)) (\<lambda>challenge.
     let ix = \<lparr>ix_program_id = program_id, ix_accounts = [
           meta_new buyer True,
           meta_new_readonly config False,
           meta_new job False,
           meta_new challenge False,
           meta_new_readonly system_program False], ix_data = encode_challenge_work reason_hash\<rparr>
     in Inr (plan_new cl ''challenge_work'' program_id [ix] [buyer] None))))"

definition plan_resolve_timeout_settle ::
    "client \<Rightarrow> address \<Rightarrow> address \<Rightarrow> address \<Rightarrow> address \<Rightarrow> address \<Rightarrow> u64 \<Rightarrow> bool \<Rightarrow> SdkError + InstructionPlan" where
  "plan_resolve_timeout_settle cl program_id payer buyer provider_auth mint nonce with_challenge =
     tryE (address_of (job_pda cl program_id buyer provider_auth nonce)) (\<lambda>job.
     tryE (address_of (provider_bond_pda cl program_id provider_auth mint)) (\<lambda>bond.
     let escrow = job_escrow_ata cl job mint;
         provider_ata = user_settlement_ata cl provider_auth mint;
         buyer_ata = user_settlement_ata cl buyer mint;
         accounts = [
           meta_new_readonly payer True,
           meta_new job False,
           meta_new bond False,
           meta_new escrow False,
           meta_new provider_ata False,
           meta_new buyer_ata False,
           meta_new buyer False,
           meta_new_readonly mint False,
           meta_new_readonly (spl_token_id cl) False]
     in tryE (if with_challenge
       then tryE (address_of (challenge_pda cl program_id job)) (\<lambda>challenge.
         Inr (accounts @ [meta_new challenge False]))
       else Inr accounts) (\<lambda>accounts.
     tryE (empty ResolveTimeoutSettleKind) (\<lambda>data.
     let ix = \<lparr>ix_program_id = program_id, ix_accounts = accounts, ix_data = data\<rparr>
     in Inr (plan_new cl ''resolve_timeout_settle'' program_id [ix] [payer] None)))))"

definition plan_resolve_timeout_refund ::
    "client \<Rightarrow> address \<Rightarrow> address \<Rightarrow> address \<Rightarrow> address \<Rightarrow> address \<Rightarrow> u64 \<Rightarrow> SdkError + InstructionPlan" where
  "plan_resolve_timeout_refund cl program_id payer buyer provider_auth mint nonce =
     tryE (address_of (job_pda cl program_id buyer provider_auth nonce)) (\<lambda>job.
     tryE (address_of (provider_bond_pda cl program_id provider_auth mint)) (\<lambda>bond.
     let escrow = job_escrow_ata cl job mint;
         buyer_ata = user_settlement_ata cl buyer mint
     in tryE (empty ResolveTimeoutRefundKind) (\<lambda>data.
     let ix = \<lparr>ix_program_id = program_id, ix_accounts = [
           meta_new_readonly payer True,
           meta_new job False,
           meta_new bond False,
           meta_new escrow False,
           meta_new buyer_ata False,
           meta_new buyer False,
           meta_new_readonly mint False,
           meta_new_readonly (spl_token_id cl) False], ix_data = data\<rparr>
     in Inr (plan_new cl ''resolve_timeout_refund'' program_id [ix] [payer] None))))"

definition plan_expire_unfunded ::
    "client \<Rightarrow> address \<Rightarrow> address \<Rightarrow> address \<Rightarrow> address \<Rightarrow> u64 \<Rightarrow> SdkError + InstructionPlan" where
  "plan_expire_unfunded cl program_id payer buyer provider_auth nonce =
     tryE (address_of (job_pda cl program_id buyer provider_auth nonce)) (\<lambda>job.
     tryE (empty ExpireUnfundedKind) (\<lambda>data.
     let ix = \<lparr>ix_program_id = program_id, ix_accounts = [
           meta_new_readonly payer True,
           meta_new job False], ix_data = data\<rparr>
     in Inr (plan_new cl ''expire_unfunded'' program_id [ix] [payer] None)))"

definition plan_expire_unaccepted ::
    "client \<Rightarrow> address \<Rightarrow> address \<Rightarrow> address \<Rightarrow> address \<Rightarrow> address \<Rightarrow> u64 \<Rightarrow> SdkError + InstructionPlan" where
  "plan_expire_unaccepted cl program_id payer buyer provider_auth mint nonce =
     tryE (address_of (job_pda cl program_id buyer provider_auth nonce)) (\<lambda>job.
     tryE (address_of (provider_bond_pda cl program_id provider_auth mint)) (\<lambda>bond.
     let escrow = job_escrow_ata cl job mint;
         buyer_ata = user_settlement_ata cl buyer mint
     in tryE (empty ExpireUnacceptedKind) (\<lambda>data.
     let ix = \<lparr>ix_program_id = program_id, ix_accounts = [
           meta_new_readonly payer True,
           meta_new job False,
           meta_new bond False,
           meta_new escrow False,
           meta_new buyer_ata False,
           meta_new buyer False,
           meta_new_readonly mint False,
           meta_new_readonly (spl_token_id cl) False], ix_data = data\<rparr>
     in Inr (plan_new cl ''expire_unaccepted'' program_id [ix] [payer] None))))"

definition plan_slash_bond ::
    "client \<Rightarrow> address \<Rightarrow> address \<Rightarrow> address \<Rightarrow> address \<Rightarrow> address \<Rightarrow> u64 \<Rightarrow> SdkError + InstructionPlan" where
  "plan_slash_bond cl program_id admin buyer provider_auth mint nonce =
     tryE (address_of (config_pda cl program_id)) (\<lambda>config.
     tryE (address_of (job_pda cl program_id buyer provider_auth nonce)) (\<lambda>job.
     tryE (address_of (provider_bond_pda cl program_id provider_auth mint)) (\<lambda>bond.
     tryE (address_of (challenge_pda cl program_id job)) (\<lambda>challenge.
     let vault = bond_vault_ata cl bond mint;
         escrow = job_escrow_ata cl job mint;
         buyer_ata = user_settlement_ata cl buyer mint
     in tryE (empty SlashBondKind) (\<lambda>data.
     let ix = \<lparr>ix_program_id = program_id, ix_accounts = [
           meta_new_readonly admin True,
           meta_new_readonly config False,
           meta_new job False,
           meta_new bond False,
           meta_new vault False,
           meta_new escrow False,
           meta_new buyer_ata False,
           meta_new buyer False,
           meta_new challenge False,
           meta_new_readonly mint False,
           meta_new_readonly (spl_token_id cl) False], ix_data = data\<rparr>
     in Inr (plan_new cl ''slash_bond'' program_id [ix] [admin] None))))))"

definition plan_close_job ::
    "client \<Rightarrow> address \<Rightarrow> address \<Rightarrow> address \<Rightarrow> address \<Rightarrow> u64 \<Rightarrow> bool \<Rightarrow> SdkError + InstructionPlan" where
  "plan_close_job cl program_id buyer provider_auth mint nonce include_escrow =
     tryE (address_of (job_pda cl program_id buyer provider_auth nonce)) (\<lambda>job.
     let accounts = [
           meta_new_readonly buyer True,
           meta_new job False,
           meta_new buyer False];
         accounts = (if include_escrow
           then accounts @ [meta_new (job_escrow_ata cl job mint) False, meta_new_readonly (spl_token_id cl) False]
           else accounts)
     in tryE (empty CloseJobKind) (\<lambda>data.
     let ix = \<lparr>ix_program_id = program_id, ix_accounts = accounts, ix_data = data\<rparr>
     in Inr (plan_new cl ''close_job'' program_id [ix] [buyer] None)))"

section \<open>What the builders share\<close>

inductive built :: "client \<Rightarrow> address \<Rightarrow> Instruction \<Rightarrow> InstructionPlan \<Rightarrow> bool" where
  built_initialize_config: "plan_initialize_config cl program_id admin payload = Inr plan \<Longrightarrow> built cl program_id (InitializeConfig payload) plan"
| built_set_paused: "plan_set_paused cl program_id admin paused = Inr plan \<Longrightarrow> built cl program_id (SetPaused paused) plan"
| built_register_provider: "plan_register_provider cl program_id authority = Inr plan \<Longrightarrow> built cl program_id RegisterProvider plan"
| built_add_execution_key: "plan_add_execution_key cl program_id authority key = Inr plan \<Longrightarrow> built cl program_id (AddExecutionKey key) plan"
| built_revoke_execution_key: "plan_revoke_execution_key cl program_id authority key = Inr plan \<Longrightarrow> built cl program_id (RevokeExecutionKey key) plan"
| built_deposit_bond: "plan_deposit_bond cl program_id authority mint amount = Inr plan \<Longrightarrow> built cl program_id (DepositBond amount) plan"
| built_withdraw_bond: "plan_withdraw_bond cl program_id authority mint amount = Inr plan \<Longrightarrow> built cl program_id (WithdrawBond amount) plan"
| built_create_job: "plan_create_job cl program_id buyer provider_auth now payload = Inr plan \<Longrightarrow> built cl program_id (CreateJob payload) plan"
| built_fund_job: "plan_fund_job cl program_id buyer provider_auth mint nonce = Inr plan \<Longrightarrow> built cl program_id FundJob plan"
| built_accept_job: "plan_accept_job cl program_id provider_auth buyer mint nonce = Inr plan \<Longrightarrow> built cl program_id AcceptJob plan"
| built_accept_work: "plan_accept_work cl program_id buyer provider_auth mint nonce = Inr plan \<Longrightarrow> built cl program_id AcceptWork plan"
| built_challenge_work: "plan_challenge_work cl program_id buyer provider_auth nonce reason_hash = Inr plan \<Longrightarrow> built cl program_id (ChallengeWork reason_hash) plan"
| built_resolve_timeout_settle: "plan_resolve_timeout_settle cl program_id payer buyer provider_auth mint nonce with_challenge = Inr plan \<Longrightarrow> built cl program_id ResolveTimeoutSettle plan"
| built_resolve_timeout_refund: "plan_resolve_timeout_refund cl program_id payer buyer provider_auth mint nonce = Inr plan \<Longrightarrow> built cl program_id ResolveTimeoutRefund plan"
| built_expire_unfunded: "plan_expire_unfunded cl program_id payer buyer provider_auth nonce = Inr plan \<Longrightarrow> built cl program_id ExpireUnfunded plan"
| built_expire_unaccepted: "plan_expire_unaccepted cl program_id payer buyer provider_auth mint nonce = Inr plan \<Longrightarrow> built cl program_id ExpireUnaccepted plan"
| built_slash_bond: "plan_slash_bond cl program_id admin buyer provider_auth mint nonce = Inr plan \<Longrightarrow> built cl program_id SlashBond plan"
| built_close_job: "plan_close_job cl program_id buyer provider_auth mint nonce include_escrow = Inr plan \<Longrightarrow> built cl program_id CloseJob plan"

lemmas builder_defs = plan_initialize_config_def plan_set_paused_def plan_register_provider_def plan_add_execution_key_def plan_revoke_execution_key_def plan_deposit_bond_def plan_withdraw_bond_def plan_create_job_def plan_fund_job_def plan_accept_job_def plan_accept_work_def plan_challenge_work_def plan_resolve_timeout_settle_def plan_resolve_timeout_refund_def plan_expire_unfunded_def plan_expire_unaccepted_def plan_slash_bond_def plan_close_job_def

lemma sdk_checks_eq_Inr [result_inv]:
  "empty kind = Inr data \<longleftrightarrow> encode_empty kind = Inr data"
  "require_amount amount = Inr u \<longleftrightarrow> amount \<noteq> 0"
  "require_deadline_order now fund accept work auto_settle = Inr u \<longleftrightarrow>
     now <s fund \<and> fund <s accept \<and> accept <s work \<and> work <s auto_settle"
  by (simp_all add: empty_def require_amount_def require_deadline_order_def result_inv)

text \<open>\<open>single_plan\<close>: one instruction for the program, whose data encodes the instruction asked for and
  whose signing accounts are the signers the plan names.\<close>

definition single_plan :: "client \<Rightarrow> address \<Rightarrow> Instruction \<Rightarrow> AccountMeta list \<Rightarrow> InstructionPlan \<Rightarrow> bool" where
  "single_plan cl pid ins metas plan \<longleftrightarrow>
     (\<exists>action data expiry. encode_instruction ins = Inr data \<and>
        plan = plan_new cl action pid [\<lparr>ix_program_id = pid, ix_accounts = metas, ix_data = data\<rparr>]
          (map meta_pubkey (filter meta_is_signer metas)) expiry)"

lemma single_planI:
  "encode_instruction ins = Inr data \<Longrightarrow> signers = map meta_pubkey (filter meta_is_signer metas) \<Longrightarrow>
     single_plan cl pid ins metas
       (plan_new cl action pid [\<lparr>ix_program_id = pid, ix_accounts = metas, ix_data = data\<rparr>] signers expiry)"
  unfolding single_plan_def by blast

lemma built_plan: "built cl pid ins plan \<Longrightarrow> \<exists>metas. single_plan cl pid ins metas plan"
  by (induction rule: built.induct; auto simp: builder_defs result_inv Let_def split: if_splits;
      rule exI, rule single_planI; simp add: meta_new_def meta_new_readonly_def)

end
