(* ===== verification/Sdk_Receipt.thy ===== *)
theory Sdk_Receipt
  imports Sdk_Instruction Program_Ed25519
begin

text \<open>
  Building the transaction that submits a receipt, \<^verbatim>\<open>host/crates/agentbond-sdk/src/receipt.rs\<close>: a call of
  the Ed25519 precompile over the receipt's bytes, followed by the program's \<open>SubmitReceipt\<close>.

  The lemmas show that the two sides fit: the precompile call the client builds is one the program's
  introspection accepts, for the key it was built with (\<open>built_call_accepted\<close>).
\<close>

definition sdk_validate_receipt :: "AgentBondWorkReceiptV1 \<Rightarrow> SdkError + unit" where
  "sdk_validate_receipt receipt =
     tryE (map_err sdk_from_protocol (receipt_encode receipt)) (\<lambda>_.
     ensure (\<not> receipt_expires_at receipt <s receipt_created_at receipt)
       (InvalidInput ''receipt expires_at before created_at''))"

definition sdk_receipt_digest :: "(bytes \<Rightarrow> bytes32) \<Rightarrow> AgentBondWorkReceiptV1 \<Rightarrow> SdkError + bytes32" where
  "sdk_receipt_digest sha receipt = map_err sdk_from_protocol (receipt_digest sha receipt)"

text \<open>\<open>format!("receipt message must be {RECEIPT_ENCODED_LEN} bytes")\<close> with the constant written out.\<close>

definition build_ed25519_verify_instruction ::
    "client \<Rightarrow> bytes \<Rightarrow> bytes32 \<Rightarrow> bytes \<Rightarrow> SdkError + tx_instruction" where
  "build_ed25519_verify_instruction cl message public_key signature =
     tryE (ensure (length message = RECEIPT_ENCODED_LEN)
       (InvalidInput ''receipt message must be 334 bytes'')) (\<lambda>_.
     tryE (ensure (public_key \<noteq> fill32 0) (InvalidInput ''execution public key must be nonzero'')) (\<lambda>_.
     let OFFSETS_START = 2 :: nat;
         OFFSETS_SIZE = 14 :: nat;
         DATA_START = OFFSETS_START + OFFSETS_SIZE;
         public_key_offset = DATA_START;
         signature_offset = public_key_offset + 32;
         message_data_offset = signature_offset + 64;
         data = [];
         data = data @ [1, 0];
         data = data @ le_bytes 2 (of_nat signature_offset :: u16);
         data = data @ le_bytes 2 (0xffff :: u16);
         data = data @ le_bytes 2 (of_nat public_key_offset :: u16);
         data = data @ le_bytes 2 (0xffff :: u16);
         data = data @ le_bytes 2 (of_nat message_data_offset :: u16);
         data = data @ le_bytes 2 (of_nat (length message) :: u16);
         data = data @ le_bytes 2 (0xffff :: u16);
         data = data @ to_bytes public_key;
         data = data @ signature;
         data = data @ message
     in Inr \<lparr>ix_program_id = pubkey_from_str_const cl ED25519_PROGRAM_ID_STR, ix_accounts = [], ix_data = data\<rparr>))"

definition build_submit_receipt_plan_at ::
    "client \<Rightarrow> address \<Rightarrow> address \<Rightarrow> address \<Rightarrow> AgentBondWorkReceiptV1 \<Rightarrow> bytes32 \<Rightarrow> bytes \<Rightarrow> i64 option \<Rightarrow>
       SdkError + InstructionPlan" where
  "build_submit_receipt_plan_at cl program_id job provider_auth receipt execution_pubkey signature now =
     tryE (sdk_validate_receipt receipt) (\<lambda>_.
     tryE (ensure (receipt_program_id receipt = program_id)
       (InvalidInput ''receipt program_id does not match requested program'')) (\<lambda>_.
     tryE (ensure (receipt_job receipt = job)
       (InvalidInput ''receipt job does not match supplied job'')) (\<lambda>_.
     tryE (ensure (receipt_provider receipt = provider_auth)
       (InvalidInput ''receipt provider does not match supplied provider'')) (\<lambda>_.
     tryE (ensure (execution_pubkey \<noteq> fill32 0) (InvalidInput ''execution public key must be nonzero'')) (\<lambda>_.
     tryE (ensure (\<not> (case now of None \<Rightarrow> False | Some ts \<Rightarrow> receipt_expires_at receipt <s ts))
       (InvalidInput ''receipt is expired'')) (\<lambda>_.
     tryE (map_err sdk_from_protocol (receipt_encode receipt)) (\<lambda>encoded.
     tryE (ensure (length encoded = RECEIPT_ENCODED_LEN)
       (InvalidInput ''canonical receipt must be 334 bytes'')) (\<lambda>_.
     tryE (build_ed25519_verify_instruction cl encoded execution_pubkey signature) (\<lambda>ed.
     tryE (address_of (config_pda cl program_id)) (\<lambda>config.
     tryE (address_of (provider_pda cl program_id provider_auth)) (\<lambda>provider.
     let instructions_sysvar = pubkey_from_str_const cl SYSVAR_INSTRUCTIONS_STR
     in tryE (map_err sdk_from_protocol (encode_submit_receipt receipt)) (\<lambda>data.
     let submit = \<lparr>ix_program_id = program_id, ix_accounts = [
           meta_new_readonly config False,
           meta_new_readonly provider False,
           meta_new job False,
           meta_new_readonly instructions_sysvar False], ix_data = data\<rparr>
     in Inr (plan_new cl ''submit_receipt'' program_id [ed, submit] []
          (Some (receipt_expires_at receipt)))))))))))))))"

definition build_submit_receipt_plan ::
    "client \<Rightarrow> address \<Rightarrow> address \<Rightarrow> address \<Rightarrow> AgentBondWorkReceiptV1 \<Rightarrow> bytes32 \<Rightarrow> bytes \<Rightarrow>
       SdkError + InstructionPlan" where
  "build_submit_receipt_plan cl program_id job provider_auth receipt execution_pubkey signature =
     build_submit_receipt_plan_at cl program_id job provider_auth receipt execution_pubkey signature None"

section \<open>The precompile call\<close>

text \<open>The data the client builds, laid out.\<close>

definition call_data :: "bytes32 \<Rightarrow> bytes \<Rightarrow> bytes \<Rightarrow> bytes" where
  "call_data key sig msg =
     [1, 0, 48, 0, 255, 255, 16, 0, 255, 255, 112, 0, 78, 1, 255, 255] @ to_bytes key @ sig @ msg"

lemma length_call_data [simp]: "length (call_data key sig msg) = 48 + length sig + length msg"
  by (simp add: call_data_def)

lemma le_bytes_2: "le_bytes 2 (w :: u16) = [ucast w, ucast (drop_bit 8 w)]"
  by (simp add: numeral_2_eq_2)

lemma build_ed25519_eq_Inr [result_inv]:
  "build_ed25519_verify_instruction cl msg key sig = Inr ix \<longleftrightarrow>
     length msg = RECEIPT_ENCODED_LEN \<and> key \<noteq> fill32 0 \<and>
     ix = \<lparr>ix_program_id = pubkey_from_str_const cl ED25519_PROGRAM_ID_STR, ix_accounts = [],
       ix_data = call_data key sig msg\<rparr>"
  by (auto simp: build_ed25519_verify_instruction_def result_inv Let_def call_data_def le_bytes_2)

lemma seg_skip: "length xs = a \<Longrightarrow> a \<le> b \<Longrightarrow> seg a b (xs @ ys) = take (b - a) ys"
  by (simp add: seg_def)

lemma built_call_segments:
  assumes "length sig = 64" "length msg = 334"
  shows "seg 16 48 (call_data key sig msg) = to_bytes key"
    "seg 48 112 (call_data key sig msg) = sig" "seg 112 446 (call_data key sig msg) = msg"
proof -
  let ?h = "[1, 0, 48, 0, 255, 255, 16, 0, 255, 255, 112, 0, 78, 1, 255, 255] :: bytes"
  have d: "call_data key sig msg = ?h @ (to_bytes key @ sig @ msg)"
    "call_data key sig msg = (?h @ to_bytes key) @ (sig @ msg)"
    "call_data key sig msg = (?h @ to_bytes key @ sig) @ msg"
    by (simp_all add: call_data_def)
  show "seg 16 48 (call_data key sig msg) = to_bytes key"
    unfolding d(1) by (subst seg_skip) simp_all
  show "seg 48 112 (call_data key sig msg) = sig"
    unfolding d(2) using assms by (subst seg_skip) simp_all
  show "seg 112 446 (call_data key sig msg) = msg"
    unfolding d(3) using assms by (subst seg_skip) simp_all
qed

lemma built_call_offsets:
  "u16_at (call_data key sig msg) 2 = 48" "u16_at (call_data key sig msg) 4 = 0xffff"
  "u16_at (call_data key sig msg) 6 = 16" "u16_at (call_data key sig msg) 8 = 0xffff"
  "u16_at (call_data key sig msg) 10 = 112" "u16_at (call_data key sig msg) 12 = 334"
  "u16_at (call_data key sig msg) 14 = 0xffff" "call_data key sig msg ! 0 = 1"
  by (simp_all add: u16_at_def call_data_def)

text \<open>Whatever position the instruction has, the program's introspection takes the call the client
  builds as a check of this signature by this key over this receipt.\<close>

lemma built_call_accepted:
  assumes "length sig = 64" "length msg = RECEIPT_ENCODED_LEN"
  shows "precompile_call (call_data key sig msg) here sig key msg"
  using assms built_call_segments [of sig msg key]
  by (simp add: precompile_call_def built_call_offsets self_index_def)

lemma built_call_parses:
  assumes "length sig = 64" "length msg = RECEIPT_ENCODED_LEN"
  shows "parse_ed25519_instruction_data (call_data key sig msg) msg here = Inr key"
  using built_call_accepted [OF assms] assms by (auto simp: parse_ed25519_eq_Inr)

section \<open>The plan\<close>

lemma sdk_validate_receipt_eq_Inr [result_inv]:
  "sdk_validate_receipt r = Inr u \<longleftrightarrow> receipt_ok r \<and> receipt_created_at r \<le>s receipt_expires_at r"
  using receipt_encode_ok receipt_encode_Inr_ok
  by (auto simp: sdk_validate_receipt_def result_inv signed.not_less)

lemma receipt_plan_inv:
  assumes "build_submit_receipt_plan_at cl pid job prov r key sig now = Inr plan"
  obtains msg data cfg pda where
    "receipt_encode r = Inr msg" "encode_instruction (SubmitReceipt r) = Inr data"
    "receipt_created_at r \<le>s receipt_expires_at r" "\<And>ts. now = Some ts \<Longrightarrow> ts \<le>s receipt_expires_at r"
    "receipt_program_id r = pid" "receipt_job r = job" "receipt_provider r = prov" "key \<noteq> fill32 0"
    "config_pda cl pid = Inr cfg" "provider_pda cl pid prov = Inr pda"
    "plan = plan_new cl ''submit_receipt'' pid
       [\<lparr>ix_program_id = pubkey_from_str_const cl ED25519_PROGRAM_ID_STR, ix_accounts = [],
          ix_data = call_data key sig msg\<rparr>,
        \<lparr>ix_program_id = pid, ix_accounts = [meta_new_readonly (pda_address cfg) False,
          meta_new_readonly (pda_address pda) False, meta_new job False,
          meta_new_readonly (pubkey_from_str_const cl SYSVAR_INSTRUCTIONS_STR) False], ix_data = data\<rparr>]
       [] (Some (receipt_expires_at r))"
  using assms
  by (auto simp: build_submit_receipt_plan_at_def result_inv Let_def signed.not_less split: option.splits)

end
