(* ===== verification/Text_Util.thy ===== *)
theory Text_Util
  imports Prelude
begin

text \<open>
  What the host crates use of Rust's string functions. A string is the list of its bytes in UTF-8; \<open>trim\<close>
  removes the white space of Unicode.
\<close>

section \<open>Formatting\<close>

text \<open>Decimal notation, as \<open>format!\<close> writes an unsigned integer.\<close>

fun decimal :: "nat \<Rightarrow> string" where
  "decimal n = (if n < 10 then [char_of (48 + n)] else decimal (n div 10) @ [char_of (48 + n mod 10)])"

declare decimal.simps [simp del]

text \<open>\<open>format!("{b:02x}")\<close> over bytes.\<close>

definition hex_digit :: "nat \<Rightarrow> char" where
  "hex_digit n = char_of (if n < 10 then 48 + n else 87 + n)"

definition hex :: "bytes \<Rightarrow> string" where
  "hex bs = concat (map (\<lambda>b. [hex_digit (unat b div 16), hex_digit (unat b mod 16)]) bs)"

lemma length_hex [simp]: "length (hex bs) = 2 * length bs"
  by (induction bs) (simp_all add: hex_def)

lemma hex_Nil [simp]: "hex [] = []"
  by (simp add: hex_def)

section \<open>Slicing\<close>

definition starts_with :: "string \<Rightarrow> string \<Rightarrow> bool" where
  "starts_with s p \<longleftrightarrow> take (length p) s = p"

text \<open>\<open>s.chars().take(n)\<close> collected: the bytes \<open>10xxxxxx\<close> continue a character.\<close>

fun take_chars :: "nat \<Rightarrow> string \<Rightarrow> string" where
  "take_chars n [] = []"
| "take_chars n (c # cs) =
     (if 128 \<le> (of_char c :: nat) \<and> (of_char c :: nat) < 192 then c # take_chars n cs
      else case n of 0 \<Rightarrow> [] | Suc n \<Rightarrow> c # take_chars n cs)"

definition is_space :: "char \<Rightarrow> bool" where
  "is_space c \<longleftrightarrow> (of_char c :: nat) \<in> {9, 10, 11, 12, 13, 32}"

text \<open>\<open>str::trim\<close>: the characters with the property \<open>White_Space\<close>, in UTF-8. Those of ASCII are \<open>is_space\<close>.\<close>

definition white_space :: "string list" where
  "white_space =
    [[CHR 0x09], [CHR 0x0A], [CHR 0x0B], [CHR 0x0C], [CHR 0x0D], [CHR 0x20], [CHR 0xC2, CHR 0x85],
     [CHR 0xC2, CHR 0xA0], [CHR 0xE1, CHR 0x9A, CHR 0x80], [CHR 0xE2, CHR 0x80, CHR 0x80],
     [CHR 0xE2, CHR 0x80, CHR 0x81], [CHR 0xE2, CHR 0x80, CHR 0x82], [CHR 0xE2, CHR 0x80, CHR 0x83],
     [CHR 0xE2, CHR 0x80, CHR 0x84], [CHR 0xE2, CHR 0x80, CHR 0x85], [CHR 0xE2, CHR 0x80, CHR 0x86],
     [CHR 0xE2, CHR 0x80, CHR 0x87], [CHR 0xE2, CHR 0x80, CHR 0x88], [CHR 0xE2, CHR 0x80, CHR 0x89],
     [CHR 0xE2, CHR 0x80, CHR 0x8A], [CHR 0xE2, CHR 0x80, CHR 0xA8], [CHR 0xE2, CHR 0x80, CHR 0xA9],
     [CHR 0xE2, CHR 0x80, CHR 0xAF], [CHR 0xE2, CHR 0x81, CHR 0x9F], [CHR 0xE3, CHR 0x80, CHR 0x80]]"

fun strip_any :: "nat \<Rightarrow> string list \<Rightarrow> string \<Rightarrow> string" where
  "strip_any 0 ws s = s"
| "strip_any (Suc n) ws s =
     (case find (starts_with s) ws of None \<Rightarrow> s | Some w \<Rightarrow> strip_any n ws (drop (length w) s))"

definition trim :: "string \<Rightarrow> string" where
  "trim s =
     (let s = strip_any (length s) white_space s
      in rev (strip_any (length s) (map rev white_space) (rev s)))"

definition strip_prefix :: "string \<Rightarrow> string \<Rightarrow> string option" where
  "strip_prefix s p = (if starts_with s p then Some (drop (length p) s) else None)"

text \<open>\<open>split_once(c)\<close> and \<open>find(c)\<close>: the first occurrence.\<close>

fun split_once :: "char \<Rightarrow> string \<Rightarrow> (string \<times> string) option" where
  "split_once c [] = None"
| "split_once c (x # xs) =
     (if x = c then Some ([], xs)
      else case split_once c xs of None \<Rightarrow> None | Some (a, b) \<Rightarrow> Some (x # a, b))"

fun find_char :: "char \<Rightarrow> string \<Rightarrow> nat option" where
  "find_char c [] = None"
| "find_char c (x # xs) = (if x = c then Some 0 else map_option Suc (find_char c xs))"

text \<open>\<open>rsplit_once(c)\<close>: the last occurrence.\<close>

definition rsplit_once :: "char \<Rightarrow> string \<Rightarrow> (string \<times> string) option" where
  "rsplit_once c s =
     (case split_once c (rev s) of None \<Rightarrow> None | Some (a, b) \<Rightarrow> Some (rev b, rev a))"

section \<open>Parsing\<close>

definition digit_value :: "char \<Rightarrow> nat option" where
  "digit_value c = (let n = of_char c :: nat in if 48 \<le> n \<and> n \<le> 57 then Some (n - 48) else None)"

fun digits_value :: "nat \<Rightarrow> string \<Rightarrow> nat option" where
  "digits_value acc [] = Some acc"
| "digits_value acc (c # cs) =
     (case digit_value c of None \<Rightarrow> None | Some d \<Rightarrow> digits_value (10 * acc + d) cs)"

text \<open>\<open>str::parse\<close> for an unsigned integer below \<open>bound\<close>: digits, with an optional plus sign.\<close>

definition parse_unsigned :: "nat \<Rightarrow> string \<Rightarrow> nat option" where
  "parse_unsigned bound s =
     (let digits = (case s of CHR ''+'' # cs \<Rightarrow> cs | _ \<Rightarrow> s)
      in if digits = [] then None
         else case digits_value 0 digits of
                None \<Rightarrow> None
              | Some n \<Rightarrow> (if n < bound then Some n else None))"

section \<open>Facts\<close>

lemma starts_with_Nil [simp]: "starts_with s []" "starts_with [] p \<longleftrightarrow> p = []"
  by (auto simp: starts_with_def)

lemma starts_with_Cons [simp]: "starts_with (c # s) (d # p) \<longleftrightarrow> c = d \<and> starts_with s p"
  by (auto simp: starts_with_def)

lemma is_space_chars: "is_space c \<longleftrightarrow> c \<in> {CHR 0x09, CHR 0x0A, CHR 0x0B, CHR 0x0C, CHR 0x0D, CHR 0x20}"
proof -
  have code: "c = d \<longleftrightarrow> (of_char c :: nat) = of_char d" for d by (metis char_of_char)
  show ?thesis unfolding is_space_def insert_iff empty_iff code by simp
qed

lemma find_first_char:
  assumes "\<forall>w\<in>set ws. w \<noteq> [] \<and> hd w \<noteq> c"
  shows "find (starts_with (c # s)) (map (\<lambda>d. [d]) ds @ ws) = (if c \<in> set ds then Some [c] else None)"
proof (induction ds)
  case Nil
  have "\<not> starts_with (c # s) w" if "w \<in> set ws" for w
    using assms that by (cases w) auto
  then show ?case by (simp add: find_None_iff)
qed auto

lemma ascii_white_space:
  assumes "(of_char c :: nat) < 128"
  shows "find (starts_with (c # s)) white_space = (if is_space c then Some [c] else None)"
    and "find (starts_with (c # s)) (map rev white_space) = (if is_space c then Some [c] else None)"
proof -
  let ?ds = "[CHR 0x09, CHR 0x0A, CHR 0x0B, CHR 0x0C, CHR 0x0D, CHR 0x20]" and ?ws = "drop 6 white_space"
  have split: "white_space = map (\<lambda>d. [d]) ?ds @ ?ws" "map rev white_space = map (\<lambda>d. [d]) ?ds @ map rev ?ws"
    by (simp_all add: white_space_def)
  have "list_all (\<lambda>w. w \<noteq> [] \<and> (128 :: nat) \<le> of_char (hd w)) ?ws"
    "list_all (\<lambda>w. w \<noteq> [] \<and> (128 :: nat) \<le> of_char (hd w)) (map rev ?ws)"
    by (simp_all add: white_space_def)
  then have "\<forall>w\<in>set ?ws. w \<noteq> [] \<and> hd w \<noteq> c" "\<forall>w\<in>set (map rev ?ws). w \<noteq> [] \<and> hd w \<noteq> c"
    using assms unfolding list_all_iff by fastforce+
  note finds = this [THEN find_first_char, of s ?ds]
  have "c \<in> set ?ds \<longleftrightarrow> is_space c" by (simp add: is_space_chars)
  with finds show "find (starts_with (c # s)) white_space = (if is_space c then Some [c] else None)"
    "find (starts_with (c # s)) (map rev white_space) = (if is_space c then Some [c] else None)"
    unfolding split [symmetric] by presburger+
qed

text \<open>On ASCII text \<open>trim\<close> drops the white space of ASCII at both ends.\<close>

lemma strip_any_ascii:
  assumes "\<And>c s. (of_char c :: nat) < 128 \<Longrightarrow> find (starts_with (c # s)) ws = (if is_space c then Some [c] else None)"
    and "[] \<notin> set ws" "\<forall>c\<in>set s. (of_char c :: nat) < 128" "length s \<le> n"
  shows "strip_any n ws s = dropWhile is_space s"
  using assms(3,4)
proof (induction n arbitrary: s)
  case (Suc n)
  show ?case
  proof (cases s)
    case Nil
    have "find (starts_with []) ws = None" using assms(2) by (auto simp: find_None_iff)
    with Nil show ?thesis by simp
  next
    case (Cons c cs)
    with Suc assms(1) [of c cs] show ?thesis by simp
  qed
qed simp

lemma trim_ascii:
  assumes "\<forall>c\<in>set s. (of_char c :: nat) < 128"
  shows "trim s = rev (dropWhile is_space (rev (dropWhile is_space s)))"
proof -
  have "[] \<notin> set white_space" "[] \<notin> set (map rev white_space)" by (simp_all add: white_space_def)
  note ascii = strip_any_ascii [OF ascii_white_space(1) this(1)] strip_any_ascii [OF ascii_white_space(2) this(2)]
  have "\<forall>c\<in>set (rev (dropWhile is_space s)). (of_char c :: nat) < 128" using assms by (auto dest: set_dropWhileD)
  from ascii(1) [OF _ assms] ascii(2) [OF _ this] show ?thesis by (simp add: trim_def Let_def)
qed

lemma starts_with_append [simp]: "starts_with (p @ s) p"
  by (simp add: starts_with_def)

lemma strip_prefix_append [simp]: "strip_prefix (p @ s) p = Some s"
  by (simp add: strip_prefix_def)

lemma strip_prefix_eq_Some: "strip_prefix s p = Some r \<longleftrightarrow> s = p @ r"
  by (auto simp: strip_prefix_def starts_with_def) (metis append_take_drop_id)

lemma strip_prefix_None: "(\<And>r. s \<noteq> p @ r) \<Longrightarrow> strip_prefix s p = None"
  using strip_prefix_eq_Some [of s p] by (cases "strip_prefix s p") auto

lemma split_once_append: "c \<notin> set a \<Longrightarrow> split_once c (a @ c # b) = Some (a, b)"
  by (induction a) auto

lemma split_once_eq_Some: "split_once c s = Some (a, b) \<longleftrightarrow> s = a @ c # b \<and> c \<notin> set a"
proof
  show "split_once c s = Some (a, b) \<Longrightarrow> s = a @ c # b \<and> c \<notin> set a"
    by (induction s arbitrary: a b) (auto split: if_splits option.splits)
qed (auto simp: split_once_append)

lemma split_once_None: "c \<notin> set s \<Longrightarrow> split_once c s = None"
  by (induction s) auto

lemma find_char_append: "c \<notin> set a \<Longrightarrow> find_char c (a @ c # b) = Some (length a)"
  by (induction a) auto

lemma digits_value_append:
  "digits_value acc (s @ t) = (case digits_value acc s of None \<Rightarrow> None | Some n \<Rightarrow> digits_value n t)"
  by (induction s arbitrary: acc) (auto split: option.splits)

lemma digit_value_char: "n < 10 \<Longrightarrow> digit_value (char_of (48 + n)) = Some n"
  by (simp add: digit_value_def)

lemma digits_value_decimal: "digits_value 0 (decimal n) = Some n"
proof (induction n rule: decimal.induct)
  case (1 n)
  show ?case
  proof (cases "n < 10")
    case True
    then show ?thesis by (simp add: decimal.simps [of n] digit_value_char)
  next
    case False
    with 1 show ?thesis by (simp add: decimal.simps [of n] digits_value_append digit_value_char)
  qed
qed

lemma digit_char: "d < 10 \<Longrightarrow> char_of (48 + d :: nat) \<in> set ''0123456789''"
proof -
  assume "d < 10"
  then have "d \<in> {0, 1, 2, 3, 4, 5, 6, 7, 8, 9}" by auto
  then have "\<exists>c \<in> set ''0123456789''. of_char c = 48 + d" by auto
  then show ?thesis by (metis char_of_char)
qed

lemma decimal_digits: "set (decimal n) \<subseteq> set ''0123456789''"
proof (induction n rule: decimal.induct)
  case (1 n)
  then show ?case using digit_char [of n] digit_char [of "n mod 10"] by (subst decimal.simps) auto
qed

lemma decimal_not_Nil [simp]: "decimal n \<noteq> []"
  by (subst decimal.simps) simp

lemma parse_unsigned_decimal: "n < bound \<Longrightarrow> parse_unsigned bound (decimal n) = Some n"
proof -
  have "hd (decimal n) \<noteq> CHR ''+''"
    using subsetD [OF decimal_digits hd_in_set [OF decimal_not_Nil], of n] by auto
  then have "(case decimal n of CHR ''+'' # cs \<Rightarrow> cs | _ \<Rightarrow> decimal n) = decimal n"
    by (cases "decimal n") (auto split: list.splits char.splits bool.splits)
  moreover assume "n < bound"
  ultimately show ?thesis by (simp add: parse_unsigned_def Let_def digits_value_decimal)
qed

end
