(* ===== verification/Sdk_Decode.thy ===== *)
theory Sdk_Decode
  imports Sdk_Plan Helpers Text_Util
begin

text \<open>
  Reading the program's accounts on the client's side, \<^verbatim>\<open>host/crates/agentbond-sdk/src/decode.rs\<close>: the
  owner, the length, the layout and, against the record's own fields, the address are checked.

  \<open>decode_config\<close> checks the address before the layout, the others after it, because their address
  depends on the fields. The lemmas \<open>decode_eq_Inr\<close> say what each accepts.
\<close>

section \<open>Checks\<close>

definition sdk_require_owner :: "address \<Rightarrow> address \<Rightarrow> SdkError + unit" where
  "sdk_require_owner owner program_id = ensure (owner = program_id) WrongOwner"

definition sdk_require_address :: "address \<Rightarrow> address \<Rightarrow> SdkError + unit" where
  "sdk_require_address actual expected = ensure (actual = expected) WrongAddress"

definition sdk_require_len :: "bytes \<Rightarrow> nat \<Rightarrow> SdkError + unit" where
  "sdk_require_len data expected =
     ensure (length data = expected)
       (SdkDecode (''expected length '' @ decimal expected @ '', got '' @ decimal (length data)))"

section \<open>Decoders\<close>

definition decode_config :: "client \<Rightarrow> address \<Rightarrow> address \<Rightarrow> address \<Rightarrow> bytes \<Rightarrow> SdkError + ConfigAccount" where
  "decode_config cl program_id address owner data =
     tryE (sdk_require_owner owner program_id) (\<lambda>_.
     tryE (config_pda cl program_id) (\<lambda>pda.
     let expected = pda_address pda
     in tryE (sdk_require_address address expected) (\<lambda>_.
     tryE (sdk_require_len data CONFIG_ACCOUNT_LEN) (\<lambda>_.
     map_err (\<lambda>e. SdkDecode (as_str e)) (config_decode data)))))"

definition decode_provider :: "client \<Rightarrow> address \<Rightarrow> address \<Rightarrow> address \<Rightarrow> bytes \<Rightarrow> SdkError + ProviderAccount" where
  "decode_provider cl program_id address owner data =
     tryE (sdk_require_owner owner program_id) (\<lambda>_.
     tryE (sdk_require_len data PROVIDER_ACCOUNT_LEN) (\<lambda>_.
     tryE (map_err (\<lambda>e. SdkDecode (as_str e)) (provider_decode data)) (\<lambda>provider.
     tryE (provider_pda cl program_id (provider_authority provider)) (\<lambda>pda.
     let expected = pda_address pda
     in tryE (sdk_require_address address expected) (\<lambda>_.
     Inr provider)))))"

definition decode_provider_bond ::
    "client \<Rightarrow> address \<Rightarrow> address \<Rightarrow> address \<Rightarrow> bytes \<Rightarrow> SdkError + ProviderBondAccount" where
  "decode_provider_bond cl program_id address owner data =
     tryE (sdk_require_owner owner program_id) (\<lambda>_.
     tryE (sdk_require_len data PROVIDER_BOND_ACCOUNT_LEN) (\<lambda>_.
     tryE (map_err (\<lambda>e. SdkDecode (as_str e)) (bond_decode data)) (\<lambda>bond.
     tryE (provider_bond_pda cl program_id (bond_provider bond) (bond_mint bond)) (\<lambda>pda.
     let expected = pda_address pda
     in tryE (sdk_require_address address expected) (\<lambda>_.
     Inr bond)))))"

definition decode_job :: "client \<Rightarrow> address \<Rightarrow> address \<Rightarrow> address \<Rightarrow> bytes \<Rightarrow> SdkError + JobAccount" where
  "decode_job cl program_id address owner data =
     tryE (sdk_require_owner owner program_id) (\<lambda>_.
     tryE (sdk_require_len data JOB_ACCOUNT_LEN) (\<lambda>_.
     tryE (map_err (\<lambda>e. SdkDecode (as_str e)) (job_decode data)) (\<lambda>job.
     tryE (job_pda cl program_id (job_buyer job) (job_provider job) (job_nonce job)) (\<lambda>pda.
     let expected = pda_address pda
     in tryE (sdk_require_address address expected) (\<lambda>_.
     Inr job)))))"

definition decode_challenge :: "client \<Rightarrow> address \<Rightarrow> address \<Rightarrow> address \<Rightarrow> bytes \<Rightarrow> SdkError + ChallengeAccount" where
  "decode_challenge cl program_id address owner data =
     tryE (sdk_require_owner owner program_id) (\<lambda>_.
     tryE (sdk_require_len data CHALLENGE_ACCOUNT_LEN) (\<lambda>_.
     tryE (map_err (\<lambda>e. SdkDecode (as_str e)) (challenge_decode data)) (\<lambda>challenge.
     tryE (challenge_pda cl program_id (challenge_job challenge)) (\<lambda>pda.
     let expected = pda_address pda
     in tryE (sdk_require_address address expected) (\<lambda>_.
     Inr challenge)))))"

section \<open>What they accept\<close>

lemma sdk_require_eq_Inr [result_inv]:
  "sdk_require_owner owner pid = Inr u \<longleftrightarrow> owner = pid"
  "sdk_require_address actual expected = Inr u \<longleftrightarrow> actual = expected"
  "sdk_require_len data n = Inr u \<longleftrightarrow> length data = n"
  by (simp_all add: sdk_require_owner_def sdk_require_address_def sdk_require_len_def result_inv)

lemma decode_eq_Inr:
  "decode_config cl pid a owner data = Inr c \<longleftrightarrow>
     owner = pid \<and> config_decode data = Inr c \<and> (\<exists>pda. config_pda cl pid = Inr pda \<and> pda_address pda = a)"
  "decode_provider cl pid a owner data = Inr p \<longleftrightarrow>
     owner = pid \<and> provider_decode data = Inr p \<and>
     (\<exists>pda. provider_pda cl pid (provider_authority p) = Inr pda \<and> pda_address pda = a)"
  "decode_provider_bond cl pid a owner data = Inr b \<longleftrightarrow>
     owner = pid \<and> bond_decode data = Inr b \<and>
     (\<exists>pda. provider_bond_pda cl pid (bond_provider b) (bond_mint b) = Inr pda \<and> pda_address pda = a)"
  "decode_job cl pid a owner data = Inr j \<longleftrightarrow>
     owner = pid \<and> job_decode data = Inr j \<and>
     (\<exists>pda. job_pda cl pid (job_buyer j) (job_provider j) (job_nonce j) = Inr pda \<and> pda_address pda = a)"
  "decode_challenge cl pid a owner data = Inr ch \<longleftrightarrow>
     owner = pid \<and> challenge_decode data = Inr ch \<and>
     (\<exists>pda. challenge_pda cl pid (challenge_job ch) = Inr pda \<and> pda_address pda = a)"
  using config.decode_Inr_len [of data] provider.decode_Inr_len [of data] bond.decode_Inr_len [of data]
    job.decode_Inr_len [of data] challenge.decode_Inr_len [of data]
  by (auto simp: decode_config_def decode_provider_def decode_provider_bond_def decode_job_def
      decode_challenge_def result_inv pda_defs)

end
