(* ===== verification/App_Text.thy ===== *)
theory App_Text
  imports Text_Util
begin

text \<open>
  Hexadecimal text as the application reads it: \<open>hex_decode\<close>, \<open>hex32\<close>, \<open>hex64\<close> of
  \<^verbatim>\<open>agentbond-app/src/services.rs\<close>, which the command line repeats (\<^verbatim>\<open>plan_cmd.rs\<close>), and the \<open>hex32\<close> of
  \<^verbatim>\<open>receipt_dto.rs\<close>.

  A string is its UTF-8 bytes. Slicing a string between the bytes of one character panics, which these
  functions do on some inputs (\<open>hex_decode_panics\<close>): a panic is the failure \<open>Panicked\<close>.
\<close>

section \<open>Strings\<close>

datatype 'e failure = Fails 'e | Panicked

definition is_char_boundary :: "string \<Rightarrow> nat \<Rightarrow> bool" where
  "is_char_boundary s i \<longleftrightarrow>
     i = 0 \<or> i = length s \<or> i < length s \<and> (let n = of_char (s ! i) :: nat in n < 128 \<or> 192 \<le> n)"

text \<open>\<open>&s[a..b]\<close>.\<close>

definition slice :: "string \<Rightarrow> nat \<Rightarrow> nat \<Rightarrow> 'e failure + string" where
  "slice s a b =
     (if a \<le> b \<and> b \<le> length s \<and> is_char_boundary s a \<and> is_char_boundary s b
      then Inr (take (b - a) (drop a s)) else Inl Panicked)"

section \<open>Digits\<close>

definition hex_value :: "char \<Rightarrow> nat option" where
  "hex_value c =
     (let n = of_char c :: nat
      in if 48 \<le> n \<and> n \<le> 57 then Some (n - 48)
         else if 65 \<le> n \<and> n \<le> 70 then Some (n - 55)
         else if 97 \<le> n \<and> n \<le> 102 then Some (n - 87) else None)"

fun hex_digits :: "nat \<Rightarrow> string \<Rightarrow> nat option" where
  "hex_digits acc [] = Some acc"
| "hex_digits acc (c # cs) = (case hex_value c of None \<Rightarrow> None | Some d \<Rightarrow> hex_digits (16 * acc + d) cs)"

text \<open>\<open>u8::from_str_radix(s, 16)\<close>, which takes a plus sign.\<close>

definition u8_from_hex :: "string \<Rightarrow> byte option" where
  "u8_from_hex s =
     (if s = [] then None
      else let digits = (case s of c # cs \<Rightarrow> if c = CHR ''+'' \<and> cs \<noteq> [] then cs else s | [] \<Rightarrow> s)
           in case hex_digits 0 digits of
                None \<Rightarrow> None
              | Some n \<Rightarrow> if n < 256 then Some (word_of_nat n) else None)"

section \<open>Decoding\<close>

definition strip_0x :: "string \<Rightarrow> string" where
  "strip_0x s = (case strip_prefix (trim s) ''0x'' of Some r \<Rightarrow> r | None \<Rightarrow> trim s)"

text \<open>The bytes at the positions \<open>i, i + 2, ...\<close>, up to the first failure.\<close>

fun hex_bytes :: "'e \<Rightarrow> string \<Rightarrow> nat list \<Rightarrow> 'e failure + bytes" where
  "hex_bytes bad s [] = Inr []"
| "hex_bytes bad s (i # is) =
     tryE (slice s i (i + 2)) (\<lambda>t.
     tryE (ok_or (u8_from_hex t) (Fails bad)) (\<lambda>b.
     tryE (hex_bytes bad s is) (\<lambda>bs.
     Inr (b # bs))))"

definition decode_hex_with :: "'e \<Rightarrow> 'e \<Rightarrow> string \<Rightarrow> 'e failure + bytes" where
  "decode_hex_with odd_length bad s =
     (let s = strip_0x s
      in tryE (ensure (even (length s)) (Fails odd_length)) (\<lambda>_.
         hex_bytes bad s (map ((*) 2) [0..<length s div 2])))"

section \<open>Round trip\<close>

lemma hex_value_digit: "n < 16 \<Longrightarrow> hex_value (hex_digit n) = Some n"
  by (simp add: hex_value_def hex_digit_def)

lemma of_char_hex_digit: "n < 16 \<Longrightarrow> of_char (hex_digit n) = (if n < 10 then 48 + n else 87 + n)"
  by (simp add: hex_digit_def)

lemma u8_from_hex_byte: "u8_from_hex [hex_digit (unat b div 16), hex_digit (unat b mod 16)] = Some (b :: byte)"
proof -
  have b: "unat b < 256" using unsigned_less [of b, where 'a = nat] by simp
  then have "unat b div 16 < 16" by simp
  then have "hex_digit (unat b div 16) \<noteq> CHR ''+''"
    using of_char_hex_digit [of "unat b div 16"] by (auto split: if_splits)
  with b show ?thesis by (simp add: u8_from_hex_def hex_value_digit Let_def)
qed

lemma hex_Cons: "hex (b # bs) = hex_digit (unat b div 16) # hex_digit (unat b mod 16) # hex bs"
  by (simp add: hex_def)

lemma hex_ascii: "c \<in> set (hex bs) \<Longrightarrow> \<exists>n < 16. c = hex_digit n"
proof (induction bs)
  case (Cons b bs)
  have "unat b < 256" using unsigned_less [of b, where 'a = nat] by simp
  with Cons show ?case by (auto simp: hex_Cons intro: exI [of _ "unat b div 16"] exI [of _ "unat b mod 16"])
qed simp

lemma ascii_boundary: "(\<And>c. c \<in> set s \<Longrightarrow> (of_char c :: nat) < 128) \<Longrightarrow> i \<le> length s \<Longrightarrow> is_char_boundary s i"
  by (auto simp: is_char_boundary_def Let_def)

lemma hex_boundary: "i \<le> 2 * length bs \<Longrightarrow> is_char_boundary (hex bs) i"
  by (rule ascii_boundary) (auto dest!: hex_ascii simp: of_char_hex_digit)

lemma hex_at: "i < length bs \<Longrightarrow> take 2 (drop (2 * i) (hex bs)) = [hex_digit (unat (bs ! i) div 16), hex_digit (unat (bs ! i) mod 16)]"
proof (induction bs arbitrary: i)
  case (Cons b bs)
  then show ?case by (cases i) (simp_all add: hex_Cons numeral_2_eq_2)
qed simp

lemma hex_bytes_hex:
  "set is \<subseteq> {0..<length bs} \<Longrightarrow> hex_bytes bad (hex bs) (map ((*) 2) is) = Inr (map ((!) bs) is)"
proof (induction "is")
  case (Cons i "is")
  then have "slice (hex bs) (2 * i) (2 * i + 2) = (Inr [hex_digit (unat (bs ! i) div 16), hex_digit (unat (bs ! i) mod 16)] :: 'a failure + string)"
    by (simp add: slice_def hex_boundary hex_at)
  with Cons show ?case by (simp add: u8_from_hex_byte ok_or_def)
qed simp

lemma trim_nothing:
  assumes "\<And>c w. c \<in> set s \<Longrightarrow> w \<in> set white_space \<Longrightarrow> c \<notin> set w"
  shows "trim s = s"
proof -
  have nonempty: "w \<noteq> []" if "w \<in> set white_space" for w
    using that by (auto simp: white_space_def)
  have none: "find (starts_with t) ws = None" if "set t = set s" "\<And>w. w \<in> set ws \<Longrightarrow> w \<noteq> [] \<and> set w \<inter> set s = {}" for t ws
  proof -
    have "\<not> starts_with t w" if "w \<in> set ws" for w
    proof
      assume "starts_with t w"
      then have "set w \<subseteq> set t" using set_take_subset [of "length w" t] by (simp add: starts_with_def)
      with \<open>set t = set s\<close> \<open>\<And>w. w \<in> set ws \<Longrightarrow> w \<noteq> [] \<and> set w \<inter> set s = {}\<close> [OF that] show False
        by (cases w) auto
    qed
    then show ?thesis by (simp add: find_None_iff)
  qed
  have apart: "set w \<inter> set s = {}" if "w \<in> set white_space" for w
    using assms [OF _ that] by blast
  have "find (starts_with s) white_space = None" by (rule none) (use nonempty apart in blast)+
  then have a: "strip_any n white_space s = s" for n by (cases n) simp_all
  have "find (starts_with (rev s)) (map rev white_space) = None" by (rule none) (use nonempty apart in \<open>fastforce\<close>)+
  then have b: "strip_any n (map rev white_space) (rev s) = rev s" for n by (cases n) simp_all
  show ?thesis by (simp add: trim_def Let_def a b)
qed

lemma of_char_Char_x: "(of_char (CHR ''x'') :: nat) = 120"
  by simp

lemma strip_0x_hex: "strip_0x (hex bs) = hex bs"
proof -
  have space: "hex_digit n \<notin> set w" if "w \<in> set white_space" "n < 16" for n w
  proof
    assume "hex_digit n \<in> set w"
    then have "(of_char (hex_digit n) :: nat) \<in> of_char ` set w" by blast
    moreover have "\<forall>m \<in> of_char ` set w. m < 48 \<or> 128 \<le> (m :: nat)" using that(1) by (auto simp: white_space_def)
    ultimately show False using of_char_hex_digit [OF that(2)] that(2) by (auto split: if_splits)
  qed
  have trim: "trim (hex bs) = hex bs"
    by (rule trim_nothing) (use space in \<open>auto dest!: hex_ascii\<close>)
  have x: "CHR ''x'' \<noteq> hex_digit n" if "n < 16" for n
  proof
    assume "CHR ''x'' = hex_digit n"
    then have "(of_char (hex_digit n) :: nat) = 120" by (metis of_char_Char_x)
    with of_char_hex_digit [OF that] that show False by (auto split: if_splits)
  qed
  then have "strip_prefix (hex bs) ''0x'' = None"
    using hex_ascii [of "CHR ''x''" bs] x by (intro strip_prefix_None) (metis append_Cons list.set_intros(1,2))
  then show ?thesis by (simp add: strip_0x_def trim)
qed

lemma decode_hex_hex: "decode_hex_with e1 e2 (hex bs) = Inr bs"
proof -
  have "hex_bytes e2 (hex bs) (map ((*) 2) [0..<length bs]) = Inr (map ((!) bs) [0..<length bs])"
    by (rule hex_bytes_hex) simp
  then show ?thesis by (simp add: decode_hex_with_def strip_0x_hex Let_def ensure_def map_nth)
qed

text \<open>Text that is not hexadecimal can make the decoder panic: here the two bytes of one character straddle a pair.\<close>

lemma hex_decode_panics:
  "decode_hex_with e1 e2 [CHR ''0'', CHR 0xC3, CHR 0xA9, CHR ''0''] = Inl Panicked"
proof -
  have "trim [CHR ''0'', CHR 0xC3, CHR 0xA9, CHR ''0''] = [CHR ''0'', CHR 0xC3, CHR 0xA9, CHR ''0'']"
    by (simp add: trim_def white_space_def starts_with_def)
  then show ?thesis
    by (simp add: decode_hex_with_def strip_0x_def strip_prefix_def starts_with_def ensure_def slice_def
        is_char_boundary_def upt_rec)
qed

text \<open>A plus sign passes for a digit.\<close>

lemma hex_decode_plus: "decode_hex_with e1 e2 ''+f'' = Inr [15]"
proof -
  have "trim ''+f'' = ''+f''" by (simp add: trim_def white_space_def starts_with_def)
  then show ?thesis
    by (simp add: decode_hex_with_def strip_0x_def strip_prefix_def starts_with_def ensure_def slice_def ok_or_def
        is_char_boundary_def upt_rec u8_from_hex_def hex_value_def)
qed

end
