(* ===== verification/App_Services.thy ===== *)
theory App_Services
  imports Sdk_Receipt Sdk_Decode App_Text
begin

text \<open>
  The application services, \<^verbatim>\<open>host/crates/agentbond-app/src\<close>: configuration (\<^verbatim>\<open>config.rs\<close>), the catalog of
  services (\<^verbatim>\<open>catalog.rs\<close>), the JSON views of accounts and receipts (\<^verbatim>\<open>accounts.rs\<close>, \<^verbatim>\<open>receipt_dto.rs\<close>), and the requests
  that build plans (\<^verbatim>\<open>services.rs\<close>).

  Files, the environment and JSON text are not modelled: a definition starts from the parsed value. Keys in base 58 are
  the parameter \<open>client\<close> of the client library; \<open>app_lib\<close> has the other library functions. What a
  request reads from the chain is the parameter \<open>chain_reader\<close>.
\<close>

section \<open>Parameters and errors\<close>

datatype AppError =
    AppValidation string
  | AppNotFound string
  | AppSdk SdkError
  | AppConfigE string

type_synonym 'a app = "AppError failure + 'a"

abbreviation invalid :: "string \<Rightarrow> AppError failure" where
  "invalid message \<equiv> Fails (AppValidation message)"

text \<open>The conversion of the question mark.\<close>

definition sdk :: "SdkError + 'a \<Rightarrow> 'a app" where
  "sdk r = map_err (\<lambda>e. Fails (AppSdk e)) r"

record parsed_app_url =
  app_url_scheme :: string
  app_url_username :: string
  app_url_password :: "string option"

record app_lib =
  bs58_decode :: "string \<Rightarrow> bytes option"
  app_parse_url :: "string \<Rightarrow> parsed_app_url option"

record AccountData =
  ad_owner :: address
  ad_data :: bytes
  ad_lamports :: u64

record chain_reader =
  read_account :: "address \<Rightarrow> SdkError + AccountData option"
  read_unix_timestamp :: "SdkError + i64"

lemma sdk_eq_Inr [result_inv]: "sdk r = Inr x \<longleftrightarrow> r = Inr x"
  by (cases r) (simp_all add: sdk_def)

section \<open>Configuration\<close>

record AppConfig =
  ac_program_id :: string
  ac_rpc_url :: string
  ac_genesis_hash :: string
  ac_settlement_mint :: string
  ac_token_program :: string
  ac_facilitator_url :: string
  ac_merchant_pay_to :: string
  ac_x402_fee_payer :: string
  ac_x402_amount :: string
  ac_x402_network :: string
  ac_request_timeout_ms :: u64
  ac_max_request_bytes :: u64
  ac_bind_address :: string
  ac_catalog_path :: string

text \<open>\<open>std::env::var\<close> is the argument \<open>env\<close>.\<close>

definition apply_env_overrides :: "(string \<Rightarrow> string option) \<Rightarrow> AppConfig \<Rightarrow> AppConfig" where
  "apply_env_overrides env cfg =
     (let cfg = (case env ''AGENTBOND_RPC_URL'' of Some v \<Rightarrow> cfg\<lparr>ac_rpc_url := v\<rparr> | None \<Rightarrow> cfg);
          cfg = (case env ''AGENTBOND_FACILITATOR_URL'' of Some v \<Rightarrow> cfg\<lparr>ac_facilitator_url := v\<rparr> | None \<Rightarrow> cfg);
          cfg = (case env ''AGENTBOND_BIND_ADDRESS'' of Some v \<Rightarrow> cfg\<lparr>ac_bind_address := v\<rparr> | None \<Rightarrow> cfg)
      in case env ''AGENTBOND_PROGRAM_ID'' of Some v \<Rightarrow> cfg\<lparr>ac_program_id := v\<rparr> | None \<Rightarrow> cfg)"

definition parse_pk :: "client \<Rightarrow> string \<Rightarrow> string \<Rightarrow> address app" where
  "parse_pk cl s label = ok_or (pubkey_from_str cl s) (Fails (AppConfigE (''invalid '' @ label)))"

definition is_hexdigit :: "char \<Rightarrow> bool" where
  "is_hexdigit c \<longleftrightarrow> hex_value c \<noteq> None"

definition parse_genesis_hash :: "app_lib \<Rightarrow> string \<Rightarrow> bytes32 app" where
  "parse_genesis_hash lib s =
     (let s = trim s
      in if length s = 64 \<and> list_all is_hexdigit s
         then tryE (hex_bytes (AppConfigE ''invalid genesis_hash hex'') s (map ((*) 2) [0..<32])) (\<lambda>out.
              Inr (array32 out))
         else
           tryE (ok_or (bs58_decode lib s) (Fails (AppConfigE ''invalid genesis_hash''))) (\<lambda>decoded.
           tryE (ensure (length decoded = 32) (Fails (AppConfigE ''genesis_hash must decode to 32 bytes''))) (\<lambda>_.
           Inr (array32 decoded))))"

definition reject_credentialed_url :: "app_lib \<Rightarrow> string \<Rightarrow> string \<Rightarrow> unit app" where
  "reject_credentialed_url lib raw label =
     tryE (ok_or (app_parse_url lib raw) (Fails (AppConfigE (''invalid '' @ label)))) (\<lambda>url.
     tryE (ensure (app_url_scheme url \<in> {''http'', ''https''}) (Fails (AppConfigE (label @ '' must be http(s)'')))) (\<lambda>_.
     tryE (ensure (\<not> (app_url_username url \<noteq> [] \<or> app_url_password url \<noteq> None))
       (Fails (AppConfigE (label @ '' must not contain credentials'')))) (\<lambda>_.
     Inr ())))"

definition app_validate :: "client \<Rightarrow> app_lib \<Rightarrow> AppConfig \<Rightarrow> unit app" where
  "app_validate cl lib cfg =
     tryE (parse_pk cl (ac_program_id cfg) ''program_id'') (\<lambda>_.
     tryE (parse_genesis_hash lib (ac_genesis_hash cfg)) (\<lambda>_.
     tryE (parse_pk cl (ac_settlement_mint cfg) ''settlement_mint'') (\<lambda>_.
     tryE (parse_pk cl (ac_token_program cfg) ''token_program'') (\<lambda>token.
     tryE (ensure (token = spl_token_id cl) (Fails (AppConfigE ''token_program must be legacy SPL Token Program''))) (\<lambda>_.
     tryE (parse_pk cl (ac_merchant_pay_to cfg) ''merchant_pay_to'') (\<lambda>_.
     tryE (parse_pk cl (ac_x402_fee_payer cfg) ''x402_fee_payer'') (\<lambda>_.
     tryE (reject_credentialed_url lib (ac_rpc_url cfg) ''rpc_url'') (\<lambda>_.
     tryE (reject_credentialed_url lib (ac_facilitator_url cfg) ''facilitator_url'') (\<lambda>_.
     tryE (ensure (case parse_unsigned (2 ^ 64) (ac_x402_amount cfg) of None \<Rightarrow> False | Some v \<Rightarrow> v > 0)
       (Fails (AppConfigE ''x402_amount must be positive integer''))) (\<lambda>_.
     tryE (ensure (\<not> (ac_x402_network cfg = [] \<or> length (ac_x402_network cfg) > 64 \<or>
                       \<not> starts_with (ac_x402_network cfg) ''solana:''))
       (Fails (AppConfigE ''x402_network must be solana:<cluster> and bounded''))) (\<lambda>_.
     tryE (ensure (\<not> (ac_request_timeout_ms cfg = 0 \<or> ac_request_timeout_ms cfg > 120000))
       (Fails (AppConfigE ''request_timeout_ms out of range''))) (\<lambda>_.
     tryE (ensure (\<not> (ac_max_request_bytes cfg = 0 \<or> ac_max_request_bytes cfg > 1048576))
       (Fails (AppConfigE ''max_request_bytes out of range''))) (\<lambda>_.
     tryE (ensure (\<not> (ac_bind_address cfg = [] \<or> length (ac_bind_address cfg) > 128))
       (Fails (AppConfigE ''bind_address invalid''))) (\<lambda>_.
     ensure (\<not> (ac_catalog_path cfg = [] \<or> length (ac_catalog_path cfg) > 512))
       (Fails (AppConfigE ''catalog_path required''))))))))))))))))"

definition program_pubkey :: "client \<Rightarrow> AppConfig \<Rightarrow> address app" where
  "program_pubkey cl cfg = parse_pk cl (ac_program_id cfg) ''program_id''"

definition mint_pubkey :: "client \<Rightarrow> AppConfig \<Rightarrow> address app" where
  "mint_pubkey cl cfg = parse_pk cl (ac_settlement_mint cfg) ''settlement_mint''"

definition fee_payer_pubkey :: "client \<Rightarrow> AppConfig \<Rightarrow> address app" where
  "fee_payer_pubkey cl cfg = parse_pk cl (ac_x402_fee_payer cfg) ''x402_fee_payer''"

section \<open>The catalog\<close>

abbreviation (input) MAX_NAME :: nat where "MAX_NAME \<equiv> 64"
abbreviation (input) MAX_DESC :: nat where "MAX_DESC \<equiv> 256"
abbreviation (input) MAX_SERVICES :: nat where "MAX_SERVICES \<equiv> 128"
abbreviation (input) MAX_SERVICE_ID :: nat where "MAX_SERVICE_ID \<equiv> 64"
abbreviation (input) MAX_ROUTE :: nat where "MAX_ROUTE \<equiv> 128"

record ServiceEntry =
  se_service_id :: string
  se_provider :: string
  se_name :: string
  se_description :: string
  se_request_schema :: string
  se_x402_demo_route :: "string option"

type_synonym ServiceCatalog = "ServiceEntry list"

definition is_ascii_alphanumeric :: "char \<Rightarrow> bool" where
  "is_ascii_alphanumeric c \<longleftrightarrow>
     (let n = of_char c :: nat in 48 \<le> n \<and> n \<le> 57 \<or> 65 \<le> n \<and> n \<le> 90 \<or> 97 \<le> n \<and> n \<le> 122)"

text \<open>One iteration of \<open>validate_entries\<close>: the ids seen so far, and with this entry's.\<close>

definition validate_entry :: "client \<Rightarrow> string set \<Rightarrow> ServiceEntry \<Rightarrow> string set app" where
  "validate_entry cl ids entry =
     tryE (ensure (\<not> (se_service_id entry = [] \<or> se_provider entry = [] \<or> se_name entry = [] \<or>
                       se_description entry = [] \<or> se_request_schema entry = []))
       (invalid ''service fields must be non-empty'')) (\<lambda>_.
     tryE (ensure (\<not> (length (se_service_id entry) > MAX_SERVICE_ID \<or> length (se_name entry) > MAX_NAME \<or>
                       length (se_description entry) > MAX_DESC)) (invalid ''service text too long'')) (\<lambda>_.
     tryE (ensure (list_all (\<lambda>c. is_ascii_alphanumeric c \<or> c = CHR ''-'' \<or> c = CHR ''_'') (se_service_id entry))
       (invalid ''service_id must be normalized ascii'')) (\<lambda>_.
     tryE (ensure (\<not> (case se_x402_demo_route entry of
                        None \<Rightarrow> False
                      | Some route \<Rightarrow> route = [] \<or> length route > MAX_ROUTE \<or> \<not> starts_with route ''/''))
       (invalid ''invalid x402_demo_route'')) (\<lambda>_.
     tryE (ensure (se_service_id entry \<notin> ids) (invalid (''duplicate service_id '' @ se_service_id entry))) (\<lambda>_.
     tryE (ok_or (pubkey_from_str cl (se_provider entry)) (invalid (''invalid provider '' @ se_provider entry))) (\<lambda>_.
     Inr (insert (se_service_id entry) ids)))))))"

fun validate_each :: "client \<Rightarrow> string set \<Rightarrow> ServiceEntry list \<Rightarrow> unit app" where
  "validate_each cl ids [] = Inr ()"
| "validate_each cl ids (entry # entries) =
     tryE (validate_entry cl ids entry) (\<lambda>ids. validate_each cl ids entries)"

definition validate_entries :: "client \<Rightarrow> ServiceEntry list \<Rightarrow> unit app" where
  "validate_entries cl entries =
     tryE (ensure (\<not> length entries > MAX_SERVICES) (invalid ''too many services'')) (\<lambda>_.
     validate_each cl {} entries)"

definition from_entries :: "client \<Rightarrow> ServiceEntry list \<Rightarrow> ServiceCatalog app" where
  "from_entries cl entries = tryE (validate_entries cl entries) (\<lambda>_. Inr entries)"

definition get_service :: "ServiceCatalog \<Rightarrow> string \<Rightarrow> ServiceEntry app" where
  "get_service catalog service_id =
     ok_or (find (\<lambda>s. se_service_id s = service_id) catalog) (Fails (AppNotFound (''service '' @ service_id)))"

section \<open>Views of accounts\<close>

definition hex_of :: "bytes32 \<Rightarrow> string" where
  "hex_of b = hex (to_bytes b)"

primrec job_state_name :: "JobState \<Rightarrow> string" where
  "job_state_name Created = ''Created''"
| "job_state_name Funded = ''Funded''"
| "job_state_name Accepted = ''Accepted''"
| "job_state_name Submitted = ''Submitted''"
| "job_state_name Challenged = ''Challenged''"
| "job_state_name Settled = ''Settled''"
| "job_state_name Refunded = ''Refunded''"
| "job_state_name Expired = ''Expired''"
| "job_state_name Slashed = ''Slashed''"

record ConfigDto =
  cd_bump :: byte
  cd_paused :: bool
  cd_admin :: string
  cd_genesis_hash_hex :: string
  cd_allowed_mint :: string
  cd_token_program :: string
  cd_mint_decimals :: byte
  cd_min_provider_bond :: u64
  cd_challenge_duration_seconds :: i64

definition config_dto :: "client \<Rightarrow> ConfigAccount \<Rightarrow> ConfigDto" where
  "config_dto cl a =
     \<lparr>cd_bump = config_bump a, cd_paused = config_paused a, cd_admin = pubkey_to_string cl (config_admin a),
      cd_genesis_hash_hex = hex_of (config_genesis_hash a),
      cd_allowed_mint = pubkey_to_string cl (config_allowed_mint a),
      cd_token_program = pubkey_to_string cl (config_token_program a), cd_mint_decimals = config_mint_decimals a,
      cd_min_provider_bond = config_min_provider_bond a,
      cd_challenge_duration_seconds = config_challenge_duration_seconds a\<rparr>"

record ProviderDto =
  pd_bump :: byte
  pd_status :: string
  pd_authority :: string
  pd_execution_key_count :: byte
  pd_execution_keys :: "string list"

definition provider_status_name :: "byte \<Rightarrow> string" where
  "provider_status_name status =
     (if status = PROVIDER_STATUS_ACTIVE then ''Active''
      else if status = PROVIDER_STATUS_INACTIVE then ''Inactive'' else ''Unknown'')"

definition provider_account_dto :: "client \<Rightarrow> ProviderAccount \<Rightarrow> ProviderDto" where
  "provider_account_dto cl a =
     \<lparr>pd_bump = provider_bump a, pd_status = provider_status_name (provider_status a),
      pd_authority = pubkey_to_string cl (provider_authority a),
      pd_execution_key_count = provider_execution_key_count a,
      pd_execution_keys = map hex_of (take (unat (provider_execution_key_count a)) (provider_execution_keys a))\<rparr>"

record ProviderBondDto =
  bd_bump :: byte
  bd_provider :: string
  bd_mint :: string
  bd_token_program :: string
  bd_deposited :: u64
  bd_locked :: u64

definition bond_dto :: "client \<Rightarrow> ProviderBondAccount \<Rightarrow> ProviderBondDto" where
  "bond_dto cl a =
     \<lparr>bd_bump = bond_bump a, bd_provider = pubkey_to_string cl (bond_provider a),
      bd_mint = pubkey_to_string cl (bond_mint a), bd_token_program = pubkey_to_string cl (bond_token_program a),
      bd_deposited = bond_deposited a, bd_locked = bond_locked a\<rparr>"

record JobDto =
  jd_bump :: byte
  jd_state :: string
  jd_buyer :: string
  jd_provider :: string
  jd_mint :: string
  jd_token_program :: string
  jd_amount :: u64
  jd_job_nonce :: u64
  jd_fund_deadline :: i64
  jd_accept_deadline :: i64
  jd_work_deadline :: i64
  jd_auto_settle_deadline :: i64
  jd_receipt_digest_hex :: string
  jd_request_hash_hex :: string
  jd_locked_bond :: u64
  jd_mint_decimals :: byte

definition job_account_dto :: "client \<Rightarrow> JobAccount \<Rightarrow> JobDto" where
  "job_account_dto cl a =
     \<lparr>jd_bump = job_bump a, jd_state = job_state_name (job_state a), jd_buyer = pubkey_to_string cl (job_buyer a),
      jd_provider = pubkey_to_string cl (job_provider a), jd_mint = pubkey_to_string cl (job_mint a),
      jd_token_program = pubkey_to_string cl (job_token_program a), jd_amount = job_amount a,
      jd_job_nonce = job_nonce a, jd_fund_deadline = job_fund_deadline a,
      jd_accept_deadline = job_accept_deadline a, jd_work_deadline = job_work_deadline a,
      jd_auto_settle_deadline = job_auto_settle_deadline a, jd_receipt_digest_hex = hex_of (job_receipt_digest a),
      jd_request_hash_hex = hex_of (job_request_hash a), jd_locked_bond = job_locked_bond a,
      jd_mint_decimals = job_mint_decimals a\<rparr>"

record ChallengeDto =
  chd_bump :: byte
  chd_status :: byte
  chd_job :: string
  chd_buyer :: string
  chd_reason_hash_hex :: string
  chd_deadline :: i64
  chd_bond_amount :: u64

definition challenge_dto :: "client \<Rightarrow> ChallengeAccount \<Rightarrow> ChallengeDto" where
  "challenge_dto cl a =
     \<lparr>chd_bump = challenge_bump a, chd_status = challenge_status a, chd_job = pubkey_to_string cl (challenge_job a),
      chd_buyer = pubkey_to_string cl (challenge_buyer a), chd_reason_hash_hex = hex_of (challenge_reason_hash a),
      chd_deadline = challenge_deadline a, chd_bond_amount = challenge_bond_amount a\<rparr>"

section \<open>Receipts\<close>

record ReceiptDto =
  rd_program_id_hex :: string
  rd_genesis_hash_hex :: string
  rd_job_hex :: string
  rd_buyer_hex :: string
  rd_provider_hex :: string
  rd_request_hash_hex :: string
  rd_result_hash_hex :: string
  rd_artifact_hash_hex :: string
  rd_software_hash_hex :: string
  rd_job_nonce :: u64
  rd_created_at :: i64
  rd_expires_at :: i64

definition dto_hex32 :: "string \<Rightarrow> string \<Rightarrow> bytes32 app" where
  "dto_hex32 s label =
     (let s = strip_0x s
      in tryE (ensure (\<not> length s \<noteq> 64) (invalid (label @ '' must be 32 bytes hex''))) (\<lambda>_.
         tryE (hex_bytes (AppValidation ''invalid hex'') s (map ((*) 2) [0..<32])) (\<lambda>out.
         Inr (array32 out))))"

definition to_receipt :: "ReceiptDto \<Rightarrow> AgentBondWorkReceiptV1 app" where
  "to_receipt dto =
     tryE (dto_hex32 (rd_program_id_hex dto) ''program_id'') (\<lambda>program_id.
     tryE (dto_hex32 (rd_genesis_hash_hex dto) ''genesis_hash'') (\<lambda>genesis_hash.
     tryE (dto_hex32 (rd_job_hex dto) ''job'') (\<lambda>job.
     tryE (dto_hex32 (rd_buyer_hex dto) ''buyer'') (\<lambda>buyer.
     tryE (dto_hex32 (rd_provider_hex dto) ''provider'') (\<lambda>provider.
     tryE (dto_hex32 (rd_request_hash_hex dto) ''request_hash'') (\<lambda>request_hash.
     tryE (dto_hex32 (rd_result_hash_hex dto) ''result_hash'') (\<lambda>result_hash.
     tryE (dto_hex32 (rd_artifact_hash_hex dto) ''artifact_hash'') (\<lambda>artifact_hash.
     tryE (dto_hex32 (rd_software_hash_hex dto) ''software_hash'') (\<lambda>software_hash.
     Inr \<lparr>receipt_program_id = program_id, receipt_genesis_hash = genesis_hash, receipt_job = job,
       receipt_buyer = buyer, receipt_provider = provider, receipt_request_hash = request_hash,
       receipt_result_hash = result_hash, receipt_artifact_hash = artifact_hash,
       receipt_software_hash = software_hash, receipt_job_nonce = rd_job_nonce dto,
       receipt_created_at = rd_created_at dto, receipt_expires_at = rd_expires_at dto\<rparr>)))))))))"

definition from_receipt :: "AgentBondWorkReceiptV1 \<Rightarrow> ReceiptDto" where
  "from_receipt r =
     \<lparr>rd_program_id_hex = hex_of (receipt_program_id r), rd_genesis_hash_hex = hex_of (receipt_genesis_hash r),
      rd_job_hex = hex_of (receipt_job r), rd_buyer_hex = hex_of (receipt_buyer r),
      rd_provider_hex = hex_of (receipt_provider r), rd_request_hash_hex = hex_of (receipt_request_hash r),
      rd_result_hash_hex = hex_of (receipt_result_hash r), rd_artifact_hash_hex = hex_of (receipt_artifact_hash r),
      rd_software_hash_hex = hex_of (receipt_software_hash r), rd_job_nonce = receipt_job_nonce r,
      rd_created_at = receipt_created_at r, rd_expires_at = receipt_expires_at r\<rparr>"

text \<open>A receipt survives its textual form.\<close>

lemma dto_hex32_hex: "dto_hex32 (hex_of b) label = Inr b"
proof -
  have "hex_bytes (AppValidation ''invalid hex'') (hex (to_bytes b)) (map ((*) 2) [0..<32]) =
      Inr (map ((!) (to_bytes b)) [0..<32])"
    by (rule hex_bytes_hex) simp
  also have "map ((!) (to_bytes b)) [0..<32] = to_bytes b"
    using map_nth [of "to_bytes b"] by simp
  finally show ?thesis
    by (simp add: dto_hex32_def hex_of_def strip_0x_hex ensure_def Let_def)
qed

lemma receipt_text_round_trip: "to_receipt (from_receipt r) = Inr r"
  by (cases r) (simp add: to_receipt_def from_receipt_def dto_hex32_hex)

section \<open>Requests\<close>

record CreateJobRequest =
  cjr_buyer :: string
  cjr_provider :: string
  cjr_job_nonce :: u64
  cjr_amount :: u64
  cjr_request_hash_hex :: string
  cjr_fund_deadline :: i64
  cjr_accept_deadline :: i64
  cjr_work_deadline :: i64
  cjr_auto_settle_deadline :: i64

text \<open>\<open>FundJobRequest\<close>, \<open>AcceptJobRequest\<close> and \<open>AcceptWorkRequest\<close> have the same fields.\<close>

record JobRequest =
  jr_buyer :: string
  jr_provider :: string
  jr_job_nonce :: u64

record SubmitReceiptRequest =
  srr_job :: string
  srr_provider :: string
  srr_receipt :: ReceiptDto
  srr_execution_pubkey_hex :: string
  srr_signature_hex :: string

record ChallengeRequest =
  chr_buyer :: string
  chr_provider :: string
  chr_job_nonce :: u64
  chr_reason_hash_hex :: string

record TimeoutRequest =
  tr_payer :: string
  tr_buyer :: string
  tr_provider :: string
  tr_job_nonce :: u64

definition pk :: "client \<Rightarrow> string \<Rightarrow> string \<Rightarrow> address app" where
  "pk cl s label = ok_or (pubkey_from_str cl s) (invalid (''invalid '' @ label))"

definition hex_decode :: "string \<Rightarrow> bytes app" where
  "hex_decode s = decode_hex_with (AppValidation ''invalid hex'') (AppValidation ''invalid hex'') s"

definition hex32 :: "string \<Rightarrow> string \<Rightarrow> bytes32 app" where
  "hex32 s label =
     tryE (hex_decode s) (\<lambda>bytes.
     tryE (ensure (\<not> length bytes \<noteq> 32) (invalid (label @ '' must be 32 bytes''))) (\<lambda>_.
     Inr (array32 bytes)))"

definition hex64 :: "string \<Rightarrow> string \<Rightarrow> bytes app" where
  "hex64 s label =
     tryE (hex_decode s) (\<lambda>bytes.
     tryE (ensure (\<not> length bytes \<noteq> 64) (invalid (label @ '' must be 64 bytes''))) (\<lambda>_.
     Inr bytes))"

lemma execution_key_text: "hex32 (hex_of b) label = Inr b"
  by (simp add: hex32_def hex_decode_def hex_of_def decode_hex_hex ensure_def)

section \<open>Reading accounts\<close>

definition fetch :: "chain_reader \<Rightarrow> address \<Rightarrow> string \<Rightarrow> AccountData app" where
  "fetch reader addr what =
     tryE (sdk (read_account reader addr)) (\<lambda>found. ok_or found (Fails (AppNotFound what)))"

definition inspect_config_dto :: "client \<Rightarrow> chain_reader \<Rightarrow> address \<Rightarrow> ConfigDto app" where
  "inspect_config_dto cl reader program_id =
     tryE (sdk (config_pda cl program_id)) (\<lambda>pda.
     let addr = pda_address pda
     in tryE (fetch reader addr ''config'') (\<lambda>acc.
     tryE (sdk (decode_config cl program_id addr (ad_owner acc) (ad_data acc))) (\<lambda>cfg.
     Inr (config_dto cl cfg))))"

definition inspect_provider :: "client \<Rightarrow> chain_reader \<Rightarrow> address \<Rightarrow> address \<Rightarrow> ProviderAccount app" where
  "inspect_provider cl reader program_id address =
     tryE (fetch reader address ''provider'') (\<lambda>acc.
     sdk (decode_provider cl program_id address (ad_owner acc) (ad_data acc)))"

definition inspect_provider_dto :: "client \<Rightarrow> chain_reader \<Rightarrow> address \<Rightarrow> address \<Rightarrow> ProviderDto app" where
  "inspect_provider_dto cl reader program_id address =
     tryE (fetch reader address ''provider'') (\<lambda>acc.
     tryE (sdk (decode_provider cl program_id address (ad_owner acc) (ad_data acc))) (\<lambda>account.
     Inr (provider_account_dto cl account)))"

definition inspect_bond_dto :: "client \<Rightarrow> chain_reader \<Rightarrow> address \<Rightarrow> address \<Rightarrow> ProviderBondDto app" where
  "inspect_bond_dto cl reader program_id address =
     tryE (fetch reader address ''bond'') (\<lambda>acc.
     tryE (sdk (decode_provider_bond cl program_id address (ad_owner acc) (ad_data acc))) (\<lambda>account.
     Inr (bond_dto cl account)))"

definition inspect_job :: "client \<Rightarrow> chain_reader \<Rightarrow> address \<Rightarrow> address \<Rightarrow> JobAccount app" where
  "inspect_job cl reader program_id address =
     tryE (fetch reader address ''job'') (\<lambda>acc.
     sdk (decode_job cl program_id address (ad_owner acc) (ad_data acc)))"

definition inspect_job_dto :: "client \<Rightarrow> chain_reader \<Rightarrow> address \<Rightarrow> address \<Rightarrow> JobDto app" where
  "inspect_job_dto cl reader program_id address =
     tryE (fetch reader address ''job'') (\<lambda>acc.
     tryE (sdk (decode_job cl program_id address (ad_owner acc) (ad_data acc))) (\<lambda>account.
     Inr (job_account_dto cl account)))"

definition inspect_challenge_dto :: "client \<Rightarrow> chain_reader \<Rightarrow> address \<Rightarrow> address \<Rightarrow> ChallengeDto app" where
  "inspect_challenge_dto cl reader program_id address =
     tryE (fetch reader address ''challenge'') (\<lambda>acc.
     tryE (sdk (decode_challenge cl program_id address (ad_owner acc) (ad_data acc))) (\<lambda>account.
     Inr (challenge_dto cl account)))"

section \<open>Building plans\<close>

definition build_create_job_plan :: "client \<Rightarrow> AppConfig \<Rightarrow> chain_reader \<Rightarrow> CreateJobRequest \<Rightarrow> InstructionPlan app" where
  "build_create_job_plan cl cfg reader req =
     tryE (program_pubkey cl cfg) (\<lambda>program_id.
     tryE (pk cl (cjr_buyer req) ''buyer'') (\<lambda>buyer.
     tryE (pk cl (cjr_provider req) ''provider'') (\<lambda>provider.
     tryE (hex32 (cjr_request_hash_hex req) ''request_hash'') (\<lambda>request_hash.
     tryE (sdk (read_unix_timestamp reader)) (\<lambda>now.
     let payload = \<lparr>cjp_job_nonce = cjr_job_nonce req, cjp_amount = cjr_amount req, cjp_request_hash = request_hash,
           cjp_fund_deadline = cjr_fund_deadline req, cjp_accept_deadline = cjr_accept_deadline req,
           cjp_work_deadline = cjr_work_deadline req, cjp_auto_settle_deadline = cjr_auto_settle_deadline req\<rparr>
     in tryE (mint_pubkey cl cfg) (\<lambda>mint.
        tryE (sdk (plan_create_job cl program_id buyer provider now payload)) (\<lambda>plan.
        Inr (with_mint_amount cl plan mint (cjr_amount req)))))))))"

definition build_fund_job_plan :: "client \<Rightarrow> AppConfig \<Rightarrow> JobRequest \<Rightarrow> InstructionPlan app" where
  "build_fund_job_plan cl cfg req =
     tryE (program_pubkey cl cfg) (\<lambda>program_id.
     tryE (mint_pubkey cl cfg) (\<lambda>mint.
     tryE (pk cl (jr_buyer req) ''buyer'') (\<lambda>buyer.
     tryE (pk cl (jr_provider req) ''provider'') (\<lambda>provider.
     sdk (plan_fund_job cl program_id buyer provider mint (jr_job_nonce req))))))"

definition build_accept_job_plan :: "client \<Rightarrow> AppConfig \<Rightarrow> JobRequest \<Rightarrow> InstructionPlan app" where
  "build_accept_job_plan cl cfg req =
     tryE (program_pubkey cl cfg) (\<lambda>program_id.
     tryE (mint_pubkey cl cfg) (\<lambda>mint.
     tryE (pk cl (jr_provider req) ''provider'') (\<lambda>provider.
     tryE (pk cl (jr_buyer req) ''buyer'') (\<lambda>buyer.
     sdk (plan_accept_job cl program_id provider buyer mint (jr_job_nonce req))))))"

definition build_submit_receipt_plan_uc ::
    "client \<Rightarrow> AppConfig \<Rightarrow> chain_reader \<Rightarrow> SubmitReceiptRequest \<Rightarrow> InstructionPlan app" where
  "build_submit_receipt_plan_uc cl cfg reader req =
     tryE (program_pubkey cl cfg) (\<lambda>program_id.
     tryE (pk cl (srr_job req) ''job'') (\<lambda>job.
     tryE (pk cl (srr_provider req) ''provider'') (\<lambda>provider.
     tryE (hex32 (srr_execution_pubkey_hex req) ''execution_pubkey'') (\<lambda>pubkey.
     tryE (hex64 (srr_signature_hex req) ''signature'') (\<lambda>signature.
     tryE (to_receipt (srr_receipt req)) (\<lambda>receipt.
     tryE (sdk (read_unix_timestamp reader)) (\<lambda>now.
     sdk (build_submit_receipt_plan_at cl program_id job provider receipt pubkey signature (Some now)))))))))"

definition build_accept_work_plan :: "client \<Rightarrow> AppConfig \<Rightarrow> JobRequest \<Rightarrow> InstructionPlan app" where
  "build_accept_work_plan cl cfg req =
     tryE (program_pubkey cl cfg) (\<lambda>program_id.
     tryE (mint_pubkey cl cfg) (\<lambda>mint.
     tryE (pk cl (jr_buyer req) ''buyer'') (\<lambda>buyer.
     tryE (pk cl (jr_provider req) ''provider'') (\<lambda>provider.
     sdk (plan_accept_work cl program_id buyer provider mint (jr_job_nonce req))))))"

definition build_challenge_plan :: "client \<Rightarrow> AppConfig \<Rightarrow> ChallengeRequest \<Rightarrow> InstructionPlan app" where
  "build_challenge_plan cl cfg req =
     tryE (program_pubkey cl cfg) (\<lambda>program_id.
     tryE (hex32 (chr_reason_hash_hex req) ''reason_hash'') (\<lambda>reason.
     tryE (pk cl (chr_buyer req) ''buyer'') (\<lambda>buyer.
     tryE (pk cl (chr_provider req) ''provider'') (\<lambda>provider.
     sdk (plan_challenge_work cl program_id buyer provider (chr_job_nonce req) reason)))))"

definition build_timeout_plan :: "client \<Rightarrow> AppConfig \<Rightarrow> chain_reader \<Rightarrow> TimeoutRequest \<Rightarrow> InstructionPlan app" where
  "build_timeout_plan cl cfg reader req =
     tryE (program_pubkey cl cfg) (\<lambda>program_id.
     tryE (mint_pubkey cl cfg) (\<lambda>mint.
     tryE (pk cl (ac_token_program cfg) ''token_program'') (\<lambda>token_program.
     tryE (pk cl (tr_buyer req) ''buyer'') (\<lambda>buyer.
     tryE (pk cl (tr_provider req) ''provider'') (\<lambda>provider.
     tryE (pk cl (tr_payer req) ''payer'') (\<lambda>payer.
     tryE (sdk (job_pda cl program_id buyer provider (tr_job_nonce req))) (\<lambda>pda.
     let job_addr = pda_address pda
     in tryE (inspect_job cl reader program_id job_addr) (\<lambda>job.
     tryE (sdk (read_unix_timestamp reader)) (\<lambda>now.
     tryE (ensure (\<not> (job_buyer job \<noteq> buyer \<or> job_provider job \<noteq> provider \<or> job_nonce job \<noteq> tr_job_nonce req \<or>
                       job_mint job \<noteq> mint \<or> job_token_program job \<noteq> token_program))
       (invalid ''fetched job does not match request and configured protocol'')) (\<lambda>_.
     tryE (ensure (\<not> is_terminal (job_state job))
       (invalid ''terminal job is never eligible for timeout resolution'')) (\<lambda>_.
     if job_state job = Created \<and> job_fund_deadline job \<le>s now
     then sdk (plan_expire_unfunded cl program_id payer buyer provider (tr_job_nonce req))
     else if job_state job = Funded \<and> job_accept_deadline job \<le>s now
     then sdk (plan_resolve_timeout_refund cl program_id payer buyer provider mint (tr_job_nonce req))
     else if job_state job = Accepted \<and> job_work_deadline job <s now
     then sdk (plan_resolve_timeout_refund cl program_id payer buyer provider mint (tr_job_nonce req))
     else if job_state job = Submitted \<and> job_auto_settle_deadline job \<le>s now
     then sdk (plan_resolve_timeout_settle cl program_id payer buyer provider mint (tr_job_nonce req) False)
     else if job_state job = Challenged
     then
       tryE (sdk (challenge_pda cl program_id job_addr)) (\<lambda>pda.
       let challenge_addr = pda_address pda
       in tryE (fetch reader challenge_addr ''challenge'') (\<lambda>acc.
       tryE (sdk (decode_challenge cl program_id challenge_addr (ad_owner acc) (ad_data acc))) (\<lambda>challenge.
       tryE (ensure (\<not> challenge_job challenge \<noteq> job_addr) (invalid ''challenge does not belong to job'')) (\<lambda>_.
       tryE (ensure (\<not> now <s challenge_deadline challenge) (invalid ''challenge deadline not reached'')) (\<lambda>_.
       sdk (plan_resolve_timeout_settle cl program_id payer buyer provider mint (tr_job_nonce req) True))))))
     else Inl (invalid ''job is not eligible for timeout resolution''))))))))))))"

end
