(* ===== verification/Cli_Plan.thy ===== *)
theory Cli_Plan
  imports App_Services
begin

text \<open>
  The planning commands of the command line, \<^verbatim>\<open>host/apps/agentbond-cli/src/plan_cmd.rs\<close>: a command as its
  arguments have been parsed, and the plan it builds. Reading and parsing a receipt file is the argument \<open>read_receipt\<close>;
  printing the plan is not modelled.
\<close>

section \<open>Commands\<close>

datatype CliError = Bail string | CliSdk SdkError | CliApp "AppError failure" | CliParse | CliFile string

type_synonym 'a cli = "CliError failure + 'a"

datatype PlanCmd =
    InitializeConfigCmd string string string byte
      u64 i64
  | SetPausedCmd string bool
  | RegisterProviderCmd string
  | AddExecutionKeyCmd string string
  | RevokeExecutionKeyCmd string string
  | DepositBondCmd string string u64
  | WithdrawBondCmd string string u64
  | CreateJobCmd string string u64 u64 string i64 i64 i64 i64 i64
  | FundJobCmd string string string u64
  | AcceptJobCmd string string string u64
  | SubmitReceiptCmd string string string string string
  | AcceptWorkCmd string string string u64
  | ChallengeWorkCmd string string u64 string
  | ResolveTimeoutCmd string string string string u64 string
  | ExpireUnfundedCmd string string string u64
  | ExpireUnacceptedCmd string string string string u64
  | SlashBondCmd string string string string u64
  | CloseJobCmd string string string u64 bool

section \<open>Arguments\<close>

definition cli_sdk :: "SdkError + 'a \<Rightarrow> 'a cli" where
  "cli_sdk r = map_err (\<lambda>e. Fails (CliSdk e)) r"

definition key :: "client \<Rightarrow> string \<Rightarrow> address cli" where
  "key cl s = cli_sdk (parse_pubkey cl s)"

definition cli_decode_hex :: "string \<Rightarrow> bytes cli" where
  "cli_decode_hex s = decode_hex_with (Bail ''bad hex'') CliParse s"

definition cli_hex32 :: "string \<Rightarrow> bytes32 cli" where
  "cli_hex32 s =
     tryE (cli_decode_hex s) (\<lambda>bytes.
     tryE (ensure (\<not> length bytes \<noteq> 32) (Fails (Bail ''expected 32-byte hex''))) (\<lambda>_.
     Inr (array32 bytes)))"

definition cli_hex64 :: "string \<Rightarrow> bytes cli" where
  "cli_hex64 s =
     tryE (cli_decode_hex s) (\<lambda>bytes.
     tryE (ensure (\<not> length bytes \<noteq> 64) (Fails (Bail ''expected 64-byte hex''))) (\<lambda>_.
     Inr bytes))"

lemma cli_sdk_eq_Inr [result_inv]: "cli_sdk r = Inr x \<longleftrightarrow> r = Inr x"
  by (cases r) (simp_all add: cli_sdk_def)

lemma key_eq_Inr [result_inv]: "key cl s = Inr a \<longleftrightarrow> pubkey_from_str cl s = Some a"
  by (auto simp: key_def parse_pubkey_def result_inv)

section \<open>Plans\<close>

fun build_plan :: "client \<Rightarrow> (string \<Rightarrow> ReceiptDto cli) \<Rightarrow> address \<Rightarrow> PlanCmd \<Rightarrow> InstructionPlan cli" where
  "build_plan cl read_receipt program (InitializeConfigCmd admin genesis_hash mint decimals bond duration) =
     tryE (cli_hex32 genesis_hash) (\<lambda>genesis_hash.
     tryE (key cl mint) (\<lambda>mint.
     tryE (key cl admin) (\<lambda>admin.
     cli_sdk (plan_initialize_config cl program admin
       \<lparr>icp_genesis_hash = genesis_hash, icp_allowed_mint = mint, icp_token_program = spl_token_id cl,
        icp_mint_decimals = decimals, icp_min_provider_bond = bond, icp_challenge_duration_seconds = duration\<rparr>))))"
| "build_plan cl read_receipt program (SetPausedCmd admin paused) =
     tryE (key cl admin) (\<lambda>admin.
     cli_sdk (plan_set_paused cl program admin paused))"
| "build_plan cl read_receipt program (RegisterProviderCmd authority) =
     tryE (key cl authority) (\<lambda>authority.
     cli_sdk (plan_register_provider cl program authority))"
| "build_plan cl read_receipt program (AddExecutionKeyCmd authority key_hex) =
     tryE (key cl authority) (\<lambda>authority.
     tryE (cli_hex32 key_hex) (\<lambda>execution_key.
     cli_sdk (plan_add_execution_key cl program authority execution_key)))"
| "build_plan cl read_receipt program (RevokeExecutionKeyCmd authority key_hex) =
     tryE (key cl authority) (\<lambda>authority.
     tryE (cli_hex32 key_hex) (\<lambda>execution_key.
     cli_sdk (plan_revoke_execution_key cl program authority execution_key)))"
| "build_plan cl read_receipt program (DepositBondCmd authority mint amount) =
     tryE (ensure (\<not> amount = 0) (Fails (Bail ''invalid amount''))) (\<lambda>_.
     tryE (key cl authority) (\<lambda>authority.
     tryE (key cl mint) (\<lambda>mint.
     tryE (cli_sdk (plan_deposit_bond cl program authority mint amount)) (\<lambda>plan.
     Inr (with_mint_amount cl plan mint amount)))))"
| "build_plan cl read_receipt program (WithdrawBondCmd authority mint amount) =
     tryE (ensure (\<not> amount = 0) (Fails (Bail ''invalid amount''))) (\<lambda>_.
     tryE (key cl authority) (\<lambda>authority.
     tryE (key cl mint) (\<lambda>mint.
     tryE (cli_sdk (plan_withdraw_bond cl program authority mint amount)) (\<lambda>plan.
     Inr (with_mint_amount cl plan mint amount)))))"
| "build_plan cl read_receipt program (CreateJobCmd buyer provider nonce amount request_hash fund accept work auto_settle now) =
     tryE (ensure (\<not> amount = 0) (Fails (Bail ''invalid amount''))) (\<lambda>_.
     tryE (cli_hex32 request_hash) (\<lambda>request_hash.
     tryE (key cl buyer) (\<lambda>buyer.
     tryE (key cl provider) (\<lambda>provider.
     cli_sdk (plan_create_job cl program buyer provider now
       \<lparr>cjp_job_nonce = nonce, cjp_amount = amount, cjp_request_hash = request_hash, cjp_fund_deadline = fund,
        cjp_accept_deadline = accept, cjp_work_deadline = work, cjp_auto_settle_deadline = auto_settle\<rparr>)))))"
| "build_plan cl read_receipt program (FundJobCmd buyer provider mint nonce) =
     tryE (key cl buyer) (\<lambda>buyer.
     tryE (key cl provider) (\<lambda>provider.
     tryE (key cl mint) (\<lambda>mint.
     cli_sdk (plan_fund_job cl program buyer provider mint nonce))))"
| "build_plan cl read_receipt program (AcceptJobCmd buyer provider mint nonce) =
     tryE (key cl provider) (\<lambda>provider.
     tryE (key cl buyer) (\<lambda>buyer.
     tryE (key cl mint) (\<lambda>mint.
     cli_sdk (plan_accept_job cl program provider buyer mint nonce))))"
| "build_plan cl read_receipt program (SubmitReceiptCmd job provider receipt_file execution_pubkey_hex signature_hex) =
     tryE (read_receipt receipt_file) (\<lambda>dto.
     tryE (map_err (\<lambda>e. case e of Panicked \<Rightarrow> Panicked | _ \<Rightarrow> Fails (CliApp e)) (to_receipt dto)) (\<lambda>receipt.
     tryE (cli_hex32 execution_pubkey_hex) (\<lambda>execution_key.
     tryE (cli_hex64 signature_hex) (\<lambda>sig.
     tryE (key cl job) (\<lambda>job.
     tryE (key cl provider) (\<lambda>provider.
     cli_sdk (build_submit_receipt_plan cl program job provider receipt execution_key sig)))))))"
| "build_plan cl read_receipt program (AcceptWorkCmd buyer provider mint nonce) =
     tryE (key cl buyer) (\<lambda>buyer.
     tryE (key cl provider) (\<lambda>provider.
     tryE (key cl mint) (\<lambda>mint.
     cli_sdk (plan_accept_work cl program buyer provider mint nonce))))"
| "build_plan cl read_receipt program (ChallengeWorkCmd buyer provider nonce reason_hash) =
     tryE (key cl buyer) (\<lambda>buyer.
     tryE (key cl provider) (\<lambda>provider.
     tryE (cli_hex32 reason_hash) (\<lambda>reason_hash.
     cli_sdk (plan_challenge_work cl program buyer provider nonce reason_hash))))"
| "build_plan cl read_receipt program (ResolveTimeoutCmd payer buyer provider mint nonce mode) =
     (if mode \<in> {''settle'', ''settle-challenge'', ''refund''}
      then
        tryE (key cl payer) (\<lambda>payer.
        tryE (key cl buyer) (\<lambda>buyer.
        tryE (key cl provider) (\<lambda>provider.
        tryE (key cl mint) (\<lambda>mint.
        cli_sdk (if mode = ''settle'' then plan_resolve_timeout_settle cl program payer buyer provider mint nonce False
                 else if mode = ''settle-challenge''
                 then plan_resolve_timeout_settle cl program payer buyer provider mint nonce True
                 else plan_resolve_timeout_refund cl program payer buyer provider mint nonce)))))
      else Inl (Fails (Bail ''mode must be settle|settle-challenge|refund'')))"
| "build_plan cl read_receipt program (ExpireUnfundedCmd payer buyer provider nonce) =
     tryE (key cl payer) (\<lambda>payer.
     tryE (key cl buyer) (\<lambda>buyer.
     tryE (key cl provider) (\<lambda>provider.
     cli_sdk (plan_expire_unfunded cl program payer buyer provider nonce))))"
| "build_plan cl read_receipt program (ExpireUnacceptedCmd payer buyer provider mint nonce) =
     tryE (key cl payer) (\<lambda>payer.
     tryE (key cl buyer) (\<lambda>buyer.
     tryE (key cl provider) (\<lambda>provider.
     tryE (key cl mint) (\<lambda>mint.
     cli_sdk (plan_expire_unaccepted cl program payer buyer provider mint nonce)))))"
| "build_plan cl read_receipt program (SlashBondCmd admin buyer provider mint nonce) =
     tryE (key cl admin) (\<lambda>admin.
     tryE (key cl buyer) (\<lambda>buyer.
     tryE (key cl provider) (\<lambda>provider.
     tryE (key cl mint) (\<lambda>mint.
     cli_sdk (plan_slash_bond cl program admin buyer provider mint nonce)))))"
| "build_plan cl read_receipt program (CloseJobCmd buyer provider mint nonce include_escrow) =
     tryE (key cl buyer) (\<lambda>buyer.
     tryE (key cl provider) (\<lambda>provider.
     tryE (key cl mint) (\<lambda>mint.
     cli_sdk (plan_close_job cl program buyer provider mint nonce include_escrow))))"

end
