(* ===== verification/Sdk_Submit.thy ===== *)
theory Sdk_Submit
  imports Sdk_Plan
begin

text \<open>
  Sending a plan, \<^verbatim>\<open>host/crates/agentbond-sdk/src/submit.rs\<close>: the cluster check, validation, signing,
  simulation, sending and the bounded wait for confirmation.

  The node and the wallet are not in the repository: \<open>rpc\<close> gives the answer to each request, which may
  depend on everything asked before; \<open>sign\<close> turns instructions, payer, signers and block hash into
  the bytes of a transaction or an error text. A run returns its result and the list of requests it
  made, so that the properties can speak about what was sent and when.
\<close>

section \<open>Requests\<close>

datatype rpc_call =
    GetGenesisHash
  | GetUnixTimestamp
  | GetLatestBlockhash
  | SimulateTransaction bytes
  | SendTransaction bytes
  | GetSignatureStatuses string

type_synonym 'a io = "rpc_call list \<Rightarrow> (SdkError + 'a) \<times> rpc_call list"

definition bindIO :: "'a io \<Rightarrow> ('a \<Rightarrow> 'b io) \<Rightarrow> 'b io" where
  "bindIO m f = (\<lambda>tr. case m tr of (Inl e, tr') \<Rightarrow> (Inl e, tr') | (Inr x, tr') \<Rightarrow> f x tr')"

definition liftIO :: "SdkError + 'a \<Rightarrow> 'a io" where
  "liftIO r = (\<lambda>tr. (r, tr))"

definition request :: "rpc_call \<Rightarrow> (rpc_call list \<Rightarrow> SdkError + 'a) \<Rightarrow> 'a io" where
  "request call answer = (\<lambda>tr. (answer tr, tr @ [call]))"

record StatusValue =
  sv_confirmation_status :: "string option"
  sv_err :: "string option"

record SimulateOutcome =
  sim_err :: "string option"
  sim_logs :: "string list option"

record rpc =
  rpc_genesis_hash :: "rpc_call list \<Rightarrow> SdkError + string"
  rpc_unix_timestamp :: "rpc_call list \<Rightarrow> SdkError + i64"
  rpc_latest_blockhash :: "rpc_call list \<Rightarrow> SdkError + bytes32"
  rpc_simulate :: "bytes \<Rightarrow> rpc_call list \<Rightarrow> SdkError + SimulateOutcome"
  rpc_send :: "bytes \<Rightarrow> rpc_call list \<Rightarrow> SdkError + string"
  rpc_statuses :: "string \<Rightarrow> rpc_call list \<Rightarrow> SdkError + StatusValue option list option"
  rpc_elapsed :: "rpc_call list \<Rightarrow> nat"

section \<open>Clusters\<close>

definition MAINNET_GENESIS_HASH :: string where
  "MAINNET_GENESIS_HASH = ''5eykt4UsLoyBJaSfb9PRppPPjqSV4kt3Kg8ndRVYMQ''"

datatype ClusterKind = MainnetBeta | Devnet | Testnet | LocalOrUnknown

definition cluster_from_genesis_hash :: "string \<Rightarrow> ClusterKind" where
  "cluster_from_genesis_hash genesis =
     (if genesis = MAINNET_GENESIS_HASH then MainnetBeta
      else if genesis = ''EtWTRABZaYq6iMfeYKouRu166VU2xqa1wcaWoxPkrZBG'' then Devnet
      else if genesis = ''4uhcVJyU9pJkvQyS88uRDiswHXSCkY3zQawwpjk2NsNY'' then Testnet
      else LocalOrUnknown)"

text \<open>The derived \<open>Debug\<close> text.\<close>

primrec cluster_debug :: "ClusterKind \<Rightarrow> string" where
  "cluster_debug MainnetBeta = ''MainnetBeta''"
| "cluster_debug Devnet = ''Devnet''"
| "cluster_debug Testnet = ''Testnet''"
| "cluster_debug LocalOrUnknown = ''LocalOrUnknown''"

section \<open>Confirmation\<close>

record SubmitResult =
  sr_signature :: string
  sr_status :: string
  sr_cluster :: string
  sr_genesis_hash :: string

text \<open>Durations in milliseconds.\<close>

record ConfirmPolicy =
  cp_deadline :: nat
  cp_poll_interval :: nat
  cp_max_attempts :: u32

definition policy_production :: "nat \<Rightarrow> ConfirmPolicy" where
  "policy_production deadline = \<lparr>cp_deadline = deadline, cp_poll_interval = 400, cp_max_attempts = 20\<rparr>"

definition policy_fast :: "nat \<Rightarrow> ConfirmPolicy" where
  "policy_fast deadline = \<lparr>cp_deadline = deadline, cp_poll_interval = 1, cp_max_attempts = 5\<rparr>"

text \<open>What one answer to \<open>getSignatureStatuses\<close> means: an error ends the wait, a final status ends it
  well, anything else goes on.\<close>

definition poll_outcome :: "StatusValue option list option \<Rightarrow> (SdkError + string) option" where
  "poll_outcome value =
     (case value of
        Some (Some status # _) \<Rightarrow>
          (case sv_err status of
             Some err \<Rightarrow> Some (Inl (SdkRpc (''transaction failed: '' @ err)))
           | None \<Rightarrow>
               (case sv_confirmation_status status of
                  Some cs \<Rightarrow> if cs = ''confirmed'' \<or> cs = ''finalized'' then Some (Inr cs) else None
                | None \<Rightarrow> None))
      | _ \<Rightarrow> None)"

lemma next_attempt:
  fixes attempts :: u32
  assumes "attempts < m"
  shows "unat (attempts + 1) = Suc (unat attempts)"
proof -
  have "Suc (unat attempts) < 2 ^ 32"
    using assms unsigned_less [of m, where 'a = nat] by (simp add: word_less_nat_alt)
  then show ?thesis by (simp add: unat_word_ariths)
qed

function confirm_loop :: "rpc \<Rightarrow> string \<Rightarrow> ConfirmPolicy \<Rightarrow> u32 \<Rightarrow> string io" where
  "confirm_loop rpc signature policy attempts tr =
     (if cp_deadline policy < rpc_elapsed rpc tr \<or> cp_max_attempts policy \<le> attempts
      then (Inl (SdkRpc ''confirmation deadline exceeded''), tr)
      else
        (case request (GetSignatureStatuses signature) (rpc_statuses rpc signature) tr of
           (Inl e, tr') \<Rightarrow> (Inl e, tr')
         | (Inr value, tr') \<Rightarrow>
             (case poll_outcome value of
                Some r \<Rightarrow> (r, tr')
              | None \<Rightarrow> confirm_loop rpc signature policy (attempts + 1) tr')))"
  by pat_completeness auto
termination
proof (relation "measure (\<lambda>(_, _, policy, attempts, _). unat (cp_max_attempts policy) - unat attempts)", goal_cases)
  case (2 rpc signature policy attempts tr)
  then have less: "attempts < cp_max_attempts policy" by (simp add: not_le)
  then show ?case by (simp add: word_less_nat_alt next_attempt [OF less])
qed simp

declare confirm_loop.simps [simp del]

definition confirm_signature :: "rpc \<Rightarrow> string \<Rightarrow> ConfirmPolicy \<Rightarrow> string io" where
  "confirm_signature rpc signature policy = confirm_loop rpc signature policy 0"

section \<open>Sending\<close>

text \<open>The check that every required signer is among the signers at hand.\<close>

fun check_present :: "string list \<Rightarrow> string list \<Rightarrow> SdkError + unit" where
  "check_present present [] = Inr ()"
| "check_present present (required # rest) =
     (if required \<notin> set present then Inl (InvalidInput (''missing required signer '' @ required))
      else check_present present rest)"

definition simulate_and_send_plan ::
    "client \<Rightarrow> rpc \<Rightarrow> (tx_instruction list \<Rightarrow> address \<Rightarrow> address list \<Rightarrow> bytes32 \<Rightarrow> string + bytes) \<Rightarrow>
       InstructionPlan \<Rightarrow> address \<Rightarrow> address \<Rightarrow> address list \<Rightarrow> bool \<Rightarrow> ConfirmPolicy \<Rightarrow> SubmitResult io" where
  "simulate_and_send_plan cl rpc sign plan expected_program payer extra_signers allow_mainnet confirm =
     bindIO (request GetGenesisHash (rpc_genesis_hash rpc)) (\<lambda>genesis.
     let cluster = cluster_from_genesis_hash genesis
     in bindIO (liftIO (ensure (\<not> (cluster = MainnetBeta \<and> \<not> allow_mainnet))
          (InvalidInput ''mainnet blocked without --allow-mainnet''))) (\<lambda>_.
     bindIO (request GetUnixTimestamp (rpc_unix_timestamp rpc)) (\<lambda>now.
     bindIO (liftIO (validate_plan_instructions cl plan expected_program now)) (\<lambda>_.
     bindIO (request GetLatestBlockhash (rpc_latest_blockhash rpc)) (\<lambda>blockhash.
     bindIO (liftIO (to_solana_instructions cl plan)) (\<lambda>ixs.
     let signers = payer # filter (\<lambda>s. s \<noteq> payer) extra_signers;
         present = map (pubkey_to_string cl) signers
     in bindIO (liftIO (check_present present (plan_required_signers plan))) (\<lambda>_.
     bindIO (liftIO (map_err (\<lambda>e. InvalidInput (''signing failed: '' @ e)) (sign ixs payer signers blockhash))) (\<lambda>tx.
     bindIO (request (SimulateTransaction tx) (rpc_simulate rpc tx)) (\<lambda>sim.
     bindIO (liftIO (case sim_err sim of Some err \<Rightarrow> Inl (SdkRpc (''simulation failed: '' @ err)) | None \<Rightarrow> Inr ())) (\<lambda>_.
     bindIO (request (SendTransaction tx) (rpc_send rpc tx)) (\<lambda>signature.
     bindIO (confirm_signature rpc signature confirm) (\<lambda>status.
     liftIO (Inr \<lparr>sr_signature = signature, sr_status = status, sr_cluster = cluster_debug cluster,
       sr_genesis_hash = genesis\<rparr>)))))))))))))"

section \<open>The wait is bounded\<close>

lemma confirm_loop_trace:
  "\<exists>n. snd (confirm_loop rpc signature policy attempts tr) = tr @ replicate n (GetSignatureStatuses signature) \<and>
     n \<le> unat (cp_max_attempts policy) - unat attempts"
proof (induction rpc signature policy attempts tr rule: confirm_loop.induct)
  case (1 rpc signature policy attempts tr)
  let ?call = "GetSignatureStatuses signature" and ?m = "unat (cp_max_attempts policy)"
  show ?case
  proof (cases "cp_deadline policy < rpc_elapsed rpc tr \<or> cp_max_attempts policy \<le> attempts")
    case True
    then show ?thesis by (simp add: confirm_loop.simps [of rpc signature policy attempts tr] exI [of _ 0])
  next
    case False
    then have less: "attempts < cp_max_attempts policy" by (simp add: not_le)
    then have room: "Suc 0 \<le> ?m - unat attempts" by (simp add: word_less_nat_alt Suc_le_eq)
    show ?thesis
    proof (cases "\<exists>v. rpc_statuses rpc signature tr = Inr v \<and> poll_outcome v = None")
      case True
      then obtain v where v: "rpc_statuses rpc signature tr = Inr v" "poll_outcome v = None" by blast
      then obtain n where n: "snd (confirm_loop rpc signature policy (attempts + 1) (tr @ [?call])) =
          (tr @ [?call]) @ replicate n ?call" "n \<le> ?m - unat (attempts + 1)"
        using "1.IH" [OF False] by (fastforce simp: request_def)
      have "snd (confirm_loop rpc signature policy attempts tr) = tr @ replicate (Suc n) ?call"
        using False v n(1) by (simp add: confirm_loop.simps [of rpc signature policy attempts tr] request_def)
      moreover have "Suc n \<le> ?m - unat attempts"
        using n(2) room by (simp add: next_attempt [OF less])
      ultimately show ?thesis by blast
    next
      case stop: False
      then have "snd (confirm_loop rpc signature policy attempts tr) = tr @ replicate (Suc 0) ?call"
        using False
        by (auto simp: confirm_loop.simps [of rpc signature policy attempts tr] request_def split: sum.splits option.splits)
      then show ?thesis using room by blast
    qed
  qed
qed

lemma poll_outcome_Inr: "poll_outcome value = Some (Inr cs) \<Longrightarrow> cs = ''confirmed'' \<or> cs = ''finalized''"
  by (auto simp: poll_outcome_def split: option.splits list.splits if_splits)

lemma confirm_loop_result:
  "fst (confirm_loop rpc signature policy attempts tr) = Inr status \<Longrightarrow>
   status = ''confirmed'' \<or> status = ''finalized''"
proof (induction rpc signature policy attempts tr rule: confirm_loop.induct)
  case (1 rpc signature policy attempts tr)
  then show ?case
    using poll_outcome_Inr
    by (auto simp: confirm_loop.simps [of rpc signature policy attempts tr] request_def
        split: if_splits sum.splits option.splits)
qed

section \<open>What is sent\<close>

lemma bindIO_requestE:
  assumes "bindIO (request c f) k tr = (res, tr')"
  obtains (failed) e where "f tr = Inl e" "res = Inl e" "tr' = tr @ [c]"
  | (answered) x where "f tr = Inr x" "k x (tr @ [c]) = (res, tr')"
  using assms by (auto simp: bindIO_def request_def split: sum.splits)

lemma bindIO_liftE:
  assumes "bindIO (liftIO r) k tr = (res, tr')"
  obtains (failed) e where "r = Inl e" "res = Inl e" "tr' = tr"
  | (passed) x where "r = Inr x" "k x tr = (res, tr')"
  using assms by (auto simp: bindIO_def liftIO_def split: sum.splits)

lemma bindIO_confirmE:
  assumes "bindIO (confirm_signature rpc signature policy) k tr = (res, tr')"
  obtains n where "tr' = tr @ replicate n (GetSignatureStatuses signature)" "n \<le> unat (cp_max_attempts policy)" "\<exists>e. res = Inl e"
  | n status where "k status (tr @ replicate n (GetSignatureStatuses signature)) = (res, tr')"
      "n \<le> unat (cp_max_attempts policy)" "status = ''confirmed'' \<or> status = ''finalized''"
proof -
  obtain n where n: "snd (confirm_signature rpc signature policy tr) = tr @ replicate n (GetSignatureStatuses signature)"
    "n \<le> unat (cp_max_attempts policy)"
    using confirm_loop_trace [of rpc signature policy 0 tr] by (auto simp: confirm_signature_def)
  obtain r t where r: "confirm_signature rpc signature policy tr = (r, t)" by fastforce
  show thesis
  proof (cases r)
    case (Inl e)
    with n r assms show ?thesis by (intro that(1) [of n]) (auto simp: bindIO_def)
  next
    case (Inr status)
    with r have "status = ''confirmed'' \<or> status = ''finalized''"
      using confirm_loop_result [of rpc signature policy 0 tr status] by (simp add: confirm_signature_def)
    with Inr n r assms show ?thesis by (intro that(2) [of status n]) (simp_all add: bindIO_def)
  qed
qed

lemma check_present_eq_Inr [result_inv]:
  "check_present present required = Inr u \<longleftrightarrow> set required \<subseteq> set present"
  by (induction required) auto

text \<open>The condition under which a transaction may leave: the cluster is allowed, the plan has been validated at
  the node's time, every required signer signed, and the simulation reported no error.\<close>

definition may_send ::
    "client \<Rightarrow> rpc \<Rightarrow> (tx_instruction list \<Rightarrow> address \<Rightarrow> address list \<Rightarrow> bytes32 \<Rightarrow> string + bytes) \<Rightarrow>
       InstructionPlan \<Rightarrow> address \<Rightarrow> address \<Rightarrow> address list \<Rightarrow> bool \<Rightarrow> bytes \<Rightarrow> bool" where
  "may_send cl rpc sign plan pid payer extra allow tx \<longleftrightarrow>
     (\<exists>genesis now hash ixs sim.
        rpc_genesis_hash rpc [] = Inr genesis \<and> (cluster_from_genesis_hash genesis = MainnetBeta \<longrightarrow> allow) \<and>
        rpc_unix_timestamp rpc [GetGenesisHash] = Inr now \<and> validate_plan_instructions cl plan pid now = Inr () \<and>
        rpc_latest_blockhash rpc [GetGenesisHash, GetUnixTimestamp] = Inr hash \<and>
        to_solana_instructions cl plan = Inr ixs \<and>
        sign ixs payer (payer # filter (\<lambda>s. s \<noteq> payer) extra) hash = Inr tx \<and>
        set (plan_required_signers plan) \<subseteq> pubkey_to_string cl ` set (payer # extra) \<and>
        rpc_simulate rpc tx [GetGenesisHash, GetUnixTimestamp, GetLatestBlockhash] = Inr sim \<and> sim_err sim = None)"

lemma may_sendI:
  assumes "rpc_genesis_hash rpc [] = Inr genesis" "\<not> (cluster_from_genesis_hash genesis = MainnetBeta \<and> \<not> allow)"
    "rpc_unix_timestamp rpc [GetGenesisHash] = Inr now" "validate_plan_instructions cl plan pid now = Inr u"
    "rpc_latest_blockhash rpc [GetGenesisHash, GetUnixTimestamp] = Inr hash" "to_solana_instructions cl plan = Inr ixs"
    "set (plan_required_signers plan) \<subseteq> set (map (pubkey_to_string cl) (payer # filter (\<lambda>s. s \<noteq> payer) extra))"
    "sign ixs payer (payer # filter (\<lambda>s. s \<noteq> payer) extra) hash = Inr tx"
    "rpc_simulate rpc tx [GetGenesisHash, GetUnixTimestamp, GetLatestBlockhash] = Inr sim" "sim_err sim = None"
  shows "may_send cl rpc sign plan pid payer extra allow tx"
proof -
  have "set (plan_required_signers plan) \<subseteq> pubkey_to_string cl ` set (payer # extra)"
    using assms(7) by auto
  with assms show ?thesis unfolding may_send_def by (auto simp: unit_eq)
qed

lemma no_simulation_error:
  "(case err of Some e \<Rightarrow> Inl (f e) | None \<Rightarrow> Inr ()) = Inr u \<longleftrightarrow> err = None"
  by (cases err) simp_all

text \<open>A run that sends nothing makes at most the four requests before sending; a run that sends makes
  them all, sends once and then only asks for the status.\<close>

lemma send_run:
  assumes "simulate_and_send_plan cl rpc sign plan pid payer extra allow policy [] = (res, tr)"
  shows "(length tr \<le> 4 \<and> (\<forall>tx. SendTransaction tx \<notin> set tr) \<and> (\<exists>e. res = Inl e)) \<or>
    (\<exists>tx n signature. may_send cl rpc sign plan pid payer extra allow tx \<and>
       tr = [GetGenesisHash, GetUnixTimestamp, GetLatestBlockhash, SimulateTransaction tx, SendTransaction tx] @
         replicate n (GetSignatureStatuses signature) \<and> n \<le> unat (cp_max_attempts policy) \<and>
       (\<forall>r. res = Inr r \<longrightarrow> sr_signature r = signature \<and> (sr_status r = ''confirmed'' \<or> sr_status r = ''finalized'')))"
proof -
  let ?pre = "\<lambda>tx. [GetGenesisHash, GetUnixTimestamp, GetLatestBlockhash, SimulateTransaction tx]"
  consider (stopped) "length tr \<le> 4" "\<forall>tx. SendTransaction tx \<notin> set tr" "\<exists>e. res = Inl e"
    | (sent) tx genesis where "may_send cl rpc sign plan pid payer extra allow tx"
      "bindIO (request (SendTransaction tx) (rpc_send rpc tx)) (\<lambda>signature.
         bindIO (confirm_signature rpc signature policy) (\<lambda>status.
         liftIO (Inr \<lparr>sr_signature = signature, sr_status = status,
           sr_cluster = cluster_debug (cluster_from_genesis_hash genesis), sr_genesis_hash = genesis\<rparr>))) (?pre tx) = (res, tr)"
    using assms unfolding simulate_and_send_plan_def Let_def
    apply (elim bindIO_requestE [where c = GetGenesisHash] bindIO_requestE [where c = GetUnixTimestamp]
        bindIO_requestE [where c = GetLatestBlockhash] bindIO_requestE [where c = "SimulateTransaction tx" for tx]
        bindIO_liftE)
    apply (simp; fail)+
    subgoal premises run for genesis _ now _ hash ixs _ tx sim
      by (rule run(2) [of tx genesis], rule may_sendI)
        (use run(3-) in \<open>simp_all only: result_inv no_simulation_error append.simps\<close>)
    done
  then show ?thesis
  proof cases
    case sent
    from sent(2) show ?thesis
      by (elim bindIO_requestE bindIO_confirmE) (use sent(1) in \<open>auto simp: liftIO_def\<close>)
  qed simp
qed

section \<open>The mainnet guard\<close>

text \<open>Text in base 58, as genesis hashes are written: digits of the alphabet below, most significant
  first, one leading \<open>1\<close> for each leading zero byte.\<close>

definition base58_alphabet :: string where
  "base58_alphabet = ''123456789ABCDEFGHJKLMNPQRSTUVWXYZabcdefghijkmnopqrstuvwxyz''"

definition base58_digit :: "char \<Rightarrow> nat option" where
  "base58_digit = map_of (zip base58_alphabet [0..<58])"

fun base58_value :: "nat \<Rightarrow> string \<Rightarrow> nat option" where
  "base58_value acc [] = Some acc"
| "base58_value acc (c # cs) =
     (case base58_digit c of
        None \<Rightarrow> None
      | Some d \<Rightarrow> base58_value (58 * acc + d) cs)"

fun big_endian :: "nat \<Rightarrow> bytes \<Rightarrow> nat" where
  "big_endian acc [] = acc"
| "big_endian acc (b # bs) = big_endian (256 * acc + unat b) bs"

definition base58_text :: "string \<Rightarrow> bytes \<Rightarrow> bool" where
  "base58_text s bs \<longleftrightarrow>
     base58_value 0 s = Some (big_endian 0 bs) \<and>
     length (takeWhile (\<lambda>c. c = CHR ''1'') s) = length (takeWhile (\<lambda>b. b = 0) bs)"

lemma big_endian_ge: "acc * 256 ^ length bs \<le> big_endian acc bs"
proof (induction bs arbitrary: acc)
  case (Cons b bs)
  have "acc * 256 ^ length (b # bs) \<le> (256 * acc + unat b) * 256 ^ length bs"
    by (simp add: algebra_simps)
  also have "\<dots> \<le> big_endian acc (b # bs)" using Cons by simp
  finally show ?case .
qed simp

lemma base58_table:
  "zip base58_alphabet [0..<58] =
    [(CHR ''1'', 0), (CHR ''2'', 1), (CHR ''3'', 2), (CHR ''4'', 3), (CHR ''5'', 4), (CHR ''6'', 5),
    (CHR ''7'', 6), (CHR ''8'', 7), (CHR ''9'', 8), (CHR ''A'', 9), (CHR ''B'', 10), (CHR ''C'', 11),
    (CHR ''D'', 12), (CHR ''E'', 13), (CHR ''F'', 14), (CHR ''G'', 15), (CHR ''H'', 16), (CHR ''J'',
    17), (CHR ''K'', 18), (CHR ''L'', 19), (CHR ''M'', 20), (CHR ''N'', 21), (CHR ''P'', 22), (CHR
    ''Q'', 23), (CHR ''R'', 24), (CHR ''S'', 25), (CHR ''T'', 26), (CHR ''U'', 27), (CHR ''V'', 28),
    (CHR ''W'', 29), (CHR ''X'', 30), (CHR ''Y'', 31), (CHR ''Z'', 32), (CHR ''a'', 33), (CHR ''b'',
    34), (CHR ''c'', 35), (CHR ''d'', 36), (CHR ''e'', 37), (CHR ''f'', 38), (CHR ''g'', 39), (CHR
    ''h'', 40), (CHR ''i'', 41), (CHR ''j'', 42), (CHR ''k'', 43), (CHR ''m'', 44), (CHR ''n'', 45),
    (CHR ''o'', 46), (CHR ''p'', 47), (CHR ''q'', 48), (CHR ''r'', 49), (CHR ''s'', 50), (CHR ''t'',
    51), (CHR ''u'', 52), (CHR ''v'', 53), (CHR ''w'', 54), (CHR ''x'', 55), (CHR ''y'', 56), (CHR
    ''z'', 57)]"
  by (simp add: base58_alphabet_def upt_rec)

lemma base58_digits:
  "base58_digit CHR ''3'' = Some 2" "base58_digit CHR ''4'' = Some 3" "base58_digit CHR ''5'' = Some 4"
  "base58_digit CHR ''8'' = Some 7" "base58_digit CHR ''9'' = Some 8" "base58_digit CHR ''B'' = Some 10"
  "base58_digit CHR ''J'' = Some 17" "base58_digit CHR ''K'' = Some 18" "base58_digit CHR ''L'' = Some 19"
  "base58_digit CHR ''M'' = Some 20" "base58_digit CHR ''P'' = Some 22" "base58_digit CHR ''Q'' = Some 23"
  "base58_digit CHR ''R'' = Some 24" "base58_digit CHR ''S'' = Some 25" "base58_digit CHR ''U'' = Some 27"
  "base58_digit CHR ''V'' = Some 28" "base58_digit CHR ''Y'' = Some 31" "base58_digit CHR ''a'' = Some 33"
  "base58_digit CHR ''b'' = Some 34" "base58_digit CHR ''d'' = Some 36" "base58_digit CHR ''e'' = Some 37"
  "base58_digit CHR ''f'' = Some 38" "base58_digit CHR ''g'' = Some 39" "base58_digit CHR ''j'' = Some 42"
  "base58_digit CHR ''k'' = Some 43" "base58_digit CHR ''n'' = Some 45" "base58_digit CHR ''o'' = Some 46"
  "base58_digit CHR ''p'' = Some 47" "base58_digit CHR ''q'' = Some 48" "base58_digit CHR ''s'' = Some 50"
  "base58_digit CHR ''t'' = Some 51" "base58_digit CHR ''y'' = Some 56"
  by (simp_all add: base58_digit_def base58_table)

lemma mainnet_value:
  "base58_value 0 MAINNET_GENESIS_HASH =
     Some 9299273507956029640182389735235422496138693743404972200024607889470229019"
  by (simp add: MAINNET_GENESIS_HASH_def base58_digits)

lemma mainnet_constant_too_short:
  assumes "base58_text MAINNET_GENESIS_HASH bs"
  shows "length bs \<le> 31"
proof (rule ccontr)
  assume "\<not> length bs \<le> 31"
  then obtain b cs where bs: "bs = b # cs" "31 \<le> length cs" by (cases bs) auto
  have "length (takeWhile (\<lambda>b. b = 0) bs) = 0"
    using assms by (simp add: base58_text_def MAINNET_GENESIS_HASH_def)
  then have "b \<noteq> 0" by (simp add: bs split: if_splits)
  then have "1 \<le> unat b" by (simp add: unat_gt_0 Suc_le_eq)
  then have "256 ^ 31 \<le> unat b * 256 ^ length cs"
    using bs(2) by (metis mult_le_mono nat_mult_1 power_increasing one_le_numeral)
  also have "\<dots> \<le> big_endian 0 bs" using big_endian_ge [of "unat b" cs] by (simp add: bs)
  finally show False using mainnet_value assms by (simp add: base58_text_def)
qed

end
