(* ===== verification/Sdk_Contracts.thy ===== *)
theory Sdk_Contracts
  imports Sample_World Sdk_Receipt Sdk_Decode Sdk_Submit
begin

text \<open>
  Client and program together: the plans of the client library are transactions the program
  accepts, and the client reads exactly the records the program has.

  How a transaction reaches the program is library behaviour, stated as hypotheses:
  \<open>message_law\<close> (what compiling a message makes of the account metas) and \<open>sysvar_law\<close> (what the
  Instructions sysvar shows).
\<close>

section \<open>From metas to views\<close>

text \<open>Compiling a message keeps the order of the accounts and grants each the privileges its meta asks
  for. A key is writable only if it pays the fee or some meta of the transaction asks for it.\<close>

definition message_law :: "address \<Rightarrow> tx_instruction list \<Rightarrow> tx_instruction \<Rightarrow> AccountView list \<Rightarrow> bool" where
  "message_law payer ixs ix vs \<longleftrightarrow>
     list_all2 (\<lambda>m v. view_address v = meta_pubkey m \<and>
       (meta_is_signer m \<longrightarrow> view_is_signer v) \<and> (meta_is_writable m \<longrightarrow> view_is_writable v) \<and>
       (view_is_writable v \<longrightarrow> meta_pubkey m = payer \<or>
          (\<exists>m' \<in> set (concat (map ix_accounts ixs)). meta_pubkey m' = meta_pubkey m \<and> meta_is_writable m')))
       (ix_accounts ix) vs"

text \<open>The sysvar tells the \<open>i\<close>-th instruction its position and the instruction before it.\<close>

definition sysvar_law :: "runtime \<Rightarrow> tx_instruction list \<Rightarrow> nat \<Rightarrow> AccountView \<Rightarrow> world \<Rightarrow> bool" where
  "sysvar_law rt ixs i v w \<longleftrightarrow>
     (\<exists>s. instructions_from_view rt v w = Some s \<and> ixs_current_index s = of_nat i \<and>
        (0 < i \<longrightarrow> ixs_relative s (- 1) = Some (ix_program_id (ixs ! (i - 1)), ix_data (ixs ! (i - 1)))))"

lemmas meta_simps = meta_new_def meta_new_readonly_def

section \<open>Records at derived addresses\<close>

lemma find_creates:
  "pda_law rt \<Longrightarrow> try_find_program_address rt seeds pid = Some (a, bump) \<Longrightarrow>
   create_program_address rt (seeds @ [[bump]]) pid = Some a"
  by (simp add: pda_law_def)

lemma records_derived:
  assumes D: "deployment rt pid" and h: "history rt pid w"
  shows "config_at pid w a = Some c \<Longrightarrow> config_derived rt pid a c"
    and "provider_at pid w a = Some p \<Longrightarrow> provider_derived rt pid a p"
    and "bond_at pid w a = Some b \<Longrightarrow> bond_derived rt pid a b"
    and "job_at pid w a = Some j \<Longrightarrow> job_derived rt pid a j"
  using placedD [OF history_invariants(1) [OF D h], of a] find_creates [OF deploymentD(1) [OF D]]
  by (auto simp: config_placed_def provider_placed_def bond_placed_def job_placed_def
      config_derived_def provider_derived_def bond_derived_def job_derived_def)

text \<open>The record at the address the client derives is the one it derived the address for.\<close>

lemma seeds_of_record:
  assumes "pda_law rt" "try_find_program_address rt s pid = Some (a, x)"
    "try_find_program_address rt t pid = Some (a, y)"
  shows "concat (s @ [[x]]) = concat (t @ [[y]])"
  using assms find_creates [OF assms(1,2)] find_creates [OF assms(1,3)] unfolding pda_law_def by blast

lemma records_at_pdas:
  assumes D: "deployment rt pid" and h: "history rt pid w" and cl: "client_law rt cl"
  shows "provider_pda cl pid auth = Inr pda \<Longrightarrow> provider_at pid w (pda_address pda) = Some p \<Longrightarrow>
      provider_authority p = auth"
    and "provider_bond_pda cl pid auth mint = Inr pda \<Longrightarrow> bond_at pid w (pda_address pda) = Some b \<Longrightarrow>
      bond_provider b = auth \<and> bond_mint b = mint"
    and "job_pda cl pid buyer prov nonce = Inr pda \<Longrightarrow> job_at pid w (pda_address pda) = Some j \<Longrightarrow>
      job_buyer j = buyer \<and> job_provider j = prov \<and> job_nonce j = nonce"
proof -
  note P = placedD [OF history_invariants(1) [OF D h], of "pda_address pda"]
  note S = seeds_of_record [OF deploymentD(1) [OF D]]
  show "provider_authority p = auth"
    if "provider_pda cl pid auth = Inr pda" "provider_at pid w (pda_address pda) = Some p"
  proof -
    have "concat (provider_seed_parts (provider_authority p) @ [[provider_bump p]]) =
        concat (provider_seed_parts auth @ [[pda_bump pda]])"
      using that P(2) by (intro S) (auto simp: provider_placed_def provider_pda_def result_inv client_lawD [OF cl])
    then show ?thesis unfolding provider_seeds_inj by simp
  qed
  show "bond_provider b = auth \<and> bond_mint b = mint"
    if "provider_bond_pda cl pid auth mint = Inr pda" "bond_at pid w (pda_address pda) = Some b"
  proof -
    have "concat (bond_seed_parts (bond_provider b) (bond_mint b) @ [[bond_bump b]]) =
        concat (bond_seed_parts auth mint @ [[pda_bump pda]])"
      using that P(3) by (intro S) (auto simp: bond_placed_def provider_bond_pda_def result_inv client_lawD [OF cl])
    then show ?thesis unfolding bond_seeds_inj by simp
  qed
  show "job_buyer j = buyer \<and> job_provider j = prov \<and> job_nonce j = nonce"
    if "job_pda cl pid buyer prov nonce = Inr pda" "job_at pid w (pda_address pda) = Some j"
  proof -
    have "concat (job_seed_parts (job_buyer j) (job_provider j) (job_nonce_le_bytes (job_nonce j)) @ [[job_bump j]]) =
        concat (job_seed_parts buyer prov (job_nonce_le_bytes nonce) @ [[pda_bump pda]])"
      using that P(4) by (intro S) (auto simp: job_placed_def job_pda_def result_inv client_lawD [OF cl])
    then show ?thesis unfolding job_seeds_inj by simp
  qed
qed

lemma kinds_apart:
  "config_at pid w a = Some c \<Longrightarrow> job_at pid w b = Some j \<Longrightarrow> a \<noteq> b"
  "config_at pid w a = Some c \<Longrightarrow> bond_at pid w b = Some x \<Longrightarrow> a \<noteq> b"
  "bond_at pid w a = Some x \<Longrightarrow> job_at pid w b = Some j \<Longrightarrow> a \<noteq> b"
  using config_store.kind_of job_store.kind_of bond_store.kind_of by fastforce+

section \<open>The handlers succeed\<close>

lemma stored_len:
  "job_at pid w (view_address v) = Some j \<Longrightarrow> data_len v w = JOB_ACCOUNT_LEN"
  "bond_at pid w (view_address v) = Some b \<Longrightarrow> data_len v w = PROVIDER_BOND_ACCOUNT_LEN"
  using job.decode_Inr_len bond.decode_Inr_len by (auto simp: stored_at_eq_Some data_len_def)

lemma emit_keeps:
  "\<exists>w'. emit k a b n t w = Inr w' \<and> job_at pid w' = job_at pid w \<and> bond_at pid w' = bond_at pid w"
  by (simp add: emit_def stored_at_def fun_eq_iff)

lemma submit_receipt_succeeds:
  assumes "deployment rt pid"
    and views: "view_is_writable vj" "\<not> view_is_writable vc"
    and c: "config_at pid w (view_address vc) = Some c" "config_derived rt pid (view_address vc) c"
    and p: "provider_at pid w (view_address vp) = Some p" "provider_derived rt pid (view_address vp) p"
      "provider_status p = PROVIDER_STATUS_ACTIVE" "contains_execution_key p key"
    and j: "job_at pid w (view_address vj) = Some j" "job_derived rt pid (view_address vj) j"
      "job_state j = Accepted" "job_provider j = provider_authority p"
    and now: "w_clock w = Some now" "now \<le>s job_work_deadline j" "receipt_created_at r \<le>s now"
      "now \<le>s receipt_expires_at r"
    and r: "receipt_program_id r = pid" "receipt_genesis_hash r = config_genesis_hash c"
      "receipt_job r = view_address vj" "receipt_buyer r = job_buyer j" "receipt_provider r = job_provider j"
      "receipt_request_hash r = job_request_hash j" "receipt_job_nonce r = job_nonce j"
      "receipt_encode r = Inr message"
    and sig: "verify_preceding_ed25519 rt sysvar message w = Inr key"
  shows "\<exists>w'. process_submit_receipt rt pid [vc, vp, vj, sysvar] r w = Inr w' \<and>
    job_at pid w' (view_address vj) = Some (j\<lparr>job_receipt_digest := sha256 rt message, job_state := Submitted\<rparr>)"
proof -
  let ?j = "j\<lparr>job_receipt_digest := sha256 rt message, job_state := Submitted\<rparr>"
  have save: "save_job vj ?j w = Inr (set_data vj (job_encode ?j) w)"
    using save_fact [OF views(1) stored_len(1) [OF j(1)]] .
  have run: "process_submit_receipt rt pid [vc, vp, vj, sysvar] r w =
      emit ReceiptSubmitted (view_address vj) key 0 now (set_data vj (job_encode ?j) w)"
    using assms save
    by (simp add: process_submit_receipt_def checks load_facts receipt_digest_def signed.not_less)
  have "owned_by vj pid w" using j(1) by (simp add: stored_at_eq_Some owned_by_def)
  then have "job_at pid (set_data vj (job_encode ?j) w) (view_address vj) = Some ?j"
    using job_store.stored_after_save [OF save] by simp
  then show ?thesis unfolding run using emit_keeps by metis
qed

lemma accept_job_succeeds:
  assumes D: "deployment rt pid"
    and views: "view_is_signer va" "view_is_writable vb" "view_is_writable vj" "\<not> view_is_writable vc"
    and c: "config_at pid w (view_address vc) = Some c" "config_derived rt pid (view_address vc) c" "\<not> config_paused c"
    and p: "provider_at pid w (view_address vp) = Some p" "provider_derived rt pid (view_address vp) p"
      "provider_status p = PROVIDER_STATUS_ACTIVE" "provider_authority p = view_address va"
    and b: "bond_at pid w (view_address vb) = Some b" "bond_derived rt pid (view_address vb) b"
      "bond_provider b = view_address va" "bond_mint b = job_mint j" "bond_token_program b = job_token_program j"
      "unat (bond_locked b) + unat (config_min_provider_bond c) \<le> unat (bond_deposited b)"
    and j: "job_at pid w (view_address vj) = Some j" "job_derived rt pid (view_address vj) j"
      "job_state j = Funded" "job_provider j = view_address va"
    and now: "w_clock w = Some now" "now <s job_accept_deadline j"
  shows "\<exists>w'. process_accept_job rt pid [va, vc, vp, vb, vj] w = Inr w' \<and>
    job_at pid w' (view_address vj) =
      Some (j\<lparr>job_locked_bond := config_min_provider_bond c, job_state := Accepted\<rparr>)"
proof -
  let ?j = "j\<lparr>job_locked_bond := config_min_provider_bond c, job_state := Accepted\<rparr>"
  let ?b = "b\<lparr>bond_locked := bond_locked b + config_min_provider_bond c\<rparr>"
  have sum: "unat (bond_locked b + config_min_provider_bond c) = unat (bond_locked b) + unat (config_min_provider_bond c)"
    using b(6) unat_u64_less [of "bond_deposited b"] by (simp add: unat_word_ariths)
  have ok: "bond_ok ?b" using b(6) sum by (simp add: bond_ok_def word_le_nat_alt)
  have free: "unlocked b = Inr (bond_deposited b - bond_locked b)"
    using bond_store.stored_ok [OF b(1)] by (rule unlocked_ok)
  have enough: "config_min_provider_bond c \<le> bond_deposited b - bond_locked b"
    using b(6) by (simp add: word_le_nat_alt unat_sub)
  have add: "checked_add (bond_locked b) (config_min_provider_bond c) =
      Some (bond_locked b + config_min_provider_bond c)"
    using sum by (simp add: checked_add_eq_Some)
  let ?w = "set_data vb (projr (bond_encode ?b)) w"
  have apart: "view_address vb \<noteq> view_address vj" by (rule kinds_apart(3) [OF b(1) j(1)])
  have len: "data_len vj ?w = JOB_ACCOUNT_LEN"
    using stored_len(1) [OF j(1)] apart by (simp add: data_len_def w_accounts_set_data)
  have bond_saved: "save_bond vb ?b w = Inr ?w"
    by (rule save_bond_fact [OF views(2) stored_len(2) [OF b(1)] ok])
  have job_saved: "save_job vj ?j ?w = Inr (set_data vj (job_encode ?j) ?w)"
    by (rule save_fact [OF views(3) len])
  have run: "process_accept_job rt pid [va, vc, vp, vb, vj] w =
      emit JobAccepted (view_address vj) (view_address va) (config_min_provider_bond c) now
        (set_data vj (job_encode ?j) ?w)"
    using assms bond_saved job_saved ok free enough add
    by (simp add: process_accept_job_def checks load_facts signed.not_le not_less bond_ok_def)
  have "owned_by vj pid ?w"
    using j(1) apart by (simp add: stored_at_eq_Some owned_by_def w_accounts_set_data)
  then have "job_at pid (set_data vj (job_encode ?j) ?w) (view_address vj) = Some ?j"
    using job_store.stored_after_save [OF job_saved] by simp
  then show ?thesis unfolding run using emit_keeps by metis
qed

section \<open>A concrete client\<close>

definition byte_char :: "byte \<Rightarrow> char" where
  "byte_char b = char_of (unat b)"

definition sample_from_str :: "string \<Rightarrow> address option" where
  "sample_from_str s =
     (if s = ED25519_PROGRAM_ID_STR then Some ED25519_PROGRAM_ID
      else if s = SYSVAR_INSTRUCTIONS_STR then Some SYSVAR
      else if length s = 32 then Some (array32 (map of_char s))
      else None)"

definition sample_client :: client where
  "sample_client =
     \<lparr>client_find_program_address = sample_find,
      get_associated_token_address_with_program_id = (\<lambda>wallet mint tp.
        case ata sample_runtime wallet mint of Some a \<Rightarrow> a | None \<Rightarrow> SYSTEM),
      spl_token_id = TOKEN,
      pubkey_to_string = (\<lambda>a. map byte_char (to_bytes a)),
      pubkey_from_str = sample_from_str,
      pubkey_from_str_const = (\<lambda>s. case sample_from_str s of Some a \<Rightarrow> a | None \<Rightarrow> SYSTEM),
      base64_encode = map byte_char, base64_decode = (\<lambda>s. Inr (map of_char s))\<rparr>"

lemma of_byte_char [simp]: "of_char (byte_char b) = b"
proof -
  have "of_char (byte_char b) = (of_nat (of_char (byte_char b) :: nat) :: byte)"
    by (simp only: of_nat_of_char)
  also have "\<dots> = of_nat (unat b mod 256)"
    by (simp add: byte_char_def)
  also have "\<dots> = b"
    using unsigned_less [of b, where 'a = nat] by simp
  finally show ?thesis .
qed

lemma of_char_comp [simp]: "of_char \<circ> byte_char = id"
  by (simp add: fun_eq_iff)

lemma sample_text: "text_law sample_client"
proof -
  have len: "length ED25519_PROGRAM_ID_STR = 43" "length SYSVAR_INSTRUCTIONS_STR = 43"
    by (simp_all add: ED25519_PROGRAM_ID_STR_def SYSVAR_INSTRUCTIONS_STR_def)
  have "map byte_char (to_bytes a) \<noteq> s" if "length s = 43" for a :: address and s
  proof
    assume "map byte_char (to_bytes a) = s"
    then have "length (map byte_char (to_bytes a)) = length s" by simp
    with that show False by simp
  qed
  from this [OF len(1)] this [OF len(2)] show ?thesis
    by (simp add: text_law_def sample_client_def sample_from_str_def)
qed

lemma sample_client_law: "client_law sample_runtime sample_client"
  by (simp add: client_law_def sample_client_def sample_addresses)

section \<open>Properties\<close>

text \<open>What a builder produces reads back as one instruction, signed by the accounts the plan names, and passes the
  check made before sending until it expires.\<close>

lemma built_plan_reads_back:
  assumes "text_law cl" "built cl pid ins plan"
  shows "\<exists>ix. to_solana_instructions cl plan = Inr [ix] \<and> ix_program_id ix = pid \<and>
    parse_instruction (ix_data ix) = Inr ins \<and>
    plan_required_signers plan =
      map (\<lambda>m. pubkey_to_string cl (meta_pubkey m)) (filter meta_is_signer (ix_accounts ix)) \<and>
    ((\<forall>t. plan_expires_at plan = Some t \<longrightarrow> now \<le>s t) \<longrightarrow> validate_plan_instructions cl plan pid now = Inr ())"
proof -
  obtain action data expiry metas where plan: "encode_instruction ins = Inr data"
    "plan = plan_new cl action pid [\<lparr>ix_program_id = pid, ix_accounts = metas, ix_data = data\<rparr>]
      (map meta_pubkey (filter meta_is_signer metas)) expiry"
    using built_plan [OF assms(2)] unfolding single_plan_def by blast
  then have "to_solana_instructions cl plan = Inr [\<lparr>ix_program_id = pid, ix_accounts = metas, ix_data = data\<rparr>]"
    by (simp add: plan_round_trip [OF assms(1)])
  with plan parse_encode [OF plan(1)] show ?thesis
    by (auto simp: validate_plan_eq_Inr [OF assms(1)] text_lawD [OF assms(1)] meta_signers_def)
qed

lemma sample_pdas_found:
  "config_pda sample_client PROGRAM = Inr \<lparr>pda_address = CONFIG_PDA, pda_bump = 255\<rparr>"
  "provider_pda sample_client PROGRAM PROVIDER = Inr \<lparr>pda_address = PROVIDER_PDA, pda_bump = 255\<rparr>"
  "provider_bond_pda sample_client PROGRAM PROVIDER MINT = Inr \<lparr>pda_address = BOND_PDA, pda_bump = 255\<rparr>"
  "job_pda sample_client PROGRAM BUYER PROVIDER 1 = Inr \<lparr>pda_address = JOB_PDA, pda_bump = 255\<rparr>"
  by (simp_all add: pda_defs find_pda_eq_Inr) (simp_all add: sample_client_def)

definition sample_accept_ix :: tx_instruction where
  "sample_accept_ix = \<lparr>ix_program_id = PROGRAM, ix_accounts = [meta_new_readonly PROVIDER True,
     meta_new_readonly CONFIG_PDA False, meta_new_readonly PROVIDER_PDA False, meta_new BOND_PDA False,
     meta_new JOB_PDA False], ix_data = [kind_as_u8 AcceptJobKind]\<rparr>"

definition sample_accept_plan :: InstructionPlan where
  "sample_accept_plan = plan_new sample_client ''accept_job'' PROGRAM [sample_accept_ix] [PROVIDER] None"

lemma sample_accept_built: "plan_accept_job sample_client PROGRAM PROVIDER BUYER MINT 1 = Inr sample_accept_plan"
  by (simp add: plan_accept_job_def sample_pdas_found empty_def encode_empty_def sample_accept_plan_def
      sample_accept_ix_def)

text \<open>
  C25. Accepting a job through the client works. If the job, bond, provider and configuration accounts
  the client derives hold a funded job before its acceptance deadline, an active provider, and a bond
  with enough unlocked deposit, and the protocol is not paused, then the transaction built by
  \<open>plan_accept_job\<close> succeeds and the job is accepted with the configured share of the bond locked.
\<close>

theorem accept_plan_is_accepted:
  assumes "deployment rt pid" "history rt pid w" "client_law rt cl" "text_law cl"
    and "plan_accept_job cl pid prov buyer mint nonce = Inr plan" "to_solana_instructions cl plan = Inr ixs"
    and "message_law payer ixs (ixs ! 0) vs" "payer \<noteq> pda_address ca"
    and "config_pda cl pid = Inr ca" "config_at pid w (pda_address ca) = Some c" "\<not> config_paused c"
    and "provider_pda cl pid prov = Inr pa" "provider_at pid w (pda_address pa) = Some p"
      "provider_status p = PROVIDER_STATUS_ACTIVE"
    and "provider_bond_pda cl pid prov mint = Inr ba" "bond_at pid w (pda_address ba) = Some b"
      "bond_token_program b = job_token_program j"
      "unat (bond_locked b) + unat (config_min_provider_bond c) \<le> unat (bond_deposited b)"
    and "job_pda cl pid buyer prov nonce = Inr ja" "job_at pid w (pda_address ja) = Some j" "job_state j = Funded"
      "job_mint j = mint"
    and "w_clock w = Some now" "now <s job_accept_deadline j"
  shows "\<exists>w'. process_instruction rt pid vs (ix_data (ixs ! 0)) w = Inr w' \<and>
    job_at pid w' (pda_address ja) =
      Some (j\<lparr>job_locked_bond := config_min_provider_bond c, job_state := Accepted\<rparr>)"
proof -
  note D = assms(1) and h = assms(2) and cl = assms(3)
  let ?metas = "[meta_new_readonly prov True, meta_new_readonly (pda_address ca) False,
    meta_new_readonly (pda_address pa) False, meta_new (pda_address ba) False, meta_new (pda_address ja) False]"
  obtain data where data: "encode_instruction AcceptJob = Inr data"
    and ixs: "ixs = [\<lparr>ix_program_id = pid, ix_accounts = ?metas, ix_data = data\<rparr>]"
    using assms(4,5,6,9,12,15,19) by (auto simp: plan_accept_job_def result_inv plan_round_trip)
  have apart: "pda_address ca \<noteq> pda_address ja" "pda_address ca \<noteq> pda_address ba"
    using kinds_apart(1) [OF assms(10,20)] kinds_apart(2) [OF assms(10,16)] .
  from assms(7) obtain va vc vp vb vj where vs: "vs = [va, vc, vp, vb, vj]" and
    views: "view_is_signer va" "view_is_writable vb" "view_is_writable vj" "\<not> view_is_writable vc"
    "view_address va = prov" "view_address vc = pda_address ca" "view_address vp = pda_address pa"
    "view_address vb = pda_address ba" "view_address vj = pda_address ja"
    using assms(8) apart unfolding message_law_def ixs
    by (auto simp: list_all2_Cons1 meta_simps)
  have fields: "provider_authority p = prov" "bond_provider b = prov" "bond_mint b = mint" "job_provider j = prov"
    using records_at_pdas [OF D h cl] assms(12,13,15,16,19,20) by blast+
  show ?thesis
    using accept_job_succeeds [OF D views(1-4), where w = w and c = c and p = p and vp = vp and b = b and j = j and now = now]
      views(5-) fields assms(10,11,13,14,16-18,20-)
      records_derived [OF D h]
    unfolding vs ixs by (simp add: process_instruction_def process_def parse_encode [OF data])
qed

lemma sample_accept_message:
  "to_solana_instructions sample_client sample_accept_plan = Inr [sample_accept_ix]"
  "message_law PROVIDER [sample_accept_ix] ([sample_accept_ix] ! 0) accept_accounts"
  by (simp_all add: sample_accept_plan_def plan_round_trip [OF sample_text] message_law_def sample_accept_ix_def
      meta_simps accept_accounts_def)

theorem accept_plan_is_accepted_witness:
  "\<exists>w'. process_instruction sample_runtime PROGRAM accept_accounts (ix_data sample_accept_ix) day5 = Inr w' \<and>
     job_at PROGRAM w' JOB_PDA = Some (sample_job Accepted 50)"
  using accept_plan_is_accepted [OF sample_deployment day5_history sample_client_law sample_text
      sample_accept_built sample_accept_message(1,2) _ sample_pdas_found(1) _ _ sample_pdas_found(2) _ _
      sample_pdas_found(3) _ _ _ sample_pdas_found(4), where c = sample_config and p = new_sample_provider and
      b = "sample_bond 0" and j = "sample_job Funded 0" and now = 50]
  by (simp add: deposit_runs word_sless_alt)

text \<open>
  C26. Submitting a receipt through the client works. The transaction \<open>build_submit_receipt_plan_at\<close> makes is a
  precompile call followed by the program's instruction. If the configuration, provider and job accounts
  hold an accepted job of an active provider who has registered the signing key, the receipt matches the
  job and the deadlines hold, the program accepts it: it finds the key in the call the client built and the job
  stores the digest of the receipt.
\<close>

theorem receipt_plan_is_accepted:
  assumes "deployment rt pid" "history rt pid w" "client_law rt cl" "text_law cl"
    and "build_submit_receipt_plan_at cl pid job prov r key sig ts = Inr plan" "length sig = 64"
      "to_solana_instructions cl plan = Inr ixs"
    and "message_law payer ixs (ixs ! 1) vs" "payer \<noteq> pda_address ca" "sysvar_law rt ixs 1 (vs ! 3) w"
    and "config_pda cl pid = Inr ca" "config_at pid w (pda_address ca) = Some c"
    and "provider_pda cl pid prov = Inr pa" "provider_at pid w (pda_address pa) = Some p"
      "provider_status p = PROVIDER_STATUS_ACTIVE" "key \<in> set (active_keys p)"
    and "job_at pid w job = Some j" "job_state j = Accepted" "job_provider j = prov"
    and "receipt_genesis_hash r = config_genesis_hash c" "receipt_buyer r = job_buyer j"
      "receipt_request_hash r = job_request_hash j" "receipt_job_nonce r = job_nonce j"
    and "w_clock w = Some now" "now \<le>s job_work_deadline j" "receipt_created_at r \<le>s now"
      "now \<le>s receipt_expires_at r"
  shows "\<exists>w' message. process_instruction rt pid vs (ix_data (ixs ! 1)) w = Inr w' \<and>
    receipt_encode r = Inr message \<and>
    job_at pid w' job = Some (j\<lparr>job_receipt_digest := sha256 rt message, job_state := Submitted\<rparr>)"
  using assms(5)
proof (cases rule: receipt_plan_inv)
  case (1 msg data cfg pda)
  note D = assms(1) and h = assms(2)
  let ?metas = "[meta_new_readonly (pda_address ca) False, meta_new_readonly (pda_address pa) False,
    meta_new job False, meta_new_readonly (pubkey_from_str_const cl SYSVAR_INSTRUCTIONS_STR) False]"
  have ixs: "ixs = [\<lparr>ix_program_id = ED25519_PROGRAM_ID, ix_accounts = [], ix_data = call_data key sig msg\<rparr>,
      \<lparr>ix_program_id = pid, ix_accounts = ?metas, ix_data = data\<rparr>]"
    using 1 assms(7,11,13) by (simp add: plan_round_trip [OF assms(4)] text_lawD [OF assms(4)])
  have apart: "pda_address ca \<noteq> job" using kinds_apart(1) [OF assms(12,17)] .
  from assms(8) obtain vc vp vj sysvar where vs: "vs = [vc, vp, vj, sysvar]" and
    views: "view_is_writable vj" "\<not> view_is_writable vc" "view_address vc = pda_address ca"
      "view_address vp = pda_address pa" "view_address vj = job"
    using assms(9) apart unfolding message_law_def ixs
    by (auto simp: list_all2_Cons1 meta_simps)
  have len: "length msg = RECEIPT_ENCODED_LEN" by (rule length_receipt_encode [OF 1(1)])
  have sig: "verify_preceding_ed25519 rt sysvar msg w = Inr key"
    using assms(10) built_call_parses [OF assms(6) len] len unfolding ixs vs sysvar_law_def
    by (auto simp: verify_preceding_ed25519_def checked_sub_def)
  have "contains_execution_key p key"
    using assms(16) by (simp add: contains_execution_key_iff active_keys_def)
  moreover have "provider_authority p = prov"
    using records_at_pdas(1) [OF D h assms(3,13,14)] .
  ultimately show ?thesis
    using submit_receipt_succeeds [OF D views(1,2), where w = w and c = c and p = p and vp = vp and j = j and
        now = now and r = r and message = msg and key = key and sysvar = sysvar]
      views(3-) records_derived [OF D h] assms(12,14,15,17-) 1(1,5-7) sig parse_encode [OF 1(2)]
    unfolding vs ixs by (auto simp: process_instruction_def process_def)
qed

definition sample_receipt_plan :: InstructionPlan where
  "sample_receipt_plan =
     projr (build_submit_receipt_plan_at sample_client PROGRAM JOB_PDA PROVIDER sample_receipt EXEC_KEY (replicate 64 3) None)"

definition sample_receipt_ixs :: "tx_instruction list" where
  "sample_receipt_ixs =
     [\<lparr>ix_program_id = ED25519_PROGRAM_ID, ix_accounts = [], ix_data = sample_ed25519\<rparr>,
      \<lparr>ix_program_id = PROGRAM, ix_accounts = [meta_new_readonly CONFIG_PDA False,
        meta_new_readonly PROVIDER_PDA False, meta_new JOB_PDA False, meta_new_readonly SYSVAR False],
        ix_data = projr (encode_submit_receipt sample_receipt)\<rparr>]"

lemma sample_receipt_built:
  "build_submit_receipt_plan_at sample_client PROGRAM JOB_PDA PROVIDER sample_receipt EXEC_KEY (replicate 64 3) None =
     Inr sample_receipt_plan"
  "to_solana_instructions sample_client sample_receipt_plan = Inr sample_receipt_ixs"
proof -
  have sysvar: "pubkey_from_str_const sample_client SYSVAR_INSTRUCTIONS_STR = SYSVAR"
    by (simp add: sample_client_def sample_from_str_def ED25519_PROGRAM_ID_STR_def SYSVAR_INSTRUCTIONS_STR_def)
  have data: "call_data EXEC_KEY (replicate 64 3) sample_message = sample_ed25519"
    by (simp add: call_data_def sample_ed25519_def sample_message_def)
  have ed: "build_ed25519_verify_instruction sample_client sample_message EXEC_KEY (replicate 64 3) =
      Inr \<lparr>ix_program_id = ED25519_PROGRAM_ID, ix_accounts = [], ix_data = sample_ed25519\<rparr>"
    unfolding build_ed25519_eq_Inr data by (simp add: sample_message text_lawD [OF sample_text])
  have valid: "sdk_validate_receipt sample_receipt = Inr ()"
    unfolding sdk_validate_receipt_eq_Inr by (simp add: word_sle_eq)
  obtain d where d: "encode_submit_receipt sample_receipt = Inr d"
    using sample_message by (auto simp: encode_submit_receipt_def)
  have "build_submit_receipt_plan_at sample_client PROGRAM JOB_PDA PROVIDER sample_receipt EXEC_KEY (replicate 64 3) None =
      Inr (plan_new sample_client ''submit_receipt'' PROGRAM sample_receipt_ixs [] (Some 390))"
    using valid ed d
    by (simp add: build_submit_receipt_plan_at_def sample_message sample_pdas_found sysvar sample_receipt_ixs_def)
  then show "build_submit_receipt_plan_at sample_client PROGRAM JOB_PDA PROVIDER sample_receipt EXEC_KEY (replicate 64 3) None =
      Inr sample_receipt_plan" "to_solana_instructions sample_client sample_receipt_plan = Inr sample_receipt_ixs"
    by (simp_all add: sample_receipt_plan_def plan_round_trip [OF sample_text])
qed

lemma sample_receipt_message:
  "message_law BUYER sample_receipt_ixs (sample_receipt_ixs ! 1) submit_accounts"
  "sysvar_law sample_runtime sample_receipt_ixs 1 (submit_accounts ! 3) day8"
  by (simp_all add: message_law_def sysvar_law_def sample_receipt_ixs_def meta_simps submit_accounts_def
      sample_instructions_def numeral_3_eq_3)

theorem receipt_plan_is_accepted_witness:
  "\<exists>w' j. process_instruction sample_runtime PROGRAM submit_accounts (ix_data (sample_receipt_ixs ! 1)) day8 = Inr w' \<and>
     job_at PROGRAM w' JOB_PDA = Some j \<and> job_state j = Submitted"
  using receipt_plan_is_accepted [OF sample_deployment day8_history sample_client_law sample_text
      sample_receipt_built(1) _ sample_receipt_built(2) sample_receipt_message(1) _ sample_receipt_message(2)
      sample_pdas_found(1) _ sample_pdas_found(2), where c = sample_config and p = sample_provider and
      j = "sample_job Accepted 50" and now = 250]
  by (auto simp: word_sle_eq active_keys_def)

text \<open>Each decoder of the client, on the chain of a history.\<close>

lemma decoders_read_the_chain:
  assumes "deployment rt pid" "history rt pid w" "client_law rt cl"
  shows "(decode_config cl pid a (acct_owner (w_accounts w a)) (acct_data (w_accounts w a)) = Inr c \<longleftrightarrow>
      config_at pid w a = Some c) \<and>
    (decode_provider cl pid a (acct_owner (w_accounts w a)) (acct_data (w_accounts w a)) = Inr p \<longleftrightarrow>
      provider_at pid w a = Some p) \<and>
    (decode_provider_bond cl pid a (acct_owner (w_accounts w a)) (acct_data (w_accounts w a)) = Inr b \<longleftrightarrow>
      bond_at pid w a = Some b) \<and>
    (decode_job cl pid a (acct_owner (w_accounts w a)) (acct_data (w_accounts w a)) = Inr j \<longleftrightarrow>
      job_at pid w a = Some j) \<and>
    (decode_challenge cl pid a (acct_owner (w_accounts w a)) (acct_data (w_accounts w a)) = Inr ch \<longleftrightarrow>
      challenge_at pid w a = Some ch)"
proof -
  have found: "\<exists>pda. find_pda cl seeds pid = Inr pda \<and> pda_address pda = a"
    if "try_find_program_address rt seeds pid = Some (a, bump)" for seeds bump
    using that
    by (intro exI [of _ "\<lparr>pda_address = a, pda_bump = bump\<rparr>"]) (simp add: find_pda_eq_Inr client_lawD [OF assms(3)])
  show ?thesis
    using placedD [OF history_invariants(1) [OF assms(1,2)], of a] found
    unfolding decode_eq_Inr pda_defs
    by (auto simp: stored_at_eq_Some config_placed_def provider_placed_def bond_placed_def job_placed_def
        challenge_placed_def)
qed

text \<open>
  C27. The client reads what the program stored. On the chain of any history, each decoder of the client
  applied to an account returns a record exactly when the program has that record at that address:
  nothing else passes the checks, and no record of the program fails them.
\<close>

theorem client_reads_the_records:
  assumes "deployment rt pid" "history rt pid w" "client_law rt cl"
  shows "(decode_config cl pid a (acct_owner (w_accounts w a)) (acct_data (w_accounts w a)) = Inr c \<longleftrightarrow>
      config_at pid w a = Some c) \<and>
    (decode_provider cl pid a (acct_owner (w_accounts w a)) (acct_data (w_accounts w a)) = Inr p \<longleftrightarrow>
      provider_at pid w a = Some p) \<and>
    (decode_provider_bond cl pid a (acct_owner (w_accounts w a)) (acct_data (w_accounts w a)) = Inr b \<longleftrightarrow>
      bond_at pid w a = Some b) \<and>
    (decode_job cl pid a (acct_owner (w_accounts w a)) (acct_data (w_accounts w a)) = Inr j \<longleftrightarrow>
      job_at pid w a = Some j) \<and>
    (decode_challenge cl pid a (acct_owner (w_accounts w a)) (acct_data (w_accounts w a)) = Inr ch \<longleftrightarrow>
      challenge_at pid w a = Some ch)"
  using assms by (rule decoders_read_the_chain)

theorem client_reads_the_records_witness:
  "decode_job sample_client PROGRAM JOB_PDA (acct_owner (w_accounts day8 JOB_PDA)) (acct_data (w_accounts day8 JOB_PDA)) =
     Inr (sample_job Accepted 50)"
  using client_reads_the_records [OF sample_deployment day8_history sample_client_law] day8_records(4) by blast

text \<open>
  C28. Sending is guarded. A run of \<open>simulate_and_send_plan\<close> either stops with an error before anything is sent, or sends exactly
  one transaction; then the cluster was allowed, the plan had been validated at the node's time, every
  required signer was among the signers, and the node's simulation of that very transaction reported no error. It
  asks for the status at most \<open>max_attempts\<close> times, and reports success only for a confirmed or finalized transaction.
\<close>

theorem sending_is_guarded:
  assumes "simulate_and_send_plan cl rpc sign plan pid payer extra allow policy [] = (res, tr)"
  shows "(length tr \<le> 4 \<and> (\<forall>tx. SendTransaction tx \<notin> set tr) \<and> (\<exists>e. res = Inl e)) \<or>
    (\<exists>tx n signature. may_send cl rpc sign plan pid payer extra allow tx \<and>
       tr = [GetGenesisHash, GetUnixTimestamp, GetLatestBlockhash, SimulateTransaction tx, SendTransaction tx] @
         replicate n (GetSignatureStatuses signature) \<and> n \<le> unat (cp_max_attempts policy) \<and>
       (\<forall>r. res = Inr r \<longrightarrow> sr_signature r = signature \<and> (sr_status r = ''confirmed'' \<or> sr_status r = ''finalized'')))"
  using assms by (rule send_run)

definition sample_rpc :: rpc where
  "sample_rpc =
     \<lparr>rpc_genesis_hash = (\<lambda>_. Inr ''EtWTRABZaYq6iMfeYKouRu166VU2xqa1wcaWoxPkrZBG''),
      rpc_unix_timestamp = (\<lambda>_. Inr 50), rpc_latest_blockhash = (\<lambda>_. Inr (fill32 1)),
      rpc_simulate = (\<lambda>_ _. Inr \<lparr>sim_err = None, sim_logs = None\<rparr>), rpc_send = (\<lambda>_ _. Inr ''sig''),
      rpc_statuses = (\<lambda>_ _. Inr (Some [Some \<lparr>sv_confirmation_status = Some ''confirmed'', sv_err = None\<rparr>])),
      rpc_elapsed = length\<rparr>"

lemma sample_send:
  "simulate_and_send_plan sample_client sample_rpc (\<lambda>_ _ _ _. Inr [7]) sample_accept_plan PROGRAM PROVIDER [] False
     (policy_fast 100) [] =
   (Inr \<lparr>sr_signature = ''sig'', sr_status = ''confirmed'', sr_cluster = ''Devnet'',
      sr_genesis_hash = ''EtWTRABZaYq6iMfeYKouRu166VU2xqa1wcaWoxPkrZBG''\<rparr>,
    [GetGenesisHash, GetUnixTimestamp, GetLatestBlockhash, SimulateTransaction [7], SendTransaction [7],
     GetSignatureStatuses ''sig''])"
proof -
  have valid: "validate_plan_instructions sample_client sample_accept_plan PROGRAM 50 = Inr ()"
    unfolding validate_plan_eq_Inr [OF sample_text]
    by (simp add: sample_accept_message(1))
       (simp add: sample_accept_plan_def sample_accept_ix_def meta_signers_def meta_simps text_lawD [OF sample_text])
  have "plan_required_signers sample_accept_plan = [pubkey_to_string sample_client PROVIDER]"
    by (simp add: sample_accept_plan_def)
  then show ?thesis
    using valid sample_accept_message(1)
    by (simp add: simulate_and_send_plan_def bindIO_def request_def liftIO_def sample_rpc_def
        cluster_from_genesis_hash_def MAINNET_GENESIS_HASH_def confirm_signature_def confirm_loop.simps
        policy_fast_def poll_outcome_def)
qed

theorem sending_is_guarded_witness:
  "simulate_and_send_plan sample_client sample_rpc (\<lambda>_ _ _ _. Inr [7]) sample_accept_plan PROGRAM PROVIDER [] False
     (policy_fast 100) [] =
   (Inr \<lparr>sr_signature = ''sig'', sr_status = ''confirmed'', sr_cluster = ''Devnet'',
      sr_genesis_hash = ''EtWTRABZaYq6iMfeYKouRu166VU2xqa1wcaWoxPkrZBG''\<rparr>,
    [GetGenesisHash, GetUnixTimestamp, GetLatestBlockhash, SimulateTransaction [7], SendTransaction [7],
     GetSignatureStatuses ''sig'']) \<and>
   may_send sample_client sample_rpc (\<lambda>_ _ _ _. Inr [7]) sample_accept_plan PROGRAM PROVIDER [] False [7]"
  using sending_is_guarded [OF sample_send] sample_send by auto

text \<open>
  The mainnet guard never fires. The constant \<open>MAINNET_GENESIS_HASH\<close> is not the text of any
  hash: genesis hashes are 32 bytes written in base 58, the constant denotes fewer. So whatever chain the node
  serves, \<open>cluster_from_genesis_hash\<close> does not recognise it as mainnet, and the check for \<open>allow_mainnet\<close> passes.
\<close>

theorem mainnet_guard_never_fires:
  assumes "base58_text genesis hash" "length hash = 32"
  shows "cluster_from_genesis_hash genesis \<noteq> MainnetBeta"
  using assms mainnet_constant_too_short [of hash]
  by (auto simp: cluster_from_genesis_hash_def split: if_splits)

theorem mainnet_guard_never_fires_witness:
  "base58_text (replicate 32 CHR ''1'') (replicate 32 0) \<and>
   cluster_from_genesis_hash (replicate 32 CHR ''1'') \<noteq> MainnetBeta"
proof -
  have "base58_text (replicate 32 CHR ''1'') (replicate 32 0)"
    by (simp add: base58_text_def numeral_eq_Suc) (simp add: base58_digit_def base58_table)
  with mainnet_guard_never_fires [OF this] show ?thesis by simp
qed

end
