(* ===== verification/App_Contracts.thy ===== *)
theory App_Contracts
  imports Cli_Plan Sdk_Contracts Handler_Contracts
begin

text \<open>
  The application and the program together: the timeout plans the application offers are those the program accepts
  (\<open>timeouts_are_offered\<close>, \<open>offered_timeouts_are_due\<close>), the plans of the command line carry the command
  (\<open>cli_plans_carry_the_command\<close>), and receipts survive their textual form.

  \<open>chain_view reader w\<close>: the reader answers from the world \<open>w\<close>.
\<close>

section \<open>Reading the chain\<close>

definition chain_view :: "chain_reader \<Rightarrow> world \<Rightarrow> bool" where
  "chain_view reader w \<longleftrightarrow>
     (\<forall>a. (\<exists>l. read_account reader a = Inr (Some \<lparr>ad_owner = acct_owner (w_accounts w a),
              ad_data = acct_data (w_accounts w a), ad_lamports = l\<rparr>)) \<or>
          acct_data (w_accounts w a) = [] \<and> read_account reader a = Inr None) \<and>
     (\<forall>now. w_clock w = Some now \<longrightarrow> read_unix_timestamp reader = Inr now)"

lemma chain_view_time: "chain_view reader w \<Longrightarrow> w_clock w = Some now \<Longrightarrow> read_unix_timestamp reader = Inr now"
  by (simp add: chain_view_def)

lemma fetch_eq:
  assumes "chain_view reader w" "acct_data (w_accounts w a) \<noteq> []"
  shows "\<exists>l. fetch reader a what = Inr \<lparr>ad_owner = acct_owner (w_accounts w a), ad_data = acct_data (w_accounts w a), ad_lamports = l\<rparr>"
proof -
  obtain l where "read_account reader a = Inr (Some \<lparr>ad_owner = acct_owner (w_accounts w a),
      ad_data = acct_data (w_accounts w a), ad_lamports = l\<rparr>)"
    using assms unfolding chain_view_def by blast
  then show ?thesis by (simp add: fetch_def sdk_def ok_or_def)
qed

lemma fetch_eq_Inr:
  assumes "chain_view reader w" "fetch reader a what = Inr acc"
  shows "ad_owner acc = acct_owner (w_accounts w a) \<and> ad_data acc = acct_data (w_accounts w a)"
  using assms unfolding chain_view_def fetch_def
  by (elim conjE allE [of _ a]) (auto simp: sdk_def ok_or_def)

lemma job_data_nonempty: "job_at pid w a = Some j \<Longrightarrow> acct_data (w_accounts w a) \<noteq> []"
  using job.decode_Inr_len by (fastforce simp: stored_at_eq_Some)

lemma challenge_data_nonempty: "challenge_at pid w a = Some ch \<Longrightarrow> acct_data (w_accounts w a) \<noteq> []"
  using challenge.decode_Inr_len by (fastforce simp: stored_at_eq_Some)

lemma inspect_job_reads:
  assumes "deployment rt pid" "history rt pid w" "client_law rt cl" "chain_view reader w" "job_at pid w a = Some j"
  shows "inspect_job cl reader pid a = Inr j"
proof -
  obtain l where "fetch reader a ''job'' =
      Inr \<lparr>ad_owner = acct_owner (w_accounts w a), ad_data = acct_data (w_accounts w a), ad_lamports = l\<rparr>"
    using fetch_eq [OF assms(4) job_data_nonempty [OF assms(5)]] by blast
  moreover have "decode_job cl pid a (acct_owner (w_accounts w a)) (acct_data (w_accounts w a)) = Inr j"
    using decoders_read_the_chain [OF assms(1-3)] assms(5) by blast
  ultimately show ?thesis by (simp add: inspect_job_def sdk_def)
qed

section \<open>Timeouts\<close>

text \<open>The conditions of the program for its three timeout instructions on a job; those of a settlement with a
  challenge are about the challenge record.\<close>

definition settle_due :: "address \<Rightarrow> world \<Rightarrow> address \<Rightarrow> JobAccount \<Rightarrow> i64 \<Rightarrow> bool" where
  "settle_due pid w a j now \<longleftrightarrow>
     job_state j = Submitted \<and> job_auto_settle_deadline j \<le>s now \<or>
     job_state j = Challenged \<and>
       (\<exists>ca ch. challenge_at pid w ca = Some ch \<and> challenge_job ch = a \<and> challenge_deadline ch \<le>s now)"

definition timeout_due :: "address \<Rightarrow> world \<Rightarrow> address \<Rightarrow> JobAccount \<Rightarrow> i64 \<Rightarrow> Instruction \<Rightarrow> bool" where
  "timeout_due pid w a j now ins \<longleftrightarrow>
     ins = ExpireUnfunded \<and> job_state j = Created \<and> job_fund_deadline j \<le>s now \<or>
     ins = ResolveTimeoutRefund \<and> refund_gate j now False = Inr () \<or>
     ins = ResolveTimeoutSettle \<and> settle_due pid w a j now"

lemma refund_gate_open:
  "refund_gate j now False = Inr () \<longleftrightarrow>
     job_state j = Funded \<and> job_accept_deadline j \<le>s now \<or> job_state j = Accepted \<and> job_work_deadline j <s now"
  by (auto simp: refund_gate_def ensure_def signed.not_less signed.not_le split: JobState.splits)

text \<open>The instruction by which the application offers a timeout: the program's \<open>ExpireUnaccepted\<close> refunds a funded
  job past its deadline, which \<open>ResolveTimeoutRefund\<close> does too.\<close>

definition offered :: "Instruction \<Rightarrow> Instruction" where
  "offered ins = (if ins = ExpireUnaccepted then ResolveTimeoutRefund else ins)"

lemma refund_internal_mono:
  assumes "refund_internal rt pid accounts True w = Inr w'"
  shows "refund_internal rt pid accounts False w = Inr w'"
proof -
  have gate: "refund_gate j now False = Inr u" if "refund_gate j now True = Inr u" for j now u
    using that by (auto simp: refund_gate_def split: JobState.splits)
  show ?thesis
    using assms unfolding refund_internal_def case_prod_beta tryE_eq_Inr by (fast elim: gate)
qed

lemma offered_runs_alike:
  assumes "process_instruction rt pid accounts data w = Inr w'" "parse_instruction data = Inr ins"
    and "ins \<in> {ExpireUnfunded, ExpireUnaccepted, ResolveTimeoutRefund, ResolveTimeoutSettle}"
  shows "process_instruction rt pid accounts (projr (encode_instruction (offered ins))) w = Inr w'"
proof (cases "ins = ExpireUnaccepted")
  case True
  then have "refund_internal rt pid accounts True w = Inr w'"
    using assms(1,2) by (simp add: process_instruction_def process_def expire_unaccepted_def)
  from refund_internal_mono [OF this] True show ?thesis
    by (simp add: process_instruction_def process_def offered_def resolve_timeout_refund_def parse_encoded
        del: encode_instruction.simps)
next
  case False
  then have "encode_instruction (offered ins) = Inr data" using assms(2) by (simp add: offered_def parse_canonical)
  with assms(1) show ?thesis by simp
qed

text \<open>What the program accepts is due.\<close>

lemma accepted_is_due:
  assumes D: "deployment rt pid" and p: "process_instruction rt pid accounts data w = Inr w'"
    and ins: "parse_instruction data = Inr ins" "ins \<in> {ExpireUnfunded, ExpireUnaccepted, ResolveTimeoutRefund, ResolveTimeoutSettle}"
    and a: "view_address (accounts ! 1) = a" "job_at pid w a = Some j"
  shows "\<exists>now. w_clock w = Some now \<and> timeout_due pid w a j now (offered ins)"
proof -
  from p ins(1) have run: "(case ins of ExpireUnfunded \<Rightarrow> expire_unfunded rt pid accounts w = Inr w'
      | ExpireUnaccepted \<Rightarrow> refund_internal rt pid accounts True w = Inr w'
      | ResolveTimeoutRefund \<Rightarrow> refund_internal rt pid accounts False w = Inr w'
      | ResolveTimeoutSettle \<Rightarrow> resolve_timeout_settle rt pid accounts w = Inr w' | _ \<Rightarrow> True)"
    by (cases ins) (simp_all add: process_instruction_def process_def resolve_timeout_refund_def expire_unaccepted_def)
  consider "ins = ExpireUnfunded" | "offered ins = ResolveTimeoutRefund" | "ins = ResolveTimeoutSettle"
    using ins(2) by (auto simp: offered_def)
  then show ?thesis
  proof cases
    case 1
    with run have "expire_unfunded rt pid accounts w = Inr w'" by simp
    then show ?thesis
      by (cases rule: expire_unfunded_inv) (use 1 a in \<open>auto simp: offered_def timeout_due_def signed.not_less\<close>)
  next
    case 2
    with run have "refund_internal rt pid accounts False w = Inr w'"
      using refund_internal_mono by (auto simp: offered_def split: if_splits)
    from D this show ?thesis
      by (cases rule: refund_internal_effect) (use 2 a in \<open>auto simp: timeout_due_def refund_gate_open\<close>)
  next
    case 3
    with run have "resolve_timeout_settle rt pid accounts w = Inr w'" by simp
    then show ?thesis
    proof (cases rule: timeout_settle_inv)
      case (run payer job_account bond_account escrow provider_token buyer_token buyer mint token_program rest j' now)
      then have j: "j' = j" "view_address job_account = a" using a by auto
      from run(5) have "settle_due pid w a j now"
        by (cases rule: settle_gate_cases) (use j in \<open>auto simp: settle_due_def signed.not_less\<close>)
      with run(4) 3 show ?thesis by (auto simp: offered_def timeout_due_def)
    qed
  qed
qed

lemma derived_address:
  assumes "client_law rt cl" "try_find_program_address rt seeds pid = Some (a, bump)"
  shows "find_pda cl seeds pid = Inr \<lparr>pda_address = a, pda_bump = bump\<rparr>"
  using assms by (simp add: find_pda_eq_Inr client_lawD)

text \<open>What the application does on a job, in terms of the program's conditions.\<close>

definition request_keys ::
    "client \<Rightarrow> AppConfig \<Rightarrow> TimeoutRequest \<Rightarrow> address \<Rightarrow> address \<Rightarrow> JobAccount \<Rightarrow> bool" where
  "request_keys cl cfg req pid payer j \<longleftrightarrow>
     program_pubkey cl cfg = Inr pid \<and> mint_pubkey cl cfg = Inr (job_mint j) \<and>
     pubkey_from_str cl (ac_token_program cfg) = Some (job_token_program j) \<and>
     pubkey_from_str cl (tr_buyer req) = Some (job_buyer j) \<and>
     pubkey_from_str cl (tr_provider req) = Some (job_provider j) \<and>
     pubkey_from_str cl (tr_payer req) = Some payer \<and> tr_job_nonce req = job_nonce j"

lemma timeout_plan_eq:
  assumes D: "deployment rt pid" and H: "history rt pid w" and C: "client_law rt cl" and V: "chain_view reader w"
    and keys: "request_keys cl cfg req pid payer j" and j: "job_at pid w a = Some j" and now: "w_clock w = Some now"
  shows "timeout_due pid w a j now ExpireUnfunded \<Longrightarrow> build_timeout_plan cl cfg reader req =
      sdk (plan_expire_unfunded cl pid payer (job_buyer j) (job_provider j) (job_nonce j))"
    and "timeout_due pid w a j now ResolveTimeoutRefund \<Longrightarrow> build_timeout_plan cl cfg reader req =
      sdk (plan_resolve_timeout_refund cl pid payer (job_buyer j) (job_provider j) (job_mint j) (job_nonce j))"
    and "timeout_due pid w a j now ResolveTimeoutSettle \<Longrightarrow> build_timeout_plan cl cfg reader req =
      sdk (plan_resolve_timeout_settle cl pid payer (job_buyer j) (job_provider j) (job_mint j) (job_nonce j)
        (job_state j = Challenged))"
    and "\<not> (\<exists>ins. timeout_due pid w a j now ins) \<Longrightarrow> \<exists>e. build_timeout_plan cl cfg reader req = Inl e"
proof -
  note placed = placedD [OF history_invariants(1) [OF D H]]
  have pda: "job_pda cl pid (job_buyer j) (job_provider j) (job_nonce j) = Inr \<lparr>pda_address = a, pda_bump = job_bump j\<rparr>"
    using placed(4) [of a j] j derived_address [OF C] by (simp add: job_placed_def pda_defs)
  note given = keys [unfolded request_keys_def] pda inspect_job_reads [OF D H C V j] chain_view_time [OF V now]
  have plan: "build_timeout_plan cl cfg reader req =
     (if is_terminal (job_state j) then Inl (invalid ''terminal job is never eligible for timeout resolution'')
      else if job_state j = Created \<and> job_fund_deadline j \<le>s now
      then sdk (plan_expire_unfunded cl pid payer (job_buyer j) (job_provider j) (job_nonce j))
      else if job_state j = Funded \<and> job_accept_deadline j \<le>s now \<or> job_state j = Accepted \<and> job_work_deadline j <s now
      then sdk (plan_resolve_timeout_refund cl pid payer (job_buyer j) (job_provider j) (job_mint j) (job_nonce j))
      else if job_state j = Submitted \<and> job_auto_settle_deadline j \<le>s now
      then sdk (plan_resolve_timeout_settle cl pid payer (job_buyer j) (job_provider j) (job_mint j) (job_nonce j) False)
      else if job_state j = Challenged
      then
        tryE (sdk (challenge_pda cl pid a)) (\<lambda>pda.
        let challenge_addr = pda_address pda
        in tryE (fetch reader challenge_addr ''challenge'') (\<lambda>acc.
        tryE (sdk (decode_challenge cl pid challenge_addr (ad_owner acc) (ad_data acc))) (\<lambda>challenge.
        tryE (ensure (\<not> challenge_job challenge \<noteq> a) (invalid ''challenge does not belong to job'')) (\<lambda>_.
        tryE (ensure (\<not> now <s challenge_deadline challenge) (invalid ''challenge deadline not reached'')) (\<lambda>_.
        sdk (plan_resolve_timeout_settle cl pid payer (job_buyer j) (job_provider j) (job_mint j) (job_nonce j) True))))))
      else Inl (invalid ''job is not eligible for timeout resolution''))"
    using given by (simp add: build_timeout_plan_def pk_def ok_or_def sdk_def ensure_def Let_def)
  show "timeout_due pid w a j now ExpireUnfunded \<Longrightarrow> build_timeout_plan cl cfg reader req =
      sdk (plan_expire_unfunded cl pid payer (job_buyer j) (job_provider j) (job_nonce j))"
    unfolding plan by (auto simp: timeout_due_def)
  show "timeout_due pid w a j now ResolveTimeoutRefund \<Longrightarrow> build_timeout_plan cl cfg reader req =
      sdk (plan_resolve_timeout_refund cl pid payer (job_buyer j) (job_provider j) (job_mint j) (job_nonce j))"
    unfolding plan by (auto simp: timeout_due_def refund_gate_open)
  have settle: "tryE (sdk (challenge_pda cl pid a)) (\<lambda>pda.
        let challenge_addr = pda_address pda
        in tryE (fetch reader challenge_addr ''challenge'') (\<lambda>acc.
        tryE (sdk (decode_challenge cl pid challenge_addr (ad_owner acc) (ad_data acc))) (\<lambda>challenge.
        tryE (ensure (\<not> challenge_job challenge \<noteq> a) (invalid ''challenge does not belong to job'')) (\<lambda>_.
        tryE (ensure (\<not> now <s challenge_deadline challenge) (invalid ''challenge deadline not reached'')) (\<lambda>_.
        r))))) = r"
    if ch: "challenge_at pid w ca = Some ch" "challenge_job ch = a" "challenge_deadline ch \<le>s now" for ca ch and r :: "'x app"
  proof -
    have pda: "challenge_pda cl pid a = Inr \<lparr>pda_address = ca, pda_bump = challenge_bump ch\<rparr>"
      using placed(5) [of ca ch] ch derived_address [OF C] by (simp add: challenge_placed_def pda_defs)
    obtain l where acc: "fetch reader ca ''challenge'' =
        Inr \<lparr>ad_owner = acct_owner (w_accounts w ca), ad_data = acct_data (w_accounts w ca), ad_lamports = l\<rparr>"
      using fetch_eq [OF V challenge_data_nonempty [OF ch(1)]] by blast
    have "decode_challenge cl pid ca (acct_owner (w_accounts w ca)) (acct_data (w_accounts w ca)) = Inr ch"
      using decoders_read_the_chain [OF D H C] ch(1) by blast
    with pda acc ch show ?thesis by (simp add: sdk_def ensure_def Let_def signed.not_less)
  qed
  show "timeout_due pid w a j now ResolveTimeoutSettle \<Longrightarrow> build_timeout_plan cl cfg reader req =
      sdk (plan_resolve_timeout_settle cl pid payer (job_buyer j) (job_provider j) (job_mint j) (job_nonce j)
        (job_state j = Challenged))"
    unfolding plan using settle by (auto simp: timeout_due_def settle_due_def)
  show "\<exists>e. build_timeout_plan cl cfg reader req = Inl e" if none: "\<not> (\<exists>ins. timeout_due pid w a j now ins)"
  proof (rule ccontr)
    assume "\<nexists>e. build_timeout_plan cl cfg reader req = Inl e"
    then obtain p where p: "build_timeout_plan cl cfg reader req = Inr p" by (cases "build_timeout_plan cl cfg reader req") auto
    have "job_state j = Challenged"
      using p none unfolding plan by (auto simp: timeout_due_def settle_due_def refund_gate_open split: if_splits)
    with p obtain ca acc ch where ch: "fetch reader ca ''challenge'' = Inr acc"
        "decode_challenge cl pid ca (ad_owner acc) (ad_data acc) = Inr ch"
        "challenge_job ch = a" "\<not> now <s challenge_deadline ch"
      unfolding plan by (auto simp: result_inv Let_def)
    have "challenge_at pid w ca = Some ch"
      using ch(2) fetch_eq_Inr [OF V ch(1)] decoders_read_the_chain [OF D H C] by metis
    with ch \<open>job_state j = Challenged\<close> none show False
      by (auto simp: timeout_due_def settle_due_def signed.not_less)
  qed
qed


lemma timeout_plans_exist:
  assumes "job_pda cl pid buyer prov nonce = Inr ja"
  shows "\<exists>plan. plan_expire_unfunded cl pid payer buyer prov nonce = Inr plan"
    and "provider_bond_pda cl pid prov mint = Inr ba \<Longrightarrow>
      \<exists>plan. plan_resolve_timeout_refund cl pid payer buyer prov mint nonce = Inr plan"
    and "provider_bond_pda cl pid prov mint = Inr ba \<Longrightarrow>
      (with_challenge \<Longrightarrow> \<exists>ca. challenge_pda cl pid (pda_address ja) = Inr ca) \<Longrightarrow>
      \<exists>plan. plan_resolve_timeout_settle cl pid payer buyer prov mint nonce with_challenge = Inr plan"
  using assms
  by (auto simp: plan_expire_unfunded_def plan_resolve_timeout_refund_def plan_resolve_timeout_settle_def
      empty_def encode_empty_def Let_def)

lemma due_timeout_is_built:
  assumes D: "deployment rt pid" and H: "history rt pid w" and C: "client_law rt cl" and V: "chain_view reader w"
    and keys: "request_keys cl cfg req pid payer j" and j: "job_at pid w a = Some j" and now: "w_clock w = Some now"
    and ba: "provider_bond_pda cl pid (job_provider j) (job_mint j) = Inr ba"
    and due: "timeout_due pid w a j now ins"
  shows "\<exists>plan. build_timeout_plan cl cfg reader req = Inr plan \<and> built cl pid ins plan"
proof -
  note placed = placedD [OF history_invariants(1) [OF D H]]
  have pda: "job_pda cl pid (job_buyer j) (job_provider j) (job_nonce j) = Inr \<lparr>pda_address = a, pda_bump = job_bump j\<rparr>"
    using placed(4) [of a j] j derived_address [OF C] by (simp add: job_placed_def pda_defs)
  note plans = timeout_plans_exist [OF pda]
  note eqs = timeout_plan_eq [OF D H C V keys j now]
  consider "ins = ExpireUnfunded" | "ins = ResolveTimeoutRefund" | "ins = ResolveTimeoutSettle"
    using due by (auto simp: timeout_due_def)
  then show ?thesis
  proof cases
    case 1
    with plans(1) eqs(1) due show ?thesis by (metis built_expire_unfunded sdk_eq_Inr)
  next
    case 2
    with plans(2) [OF ba] eqs(2) due show ?thesis by (metis built_resolve_timeout_refund sdk_eq_Inr)
  next
    case 3
    have "\<exists>ca. challenge_pda cl pid a = Inr ca" if challenged: "job_state j = Challenged"
    proof -
      obtain ca ch where "challenge_at pid w ca = Some ch" "challenge_job ch = a"
        using due challenged 3 by (auto simp: timeout_due_def settle_due_def)
      then show ?thesis
        using placed(5) [of ca ch] derived_address [OF C] by (auto simp: challenge_placed_def pda_defs)
    qed
    with plans(3) [OF ba] obtain plan where
        "plan_resolve_timeout_settle cl pid payer (job_buyer j) (job_provider j) (job_mint j) (job_nonce j)
          (job_state j = Challenged) = Inr plan" by force
    with 3 eqs(3) due show ?thesis by (metis built_resolve_timeout_settle sdk_eq_Inr)
  qed
qed


section \<open>Commands\<close>

text \<open>What a planning command asks for, and the argument that names the account acting. A receipt is submitted
  with two instructions, which \<open>receipt_plan_is_accepted\<close> is about.\<close>

fun command_instruction :: "client \<Rightarrow> PlanCmd \<Rightarrow> Instruction option" where
  "command_instruction cl (InitializeConfigCmd admin genesis_hash mint decimals bond duration) =
     (case (cli_hex32 genesis_hash, key cl mint) of
        (Inr g, Inr m) \<Rightarrow> Some (InitializeConfig
          \<lparr>icp_genesis_hash = g, icp_allowed_mint = m, icp_token_program = spl_token_id cl,
           icp_mint_decimals = decimals, icp_min_provider_bond = bond, icp_challenge_duration_seconds = duration\<rparr>)
      | _ \<Rightarrow> None)"
| "command_instruction cl (SetPausedCmd admin paused) = Some (SetPaused paused)"
| "command_instruction cl (RegisterProviderCmd authority) = Some RegisterProvider"
| "command_instruction cl (AddExecutionKeyCmd authority key_hex) =
     (case cli_hex32 key_hex of Inr k \<Rightarrow> Some (AddExecutionKey k) | _ \<Rightarrow> None)"
| "command_instruction cl (RevokeExecutionKeyCmd authority key_hex) =
     (case cli_hex32 key_hex of Inr k \<Rightarrow> Some (RevokeExecutionKey k) | _ \<Rightarrow> None)"
| "command_instruction cl (DepositBondCmd authority mint amount) = Some (DepositBond amount)"
| "command_instruction cl (WithdrawBondCmd authority mint amount) = Some (WithdrawBond amount)"
| "command_instruction cl (CreateJobCmd buyer provider nonce amount request_hash fund accept work auto_settle now) =
     (case cli_hex32 request_hash of
        Inr h \<Rightarrow> Some (CreateJob
          \<lparr>cjp_job_nonce = nonce, cjp_amount = amount, cjp_request_hash = h, cjp_fund_deadline = fund,
           cjp_accept_deadline = accept, cjp_work_deadline = work, cjp_auto_settle_deadline = auto_settle\<rparr>)
      | _ \<Rightarrow> None)"
| "command_instruction cl (FundJobCmd buyer provider mint nonce) = Some FundJob"
| "command_instruction cl (AcceptJobCmd buyer provider mint nonce) = Some AcceptJob"
| "command_instruction cl (SubmitReceiptCmd job provider receipt_file execution_pubkey_hex signature_hex) = None"
| "command_instruction cl (AcceptWorkCmd buyer provider mint nonce) = Some AcceptWork"
| "command_instruction cl (ChallengeWorkCmd buyer provider nonce reason_hash) =
     (case cli_hex32 reason_hash of Inr h \<Rightarrow> Some (ChallengeWork h) | _ \<Rightarrow> None)"
| "command_instruction cl (ResolveTimeoutCmd payer buyer provider mint nonce mode) =
     Some (if mode = ''refund'' then ResolveTimeoutRefund else ResolveTimeoutSettle)"
| "command_instruction cl (ExpireUnfundedCmd payer buyer provider nonce) = Some ExpireUnfunded"
| "command_instruction cl (ExpireUnacceptedCmd payer buyer provider mint nonce) = Some ExpireUnaccepted"
| "command_instruction cl (SlashBondCmd admin buyer provider mint nonce) = Some SlashBond"
| "command_instruction cl (CloseJobCmd buyer provider mint nonce include_escrow) = Some CloseJob"

fun command_signer :: "PlanCmd \<Rightarrow> string" where
  "command_signer (InitializeConfigCmd admin genesis_hash mint decimals bond duration) = admin"
| "command_signer (SetPausedCmd admin paused) = admin"
| "command_signer (RegisterProviderCmd authority) = authority"
| "command_signer (AddExecutionKeyCmd authority key_hex) = authority"
| "command_signer (RevokeExecutionKeyCmd authority key_hex) = authority"
| "command_signer (DepositBondCmd authority mint amount) = authority"
| "command_signer (WithdrawBondCmd authority mint amount) = authority"
| "command_signer (CreateJobCmd buyer provider nonce amount request_hash fund accept work auto_settle now) = buyer"
| "command_signer (FundJobCmd buyer provider mint nonce) = buyer"
| "command_signer (AcceptJobCmd buyer provider mint nonce) = provider"
| "command_signer (SubmitReceiptCmd job provider receipt_file execution_pubkey_hex signature_hex) = provider"
| "command_signer (AcceptWorkCmd buyer provider mint nonce) = buyer"
| "command_signer (ChallengeWorkCmd buyer provider nonce reason_hash) = buyer"
| "command_signer (ResolveTimeoutCmd payer buyer provider mint nonce mode) = payer"
| "command_signer (ExpireUnfundedCmd payer buyer provider nonce) = payer"
| "command_signer (ExpireUnacceptedCmd payer buyer provider mint nonce) = payer"
| "command_signer (SlashBondCmd admin buyer provider mint nonce) = admin"
| "command_signer (CloseJobCmd buyer provider mint nonce include_escrow) = buyer"

lemma plan_signers:
  "plan_initialize_config cl pid a payload = Inr plan \<Longrightarrow> plan_required_signers plan = [pubkey_to_string cl a]"
  "plan_set_paused cl pid a paused = Inr plan \<Longrightarrow> plan_required_signers plan = [pubkey_to_string cl a]"
  "plan_register_provider cl pid a = Inr plan \<Longrightarrow> plan_required_signers plan = [pubkey_to_string cl a]"
  "plan_add_execution_key cl pid a k = Inr plan \<Longrightarrow> plan_required_signers plan = [pubkey_to_string cl a]"
  "plan_revoke_execution_key cl pid a k = Inr plan \<Longrightarrow> plan_required_signers plan = [pubkey_to_string cl a]"
  "plan_deposit_bond cl pid a mint n = Inr plan \<Longrightarrow> plan_required_signers plan = [pubkey_to_string cl a]"
  "plan_withdraw_bond cl pid a mint n = Inr plan \<Longrightarrow> plan_required_signers plan = [pubkey_to_string cl a]"
  "plan_create_job cl pid a prov now job = Inr plan \<Longrightarrow> plan_required_signers plan = [pubkey_to_string cl a]"
  "plan_fund_job cl pid a prov mint nonce = Inr plan \<Longrightarrow> plan_required_signers plan = [pubkey_to_string cl a]"
  "plan_accept_job cl pid a buyer mint nonce = Inr plan \<Longrightarrow> plan_required_signers plan = [pubkey_to_string cl a]"
  "plan_accept_work cl pid a prov mint nonce = Inr plan \<Longrightarrow> plan_required_signers plan = [pubkey_to_string cl a]"
  "plan_challenge_work cl pid a prov nonce h = Inr plan \<Longrightarrow> plan_required_signers plan = [pubkey_to_string cl a]"
  "plan_resolve_timeout_settle cl pid a buyer prov mint nonce b = Inr plan \<Longrightarrow> plan_required_signers plan = [pubkey_to_string cl a]"
  "plan_resolve_timeout_refund cl pid a buyer prov mint nonce = Inr plan \<Longrightarrow> plan_required_signers plan = [pubkey_to_string cl a]"
  "plan_expire_unfunded cl pid a buyer prov nonce = Inr plan \<Longrightarrow> plan_required_signers plan = [pubkey_to_string cl a]"
  "plan_expire_unaccepted cl pid a buyer prov mint nonce = Inr plan \<Longrightarrow> plan_required_signers plan = [pubkey_to_string cl a]"
  "plan_slash_bond cl pid a buyer prov mint nonce = Inr plan \<Longrightarrow> plan_required_signers plan = [pubkey_to_string cl a]"
  "plan_close_job cl pid a prov mint nonce b = Inr plan \<Longrightarrow> plan_required_signers plan = [pubkey_to_string cl a]"
  by (auto simp: builder_defs result_inv Let_def split: if_splits)

definition asks :: "client \<Rightarrow> address \<Rightarrow> PlanCmd \<Rightarrow> InstructionPlan \<Rightarrow> bool" where
  "asks cl pid cmd plan \<longleftrightarrow>
     (\<exists>ins a. command_instruction cl cmd = Some ins \<and> built cl pid ins plan \<and>
        pubkey_from_str cl (command_signer cmd) = Some a \<and> plan_required_signers plan = [pubkey_to_string cl a])"

text \<open>Some builders add the mint and the amount to the plan, which changes nothing that is sent.\<close>

definition same_sent :: "InstructionPlan \<Rightarrow> InstructionPlan \<Rightarrow> bool" where
  "same_sent p q \<longleftrightarrow> plan_instructions p = plan_instructions q \<and> plan_program_id p = plan_program_id q \<and>
     plan_required_signers p = plan_required_signers q \<and> plan_expires_at p = plan_expires_at q"

definition carries :: "client \<Rightarrow> address \<Rightarrow> PlanCmd \<Rightarrow> InstructionPlan \<Rightarrow> bool" where
  "carries cl pid cmd plan \<longleftrightarrow> (\<exists>plan'. asks cl pid cmd plan' \<and> same_sent plan plan')"

lemma carries_plan:
  "built cl pid ins plan \<Longrightarrow> plan_required_signers plan = [pubkey_to_string cl a] \<Longrightarrow>
   command_instruction cl cmd = Some ins \<Longrightarrow> pubkey_from_str cl (command_signer cmd) = Some a \<Longrightarrow> carries cl pid cmd plan"
  by (auto simp: carries_def asks_def same_sent_def)

lemma carries_with_mint_amount: "carries cl pid cmd plan \<Longrightarrow> carries cl pid cmd (with_mint_amount cl plan m n)"
  by (auto simp: carries_def with_mint_amount_def same_sent_def)

lemma key_Some: "pubkey_from_str cl s = Some a \<Longrightarrow> key cl s = Inr a"
  by (simp add: key_eq_Inr)

lemma built_command:
  assumes "build_plan cl read_receipt pid cmd = Inr plan" "\<forall>j p r e s. cmd \<noteq> SubmitReceiptCmd j p r e s"
  shows "carries cl pid cmd plan"
proof (cases cmd)
  case (InitializeConfigCmd admin genesis_hash mint decimals bond duration)
  with assms show ?thesis
    by (auto simp: result_inv key_Some intro!: carries_plan [OF built_initialize_config plan_signers(1)])
next
  case (SetPausedCmd admin paused)
  with assms show ?thesis
    by (auto simp: result_inv key_Some intro!: carries_plan [OF built_set_paused plan_signers(2)])
next
  case (RegisterProviderCmd authority)
  with assms show ?thesis
    by (auto simp: result_inv key_Some intro!: carries_plan [OF built_register_provider plan_signers(3)])
next
  case (AddExecutionKeyCmd authority key_hex)
  with assms show ?thesis
    by (auto simp: result_inv key_Some intro!: carries_plan [OF built_add_execution_key plan_signers(4)])
next
  case (RevokeExecutionKeyCmd authority key_hex)
  with assms show ?thesis
    by (auto simp: result_inv key_Some intro!: carries_plan [OF built_revoke_execution_key plan_signers(5)])
next
  case (DepositBondCmd authority mint amount)
  with assms show ?thesis
    by (auto simp: result_inv key_Some intro!: carries_with_mint_amount carries_plan [OF built_deposit_bond plan_signers(6)])
next
  case (WithdrawBondCmd authority mint amount)
  with assms show ?thesis
    by (auto simp: result_inv key_Some intro!: carries_with_mint_amount carries_plan [OF built_withdraw_bond plan_signers(7)])
next
  case (CreateJobCmd buyer provider nonce amount request_hash fund accept work auto_settle now)
  with assms show ?thesis
    by (auto simp: result_inv key_Some intro!: carries_plan [OF built_create_job plan_signers(8)])
next
  case (FundJobCmd buyer provider mint nonce)
  with assms show ?thesis
    by (auto simp: result_inv key_Some intro!: carries_plan [OF built_fund_job plan_signers(9)])
next
  case (AcceptJobCmd buyer provider mint nonce)
  with assms show ?thesis
    by (auto simp: result_inv key_Some intro!: carries_plan [OF built_accept_job plan_signers(10)])
next
  case (AcceptWorkCmd buyer provider mint nonce)
  with assms show ?thesis
    by (auto simp: result_inv key_Some intro!: carries_plan [OF built_accept_work plan_signers(11)])
next
  case (ChallengeWorkCmd buyer provider nonce reason_hash)
  with assms show ?thesis
    by (auto simp: result_inv key_Some intro!: carries_plan [OF built_challenge_work plan_signers(12)])
next
  case (ResolveTimeoutCmd payer buyer provider mint nonce mode)
  with assms show ?thesis
    by (cases "mode = ''refund''") (auto simp: result_inv split: if_splits
        intro: carries_plan [OF built_resolve_timeout_settle plan_signers(13)]
          carries_plan [OF built_resolve_timeout_refund plan_signers(14)])
next
  case (ExpireUnfundedCmd payer buyer provider nonce)
  with assms show ?thesis
    by (auto simp: result_inv key_Some intro!: carries_plan [OF built_expire_unfunded plan_signers(15)])
next
  case (ExpireUnacceptedCmd payer buyer provider mint nonce)
  with assms show ?thesis
    by (auto simp: result_inv key_Some intro!: carries_plan [OF built_expire_unaccepted plan_signers(16)])
next
  case (SlashBondCmd admin buyer provider mint nonce)
  with assms show ?thesis
    by (auto simp: result_inv key_Some intro!: carries_plan [OF built_slash_bond plan_signers(17)])
next
  case (CloseJobCmd buyer provider mint nonce include_escrow)
  with assms show ?thesis
    by (auto simp: result_inv key_Some intro!: carries_plan [OF built_close_job plan_signers(18)])
qed (use assms(2) in blast)


section \<open>A concrete chain\<close>

definition world_reader :: "world \<Rightarrow> chain_reader" where
  "world_reader w =
     \<lparr>read_account = (\<lambda>a. Inr (if acct_data (w_accounts w a) = [] then None
        else Some \<lparr>ad_owner = acct_owner (w_accounts w a), ad_data = acct_data (w_accounts w a),
          ad_lamports = acct_lamports (w_accounts w a)\<rparr>)),
      read_unix_timestamp = (case w_clock w of Some now \<Rightarrow> Inr now | None \<Rightarrow> Inl (SdkRpc ''no clock''))\<rparr>"

lemma world_reader_view: "chain_view (world_reader w) w"
  by (auto simp: chain_view_def world_reader_def)

text \<open>The sample job when its funding deadline has come.\<close>

definition late_day :: world where
  "late_day = day3\<lparr>w_clock := Some 100\<rparr>"

lemma late_day_simps [simp]:
  "w_clock late_day = Some 100" "job_at PROGRAM late_day JOB_PDA = Some (sample_job Created 0)"
  by (simp_all add: late_day_def) (simp add: stored_at_def create_runs)

lemma late_day_history: "history sample_runtime PROGRAM late_day"
  by (rule history.others [OF day3_history]) (simp add: others_step_def late_day_def)

definition timeout_accounts :: "AccountView list" where
  "timeout_accounts = [view True False ADMIN, view False True JOB_PDA]"

lemma late_day_expires:
  "\<exists>w'. process_instruction sample_runtime PROGRAM timeout_accounts (projr (encode_instruction ExpireUnfunded)) late_day = Inr w'"
proof -
  have "job_derived sample_runtime PROGRAM JOB_PDA (sample_job Created 0)"
    using records_derived(4) [OF sample_deployment late_day_history] by simp
  then have "\<exists>w'. expire_unfunded sample_runtime PROGRAM timeout_accounts late_day = Inr w'"
    by (simp add: timeout_accounts_def expire_unfunded_available)
  then show ?thesis
    by (simp add: process_instruction_def process_def parse_encoded del: encode_instruction.simps)
qed

definition sample_app_config :: AppConfig where
  "sample_app_config =
     \<lparr>ac_program_id = pubkey_to_string sample_client PROGRAM, ac_rpc_url = ''http://rpc'', ac_genesis_hash = [],
      ac_settlement_mint = pubkey_to_string sample_client MINT, ac_token_program = pubkey_to_string sample_client TOKEN,
      ac_facilitator_url = ''http://facilitator'', ac_merchant_pay_to = [], ac_x402_fee_payer = [],
      ac_x402_amount = ''1'', ac_x402_network = ''solana:devnet'', ac_request_timeout_ms = 1000,
      ac_max_request_bytes = 1000, ac_bind_address = ''localhost'', ac_catalog_path = ''catalog''\<rparr>"

definition sample_timeout_request :: TimeoutRequest where
  "sample_timeout_request =
     \<lparr>tr_payer = pubkey_to_string sample_client ADMIN, tr_buyer = pubkey_to_string sample_client BUYER,
      tr_provider = pubkey_to_string sample_client PROVIDER, tr_job_nonce = 1\<rparr>"

lemma sample_request_keys:
  "request_keys sample_client sample_app_config sample_timeout_request PROGRAM ADMIN (sample_job Created 0)"
  by (simp add: request_keys_def sample_app_config_def sample_timeout_request_def program_pubkey_def mint_pubkey_def
      parse_pk_def ok_or_def text_lawD [OF sample_text])

section \<open>Properties\<close>

text \<open>
  C23. Every timeout the program accepts is offered. If the program accepts one of its four timeout instructions on a
  job at some moment, then the application, asked at that moment with the keys and the nonce of the job, returns a plan:
  for that very instruction, except that \<open>ResolveTimeoutRefund\<close> stands for \<open>ExpireUnaccepted\<close>. On the same accounts the
  program accepts the planned instruction too, with the same effect. It is assumed that the provider's bond for the
  mint of the job has an address, since the plans name it.
\<close>

theorem timeouts_are_offered:
  assumes "deployment rt pid" "history rt pid w" "client_law rt cl" "chain_view reader w"
    and "request_keys cl cfg req pid payer j" "job_at pid w a = Some j"
    and "provider_bond_pda cl pid (job_provider j) (job_mint j) = Inr ba"
    and "process_instruction rt pid accounts data w = Inr w'" "parse_instruction data = Inr ins"
      "ins \<in> {ExpireUnfunded, ExpireUnaccepted, ResolveTimeoutRefund, ResolveTimeoutSettle}"
      "view_address (accounts ! 1) = a"
  shows "(\<exists>plan. build_timeout_plan cl cfg reader req = Inr plan \<and> built cl pid (offered ins) plan) \<and>
    process_instruction rt pid accounts (projr (encode_instruction (offered ins))) w = Inr w'"
  using accepted_is_due [OF assms(1,8-11,6)] due_timeout_is_built [OF assms(1-6) _ assms(7)]
    offered_runs_alike [OF assms(8-10)] by blast

theorem timeouts_are_offered_witness:
  "\<exists>plan. build_timeout_plan sample_client sample_app_config (world_reader late_day) sample_timeout_request = Inr plan \<and>
     built sample_client PROGRAM ExpireUnfunded plan"
proof -
  obtain w' where w': "process_instruction sample_runtime PROGRAM timeout_accounts
      (projr (encode_instruction ExpireUnfunded)) late_day = Inr w'"
    using late_day_expires by blast
  have "(\<exists>plan. build_timeout_plan sample_client sample_app_config (world_reader late_day) sample_timeout_request = Inr plan \<and>
      built sample_client PROGRAM (offered ExpireUnfunded) plan) \<and>
    process_instruction sample_runtime PROGRAM timeout_accounts
      (projr (encode_instruction (offered ExpireUnfunded))) late_day = Inr w'"
    by (rule timeouts_are_offered [OF sample_deployment late_day_history sample_client_law world_reader_view
          sample_request_keys _ _ w', where a = JOB_PDA])
       (simp_all add: sample_pdas_found parse_encoded timeout_accounts_def del: encode_instruction.simps)
  then show ?thesis by (simp add: offered_def)
qed

text \<open>
  C24. No other timeout is offered. If the application returns a plan for a job, it is a plan for one of the three
  timeout instructions, and the state and deadlines of the job, or of its challenge, are those for which the program
  accepts it: the deadline has come, or has passed where the program wants it passed.
\<close>

theorem offered_timeouts_are_due:
  assumes "deployment rt pid" "history rt pid w" "client_law rt cl" "chain_view reader w"
    and "request_keys cl cfg req pid payer j" "job_at pid w a = Some j" "w_clock w = Some now"
    and "build_timeout_plan cl cfg reader req = Inr plan"
  shows "\<exists>ins. timeout_due pid w a j now ins \<and> built cl pid ins plan"
proof -
  note eqs = timeout_plan_eq [OF assms(1-7)]
  obtain ins where due: "timeout_due pid w a j now ins" using eqs(4) assms(8) by fastforce
  then consider "ins = ExpireUnfunded" | "ins = ResolveTimeoutRefund" | "ins = ResolveTimeoutSettle"
    by (auto simp: timeout_due_def)
  then show ?thesis
  proof cases
    case 1 with due eqs(1) assms(8) show ?thesis by (metis built_expire_unfunded sdk_eq_Inr)
  next
    case 2 with due eqs(2) assms(8) show ?thesis by (metis built_resolve_timeout_refund sdk_eq_Inr)
  next
    case 3 with due eqs(3) assms(8) show ?thesis by (metis built_resolve_timeout_settle sdk_eq_Inr)
  qed
qed

theorem offered_timeouts_are_due_witness:
  "\<exists>plan ins. build_timeout_plan sample_client sample_app_config (world_reader late_day) sample_timeout_request = Inr plan \<and>
     timeout_due PROGRAM late_day JOB_PDA (sample_job Created 0) 100 ins \<and> built sample_client PROGRAM ins plan"
proof -
  have "timeout_due PROGRAM late_day JOB_PDA (sample_job Created 0) 100 ExpireUnfunded"
    by (simp add: timeout_due_def)
  then obtain plan where plan:
      "build_timeout_plan sample_client sample_app_config (world_reader late_day) sample_timeout_request = Inr plan"
    using due_timeout_is_built [OF sample_deployment late_day_history sample_client_law world_reader_view
        sample_request_keys _ _ _, of JOB_PDA 100] sample_pdas_found(3) by fastforce
  then show ?thesis
    using offered_timeouts_are_due [OF sample_deployment late_day_history sample_client_law world_reader_view
        sample_request_keys _ _ plan, of JOB_PDA 100] by auto
qed

text \<open>
  C22. The command line builds what it is told. A plan built for a command other than a receipt's submission reads back
  as one instruction for the given program, whose data the program parses as the instruction and arguments of the
  command; the only account that signs it is the one the command names as acting; and until it expires the plan passes the
  check made before sending.
\<close>

theorem cli_plans_carry_the_command:
  assumes "text_law cl" "build_plan cl read_receipt pid cmd = Inr plan"
    and "\<forall>j p r e s. cmd \<noteq> SubmitReceiptCmd j p r e s"
  shows "\<exists>ix ins a. command_instruction cl cmd = Some ins \<and> pubkey_from_str cl (command_signer cmd) = Some a \<and>
    to_solana_instructions cl plan = Inr [ix] \<and> ix_program_id ix = pid \<and> parse_instruction (ix_data ix) = Inr ins \<and>
    map meta_pubkey (filter meta_is_signer (ix_accounts ix)) = [a] \<and>
    ((\<forall>t. plan_expires_at plan = Some t \<longrightarrow> now \<le>s t) \<longrightarrow> validate_plan_instructions cl plan pid now = Inr ())"
proof -
  obtain plan' ins a where plan': "command_instruction cl cmd = Some ins" "built cl pid ins plan'"
      "pubkey_from_str cl (command_signer cmd) = Some a" "plan_required_signers plan' = [pubkey_to_string cl a]"
      "same_sent plan plan'"
    using built_command [OF assms(2,3)] by (auto simp: carries_def asks_def)
  obtain ix where ix: "to_solana_instructions cl plan' = Inr [ix]" "ix_program_id ix = pid"
      "parse_instruction (ix_data ix) = Inr ins"
      "plan_required_signers plan' = map (\<lambda>m. pubkey_to_string cl (meta_pubkey m)) (filter meta_is_signer (ix_accounts ix))"
      "(\<forall>t. plan_expires_at plan' = Some t \<longrightarrow> now \<le>s t) \<longrightarrow> validate_plan_instructions cl plan' pid now = Inr ()"
    using built_plan_reads_back [OF assms(1) plan'(2)] by blast
  have "map meta_pubkey (filter meta_is_signer (ix_accounts ix)) = [a]"
    using ix(4) plan'(4) text_lawD(1) [OF assms(1)]
    by (auto simp: map_eq_Cons_conv Cons_eq_map_conv) (metis option.inject)
  with plan' ix show ?thesis
    by (auto simp: same_sent_def to_solana_instructions_def validate_plan_instructions_def)
qed

definition sample_accept_command :: PlanCmd where
  "sample_accept_command = AcceptJobCmd (pubkey_to_string sample_client BUYER) (pubkey_to_string sample_client PROVIDER)
     (pubkey_to_string sample_client MINT) 1"

theorem cli_plans_carry_the_command_witness:
  "\<exists>ix. build_plan sample_client (\<lambda>_. Inl Panicked) PROGRAM sample_accept_command = Inr sample_accept_plan \<and>
     to_solana_instructions sample_client sample_accept_plan = Inr [ix] \<and>
     parse_instruction (ix_data ix) = Inr AcceptJob \<and>
     map meta_pubkey (filter meta_is_signer (ix_accounts ix)) = [PROVIDER]"
proof -
  have built: "build_plan sample_client (\<lambda>_. Inl Panicked) PROGRAM sample_accept_command = Inr sample_accept_plan"
    by (simp add: sample_accept_command_def result_inv text_lawD [OF sample_text] sample_accept_built)
  have "\<forall>j p r e s. sample_accept_command \<noteq> SubmitReceiptCmd j p r e s"
    by (simp add: sample_accept_command_def)
  from cli_plans_carry_the_command [OF sample_text built this, of 0]
  obtain ix where "command_instruction sample_client sample_accept_command = Some AcceptJob"
      "pubkey_from_str sample_client (command_signer sample_accept_command) = Some PROVIDER"
      "to_solana_instructions sample_client sample_accept_plan = Inr [ix]" "parse_instruction (ix_data ix) = Inr AcceptJob"
      "map meta_pubkey (filter meta_is_signer (ix_accounts ix)) = [PROVIDER]"
    by (auto simp: sample_accept_command_def text_lawD [OF sample_text])
  with built show ?thesis by (intro exI [of _ ix]) simp
qed

end
