(* ===== verification/Payment_Validate.thy ===== *)
theory Payment_Validate
  imports Text_Util
begin

text \<open>
  The x402 payment adapter, \<^verbatim>\<open>host/crates/agentbond-payments/src\<close>: its data (\<^verbatim>\<open>models.rs\<close>, \<^verbatim>\<open>error.rs\<close>, the
  structures of \<^verbatim>\<open>stores.rs\<close> and \<^verbatim>\<open>resource.rs\<close>), the headers (\<^verbatim>\<open>headers.rs\<close>) and the check of a payment against the
  challenge it answers (\<^verbatim>\<open>validate.rs\<close>).

  Base 64, JSON and SHA-256 are library code: the parameter \<open>pay_lib\<close>. A JSON value is represented by
  its serialisation. Strings are header values, so ASCII.
\<close>

section \<open>Data\<close>

datatype PaymentError =
    MissingPayment
  | InvalidBase64
  | OversizedHeader
  | InvalidJson
  | WrongVersion
  | WrongScheme
  | WrongNetwork
  | WrongAsset
  | WrongAmount
  | WrongRecipient
  | WrongFeePayer
  | RequirementsExpired
  | UnsupportedExtension
  | InvalidChallenge
  | ChallengeExpired
  | InvalidTransaction
  | SettlementInProgress
  | BindingMismatch
  | LeaseMismatch
  | PaymentInternal string
  | VerifyRejected
  | VerifyTimeout
  | SettleRejected
  | SettleTimeout
  | FacilitatorError string
  | PaymentConfig string

type_synonym json = string

abbreviation (input) X402_VERSION :: u32 where "X402_VERSION \<equiv> 2"
definition SCHEME_EXACT :: string where "SCHEME_EXACT = ''exact''"
abbreviation (input) MAX_SOLANA_TX_BYTES :: nat where "MAX_SOLANA_TX_BYTES \<equiv> 1232"

record ResourceInfo =
  res_url :: string
  res_description :: string
  res_mime_type :: string

record SvmExactExtra =
  extra_fee_payer :: string
  extra_memo :: "string option"
  extra_recent_blockhash :: "string option"
  extra_last_valid_block_height :: "u64 option"

record PaymentRequirements =
  req_scheme :: string
  req_network :: string
  req_amount :: string
  req_asset :: string
  req_pay_to :: string
  req_max_timeout_seconds :: u64
  req_extra :: SvmExactExtra

record PaymentRequired =
  required_x402_version :: u32
  required_error :: "string option"
  required_resource :: ResourceInfo
  required_accepts :: "PaymentRequirements list"

record PaymentPayload =
  payload_x402_version :: u32
  payload_resource :: ResourceInfo
  payload_accepted :: PaymentRequirements
  payload_transaction :: string
  payload_extensions :: "(string \<times> json) list"

record FacilitatorRequest =
  freq_x402_version :: u32
  freq_payment_payload :: PaymentPayload
  freq_payment_requirements :: PaymentRequirements

record VerifyResponse =
  vr_is_valid :: bool
  vr_invalid_reason :: "string option"
  vr_payer :: "string option"

record SettleResponse =
  settle_success :: bool
  settle_error_reason :: "string option"
  settle_transaction :: "string option"
  settle_network :: "string option"
  settle_payer :: "string option"

record PaymentChallenge =
  pc_memo :: string
  pc_service_id :: string
  pc_resource_url :: string
  pc_description :: string
  pc_merchant :: string
  pc_asset :: string
  pc_amount :: string
  pc_network :: string
  pc_fee_payer :: string
  pc_input_digest :: string
  pc_issued_at :: i64
  pc_expires_at :: i64
  pc_max_timeout_seconds :: u64

record X402ResourceConfig =
  cfg_network :: string
  cfg_asset :: string
  cfg_pay_to :: string
  cfg_fee_payer :: string
  cfg_amount :: string
  cfg_max_timeout_seconds :: u64
  cfg_resource_url :: string
  cfg_description :: string
  cfg_service_id :: string

section \<open>Library code\<close>

record pay_lib =
  lib_sha256 :: "bytes \<Rightarrow> bytes"
  lib_base64_decode :: "string \<Rightarrow> bytes option"
  lib_base64_encode :: "bytes \<Rightarrow> string"
  lib_payload_from_json :: "bytes \<Rightarrow> PaymentPayload option"
  lib_required_to_json :: "PaymentRequired \<Rightarrow> bytes option"
  lib_settle_to_json :: "SettleResponse \<Rightarrow> bytes option"

text \<open>\<open>to_ascii_lowercase\<close>.\<close>

definition to_ascii_lowercase :: "string \<Rightarrow> string" where
  "to_ascii_lowercase s =
     map (\<lambda>c. let n = of_char c :: nat in if 65 \<le> n \<and> n \<le> 90 then char_of (n + 32) else c) s"

section \<open>Headers\<close>

abbreviation (input) MAX_HEADER_BYTES :: nat where "MAX_HEADER_BYTES \<equiv> 16384"

definition decode_payment_signature_header :: "pay_lib \<Rightarrow> string \<Rightarrow> PaymentError + PaymentPayload" where
  "decode_payment_signature_header lib value =
     tryE (ensure (\<not> length value > MAX_HEADER_BYTES) OversizedHeader) (\<lambda>_.
     tryE (ok_or (lib_base64_decode lib (trim value)) InvalidBase64) (\<lambda>bytes.
     tryE (ensure (\<not> length bytes > MAX_HEADER_BYTES) OversizedHeader) (\<lambda>_.
     ok_or (lib_payload_from_json lib bytes) InvalidJson)))"

definition encode_b64_json :: "pay_lib \<Rightarrow> bytes option \<Rightarrow> PaymentError + string" where
  "encode_b64_json lib serialised =
     tryE (ok_or serialised InvalidJson) (\<lambda>json.
     tryE (ensure (\<not> length json > MAX_HEADER_BYTES) OversizedHeader) (\<lambda>_.
     Inr (lib_base64_encode lib json)))"

definition encode_payment_required_header :: "pay_lib \<Rightarrow> PaymentRequired \<Rightarrow> PaymentError + string" where
  "encode_payment_required_header lib value = encode_b64_json lib (lib_required_to_json lib value)"

definition encode_payment_response_header :: "pay_lib \<Rightarrow> SettleResponse \<Rightarrow> PaymentError + string" where
  "encode_payment_response_header lib value = encode_b64_json lib (lib_settle_to_json lib value)"

definition is_sensitive_header :: "string \<Rightarrow> bool" where
  "is_sensitive_header name =
     (let lower = to_ascii_lowercase name
      in lower = ''payment-signature'' \<or> lower = ''payment-required'' \<or> lower = ''payment-response'' \<or>
         lower = ''authorization'')"

section \<open>Validation\<close>

definition validate_requirements ::
    "PaymentRequirements \<Rightarrow> PaymentRequirements \<Rightarrow> PaymentChallenge \<Rightarrow> i64 \<Rightarrow> PaymentError + unit" where
  "validate_requirements actual expected challenge now_unix =
     tryE (ensure (\<not> (req_scheme actual \<noteq> req_scheme expected \<or> req_scheme actual \<noteq> SCHEME_EXACT))
       WrongScheme) (\<lambda>_.
     tryE (ensure (\<not> (req_network actual \<noteq> req_network expected \<or> req_network actual \<noteq> pc_network challenge))
       WrongNetwork) (\<lambda>_.
     tryE (ensure (\<not> (req_asset actual \<noteq> req_asset expected \<or> req_asset actual \<noteq> pc_asset challenge))
       WrongAsset) (\<lambda>_.
     tryE (ensure (\<not> (req_amount actual \<noteq> req_amount expected \<or> req_amount actual \<noteq> pc_amount challenge))
       WrongAmount) (\<lambda>_.
     tryE (ensure (\<not> (req_pay_to actual \<noteq> req_pay_to expected \<or> req_pay_to actual \<noteq> pc_merchant challenge))
       WrongRecipient) (\<lambda>_.
     tryE (ensure (req_max_timeout_seconds actual = req_max_timeout_seconds expected) InvalidChallenge) (\<lambda>_.
     tryE (ensure (\<not> (extra_fee_payer (req_extra actual) \<noteq> extra_fee_payer (req_extra expected) \<or>
                      extra_fee_payer (req_extra actual) \<noteq> pc_fee_payer challenge)) WrongFeePayer) (\<lambda>_.
     tryE (ok_or (extra_memo (req_extra actual)) InvalidChallenge) (\<lambda>memo.
     tryE (ensure (\<not> (memo \<noteq> pc_memo challenge \<or> length memo < 32)) InvalidChallenge) (\<lambda>_.
     tryE (ensure (\<not> (case extra_recent_blockhash (req_extra actual) of
                        None \<Rightarrow> False | Some bh \<Rightarrow> bh = [] \<or> length bh > 88)) InvalidChallenge) (\<lambda>_.
     tryE (ensure (\<not> (extra_last_valid_block_height (req_extra actual) \<noteq> None \<and>
                      extra_recent_blockhash (req_extra actual) = None)) InvalidChallenge) (\<lambda>_.
     tryE (ensure (\<not> pc_expires_at challenge <s now_unix) RequirementsExpired) (\<lambda>_.
     Inr ()))))))))))))"

definition validate_payment_payload ::
    "pay_lib \<Rightarrow> PaymentPayload \<Rightarrow> PaymentRequirements \<Rightarrow> PaymentChallenge \<Rightarrow> i64 \<Rightarrow> string \<Rightarrow> PaymentError + string" where
  "validate_payment_payload lib payload expected challenge now_unix input_digest =
     tryE (ensure (payload_x402_version payload = X402_VERSION) WrongVersion) (\<lambda>_.
     tryE (ensure (payload_extensions payload = []) UnsupportedExtension) (\<lambda>_.
     tryE (ensure (\<not> (res_url (payload_resource payload) \<noteq> pc_resource_url challenge \<or>
                      res_description (payload_resource payload) \<noteq> pc_description challenge \<or>
                      res_mime_type (payload_resource payload) \<noteq> ''application/json'')) InvalidChallenge) (\<lambda>_.
     tryE (validate_requirements (payload_accepted payload) expected challenge now_unix) (\<lambda>_.
     tryE (ensure (pc_input_digest challenge = input_digest) BindingMismatch) (\<lambda>_.
     let tx = trim (payload_transaction payload)
     in tryE (ensure (tx \<noteq> []) InvalidTransaction) (\<lambda>_.
     tryE (ok_or (lib_base64_decode lib tx) InvalidBase64) (\<lambda>decoded.
     tryE (ensure (\<not> (decoded = [] \<or> length decoded > MAX_SOLANA_TX_BYTES)) InvalidTransaction) (\<lambda>_.
     Inr tx))))))))"

section \<open>What a valid payment says\<close>

text \<open>The requirements a challenge stands for: what the client must have accepted, apart from the hints
  about the block hash it may add.\<close>

definition requirements_of :: "PaymentChallenge \<Rightarrow> PaymentRequirements" where
  "requirements_of ch =
     \<lparr>req_scheme = SCHEME_EXACT, req_network = pc_network ch, req_amount = pc_amount ch, req_asset = pc_asset ch,
      req_pay_to = pc_merchant ch, req_max_timeout_seconds = pc_max_timeout_seconds ch,
      req_extra = \<lparr>extra_fee_payer = pc_fee_payer ch, extra_memo = Some (pc_memo ch),
        extra_recent_blockhash = None, extra_last_valid_block_height = None\<rparr>\<rparr>"

definition hints_ok :: "SvmExactExtra \<Rightarrow> bool" where
  "hints_ok x \<longleftrightarrow>
     (case extra_recent_blockhash x of
        None \<Rightarrow> extra_last_valid_block_height x = None
      | Some bh \<Rightarrow> bh \<noteq> [] \<and> length bh \<le> 88)"

definition without_hints :: "PaymentRequirements \<Rightarrow> PaymentRequirements" where
  "without_hints r = r\<lparr>req_extra := (req_extra r)\<lparr>extra_recent_blockhash := None,
     extra_last_valid_block_height := None\<rparr>\<rparr>"

lemma validate_requirements_eq_Inr [result_inv]:
  "validate_requirements actual (requirements_of ch) ch now = Inr u \<longleftrightarrow>
     without_hints actual = requirements_of ch \<and> hints_ok (req_extra actual) \<and> 32 \<le> length (pc_memo ch) \<and>
     now \<le>s pc_expires_at ch"
proof (cases actual)
  case (fields scheme network amount asset pay_to timeout extra)
  then show ?thesis
    by (cases extra)
      (auto simp: validate_requirements_def result_inv requirements_of_def without_hints_def hints_ok_def
        signed.not_less not_less split: option.splits)
qed

lemma validate_payment_payload_eq_Inr:
  "validate_payment_payload lib payload (requirements_of ch) ch now digest = Inr tx \<longleftrightarrow>
     payload_x402_version payload = X402_VERSION \<and> payload_extensions payload = [] \<and>
     payload_resource payload = \<lparr>res_url = pc_resource_url ch, res_description = pc_description ch,
       res_mime_type = ''application/json''\<rparr> \<and>
     without_hints (payload_accepted payload) = requirements_of ch \<and> hints_ok (req_extra (payload_accepted payload)) \<and>
     32 \<le> length (pc_memo ch) \<and> now \<le>s pc_expires_at ch \<and> pc_input_digest ch = digest \<and>
     tx = trim (payload_transaction payload) \<and> tx \<noteq> [] \<and>
     (\<exists>decoded. lib_base64_decode lib tx = Some decoded \<and> decoded \<noteq> [] \<and> length decoded \<le> MAX_SOLANA_TX_BYTES)"
  by (cases "payload_resource payload")
    (auto simp: validate_payment_payload_def result_inv Let_def not_less)

end
