(* ===== verification/Payment_Contracts.thy ===== *)
theory Payment_Contracts
  imports Payment_Validate
begin

text \<open>
  What serving a paid request needs of its two stores (\<^verbatim>\<open>agentbond-payments/src/stores.rs\<close>): the traits
  \<open>ChallengeStore\<close> and \<open>SettlementStore\<close> as the records \<open>challenge_ops\<close> and \<open>settlement_ops\<close>, and their contracts as
  the locales \<open>challenge_contract\<close>, \<open>settlement_store\<close> and \<open>leasing_store\<close>. The memory stores (\<open>Payment_Stores\<close>) and
  the stores in the database (\<open>Pg_Payments\<close>) interpret them.

  The clocks, the random memo and the fresh lease are arguments. Time in the settlement stores is in milliseconds.
\<close>

section \<open>Data\<close>

record SettlementBinding =
  sb_service_id :: string
  sb_resource_url :: string
  sb_input_digest :: string
  sb_challenge_memo :: string

text \<open>The body of the demo resource, field by field.\<close>

record demo_body =
  body_service :: string
  body_input_sha256 :: string
  body_echo :: json
  body_note :: string

record PaidDemoResult =
  paid_body :: demo_body
  paid_payment_response_header :: string

type_synonym LeaseToken = "128 word"

datatype BeginOutcome = Cached PaidDemoResult | Acquired LeaseToken | RecoveredStale LeaseToken

fun outcome_lease :: "BeginOutcome \<Rightarrow> LeaseToken option" where
  "outcome_lease (Acquired lease) = Some lease"
| "outcome_lease (RecoveredStale lease) = Some lease"
| "outcome_lease (Cached _) = None"

abbreviation (input) LEASE_TTL :: nat where "LEASE_TTL \<equiv> 30000"

section \<open>The traits\<close>

record 'c challenge_ops =
  op_issue :: "X402ResourceConfig \<Rightarrow> ResourceInfo \<Rightarrow> string \<Rightarrow> i64 \<Rightarrow> bytes option \<Rightarrow> 'c \<Rightarrow>
    (PaymentError + PaymentRequirements \<times> PaymentChallenge) \<times> 'c"
  op_get_valid :: "string \<Rightarrow> i64 \<Rightarrow> 'c \<Rightarrow> (PaymentError + PaymentChallenge) \<times> 'c"

record 's settlement_ops =
  op_begin :: "nat \<Rightarrow> LeaseToken \<Rightarrow> string \<Rightarrow> SettlementBinding \<Rightarrow> 's \<Rightarrow> (PaymentError + BeginOutcome) \<times> 's"
  op_complete :: "nat \<Rightarrow> string \<Rightarrow> SettlementBinding \<Rightarrow> LeaseToken \<Rightarrow> PaidDemoResult \<Rightarrow> 's \<Rightarrow> (PaymentError + unit) \<times> 's"
  op_fail :: "nat \<Rightarrow> string \<Rightarrow> SettlementBinding \<Rightarrow> LeaseToken \<Rightarrow> 's \<Rightarrow> (PaymentError + unit) \<times> 's"

text \<open>What the requests of a server do to a settlement store, as a sequence of operations with their times.\<close>

datatype store_op =
    BeginOp LeaseToken string SettlementBinding
  | CompleteOp string SettlementBinding LeaseToken PaidDemoResult
  | FailOp string SettlementBinding LeaseToken

fun apply_op :: "'s settlement_ops \<Rightarrow> nat \<times> store_op \<Rightarrow> 's \<Rightarrow> 's" where
  "apply_op ops (now, BeginOp fresh tx b) s = snd (op_begin ops now fresh tx b s)"
| "apply_op ops (now, CompleteOp tx b l r) s = snd (op_complete ops now tx b l r s)"
| "apply_op ops (now, FailOp tx b l) s = snd (op_fail ops now tx b l s)"

fun run_ops :: "'s settlement_ops \<Rightarrow> (nat \<times> store_op) list \<Rightarrow> 's \<Rightarrow> 's" where
  "run_ops ops [] s = s"
| "run_ops ops (c # cs) s = run_ops ops cs (apply_op ops c s)"

text \<open>An operation of the holder of the lease \<open>l\<close> on \<open>tx\<close>.\<close>

fun by_holder :: "string \<Rightarrow> SettlementBinding \<Rightarrow> LeaseToken \<Rightarrow> store_op \<Rightarrow> bool" where
  "by_holder tx b l (BeginOp _ _ _) = False"
| "by_holder tx b l (CompleteOp tx' b' l' _) = (tx' = tx \<and> b' = b \<and> l' = l)"
| "by_holder tx b l (FailOp tx' b' l') = (tx' = tx \<and> b' = b \<and> l' = l)"

section \<open>The contract of a challenge store\<close>

text \<open>\<open>known s memo\<close>: the challenge on record under a memo.\<close>

locale challenge_contract =
  fixes c_ok :: "'c \<Rightarrow> bool"
    and issue_op :: "X402ResourceConfig \<Rightarrow> ResourceInfo \<Rightarrow> string \<Rightarrow> i64 \<Rightarrow> bytes option \<Rightarrow> 'c \<Rightarrow>
      (PaymentError + PaymentRequirements \<times> PaymentChallenge) \<times> 'c"
    and get_op :: "string \<Rightarrow> i64 \<Rightarrow> 'c \<Rightarrow> (PaymentError + PaymentChallenge) \<times> 'c"
    and known :: "'c \<Rightarrow> string \<Rightarrow> PaymentChallenge option"
  assumes c_ok_issue: "c_ok s \<Longrightarrow> c_ok (snd (issue_op cfg res digest t rng s))"
    and c_ok_get: "c_ok s \<Longrightarrow> c_ok (snd (get_op memo now s))"
    and issued: "c_ok s \<Longrightarrow> issue_op cfg res digest t rng s = (Inr (req, ch), s') \<Longrightarrow>
      req = requirements_of ch \<and> known s' (pc_memo ch) = Some ch \<and> pc_input_digest ch = digest"
    and found: "c_ok s \<Longrightarrow> fst (get_op memo now s) = Inr ch \<longleftrightarrow> known s memo = Some ch \<and> now \<le>s pc_expires_at ch"
begin

text \<open>An issued challenge is found until it expires.\<close>

lemma issue_then_get:
  assumes "c_ok s" "issue_op cfg res digest t rng s = (Inr (req, ch), s')" "now \<le>s pc_expires_at ch"
  shows "fst (get_op (pc_memo ch) now s') = Inr ch"
  using issued [OF assms(1,2)] c_ok_issue [OF assms(1), of cfg res digest t rng] assms(2,3) found by simp

end

section \<open>The contract of a settlement store\<close>

text \<open>\<open>lease_of s tx\<close> and \<open>result_of s tx\<close>: who holds the lease on a transaction, and its recorded result. A store may
  refuse results that do not \<open>fit\<close>.\<close>

locale settlement_store =
  fixes ok :: "'s \<Rightarrow> bool"
    and fits :: "PaidDemoResult \<Rightarrow> bool"
    and begin_op :: "nat \<Rightarrow> LeaseToken \<Rightarrow> string \<Rightarrow> SettlementBinding \<Rightarrow> 's \<Rightarrow> (PaymentError + BeginOutcome) \<times> 's"
    and complete_op :: "nat \<Rightarrow> string \<Rightarrow> SettlementBinding \<Rightarrow> LeaseToken \<Rightarrow> PaidDemoResult \<Rightarrow> 's \<Rightarrow> (PaymentError + unit) \<times> 's"
    and fail_op :: "nat \<Rightarrow> string \<Rightarrow> SettlementBinding \<Rightarrow> LeaseToken \<Rightarrow> 's \<Rightarrow> (PaymentError + unit) \<times> 's"
    and lease_of :: "'s \<Rightarrow> string \<Rightarrow> (SettlementBinding \<times> LeaseToken) option"
    and result_of :: "'s \<Rightarrow> string \<Rightarrow> (SettlementBinding \<times> PaidDemoResult) option"
  assumes ok_begin: "ok s \<Longrightarrow> ok (snd (begin_op now l tx b s))"
    and ok_complete: "ok s \<Longrightarrow> ok (snd (complete_op now tx b l r s))"
    and ok_fail: "ok s \<Longrightarrow> ok (snd (fail_op now tx b l s))"
    and cached: "ok s \<Longrightarrow> begin_op now l tx b s = (Inr (Cached r), s') \<Longrightarrow>
      result_of s tx = Some (b, r) \<and> result_of s' tx = Some (b, r)"
    and granted: "ok s \<Longrightarrow> begin_op now l tx b s = (Inr out, s') \<Longrightarrow> outcome_lease out = Some l' \<Longrightarrow>
      l' = l \<and> lease_of s' tx = Some (b, l)"
    and completed: "ok s \<Longrightarrow> lease_of s tx = Some (b, l) \<Longrightarrow> fits r \<Longrightarrow>
      fst (complete_op now tx b l r s) = Inr () \<and> result_of (snd (complete_op now tx b l r s)) tx = Some (b, r)"
    and not_completed: "ok s \<Longrightarrow> lease_of s tx \<noteq> Some (b, l) \<or> \<not> fits r \<Longrightarrow>
      (\<exists>e. fst (complete_op now tx b l r s) = Inl e) \<and> snd (complete_op now tx b l r s) = s"
    and released: "ok s \<Longrightarrow> lease_of s tx = Some (b, l) \<Longrightarrow>
      lease_of (snd (fail_op now tx b l s)) tx = None \<and> result_of (snd (fail_op now tx b l s)) tx = None"
    and not_released: "ok s \<Longrightarrow> lease_of s tx \<noteq> Some (b, l) \<Longrightarrow> snd (fail_op now tx b l s) = s"
begin

abbreviation the_ops where
  "the_ops \<equiv> \<lparr>op_begin = begin_op, op_complete = complete_op, op_fail = fail_op\<rparr>"

text \<open>A result is recorded exactly by the holder of the lease.\<close>

lemma complete_iff:
  "ok s \<Longrightarrow> fst (complete_op now tx b l r s) = Inr u \<longleftrightarrow> lease_of s tx = Some (b, l) \<and> fits r"
  using completed not_completed by (metis Inl_Inr_False unit_eq)

lemma complete_records:
  "ok s \<Longrightarrow> complete_op now tx b l r s = (Inr u, s') \<Longrightarrow> result_of s' tx = Some (b, r)"
  using completed complete_iff by (metis fst_conv snd_conv)

lemma grant_then_complete:
  assumes "ok s" "begin_op now l tx b s = (Inr out, s')" "outcome_lease out = Some l'" "fits r"
  shows "fst (complete_op now' tx b l' r s') = Inr ()"
  using granted [OF assms(1-3)] complete_iff ok_begin [OF assms(1)] assms(2,4) by (metis snd_conv)

lemma ok_run: "ok s \<Longrightarrow> ok (run_ops the_ops cs s)"
proof (induction cs arbitrary: s)
  case (Cons c cs)
  obtain t o' where "c = (t, o')" by (cases c)
  with Cons show ?case by (cases o') (simp_all add: ok_begin ok_complete ok_fail)
qed simp

end

text \<open>A store whose leases are exclusive while they last: \<open>holds s tx b l t\<close> says that the lease \<open>l\<close> was granted at
  time \<open>t\<close> and is still held.\<close>

locale leasing_store = settlement_store +
  fixes holds :: "'a \<Rightarrow> string \<Rightarrow> SettlementBinding \<Rightarrow> LeaseToken \<Rightarrow> nat \<Rightarrow> bool"
  assumes holder: "holds s tx b l t0 \<Longrightarrow> ok s \<and> lease_of s tx = Some (b, l)"
    and grants: "ok s \<Longrightarrow> begin_op t0 fresh tx b s = (Inr out, s') \<Longrightarrow> outcome_lease out = Some l \<Longrightarrow> holds s' tx b l t0"
    and refuses: "holds s tx b l t0 \<Longrightarrow> t \<le> t0 + LEASE_TTL \<Longrightarrow>
      \<exists>e. fst (begin_op t fresh tx b' s) = Inl e \<and> (b' = b \<longrightarrow> e = SettlementInProgress)"
    and keeps_begin: "holds s tx b l t0 \<Longrightarrow> t \<le> t0 + LEASE_TTL \<Longrightarrow> holds (snd (begin_op t fresh tx' b' s)) tx b l t0"
    and keeps_complete: "holds s tx b l t0 \<Longrightarrow> \<not> (tx' = tx \<and> b' = b \<and> l' = l) \<Longrightarrow>
      holds (snd (complete_op t tx' b' l' r s)) tx b l t0"
    and keeps_fail: "holds s tx b l t0 \<Longrightarrow> \<not> (tx' = tx \<and> b' = b \<and> l' = l) \<Longrightarrow>
      holds (snd (fail_op t tx' b' l' s)) tx b l t0"
begin

lemma holds_op:
  "holds s tx b l t0 \<Longrightarrow> t \<le> t0 + LEASE_TTL \<Longrightarrow> \<not> by_holder tx b l c \<Longrightarrow> holds (apply_op the_ops (t, c) s) tx b l t0"
  by (cases c) (auto simp: keeps_begin keeps_complete keeps_fail)

lemma holds_run:
  "holds s tx b l t0 \<Longrightarrow> (\<And>t c. (t, c) \<in> set cs \<Longrightarrow> t \<le> t0 + LEASE_TTL \<and> \<not> by_holder tx b l c) \<Longrightarrow>
   holds (run_ops the_ops cs s) tx b l t0"
proof (induction cs arbitrary: s)
  case (Cons c cs)
  then show ?case by (cases c) (auto intro!: Cons.IH holds_op)
qed simp

lemma exclusive:
  assumes "ok s" "begin_op t0 fresh tx b s = (Inr out, s1)" "outcome_lease out = Some l"
    and "\<And>t c. (t, c) \<in> set cs \<Longrightarrow> t \<le> t0 + LEASE_TTL \<and> \<not> by_holder tx b l c" "t \<le> t0 + LEASE_TTL"
  shows "\<exists>e. fst (begin_op t fresh' tx b' (run_ops the_ops cs s1)) = Inl e \<and> (b' = b \<longrightarrow> e = SettlementInProgress)"
    and "fits r \<Longrightarrow> fst (complete_op t' tx b l r (run_ops the_ops cs s1)) = Inr ()"
proof -
  have held: "holds (run_ops the_ops cs s1) tx b l t0"
    by (rule holds_run [OF grants [OF assms(1-3)] assms(4)])
  show "\<exists>e. fst (begin_op t fresh' tx b' (run_ops the_ops cs s1)) = Inl e \<and> (b' = b \<longrightarrow> e = SettlementInProgress)"
    by (rule refuses [OF held assms(5)])
  show "fits r \<Longrightarrow> fst (complete_op t' tx b l r (run_ops the_ops cs s1)) = Inr ()"
    using holder [OF held] complete_iff by blast
qed

end

end
