(* ===== verification/Payment_Stores.thy ===== *)
theory Payment_Stores
  imports Payment_Contracts "HOL-Library.AList"
begin

text \<open>
  The two stores of the payment adapter, in memory: the challenges a server has issued
  (\<^verbatim>\<open>agentbond-payments/src/challenge.rs\<close>) and the settlements in progress and done (\<^verbatim>\<open>settlement.rs\<close>).

  A hash map is an association list with distinct keys, in the order an iteration happens to visit
  it; nothing below depends on the order. The clocks, the random memo and the fresh lease are arguments. Time in the
  settlement store is in milliseconds of a monotonic clock, so that \<open>elapsed\<close> is a difference.

  A settlement moves through \<open>Settling\<close> (with a lease), \<open>Settled\<close> and \<open>Failed\<close>. The locale
  \<open>settlement_store\<close> states what the rest of the adapter relies on; the memory store interprets it.
\<close>

section \<open>Challenges\<close>

type_synonym challenge_store = "(string \<times> PaymentChallenge) list"

abbreviation (input) MAX_CHALLENGES :: nat where "MAX_CHALLENGES \<equiv> 512"

definition random_memo_hex :: "bytes option \<Rightarrow> PaymentError + string" where
  "random_memo_hex rng = tryE (ok_or rng (PaymentInternal ''rng failed'')) (\<lambda>bytes. Inr (hex bytes))"

definition evict_expired :: "challenge_store \<Rightarrow> i64 \<Rightarrow> challenge_store" where
  "evict_expired m now = filter (\<lambda>(_, c). now \<le>s pc_expires_at c) m"

text \<open>\<open>min_by_key\<close>: the first entry with the smallest key.\<close>

fun oldest :: "challenge_store \<Rightarrow> (string \<times> PaymentChallenge) option" where
  "oldest [] = None"
| "oldest (e # m) =
     (case oldest m of
        None \<Rightarrow> Some e
      | Some e' \<Rightarrow> if pc_issued_at (snd e) \<le>s pc_issued_at (snd e') then Some e else Some e')"

definition evict_oldest :: "challenge_store \<Rightarrow> challenge_store" where
  "evict_oldest m = (case oldest m of None \<Rightarrow> m | Some (key, _) \<Rightarrow> AList.delete key m)"

definition issue ::
    "X402ResourceConfig \<Rightarrow> ResourceInfo \<Rightarrow> string \<Rightarrow> i64 \<Rightarrow> bytes option \<Rightarrow> challenge_store \<Rightarrow>
       (PaymentError + PaymentRequirements \<times> PaymentChallenge) \<times> challenge_store" where
  "issue cfg resource input_digest issued_at rng m =
     (case random_memo_hex rng of
        Inl e \<Rightarrow> (Inl e, m)
      | Inr memo \<Rightarrow>
          (case checked_add_signed issued_at (cfg_max_timeout_seconds cfg) of
             None \<Rightarrow> (Inl (PaymentInternal ''expires_at overflow''), m)
           | Some expires_at \<Rightarrow>
               (let challenge = \<lparr>pc_memo = memo, pc_service_id = cfg_service_id cfg, pc_resource_url = res_url resource,
                      pc_description = res_description resource, pc_merchant = cfg_pay_to cfg,
                      pc_asset = cfg_asset cfg, pc_amount = cfg_amount cfg, pc_network = cfg_network cfg,
                      pc_fee_payer = cfg_fee_payer cfg, pc_input_digest = input_digest, pc_issued_at = issued_at,
                      pc_expires_at = expires_at, pc_max_timeout_seconds = cfg_max_timeout_seconds cfg\<rparr>;
                    requirements = \<lparr>req_scheme = SCHEME_EXACT, req_network = cfg_network cfg,
                      req_amount = cfg_amount cfg, req_asset = cfg_asset cfg, req_pay_to = cfg_pay_to cfg,
                      req_max_timeout_seconds = cfg_max_timeout_seconds cfg,
                      req_extra = \<lparr>extra_fee_payer = cfg_fee_payer cfg, extra_memo = Some memo,
                        extra_recent_blockhash = None, extra_last_valid_block_height = None\<rparr>\<rparr>;
                    m = evict_expired m issued_at;
                    m = (if length m \<ge> MAX_CHALLENGES then evict_oldest m else m)
                in (Inr (requirements, challenge), AList.update memo challenge m))))"

definition get_valid :: "string \<Rightarrow> i64 \<Rightarrow> challenge_store \<Rightarrow> (PaymentError + PaymentChallenge) \<times> challenge_store" where
  "get_valid memo now m =
     (let m = evict_expired m now
      in case map_of m memo of
           None \<Rightarrow> (Inl InvalidChallenge, m)
         | Some challenge \<Rightarrow>
             (if pc_expires_at challenge <s now then (Inl ChallengeExpired, AList.delete memo m)
              else (Inr challenge, m)))"

section \<open>Settlements\<close>

datatype SettlementState =
    Settling SettlementBinding LeaseToken nat
  | SettledAt SettlementBinding PaidDemoResult nat
  | FailedAt SettlementBinding nat

type_synonym settlement_store = "(string \<times> SettlementState) list"

abbreviation (input) MAX_ENTRIES :: nat where "MAX_ENTRIES \<equiv> 512"
abbreviation (input) ENTRY_TTL :: nat where "ENTRY_TTL \<equiv> 120000"
abbreviation (input) FAIL_RETRY :: nat where "FAIL_RETRY \<equiv> 2000"

fun state_age :: "nat \<Rightarrow> SettlementState \<Rightarrow> nat" where
  "state_age now (Settling _ _ started) = now - started"
| "state_age now (SettledAt _ _ completed) = now - completed"
| "state_age now (FailedAt _ failed_at) = now - failed_at"

definition evict :: "nat \<Rightarrow> settlement_store \<Rightarrow> settlement_store" where
  "evict now m = filter (\<lambda>(_, state). state_age now state \<le> ENTRY_TTL) m"

fun evictable :: "SettlementState \<Rightarrow> bool" where
  "evictable (Settling _ _ _) = False"
| "evictable _ = True"

text \<open>\<open>max_by_key\<close>: the last entry with the greatest key.\<close>

fun eldest :: "nat \<Rightarrow> settlement_store \<Rightarrow> (string \<times> nat) option" where
  "eldest now [] = None"
| "eldest now ((k, state) # m) =
     (case eldest now m of
        None \<Rightarrow> if evictable state then Some (k, state_age now state) else None
      | Some (k', age) \<Rightarrow>
          if evictable state \<and> age < state_age now state then Some (k, state_age now state) else Some (k', age))"

definition evict_one_targeted :: "nat \<Rightarrow> settlement_store \<Rightarrow> settlement_store" where
  "evict_one_targeted now m = (case eldest now m of None \<Rightarrow> m | Some (key, _) \<Rightarrow> AList.delete key m)"

definition settlement_begin ::
    "nat \<Rightarrow> LeaseToken \<Rightarrow> string \<Rightarrow> SettlementBinding \<Rightarrow> settlement_store \<Rightarrow>
       (PaymentError + BeginOutcome) \<times> settlement_store" where
  "settlement_begin now fresh tx_digest binding m =
     (let m = evict now m
      in case map_of m tx_digest of
           Some (SettledAt existing result _) \<Rightarrow>
             (if existing \<noteq> binding then (Inl BindingMismatch, m) else (Inr (Cached result), m))
         | Some (Settling existing _ started) \<Rightarrow>
             (if existing \<noteq> binding then (Inl BindingMismatch, m)
              else if now - started > LEASE_TTL
              then (Inr (RecoveredStale fresh), AList.update tx_digest (Settling binding fresh now) m)
              else (Inl SettlementInProgress, m))
         | Some (FailedAt existing failed_at) \<Rightarrow>
             (if existing \<noteq> binding then (Inl BindingMismatch, m)
              else if now - failed_at < FAIL_RETRY then (Inl SettlementInProgress, m)
              else (Inr (Acquired fresh), AList.update tx_digest (Settling binding fresh now) m))
         | None \<Rightarrow>
             (let m = (if length m \<ge> MAX_ENTRIES then evict_one_targeted now m else m)
              in (Inr (Acquired fresh), AList.update tx_digest (Settling binding fresh now) m)))"

definition settlement_complete ::
    "nat \<Rightarrow> string \<Rightarrow> SettlementBinding \<Rightarrow> LeaseToken \<Rightarrow> PaidDemoResult \<Rightarrow> settlement_store \<Rightarrow>
       (PaymentError + unit) \<times> settlement_store" where
  "settlement_complete now tx_digest binding lease result m =
     (case map_of m tx_digest of
        Some (Settling existing held _) \<Rightarrow>
          (if existing = binding \<and> held = lease
           then (Inr (), AList.update tx_digest (SettledAt binding result now) m)
           else (Inl LeaseMismatch, m))
      | _ \<Rightarrow> (Inl InvalidChallenge, m))"

definition settlement_fail ::
    "nat \<Rightarrow> string \<Rightarrow> SettlementBinding \<Rightarrow> LeaseToken \<Rightarrow> settlement_store \<Rightarrow>
       (PaymentError + unit) \<times> settlement_store" where
  "settlement_fail now tx_digest binding lease m =
     (case map_of m tx_digest of
        Some (Settling existing held _) \<Rightarrow>
          (if existing = binding \<and> held = lease
           then (Inr (), AList.update tx_digest (FailedAt binding now) m)
           else (Inl LeaseMismatch, m))
      | _ \<Rightarrow> (Inr (), m))"

section \<open>The memory store satisfies it\<close>

definition mem_lease :: "settlement_store \<Rightarrow> string \<Rightarrow> (SettlementBinding \<times> LeaseToken) option" where
  "mem_lease m tx = (case map_of m tx of Some (Settling b l _) \<Rightarrow> Some (b, l) | _ \<Rightarrow> None)"

definition mem_result :: "settlement_store \<Rightarrow> string \<Rightarrow> (SettlementBinding \<times> PaidDemoResult) option" where
  "mem_result m tx = (case map_of m tx of Some (SettledAt b r _) \<Rightarrow> Some (b, r) | _ \<Rightarrow> None)"

text \<open>Hash maps have one entry per key.\<close>

definition store_ok :: "('k \<times> 'v) list \<Rightarrow> bool" where
  "store_ok m \<longleftrightarrow> distinct (map fst m)"

lemma store_ok_filter: "store_ok m \<Longrightarrow> store_ok (filter P m)"
  by (simp add: store_ok_def distinct_map_filter)

lemma store_ok_update: "store_ok m \<Longrightarrow> store_ok (AList.update k v m)"
  by (simp add: store_ok_def distinct_update)

lemma store_ok_delete: "store_ok m \<Longrightarrow> store_ok (AList.delete k m)"
  by (simp add: store_ok_def distinct_delete)

lemma map_of_update [simp]: "map_of (AList.update k v m) = (map_of m)(k \<mapsto> v)"
  by (rule update_conv')

lemma map_of_delete [simp]: "map_of (AList.delete k m) = (map_of m)(k := None)"
  by (rule delete_conv')

lemma map_of_evict:
  "store_ok m \<Longrightarrow> map_of (evict now m) tx =
     (case map_of m tx of Some st \<Rightarrow> if state_age now st \<le> ENTRY_TTL then Some st else None | None \<Rightarrow> None)"
  by (induction m) (auto simp: evict_def store_ok_def image_iff split: option.splits dest: map_of_SomeD)

lemma eldest_Some: "eldest now m = Some (k, age) \<Longrightarrow> \<exists>st. (k, st) \<in> set m \<and> evictable st"
proof (induction m arbitrary: k age)
  case (Cons e m)
  then show ?case
    by (cases e; cases "eldest now m") (fastforce split: if_splits prod.splits)+
qed simp

lemma evict_one_keeps:
  assumes "store_ok m" "map_of m tx = Some (Settling b l t)"
  shows "map_of (evict_one_targeted now m) tx = Some (Settling b l t)"
proof (cases "eldest now m")
  case (Some e)
  then obtain k age st where k: "eldest now m = Some (k, age)" "(k, st) \<in> set m" "evictable st"
    using eldest_Some by (metis surj_pair)
  then have "map_of m k = Some st" using assms(1) by (simp add: store_ok_def)
  with k assms(2) have "k \<noteq> tx" by auto
  with k assms(2) show ?thesis by (simp add: evict_one_targeted_def)
qed (simp add: evict_one_targeted_def assms)

lemma store_ok_begin: "store_ok m \<Longrightarrow> store_ok (snd (settlement_begin now fresh tx b m))"
  by (auto simp: settlement_begin_def Let_def evict_def evict_one_targeted_def
      intro: store_ok_filter store_ok_update store_ok_delete split: option.splits SettlementState.splits)

lemma store_ok_complete: "store_ok m \<Longrightarrow> store_ok (snd (settlement_complete now tx b l r m))"
  by (auto simp: settlement_complete_def intro: store_ok_update split: option.splits SettlementState.splits)

lemma store_ok_fail: "store_ok m \<Longrightarrow> store_ok (snd (settlement_fail now tx b l m))"
  by (auto simp: settlement_fail_def intro: store_ok_update split: option.splits SettlementState.splits)

lemmas mem_defs = mem_lease_def mem_result_def

lemma evict_Some:
  "store_ok m \<Longrightarrow> map_of (evict now m) tx = Some st \<Longrightarrow> map_of m tx = Some st"
  by (auto simp: map_of_evict split: option.splits if_splits)

text \<open>The branches of \<open>begin\<close> that answer.\<close>

lemma begin_Inr:
  assumes "settlement_begin now fresh tx b m = (Inr out, m')"
  shows "(\<exists>r t. out = Cached r \<and> map_of (evict now m) tx = Some (SettledAt b r t) \<and> m' = evict now m) \<or>
    (out = Acquired fresh \<or> out = RecoveredStale fresh) \<and> map_of m' tx = Some (Settling b fresh now)"
  using assms
  by (auto simp: settlement_begin_def Let_def split: option.splits SettlementState.splits if_splits)

definition leased :: "string \<Rightarrow> SettlementBinding \<Rightarrow> LeaseToken \<Rightarrow> nat \<Rightarrow> settlement_store \<Rightarrow> bool" where
  "leased tx b l t0 m \<longleftrightarrow> store_ok m \<and> map_of m tx = Some (Settling b l t0)"

lemma leased_evict:
  "leased tx b l t0 m \<Longrightarrow> t \<le> t0 + LEASE_TTL \<Longrightarrow> leased tx b l t0 (evict t m)"
  by (simp add: leased_def map_of_evict) (simp add: evict_def store_ok_filter)

lemma leased_update: "leased tx b l t0 m \<Longrightarrow> tx' \<noteq> tx \<Longrightarrow> leased tx b l t0 (AList.update tx' st m)"
  by (simp add: leased_def store_ok_update)

lemma leased_evict_one: "leased tx b l t0 m \<Longrightarrow> leased tx b l t0 (evict_one_targeted t m)"
  by (simp add: leased_def evict_one_keeps)
     (auto simp: evict_one_targeted_def store_ok_delete split: option.splits)

lemma leased_map_of: "leased tx b l t0 m \<Longrightarrow> map_of m tx = Some (Settling b l t0)"
  by (simp add: leased_def)

lemma begin_while_leased:
  assumes "leased tx b l t0 m" "t \<le> t0 + LEASE_TTL"
  shows "settlement_begin t fresh tx b' m = (Inl (if b' = b then SettlementInProgress else BindingMismatch), evict t m)"
  using leased_map_of [OF leased_evict [OF assms]] assms(2) by (simp add: settlement_begin_def Let_def)

lemma leased_begin:
  assumes "leased tx b l t0 m" "t \<le> t0 + LEASE_TTL"
  shows "leased tx b l t0 (snd (settlement_begin t fresh tx' b' m))"
proof (cases "tx' = tx")
  case True
  then show ?thesis using begin_while_leased [OF assms] leased_evict [OF assms] by simp
next
  case False
  then show ?thesis
    using leased_evict [OF assms]
    by (auto simp: settlement_begin_def Let_def intro!: leased_update leased_evict_one
        split: option.splits SettlementState.splits)
qed


lemma lease_kept:
  assumes "leased tx b l t0 m" "\<not> (tx' = tx \<and> b' = b \<and> l' = l)"
  shows "leased tx b l t0 (snd (settlement_complete t tx' b' l' r m))" "leased tx b l t0 (snd (settlement_fail t tx' b' l' m))"
  using assms leased_map_of [OF assms(1)]
  by (cases "tx' = tx"; auto simp: settlement_complete_def settlement_fail_def intro: leased_update
      split: option.splits SettlementState.splits)+

lemma begin_leases:
  assumes "store_ok m" "settlement_begin t0 fresh tx b m = (Inr out, m1)" "outcome_lease out = Some l"
  shows "leased tx b l t0 m1"
  using begin_Inr [OF assms(2)] assms(2,3) store_ok_begin [OF assms(1), of t0 fresh tx b] by (auto simp: leased_def)

interpretation mem_store: leasing_store store_ok "\<lambda>_. True" settlement_begin settlement_complete settlement_fail
  mem_lease mem_result "\<lambda>m tx b l t0. leased tx b l t0 m"
proof unfold_locales
  fix now l tx b r out l' and s s' :: settlement_store
  assume ok: "store_ok s"
  show "mem_result s tx = Some (b, r) \<and> mem_result s' tx = Some (b, r)"
    if "settlement_begin now l tx b s = (Inr (Cached r), s')"
    using begin_Inr [OF that] evict_Some [OF ok] by (auto simp: mem_result_def)
  show "l' = l \<and> mem_lease s' tx = Some (b, l)"
    if "settlement_begin now l tx b s = (Inr out, s')" "outcome_lease out = Some l'"
    using begin_Inr [OF that(1)] that(2) by (auto simp: mem_lease_def)
next
  fix s tx b l t0 t fresh b'
  assume "leased tx b l t0 s" "t \<le> t0 + LEASE_TTL"
  from begin_while_leased [OF this]
  show "\<exists>e. fst (settlement_begin t fresh tx b' s) = Inl e \<and> (b' = b \<longrightarrow> e = SettlementInProgress)" by simp
next
  fix s tx b l t0
  assume "leased tx b l t0 s"
  then show "store_ok s \<and> mem_lease s tx = Some (b, l)" by (simp add: leased_def mem_lease_def)
next
  fix s tx b l t0 tx' b' l' t r
  assume "leased tx b l t0 s" "\<not> (tx' = tx \<and> b' = b \<and> l' = l)"
  from lease_kept [OF this]
  show "leased tx b l t0 (snd (settlement_complete t tx' b' l' r s))" "leased tx b l t0 (snd (settlement_fail t tx' b' l' s))" .
qed (auto simp: mem_defs settlement_complete_def settlement_fail_def store_ok_begin store_ok_complete store_ok_fail
    leased_begin begin_leases
    intro: store_ok_update split: option.splits SettlementState.splits)

abbreviation memory_ops :: "settlement_store settlement_ops" where
  "memory_ops \<equiv> \<lparr>op_begin = settlement_begin, op_complete = settlement_complete, op_fail = settlement_fail\<rparr>"

section \<open>The challenges satisfy theirs\<close>

text \<open>
  The memory challenge store never reports an expired challenge: \<open>get_valid\<close> evicts expired entries before it
  looks the memo up, so its own expiry branch is dead and the answer for an expired challenge is
  \<open>InvalidChallenge\<close>.
\<close>

lemma get_valid_never_expired: "store_ok m \<Longrightarrow> fst (get_valid memo now m) \<noteq> Inl ChallengeExpired"
proof -
  have "now \<le>s pc_expires_at c" if "map_of (evict_expired m now) memo = Some c" for c
    using map_of_SomeD [OF that] by (auto simp: evict_expired_def)
  then show ?thesis
    by (auto simp: get_valid_def Let_def signed.not_less split: option.splits)
qed

text \<open>A challenge that is issued can be used until it expires, as long as it is not evicted; whatever is
  found is live and was issued under this memo.\<close>

lemma get_valid_live:
  assumes "store_ok m" "fst (get_valid memo now m) = Inr ch"
  shows "map_of m memo = Some ch" "now \<le>s pc_expires_at ch"
proof -
  have ch: "map_of (evict_expired m now) memo = Some ch"
    using assms(2) by (auto simp: get_valid_def Let_def split: option.splits if_splits)
  from map_of_SomeD [OF this] show "now \<le>s pc_expires_at ch" by (auto simp: evict_expired_def)
  from map_of_SomeD [OF ch] assms(1) show "map_of m memo = Some ch"
    by (auto simp: evict_expired_def store_ok_def)
qed

lemma map_of_evict_expired:
  "store_ok m \<Longrightarrow> map_of m memo = Some ch \<Longrightarrow> now \<le>s pc_expires_at ch \<Longrightarrow>
   map_of (evict_expired m now) memo = Some ch"
  unfolding evict_expired_def
  by (rule map_of_is_SomeI) (auto simp: store_ok_def distinct_map_filter dest: map_of_SomeD)

lemma issue_store_ok:
  "store_ok m \<Longrightarrow> store_ok (snd (issue cfg resource digest t rng m))"
  by (auto simp: issue_def Let_def evict_expired_def evict_oldest_def
      intro!: store_ok_update store_ok_delete store_ok_filter split: sum.splits option.splits)

interpretation mem_challenges: challenge_contract store_ok issue get_valid map_of
proof unfold_locales
  fix cfg res digest t rng req ch memo now and s s' :: challenge_store
  assume ok: "store_ok s"
  show "store_ok (snd (issue cfg res digest t rng s))" by (rule issue_store_ok [OF ok])
  show "store_ok (snd (get_valid memo now s))"
    using ok by (auto simp: get_valid_def Let_def evict_expired_def intro!: store_ok_filter store_ok_delete split: option.splits)
  show "req = requirements_of ch \<and> map_of s' (pc_memo ch) = Some ch \<and> pc_input_digest ch = digest"
    if "issue cfg res digest t rng s = (Inr (req, ch), s')"
    using that by (auto simp: issue_def Let_def requirements_of_def split: sum.splits option.splits)
  show "fst (get_valid memo now s) = Inr ch \<longleftrightarrow> map_of s memo = Some ch \<and> now \<le>s pc_expires_at ch"
  proof
    assume "fst (get_valid memo now s) = Inr ch"
    from get_valid_live [OF ok this] show "map_of s memo = Some ch \<and> now \<le>s pc_expires_at ch" by blast
  next
    assume "map_of s memo = Some ch \<and> now \<le>s pc_expires_at ch"
    then have "map_of (evict_expired s now) memo = Some ch" "\<not> pc_expires_at ch <s now"
      using map_of_evict_expired [OF ok] by (auto simp: signed.not_less)
    then show "fst (get_valid memo now s) = Inr ch" by (simp add: get_valid_def Let_def)
  qed
qed

abbreviation memory_challenges :: "challenge_store challenge_ops" where
  "memory_challenges \<equiv> \<lparr>op_issue = issue, op_get_valid = get_valid\<rparr>"

section \<open>Properties\<close>

text \<open>
  A settlement lease is exclusive while it lasts. After \<open>begin\<close> has granted a lease on a transaction, then
  whatever other requests do to the store in the next thirty seconds (begin, complete or fail settlements, evict
  entries), as long as the holder neither completes nor fails: nobody else gets a lease on that transaction,
  the same request is told that settlement is in progress and any other that the transaction is bound, and
  the holder can still complete.
\<close>

theorem lease_is_exclusive:
  assumes "store_ok m" "settlement_begin t0 fresh tx b m = (Inr out, m1)" "outcome_lease out = Some l"
    and "\<forall>(t, op) \<in> set ops. t \<le> t0 + LEASE_TTL \<and> \<not> by_holder tx b l op" "t \<le> t0 + LEASE_TTL"
  shows "fst (settlement_begin t fresh' tx b' (run_ops memory_ops ops m1)) =
      Inl (if b' = b then SettlementInProgress else BindingMismatch) \<and>
    fst (settlement_complete t tx b l r (run_ops memory_ops ops m1)) = Inr ()"
proof -
  have "leased tx b l t0 (run_ops memory_ops ops m1)"
    using mem_store.holds_run [OF begin_leases [OF assms(1-3)]] assms(4) by blast
  then show ?thesis
    using begin_while_leased [of tx b l t0 _ t] leased_map_of assms(5)
    by (auto simp: settlement_complete_def)
qed

theorem lease_is_exclusive_witness:
  "fst (settlement_begin 20000 2 ''tx'' \<lparr>sb_service_id = ''s'', sb_resource_url = ''u'', sb_input_digest = ''d'',
      sb_challenge_memo = ''m''\<rparr>
      (run_ops memory_ops [(10000, BeginOp 3 ''other'' \<lparr>sb_service_id = ''s'', sb_resource_url = ''u'', sb_input_digest = ''e'',
        sb_challenge_memo = ''n''\<rparr>)]
        (snd (settlement_begin 0 1 ''tx'' \<lparr>sb_service_id = ''s'', sb_resource_url = ''u'', sb_input_digest = ''d'',
          sb_challenge_memo = ''m''\<rparr> [])))) = Inl SettlementInProgress"
proof -
  let ?b = "\<lparr>sb_service_id = ''s'', sb_resource_url = ''u'', sb_input_digest = ''d'', sb_challenge_memo = ''m''\<rparr>"
  have "settlement_begin 0 1 ''tx'' ?b [] = (Inr (Acquired 1), [(''tx'', Settling ?b 1 0)])"
    by (simp add: settlement_begin_def evict_def)
  from lease_is_exclusive [OF _ this, of 1 "[(10000, BeginOp 3 ''other'' b)]" for b] this show ?thesis
    by (simp add: store_ok_def)
qed

end
