(* ===== verification/Payment_Resource.thy ===== *)
theory Payment_Resource
  imports Payment_Stores
begin

text \<open>
  Serving a paid request, \<open>invoke_paid_demo\<close> of \<^verbatim>\<open>agentbond-payments/src/resource.rs\<close>, over any two stores
  (the parameters \<open>challenge_ops\<close> and \<open>settlement_ops\<close>, as the code takes trait objects).

  The facilitator is a remote service, the parameter \<open>facilitator\<close>. While the request waits for it,
  other requests run: \<open>schedule\<close> gives what they do to the settlement store during each of the two
  waits, together with the clock readings and the random values of this run. A run returns its
  answer, both stores and the calls it made to the facilitator.
\<close>

section \<open>Parameters\<close>

record facilitator =
  fac_verify :: "FacilitatorRequest \<Rightarrow> PaymentError + VerifyResponse"
  fac_settle :: "FacilitatorRequest \<Rightarrow> PaymentError + SettleResponse"

datatype fac_call = VerifyCall FacilitatorRequest | SettleCall FacilitatorRequest

record 's schedule =
  sched_rng :: "bytes option"
  sched_lease :: LeaseToken
  sched_begin_at :: nat
  sched_during_verify :: "'s \<Rightarrow> 's"
  sched_verified_at :: nat
  sched_during_settle :: "'s \<Rightarrow> 's"
  sched_settled_at :: nat

section \<open>The request\<close>

definition input_digest :: "pay_lib \<Rightarrow> json \<Rightarrow> string" where
  "input_digest lib input = hex (lib_sha256 lib (byte_string input))"

definition tx_digest :: "pay_lib \<Rightarrow> string \<Rightarrow> string" where
  "tx_digest lib transaction_b64 = hex (lib_sha256 lib (byte_string transaction_b64))"

definition demo_result_body :: "pay_lib \<Rightarrow> json \<Rightarrow> demo_body" where
  "demo_result_body lib input =
     \<lparr>body_service = ''agentbond-x402-demo'', body_input_sha256 = hex (lib_sha256 lib (byte_string input)),
      body_echo = input, body_note = ''deterministic paid demo resource''\<rparr>"

text \<open>The part after the lease has been acquired: verification, settlement, completion; every refusal of the
  facilitator gives the lease back.\<close>

definition settle_leased ::
    "'s settlement_ops \<Rightarrow> facilitator \<Rightarrow> pay_lib \<Rightarrow> 's schedule \<Rightarrow> FacilitatorRequest \<Rightarrow> string \<Rightarrow> SettlementBinding \<Rightarrow>
       LeaseToken \<Rightarrow> json \<Rightarrow> 's \<Rightarrow> (PaymentError + string + PaidDemoResult) \<times> 's \<times> fac_call list" where
  "settle_leased ops fac lib sched request digest_key binding lease input ss =
     (let ss = sched_during_verify sched ss
      in case fac_verify fac request of
           Inl e \<Rightarrow> (Inl e, snd (op_fail ops (sched_verified_at sched) digest_key binding lease ss), [VerifyCall request])
         | Inr verify \<Rightarrow>
             (if \<not> vr_is_valid verify
              then (Inl VerifyRejected, snd (op_fail ops (sched_verified_at sched) digest_key binding lease ss),
                [VerifyCall request])
              else
                let body = demo_result_body lib input;
                    ss = sched_during_settle sched ss
                in case fac_settle fac request of
                     Inl e \<Rightarrow> (Inl e, snd (op_fail ops (sched_settled_at sched) digest_key binding lease ss),
                       [VerifyCall request, SettleCall request])
                   | Inr settle \<Rightarrow>
                       (if \<not> settle_success settle
                        then (Inl SettleRejected, snd (op_fail ops (sched_settled_at sched) digest_key binding lease ss),
                          [VerifyCall request, SettleCall request])
                        else
                          case encode_payment_response_header lib settle of
                            Inl e \<Rightarrow> (Inl e, ss, [VerifyCall request, SettleCall request])
                          | Inr response_header \<Rightarrow>
                              (let result = \<lparr>paid_body = body, paid_payment_response_header = response_header\<rparr>
                               in case op_complete ops (sched_settled_at sched) digest_key binding lease result ss of
                                    (Inl e, ss) \<Rightarrow> (Inl e, ss, [VerifyCall request, SettleCall request])
                                  | (Inr _, ss) \<Rightarrow> (Inr (Inr result), ss, [VerifyCall request, SettleCall request])))))"

definition invoke_paid_demo ::
    "'c challenge_ops \<Rightarrow> 's settlement_ops \<Rightarrow> X402ResourceConfig \<Rightarrow> facilitator \<Rightarrow> pay_lib \<Rightarrow> 's schedule \<Rightarrow> string option \<Rightarrow> json \<Rightarrow> i64 \<Rightarrow>
       'c \<Rightarrow> 's \<Rightarrow>
       (PaymentError + string + PaidDemoResult) \<times> 'c \<times> 's \<times> fac_call list" where
  "invoke_paid_demo chal ops cfg fac lib sched payment_header input now_unix cs ss =
     (let digest = input_digest lib input;
          resource = \<lparr>res_url = cfg_resource_url cfg, res_description = cfg_description cfg,
            res_mime_type = ''application/json''\<rparr>
      in case payment_header of
           None \<Rightarrow>
             (case op_issue chal cfg resource digest now_unix (sched_rng sched) cs of
                (Inl e, cs) \<Rightarrow> (Inl e, cs, ss, [])
              | (Inr (requirements, _), cs) \<Rightarrow>
                  (let required = \<lparr>required_x402_version = X402_VERSION,
                         required_error = Some ''PAYMENT-SIGNATURE header is required'',
                         required_resource = resource, required_accepts = [requirements]\<rparr>
                   in case encode_payment_required_header lib required of
                        Inl e \<Rightarrow> (Inl e, cs, ss, [])
                      | Inr encoded \<Rightarrow> (Inr (Inl encoded), cs, ss, [])))
         | Some header \<Rightarrow>
             (case decode_payment_signature_header lib header of
                Inl e \<Rightarrow> (Inl e, cs, ss, [])
              | Inr payload \<Rightarrow>
             (case extra_memo (req_extra (payload_accepted payload)) of
                None \<Rightarrow> (Inl InvalidChallenge, cs, ss, [])
              | Some memo \<Rightarrow>
             (case op_get_valid chal memo now_unix cs of
                (Inl e, cs) \<Rightarrow> (Inl e, cs, ss, [])
              | (Inr challenge, cs) \<Rightarrow>
             (let expected = requirements_of challenge
              in case validate_payment_payload lib payload expected challenge now_unix digest of
                Inl e \<Rightarrow> (Inl e, cs, ss, [])
              | Inr tx_b64 \<Rightarrow>
             (let digest_key = tx_digest lib tx_b64;
                  binding = \<lparr>sb_service_id = cfg_service_id cfg, sb_resource_url = cfg_resource_url cfg,
                    sb_input_digest = digest, sb_challenge_memo = pc_memo challenge\<rparr>;
                  request = \<lparr>freq_x402_version = X402_VERSION, freq_payment_payload = payload,
                    freq_payment_requirements = expected\<rparr>
              in case op_begin ops (sched_begin_at sched) (sched_lease sched) digest_key binding ss of
                (Inl e, ss) \<Rightarrow> (Inl e, cs, ss, [])
              | (Inr (Cached result), ss) \<Rightarrow> (Inr (Inr result), cs, ss, [])
              | (Inr (Acquired lease), ss) \<Rightarrow>
                  (let (r, ss, calls) = settle_leased ops fac lib sched request digest_key binding lease input ss
                   in (r, cs, ss, calls))
              | (Inr (RecoveredStale lease), ss) \<Rightarrow>
                  (let (r, ss, calls) = settle_leased ops fac lib sched request digest_key binding lease input ss
                   in (r, cs, ss, calls))))))))"

section \<open>What a run has done\<close>

text \<open>\<open>payment_for chal lib header input now cs payload ch tx\<close>: the header carries a payload that names a
  live challenge of the store and passes validation against it; \<open>tx\<close> is its transaction.\<close>

definition payment_for ::
    "'c challenge_ops \<Rightarrow> pay_lib \<Rightarrow> string \<Rightarrow> json \<Rightarrow> i64 \<Rightarrow> 'c \<Rightarrow> PaymentPayload \<Rightarrow> PaymentChallenge \<Rightarrow> string \<Rightarrow> bool" where
  "payment_for chal lib header input now cs payload ch tx \<longleftrightarrow>
     decode_payment_signature_header lib header = Inr payload \<and>
     (\<exists>memo. extra_memo (req_extra (payload_accepted payload)) = Some memo \<and> fst (op_get_valid chal memo now cs) = Inr ch) \<and>
     validate_payment_payload lib payload (requirements_of ch) ch now (input_digest lib input) = Inr tx"

definition binding_of :: "pay_lib \<Rightarrow> X402ResourceConfig \<Rightarrow> json \<Rightarrow> PaymentChallenge \<Rightarrow> SettlementBinding" where
  "binding_of lib cfg input ch =
     \<lparr>sb_service_id = cfg_service_id cfg, sb_resource_url = cfg_resource_url cfg,
      sb_input_digest = input_digest lib input, sb_challenge_memo = pc_memo ch\<rparr>"

definition request_of :: "PaymentPayload \<Rightarrow> PaymentChallenge \<Rightarrow> FacilitatorRequest" where
  "request_of payload ch =
     \<lparr>freq_x402_version = X402_VERSION, freq_payment_payload = payload,
      freq_payment_requirements = requirements_of ch\<rparr>"

lemma payment_for_unique:
  "payment_for chal lib h input now cs payload ch tx \<Longrightarrow> payment_for chal lib h input now cs payload' ch' tx' \<Longrightarrow>
   payload' = payload \<and> ch' = ch \<and> tx' = tx"
  by (auto simp: payment_for_def)

lemma settle_leased_cases:
  assumes "settle_leased ops fac lib sched req key b lease input ss = (r, ss', calls)"
  obtains (refused) "\<exists>e. r = Inl e" "calls = [VerifyCall req]"
      "ss' = snd (op_fail ops (sched_verified_at sched) key b lease (sched_during_verify sched ss))"
  | (rejected) v where "fac_verify fac req = Inr v" "vr_is_valid v" "\<exists>e. r = Inl e"
      "calls = [VerifyCall req, SettleCall req]"
      "ss' = snd (op_fail ops (sched_settled_at sched) key b lease (sched_during_settle sched (sched_during_verify sched ss)))"
  | (unreported) v s e where "fac_verify fac req = Inr v" "vr_is_valid v" "fac_settle fac req = Inr s" "settle_success s"
      "encode_payment_response_header lib s = Inl e" "r = Inl e" "calls = [VerifyCall req, SettleCall req]"
      "ss' = sched_during_settle sched (sched_during_verify sched ss)"
  | (settled) v s h where "fac_verify fac req = Inr v" "vr_is_valid v" "fac_settle fac req = Inr s" "settle_success s"
      "encode_payment_response_header lib s = Inr h" "calls = [VerifyCall req, SettleCall req]"
      "op_complete ops (sched_settled_at sched) key b lease
         \<lparr>paid_body = demo_result_body lib input, paid_payment_response_header = h\<rparr>
         (sched_during_settle sched (sched_during_verify sched ss)) =
       ((case r of Inl e \<Rightarrow> Inl e | Inr _ \<Rightarrow> Inr ()), ss')"
      "\<And>x. r = Inr x \<Longrightarrow> x = Inr \<lparr>paid_body = demo_result_body lib input, paid_payment_response_header = h\<rparr>"
  using assms unfolding settle_leased_def Let_def
  by (auto split: sum.splits if_splits prod.splits)

text \<open>What follows once the payment has been checked depends on the answer of \<open>begin\<close> only.\<close>

lemma invoke_payment:
  assumes pay: "payment_for chal lib h input now cs payload ch tx"
    and b: "op_begin ops (sched_begin_at sched) (sched_lease sched) (tx_digest lib tx) (binding_of lib cfg input ch) ss = (b, ss1)"
  shows "\<exists>cs1. invoke_paid_demo chal ops cfg fac lib sched (Some h) input now cs ss =
    (case b of
       Inl e \<Rightarrow> (Inl e, cs1, ss1, [])
     | Inr (Cached result) \<Rightarrow> (Inr (Inr result), cs1, ss1, [])
     | Inr (Acquired lease) \<Rightarrow>
         (let (r, ss, calls) = settle_leased ops fac lib sched (request_of payload ch) (tx_digest lib tx)
            (binding_of lib cfg input ch) lease input ss1 in (r, cs1, ss, calls))
     | Inr (RecoveredStale lease) \<Rightarrow>
         (let (r, ss, calls) = settle_leased ops fac lib sched (request_of payload ch) (tx_digest lib tx)
            (binding_of lib cfg input ch) lease input ss1 in (r, cs1, ss, calls)))"
proof -
  obtain memo cs1 where memo: "extra_memo (req_extra (payload_accepted payload)) = Some memo"
    "op_get_valid chal memo now cs = (Inr ch, cs1)"
    using pay by (auto simp: payment_for_def) (metis prod.collapse)
  with pay b show ?thesis
    by (intro exI [of _ cs1])
      (simp add: invoke_paid_demo_def Let_def payment_for_def binding_of_def request_of_def
        split: sum.splits BeginOutcome.splits)
qed

lemma invoke_cases:
  assumes "invoke_paid_demo chal ops cfg fac lib sched header input now cs ss = (r, cs', ss', calls)"
  obtains (asked) "\<nexists>paid. r = Inr (Inr paid)" "calls = []" "ss' = ss"
  | (declined) e h payload ch tx where "header = Some h" "payment_for chal lib h input now cs payload ch tx" "r = Inl e" "calls = []"
      "op_begin ops (sched_begin_at sched) (sched_lease sched) (tx_digest lib tx) (binding_of lib cfg input ch) ss = (Inl e, ss')"
  | (cached) paid h payload ch tx where "header = Some h" "payment_for chal lib h input now cs payload ch tx" "r = Inr (Inr paid)"
      "calls = []" "op_begin ops (sched_begin_at sched) (sched_lease sched) (tx_digest lib tx) (binding_of lib cfg input ch) ss =
        (Inr (Cached paid), ss')"
  | (leased) h payload ch tx out lease ss1 where "header = Some h" "payment_for chal lib h input now cs payload ch tx"
      "op_begin ops (sched_begin_at sched) (sched_lease sched) (tx_digest lib tx) (binding_of lib cfg input ch) ss =
        (Inr out, ss1)" "outcome_lease out = Some lease"
      "settle_leased ops fac lib sched (request_of payload ch) (tx_digest lib tx) (binding_of lib cfg input ch) lease input ss1 =
        (r, ss', calls)"
proof (cases header)
  case None
  then show ?thesis
    using assms asked unfolding invoke_paid_demo_def Let_def
    by (auto split: sum.splits prod.splits)
next
  case (Some h)
  show ?thesis
  proof (cases "\<exists>payload ch tx. payment_for chal lib h input now cs payload ch tx")
    case False
    then show ?thesis
      using assms asked Some unfolding invoke_paid_demo_def Let_def
      by (auto simp: payment_for_def split: sum.splits prod.splits option.splits)
  next
    case True
    then obtain payload ch tx where pay: "payment_for chal lib h input now cs payload ch tx" by blast
    obtain b ss1 where b: "op_begin ops (sched_begin_at sched) (sched_lease sched) (tx_digest lib tx)
        (binding_of lib cfg input ch) ss = (b, ss1)" by fastforce
    obtain cs1 where run: "invoke_paid_demo chal ops cfg fac lib sched header input now cs ss =
        (case b of
           Inl e \<Rightarrow> (Inl e, cs1, ss1, [])
         | Inr (Cached result) \<Rightarrow> (Inr (Inr result), cs1, ss1, [])
         | Inr (Acquired lease) \<Rightarrow>
             (let (r, ss, calls) = settle_leased ops fac lib sched (request_of payload ch) (tx_digest lib tx)
                (binding_of lib cfg input ch) lease input ss1 in (r, cs1, ss, calls))
         | Inr (RecoveredStale lease) \<Rightarrow>
             (let (r, ss, calls) = settle_leased ops fac lib sched (request_of payload ch) (tx_digest lib tx)
                (binding_of lib cfg input ch) lease input ss1 in (r, cs1, ss, calls)))"
      using invoke_payment [OF pay b] unfolding Some by blast
    show ?thesis
    proof (cases b)
      case (Inl e)
      with assms run show ?thesis by (intro declined [OF Some pay]) (auto simp: b)
    next
      case (Inr out)
      with assms run show ?thesis
        by (cases out) (auto simp: b intro: cached [OF Some pay] leased [OF Some pay] split: prod.splits)
    qed
  qed
qed

section \<open>Among other requests\<close>

text \<open>The schedule of a request among others: while it waits, other requests use the store.\<close>

definition schedule_with ::
    "'s settlement_ops \<Rightarrow> bytes option \<Rightarrow> LeaseToken \<Rightarrow> nat \<Rightarrow> (nat \<times> store_op) list \<Rightarrow> nat \<Rightarrow>
       (nat \<times> store_op) list \<Rightarrow> nat \<Rightarrow> 's schedule" where
  "schedule_with ops rng lease t0 ops1 t1 ops2 t2 =
     \<lparr>sched_rng = rng, sched_lease = lease, sched_begin_at = t0, sched_during_verify = run_ops ops ops1,
      sched_verified_at = t1, sched_during_settle = run_ops ops ops2, sched_settled_at = t2\<rparr>"

lemma schedule_with_simps [simp]:
  "sched_rng (schedule_with ops rng lease t0 ops1 t1 ops2 t2) = rng"
  "sched_lease (schedule_with ops rng lease t0 ops1 t1 ops2 t2) = lease"
  "sched_begin_at (schedule_with ops rng lease t0 ops1 t1 ops2 t2) = t0"
  "sched_during_verify (schedule_with ops rng lease t0 ops1 t1 ops2 t2) = run_ops ops ops1"
  "sched_verified_at (schedule_with ops rng lease t0 ops1 t1 ops2 t2) = t1"
  "sched_during_settle (schedule_with ops rng lease t0 ops1 t1 ops2 t2) = run_ops ops ops2"
  "sched_settled_at (schedule_with ops rng lease t0 ops1 t1 ops2 t2) = t2"
  by (simp_all add: schedule_with_def)

lemma invoke_leased:
  assumes "payment_for chal lib h input now cs payload ch tx" "outcome_lease out = Some l"
    and "op_begin ops (sched_begin_at sched) (sched_lease sched) (tx_digest lib tx) (binding_of lib cfg input ch) ss = (Inr out, ss1)"
  shows "fst (invoke_paid_demo chal ops cfg fac lib sched (Some h) input now cs ss) =
    fst (settle_leased ops fac lib sched (request_of payload ch) (tx_digest lib tx) (binding_of lib cfg input ch) l input ss1)"
  using invoke_payment [OF assms(1,3), of fac] assms(2) by (cases out) (auto simp: case_prod_unfold Let_def)

section \<open>Over any stores that keep their contracts\<close>

locale paid_service = leasing_store + challenge_contract
begin

text \<open>A run among other requests.\<close>

abbreviation the_run where
  "the_run cfg fac lib rng lease t0 ops1 t1 ops2 t2 header input now cs ss \<equiv>
     invoke_paid_demo \<lparr>op_issue = issue_op, op_get_valid = get_op\<rparr> the_ops cfg fac lib
       (schedule_with the_ops rng lease t0 ops1 t1 ops2 t2) header input now cs ss"

abbreviation the_payment where
  "the_payment \<equiv> payment_for \<lparr>op_issue = issue_op, op_get_valid = get_op\<rparr>"

lemma payment_challenge:
  "c_ok cs \<Longrightarrow> the_payment lib h input now cs payload ch tx \<Longrightarrow>
   \<exists>memo. known cs memo = Some ch \<and> now \<le>s pc_expires_at ch"
  by (auto simp: payment_for_def found)

lemma paid_run:
  assumes "ok ss" and run: "the_run cfg fac lib rng lease t0 ops1 t1 ops2 t2 header input now cs ss = (Inr (Inr paid), cs', ss', calls)"
  shows "\<exists>h payload ch tx. header = Some h \<and> the_payment lib h input now cs payload ch tx \<and>
    result_of ss' (tx_digest lib tx) = Some (binding_of lib cfg input ch, paid) \<and>
    (calls = [] \<and> result_of ss (tx_digest lib tx) = Some (binding_of lib cfg input ch, paid) \<or>
     (\<exists>s. fac_settle fac (request_of payload ch) = Inr s \<and> settle_success s))"
proof -
  note stored = cached [OF assms(1)]
  from run show ?thesis
  proof (cases rule: invoke_cases)
    case (cached paid' h payload ch tx)
    with stored [of _ _ "tx_digest lib tx" "binding_of lib cfg input ch" paid ss'] show ?thesis by fastforce
  next
    case (leased h payload ch tx out lease' ss1)
    have "ok ss1" using ok_begin [OF assms(1)] leased(3) by (metis settlement_ops.select_convs(1) snd_conv)
    then have ok: "ok (run_ops the_ops ops2 (run_ops the_ops ops1 ss1))" by (intro ok_run)
    from leased(5) show ?thesis
    proof (cases rule: settle_leased_cases)
      case (settled v s p)
      from settled(7) have "result_of ss' (tx_digest lib tx) = Some (binding_of lib cfg input ch, paid)"
        using complete_records [OF ok] settled(8) by simp
      with leased(1,2) settled(3,4) show ?thesis by blast
    qed auto
  qed auto
qed

lemma refused_run:
  assumes "ok ss"
    and run: "the_run cfg fac lib rng lease t0 ops1 t1 ops2 t2 header input now cs ss = (Inl e, cs', ss', calls)"
    and pay: "header = Some h" "the_payment lib h input now cs payload ch tx" "calls \<noteq> []"
    and fine: "\<And>s. fac_settle fac (request_of payload ch) = Inr s \<Longrightarrow> settle_success s \<Longrightarrow>
      \<exists>x. encode_payment_response_header lib s = Inr x \<and>
        fits \<lparr>paid_body = demo_result_body lib input, paid_payment_response_header = x\<rparr>"
  shows "lease_of ss' (tx_digest lib tx) \<noteq> Some (binding_of lib cfg input ch, lease)"
  using run
proof (cases rule: invoke_cases)
  case (leased h' payload' ch' tx' out lease' ss1)
  with pay have same: "payload' = payload" "ch' = ch" "tx' = tx" by (auto dest: payment_for_unique)
  note leased = leased [unfolded same]
  have lease: "lease' = lease"
    using granted [OF assms(1)] leased(3,4) by (metis schedule_with_simps(2) settlement_ops.select_convs(1))
  have "ok ss1" using ok_begin [OF assms(1)] leased(3) by (metis settlement_ops.select_convs(1) snd_conv)
  then have ok1: "ok (run_ops the_ops ops1 ss1)" by (rule ok_run)
  note ok2 = ok_run [OF ok1, of ops2]
  have freed: "lease_of (snd (fail_op t k b l s)) k \<noteq> Some (b, l)" if "ok s" for t k b l s
    using released [OF that] not_released [OF that] by (metis option.distinct(1))
  from leased(5) show ?thesis
  proof (cases rule: settle_leased_cases)
    case (settled v s p)
    note denied = settled(7) [simplified]
    have free: "lease_of (run_ops the_ops ops2 (run_ops the_ops ops1 ss1)) (tx_digest lib tx) \<noteq>
        Some (binding_of lib cfg input ch, lease')"
      using complete_iff [OF ok2] denied fine [OF settled(3,4)] settled(5)
      by (metis Inl_Inr_False fst_conv sum.sel(2))
    with not_completed [OF ok2 disjI1 [OF free]] denied lease show ?thesis by (metis snd_conv)
  qed (use freed ok1 ok2 lease fine in auto)
qed (use pay in auto)

lemma served_run:
  assumes "ok ss" and pay: "the_payment lib h input now cs payload ch tx"
    and "begin_op t0 lease (tx_digest lib tx) (binding_of lib cfg input ch) ss = (Inr out, ss1)"
      "outcome_lease out = Some l"
    and "\<And>t op. (t, op) \<in> set (ops1 @ ops2) \<Longrightarrow> t \<le> t0 + LEASE_TTL \<and> \<not> by_holder (tx_digest lib tx) (binding_of lib cfg input ch) l op"
    and "fac_verify fac (request_of payload ch) = Inr v" "vr_is_valid v"
    and "fac_settle fac (request_of payload ch) = Inr s" "settle_success s"
    and "encode_payment_response_header lib s = Inr header"
      "fits \<lparr>paid_body = demo_result_body lib input, paid_payment_response_header = header\<rparr>"
  shows "fst (the_run cfg fac lib rng lease t0 ops1 t1 ops2 t2 (Some h) input now cs ss) =
    Inr (Inr \<lparr>paid_body = demo_result_body lib input, paid_payment_response_header = header\<rparr>)"
proof -
  have "holds (run_ops the_ops ops2 (run_ops the_ops ops1 ss1)) (tx_digest lib tx) (binding_of lib cfg input ch) l t0"
    by (intro holds_run grants [OF assms(1,3,4)]) (use assms(5) in auto)
  then have "fst (complete_op t2 (tx_digest lib tx) (binding_of lib cfg input ch) l
      \<lparr>paid_body = demo_result_body lib input, paid_payment_response_header = header\<rparr>
      (run_ops the_ops ops2 (run_ops the_ops ops1 ss1))) = Inr ()"
    using holder complete_iff assms(11) by blast
  then obtain ss2 where "complete_op t2 (tx_digest lib tx) (binding_of lib cfg input ch) l
      \<lparr>paid_body = demo_result_body lib input, paid_payment_response_header = header\<rparr>
      (run_ops the_ops ops2 (run_ops the_ops ops1 ss1)) = (Inr (), ss2)"
    by (metis prod.collapse)
  with invoke_leased [OF pay assms(4), where ops = the_ops and ss = ss and ?ss1.0 = ss1 and fac = fac and cfg = cfg
      and sched = "schedule_with the_ops rng lease t0 ops1 t1 ops2 t2"] assms(3,6-10)
  show ?thesis by (simp add: settle_leased_def Let_def)
qed

text \<open>Once a payment is settled, the answer depends on whether the response header can be written and the store takes
  the result.\<close>

lemma settled_run:
  assumes "ok ss" and pay: "the_payment lib h input now cs payload ch tx"
    and "begin_op t0 lease (tx_digest lib tx) (binding_of lib cfg input ch) ss = (Inr out, ss1)"
      "outcome_lease out = Some l"
    and "\<And>t op. (t, op) \<in> set (ops1 @ ops2) \<Longrightarrow> t \<le> t0 + LEASE_TTL \<and> \<not> by_holder (tx_digest lib tx) (binding_of lib cfg input ch) l op"
    and "fac_verify fac (request_of payload ch) = Inr v" "vr_is_valid v"
    and "fac_settle fac (request_of payload ch) = Inr s" "settle_success s"
  shows "\<exists>answer cs' ss'. the_run cfg fac lib rng lease t0 ops1 t1 ops2 t2 (Some h) input now cs ss =
      (answer, cs', ss', [VerifyCall (request_of payload ch), SettleCall (request_of payload ch)]) \<and>
    (case encode_payment_response_header lib s of
       Inl e \<Rightarrow> answer = Inl e
     | Inr header \<Rightarrow>
         (let paid = \<lparr>paid_body = demo_result_body lib input, paid_payment_response_header = header\<rparr>
          in if fits paid then answer = Inr (Inr paid) else \<exists>e. answer = Inl e))"
proof -
  let ?tx = "tx_digest lib tx" and ?b = "binding_of lib cfg input ch" and ?ss2 = "run_ops the_ops ops2 (run_ops the_ops ops1 ss1)"
  let ?sched = "schedule_with the_ops rng lease t0 ops1 t1 ops2 t2" and ?req = "request_of payload ch"
  have "holds ?ss2 ?tx ?b l t0"
    by (intro holds_run grants [OF assms(1,3,4)]) (use assms(5) in auto)
  then have held: "ok ?ss2" "lease_of ?ss2 ?tx = Some (?b, l)" using holder by blast+
  have complete: "fst (complete_op t2 ?tx ?b l r ?ss2) = Inr () \<longleftrightarrow> fits r" for r
    using complete_iff [OF held(1)] held(2) by blast
  have leased: "op_begin the_ops (sched_begin_at ?sched) (sched_lease ?sched) ?tx ?b ss = (Inr out, ss1)"
    using assms(3) by simp
  obtain answer ss' calls where run: "settle_leased the_ops fac lib ?sched ?req ?tx ?b l input ss1 = (answer, ss', calls)"
    by (rule prod_cases3)
  obtain cs' where "the_run cfg fac lib rng lease t0 ops1 t1 ops2 t2 (Some h) input now cs ss = (answer, cs', ss', calls)"
    using invoke_payment [OF pay leased, of fac] assms(4) run by (cases out) auto
  moreover have "calls = [VerifyCall ?req, SettleCall ?req] \<and>
    (case encode_payment_response_header lib s of
       Inl e \<Rightarrow> answer = Inl e
     | Inr header \<Rightarrow>
         (let paid = \<lparr>paid_body = demo_result_body lib input, paid_payment_response_header = header\<rparr>
          in if fits paid then answer = Inr (Inr paid) else \<exists>e. answer = Inl e))"
  proof (cases "encode_payment_response_header lib s")
    case (Inl e)
    with run assms(6-9) show ?thesis by (auto simp: settle_leased_def Let_def)
  next
    case (Inr header)
    with run assms(6-9) complete [of "\<lparr>paid_body = demo_result_body lib input, paid_payment_response_header = header\<rparr>"]
    show ?thesis
      by (cases "complete_op t2 ?tx ?b l \<lparr>paid_body = demo_result_body lib input, paid_payment_response_header = header\<rparr> ?ss2")
        (auto simp: settle_leased_def Let_def split: sum.splits)
  qed
  ultimately show ?thesis by blast
qed

end

section \<open>With the memory stores\<close>

interpretation mem_service: paid_service store_ok "\<lambda>_. True" settlement_begin settlement_complete settlement_fail
  mem_lease mem_result "\<lambda>m tx b l t0. leased tx b l t0 m" store_ok issue get_valid map_of
  by unfold_locales

section \<open>A payment\<close>

definition sample_pay_lib :: pay_lib where
  "sample_pay_lib =
     \<lparr>lib_sha256 = (\<lambda>_. []), lib_base64_decode = (\<lambda>s. Some (byte_string s)), lib_base64_encode = (\<lambda>_. ''reply''),
      lib_payload_from_json = (\<lambda>_. Some
        \<lparr>payload_x402_version = 2,
         payload_resource = \<lparr>res_url = ''u'', res_description = ''d'', res_mime_type = ''application/json''\<rparr>,
         payload_accepted = \<lparr>req_scheme = ''exact'', req_network = ''n'', req_amount = ''1'', req_asset = ''a'',
           req_pay_to = ''p'', req_max_timeout_seconds = 60,
           req_extra = \<lparr>extra_fee_payer = ''f'', extra_memo = Some (replicate 32 (CHR ''m'')),
             extra_recent_blockhash = None, extra_last_valid_block_height = None\<rparr>\<rparr>,
         payload_transaction = ''t'', payload_extensions = []\<rparr>),
      lib_required_to_json = (\<lambda>_. Some []), lib_settle_to_json = (\<lambda>_. Some [])\<rparr>"

definition sample_cfg :: X402ResourceConfig where
  "sample_cfg = \<lparr>cfg_network = ''n'', cfg_asset = ''a'', cfg_pay_to = ''p'', cfg_fee_payer = ''f'', cfg_amount = ''1'',
     cfg_max_timeout_seconds = 60, cfg_resource_url = ''u'', cfg_description = ''d'', cfg_service_id = ''s''\<rparr>"

definition sample_challenge :: PaymentChallenge where
  "sample_challenge = \<lparr>pc_memo = replicate 32 (CHR ''m''), pc_service_id = ''s'', pc_resource_url = ''u'',
     pc_description = ''d'', pc_merchant = ''p'', pc_asset = ''a'', pc_amount = ''1'', pc_network = ''n'',
     pc_fee_payer = ''f'', pc_input_digest = [], pc_issued_at = 100, pc_expires_at = 160,
     pc_max_timeout_seconds = 60\<rparr>"

definition sample_challenges :: challenge_store where
  "sample_challenges = [(pc_memo sample_challenge, sample_challenge)]"

definition sample_payment :: PaymentPayload where
  "sample_payment = the (lib_payload_from_json sample_pay_lib [])"

definition sample_facilitator :: "bool \<Rightarrow> facilitator" where
  "sample_facilitator good =
     \<lparr>fac_verify = (\<lambda>_. Inr \<lparr>vr_is_valid = True, vr_invalid_reason = None, vr_payer = None\<rparr>),
      fac_settle = (\<lambda>_. Inr \<lparr>settle_success = good, settle_error_reason = None, settle_transaction = None,
        settle_network = None, settle_payer = None\<rparr>)\<rparr>"

definition sample_paid :: PaidDemoResult where
  "sample_paid = \<lparr>paid_body = demo_result_body sample_pay_lib ''{}'', paid_payment_response_header = ''reply''\<rparr>"

lemma sample_payment_for:
  "payment_for memory_challenges sample_pay_lib ''h'' ''{}'' 120 sample_challenges sample_payment sample_challenge ''t''"
proof -
  have "decode_payment_signature_header sample_pay_lib ''h'' = Inr sample_payment"
    by code_simp
  moreover have "extra_memo (req_extra (payload_accepted sample_payment)) = Some (replicate 32 (CHR ''m''))"
    by code_simp
  moreover have "fst (get_valid (replicate 32 (CHR ''m'')) 120 sample_challenges) = Inr sample_challenge"
    by code_simp
  moreover have "validate_payment_payload sample_pay_lib sample_payment (requirements_of sample_challenge)
      sample_challenge 120 (input_digest sample_pay_lib ''{}'') = Inr ''t''"
    by code_simp
  ultimately show ?thesis by (simp add: payment_for_def)
qed

section \<open>Properties\<close>

text \<open>
  Nothing is served unpaid. Whenever a request is answered with the paid result, whatever other requests
  did to the store meanwhile: it carried a payment that is valid for a live challenge of this resource and this
  input, the result is recorded in the store under the payment's transaction, and either it had been recorded
  there before for the same binding and nobody was called, or the facilitator has settled this very payment.
\<close>

theorem paid_requests_are_settled:
  assumes "store_ok ss"
    and "invoke_paid_demo memory_challenges memory_ops cfg fac lib (schedule_with memory_ops rng lease t0 ops1 t1 ops2 t2) header input now cs ss =
      (Inr (Inr paid), cs', ss', calls)"
  shows "\<exists>h payload ch tx. header = Some h \<and> payment_for memory_challenges lib h input now cs payload ch tx \<and>
    mem_result ss' (tx_digest lib tx) = Some (binding_of lib cfg input ch, paid) \<and>
    (calls = [] \<and> mem_result ss (tx_digest lib tx) = Some (binding_of lib cfg input ch, paid) \<or>
     (\<exists>s. fac_settle fac (request_of payload ch) = Inr s \<and> settle_success s))"
  by (rule mem_service.paid_run [OF assms])

text \<open>
  A refused payment can be tried again: when a request whose payment was sent to the facilitator ends in an
  error, its lease is not left behind in the store, unless the facilitator settled and its answer was too long
  for a header.
\<close>

theorem refusals_release_the_lease:
  assumes "store_ok ss"
    and "invoke_paid_demo memory_challenges memory_ops cfg fac lib (schedule_with memory_ops rng lease t0 ops1 t1 ops2 t2) (Some h) input now cs ss =
      (Inl e, cs', ss', calls)"
    and "payment_for memory_challenges lib h input now cs payload ch tx" "calls \<noteq> []"
    and "\<forall>s. fac_settle fac (request_of payload ch) = Inr s \<and> settle_success s \<longrightarrow>
      (\<exists>x. encode_payment_response_header lib s = Inr x)"
  shows "mem_lease ss' (tx_digest lib tx) \<noteq> Some (binding_of lib cfg input ch, lease)"
  using mem_service.refused_run [OF assms(1,2) refl assms(3,4)] assms(5) by blast

text \<open>
  A good payment is served. If a request carries a valid payment, gets the lease on its transaction, the
  facilitator verifies and settles it within the thirty seconds of the lease, and nobody else uses this lease,
  then the request is answered with the result, whatever other requests do to the store in between.
\<close>

theorem good_payment_is_served:
  assumes "store_ok ss" "payment_for memory_challenges lib h input now cs payload ch tx"
    and "settlement_begin t0 lease (tx_digest lib tx) (binding_of lib cfg input ch) ss = (Inr out, ss1)"
      "outcome_lease out = Some l"
    and "\<forall>(t, op) \<in> set (ops1 @ ops2). t \<le> t0 + LEASE_TTL \<and> \<not> by_holder (tx_digest lib tx) (binding_of lib cfg input ch) l op"
    and "fac_verify fac (request_of payload ch) = Inr v" "vr_is_valid v"
    and "fac_settle fac (request_of payload ch) = Inr s" "settle_success s"
    and "encode_payment_response_header lib s = Inr header"
  shows "fst (invoke_paid_demo memory_challenges memory_ops cfg fac lib (schedule_with memory_ops rng lease t0 ops1 t1 ops2 t2) (Some h) input now cs ss) =
    Inr (Inr \<lparr>paid_body = demo_result_body lib input, paid_payment_response_header = header\<rparr>)"
  by (rule mem_service.served_run [OF assms(1-4) _ assms(6-10)]) (use assms(5) in auto)

lemma sample_begin:
  "settlement_begin 0 1 (tx_digest sample_pay_lib ''t'') (binding_of sample_pay_lib sample_cfg ''{}'' sample_challenge) [] =
     (Inr (Acquired 1), [([], Settling (binding_of sample_pay_lib sample_cfg ''{}'' sample_challenge) 1 0)])"
  by (simp add: settlement_begin_def evict_def tx_digest_def sample_pay_lib_def)

abbreviation sample_run ::
    "bool \<Rightarrow> (PaymentError + string + PaidDemoResult) \<times> challenge_store \<times> settlement_store \<times> fac_call list" where
  "sample_run good \<equiv>
     invoke_paid_demo memory_challenges memory_ops sample_cfg (sample_facilitator good) sample_pay_lib
       (schedule_with memory_ops None 1 0 [] 1000 [] 2000) (Some ''h'') ''{}'' 120 sample_challenges []"

lemma sample_digest [simp]: "tx_digest sample_pay_lib tx = []"
  by (simp add: tx_digest_def sample_pay_lib_def)

lemma sample_run_outcome:
  "\<exists>cs' ss' calls. sample_run True = (Inr (Inr sample_paid), cs', ss', calls)"
  "\<exists>cs' ss' calls. sample_run False = (Inl SettleRejected, cs', ss', calls) \<and> calls \<noteq> []"
proof -
  note run = invoke_payment [OF sample_payment_for, where ops = memory_ops and ss = "[]" and cfg = sample_cfg
      and sched = "schedule_with memory_ops None 1 0 [] 1000 [] 2000", simplified, OF sample_begin [simplified], simplified]
  have "encode_payment_response_header sample_pay_lib s = Inr ''reply''" for s
    by (simp add: encode_payment_response_header_def encode_b64_json_def sample_pay_lib_def)
  note this [simp] settle_leased_def [simp] sample_facilitator_def [simp] settlement_complete_def [simp] Let_def [simp]
  show "\<exists>cs' ss' calls. sample_run True = (Inr (Inr sample_paid), cs', ss', calls)"
    using run [of "sample_facilitator True"] by (auto simp: sample_paid_def)
  show "\<exists>cs' ss' calls. sample_run False = (Inl SettleRejected, cs', ss', calls) \<and> calls \<noteq> []"
    using run [of "sample_facilitator False"] by auto
qed

theorem paid_requests_are_settled_witness:
  "fst (sample_run True) = Inr (Inr sample_paid) \<and>
   mem_result (fst (snd (snd (sample_run True)))) [] =
     Some (binding_of sample_pay_lib sample_cfg ''{}'' sample_challenge, sample_paid)"
proof -
  obtain cs' ss' calls where run: "sample_run True = (Inr (Inr sample_paid), cs', ss', calls)"
    using sample_run_outcome(1) by blast
  show ?thesis
    using paid_requests_are_settled [OF _ run(1)] payment_for_unique [OF sample_payment_for] run(1)
    by (fastforce simp: store_ok_def sample_digest)
qed

theorem refusals_release_the_lease_witness:
  "\<exists>e. fst (sample_run False) = Inl e \<and>
   mem_lease (fst (snd (snd (sample_run False)))) [] \<noteq> Some (binding_of sample_pay_lib sample_cfg ''{}'' sample_challenge, 1)"
proof -
  obtain cs' ss' calls where run: "sample_run False = (Inl SettleRejected, cs', ss', calls)" "calls \<noteq> []"
    using sample_run_outcome(2) by blast
  show ?thesis
    using refusals_release_the_lease [OF _ run(1) sample_payment_for run(2)] run(1)
    by (auto simp: store_ok_def sample_digest sample_facilitator_def)
qed

theorem good_payment_is_served_witness:
  "fst (sample_run True) = Inr (Inr sample_paid)"
  using good_payment_is_served [OF _ sample_payment_for sample_begin, of 1 "[]" "[]" "sample_facilitator True"]
  by (simp add: store_ok_def sample_facilitator_def encode_payment_response_header_def encode_b64_json_def
      sample_pay_lib_def sample_paid_def)

end
