(* ===== verification/Index_Logs.thy ===== *)
theory Index_Logs
  imports Event_Codec Text_Util "HOL-Library.Sublist"
begin

text \<open>
  Reading protocol events out of a transaction's log, \<open>extract_protocol_events\<close> of
  \<^verbatim>\<open>agentbond-indexer/src/decode.rs\<close>, with the event record and the commitment levels of
  \<^verbatim>\<open>agentbond-db/src/projection.rs\<close>.

  The log of a transaction is text written by the chain's runtime, into which every program that runs can put
  messages and data of its own. The reader keeps a stack of the programs that are running and takes a data
  line for an event only while the program of interest is on top. The second half says what the runtime
  writes for a run (\<open>log_lines\<close>), and compares what is read with what the program has emitted.

  The text of a key and base 64 are library code, the parameter \<open>text_lib\<close>. The stack is kept with
  its top first.
\<close>

section \<open>Data\<close>

datatype Commitment = Processed | Confirmed | Finalized | Dead

record RawProtocolEvent =
  rpe_signature :: string
  rpe_event_index :: u32
  rpe_slot :: u64
  rpe_program_id :: bytes32
  rpe_kind :: byte
  rpe_subject :: bytes32
  rpe_actor :: bytes32
  rpe_amount :: u64
  rpe_event_timestamp :: i64
  rpe_commitment :: Commitment

record text_lib =
  key_text :: "bytes32 \<Rightarrow> string"
  b64_encode :: "bytes \<Rightarrow> string"
  b64_decode :: "string \<Rightarrow> bytes option"

section \<open>Reading a log\<close>

abbreviation (input) MAX_LOG_B64 :: nat where "MAX_LOG_B64 \<equiv> 256"
abbreviation (input) MAX_STACK_DEPTH :: nat where "MAX_STACK_DEPTH \<equiv> 64"

definition parse_invoke_depth :: "string \<Rightarrow> nat option" where
  "parse_invoke_depth after =
     (case find_char (CHR ''['') after of
        None \<Rightarrow> None
      | Some start \<Rightarrow>
          (case find_char (CHR '']'') after of
             None \<Rightarrow> None
           | Some e \<Rightarrow>
               (if e \<le> start + 1 then None
                else parse_unsigned (2 ^ 64) (take (e - (start + 1)) (drop (start + 1) after)))))"

text \<open>What a line does to the stack; \<open>None\<close> when it is not about invocations and the reader goes on to look for
  data in it. The depth of the stack is at most 64, so its successor does not saturate.\<close>

definition stack_step :: "string \<Rightarrow> string list \<Rightarrow> string list option" where
  "stack_step line stack =
     (case strip_prefix line ''Program '' of
        None \<Rightarrow> None
      | Some rest \<Rightarrow>
          (case split_once (CHR '' '') rest of
             None \<Rightarrow> None
           | Some (pid, after) \<Rightarrow>
               (if starts_with after ''invoke''
                then (let push = (if length stack \<ge> MAX_STACK_DEPTH then Some [] else Some (pid # stack))
                      in case parse_invoke_depth after of
                           Some depth \<Rightarrow> (if depth \<noteq> length stack + 1 then Some [] else push)
                         | None \<Rightarrow> push)
                else if starts_with after ''success'' \<or> starts_with after ''failed''
                then (case stack of
                        active # below \<Rightarrow> (if active = pid then Some below else Some [])
                      | [] \<Rightarrow> Some [])
                else None)))"

definition data_step :: "text_lib \<Rightarrow> bytes32 \<Rightarrow> string \<Rightarrow> string list \<Rightarrow> ProtocolEvent option" where
  "data_step lib program line stack =
     (case strip_prefix line ''Program data: '' of
        None \<Rightarrow> None
      | Some data \<Rightarrow>
          (case stack of
             [] \<Rightarrow> None
           | active # _ \<Rightarrow>
               (if active \<noteq> key_text lib program then None
                else let trimmed = trim data
                     in if length trimmed > MAX_LOG_B64 * 2 then None
                        else case b64_decode lib trimmed of
                               None \<Rightarrow> None
                             | Some bytes \<Rightarrow>
                                 (if length bytes \<noteq> EVENT_ENCODED_LEN then None
                                  else case event_decode bytes of Inl _ \<Rightarrow> None | Inr event \<Rightarrow> Some event))))"

definition raw_event ::
    "bytes32 \<Rightarrow> string \<Rightarrow> u64 \<Rightarrow> Commitment \<Rightarrow> u32 \<Rightarrow> ProtocolEvent \<Rightarrow> RawProtocolEvent" where
  "raw_event program signature slot commitment event_index event =
     \<lparr>rpe_signature = signature, rpe_event_index = event_index, rpe_slot = slot, rpe_program_id = program,
      rpe_kind = event_kind_as_u8 (event_kind event), rpe_subject = event_subject event,
      rpe_actor = event_actor event, rpe_amount = event_amount event,
      rpe_event_timestamp = event_timestamp event, rpe_commitment = commitment\<rparr>"

fun extract_loop ::
    "text_lib \<Rightarrow> bytes32 \<Rightarrow> string \<Rightarrow> u64 \<Rightarrow> Commitment \<Rightarrow> string list \<Rightarrow> u32 \<Rightarrow> string list \<Rightarrow> RawProtocolEvent list" where
  "extract_loop lib program signature slot commitment stack event_index [] = []"
| "extract_loop lib program signature slot commitment stack event_index (line # lines) =
     (case stack_step line stack of
        Some stack' \<Rightarrow> extract_loop lib program signature slot commitment stack' event_index lines
      | None \<Rightarrow>
          (case data_step lib program line stack of
             None \<Rightarrow> extract_loop lib program signature slot commitment stack event_index lines
           | Some event \<Rightarrow>
               raw_event program signature slot commitment event_index event #
               extract_loop lib program signature slot commitment stack
                 (if event_index = - 1 then event_index else event_index + 1) lines))"

text \<open>The code wraps its result in \<open>Ok\<close>; it has no error of its own.\<close>

definition extract_protocol_events ::
    "text_lib \<Rightarrow> bytes32 \<Rightarrow> string \<Rightarrow> u64 \<Rightarrow> string list \<Rightarrow> Commitment \<Rightarrow> RawProtocolEvent list" where
  "extract_protocol_events lib program signature slot logs commitment =
     extract_loop lib program signature slot commitment [] 0 logs"

section \<open>What the runtime writes\<close>

text \<open>What happens in a transaction, as far as the log shows it: a program starts, ends, logs a message, emits data
  (one or more byte strings) or returns data, the runtime reports the units it has consumed or remarks something else.\<close>

datatype run_item =
    Start bytes32
  | Succeed
  | Fail string
  | Message string
  | Emit "bytes list"
  | ReturnData string
  | Consumed string
  | Remark string

fun join_words :: "string list \<Rightarrow> string" where
  "join_words [] = []"
| "join_words [w] = w"
| "join_words (w # ws) = w @ CHR '' '' # join_words ws"

text \<open>The line written for an item while the programs \<open>running\<close> (innermost first) are running. The item may
  only occur where the runtime can produce it: something must be running, except for a start or a remark. The runtime limits nesting to
  less than ten; what matters here is that it stays within 64.\<close>

fun log_line :: "text_lib \<Rightarrow> bytes32 list \<Rightarrow> run_item \<Rightarrow> string option" where
  "log_line lib running (Start p) =
     (if length running < 64
      then Some (''Program '' @ key_text lib p @ '' invoke ['' @ decimal (length running + 1) @ '']'') else None)"
| "log_line lib (p # running) Succeed = Some (''Program '' @ key_text lib p @ '' success'')"
| "log_line lib (p # running) (Fail e) = Some (''Program '' @ key_text lib p @ '' failed: '' @ e)"
| "log_line lib (p # running) (Message m) = Some (''Program log: '' @ m)"
| "log_line lib (p # running) (Emit ds) = Some (''Program data: '' @ join_words (map (b64_encode lib) ds))"
| "log_line lib (p # running) (ReturnData d) = Some (''Program return: '' @ d)"
| "log_line lib (p # running) (Consumed t) = Some (''Program '' @ key_text lib p @ '' consumed '' @ t)"
| "log_line lib running (Remark t) = (if starts_with t ''Program '' then None else Some t)"
| "log_line lib [] _ = None"

fun running_after :: "bytes32 list \<Rightarrow> run_item \<Rightarrow> bytes32 list" where
  "running_after running (Start p) = p # running"
| "running_after running Succeed = tl running"
| "running_after running (Fail _) = tl running"
| "running_after running _ = running"

fun log_lines :: "text_lib \<Rightarrow> bytes32 list \<Rightarrow> run_item list \<Rightarrow> string list option" where
  "log_lines lib running [] = Some []"
| "log_lines lib running (i # items) =
     (case log_line lib running i of
        None \<Rightarrow> None
      | Some line \<Rightarrow>
          (case log_lines lib (running_after running i) items of None \<Rightarrow> None | Some lines \<Rightarrow> Some (line # lines)))"

text \<open>The events a program emits in a run: what its own frames emit as a single byte string (next to empty ones) that
  decodes.\<close>

definition single_event :: "bytes list \<Rightarrow> ProtocolEvent option" where
  "single_event ds =
     (case filter (\<lambda>d. d \<noteq> []) ds of
        [d] \<Rightarrow> (case event_decode d of Inr e \<Rightarrow> Some e | Inl _ \<Rightarrow> None)
      | _ \<Rightarrow> None)"

fun item_event :: "bytes32 \<Rightarrow> bytes32 list \<Rightarrow> run_item \<Rightarrow> ProtocolEvent option" where
  "item_event program (p # running) (Emit ds) = (if p = program then single_event ds else None)"
| "item_event program running i = None"

fun emitted_events :: "bytes32 \<Rightarrow> bytes32 list \<Rightarrow> run_item list \<Rightarrow> ProtocolEvent list" where
  "emitted_events program running [] = []"
| "emitted_events program running (i # items) =
     (case item_event program running i of None \<Rightarrow> [] | Some e \<Rightarrow> [e]) @
     emitted_events program (running_after running i) items"

text \<open>What the libraries document: keys are written without blanks and colons and can be told apart; base 64 text is ASCII without white space, decodes to what
  was encoded, is a third longer, and starts with the letter of the first six bits; text with a blank inside does not decode.\<close>

definition text_lib_law :: "text_lib \<Rightarrow> bool" where
  "text_lib_law lib \<longleftrightarrow>
     (\<forall>p. CHR '' '' \<notin> set (key_text lib p) \<and> CHR '':'' \<notin> set (key_text lib p)) \<and> inj (key_text lib) \<and>
     (\<forall>d. b64_decode lib (b64_encode lib d) = Some d \<and> (\<forall>c\<in>set (b64_encode lib d). \<not> is_space c \<and> (of_char c :: nat) < 128) \<and>
       length (b64_encode lib d) = 4 * ((length d + 2) div 3)) \<and>
     (\<forall>b d. b < 4 \<longrightarrow> hd (b64_encode lib (b # d)) = CHR ''A'') \<and>
     (\<forall>s. CHR '' '' \<in> set s \<longrightarrow> b64_decode lib s = None)"

section \<open>Words and blanks\<close>

lemma join_words_Cons: "ws \<noteq> [] \<Longrightarrow> join_words (w # ws) = w @ CHR '' '' # join_words ws"
  by (cases ws) simp_all

lemma join_words_snoc: "ws \<noteq> [] \<Longrightarrow> join_words (ws @ [w]) = join_words ws @ CHR '' '' # w"
proof (induction ws)
  case (Cons x ws)
  then show ?case by (cases "ws = []") (simp_all add: join_words_Cons)
qed simp

lemma rev_join_words: "rev (join_words ws) = join_words (rev (map rev ws))"
proof (induction ws)
  case (Cons w ws)
  then show ?case by (cases "ws = []") (simp_all add: join_words_Cons join_words_snoc)
qed simp

definition solid :: "string list \<Rightarrow> bool" where
  "solid ws \<longleftrightarrow> (\<forall>w\<in>set ws. \<forall>c\<in>set w. \<not> is_space c \<and> (of_char c :: nat) < 128)"

lemma blank_is_space [simp]: "is_space (CHR '' '')"
  by (simp add: is_space_def)

lemma drop_blanks: "solid ws \<Longrightarrow> dropWhile is_space (join_words ws) = join_words (dropWhile (\<lambda>w. w = []) ws)"
proof (induction ws)
  case (Cons w ws)
  show ?case
  proof (cases w)
    case Nil
    with Cons show ?thesis by (cases "ws = []") (simp_all add: join_words_Cons solid_def)
  next
    case (Cons c w')
    with Cons.prems show ?thesis by (cases ws) (simp_all add: solid_def)
  qed
qed simp

definition trim_words :: "string list \<Rightarrow> string list" where
  "trim_words ws = rev (dropWhile (\<lambda>w. w = []) (rev (dropWhile (\<lambda>w. w = []) ws)))"

lemma rev_dropWhile_rev_map: "dropWhile (\<lambda>w. w = []) (rev (map rev ws)) = map rev (dropWhile (\<lambda>w. w = []) (rev ws))"
  by (simp add: rev_map dropWhile_map comp_def)

lemma join_words_set: "set (join_words ws) \<subseteq> insert (CHR '' '') (\<Union> (set ` set ws))"
proof (induction ws)
  case (Cons w ws)
  then show ?case by (cases "ws = []") (auto simp: join_words_Cons)
qed simp

lemma trim_join_words: "solid ws \<Longrightarrow> trim (join_words ws) = join_words (trim_words ws)"
proof -
  assume ws: "solid ws"
  let ?vs = "dropWhile (\<lambda>w. w = []) ws"
  have ascii: "\<forall>c\<in>set (join_words ws). (of_char c :: nat) < 128" using join_words_set [of ws] ws by (fastforce simp: solid_def)
  have "solid (rev (map rev ?vs))" using ws by (auto simp: solid_def dest: set_dropWhileD)
  from drop_blanks [OF this] have "rev (dropWhile is_space (rev (join_words ?vs))) = join_words (trim_words ws)"
    by (simp add: rev_join_words rev_dropWhile_rev_map trim_words_def)
  with drop_blanks [OF ws] show ?thesis by (simp add: trim_ascii [OF ascii])
qed

lemma filter_dropWhile: "filter (\<lambda>w. w \<noteq> []) (dropWhile (\<lambda>w. w = []) ws) = filter (\<lambda>w. w \<noteq> []) ws"
  by (induction ws) auto

lemma filter_trim_words: "filter (\<lambda>w. w \<noteq> []) (trim_words ws) = filter (\<lambda>w. w \<noteq> []) ws"
  by (simp add: trim_words_def rev_filter [symmetric] filter_dropWhile)

lemma trim_words_none: "filter (\<lambda>w. w \<noteq> []) ws = [] \<Longrightarrow> trim_words ws = []"
  by (auto simp: trim_words_def filter_empty_conv dest: set_dropWhileD)

lemma dropWhile_blank_then: "dropWhile (\<lambda>w. w = []) (replicate n [] @ w # ws) = dropWhile (\<lambda>w. w = []) (w # ws)"
  by (induction n) simp_all

lemma all_blank: "\<forall>w\<in>set ws. w = [] \<Longrightarrow> ws = replicate (length ws) []"
  by (induction ws) simp_all

lemma trim_words_one: "filter (\<lambda>w. w \<noteq> []) ws = [d] \<Longrightarrow> trim_words ws = [d]"
proof -
  assume "filter (\<lambda>w. w \<noteq> []) ws = [d]"
  then obtain us vs where ws: "ws = us @ d # vs" "\<forall>u\<in>set us. u = []" "d \<noteq> []" "filter (\<lambda>w. w \<noteq> []) vs = []"
    by (auto simp: filter_eq_Cons_iff)
  from ws(4) have "\<forall>v\<in>set vs. v = []" by (simp add: filter_empty_conv)
  then obtain m where vs: "vs = replicate m []" using all_blank by blast
  obtain n where us: "us = replicate n []" using all_blank [OF ws(2)] by blast
  show ?thesis
    using ws(3) dropWhile_blank_then [of m d "[]"]
    by (simp add: ws(1) us vs trim_words_def dropWhile_blank_then)
qed

lemma trim_words_many: "filter (\<lambda>w. w \<noteq> []) ws = d # e # ds \<Longrightarrow> CHR '' '' \<in> set (join_words (trim_words ws))"
proof -
  assume "filter (\<lambda>w. w \<noteq> []) ws = d # e # ds"
  then have "filter (\<lambda>w. w \<noteq> []) (trim_words ws) = d # e # ds" by (simp add: filter_trim_words)
  then obtain w w' ws' where "trim_words ws = w # w' # ws'"
    by (cases "trim_words ws"; cases "tl (trim_words ws)") (auto split: if_splits)
  then show ?thesis by simp
qed

section \<open>What the reader makes of each line\<close>

text \<open>The texts that steer the reader.\<close>

definition control :: "string \<Rightarrow> bool" where
  "control t \<longleftrightarrow> starts_with t ''invoke'' \<or> starts_with t ''success'' \<or> starts_with t ''failed''"

definition word_step :: "string \<Rightarrow> string \<Rightarrow> string list \<Rightarrow> string list option" where
  "word_step k after stack = stack_step (''Program '' @ k @ CHR '' '' # after) stack"

lemma word_step_simp:
  assumes "CHR '' '' \<notin> set k"
  shows "word_step k after stack =
    (if starts_with after ''invoke''
     then (let push = (if length stack \<ge> MAX_STACK_DEPTH then Some [] else Some (k # stack))
           in case parse_invoke_depth after of
                Some depth \<Rightarrow> (if depth \<noteq> length stack + 1 then Some [] else push)
              | None \<Rightarrow> push)
     else if starts_with after ''success'' \<or> starts_with after ''failed''
     then (case stack of active # below \<Rightarrow> (if active = k then Some below else Some []) | [] \<Rightarrow> Some [])
     else None)"
  using split_once_append [OF assms, of after] unfolding word_step_def stack_step_def strip_prefix_append by simp

lemma word_step_quiet: "CHR '' '' \<notin> set k \<Longrightarrow> \<not> control after \<Longrightarrow> word_step k after stack = None"
  by (simp add: word_step_simp control_def)

lemma word_step_cases:
  assumes "CHR '' '' \<notin> set k" "word_step k after stack = Some stack'"
  shows "stack' = [] \<or> stack' = k # stack \<or> stack = k # stack'"
  using assms by (auto simp: word_step_simp Let_def split: if_splits option.splits list.splits)

lemma parse_depth_decimal: "n < 2 ^ 64 \<Longrightarrow> parse_invoke_depth (''invoke ['' @ decimal n @ '']'') = Some n"
proof -
  assume n: "n < 2 ^ 64"
  have no: "CHR '']'' \<notin> set (''invoke ['' @ decimal n)" using decimal_digits [of n] by auto
  have close: "find_char (CHR '']'') (''invoke ['' @ decimal n @ '']'') = Some (8 + length (decimal n))"
    using find_char_append [OF no, of "[]"] by simp
  have "find_char (CHR ''['') (''invoke ['' @ decimal n @ '']'') = Some 7" by simp
  moreover have "drop 8 (''invoke ['' @ decimal n @ '']'') = decimal n @ '']''" by simp
  moreover have "0 < length (decimal n)" by simp
  ultimately show ?thesis
    using parse_unsigned_decimal [OF n] by (simp only: parse_invoke_depth_def close) simp
qed

text \<open>An entry of the stack that no start of a program has made.\<close>

definition pseudo :: "string list \<Rightarrow> bool" where
  "pseudo xs \<longleftrightarrow> set xs \<subseteq> {''log:'', ''data:'', ''return:''}"

lemma pseudo_simps [simp]:
  "pseudo []" "pseudo (x # xs) \<longleftrightarrow> x \<in> {''log:'', ''data:'', ''return:''} \<and> pseudo xs"
  by (auto simp: pseudo_def)

lemma key_no_blank: "text_lib_law lib \<Longrightarrow> CHR '' '' \<notin> set (key_text lib p)"
  by (simp add: text_lib_law_def)

lemma key_no_colon: "text_lib_law lib \<Longrightarrow> CHR '':'' \<notin> set (key_text lib p)"
  by (simp add: text_lib_law_def)

lemma key_inj: "text_lib_law lib \<Longrightarrow> key_text lib p = key_text lib q \<longleftrightarrow> p = q"
  by (auto simp: text_lib_law_def inj_def)

lemma key_not_pseudo: "text_lib_law lib \<Longrightarrow> key_text lib p \<notin> {''log:'', ''data:'', ''return:''}"
  using key_no_colon [of lib p] by auto

lemma start_line:
  assumes "text_lib_law lib" "log_line lib running (Start p) = Some line"
  shows "length running < 64" and "stack_step line stack =
    (if length stack = length running then Some (key_text lib p # stack) else Some [])"
proof -
  show less: "length running < 64" using assms(2) by (simp split: if_splits)
  have "line = ''Program '' @ key_text lib p @ CHR '' '' # (''invoke ['' @ decimal (length running + 1) @ '']'')"
    using assms(2) less by simp
  moreover have "starts_with (''invoke ['' @ t) ''invoke''" for t by (simp add: starts_with_def)
  ultimately show "stack_step line stack =
      (if length stack = length running then Some (key_text lib p # stack) else Some [])"
    using word_step_simp [OF key_no_blank [OF assms(1)], of p "''invoke ['' @ decimal (length running + 1) @ '']''" stack]
      parse_depth_decimal [of "length running + 1"] less
    by (simp add: word_step_def Let_def)
qed

lemma end_line:
  assumes "text_lib_law lib" "log_line lib running i = Some line" "i = Succeed \<or> i = Fail e"
  obtains p where "running = p # tl running"
    "stack_step line stack = Some (case stack of a # below \<Rightarrow> if a = key_text lib p then below else [] | [] \<Rightarrow> [])"
proof -
  obtain p rest where p: "running = p # rest" using assms(2,3) by (cases running) auto
  obtain t where line: "line = ''Program '' @ key_text lib p @ CHR '' '' # t"
    and t: "starts_with t ''success'' \<or> starts_with t ''failed''" "\<not> starts_with t ''invoke''"
    using assms(2,3) p by (auto simp: starts_with_def)
  show ?thesis
  proof (rule that [of p])
    show "stack_step line stack = Some (case stack of a # below \<Rightarrow> if a = key_text lib p then below else [] | [] \<Rightarrow> [])"
      using word_step_simp [OF key_no_blank [OF assms(1)], of p t stack] t
      by (simp add: word_step_def line split: list.splits)
  qed (simp add: p)
qed

text \<open>The other lines: a program can steer the reader by what it logs, but only to an entry that is no key.\<close>

fun steady :: "run_item \<Rightarrow> bool" where
  "steady (Start _) = False"
| "steady Succeed = False"
| "steady (Fail _) = False"
| "steady _ = True"

fun quiet :: "text_lib \<Rightarrow> run_item \<Rightarrow> bool" where
  "quiet lib (Message m) = (\<not> control m)"
| "quiet lib (ReturnData d) = (\<not> control d)"
| "quiet lib (Emit ds) = (\<not> control (join_words (map (b64_encode lib) ds)))"
| "quiet lib _ = True"

lemma spoken_line:
  assumes "k \<in> {''log:'', ''data:'', ''return:''}"
  shows "stack_step (''Program '' @ k @ CHR '' '' # t) stack = Some stack' \<Longrightarrow>
      stack' = [] \<or> stack' = k # stack \<or> stack = k # stack'"
    and "\<not> control t \<Longrightarrow> stack_step (''Program '' @ k @ CHR '' '' # t) stack = None"
proof -
  have k: "CHR '' '' \<notin> set k" using assms by auto
  show "stack_step (''Program '' @ k @ CHR '' '' # t) stack = Some stack' \<Longrightarrow>
      stack' = [] \<or> stack' = k # stack \<or> stack = k # stack'"
    using word_step_cases [OF k, of t stack stack'] by (simp add: word_step_def)
  show "\<not> control t \<Longrightarrow> stack_step (''Program '' @ k @ CHR '' '' # t) stack = None"
    using word_step_quiet [OF k, of t stack] by (simp add: word_step_def)
qed

lemma consumed_line:
  assumes "text_lib_law lib"
  shows "stack_step (''Program '' @ key_text lib p @ '' consumed '' @ t) stack = None"
    and "strip_prefix (''Program '' @ key_text lib p @ '' consumed '' @ t) ''Program data: '' = None"
proof -
  show "stack_step (''Program '' @ key_text lib p @ '' consumed '' @ t) stack = None"
    using word_step_quiet [OF key_no_blank [OF assms], of "''consumed '' @ t" p stack]
    by (simp add: word_step_def control_def starts_with_def)
  have clash: False if "''Program '' @ key_text lib p @ '' consumed '' @ t = ''Program data: '' @ u" for u
  proof -
    have "key_text lib p @ CHR '' '' # (''consumed '' @ t) = ''data:'' @ CHR '' '' # u"
      using that by simp
    then have "split_once (CHR '' '') (key_text lib p @ CHR '' '' # (''consumed '' @ t)) =
        split_once (CHR '' '') (''data:'' @ CHR '' '' # u)" by (rule arg_cong)
    then have "key_text lib p = ''data:''"
      by (simp only: split_once_append [OF key_no_blank [OF assms]]) simp
    then show False using key_not_pseudo [OF assms, of p] by simp
  qed
  show "strip_prefix (''Program '' @ key_text lib p @ '' consumed '' @ t) ''Program data: '' = None"
    by (rule strip_prefix_None, rule notI, rule clash)
qed

lemma steady_line:
  assumes law: "text_lib_law lib" and line: "log_line lib running i = Some line" and i: "steady i"
  shows "stack_step line stack = Some stack' \<Longrightarrow>
      \<exists>k\<in>{''log:'', ''data:'', ''return:''}. stack' = [] \<or> stack' = k # stack \<or> stack = k # stack'"
    and "quiet lib i \<Longrightarrow> stack_step line stack = None"
proof -
  consider (spoken) k t where "k \<in> {''log:'', ''data:'', ''return:''}" "line = ''Program '' @ k @ CHR '' '' # t"
      "quiet lib i \<Longrightarrow> \<not> control t"
    | (units) p t where "line = ''Program '' @ key_text lib p @ '' consumed '' @ t"
    | (remark) "\<not> starts_with line ''Program ''"
  proof (cases "\<exists>t. i = Remark t")
    case True
    with line remark show ?thesis by (auto split: if_splits)
  next
    case False
    then obtain p rest where "running = p # rest" using line i by (cases running; cases i) auto
    with line i False show ?thesis
    proof (cases i)
      case (Message m)
      with line \<open>running = p # rest\<close> show ?thesis by (intro spoken [of "''log:''" m]) auto
    next
      case (Emit ds)
      with line \<open>running = p # rest\<close> show ?thesis
        by (intro spoken [of "''data:''" "join_words (map (b64_encode lib) ds)"]) auto
    next
      case (ReturnData d)
      with line \<open>running = p # rest\<close> show ?thesis by (intro spoken [of "''return:''" d]) auto
    next
      case (Consumed t)
      with line \<open>running = p # rest\<close> show ?thesis by (intro units [of p t]) auto
    qed auto
  qed
  then have "(stack_step line stack = Some stack' \<longrightarrow>
      (\<exists>k\<in>{''log:'', ''data:'', ''return:''}. stack' = [] \<or> stack' = k # stack \<or> stack = k # stack')) \<and>
      (quiet lib i \<longrightarrow> stack_step line stack = None)"
  proof cases
    case spoken
    note step = spoken_line(1) [OF spoken(1), of t stack stack', folded spoken(2)]
      spoken_line(2) [OF spoken(1), of t stack, folded spoken(2)]
    show ?thesis using step(1) step(2) [OF spoken(3)] spoken(1) by (intro conjI impI bexI [of _ k])
  next
    case units
    then show ?thesis using consumed_line(1) [OF law] by simp
  next
    case remark
    then show ?thesis by (simp add: stack_step_def strip_prefix_def)
  qed
  then show "stack_step line stack = Some stack' \<Longrightarrow>
      \<exists>k\<in>{''log:'', ''data:'', ''return:''}. stack' = [] \<or> stack' = k # stack \<or> stack = k # stack'"
    and "quiet lib i \<Longrightarrow> stack_step line stack = None" by blast+
qed

text \<open>Data: a line is read as an event exactly when it carries one and the reader takes the program to be on top.\<close>

lemma encoded_words:
  assumes "text_lib_law lib"
  shows "solid (map (b64_encode lib) ds)"
    and "filter (\<lambda>w. w \<noteq> []) (map (b64_encode lib) ds) = map (b64_encode lib) (filter (\<lambda>d. d \<noteq> []) ds)"
proof -
  have "b64_encode lib d = [] \<longleftrightarrow> d = []" for d
  proof -
    have "length (b64_encode lib d) = 4 * ((length d + 2) div 3)" using assms by (simp add: text_lib_law_def)
    then show ?thesis by (cases d) (auto simp flip: length_0_conv)
  qed
  then show "filter (\<lambda>w. w \<noteq> []) (map (b64_encode lib) ds) = map (b64_encode lib) (filter (\<lambda>d. d \<noteq> []) ds)"
    by (simp add: filter_map comp_def)
qed (use assms in \<open>auto simp: solid_def text_lib_law_def\<close>)

lemma emitted_line:
  assumes law: "text_lib_law lib"
  shows "data_step lib program (''Program data: '' @ join_words (map (b64_encode lib) ds)) stack =
    (case stack of [] \<Rightarrow> None | active # _ \<Rightarrow> if active = key_text lib program then single_event ds else None)"
proof -
  let ?ws = "map (b64_encode lib) ds"
  have trimmed: "trim (join_words ?ws) = join_words (trim_words ?ws)"
    using trim_join_words encoded_words(1) [OF law] by blast
  have read: "(if length (trim (join_words ?ws)) > MAX_LOG_B64 * 2 then None
      else case b64_decode lib (trim (join_words ?ws)) of
             None \<Rightarrow> None
           | Some bytes \<Rightarrow>
               (if length bytes \<noteq> EVENT_ENCODED_LEN then None
                else case event_decode bytes of Inl _ \<Rightarrow> None | Inr event \<Rightarrow> Some event)) = single_event ds"
  proof (cases "filter (\<lambda>d. d \<noteq> []) ds")
    case Nil
    have "b64_encode lib [] = []" "b64_decode lib (b64_encode lib []) = Some []"
      using law by (simp_all add: text_lib_law_def flip: length_0_conv)
    with Nil show ?thesis
      using trim_words_none [of ?ws] by (simp add: trimmed encoded_words(2) [OF law] single_event_def)
  next
    case (Cons d ds')
    show ?thesis
    proof (cases ds')
      case Nil
      have "trim (join_words ?ws) = b64_encode lib d"
        using trim_words_one [of ?ws "b64_encode lib d"] Cons Nil
        by (simp add: trimmed encoded_words(2) [OF law])
      moreover have "b64_decode lib (b64_encode lib d) = Some d" "length (b64_encode lib d) = 4 * ((length d + 2) div 3)"
        using law by (simp_all add: text_lib_law_def)
      moreover have "event_decode d = Inl InvalidAccountLength" if "length d \<noteq> EVENT_ENCODED_LEN"
        using that by (simp add: event_decode_def)
      ultimately show ?thesis
        using Cons Nil by (cases "length d = EVENT_ENCODED_LEN") (simp_all add: single_event_def split: sum.splits)
    next
      case (Cons e ds'')
      have "CHR '' '' \<in> set (trim (join_words ?ws))"
        using trim_words_many [of ?ws "b64_encode lib d" "b64_encode lib e"] \<open>filter (\<lambda>d. d \<noteq> []) ds = d # ds'\<close> Cons
        by (simp add: trimmed encoded_words(2) [OF law])
      then have "b64_decode lib (trim (join_words ?ws)) = None" using law by (simp add: text_lib_law_def)
      then show ?thesis using \<open>filter (\<lambda>d. d \<noteq> []) ds = d # ds'\<close> Cons by (simp add: single_event_def)
    qed
  qed
  show ?thesis
    unfolding data_step_def strip_prefix_append option.case Let_def read
    by (simp split: list.splits)
qed

lemma steady_data:
  assumes law: "text_lib_law lib" and line: "log_line lib running i = Some line" and i: "steady i"
  shows "data_step lib program line stack =
    (case (i, stack) of
       (Emit ds, active # _) \<Rightarrow> if active = key_text lib program then single_event ds else None
     | _ \<Rightarrow> None)"
proof -
  have other: "data_step lib program line stack = None" if "\<And>u. line \<noteq> ''Program data: '' @ u"
    using strip_prefix_None [OF that] by (simp add: data_step_def)
  show ?thesis
  proof (cases i)
    case (Emit ds)
    with line have "line = ''Program data: '' @ join_words (map (b64_encode lib) ds)" by (cases running) auto
    then show ?thesis using emitted_line [OF law, of program ds stack] Emit by (simp split: list.splits)
  next
    case (Message m)
    with line have form: "line = ''Program log: '' @ m" by (cases running) auto
    have "data_step lib program line stack = None" by (rule other) (simp add: form)
    with Message show ?thesis by simp
  next
    case (ReturnData d)
    with line have form: "line = ''Program return: '' @ d" by (cases running) auto
    have "data_step lib program line stack = None" by (rule other) (simp add: form)
    with ReturnData show ?thesis by simp
  next
    case (Consumed t)
    with line obtain p where "line = ''Program '' @ key_text lib p @ '' consumed '' @ t" by (cases running) auto
    with consumed_line(2) [OF law] Consumed show ?thesis by (simp add: data_step_def)
  next
    case (Remark t)
    with line have "\<not> starts_with line ''Program ''" by (cases running) (auto split: if_splits)
    then have "line \<noteq> ''Program data: '' @ u" for u by (auto simp: starts_with_def)
    then have "data_step lib program line stack = None" by (rule other)
    with Remark show ?thesis by simp
  qed (use i in simp_all)
qed

section \<open>The reader's stack and the runtime's\<close>

text \<open>Whatever programs log, the reader's stack is the inner part of the runtime's, between entries that are no keys; and what lies below
  the inner part is as deep as what the runtime has below it.\<close>

definition synced :: "text_lib \<Rightarrow> bytes32 list \<Rightarrow> string list \<Rightarrow> bool" where
  "synced lib running stack \<longleftrightarrow>
     (\<exists>bs ps as. stack = bs @ map (key_text lib) ps @ as \<and> pseudo bs \<and> pseudo as \<and>
       (ps = [] \<or> (\<exists>qs. running = ps @ qs \<and> length as = length qs)))"

lemma synced_Nil [simp]: "synced lib running []"
  by (auto simp: synced_def intro: exI [of _ "[]"])

lemma synced_pseudo_push: "synced lib running stack \<Longrightarrow> k \<in> {''log:'', ''data:'', ''return:''} \<Longrightarrow> synced lib running (k # stack)"
  unfolding synced_def by (metis append_Cons pseudo_simps(2))

lemma pseudo_not_key: "text_lib_law lib \<Longrightarrow> pseudo xs \<Longrightarrow> key_text lib p \<notin> set xs"
  using key_not_pseudo [of lib p] by (auto simp: pseudo_def)

text \<open>When the reader's top is a key, nothing lies above the inner part.\<close>

lemma synced_top:
  assumes law: "text_lib_law lib" and sync: "synced lib running (key_text lib p # stack)"
  obtains ps as qs where "running = p # ps @ qs" "stack = map (key_text lib) ps @ as" "pseudo as" "length as = length qs"
proof -
  obtain bs ps as where s: "key_text lib p # stack = bs @ map (key_text lib) ps @ as" "pseudo bs" "pseudo as"
    "ps = [] \<or> (\<exists>qs. running = ps @ qs \<and> length as = length qs)"
    using sync by (auto simp: synced_def)
  have "bs = []" using s(1,2) pseudo_not_key [OF law s(2), of p] by (cases bs) auto
  moreover have "ps \<noteq> []" using s(1) \<open>bs = []\<close> pseudo_not_key [OF law s(3), of p] by auto
  ultimately show ?thesis using s that by (cases ps) (auto simp: key_inj [OF law])
qed

lemma synced_pseudo_pop:
  assumes law: "text_lib_law lib" and sync: "synced lib running (k # stack)" and k: "k \<in> {''log:'', ''data:'', ''return:''}"
  shows "synced lib running stack"
proof -
  obtain bs ps as where s: "k # stack = bs @ map (key_text lib) ps @ as" "pseudo bs" "pseudo as"
    "ps = [] \<or> (\<exists>qs. running = ps @ qs \<and> length as = length qs)"
    using sync by (auto simp: synced_def)
  show ?thesis
  proof (cases bs)
    case (Cons b bs')
    with s show ?thesis unfolding synced_def by (metis append_Cons list.inject pseudo_simps(2))
  next
    case Nil
    have "ps = []" using s(1) Nil k key_not_pseudo [OF law] by (cases ps) auto
    with s(1,3) Nil have "stack = [] @ map (key_text lib) [] @ tl as" "pseudo (tl as)" by (cases as; auto)+
    then show ?thesis unfolding synced_def by (metis pseudo_simps(1))
  qed
qed

lemma synced_end:
  assumes law: "text_lib_law lib" and sync: "synced lib (p # running) (key_text lib p # stack)"
  shows "synced lib running stack"
proof -
  obtain ps as qs where "p # running = p # ps @ qs" "stack = map (key_text lib) ps @ as" "pseudo as" "length as = length qs"
    using synced_top [OF law sync] by metis
  then show ?thesis unfolding synced_def by (intro exI [of _ "[]"] exI [of _ ps] exI [of _ as]) auto
qed

lemma synced_start:
  assumes law: "text_lib_law lib" and sync: "synced lib running stack" and len: "length stack = length running"
  shows "synced lib (p # running) (key_text lib p # stack)"
proof -
  obtain bs ps as where s: "stack = bs @ map (key_text lib) ps @ as" "pseudo bs" "pseudo as"
    "ps = [] \<or> (\<exists>qs. running = ps @ qs \<and> length as = length qs)"
    using sync by (auto simp: synced_def)
  show ?thesis
  proof (cases "ps = []")
    case True
    with s have "pseudo stack" by (auto simp: pseudo_def)
    with len show ?thesis
      unfolding synced_def by (intro exI [of _ "[]"] exI [of _ "[p]"] exI [of _ stack]) auto
  next
    case False
    with s obtain qs where qs: "running = ps @ qs" "length as = length qs" by blast
    with s(1) len have "bs = []" by simp
    with s qs show ?thesis
      unfolding synced_def by (intro exI [of _ "[]"] exI [of _ "p # ps"] exI [of _ as]) auto
  qed
qed

lemma synced_step:
  assumes law: "text_lib_law lib" and sync: "synced lib running stack" and line: "log_line lib running i = Some line"
  shows "synced lib (running_after running i) (case stack_step line stack of Some stack' \<Rightarrow> stack' | None \<Rightarrow> stack)"
proof (cases "steady i")
  case True
  then have "running_after running i = running" by (cases i) simp_all
  moreover have "synced lib running stack'" if "stack_step line stack = Some stack'" for stack'
    using steady_line(1) [OF law line True that] sync synced_pseudo_push synced_pseudo_pop [OF law]
    by (metis synced_Nil)
  ultimately show ?thesis using sync by (simp split: option.splits)
next
  case False
  show ?thesis
  proof (cases "\<exists>p. i = Start p")
    case True
    then obtain p where "i = Start p" by blast
    with start_line(2) [OF law, of running p line stack] line sync synced_start [OF law sync, of p]
    show ?thesis by simp
  next
    case False
    with \<open>\<not> steady i\<close> obtain e where i: "i = Succeed \<or> i = Fail e" by (cases i) auto
    obtain p where p: "running = p # tl running"
      "stack_step line stack = Some (case stack of a # below \<Rightarrow> if a = key_text lib p then below else [] | [] \<Rightarrow> [])"
      using end_line [OF law line i] by metis
    have "synced lib (tl running) (case stack of a # below \<Rightarrow> if a = key_text lib p then below else [] | [] \<Rightarrow> [])"
      using synced_end [OF law, of p "tl running"] sync p(1) by (auto split: list.splits)
    with p(2) i show ?thesis by auto
  qed
qed

lemma synced_key_top:
  "text_lib_law lib \<Longrightarrow> synced lib running (key_text lib p # stack) \<Longrightarrow> \<exists>rest. running = p # rest"
  by (erule (1) synced_top) blast

section \<open>What is read\<close>

fun number_events ::
    "bytes32 \<Rightarrow> string \<Rightarrow> u64 \<Rightarrow> Commitment \<Rightarrow> u32 \<Rightarrow> ProtocolEvent list \<Rightarrow> RawProtocolEvent list" where
  "number_events program signature slot commitment n [] = []"
| "number_events program signature slot commitment n (e # es) =
     raw_event program signature slot commitment n e #
     number_events program signature slot commitment (if n = - 1 then n else n + 1) es"

lemma unsteady_line:
  assumes law: "text_lib_law lib" and line: "log_line lib running i = Some line" and i: "\<not> steady i"
  shows "\<exists>stack'. stack_step line stack = Some stack'"
proof (cases "\<exists>p. i = Start p")
  case True
  then obtain p where "i = Start p" by blast
  with start_line(2) [OF law, of running p line stack] line show ?thesis by auto
next
  case False
  with i obtain e where "i = Succeed \<or> i = Fail e" by (cases i) auto
  from end_line [OF law line this, of stack] show ?thesis by blast
qed

text \<open>What an item contributes to the reader's result.\<close>

lemma item_read:
  assumes law: "text_lib_law lib" and sync: "synced lib running stack" and line: "log_line lib running i = Some line"
    and none: "stack_step line stack = None" and event: "data_step lib program line stack = Some e"
  shows "item_event program running i = Some e"
proof -
  have i: "steady i"
    using unsteady_line [OF law line, of stack] none by auto
  with steady_data [OF law line i, of program stack] event obtain ds below where
    "i = Emit ds" "stack = key_text lib program # below" "single_event ds = Some e"
    by (auto split: run_item.splits list.splits if_splits)
  with synced_key_top [OF law, of running program below] sync show ?thesis by auto
qed

lemma extract_reads_emitted:
  assumes law: "text_lib_law lib"
  shows "synced lib running stack \<Longrightarrow> log_lines lib running items = Some lines \<Longrightarrow>
    \<exists>es. subseq es (emitted_events program running items) \<and>
      extract_loop lib program signature slot commitment stack n lines = number_events program signature slot commitment n es"
proof (induction items arbitrary: running stack lines n)
  case Nil
  then show ?case by (intro exI [of _ "[]"]) simp
next
  case (Cons i items)
  then obtain line lines' where line: "log_line lib running i = Some line"
    "log_lines lib (running_after running i) items = Some lines'" "lines = line # lines'"
    by (auto split: option.splits)
  let ?rest = "emitted_events program (running_after running i) items"
    and ?stack' = "case stack_step line stack of Some stack' \<Rightarrow> stack' | None \<Rightarrow> stack"
  note IH = Cons.IH [OF synced_step [OF law Cons.prems(1) line(1)] line(2)]
  have skip: "\<exists>es. subseq es (emitted_events program running (i # items)) \<and>
      extract_loop lib program signature slot commitment ?stack' m lines' = number_events program signature slot commitment m es" for m
    using IH [of m] by (auto intro: list_emb_append2)
  show ?case
  proof (cases "stack_step line stack")
    case (Some stack')
    then show ?thesis using skip [of n] line(3) by simp
  next
    case none: None
    show ?thesis
    proof (cases "data_step lib program line stack")
      case None
      then show ?thesis using skip [of n] line(3) none by simp
    next
      case (Some e)
      have e: "item_event program running i = Some e"
        by (rule item_read [OF law Cons.prems(1) line(1) none Some])
      obtain es where es: "subseq es ?rest"
        "extract_loop lib program signature slot commitment stack (if n = - 1 then n else n + 1) lines' =
          number_events program signature slot commitment (if n = - 1 then n else n + 1) es"
        using IH [of "if n = - 1 then n else n + 1"] none by auto
      then show ?thesis using line(3) none Some e by (intro exI [of _ "e # es"]) simp
    qed
  qed
qed

lemma quiet_step:
  assumes law: "text_lib_law lib" and line: "log_line lib running i = Some line" and i: "quiet lib i"
  shows "(case stack_step line (map (key_text lib) running) of Some stack' \<Rightarrow> stack' | None \<Rightarrow> map (key_text lib) running) =
      map (key_text lib) (running_after running i)"
    and "(case stack_step line (map (key_text lib) running) of Some _ \<Rightarrow> None
      | None \<Rightarrow> data_step lib program line (map (key_text lib) running)) = item_event program running i"
proof -
  have "(case stack_step line (map (key_text lib) running) of Some stack' \<Rightarrow> stack' | None \<Rightarrow> map (key_text lib) running) =
      map (key_text lib) (running_after running i) \<and>
    (case stack_step line (map (key_text lib) running) of Some _ \<Rightarrow> None
      | None \<Rightarrow> data_step lib program line (map (key_text lib) running)) = item_event program running i"
  proof (cases "steady i")
    case True
    then show ?thesis
      using steady_line(2) [OF law line True i, of "map (key_text lib) running"]
        steady_data [OF law line True, of program "map (key_text lib) running"]
      by (cases i; cases running) (simp_all add: key_inj [OF law])
  next
    case False
    then consider p where "i = Start p" | e where "i = Succeed \<or> i = Fail e" by (cases i) auto
    then show ?thesis
    proof cases
      case 1
      then show ?thesis using start_line(2) [OF law, of running _ line "map (key_text lib) running"] line by simp
    next
      case (2 e)
      obtain p where p: "running = p # tl running" "stack_step line (map (key_text lib) running) =
          Some (case map (key_text lib) running of a # below \<Rightarrow> if a = key_text lib p then below else [] | [] \<Rightarrow> [])"
        using end_line [OF law line 2] by metis
      then obtain rest where "running = p # rest" by blast
      with p 2 show ?thesis by auto
    qed
  qed
  then show "(case stack_step line (map (key_text lib) running) of Some stack' \<Rightarrow> stack' | None \<Rightarrow> map (key_text lib) running) =
      map (key_text lib) (running_after running i)"
    and "(case stack_step line (map (key_text lib) running) of Some _ \<Rightarrow> None
      | None \<Rightarrow> data_step lib program line (map (key_text lib) running)) = item_event program running i" by auto
qed

lemma extract_quiet:
  assumes law: "text_lib_law lib"
  shows "log_lines lib running items = Some lines \<Longrightarrow> \<forall>i\<in>set items. quiet lib i \<Longrightarrow>
    extract_loop lib program signature slot commitment (map (key_text lib) running) n lines =
      number_events program signature slot commitment n (emitted_events program running items)"
proof (induction items arbitrary: running lines n)
  case (Cons i items)
  then obtain line lines' where line: "log_line lib running i = Some line"
    "log_lines lib (running_after running i) items = Some lines'" "lines = line # lines'"
    by (auto split: option.splits)
  note IH = Cons.IH [OF line(2)]
    and step = quiet_step(1) [OF law line(1)] quiet_step(2) [OF law line(1), of program]
  show ?case
    using step IH Cons.prems(2) line(3)
    by (cases "stack_step line (map (key_text lib) running)";
        cases "data_step lib program line (map (key_text lib) running)") auto
qed simp

text \<open>Emitting an event is always quiet.\<close>

lemma events_are_quiet:
  assumes "text_lib_law lib" "event_decode d = Inr e"
  shows "quiet lib (Emit [d])"
proof -
  have d: "d = event_encode e" using event_decode_canonical [OF assms(2)] by simp
  have "length d = 82" by (simp add: d)
  moreover have "d ! 0 = 1" using assms(2) by (auto simp: event_decode_def result_inv)
  ultimately obtain d' where "d = 1 # d'" by (cases d) auto
  then have "hd (b64_encode lib d) = CHR ''A''" using assms(1) by (simp add: text_lib_law_def)
  then show ?thesis
    by (cases "b64_encode lib d") (auto simp: control_def starts_with_def)
qed

section \<open>A text library that satisfies the laws\<close>

definition letter :: "nat \<Rightarrow> char" where "letter n = char_of (if n < 63 then 65 + n else n - 4)"
definition letter_value :: "char \<Rightarrow> nat" where
  "letter_value c = (let n = of_char c in if n < 65 then n + 4 else n - 65)"

definition sextet1 :: "byte \<Rightarrow> nat" where "sextet1 a = unat a div 4"
definition sextet2 :: "byte \<Rightarrow> byte \<Rightarrow> nat" where "sextet2 a b = unat a mod 4 * 16 + unat b div 16"
definition sextet3 :: "byte \<Rightarrow> byte \<Rightarrow> nat" where "sextet3 b c = unat b mod 16 * 4 + unat c div 64"
definition sextet4 :: "byte \<Rightarrow> nat" where "sextet4 c = unat c mod 64"
definition octet1 :: "nat \<Rightarrow> nat \<Rightarrow> byte" where "octet1 p q = word_of_nat (p * 4 + q div 16)"
definition octet2 :: "nat \<Rightarrow> nat \<Rightarrow> byte" where "octet2 q r = word_of_nat (q mod 16 * 16 + r div 4)"
definition octet3 :: "nat \<Rightarrow> nat \<Rightarrow> byte" where "octet3 r s = word_of_nat (r mod 4 * 64 + s)"

fun sample_b64 :: "bytes \<Rightarrow> string" where
  "sample_b64 [] = []"
| "sample_b64 [a] = map letter [sextet1 a, sextet2 a 0, 64, 64]"
| "sample_b64 [a, b] = map letter [sextet1 a, sextet2 a b, sextet3 b 0, 64]"
| "sample_b64 (a # b # c # d) = map letter [sextet1 a, sextet2 a b, sextet3 b c, sextet4 c] @ sample_b64 d"

fun sample_unb64 :: "string \<Rightarrow> bytes option" where
  "sample_unb64 (p # q # r # s # t) =
     (let a = octet1 (letter_value p) (letter_value q);
          b = octet2 (letter_value q) (letter_value r);
          c = octet3 (letter_value r) (letter_value s)
      in if letter_value r = 64 then Some [a]
         else if letter_value s = 64 then Some [a, b]
         else map_option (\<lambda>d. a # b # c # d) (sample_unb64 t))"
| "sample_unb64 [] = Some []"
| "sample_unb64 _ = None"

fun spell :: "bytes \<Rightarrow> string" where
  "spell [] = []"
| "spell (b # bs) = letter (unat b div 16) # letter (unat b mod 16) # spell bs"

definition sample_key_text :: "bytes32 \<Rightarrow> string" where
  "sample_key_text p = spell (to_bytes p)"

definition sample_text_lib :: text_lib where
  "sample_text_lib = \<lparr>key_text = sample_key_text, b64_encode = sample_b64,
     b64_decode = (\<lambda>s. if list_all (\<lambda>c. 59 \<le> (of_char c :: nat)) s then sample_unb64 s else None)\<rparr>"

lemma letter_value_letter [simp]: "n \<le> 64 \<Longrightarrow> letter_value (letter n) = n"
  by (auto simp: letter_value_def letter_def Let_def)

lemma of_char_letter: "n \<le> 64 \<Longrightarrow> of_char (letter n) = (if n < 63 then 65 + n else n - 4)"
  by (simp add: letter_def)

lemma letter_inj: "m \<le> 64 \<Longrightarrow> n \<le> 64 \<Longrightarrow> letter m = letter n \<longleftrightarrow> m = n"
  by (metis letter_value_letter)

lemma byte_less: "unat (a :: byte) < 256"
  using unsigned_less [of a] by simp

lemma sextets [simp]: "sextet1 a < 64" "sextet2 a b < 64" "sextet3 b c < 64" "sextet4 c < 64"
  using byte_less [of a] byte_less [of b] byte_less [of c]
  by (simp_all add: sextet1_def sextet2_def sextet3_def sextet4_def)

lemma octets [simp]: "octet1 (sextet1 a) (sextet2 a b) = a" "octet2 (sextet2 a b) (sextet3 b c) = b"
  "octet3 (sextet3 b c) (sextet4 c) = c"
proof -
  have lt: "unat b div 16 < 16" "unat c div 64 < 4" using byte_less [of b] byte_less [of c] by linarith+
  have "sextet1 a * 4 + sextet2 a b div 16 = unat a" "sextet2 a b mod 16 * 16 + sextet3 b c div 4 = unat b"
    "sextet3 b c mod 4 * 64 + sextet4 c = unat c"
    using lt by (simp_all add: sextet1_def sextet2_def sextet3_def sextet4_def)
  then show "octet1 (sextet1 a) (sextet2 a b) = a" "octet2 (sextet2 a b) (sextet3 b c) = b"
    "octet3 (sextet3 b c) (sextet4 c) = c"
    unfolding octet1_def octet2_def octet3_def by simp_all
qed

definition is_letter :: "char \<Rightarrow> bool" where
  "is_letter c \<longleftrightarrow> (\<exists>n\<le>64. c = letter n)"

lemma is_letter [simp]: "n < 64 \<Longrightarrow> is_letter (letter n)" "is_letter (letter 64)"
proof -
  show "n < 64 \<Longrightarrow> is_letter (letter n)"
    unfolding is_letter_def by (rule exI [of _ n]) simp
  show "is_letter (letter 64)"
    unfolding is_letter_def by blast
qed

lemma sample_letters: "c \<in> set (sample_b64 d) \<Longrightarrow> is_letter c"
  by (induction d rule: sample_b64.induct) auto

lemma letterD:
  assumes "is_letter c"
  shows "59 \<le> (of_char c :: nat)" "\<not> is_space c \<and> (of_char c :: nat) < 128" "c \<noteq> CHR '' ''" "c \<noteq> CHR '':''"
proof -
  obtain n where n: "n \<le> 64" "c = letter n" using assms by (auto simp: is_letter_def)
  have v: "59 \<le> (of_char c :: nat)" "(of_char c :: nat) < 128" using n by (auto simp: of_char_letter)
  then show "59 \<le> (of_char c :: nat)" "\<not> is_space c \<and> (of_char c :: nat) < 128" by (auto simp: is_space_def)
  show "c \<noteq> CHR '' ''" "c \<noteq> CHR '':''"
    using arg_cong [of c _ "of_char :: char \<Rightarrow> nat"] v by fastforce+
qed

lemma sample_b64_length: "length (sample_b64 d) = 4 * ((length d + 2) div 3)"
proof (induction d rule: sample_b64.induct)
  case (4 a b c d)
  have "(length d + 5) div 3 = Suc ((length d + 2) div 3)" using div_add_self2 [of 3 "length d + 2"] by simp
  with 4 show ?case by (simp add: add.commute)
qed simp_all

lemma sextet_value [simp]: "n < 64 \<Longrightarrow> letter_value (letter n) = n"
  by simp

lemma sextets_no_pad [simp]: "sextet3 b c \<noteq> 64" "sextet4 c \<noteq> 64"
  using sextets(3) [of b c] sextets(4) [of c] by linarith+

lemma sample_unb64_b64: "sample_unb64 (sample_b64 d) = Some d"
  by (induction d rule: sample_b64.induct) (simp_all add: Let_def)

lemma spell_inj: "spell xs = spell ys \<Longrightarrow> xs = ys"
proof (induction xs arbitrary: ys)
  case Nil
  then show ?case by (cases ys) simp_all
next
  case (Cons x xs)
  then obtain y ys' where y: "ys = y # ys'" by (cases ys) auto
  have "unat x div 16 = unat y div 16" "unat x mod 16 = unat y mod 16"
    using Cons.prems y byte_less [of x] byte_less [of y] by (simp_all add: letter_inj)
  then have "x = y" by (metis div_mult_mod_eq word_unat_eq_iff)
  with Cons y show ?case by simp
qed

lemma sample_key_text_inj: "sample_key_text p = sample_key_text q \<Longrightarrow> p = q"
  using spell_inj [of "to_bytes p" "to_bytes q"] by (simp add: sample_key_text_def to_bytes_inject)

lemma spell_letters: "c \<in> set (spell bs) \<Longrightarrow> is_letter c"
proof (induction bs)
  case (Cons b bs)
  have "unat b div 16 < 64" "unat b mod 16 < 64" using byte_less [of b] by linarith+
  with Cons show ?case by auto
qed simp

lemma of_char_A: "of_char (CHR ''A'') = (65 :: nat)"
  by simp

lemma sample_text_lib_law: "text_lib_law sample_text_lib"
proof -
  have key: "is_letter c" if "c \<in> set (sample_key_text p)" for c p
    using that spell_letters by (simp add: sample_key_text_def)
  have all: "list_all (\<lambda>c. 59 \<le> (of_char c :: nat)) (sample_b64 d)" for d
    using letterD(1) [OF sample_letters] by (auto simp: list_all_iff)
  have first: "hd (sample_b64 (b # d)) = CHR ''A''" if "b < 4" for b d
  proof -
    have "unat b < 4" using that by (simp add: word_less_nat_alt)
    then have "sextet1 b = 0" by (simp add: sextet1_def)
    moreover have "letter 0 = CHR ''A''" unfolding letter_def by (metis add.right_neutral char_of_char of_char_A zero_less_numeral)
    ultimately show ?thesis by (cases "b # d" rule: sample_b64.cases) auto
  qed
  have blank: "\<not> list_all (\<lambda>c. 59 \<le> (of_char c :: nat)) s" if "CHR '' '' \<in> set s" for s
    using that by (auto simp: list_all_iff intro!: bexI [of _ "CHR '' ''"])
  show ?thesis
    unfolding text_lib_law_def
    using key [THEN letterD(3)] key [THEN letterD(4)] sample_key_text_inj sample_letters [THEN letterD(2)] all first blank
    by (auto simp: sample_text_lib_def inj_def sample_unb64_b64 sample_b64_length)
qed

section \<open>Properties\<close>

text \<open>
  C34. Events cannot be forged. Whatever programs run in a transaction, however they call each other and whatever they log, emit or
  return: the events that are read from the transaction's log for a program are events that the program itself has
  emitted, in this order, numbered from zero. And none is missing, as long as no program logs, emits or returns text that
  starts with one of the runtime's own words (\<open>invoke\<close>, \<open>success\<close>, \<open>failed\<close>).
\<close>

theorem events_are_not_forged:
  assumes "text_lib_law lib" "log_lines lib [] items = Some logs"
  shows "\<exists>es. subseq es (emitted_events program [] items) \<and>
    ((\<forall>i\<in>set items. quiet lib i) \<longrightarrow> es = emitted_events program [] items) \<and>
    extract_protocol_events lib program signature slot logs commitment =
      number_events program signature slot commitment 0 es"
proof (cases "\<forall>i\<in>set items. quiet lib i")
  case True
  with extract_quiet [OF assms] show ?thesis by (auto simp: extract_protocol_events_def)
next
  case False
  obtain es where "subseq es (emitted_events program [] items)" "extract_loop lib program signature slot commitment [] 0 logs =
      number_events program signature slot commitment 0 es"
    using extract_reads_emitted [OF assms(1) synced_Nil assms(2)] by blast
  with False show ?thesis unfolding extract_protocol_events_def by blast
qed

definition sample_event :: ProtocolEvent where
  "sample_event = \<lparr>event_kind = JobSettled, event_subject = fill32 1, event_actor = fill32 2, event_amount = 5,
     event_timestamp = 7\<rparr>"

text \<open>Another program calls the program of interest (the key of sevens), which emits an event.\<close>

definition sample_items :: "string \<Rightarrow> run_item list" where
  "sample_items m = [Start (fill32 3), Message m, Start (fill32 7), Emit [event_encode sample_event], Succeed, Succeed]"

lemma sample_emitted: "emitted_events (fill32 7) [] (sample_items m) = [sample_event]"
proof -
  have "event_encode sample_event \<noteq> []" by (metis length_event_encode length_0_conv zero_neq_numeral)
  then show ?thesis by (simp add: sample_items_def single_event_def)
qed

lemma sample_lines: "\<exists>logs. log_lines lib [] (sample_items m) = Some logs"
  by (simp add: sample_items_def)

theorem events_are_not_forged_witness:
  "\<exists>logs. log_lines sample_text_lib [] (sample_items ''hello'') = Some logs \<and>
    extract_protocol_events sample_text_lib (fill32 7) ''s'' 1 logs Confirmed =
      [raw_event (fill32 7) ''s'' 1 Confirmed 0 sample_event]"
proof -
  obtain logs where logs: "log_lines sample_text_lib [] (sample_items ''hello'') = Some logs"
    using sample_lines by blast
  have "quiet sample_text_lib (Emit [event_encode sample_event])"
    by (rule events_are_quiet [OF sample_text_lib_law]) simp
  then have "\<forall>i\<in>set (sample_items ''hello''). quiet sample_text_lib i"
    by (simp add: sample_items_def control_def starts_with_def)
  with events_are_not_forged [OF sample_text_lib_law logs, of "fill32 7" "''s''" 1 Confirmed] logs show ?thesis
    by (auto simp: sample_emitted)
qed

text \<open>The hypothesis is needed: the message \<open>success\<close> of a caller hides the event of the program it calls.\<close>

lemma message_hides_event:
  assumes law: "text_lib_law lib" and logs: "log_lines lib [] (sample_items ''success'') = Some logs"
  shows "extract_protocol_events lib (fill32 7) signature slot logs commitment = []"
proof -
  obtain l1 l2 l3 l4 l5 l6 where l: "log_line lib [] (Start (fill32 3)) = Some l1"
    "log_line lib [fill32 3] (Message ''success'') = Some l2" "log_line lib [fill32 3] (Start (fill32 7)) = Some l3"
    "log_line lib [fill32 7, fill32 3] (Emit [event_encode sample_event]) = Some l4"
    "log_line lib [fill32 7, fill32 3] Succeed = Some l5" "log_line lib [fill32 3] Succeed = Some l6"
    "logs = [l1, l2, l3, l4, l5, l6]"
    using logs by (auto simp: sample_items_def simp del: log_line.simps split: option.splits)
  have "stack_step l1 [] = Some [key_text lib (fill32 3)]"
    using start_line(2) [OF law l(1), of "[]"] by simp
  moreover have "stack_step l2 [key_text lib (fill32 3)] = Some []"
  proof -
    have "l2 = ''Program '' @ ''log:'' @ CHR '' '' # ''success''" using l(2) by simp
    then have "stack_step l2 [key_text lib (fill32 3)] = word_step ''log:'' ''success'' [key_text lib (fill32 3)]"
      by (simp only: word_step_def)
    also have "\<dots> = Some []"
      using key_not_pseudo [OF law, of "fill32 3"]
      by (subst word_step_simp) (simp_all add: starts_with_def)
    finally show ?thesis .
  qed
  moreover have "stack_step l3 [] = Some []"
    using start_line(2) [OF law l(3), of "[]"] by simp
  moreover have "stack_step l4 [] = None"
    by (rule steady_line(2) [OF law l(4)]) (simp, rule events_are_quiet [OF law], simp)
  moreover have "data_step lib (fill32 7) l4 [] = None"
    using steady_data [OF law l(4), of "fill32 7" "[]"] by simp
  moreover have "stack_step l5 [] = Some []"
    by (rule end_line [OF law l(5) disjI1 [OF refl], of "[]"]) simp
  moreover have "stack_step l6 [] = Some []"
    by (rule end_line [OF law l(6) disjI1 [OF refl], of "[]"]) simp
  ultimately show ?thesis using l(7) by (simp add: extract_protocol_events_def)
qed

end
