(* ===== verification/Index_Decode.thy ===== *)
theory Index_Decode
  imports Index_Logs Helpers
begin

text \<open>
  From account updates to projections, \<open>decode_account_update\<close> of \<^verbatim>\<open>agentbond-indexer/src/decode.rs\<close>, with the projection
  types of \<^verbatim>\<open>agentbond-db/src/projection.rs\<close>. The property at the end relates a projection with the record that the
  program has stored on the ledger.
\<close>

section \<open>Projections\<close>

record RawAccountVersion =
  rav_address :: bytes32
  rav_slot :: u64
  rav_write_version :: u64
  rav_owner :: "bytes32 option"
  rav_lamports :: u64
  rav_executable :: bool
  rav_data :: "bytes option"
  rav_deleted :: bool
  rav_commitment :: Commitment

datatype ProjectionKind = ConfigKind | ProviderKind | ProviderBondKind | JobKind | ChallengeKind | TombstoneKind

text \<open>The payload of each kind, with the fields in the order of the code.\<close>

record config_projection =
  cp_paused :: bool
  cp_admin :: bytes32
  cp_genesis_hash :: bytes32
  cp_allowed_mint :: bytes32
  cp_token_program :: bytes32
  cp_mint_decimals :: byte
  cp_min_provider_bond :: u64
  cp_challenge_duration_seconds :: u64

record provider_projection =
  pp_authority :: bytes32
  pp_status :: string
  pp_execution_key_count :: byte

record bond_projection =
  bp_authority :: bytes32
  bp_mint :: bytes32
  bp_deposited :: u64
  bp_locked :: u64

record job_projection =
  jp_buyer :: bytes32
  jp_provider :: bytes32
  jp_mint :: bytes32
  jp_token_program :: bytes32
  jp_amount :: u64
  jp_job_nonce :: u64
  jp_state :: string
  jp_fund_deadline :: i64
  jp_accept_deadline :: i64
  jp_work_deadline :: i64
  jp_auto_settle_deadline :: i64
  jp_request_hash :: bytes32
  jp_receipt_digest :: bytes32
  jp_locked_bond :: u64
  jp_mint_decimals :: byte

record challenge_projection =
  hp_job :: bytes32
  hp_buyer :: bytes32
  hp_reason_hash :: bytes32
  hp_bond_amount :: u64
  hp_deadline :: i64
  hp_status :: string

datatype ProjectionPayload =
    ConfigP config_projection
  | ProviderP provider_projection
  | ProviderBondP bond_projection
  | JobP job_projection
  | ChallengeP challenge_projection
  | TombstoneP

record DecodedProjection =
  dp_kind :: ProjectionKind
  dp_address :: bytes32
  dp_slot :: u64
  dp_write_version :: u64
  dp_payload :: ProjectionPayload

section \<open>Decoding\<close>

record AccountDecodeInput =
  adi_program :: address
  adi_address :: address
  adi_slot :: u64
  adi_write_version :: u64
  adi_owner :: "address option"
  adi_lamports :: u64
  adi_data :: "bytes option"
  adi_deleted :: bool
  adi_commitment :: Commitment

text \<open>The derived \<open>Debug\<close> of the job states.\<close>

primrec job_state_debug :: "JobState \<Rightarrow> string" where
  "job_state_debug Created = ''Created''"
| "job_state_debug Funded = ''Funded''"
| "job_state_debug Accepted = ''Accepted''"
| "job_state_debug Submitted = ''Submitted''"
| "job_state_debug Challenged = ''Challenged''"
| "job_state_debug Settled = ''Settled''"
| "job_state_debug Refunded = ''Refunded''"
| "job_state_debug Expired = ''Expired''"
| "job_state_debug Slashed = ''Slashed''"

definition config_payload :: "ConfigAccount \<Rightarrow> ProjectionPayload" where
  "config_payload cfg = ConfigP \<lparr>cp_paused = config_paused cfg, cp_admin = config_admin cfg,
     cp_genesis_hash = config_genesis_hash cfg, cp_allowed_mint = config_allowed_mint cfg,
     cp_token_program = config_token_program cfg, cp_mint_decimals = config_mint_decimals cfg,
     cp_min_provider_bond = config_min_provider_bond cfg,
     cp_challenge_duration_seconds = config_challenge_duration_seconds cfg\<rparr>"

definition provider_payload :: "ProviderAccount \<Rightarrow> ProjectionPayload" where
  "provider_payload provider = ProviderP \<lparr>pp_authority = provider_authority provider,
     pp_status = (if provider_status provider = PROVIDER_STATUS_ACTIVE then ''Active'' else ''Inactive''),
     pp_execution_key_count = provider_execution_key_count provider\<rparr>"

definition bond_payload :: "ProviderBondAccount \<Rightarrow> ProjectionPayload" where
  "bond_payload bond = ProviderBondP \<lparr>bp_authority = bond_provider bond, bp_mint = bond_mint bond,
     bp_deposited = bond_deposited bond, bp_locked = bond_locked bond\<rparr>"

definition job_payload :: "JobAccount \<Rightarrow> ProjectionPayload" where
  "job_payload job = JobP \<lparr>jp_buyer = job_buyer job, jp_provider = job_provider job, jp_mint = job_mint job,
     jp_token_program = job_token_program job, jp_amount = job_amount job, jp_job_nonce = job_nonce job,
     jp_state = job_state_debug (job_state job), jp_fund_deadline = job_fund_deadline job,
     jp_accept_deadline = job_accept_deadline job, jp_work_deadline = job_work_deadline job,
     jp_auto_settle_deadline = job_auto_settle_deadline job, jp_request_hash = job_request_hash job,
     jp_receipt_digest = job_receipt_digest job, jp_locked_bond = job_locked_bond job,
     jp_mint_decimals = job_mint_decimals job\<rparr>"

definition challenge_payload :: "ChallengeAccount \<Rightarrow> ProjectionPayload" where
  "challenge_payload challenge = ChallengeP \<lparr>hp_job = challenge_job challenge, hp_buyer = challenge_buyer challenge,
     hp_reason_hash = challenge_reason_hash challenge, hp_bond_amount = challenge_bond_amount challenge,
     hp_deadline = challenge_deadline challenge,
     hp_status = (if challenge_status challenge = STATUS_OPEN then ''Open'' else ''Resolved'')\<rparr>"

text \<open>\<open>if data.len() == len \<and> let Ok(x) = decode(data)\<close>.\<close>

definition decoded :: "nat \<Rightarrow> (bytes \<Rightarrow> ProtocolError + 'a) \<Rightarrow> bytes \<Rightarrow> 'a option" where
  "decoded len decode data =
     (if length data = len then (case decode data of Inr x \<Rightarrow> Some x | Inl _ \<Rightarrow> None) else None)"

definition try_decode_owned :: "bytes \<Rightarrow> bytes32 \<Rightarrow> u64 \<Rightarrow> u64 \<Rightarrow> DecodedProjection option" where
  "try_decode_owned data address slot write_version =
     (let projection = (\<lambda>kind payload. \<lparr>dp_kind = kind, dp_address = address, dp_slot = slot,
            dp_write_version = write_version, dp_payload = payload\<rparr>)
      in case decoded CONFIG_ACCOUNT_LEN config_decode data of
           Some cfg \<Rightarrow> Some (projection ConfigKind (config_payload cfg))
         | None \<Rightarrow>
      (case decoded PROVIDER_ACCOUNT_LEN provider_decode data of
           Some provider \<Rightarrow> Some (projection ProviderKind (provider_payload provider))
         | None \<Rightarrow>
      (case decoded PROVIDER_BOND_ACCOUNT_LEN bond_decode data of
           Some bond \<Rightarrow> Some (projection ProviderBondKind (bond_payload bond))
         | None \<Rightarrow>
      (case decoded JOB_ACCOUNT_LEN job_decode data of
           Some job \<Rightarrow> Some (projection JobKind (job_payload job))
         | None \<Rightarrow>
      (case decoded CHALLENGE_ACCOUNT_LEN challenge_decode data of
           Some challenge \<Rightarrow> Some (projection ChallengeKind (challenge_payload challenge))
         | None \<Rightarrow> None)))))"

text \<open>The code wraps its result in \<open>Ok\<close>; it has no error of its own.\<close>

definition decode_account_update :: "AccountDecodeInput \<Rightarrow> RawAccountVersion \<times> DecodedProjection option" where
  "decode_account_update i =
     (let raw = \<lparr>rav_address = adi_address i, rav_slot = adi_slot i, rav_write_version = adi_write_version i,
            rav_owner = adi_owner i, rav_lamports = adi_lamports i, rav_executable = False, rav_data = adi_data i,
            rav_deleted = adi_deleted i, rav_commitment = adi_commitment i\<rparr>
      in if adi_deleted i \<or> (case adi_data i of Some d \<Rightarrow> d = [] | None \<Rightarrow> True)
         then (raw, Some \<lparr>dp_kind = TombstoneKind, dp_address = adi_address i, dp_slot = adi_slot i,
           dp_write_version = adi_write_version i, dp_payload = TombstoneP\<rparr>)
         else case adi_owner i of
                None \<Rightarrow> (raw, None)
              | Some owner \<Rightarrow>
                  (if owner \<noteq> adi_program i then (raw, None)
                   else (let data = (case adi_data i of Some d \<Rightarrow> d | None \<Rightarrow> [])
                         in (raw, try_decode_owned data (adi_address i) (adi_slot i) (adi_write_version i)))))"

section \<open>Projections and records\<close>

text \<open>The update that reports the account at an address of the ledger.\<close>

definition update_of :: "address \<Rightarrow> world \<Rightarrow> address \<Rightarrow> u64 \<Rightarrow> u64 \<Rightarrow> Commitment \<Rightarrow> AccountDecodeInput" where
  "update_of pid w a slot write_version commitment =
     \<lparr>adi_program = pid, adi_address = a, adi_slot = slot, adi_write_version = write_version,
      adi_owner = Some (acct_owner (w_accounts w a)), adi_lamports = acct_lamports (w_accounts w a),
      adi_data = Some (acct_data (w_accounts w a)), adi_deleted = False, adi_commitment = commitment\<rparr>"

lemma decoded_simps:
  "decoded CONFIG_ACCOUNT_LEN config_decode d = Some c \<longleftrightarrow> config_decode d = Inr c"
  "decoded PROVIDER_ACCOUNT_LEN provider_decode d = Some p \<longleftrightarrow> provider_decode d = Inr p"
  "decoded PROVIDER_BOND_ACCOUNT_LEN bond_decode d = Some b \<longleftrightarrow> bond_decode d = Inr b"
  "decoded JOB_ACCOUNT_LEN job_decode d = Some j \<longleftrightarrow> job_decode d = Inr j"
  "decoded CHALLENGE_ACCOUNT_LEN challenge_decode d = Some h \<longleftrightarrow> challenge_decode d = Inr h"
  using config.decode_Inr_len [of d] provider.decode_Inr_len [of d] bond.decode_Inr_len [of d]
    job.decode_Inr_len [of d] challenge.decode_Inr_len [of d]
  by (auto simp: decoded_def split: sum.splits)

lemmas decoded_hit = decoded_simps [THEN iffD2]

text \<open>The first byte tells the five layouts apart.\<close>

lemmas discriminators = config.decode_Inr_disc provider.decode_Inr_disc bond.decode_Inr_disc job.decode_Inr_disc
  challenge.decode_Inr_disc

lemma one_record:
  assumes "d ! 0 = k"
  shows "k \<noteq> 1 \<Longrightarrow> config_decode d \<noteq> Inr c" "k \<noteq> 2 \<Longrightarrow> provider_decode d \<noteq> Inr q" "k \<noteq> 3 \<Longrightarrow> bond_decode d \<noteq> Inr b"
    "k \<noteq> 4 \<Longrightarrow> job_decode d \<noteq> Inr j" "k \<noteq> 5 \<Longrightarrow> challenge_decode d \<noteq> Inr h"
  using assms discriminators [where d = d] by auto

lemma decoded_None: "(\<And>x. decode d \<noteq> Inr x) \<Longrightarrow> decoded len decode d = None"
  by (auto simp: decoded_def split: sum.splits)

lemma try_decode_cases:
  obtains
    (Config) c where "config_decode d = Inr c" "d ! 0 = 1" "try_decode_owned d a s v =
      Some \<lparr>dp_kind = ConfigKind, dp_address = a, dp_slot = s, dp_write_version = v, dp_payload = config_payload c\<rparr>"
  | (Provider) q where "provider_decode d = Inr q" "d ! 0 = 2" "try_decode_owned d a s v =
      Some \<lparr>dp_kind = ProviderKind, dp_address = a, dp_slot = s, dp_write_version = v, dp_payload = provider_payload q\<rparr>"
  | (Bond) b where "bond_decode d = Inr b" "d ! 0 = 3" "try_decode_owned d a s v =
      Some \<lparr>dp_kind = ProviderBondKind, dp_address = a, dp_slot = s, dp_write_version = v, dp_payload = bond_payload b\<rparr>"
  | (Job) j where "job_decode d = Inr j" "d ! 0 = 4" "try_decode_owned d a s v =
      Some \<lparr>dp_kind = JobKind, dp_address = a, dp_slot = s, dp_write_version = v, dp_payload = job_payload j\<rparr>"
  | (Challenge) h where "challenge_decode d = Inr h" "d ! 0 = 5" "try_decode_owned d a s v =
      Some \<lparr>dp_kind = ChallengeKind, dp_address = a, dp_slot = s, dp_write_version = v, dp_payload = challenge_payload h\<rparr>"
  | (No_record) "\<And>c. config_decode d \<noteq> Inr c" "\<And>q. provider_decode d \<noteq> Inr q" "\<And>b. bond_decode d \<noteq> Inr b"
      "\<And>j. job_decode d \<noteq> Inr j" "\<And>h. challenge_decode d \<noteq> Inr h" "try_decode_owned d a s v = None"
proof -
  note none = decoded_None [where d = d]
  consider c where "config_decode d = Inr c" | q where "provider_decode d = Inr q" | b where "bond_decode d = Inr b"
    | j where "job_decode d = Inr j" | h where "challenge_decode d = Inr h"
    | (no) "\<And>c. config_decode d \<noteq> Inr c" "\<And>q. provider_decode d \<noteq> Inr q" "\<And>b. bond_decode d \<noteq> Inr b"
      "\<And>j. job_decode d \<noteq> Inr j" "\<And>h. challenge_decode d \<noteq> Inr h" by blast
  then show ?thesis
  proof cases
    case (1 c)
    with discriminators(1) [OF this] show ?thesis
      by (intro Config) (simp_all add: try_decode_owned_def decoded_hit)
  next
    case (2 q)
    note d = discriminators(2) [OF this]
    with 2 one_record [OF d] show ?thesis
      by (intro Provider) (simp_all add: try_decode_owned_def decoded_hit none)
  next
    case (3 b)
    note d = discriminators(3) [OF this]
    with 3 one_record [OF d] show ?thesis
      by (intro Bond) (simp_all add: try_decode_owned_def decoded_hit none)
  next
    case (4 j)
    note d = discriminators(4) [OF this]
    with 4 one_record [OF d] show ?thesis
      by (intro Job) (simp_all add: try_decode_owned_def decoded_hit none)
  next
    case (5 h)
    note d = discriminators(5) [OF this]
    with 5 one_record [OF d] show ?thesis
      by (intro Challenge) (simp_all add: try_decode_owned_def decoded_hit none)
  next
    case no
    then show ?thesis by (intro No_record) (simp_all add: try_decode_owned_def none)
  qed
qed

lemma no_record_in_nothing: "config_decode [] \<noteq> Inr c" "provider_decode [] \<noteq> Inr q" "bond_decode [] \<noteq> Inr b"
  "job_decode [] \<noteq> Inr j" "challenge_decode [] \<noteq> Inr h"
  using config.decode_Inr_len [of "[]" c] provider.decode_Inr_len [of "[]" q] bond.decode_Inr_len [of "[]" b]
    job.decode_Inr_len [of "[]" j] challenge.decode_Inr_len [of "[]" h] by auto

text \<open>
  The index mirrors the ledger. An update that reports the account at an address is turned into a projection
  exactly when the account is empty (then a tombstone) or holds one of the program's five records, and then the projection carries
  the kind and the fields of that record, at this address, slot and version. Accounts of other programs and
  bytes that are no record project nothing.
\<close>

theorem index_mirrors_ledger:
  "snd (decode_account_update (update_of pid w a slot version commitment)) = Some p \<longleftrightarrow>
     dp_address p = a \<and> dp_slot p = slot \<and> dp_write_version p = version \<and>
     (acct_data (w_accounts w a) = [] \<and> dp_kind p = TombstoneKind \<and> dp_payload p = TombstoneP \<or>
      (\<exists>c. config_at pid w a = Some c \<and> dp_kind p = ConfigKind \<and> dp_payload p = config_payload c) \<or>
      (\<exists>q. provider_at pid w a = Some q \<and> dp_kind p = ProviderKind \<and> dp_payload p = provider_payload q) \<or>
      (\<exists>b. bond_at pid w a = Some b \<and> dp_kind p = ProviderBondKind \<and> dp_payload p = bond_payload b) \<or>
      (\<exists>j. job_at pid w a = Some j \<and> dp_kind p = JobKind \<and> dp_payload p = job_payload j) \<or>
      (\<exists>h. challenge_at pid w a = Some h \<and> dp_kind p = ChallengeKind \<and> dp_payload p = challenge_payload h))"
proof -
  let ?d = "acct_data (w_accounts w a)"
  consider "?d = []" | "acct_owner (w_accounts w a) \<noteq> pid" | "?d \<noteq> []" "acct_owner (w_accounts w a) = pid" by blast
  then show ?thesis
  proof cases
    case 1
    then show ?thesis
      by (cases p) (auto simp: decode_account_update_def update_of_def stored_at_eq_Some no_record_in_nothing)
  next
    case 2
    then show ?thesis
      by (cases p) (auto simp: decode_account_update_def update_of_def Let_def stored_at_eq_Some)
  next
    case 3
    then have eq: "snd (decode_account_update (update_of pid w a slot version commitment)) =
        try_decode_owned ?d a slot version"
      by (simp add: decode_account_update_def update_of_def)
    show ?thesis
      unfolding eq stored_at_eq_Some
      by (rule try_decode_cases [of ?d a slot version]; cases p; insert 3 one_record [of ?d]; auto)
  qed
qed

end
