(* ===== verification/Index_Store.thy ===== *)
theory Index_Store
  imports Index_Decode Payment_Validate "HOL-Library.List_Lexorder" "HOL-Library.Product_Lexorder"
begin

text \<open>
  The tables of the index and the operations of \<^verbatim>\<open>agentbond-db/src/projection.rs\<close> on them, with the conversions of \<^verbatim>\<open>util.rs\<close>.
  Each operation is one database transaction (or a single statement): it either fails and leaves the tables as they
  were, or commits. So an operation is a function from the tables to an error or a result with new tables.

  A \<open>BIGINT\<close> column is an \<open>int\<close>; what is written to it has passed \<open>u64_to_i64\<close>. A table is a map from
  its primary key, except for the two that are read in an order (staged projections, gaps), which are lists of rows. A status column holds
  a \<open>Commitment\<close>, since the column's check admits nothing else (\<open>parse_as_str\<close>). The
  \<open>CHECK\<close> constraints of \<^verbatim>\<open>migrations/0001_init.sql\<close> that a value can violate are the \<open>Sql\<close> errors below. Columns that only
  record when a row was written are left out.

  Which times the calendar library and the database can represent is the parameter \<open>time_ok\<close>.
\<close>

section \<open>Errors and conversions\<close>

datatype DbError =
    Sql string
  | Migrate string
  | DbConfig string
  | NotFound string
  | Conflict string
  | Validation string
  | Migration string
  | DbPayment PaymentError

type_synonym bigint = int

definition u64_to_i64 :: "u64 \<Rightarrow> DbError + bigint" where
  "u64_to_i64 v =
     (if unat v < 2 ^ 63 then Inr (uint v)
      else Inl (Validation (''u64 does not fit i64: '' @ decimal (unat v))))"

definition i64_to_u64 :: "bigint \<Rightarrow> DbError + u64" where
  "i64_to_u64 v =
     (if v < 0 then Inl (Validation (''negative i64: -'' @ decimal (nat (- v)))) else Inr (word_of_int v))"

definition opt_i64 :: "u64 option \<Rightarrow> DbError + bigint option" where
  "opt_i64 v = (case v of None \<Rightarrow> Inr None | Some p \<Rightarrow> tryE (u64_to_i64 p) (\<lambda>i. Inr (Some i)))"

lemma u64_to_i64_eq_Inr [result_inv]: "u64_to_i64 v = Inr i \<longleftrightarrow> unat v < 2 ^ 63 \<and> i = uint v"
  by (auto simp: u64_to_i64_def)

lemma i64_to_u64_eq_Inr [result_inv]: "i64_to_u64 v = Inr u \<longleftrightarrow> 0 \<le> v \<and> u = word_of_int v"
  by (auto simp: i64_to_u64_def)

lemma i64_round_trip: "u64_to_i64 v = Inr i \<Longrightarrow> i64_to_u64 i = Inr v"
  by (simp add: result_inv)

section \<open>Commitment levels\<close>

primrec commitment_str :: "Commitment \<Rightarrow> string" where
  "commitment_str Processed = ''processed''"
| "commitment_str Confirmed = ''confirmed''"
| "commitment_str Finalized = ''finalized''"
| "commitment_str Dead = ''dead''"

definition commitment_parse :: "string \<Rightarrow> DbError + Commitment" where
  "commitment_parse s =
     (if s = ''processed'' then Inr Processed
      else if s = ''confirmed'' then Inr Confirmed
      else if s = ''finalized'' then Inr Finalized
      else if s = ''dead'' then Inr Dead
      else Inl (Validation (''unknown commitment: '' @ s)))"

fun can_upgrade :: "Commitment \<Rightarrow> Commitment \<Rightarrow> bool" where
  "can_upgrade current next =
     (if current = next then True
      else case current of
             Finalized \<Rightarrow> False
           | Dead \<Rightarrow> False
           | Confirmed \<Rightarrow> next \<in> {Finalized, Dead}
           | Processed \<Rightarrow> next \<in> {Confirmed, Finalized, Dead})"

declare can_upgrade.simps [simp del]

primrec kind_str :: "ProjectionKind \<Rightarrow> string" where
  "kind_str ConfigKind = ''Config''"
| "kind_str ProviderKind = ''Provider''"
| "kind_str ProviderBondKind = ''ProviderBond''"
| "kind_str JobKind = ''Job''"
| "kind_str ChallengeKind = ''Challenge''"
| "kind_str TombstoneKind = ''Tombstone''"

definition kind_parse :: "string \<Rightarrow> DbError + ProjectionKind" where
  "kind_parse s =
     (if s = ''Config'' then Inr ConfigKind
      else if s = ''Provider'' then Inr ProviderKind
      else if s = ''ProviderBond'' then Inr ProviderBondKind
      else if s = ''Job'' then Inr JobKind
      else if s = ''Challenge'' then Inr ChallengeKind
      else if s = ''Tombstone'' then Inr TombstoneKind
      else Inl (Validation (''unknown projection kind: '' @ s)))"

lemma parse_as_str: "commitment_parse (commitment_str c) = Inr c" "kind_parse (kind_str k) = Inr k"
  by (cases c; simp add: commitment_parse_def) (cases k; simp add: kind_parse_def)

text \<open>Levels only go up, and the two last ones are final.\<close>

primrec level :: "Commitment \<Rightarrow> nat" where
  "level Processed = 0"
| "level Confirmed = 1"
| "level Finalized = 2"
| "level Dead = 2"

lemma can_upgrade_iff: "can_upgrade c d \<longleftrightarrow> c = d \<or> level c < level d"
  by (cases c; cases d) (simp_all add: can_upgrade.simps)

section \<open>Tables\<close>

record SlotUpdate =
  su_slot :: u64
  su_parent_slot :: "u64 option"
  su_status :: Commitment
  su_block_time :: "i64 option"

record slot_row =
  row_parent :: "bigint option"
  row_status :: Commitment
  row_block_time :: "i64 option"

record raw_account_row =
  rar_owner :: "bytes32 option"
  rar_lamports :: u64
  rar_executable :: bool
  rar_data :: "bytes option"
  rar_deleted :: bool
  rar_commitment :: Commitment

record raw_event_row =
  rer_slot :: bigint
  rer_program_id :: bytes32
  rer_kind :: byte
  rer_subject :: bytes32
  rer_actor :: bytes32
  rer_amount :: u64
  rer_event_timestamp :: i64
  rer_commitment :: Commitment

record staged_row =
  sp_address :: bytes32
  sp_slot :: bigint
  sp_write_version :: bigint
  sp_kind :: ProjectionKind
  sp_payload :: ProjectionPayload

record gap_row =
  gap_from :: bigint
  gap_to :: bigint
  gap_status :: string
  gap_attempts :: nat
  gap_last_error :: "string option"

type_synonym 'a proj_table = "bytes32 \<rightharpoonup> bigint \<times> 'a"

record index_db =
  indexer_slots :: "bigint \<rightharpoonup> slot_row"
  raw_account_versions :: "bytes32 \<times> bigint \<times> bigint \<rightharpoonup> raw_account_row"
  raw_protocol_events :: "string \<times> u32 \<rightharpoonup> raw_event_row"
  staged_account_projections :: "staged_row list"
  finalized_slot :: bigint
  processed_slot :: bigint
  ingestion_gaps :: "gap_row list"
  proj_config :: "config_projection proj_table"
  proj_providers :: "provider_projection proj_table"
  proj_provider_bonds :: "bond_projection proj_table"
  proj_jobs :: "job_projection proj_table"
  proj_challenges :: "challenge_projection proj_table"

definition empty_db :: index_db where
  "empty_db = \<lparr>indexer_slots = Map.empty, raw_account_versions = Map.empty, raw_protocol_events = Map.empty,
     staged_account_projections = [], finalized_slot = 0, processed_slot = 0, ingestion_gaps = [],
     proj_config = Map.empty, proj_providers = Map.empty, proj_provider_bonds = Map.empty, proj_jobs = Map.empty,
     proj_challenges = Map.empty\<rparr>"

section \<open>Slots\<close>

abbreviation (input) MAX_ANCESTRY_DEPTH :: nat where "MAX_ANCESTRY_DEPTH \<equiv> 256"

text \<open>The constraint of a row that is written.\<close>

definition check :: "string \<Rightarrow> bool \<Rightarrow> DbError + unit" where
  "check name c = ensure c (Sql (''violates check constraint '' @ name))"

definition reconcile_parent :: "bigint option \<Rightarrow> bigint option \<Rightarrow> Commitment \<Rightarrow> DbError + unit" where
  "reconcile_parent stored incoming current =
     (case (stored, incoming) of
        (Some a, Some b) \<Rightarrow> if a \<noteq> b then Inl (Conflict ''conflicting parent_slot for existing slot'') else Inr ()
      | (Some _, None) \<Rightarrow> Inl (Conflict ''conflicting parent_slot for existing slot'')
      | (None, Some _) \<Rightarrow>
          if current = Finalized then Inl (Conflict ''cannot set parent_slot after finalization'') else Inr ()
      | (None, None) \<Rightarrow> Inr ())"

definition cleanup_dead_slot :: "u64 \<Rightarrow> index_db \<Rightarrow> DbError + index_db" where
  "cleanup_dead_slot slot db =
     tryE (u64_to_i64 slot) (\<lambda>slot.
     Inr (db\<lparr>raw_account_versions := (\<lambda>(a, s, v).
              case raw_account_versions db (a, s, v) of
                Some r \<Rightarrow> if s = slot \<and> rar_commitment r \<noteq> Finalized then None else Some r
              | None \<Rightarrow> None),
            raw_protocol_events := (\<lambda>k.
              case raw_protocol_events db k of
                Some r \<Rightarrow> if rer_slot r = slot \<and> rer_commitment r \<noteq> Finalized then None else Some r
              | None \<Rightarrow> None),
            staged_account_projections := filter (\<lambda>r. sp_slot r \<noteq> slot) (staged_account_projections db)\<rparr>))"

definition coalesce :: "'a option \<Rightarrow> 'a option \<Rightarrow> 'a option" where
  "coalesce a b = (case a of Some x \<Rightarrow> Some x | None \<Rightarrow> b)"

text \<open>The end of \<open>upsert_slot\<close>, after the row has been written.\<close>

definition upsert_tail :: "SlotUpdate \<Rightarrow> bigint \<Rightarrow> index_db \<Rightarrow> DbError + index_db" where
  "upsert_tail update slot db =
     tryE (if su_status update = Dead then cleanup_dead_slot (su_slot update) db else Inr db) (\<lambda>db.
     Inr (if su_status update \<noteq> Dead then db\<lparr>processed_slot := max (processed_slot db) slot\<rparr> else db))"

definition upsert_slot :: "(i64 \<Rightarrow> bool) \<Rightarrow> SlotUpdate \<Rightarrow> index_db \<Rightarrow> DbError + index_db" where
  "upsert_slot time_ok update db =
     tryE (ensure (su_parent_slot update \<noteq> Some (su_slot update))
       (Conflict ''conflicting parent_slot: slot cannot parent itself'')) (\<lambda>_.
     tryE (u64_to_i64 (su_slot update)) (\<lambda>slot.
     tryE (opt_i64 (su_parent_slot update)) (\<lambda>parent.
     let block_time = (case su_block_time update of Some t \<Rightarrow> if time_ok t then Some t else None | None \<Rightarrow> None)
     in case indexer_slots db slot of
          Some row \<Rightarrow>
            (let current = row_status row
             in tryE (reconcile_parent (row_parent row) parent current) (\<lambda>_.
                tryE (ensure (\<not> (current = Finalized \<and> su_status update = Dead))
                  (Conflict ''illegal slot status transition: finalized -> dead'')) (\<lambda>_.
                tryE (ensure (\<not> (current = Dead \<and> su_status update = Finalized))
                  (Conflict ''illegal slot status transition: dead -> finalized'')) (\<lambda>_.
                if \<not> can_upgrade current (su_status update) then Inr db
                else upsert_tail update slot
                  (db\<lparr>indexer_slots := (indexer_slots db)(slot \<mapsto>
                    \<lparr>row_parent = coalesce (row_parent row) parent, row_status = su_status update,
                     row_block_time = coalesce block_time (row_block_time row)\<rparr>)\<rparr>)))))
        | None \<Rightarrow>
            upsert_tail update slot
              (db\<lparr>indexer_slots := (indexer_slots db)(slot \<mapsto>
                \<lparr>row_parent = parent, row_status = su_status update, row_block_time = block_time\<rparr>)\<rparr>))))"

fun assert_ancestry_loop :: "nat \<Rightarrow> u64 set \<Rightarrow> u64 \<Rightarrow> u64 \<Rightarrow> index_db \<Rightarrow> DbError + unit" where
  "assert_ancestry_loop 0 visited current slot db =
     Inl (Conflict ''conflicting finalized ancestry: parent chain too deep'')"
| "assert_ancestry_loop (Suc n) visited current slot db =
     (if current \<in> visited then Inl (Conflict ''conflicting finalized ancestry: parent cycle detected'')
      else
        tryE (u64_to_i64 current) (\<lambda>c.
        case indexer_slots db c of
          None \<Rightarrow>
            (if current = slot then Inl (NotFound (''unknown slot '' @ decimal (unat slot)))
             else Inl (Conflict (''conflicting finalized ancestry: missing parent slot '' @ decimal (unat current))))
        | Some row \<Rightarrow>
            (case row_parent row of
               None \<Rightarrow> Inr ()
             | Some parent \<Rightarrow>
                 tryE (i64_to_u64 parent) (\<lambda>parent_u.
                 if parent_u = current then Inl (Conflict ''conflicting finalized ancestry: self-parent'')
                 else
                   (case indexer_slots db parent of
                      None \<Rightarrow>
                        Inl (Conflict (''conflicting finalized ancestry: missing parent slot '' @ decimal (unat parent_u)))
                    | Some parent_row \<Rightarrow>
                        if row_status parent_row = Dead
                        then Inl (Conflict ''conflicting finalized ancestry: ancestor is dead'')
                        else assert_ancestry_loop n (insert current visited) parent_u slot db)))))"

definition assert_ancestry :: "u64 \<Rightarrow> index_db \<Rightarrow> DbError + unit" where
  "assert_ancestry slot db = assert_ancestry_loop MAX_ANCESTRY_DEPTH {} slot slot db"

section \<open>Projections\<close>

text \<open>\<open>ON CONFLICT (address) DO UPDATE ... WHERE as_of_slot <= EXCLUDED.as_of_slot\<close>, and
  \<open>DELETE ... WHERE address = $1 AND as_of_slot <= $2\<close>.\<close>

definition put_row :: "bytes32 \<Rightarrow> bigint \<Rightarrow> 'a \<Rightarrow> 'a proj_table \<Rightarrow> 'a proj_table" where
  "put_row a slot x t =
     (case t a of
        None \<Rightarrow> t(a \<mapsto> (slot, x))
      | Some (as_of_slot, _) \<Rightarrow> if as_of_slot \<le> slot then t(a \<mapsto> (slot, x)) else t)"

definition delete_row :: "bytes32 \<Rightarrow> bigint \<Rightarrow> 'a proj_table \<Rightarrow> 'a proj_table" where
  "delete_row a slot t =
     (case t a of None \<Rightarrow> t | Some (as_of_slot, _) \<Rightarrow> if as_of_slot \<le> slot then t(a := None) else t)"

definition ts :: "(i64 \<Rightarrow> bool) \<Rightarrow> i64 \<Rightarrow> DbError + i64" where
  "ts time_ok unix = (if time_ok unix then Inr unix else Inl (Validation ''bad timestamp''))"

definition JOB_STATES :: "string list" where
  "JOB_STATES = [''Created'', ''Funded'', ''Accepted'', ''Submitted'', ''Challenged'', ''Settled'', ''Refunded'',
     ''Expired'', ''Slashed'', ''Closed'']"

definition apply_projection :: "(i64 \<Rightarrow> bool) \<Rightarrow> DecodedProjection \<Rightarrow> index_db \<Rightarrow> DbError + index_db" where
  "apply_projection time_ok p db =
     tryE (u64_to_i64 (dp_slot p)) (\<lambda>slot.
     let a = dp_address p
     in case dp_payload p of
          TombstoneP \<Rightarrow>
            Inr (db\<lparr>proj_jobs := delete_row a slot (proj_jobs db),
                   proj_providers := delete_row a slot (proj_providers db),
                   proj_provider_bonds := delete_row a slot (proj_provider_bonds db),
                   proj_challenges := delete_row a slot (proj_challenges db),
                   proj_config := delete_row a slot (proj_config db)\<rparr>)
        | ConfigP c \<Rightarrow>
            tryE (u64_to_i64 (cp_challenge_duration_seconds c)) (\<lambda>_.
            tryE (check ''mint_decimals'' (unat (cp_mint_decimals c) \<le> 18)) (\<lambda>_.
            Inr (db\<lparr>proj_config := put_row a slot c (proj_config db)\<rparr>)))
        | ProviderP q \<Rightarrow>
            tryE (check ''status'' (pp_status q \<in> {''Active'', ''Inactive''})) (\<lambda>_.
            tryE (check ''execution_key_count'' (unat (pp_execution_key_count q) \<le> 4)) (\<lambda>_.
            Inr (db\<lparr>proj_providers := put_row a slot q (proj_providers db)\<rparr>)))
        | ProviderBondP b \<Rightarrow> Inr (db\<lparr>proj_provider_bonds := put_row a slot b (proj_provider_bonds db)\<rparr>)
        | JobP j \<Rightarrow>
            tryE (ts time_ok (jp_fund_deadline j)) (\<lambda>_.
            tryE (ts time_ok (jp_accept_deadline j)) (\<lambda>_.
            tryE (ts time_ok (jp_work_deadline j)) (\<lambda>_.
            tryE (ts time_ok (jp_auto_settle_deadline j)) (\<lambda>_.
            tryE (check ''state'' (jp_state j \<in> set JOB_STATES)) (\<lambda>_.
            tryE (check ''mint_decimals'' (unat (jp_mint_decimals j) \<le> 18)) (\<lambda>_.
            Inr (db\<lparr>proj_jobs := put_row a slot j (proj_jobs db)\<rparr>)))))))
        | ChallengeP h \<Rightarrow>
            tryE (ts time_ok (hp_deadline h)) (\<lambda>_.
            tryE (check ''bond_amount'' (hp_bond_amount h = 0)) (\<lambda>_.
            tryE (check ''status'' (hp_status h \<in> {''Open'', ''Resolved''})) (\<lambda>_.
            Inr (db\<lparr>proj_challenges := put_row a slot h (proj_challenges db)\<rparr>)))))"

fun apply_projections :: "(i64 \<Rightarrow> bool) \<Rightarrow> DecodedProjection list \<Rightarrow> index_db \<Rightarrow> DbError + index_db" where
  "apply_projections time_ok [] db = Inr db"
| "apply_projections time_ok (p # ps) db = tryE (apply_projection time_ok p db) (apply_projections time_ok ps)"

text \<open>Staging: \<open>ON CONFLICT (address, slot, write_version) DO UPDATE\<close> and the deletion by that key.\<close>

fun stage_row :: "staged_row \<Rightarrow> staged_row list \<Rightarrow> staged_row list" where
  "stage_row r [] = [r]"
| "stage_row r (x # xs) =
     (if sp_address x = sp_address r \<and> sp_slot x = sp_slot r \<and> sp_write_version x = sp_write_version r
      then r # xs else x # stage_row r xs)"

definition unstage_row :: "bytes32 \<Rightarrow> bigint \<Rightarrow> bigint \<Rightarrow> staged_row list \<Rightarrow> staged_row list" where
  "unstage_row a slot v = filter (\<lambda>x. \<not> (sp_address x = a \<and> sp_slot x = slot \<and> sp_write_version x = v))"

definition slot_finalized :: "bigint \<Rightarrow> index_db \<Rightarrow> bool" where
  "slot_finalized slot db = (case indexer_slots db slot of Some row \<Rightarrow> row_status row = Finalized | None \<Rightarrow> False)"

definition insert_account_with_projection ::
    "(i64 \<Rightarrow> bool) \<Rightarrow> RawAccountVersion \<Rightarrow> DecodedProjection option \<Rightarrow> index_db \<Rightarrow> DbError + bool \<times> index_db" where
  "insert_account_with_projection time_ok acc projection db =
     tryE (u64_to_i64 (rav_slot acc)) (\<lambda>slot.
     tryE (u64_to_i64 (rav_write_version acc)) (\<lambda>write_version.
     let apply_now = slot_finalized slot db \<or> rav_commitment acc = Finalized;
         commitment = (if apply_now then Finalized else rav_commitment acc)
     in tryE (ensure (commitment \<noteq> Dead) (Validation ''account commitment cannot be dead'')) (\<lambda>_.
     let key = (rav_address acc, slot, write_version)
     in if raw_account_versions db key \<noteq> None then Inr (False, db)
        else
          let db = db\<lparr>raw_account_versions := (raw_account_versions db)(key \<mapsto>
                \<lparr>rar_owner = rav_owner acc, rar_lamports = rav_lamports acc, rar_executable = rav_executable acc,
                 rar_data = rav_data acc, rar_deleted = rav_deleted acc, rar_commitment = commitment\<rparr>)\<rparr>
          in case projection of
               None \<Rightarrow> Inr (True, db)
             | Some p \<Rightarrow>
                 tryE (u64_to_i64 (dp_slot p)) (\<lambda>p_slot.
                 tryE (u64_to_i64 (dp_write_version p)) (\<lambda>p_version.
                 let db = db\<lparr>staged_account_projections :=
                       stage_row \<lparr>sp_address = dp_address p, sp_slot = p_slot, sp_write_version = p_version,
                         sp_kind = dp_kind p, sp_payload = dp_payload p\<rparr> (staged_account_projections db)\<rparr>
                 in if apply_now
                    then tryE (apply_projection time_ok p db) (\<lambda>db.
                         Inr (True, db\<lparr>staged_account_projections :=
                           unstage_row (dp_address p) p_slot p_version (staged_account_projections db)\<rparr>))
                    else Inr (True, db))))))"

section \<open>Events\<close>

definition insert_event :: "(i64 \<Rightarrow> bool) \<Rightarrow> RawProtocolEvent \<Rightarrow> index_db \<Rightarrow> DbError + bool \<times> index_db" where
  "insert_event time_ok ev db =
     tryE (ensure (time_ok (rpe_event_timestamp ev)) (Validation ''bad event timestamp'')) (\<lambda>_.
     tryE (u64_to_i64 (rpe_slot ev)) (\<lambda>slot.
     let commitment = (if slot_finalized slot db then Finalized else rpe_commitment ev)
     in tryE (ensure (commitment \<noteq> Dead) (Validation ''event commitment cannot be dead'')) (\<lambda>_.
     tryE (check ''signature'' (64 \<le> length (rpe_signature ev) \<and> length (rpe_signature ev) \<le> 128)) (\<lambda>_.
     tryE (check ''event_index'' (unat (rpe_event_index ev) < 256)) (\<lambda>_.
     tryE (check ''kind'' (1 \<le> unat (rpe_kind ev) \<and> unat (rpe_kind ev) \<le> 17)) (\<lambda>_.
     let key = (rpe_signature ev, rpe_event_index ev)
     in if raw_protocol_events db key \<noteq> None then Inr (False, db)
        else Inr (True, db\<lparr>raw_protocol_events := (raw_protocol_events db)(key \<mapsto>
          \<lparr>rer_slot = slot, rer_program_id = rpe_program_id ev, rer_kind = rpe_kind ev, rer_subject = rpe_subject ev,
           rer_actor = rpe_actor ev, rer_amount = rpe_amount ev, rer_event_timestamp = rpe_event_timestamp ev,
           rer_commitment = commitment\<rparr>)\<rparr>)))))))"

section \<open>Finalization\<close>

text \<open>The rows of a slot in the order of the query. The payload of a staged row has been written by
  \<open>insert_account_with_projection\<close>, so it reads back.\<close>

definition staged_for :: "bigint \<Rightarrow> index_db \<Rightarrow> staged_row list" where
  "staged_for slot db =
     sort_key (\<lambda>r. (to_bytes (sp_address r), sp_write_version r))
       (filter (\<lambda>r. sp_slot r = slot) (staged_account_projections db))"

fun staged_projections :: "staged_row list \<Rightarrow> DbError + DecodedProjection list" where
  "staged_projections [] = Inr []"
| "staged_projections (r # rs) =
     tryE (i64_to_u64 (sp_slot r)) (\<lambda>slot.
     tryE (i64_to_u64 (sp_write_version r)) (\<lambda>version.
     tryE (staged_projections rs) (\<lambda>ps.
     Inr (\<lparr>dp_kind = sp_kind r, dp_address = sp_address r, dp_slot = slot, dp_write_version = version,
       dp_payload = sp_payload r\<rparr> # ps))))"

text \<open>What is done once the status and the ancestry have been checked.\<close>

definition finalize_tables :: "(i64 \<Rightarrow> bool) \<Rightarrow> bigint \<Rightarrow> slot_row \<Rightarrow> index_db \<Rightarrow> DbError + nat \<times> index_db" where
  "finalize_tables time_ok slot row db =
     tryE (staged_projections (staged_for slot db)) (\<lambda>projections.
     let db = (if row_status row \<noteq> Finalized
               then db\<lparr>indexer_slots := (indexer_slots db)(slot \<mapsto> row\<lparr>row_status := Finalized\<rparr>)\<rparr> else db);
         db = db\<lparr>raw_account_versions := (\<lambda>(a, s, v). map_option
                 (\<lambda>r. if s = slot then r\<lparr>rar_commitment := Finalized\<rparr> else r) (raw_account_versions db (a, s, v))),
               raw_protocol_events := (\<lambda>k. map_option
                 (\<lambda>r. if rer_slot r = slot then r\<lparr>rer_commitment := Finalized\<rparr> else r) (raw_protocol_events db k))\<rparr>
     in tryE (apply_projections time_ok projections db) (\<lambda>db.
        Inr (length projections,
          db\<lparr>staged_account_projections := filter (\<lambda>r. sp_slot r \<noteq> slot) (staged_account_projections db),
             finalized_slot := max (finalized_slot db) slot,
             processed_slot := max (processed_slot db) slot\<rparr>)))"

definition finalize_slot :: "(i64 \<Rightarrow> bool) \<Rightarrow> u64 \<Rightarrow> index_db \<Rightarrow> DbError + nat \<times> index_db" where
  "finalize_slot time_ok slot db =
     tryE (u64_to_i64 slot) (\<lambda>slot_i.
     case indexer_slots db slot_i of
       None \<Rightarrow> Inl (NotFound (''unknown slot '' @ decimal (unat slot)))
     | Some row \<Rightarrow>
         tryE (ensure (row_status row \<noteq> Dead) (Conflict (''cannot finalize dead slot '' @ decimal (unat slot)))) (\<lambda>_.
         tryE (if row_status row \<noteq> Finalized then assert_ancestry slot db else Inr ()) (\<lambda>_.
         finalize_tables time_ok slot_i row db)))"

definition checkpoint :: "index_db \<Rightarrow> DbError + u64 \<times> u64" where
  "checkpoint db =
     tryE (i64_to_u64 (finalized_slot db)) (\<lambda>f. tryE (i64_to_u64 (processed_slot db)) (\<lambda>p. Inr (f, p)))"

section \<open>Gaps\<close>

definition record_gap :: "u64 \<Rightarrow> u64 \<Rightarrow> index_db \<Rightarrow> DbError + index_db" where
  "record_gap from_slot to_slot db =
     tryE (u64_to_i64 from_slot) (\<lambda>f.
     tryE (u64_to_i64 to_slot) (\<lambda>t.
     tryE (check ''to_slot'' (f \<le> t)) (\<lambda>_.
     Inr (if \<exists>g\<in>set (ingestion_gaps db). gap_from g = f \<and> gap_to g = t then db
          else db\<lparr>ingestion_gaps := ingestion_gaps db @
            [\<lparr>gap_from = f, gap_to = t, gap_status = ''open'', gap_attempts = 0, gap_last_error = None\<rparr>]\<rparr>))))"

definition update_gap :: "u64 \<Rightarrow> u64 \<Rightarrow> (gap_row \<Rightarrow> gap_row) \<Rightarrow> index_db \<Rightarrow> DbError + index_db" where
  "update_gap from_slot to_slot change db =
     tryE (u64_to_i64 from_slot) (\<lambda>f.
     tryE (u64_to_i64 to_slot) (\<lambda>t.
     let gaps = map (\<lambda>g. if gap_from g = f \<and> gap_to g = t then change g else g) (ingestion_gaps db)
     in tryE (check ''attempts'' (\<forall>g\<in>set gaps. gap_attempts g < 1000)) (\<lambda>_.
        Inr (db\<lparr>ingestion_gaps := gaps\<rparr>))))"

definition mark_gap_partial :: "u64 \<Rightarrow> u64 \<Rightarrow> string \<Rightarrow> index_db \<Rightarrow> DbError + index_db" where
  "mark_gap_partial from_slot to_slot err db =
     update_gap from_slot to_slot
       (\<lambda>g. g\<lparr>gap_status := ''partial'', gap_attempts := gap_attempts g + 1, gap_last_error := Some (take_chars 512 err)\<rparr>) db"

definition mark_gap_failed :: "u64 \<Rightarrow> u64 \<Rightarrow> string \<Rightarrow> index_db \<Rightarrow> DbError + index_db" where
  "mark_gap_failed from_slot to_slot err db =
     update_gap from_slot to_slot
       (\<lambda>g. g\<lparr>gap_status := ''failed'', gap_attempts := gap_attempts g + 1, gap_last_error := Some (take_chars 512 err)\<rparr>) db"

definition mark_gap_repaired :: "u64 \<Rightarrow> u64 \<Rightarrow> index_db \<Rightarrow> DbError + index_db" where
  "mark_gap_repaired from_slot to_slot db = update_gap from_slot to_slot (\<lambda>g. g\<lparr>gap_status := ''repaired''\<rparr>) db"

fun gap_pairs :: "gap_row list \<Rightarrow> DbError + (u64 \<times> u64 \<times> string) list" where
  "gap_pairs [] = Inr []"
| "gap_pairs (g # gs) =
     tryE (i64_to_u64 (gap_from g)) (\<lambda>a. tryE (i64_to_u64 (gap_to g)) (\<lambda>b.
     tryE (gap_pairs gs) (\<lambda>out. Inr ((a, b, gap_status g) # out))))"

definition open_gaps :: "index_db \<Rightarrow> DbError + (u64 \<times> u64 \<times> string) list" where
  "open_gaps db =
     gap_pairs (take 32 (sort_key gap_from
       (filter (\<lambda>g. gap_status g \<in> {''partial'', ''open'', ''failed'', ''repairing''}) (ingestion_gaps db))))"

end
