(* ===== verification/Index_Finality.thy ===== *)
theory Index_Finality
  imports Index_Store
begin

text \<open>
  What the tables of the index promise: the status of a slot only advances (\<open>slots_only_advance\<close>), a slot is
  made final only together with its whole recorded ancestry (\<open>finalization_requires_lineage\<close>), and when it is, the
  projections show the latest version of each account (\<open>finalized_projection_is_latest\<close>).
\<close>

section \<open>Steps\<close>

inductive index_step :: "(i64 \<Rightarrow> bool) \<Rightarrow> index_db \<Rightarrow> index_db \<Rightarrow> bool" for time_ok where
  Slot_step: "upsert_slot time_ok update db = Inr db' \<Longrightarrow> index_step time_ok db db'"
| Account_step: "insert_account_with_projection time_ok acc projection db = Inr (new, db') \<Longrightarrow> index_step time_ok db db'"
| Event_step: "insert_event time_ok ev db = Inr (new, db') \<Longrightarrow> index_step time_ok db db'"
| Finalize_step: "finalize_slot time_ok slot db = Inr (n, db') \<Longrightarrow> index_step time_ok db db'"
| Record_gap_step: "record_gap a b db = Inr db' \<Longrightarrow> index_step time_ok db db'"
| Partial_gap_step: "mark_gap_partial a b e db = Inr db' \<Longrightarrow> index_step time_ok db db'"
| Failed_gap_step: "mark_gap_failed a b e db = Inr db' \<Longrightarrow> index_step time_ok db db'"
| Repaired_gap_step: "mark_gap_repaired a b db = Inr db' \<Longrightarrow> index_step time_ok db db'"

inductive index_reachable :: "(i64 \<Rightarrow> bool) \<Rightarrow> index_db \<Rightarrow> bool" for time_ok where
  Empty: "index_reachable time_ok empty_db"
| Step: "index_reachable time_ok db \<Longrightarrow> index_step time_ok db db' \<Longrightarrow> index_reachable time_ok db'"

section \<open>What the operations touch\<close>

definition same_slots :: "index_db \<Rightarrow> index_db \<Rightarrow> bool" where
  "same_slots db db' \<longleftrightarrow> indexer_slots db' = indexer_slots db \<and> finalized_slot db' = finalized_slot db \<and>
     processed_slot db' = processed_slot db"

lemma apply_projection_slots: "apply_projection time_ok p db = Inr db' \<Longrightarrow> same_slots db db' \<and>
    staged_account_projections db' = staged_account_projections db"
  by (cases "dp_payload p")
    (auto simp: apply_projection_def result_inv Let_def same_slots_def)

lemma apply_projections_slots: "apply_projections time_ok ps db = Inr db' \<Longrightarrow> same_slots db db' \<and>
    staged_account_projections db' = staged_account_projections db"
proof (induction ps arbitrary: db)
  case (Cons p ps)
  then obtain db1 where "apply_projection time_ok p db = Inr db1" "apply_projections time_ok ps db1 = Inr db'"
    by (auto simp: result_inv)
  with Cons.IH [of db1] apply_projection_slots [of time_ok p db db1] show ?case by (simp add: same_slots_def)
qed (simp add: same_slots_def)

lemma insert_account_slots: "insert_account_with_projection time_ok acc projection db = Inr (new, db') \<Longrightarrow> same_slots db db'"
  by (cases projection)
    (auto simp: insert_account_with_projection_def result_inv Let_def same_slots_def
      dest!: apply_projection_slots split: if_splits)

lemma insert_event_slots: "insert_event time_ok ev db = Inr (new, db') \<Longrightarrow> same_slots db db'"
  by (auto simp: insert_event_def result_inv Let_def same_slots_def split: if_splits)

lemma update_gap_slots: "update_gap a b f db = Inr db' \<Longrightarrow> same_slots db db'"
  by (auto simp: update_gap_def result_inv Let_def same_slots_def)

lemma gap_slots:
  "record_gap a b db = Inr db' \<Longrightarrow> same_slots db db'"
  "mark_gap_partial a b e db = Inr db' \<Longrightarrow> same_slots db db'"
  "mark_gap_failed a b e db = Inr db' \<Longrightarrow> same_slots db db'"
  "mark_gap_repaired a b db = Inr db' \<Longrightarrow> same_slots db db'"
  by (auto simp: record_gap_def result_inv same_slots_def)
    (simp_all add: mark_gap_partial_def mark_gap_failed_def mark_gap_repaired_def update_gap_slots [unfolded same_slots_def])

lemma cleanup_slots: "cleanup_dead_slot slot db = Inr db' \<Longrightarrow> same_slots db db'"
  by (auto simp: cleanup_dead_slot_def result_inv same_slots_def)

lemma upsert_tail_slots:
  "upsert_tail update slot db = Inr db' \<Longrightarrow> indexer_slots db' = indexer_slots db \<and> finalized_slot db' = finalized_slot db \<and>
    processed_slot db' = (if su_status update = Dead then processed_slot db else max (processed_slot db) slot)"
  by (auto simp: upsert_tail_def result_inv same_slots_def dest!: cleanup_slots split: if_splits)

text \<open>The branches of \<open>upsert_slot\<close> that succeed.\<close>

lemma upsert_slot_cases:
  assumes "upsert_slot time_ok update db = Inr db'"
  obtains (ignored) row where "indexer_slots db (uint (su_slot update)) = Some row"
      "\<not> can_upgrade (row_status row) (su_status update)" "db' = db"
  | (updated) row row' where "indexer_slots db (uint (su_slot update)) = Some row"
      "can_upgrade (row_status row) (su_status update)" "row_status row' = su_status update"
      "row_parent row \<noteq> None \<or> row_status row = Finalized \<longrightarrow> row_parent row' = row_parent row"
      "row_parent row' = row_parent row \<or> (\<exists>p. su_parent_slot update = Some p \<and> row_parent row' = Some (uint p) \<and> unat p < 2 ^ 63)"
      "upsert_tail update (uint (su_slot update))
        (db\<lparr>indexer_slots := (indexer_slots db)(uint (su_slot update) \<mapsto> row')\<rparr>) = Inr db'"
  | (inserted) row' where "indexer_slots db (uint (su_slot update)) = None" "row_status row' = su_status update"
      "row_parent row' = None \<or> (\<exists>p. su_parent_slot update = Some p \<and> row_parent row' = Some (uint p) \<and> unat p < 2 ^ 63)"
      "upsert_tail update (uint (su_slot update))
        (db\<lparr>indexer_slots := (indexer_slots db)(uint (su_slot update) \<mapsto> row')\<rparr>) = Inr db'"
proof -
  from assms obtain parent where parent: "opt_i64 (su_parent_slot update) = Inr parent"
    by (auto simp: upsert_slot_def result_inv Let_def)
  let ?s = "uint (su_slot update)"
  have p: "parent = None \<or> (\<exists>q. su_parent_slot update = Some q \<and> parent = Some (uint q) \<and> unat q < 2 ^ 63)"
    using parent by (auto simp: opt_i64_def result_inv split: option.splits)
  show ?thesis
  proof (cases "indexer_slots db ?s")
    case None
    let ?row' = "\<lparr>row_parent = parent, row_status = su_status update,
        row_block_time = (case su_block_time update of Some t \<Rightarrow> if time_ok t then Some t else None | None \<Rightarrow> None)\<rparr>"
    show ?thesis
    proof (rule inserted [of ?row'])
      show "upsert_tail update ?s (db\<lparr>indexer_slots := (indexer_slots db)(?s \<mapsto> ?row')\<rparr>) = Inr db'"
        using assms parent None by (auto simp: upsert_slot_def result_inv Let_def)
    qed (use p None in auto)
  next
    case (Some row)
    show ?thesis
    proof (cases "can_upgrade (row_status row) (su_status update)")
      case False
      with assms parent Some show ?thesis
        by (intro ignored) (auto simp: upsert_slot_def result_inv Let_def)
    next
      case True
      have rec: "reconcile_parent (row_parent row) parent (row_status row) = Inr ()"
        using assms parent Some by (auto simp: upsert_slot_def result_inv Let_def)
      let ?row' = "\<lparr>row_parent = coalesce (row_parent row) parent, row_status = su_status update,
        row_block_time = coalesce (case su_block_time update of Some t \<Rightarrow> if time_ok t then Some t else None | None \<Rightarrow> None)
          (row_block_time row)\<rparr>"
      show ?thesis
      proof (rule updated [of row ?row'])
        show "row_parent row \<noteq> None \<or> row_status row = Finalized \<longrightarrow> row_parent ?row' = row_parent row"
          using rec by (auto simp: reconcile_parent_def coalesce_def split: option.splits if_splits)
        show "row_parent ?row' = row_parent row \<or> (\<exists>p. su_parent_slot update = Some p \<and>
            row_parent ?row' = Some (uint p) \<and> unat p < 2 ^ 63)"
          using p by (auto simp: coalesce_def split: option.splits)
        show "upsert_tail update ?s (db\<lparr>indexer_slots := (indexer_slots db)(?s \<mapsto> ?row')\<rparr>) = Inr db'"
          using assms parent Some True by (auto simp: upsert_slot_def result_inv Let_def)
      qed (simp_all add: Some True)
    qed
  qed
qed

text \<open>What a successful finalization has checked and done.\<close>

lemma finalize_tables_inv:
  assumes "finalize_tables time_ok slot row db = Inr (n, db')"
  obtains ps slots accs evs db1 where "staged_projections (staged_for slot db) = Inr ps"
    "slots = (if row_status row \<noteq> Finalized then (indexer_slots db)(slot \<mapsto> row\<lparr>row_status := Finalized\<rparr>)
              else indexer_slots db)"
    "apply_projections time_ok ps
       (db\<lparr>indexer_slots := slots, raw_account_versions := accs, raw_protocol_events := evs\<rparr>) = Inr db1"
    "db' = db1\<lparr>staged_account_projections := filter (\<lambda>r. sp_slot r \<noteq> slot) (staged_account_projections db1),
       finalized_slot := max (finalized_slot db1) slot, processed_slot := max (processed_slot db1) slot\<rparr>"
proof -
  let ?accs = "\<lambda>(a, s, v). map_option (\<lambda>r. if s = slot then r\<lparr>rar_commitment := Finalized\<rparr> else r)
    (raw_account_versions db (a, s, v))"
  let ?evs = "\<lambda>k. map_option (\<lambda>r. if rer_slot r = slot then r\<lparr>rer_commitment := Finalized\<rparr> else r)
    (raw_protocol_events db k)"
  let ?slots = "if row_status row \<noteq> Finalized then (indexer_slots db)(slot \<mapsto> row\<lparr>row_status := Finalized\<rparr>)
    else indexer_slots db"
  have db: "(if row_status row \<noteq> Finalized
      then db\<lparr>indexer_slots := (indexer_slots db)(slot \<mapsto> row\<lparr>row_status := Finalized\<rparr>)\<rparr> else db)
      = db\<lparr>indexer_slots := ?slots\<rparr>"
    by simp
  have raw: "raw_account_versions (db\<lparr>indexer_slots := m\<rparr>) = raw_account_versions db"
    "raw_protocol_events (db\<lparr>indexer_slots := m\<rparr>) = raw_protocol_events db" for m by simp_all
  obtain ps db1 where "staged_projections (staged_for slot db) = Inr ps"
    "apply_projections time_ok ps
       (db\<lparr>indexer_slots := ?slots, raw_account_versions := ?accs, raw_protocol_events := ?evs\<rparr>) = Inr db1"
    "db' = db1\<lparr>staged_account_projections := filter (\<lambda>r. sp_slot r \<noteq> slot) (staged_account_projections db1),
       finalized_slot := max (finalized_slot db1) slot, processed_slot := max (processed_slot db1) slot\<rparr>"
    using assms unfolding finalize_tables_def Let_def db raw tryE_eq_Inr by blast
  then show thesis using that by blast
qed

lemma finalize_tables_slots:
  assumes "finalize_tables time_ok slot row db = Inr (n, db')" "indexer_slots db slot = Some row"
  shows "indexer_slots db' = (indexer_slots db)(slot \<mapsto> row\<lparr>row_status := Finalized\<rparr>)"
    "finalized_slot db' = max (finalized_slot db) slot" "processed_slot db' = max (processed_slot db) slot"
proof -
  have same: "row_status row = Finalized \<Longrightarrow> row\<lparr>row_status := Finalized\<rparr> = row" by (cases row) simp
  show "indexer_slots db' = (indexer_slots db)(slot \<mapsto> row\<lparr>row_status := Finalized\<rparr>)"
    "finalized_slot db' = max (finalized_slot db) slot" "processed_slot db' = max (processed_slot db) slot"
    using assms(1)
    by (rule finalize_tables_inv,
        use assms(2) same in \<open>auto dest!: apply_projections_slots simp: same_slots_def fun_upd_idem split: if_splits\<close>)+
qed

lemma finalize_slot_inv:
  assumes "finalize_slot time_ok slot db = Inr (n, db')"
  obtains row where "indexer_slots db (uint slot) = Some row" "row_status row \<noteq> Dead"
    "row_status row \<noteq> Finalized \<Longrightarrow> assert_ancestry slot db = Inr ()"
    "finalize_tables time_ok (uint slot) row db = Inr (n, db')"
  using assms by (auto simp: finalize_slot_def result_inv split: option.splits if_splits)

section \<open>Slots\<close>

text \<open>What a slot's row allows to follow.\<close>

definition advances :: "slot_row \<Rightarrow> slot_row \<Rightarrow> bool" where
  "advances r r' \<longleftrightarrow> can_upgrade (row_status r) (row_status r') \<and>
     (row_parent r \<noteq> None \<or> row_status r = Finalized \<longrightarrow> row_parent r' = row_parent r)"

lemma advances_refl [simp]: "advances r r"
  by (simp add: advances_def can_upgrade.simps)

lemma advances_trans: "advances r r' \<Longrightarrow> advances r' r'' \<Longrightarrow> advances r r''"
  by (cases "row_status r"; cases "row_status r'"; cases "row_status r''")
    (auto simp: advances_def can_upgrade.simps)

lemma step_advances:
  assumes "index_step time_ok db db'" "indexer_slots db s = Some r"
  shows "\<exists>r'. indexer_slots db' s = Some r' \<and> advances r r'"
  using assms(1)
proof cases
  case (Slot_step update)
  then show ?thesis
  proof (cases rule: upsert_slot_cases)
    case (updated row row')
    then have "advances row row'" by (simp add: advances_def)
    then show ?thesis
      using upsert_tail_slots [OF updated(6)] assms(2) updated(1) by auto
  next
    case (inserted row')
    then show ?thesis
      using upsert_tail_slots [OF inserted(4)] assms(2) by auto
  qed (use assms(2) in auto)
next
  case (Finalize_step slot n)
  then obtain row where row: "indexer_slots db (uint slot) = Some row" "row_status row \<noteq> Dead"
    "finalize_tables time_ok (uint slot) row db = Inr (n, db')"
    by (metis finalize_slot_inv)
  have "advances row (row\<lparr>row_status := Finalized\<rparr>)"
    using row(2) by (cases "row_status row") (auto simp: advances_def can_upgrade.simps)
  then show ?thesis
    using finalize_tables_slots(1) [OF row(3,1)] assms(2) row(1) by auto
qed (use assms(2) insert_account_slots insert_event_slots gap_slots in \<open>auto simp: same_slots_def\<close>)

section \<open>Checkpoints and recorded parents\<close>

definition slots_ok :: "index_db \<Rightarrow> bool" where
  "slots_ok db \<longleftrightarrow>
     (\<forall>s r p. indexer_slots db s = Some r \<longrightarrow> row_parent r = Some p \<longrightarrow> 0 \<le> p \<and> p < 2 ^ 63) \<and>
     0 \<le> finalized_slot db \<and> finalized_slot db \<le> processed_slot db \<and> processed_slot db < 2 ^ 63"

lemma slots_okD: "slots_ok db \<Longrightarrow> indexer_slots db s = Some r \<Longrightarrow> row_parent r = Some p \<Longrightarrow> 0 \<le> p \<and> p < 2 ^ 63"
  by (auto simp: slots_ok_def)

lemma uint_63: "unat (p :: u64) < 9223372036854775808 \<Longrightarrow> uint p < 9223372036854775808"
  using of_nat_less_iff [of "unat p" 9223372036854775808, where 'a = int] by simp

lemma upsert_keeps_ok:
  assumes "slots_ok db" "upsert_slot time_ok update db = Inr db'"
  shows "slots_ok db'"
proof -
  have slot: "uint (su_slot update) < 2 ^ 63"
    using assms(2) by (auto simp: upsert_slot_def result_inv Let_def uint_63)
  show ?thesis
    using assms(2)
  proof (cases rule: upsert_slot_cases)
    case (updated row row')
    have "0 \<le> q \<and> q < 2 ^ 63" if "row_parent row' = Some q" for q
      using updated(5) slots_okD [OF assms(1) updated(1)] that by (auto simp: uint_63)
    with assms(1) slot upsert_tail_slots [OF updated(6)] show ?thesis by (auto simp: slots_ok_def)
  next
    case (inserted row')
    have "0 \<le> q \<and> q < 2 ^ 63" if "row_parent row' = Some q" for q
      using inserted(3) that by (auto simp: uint_63)
    with assms(1) slot upsert_tail_slots [OF inserted(4)] show ?thesis by (auto simp: slots_ok_def)
  qed (use assms(1) in simp)
qed

lemma same_slots_ok: "same_slots db db' \<Longrightarrow> slots_ok db \<Longrightarrow> slots_ok db'"
  by (simp add: same_slots_def slots_ok_def)

lemma finalize_keeps_ok:
  assumes "slots_ok db" "finalize_slot time_ok slot db = Inr (n, db')"
  shows "slots_ok db'"
proof -
  obtain row where row: "indexer_slots db (uint slot) = Some row"
    "finalize_tables time_ok (uint slot) row db = Inr (n, db')"
    using finalize_slot_inv [OF assms(2)] by metis
  have "uint slot < 2 ^ 63"
    using assms(2) by (auto simp: finalize_slot_def result_inv uint_63)
  then show ?thesis
    using assms(1) finalize_tables_slots [OF row(2,1)] slots_okD [OF assms(1) row(1)]
    by (auto simp: slots_ok_def)
qed

lemma step_slots_ok: "index_step time_ok db db' \<Longrightarrow> slots_ok db \<Longrightarrow> slots_ok db'"
  by (cases rule: index_step.cases, assumption)
    (auto intro: upsert_keeps_ok finalize_keeps_ok dest: insert_account_slots insert_event_slots gap_slots same_slots_ok)

lemma reachable_slots_ok: "index_reachable time_ok db \<Longrightarrow> slots_ok db"
  by (induction rule: index_reachable.induct) (auto simp: slots_ok_def empty_db_def dest: step_slots_ok)

section \<open>Ancestry\<close>

text \<open>A chain of slots from child to parent, all on record, none of the parents dead, the last one without a recorded parent.\<close>

fun lineage :: "index_db \<Rightarrow> u64 list \<Rightarrow> bool" where
  "lineage db [] = False"
| "lineage db [s] = (unat s < 2 ^ 63 \<and> (\<exists>row. indexer_slots db (uint s) = Some row \<and> row_parent row = None))"
| "lineage db (s # p # path) =
     (unat s < 2 ^ 63 \<and> s \<noteq> p \<and>
      (\<exists>row parent_row. indexer_slots db (uint s) = Some row \<and> row_parent row = Some (uint p) \<and>
         indexer_slots db (uint p) = Some parent_row \<and> row_status parent_row \<noteq> Dead) \<and> lineage db (p # path))"

lemma lineage_unique: "lineage db path \<Longrightarrow> lineage db path' \<Longrightarrow> hd path = hd path' \<Longrightarrow> path = path'"
proof (induction db path arbitrary: path' rule: lineage.induct)
  case (2 db s)
  then show ?case by (cases path'; cases "tl path'") auto
next
  case (3 db s p path)
  from 3(3,4) show ?case
  proof (cases path' rule: list.exhaust)
    case (Cons s' rest)
    then obtain p' path'' where rest: "rest = p' # path''" using 3(2-4) by (cases rest) auto
    then have "uint p' = uint p" using 3(2-4) Cons by auto
    then have "p' = p" by (simp add: word_uint_eq_iff)
    moreover have "p # path = rest" using 3 Cons rest \<open>p' = p\<close> by (intro 3(1)) auto
    ultimately show ?thesis using 3(4) Cons rest by simp
  qed simp
qed simp

lemma lineage_suffix: "lineage db (xs @ s # ys) \<Longrightarrow> lineage db (s # ys)"
  by (induction xs rule: induct_list012) auto

lemma lineage_distinct: "lineage db path \<Longrightarrow> distinct path"
proof (induction path)
  case (Cons s path)
  have "lineage db path \<or> path = []" using Cons.prems by (cases path) auto
  moreover have "s \<notin> set path"
  proof
    assume "s \<in> set path"
    then obtain xs ys where "path = xs @ s # ys" by (auto simp: in_set_conv_decomp)
    then have "lineage db (s # ys)" using Cons.prems lineage_suffix [of db "s # xs" s ys] by simp
    then have "s # ys = s # path" using lineage_unique [OF _ Cons.prems] by simp
    with \<open>path = xs @ s # ys\<close> show False by simp
  qed
  ultimately show ?case using Cons.IH by auto
qed simp

lemma ancestry_step:
  "assert_ancestry_loop (Suc n) visited current slot db = Inr () \<longleftrightarrow>
     current \<notin> visited \<and> unat current < 2 ^ 63 \<and>
     (\<exists>row. indexer_slots db (uint current) = Some row \<and>
       (row_parent row = None \<or>
        (\<exists>parent parent_row. row_parent row = Some parent \<and> 0 \<le> parent \<and> word_of_int parent \<noteq> current \<and>
           indexer_slots db parent = Some parent_row \<and> row_status parent_row \<noteq> Dead \<and>
           assert_ancestry_loop n (insert current visited) (word_of_int parent) slot db = Inr ())))"
  by (auto simp: result_inv split: option.splits if_splits)

lemma uint_of_bigint: "0 \<le> p \<Longrightarrow> p < 2 ^ 63 \<Longrightarrow> uint (word_of_int p :: u64) = p"
  by (simp add: unsigned_of_int take_bit_int_eq_self)

lemma ancestry_lineage:
  assumes ok: "slots_ok db"
  shows "assert_ancestry_loop n visited current slot db = Inr () \<Longrightarrow>
    \<exists>path. lineage db (current # path) \<and> length path < n"
proof (induction n arbitrary: visited current)
  case (Suc n)
  obtain row where row: "unat current < 2 ^ 63" "indexer_slots db (uint current) = Some row"
    and more: "row_parent row = None \<or>
        (\<exists>parent parent_row. row_parent row = Some parent \<and> 0 \<le> parent \<and> word_of_int parent \<noteq> current \<and>
           indexer_slots db parent = Some parent_row \<and> row_status parent_row \<noteq> Dead \<and>
           assert_ancestry_loop n (insert current visited) (word_of_int parent) slot db = Inr ())"
    using Suc.prems unfolding ancestry_step by blast
  from more show ?case
  proof
    assume "row_parent row = None"
    then show ?thesis using row by (intro exI [of _ "[]"]) simp
  next
    assume "\<exists>parent parent_row. row_parent row = Some parent \<and> 0 \<le> parent \<and> word_of_int parent \<noteq> current \<and>
           indexer_slots db parent = Some parent_row \<and> row_status parent_row \<noteq> Dead \<and>
           assert_ancestry_loop n (insert current visited) (word_of_int parent) slot db = Inr ()"
    then obtain parent parent_row where p: "row_parent row = Some parent" "0 \<le> parent" "word_of_int parent \<noteq> current"
      "indexer_slots db parent = Some parent_row" "row_status parent_row \<noteq> Dead"
      "assert_ancestry_loop n (insert current visited) (word_of_int parent) slot db = Inr ()" by blast
    have u: "uint (word_of_int parent :: u64) = parent"
      using slots_okD [OF ok row(2) p(1)] by (intro uint_of_bigint) auto
    obtain path where path: "lineage db ((word_of_int parent :: u64) # path)" "length path < n" using Suc.IH [OF p(6)] by blast
    have "lineage db (current # word_of_int parent # path)"
      using row p path(1) u by auto
    then show ?thesis using path(2) by (intro exI [of _ "word_of_int parent # path"]) simp
  qed
qed simp

lemma lineage_ancestry:
  "lineage db (current # path) \<Longrightarrow> length path < n \<Longrightarrow> set (current # path) \<inter> visited = {} \<Longrightarrow>
   assert_ancestry_loop n visited current slot db = Inr ()"
proof (induction n arbitrary: visited current path)
  case (Suc n)
  show ?case
  proof (cases path)
    case Nil
    with Suc.prems show ?thesis unfolding ancestry_step by auto
  next
    case (Cons p path')
    have "assert_ancestry_loop n (insert current visited) p slot db = Inr ()"
      using Suc.prems Cons lineage_distinct [OF Suc.prems(1)] by (intro Suc.IH [of p path']) auto
    with Suc.prems Cons show ?thesis unfolding ancestry_step by auto
  qed
qed simp

lemma assert_ancestry_iff:
  "slots_ok db \<Longrightarrow> assert_ancestry slot db = Inr () \<longleftrightarrow> (\<exists>path. lineage db (slot # path) \<and> length path < MAX_ANCESTRY_DEPTH)"
  unfolding assert_ancestry_def using ancestry_lineage lineage_ancestry by blast

section \<open>Staged rows\<close>

definition staged_key :: "staged_row \<Rightarrow> bytes32 \<times> bigint \<times> bigint" where
  "staged_key r = (sp_address r, sp_slot r, sp_write_version r)"

definition staged_ok :: "index_db \<Rightarrow> bool" where
  "staged_ok db \<longleftrightarrow> distinct (map staged_key (staged_account_projections db))"

lemma stage_keys: "set (map staged_key (stage_row r xs)) = insert (staged_key r) (set (map staged_key xs))"
  by (induction xs) (auto simp: staged_key_def)

lemma stage_distinct: "distinct (map staged_key xs) \<Longrightarrow> distinct (map staged_key (stage_row r xs))"
proof (induction xs)
  case (Cons x xs)
  have eq: "sp_address x = sp_address r \<and> sp_slot x = sp_slot r \<and> sp_write_version x = sp_write_version r \<longleftrightarrow>
      staged_key x = staged_key r" by (simp add: staged_key_def)
  show ?case
  proof (cases "staged_key x = staged_key r")
    case True
    with Cons eq show ?thesis by simp
  next
    case False
    then have "staged_key x \<notin> set (map staged_key (stage_row r xs))" using Cons.prems by (auto simp del: set_map simp: stage_keys)
    moreover have "stage_row r (x # xs) = x # stage_row r xs" using False eq by auto
    ultimately show ?thesis using Cons by simp
  qed
qed simp

lemma filter_keys: "distinct (map staged_key xs) \<Longrightarrow> distinct (map staged_key (filter P xs))"
  by (simp add: distinct_map_filter)

lemma insert_account_staged:
  assumes "insert_account_with_projection time_ok acc projection db = Inr (new, db')" "staged_ok db"
  shows "staged_ok db'"
proof -
  have "staged_ok db'" if "apply_projection time_ok p db1 = Inr db2" "distinct (map staged_key (staged_account_projections db1))"
    "db' = db2\<lparr>staged_account_projections := unstage_row a s v (staged_account_projections db2)\<rparr>" for p a s v db1 db2
    using that(2,3) apply_projection_slots [OF that(1)] by (simp add: staged_ok_def unstage_row_def filter_keys)
  then show ?thesis
    using assms
    by (cases projection)
      (auto simp: insert_account_with_projection_def result_inv Let_def staged_ok_def stage_distinct split: if_splits)
qed

lemma upsert_staged: "upsert_slot time_ok update db = Inr db' \<Longrightarrow> staged_ok db \<Longrightarrow> staged_ok db'"
proof (erule upsert_slot_cases)
  fix row' assume "upsert_tail update (uint (su_slot update))
      (db\<lparr>indexer_slots := (indexer_slots db)(uint (su_slot update) \<mapsto> row')\<rparr>) = Inr db'" "staged_ok db"
  then show "staged_ok db'"
    by (auto simp: upsert_tail_def cleanup_dead_slot_def result_inv staged_ok_def filter_keys split: if_splits)
next
  fix row' assume "upsert_tail update (uint (su_slot update))
      (db\<lparr>indexer_slots := (indexer_slots db)(uint (su_slot update) \<mapsto> row')\<rparr>) = Inr db'" "staged_ok db"
  then show "staged_ok db'"
    by (auto simp: upsert_tail_def cleanup_dead_slot_def result_inv staged_ok_def filter_keys split: if_splits)
qed simp

lemma finalize_staged:
  assumes "finalize_slot time_ok slot db = Inr (n, db')"
  shows "staged_account_projections db' = filter (\<lambda>r. sp_slot r \<noteq> uint slot) (staged_account_projections db)"
proof -
  obtain row where "finalize_tables time_ok (uint slot) row db = Inr (n, db')"
    using finalize_slot_inv [OF assms] by metis
  then show ?thesis
    by (auto simp: finalize_tables_def Let_def result_inv dest!: apply_projections_slots split: if_splits)
qed

lemma step_staged_ok: "index_step time_ok db db' \<Longrightarrow> staged_ok db \<Longrightarrow> staged_ok db'"
proof (cases rule: index_step.cases, assumption)
  fix update assume "upsert_slot time_ok update db = Inr db'" "staged_ok db"
  then show "staged_ok db'" by (rule upsert_staged)
next
  fix slot n assume "finalize_slot time_ok slot db = Inr (n, db')" "staged_ok db"
  then show "staged_ok db'" by (simp add: finalize_staged staged_ok_def filter_keys)
next
  fix acc projection new
  assume "insert_account_with_projection time_ok acc projection db = Inr (new, db')" "staged_ok db"
  then show "staged_ok db'" by (rule insert_account_staged)
qed (auto simp: insert_event_def record_gap_def mark_gap_partial_def mark_gap_failed_def
    mark_gap_repaired_def update_gap_def result_inv Let_def staged_ok_def split: if_splits)

lemma reachable_staged_ok: "index_reachable time_ok db \<Longrightarrow> staged_ok db"
  by (induction rule: index_reachable.induct) (auto simp: staged_ok_def empty_db_def dest: step_staged_ok [unfolded staged_ok_def])

section \<open>Projections\<close>

text \<open>What the tables show at an address, as a payload with its slot, one table for each kind.\<close>

primrec payload_kind :: "ProjectionPayload \<Rightarrow> ProjectionKind" where
  "payload_kind (ConfigP _) = ConfigKind"
| "payload_kind (ProviderP _) = ProviderKind"
| "payload_kind (ProviderBondP _) = ProviderBondKind"
| "payload_kind (JobP _) = JobKind"
| "payload_kind (ChallengeP _) = ChallengeKind"
| "payload_kind TombstoneP = TombstoneKind"

fun shown :: "ProjectionKind \<Rightarrow> index_db \<Rightarrow> bytes32 \<Rightarrow> (bigint \<times> ProjectionPayload) option" where
  "shown ConfigKind db a = map_option (\<lambda>(n, x). (n, ConfigP x)) (proj_config db a)"
| "shown ProviderKind db a = map_option (\<lambda>(n, x). (n, ProviderP x)) (proj_providers db a)"
| "shown ProviderBondKind db a = map_option (\<lambda>(n, x). (n, ProviderBondP x)) (proj_provider_bonds db a)"
| "shown JobKind db a = map_option (\<lambda>(n, x). (n, JobP x)) (proj_jobs db a)"
| "shown ChallengeKind db a = map_option (\<lambda>(n, x). (n, ChallengeP x)) (proj_challenges db a)"
| "shown TombstoneKind db a = None"

text \<open>The effect of a projection on what is shown: newer rows stay, a tombstone clears every table, a record replaces the
  row of its own table.\<close>

definition newer :: "bigint \<Rightarrow> (bigint \<times> 'a) option \<Rightarrow> bool" where
  "newer slot e \<longleftrightarrow> (\<exists>n x. e = Some (n, x) \<and> slot < n)"

definition concerns :: "ProjectionKind \<Rightarrow> ProjectionPayload \<Rightarrow> bool" where
  "concerns k x \<longleftrightarrow> k \<noteq> TombstoneKind \<and> (x = TombstoneP \<or> payload_kind x = k)"

definition shown_after :: "bigint \<Rightarrow> ProjectionPayload \<Rightarrow> (bigint \<times> ProjectionPayload) option" where
  "shown_after slot x = (if x = TombstoneP then None else Some (slot, x))"

lemma put_row_at: "put_row a0 slot x t a = (if a = a0 \<and> \<not> newer slot (t a) then Some (slot, x) else t a)"
  by (auto simp: put_row_def newer_def split: option.splits)

lemma delete_row_at: "delete_row a0 slot t a = (if a = a0 \<and> \<not> newer slot (t a) then None else t a)"
  by (auto simp: delete_row_def newer_def split: option.splits)

lemma newer_map [simp]: "newer slot (map_option (\<lambda>(n, x). (n, f x)) e) = newer slot e" "\<not> newer slot None"
  by (cases e; auto simp: newer_def) (simp add: newer_def)

lemma apply_shown:
  assumes "apply_projection time_ok p db = Inr db'"
  shows "shown k db' a =
    (if a = dp_address p \<and> concerns k (dp_payload p) \<and> \<not> newer (uint (dp_slot p)) (shown k db a)
     then shown_after (uint (dp_slot p)) (dp_payload p) else shown k db a)"
proof (cases "dp_payload p")
  case (ConfigP x)
  with assms have "db' = db\<lparr>proj_config := put_row (dp_address p) (uint (dp_slot p)) x (proj_config db)\<rparr>"
    by (auto simp: apply_projection_def result_inv)
  with ConfigP show ?thesis by (cases k) (auto simp: put_row_at concerns_def shown_after_def)
next
  case (ProviderP x)
  with assms have "db' = db\<lparr>proj_providers := put_row (dp_address p) (uint (dp_slot p)) x (proj_providers db)\<rparr>"
    by (auto simp: apply_projection_def result_inv)
  with ProviderP show ?thesis by (cases k) (auto simp: put_row_at concerns_def shown_after_def)
next
  case (ProviderBondP x)
  with assms have "db' = db\<lparr>proj_provider_bonds := put_row (dp_address p) (uint (dp_slot p)) x (proj_provider_bonds db)\<rparr>"
    by (auto simp: apply_projection_def result_inv)
  with ProviderBondP show ?thesis by (cases k) (auto simp: put_row_at concerns_def shown_after_def)
next
  case (JobP x)
  with assms have "db' = db\<lparr>proj_jobs := put_row (dp_address p) (uint (dp_slot p)) x (proj_jobs db)\<rparr>"
    by (auto simp: apply_projection_def result_inv)
  with JobP show ?thesis by (cases k) (auto simp: put_row_at concerns_def shown_after_def)
next
  case (ChallengeP x)
  with assms have "db' = db\<lparr>proj_challenges := put_row (dp_address p) (uint (dp_slot p)) x (proj_challenges db)\<rparr>"
    by (auto simp: apply_projection_def result_inv)
  with ChallengeP show ?thesis by (cases k) (auto simp: put_row_at concerns_def shown_after_def)
next
  case TombstoneP
  let ?clear = "\<lambda>t. delete_row (dp_address p) (uint (dp_slot p)) t"
  from TombstoneP assms have "db' = db\<lparr>proj_jobs := ?clear (proj_jobs db), proj_providers := ?clear (proj_providers db),
      proj_provider_bonds := ?clear (proj_provider_bonds db), proj_challenges := ?clear (proj_challenges db),
      proj_config := ?clear (proj_config db)\<rparr>"
    by (auto simp: apply_projection_def result_inv Let_def)
  with TombstoneP show ?thesis by (cases k) (auto simp: delete_row_at concerns_def shown_after_def)
qed

lemma newer_after: "\<not> newer slot e \<Longrightarrow> newer slot (if c then shown_after slot x else e) = False"
  by (auto simp: shown_after_def newer_def)

text \<open>Rows of one slot, one after the other: unless the table already shows something newer, the last one counts.\<close>

lemma apply_all_shown:
  assumes "apply_projections time_ok ps db = Inr db'" "\<forall>p\<in>set ps. dp_slot p = slot"
  shows "shown k db' a =
    (if newer (uint slot) (shown k db a) then shown k db a
     else case filter (\<lambda>p. dp_address p = a \<and> concerns k (dp_payload p)) ps of
            [] \<Rightarrow> shown k db a
          | q # qs \<Rightarrow> shown_after (uint slot) (dp_payload (last (q # qs))))"
  using assms
proof (induction ps arbitrary: db)
  case (Cons p ps)
  then obtain db1 where db1: "apply_projection time_ok p db = Inr db1" "apply_projections time_ok ps db1 = Inr db'"
    by (auto simp: result_inv)
  note step = apply_shown [OF db1(1), of k a]
  have slot: "dp_slot p = slot" using Cons.prems(2) by simp
  show ?case
  proof (cases "newer (uint slot) (shown k db a)")
    case True
    then show ?thesis using Cons.IH [OF db1(2)] Cons.prems(2) step slot by simp
  next
    case False
    then have "\<not> newer (uint slot) (shown k db1 a)" using step slot by (simp add: newer_after shown_after_def newer_def)
    then have "shown k db' a = (case filter (\<lambda>p. dp_address p = a \<and> concerns k (dp_payload p)) ps of
            [] \<Rightarrow> shown k db1 a | q # qs \<Rightarrow> shown_after (uint slot) (dp_payload (last (q # qs))))"
      using Cons.IH [OF db1(2)] Cons.prems(2) by simp
    then show ?thesis using False step slot by (auto split: list.splits)
  qed
qed simp

lemma staged_projections_eq:
  "staged_projections rs = Inr ps \<Longrightarrow> ps = map (\<lambda>r. \<lparr>dp_kind = sp_kind r, dp_address = sp_address r,
     dp_slot = word_of_int (sp_slot r), dp_write_version = word_of_int (sp_write_version r), dp_payload = sp_payload r\<rparr>) rs"
  by (induction rs arbitrary: ps) (auto simp: result_inv)

lemma shown_cong:
  "proj_config db' = proj_config db \<Longrightarrow> proj_providers db' = proj_providers db \<Longrightarrow>
   proj_provider_bonds db' = proj_provider_bonds db \<Longrightarrow> proj_jobs db' = proj_jobs db \<Longrightarrow>
   proj_challenges db' = proj_challenges db \<Longrightarrow> shown k db' a = shown k db a"
  by (cases k) simp_all

lemma finalize_shown:
  fixes k a slot db
  defines "rows \<equiv> filter (\<lambda>r. sp_address r = a \<and> concerns k (sp_payload r)) (staged_for (uint slot) db)"
  assumes "finalize_slot time_ok slot db = Inr (n, db')"
  shows "shown k db' a =
    (if newer (uint slot) (shown k db a) \<or> rows = [] then shown k db a
     else shown_after (uint slot) (sp_payload (last rows)))"
proof -
  obtain row where row: "finalize_tables time_ok (uint slot) row db = Inr (n, db')"
    using finalize_slot_inv [OF assms(2)] by metis
  from row obtain ps slots accs evs db1 where ps: "staged_projections (staged_for (uint slot) db) = Inr ps"
    and db1: "apply_projections time_ok ps
       (db\<lparr>indexer_slots := slots, raw_account_versions := accs, raw_protocol_events := evs\<rparr>) = Inr db1"
    and db': "db' = db1\<lparr>staged_account_projections := filter (\<lambda>r. sp_slot r \<noteq> uint slot) (staged_account_projections db1),
       finalized_slot := max (finalized_slot db1) (uint slot), processed_slot := max (processed_slot db1) (uint slot)\<rparr>"
    by (rule finalize_tables_inv)
  have before: "shown k (db\<lparr>indexer_slots := slots, raw_account_versions := accs, raw_protocol_events := evs\<rparr>) a = shown k db a"
    and after: "shown k db' a = shown k db1 a"
    by (cases k; simp add: db')+
  let ?f = "\<lambda>r. \<lparr>dp_kind = sp_kind r, dp_address = sp_address r,
     dp_slot = word_of_int (sp_slot r), dp_write_version = word_of_int (sp_write_version r), dp_payload = sp_payload r\<rparr>"
  have eq: "ps = map ?f (staged_for (uint slot) db)" using staged_projections_eq [OF ps] .
  then have "\<forall>p\<in>set ps. dp_slot p = slot" by (auto simp: staged_for_def)
  from apply_all_shown [OF db1 this, of k a] show ?thesis
    by (cases rows) (simp_all add: before after eq filter_map comp_def last_map rows_def [symmetric])
qed

lemma last_staged:
  assumes "staged_ok db" "r \<in> set (staged_account_projections db)" "sp_slot r = slot" "P r"
    and "\<forall>q\<in>set (staged_account_projections db).
      sp_slot q = slot \<and> sp_address q = sp_address r \<and> P q \<longrightarrow> sp_write_version q \<le> sp_write_version r"
  shows "filter (\<lambda>q. sp_address q = sp_address r \<and> P q) (staged_for slot db) \<noteq> []"
    "last (filter (\<lambda>q. sp_address q = sp_address r \<and> P q) (staged_for slot db)) = r"
proof -
  let ?key = "\<lambda>q. (to_bytes (sp_address q), sp_write_version q)"
  let ?rows = "filter (\<lambda>q. sp_address q = sp_address r \<and> P q) (staged_for slot db)"
  have r: "r \<in> set ?rows" using assms(2-4) by (simp add: staged_for_def)
  then show ne: "?rows \<noteq> []" by (metis empty_iff empty_set)
  have "sorted (map ?key ?rows)" by (rule sorted_filter) (simp add: staged_for_def)
  moreover have "?rows = butlast ?rows @ [last ?rows]" using ne by simp
  ultimately have "\<forall>q\<in>set (butlast ?rows). ?key q \<le> ?key (last ?rows)"
    by (metis (no_types, lifting) image_eqI list.set_intros(1) list.simps(9) map_append set_map sorted_append)
  moreover have "r \<in> set (butlast ?rows) \<or> r = last ?rows"
    using r ne by (metis Un_iff append_butlast_last_id empty_iff empty_set set_ConsD set_append)
  ultimately have "?key r \<le> ?key (last ?rows)" by auto
  moreover have l: "last ?rows \<in> set ?rows" using ne by (rule last_in_set)
  ultimately have "sp_write_version r = sp_write_version (last ?rows)"
    using assms(5) by (auto simp: staged_for_def intro: order.antisym)
  then have "staged_key r = staged_key (last ?rows)"
    using l assms(3) by (simp add: staged_key_def staged_for_def)
  moreover have "inj_on staged_key (set (staged_account_projections db))"
    using assms(1) by (simp add: staged_ok_def distinct_map)
  ultimately show "last ?rows = r"
    using l assms(2) by (auto simp: staged_for_def dest: inj_onD)
qed

section \<open>Properties\<close>

text \<open>
  C37. Slots only advance. However the index is fed, a slot that is on record stays on record, its status only goes up
  (processed, confirmed, then finalized or dead), a finalized or dead slot keeps its status, the parent is fixed as soon
  as one is recorded or the slot is final, and both checkpoints never go back.
\<close>

theorem slots_only_advance:
  assumes "rtranclp (index_step time_ok) db db'" "indexer_slots db s = Some r"
  shows "\<exists>r'. indexer_slots db' s = Some r' \<and> can_upgrade (row_status r) (row_status r') \<and>
    (row_status r \<in> {Finalized, Dead} \<longrightarrow> row_status r' = row_status r) \<and>
    (row_parent r \<noteq> None \<or> row_status r = Finalized \<longrightarrow> row_parent r' = row_parent r)"
proof -
  have "\<exists>r'. indexer_slots db' s = Some r' \<and> advances r r'"
    using assms
  proof (induction arbitrary: rule: rtranclp_induct)
    case (step db1 db2)
    then show ?case by (metis step_advances advances_trans)
  qed simp
  moreover have "row_status r \<in> {Finalized, Dead} \<Longrightarrow> can_upgrade (row_status r) c \<Longrightarrow> c = row_status r" for c
    by (auto simp: can_upgrade.simps split: if_splits)
  ultimately show ?thesis by (auto simp: advances_def)
qed

text \<open>
  C38. Finalization requires lineage. On any tables the index can reach, a slot that was not yet final is finalized only if
  it is on record, not dead, and its chain of parents is on record without a dead or repeated slot, down to one whose parent is
  unknown, with fewer than 256 ancestors; and then its row becomes final and no other slot changes.
\<close>

theorem finalization_requires_lineage:
  assumes "index_reachable time_ok db" "finalize_slot time_ok slot db = Inr (n, db')"
  shows "\<exists>row. indexer_slots db (uint slot) = Some row \<and> row_status row \<noteq> Dead \<and>
    (row_status row \<noteq> Finalized \<longrightarrow>
      (\<exists>path. lineage db (slot # path) \<and> distinct (slot # path) \<and> length path < MAX_ANCESTRY_DEPTH)) \<and>
    indexer_slots db' = (indexer_slots db)(uint slot \<mapsto> row\<lparr>row_status := Finalized\<rparr>)"
proof -
  obtain row where row: "indexer_slots db (uint slot) = Some row" "row_status row \<noteq> Dead"
    "row_status row \<noteq> Finalized \<Longrightarrow> assert_ancestry slot db = Inr ()"
    "finalize_tables time_ok (uint slot) row db = Inr (n, db')"
    using finalize_slot_inv [OF assms(2)] by metis
  note ancestry = assert_ancestry_iff [OF reachable_slots_ok [OF assms(1)]]
  show ?thesis
    using row finalize_tables_slots(1) [OF row(4,1)] ancestry lineage_distinct by blast
qed

text \<open>
  C36. A finalized projection is the latest. When a slot is finalized, each table shows at an address the staged version
  with the highest write version that concerns this table: its record, or nothing if that version deletes the account. Where a
  table already shows a later slot, or where nothing is staged, it stays as it is.
\<close>

theorem finalized_projection_is_latest:
  assumes "index_reachable time_ok db" "finalize_slot time_ok slot db = Inr (n, db')"
    and "r \<in> set (staged_account_projections db)" "sp_slot r = uint slot" "concerns k (sp_payload r)"
    and "\<forall>q\<in>set (staged_account_projections db).
      sp_slot q = uint slot \<and> sp_address q = sp_address r \<and> concerns k (sp_payload q) \<longrightarrow>
      sp_write_version q \<le> sp_write_version r"
  shows "shown k db' (sp_address r) =
      (if newer (uint slot) (shown k db (sp_address r)) then shown k db (sp_address r)
       else shown_after (uint slot) (sp_payload r)) \<and>
    (\<forall>a. (\<forall>q\<in>set (staged_account_projections db).
        sp_slot q = uint slot \<and> sp_address q = a \<longrightarrow> \<not> concerns k (sp_payload q)) \<longrightarrow> shown k db' a = shown k db a)"
proof (intro conjI allI impI)
  note last_staged [OF reachable_staged_ok [OF assms(1)] assms(3,4), of "\<lambda>q. concerns k (sp_payload q)", OF assms(5,6)]
  then show "shown k db' (sp_address r) =
    (if newer (uint slot) (shown k db (sp_address r)) then shown k db (sp_address r)
     else shown_after (uint slot) (sp_payload r))"
    unfolding finalize_shown [OF assms(2)] by simp
next
  fix a
  assume none: "\<forall>q\<in>set (staged_account_projections db).
      sp_slot q = uint slot \<and> sp_address q = a \<longrightarrow> \<not> concerns k (sp_payload q)"
  then have "filter (\<lambda>q. sp_address q = a \<and> concerns k (sp_payload q)) (staged_for (uint slot) db) = []"
    by (auto simp: filter_empty_conv staged_for_def)
  then show "shown k db' a = shown k db a"
    unfolding finalize_shown [OF assms(2)] by simp
qed

lemma apply_projections_time:
  assumes "apply_projections time_ok ps db = Inr db'" "p \<in> set ps" "dp_payload p = JobP j"
  shows "time_ok (jp_fund_deadline j)" "time_ok (jp_accept_deadline j)"
    "time_ok (jp_work_deadline j)" "time_ok (jp_auto_settle_deadline j)"
proof -
  have one: "time_ok (jp_fund_deadline j) \<and> time_ok (jp_accept_deadline j) \<and> time_ok (jp_work_deadline j) \<and>
      time_ok (jp_auto_settle_deadline j)" if "apply_projection time_ok p db = Inr db'" for db db'
    using that assms(3) by (auto simp: apply_projection_def ts_def result_inv split: if_splits)
  have "\<exists>db db'. apply_projection time_ok p db = Inr db'"
    using assms(1,2) by (induction ps arbitrary: db) (auto simp: result_inv)
  with one show "time_ok (jp_fund_deadline j)" "time_ok (jp_accept_deadline j)"
    "time_ok (jp_work_deadline j)" "time_ok (jp_auto_settle_deadline j)" by blast+
qed

text \<open>
  A deadline beyond the calendar blocks finalization. If a job that is staged for a slot has a deadline that the calendar
  library cannot represent, finalizing the slot fails, whatever else the index holds.
\<close>

theorem unrepresentable_deadline_blocks:
  assumes "r \<in> set (staged_account_projections db)" "sp_slot r = uint slot" "sp_payload r = JobP j"
    and "\<not> (time_ok (jp_fund_deadline j) \<and> time_ok (jp_accept_deadline j) \<and>
      time_ok (jp_work_deadline j) \<and> time_ok (jp_auto_settle_deadline j))"
  shows "\<exists>e. finalize_slot time_ok slot db = Inl e"
proof (rule ccontr)
  assume "\<nexists>e. finalize_slot time_ok slot db = Inl e"
  then obtain n db' where "finalize_slot time_ok slot db = Inr (n, db')"
    by (cases "finalize_slot time_ok slot db") auto
  then obtain row where "finalize_tables time_ok (uint slot) row db = Inr (n, db')"
    by (metis finalize_slot_inv)
  then obtain ps db0 db1 where ps: "staged_projections (staged_for (uint slot) db) = Inr ps"
    and run: "apply_projections time_ok ps db0 = Inr db1"
    by (metis finalize_tables_inv)
  have "\<exists>p\<in>set ps. dp_payload p = JobP j"
    using assms(1-3) by (force simp: staged_projections_eq [OF ps] staged_for_def)
  then show False using apply_projections_time [OF run] assms(4) by blast
qed

section \<open>An index\<close>

text \<open>Two slots, the second with two versions of a bond account, then finalized.\<close>

definition sample_projection :: "u64 \<Rightarrow> u64 \<Rightarrow> DecodedProjection" where
  "sample_projection version deposited = \<lparr>dp_kind = ProviderBondKind, dp_address = fill32 5, dp_slot = 10,
     dp_write_version = version, dp_payload = ProviderBondP \<lparr>bp_authority = fill32 2, bp_mint = fill32 3,
       bp_deposited = deposited, bp_locked = 0\<rparr>\<rparr>"

definition sample_version :: "u64 \<Rightarrow> RawAccountVersion" where
  "sample_version version = \<lparr>rav_address = fill32 5, rav_slot = 10, rav_write_version = version, rav_owner = None,
     rav_lamports = 1, rav_executable = False, rav_data = None, rav_deleted = False, rav_commitment = Confirmed\<rparr>"

definition sample_slot :: "u64 \<Rightarrow> u64 option \<Rightarrow> SlotUpdate" where
  "sample_slot slot parent = \<lparr>su_slot = slot, su_parent_slot = parent, su_status = Confirmed, su_block_time = None\<rparr>"

text \<open>The calendar library ends with the year 262142.\<close>

definition sample_time_ok :: "i64 \<Rightarrow> bool" where
  "sample_time_ok t \<longleftrightarrow> sint t < 8210266876800"

definition sample_filled :: "DbError + index_db" where
  "sample_filled =
     tryE (upsert_slot sample_time_ok (sample_slot 9 None) empty_db) (\<lambda>db.
     tryE (upsert_slot sample_time_ok (sample_slot 10 (Some 9)) db) (\<lambda>db.
     tryE (insert_account_with_projection sample_time_ok (sample_version 2) (Some (sample_projection 2 70)) db) (\<lambda>(_, db).
     tryE (insert_account_with_projection sample_time_ok (sample_version 1) (Some (sample_projection 1 50)) db) (\<lambda>(_, db).
     Inr db))))"

lemmas index_eval = upsert_slot_def sample_slot_def empty_db_def u64_to_i64_def ensure_def opt_i64_def
  upsert_tail_def insert_account_with_projection_def sample_version_def sample_projection_def slot_finalized_def Let_def

lemma sample_filled: "\<exists>db. sample_filled = Inr db \<and>
   staged_account_projections db =
     [\<lparr>sp_address = fill32 5, sp_slot = 10, sp_write_version = 2, sp_kind = ProviderBondKind,
       sp_payload = dp_payload (sample_projection 2 70)\<rparr>,
      \<lparr>sp_address = fill32 5, sp_slot = 10, sp_write_version = 1, sp_kind = ProviderBondKind,
       sp_payload = dp_payload (sample_projection 1 50)\<rparr>] \<and>
   indexer_slots db = [9 \<mapsto> \<lparr>row_parent = None, row_status = Confirmed, row_block_time = None\<rparr>,
     10 \<mapsto> \<lparr>row_parent = Some 9, row_status = Confirmed, row_block_time = None\<rparr>] \<and>
   proj_provider_bonds db = Map.empty"
  by (simp add: sample_filled_def index_eval)

lemma sample_reachable:
  assumes "sample_filled = Inr db"
  shows "index_reachable sample_time_ok db"
proof -
  obtain db1 db2 b3 db3 b4 where steps:
    "upsert_slot sample_time_ok (sample_slot 9 None) empty_db = Inr db1"
    "upsert_slot sample_time_ok (sample_slot 10 (Some 9)) db1 = Inr db2"
    "insert_account_with_projection sample_time_ok (sample_version 2) (Some (sample_projection 2 70)) db2 = Inr (b3, db3)"
    "insert_account_with_projection sample_time_ok (sample_version 1) (Some (sample_projection 1 50)) db3 = Inr (b4, db)"
    using assms unfolding sample_filled_def by (auto simp: tryE_eq_Inr)
  note Slot_step [OF steps(1)] Slot_step [OF steps(2)] Account_step [OF steps(3)] Account_step [OF steps(4)]
  then show ?thesis by (meson Empty index_reachable.Step)
qed

lemma sample_finalized:
  assumes "sample_filled = Inr db"
  shows "\<exists>db'. finalize_slot sample_time_ok 10 db = Inr (2, db')"
proof -
  let ?row = "\<lparr>row_parent = Some 9, row_status = Confirmed, row_block_time = None\<rparr>"
  have slots: "indexer_slots db = [9 \<mapsto> \<lparr>row_parent = None, row_status = Confirmed, row_block_time = None\<rparr>, 10 \<mapsto> ?row]"
    and staged: "staged_account_projections db =
     [\<lparr>sp_address = fill32 5, sp_slot = 10, sp_write_version = 2, sp_kind = ProviderBondKind,
       sp_payload = dp_payload (sample_projection 2 70)\<rparr>,
      \<lparr>sp_address = fill32 5, sp_slot = 10, sp_write_version = 1, sp_kind = ProviderBondKind,
       sp_payload = dp_payload (sample_projection 1 50)\<rparr>]"
    using sample_filled unfolding assms by auto
  have "lineage db [10, 9]" by (simp add: slots)
  then have ancestry: "assert_ancestry 10 db = Inr ()"
    unfolding assert_ancestry_iff [OF reachable_slots_ok [OF sample_reachable [OF assms]]]
    by (intro exI [of _ "[9]"]) simp
  obtain ps where ps: "staged_projections (staged_for 10 db) = Inr ps" "length ps = 2"
    "\<forall>p\<in>set ps. dp_slot p = 10 \<and> (\<exists>b. dp_payload p = ProviderBondP b)"
    by (simp add: staged_for_def staged sort_key_def i64_to_u64_def sample_projection_def)
  have "\<exists>db'. apply_projections sample_time_ok ps db0 = Inr db'" for db0
    using ps(3)
  proof (induction ps arbitrary: db0)
    case (Cons p ps)
    then show ?case by (auto simp: apply_projection_def u64_to_i64_def Let_def)
  qed simp
  then obtain f where "\<And>db0. apply_projections sample_time_ok ps db0 = Inr (f db0)" by metis
  then have "\<exists>db'. finalize_tables sample_time_ok 10 ?row db = Inr (2, db')"
    unfolding finalize_tables_def Let_def by (simp add: ps(1,2))
  then show ?thesis by (simp add: finalize_slot_def u64_to_i64_def slots ensure_def ancestry)
qed

lemma sample_index:
  obtains db db' where "sample_filled = Inr db" "index_reachable sample_time_ok db"
    "finalize_slot sample_time_ok 10 db = Inr (2, db')"
    "staged_account_projections db =
     [\<lparr>sp_address = fill32 5, sp_slot = 10, sp_write_version = 2, sp_kind = ProviderBondKind,
       sp_payload = dp_payload (sample_projection 2 70)\<rparr>,
      \<lparr>sp_address = fill32 5, sp_slot = 10, sp_write_version = 1, sp_kind = ProviderBondKind,
       sp_payload = dp_payload (sample_projection 1 50)\<rparr>]"
    "indexer_slots db = [9 \<mapsto> \<lparr>row_parent = None, row_status = Confirmed, row_block_time = None\<rparr>,
     10 \<mapsto> \<lparr>row_parent = Some 9, row_status = Confirmed, row_block_time = None\<rparr>]"
    "proj_provider_bonds db = Map.empty"
  using sample_filled sample_reachable sample_finalized by metis

theorem slots_only_advance_witness:
  "\<exists>db db' r r'. index_reachable sample_time_ok db \<and>
     rtranclp (index_step sample_time_ok) db db' \<and>
     indexer_slots db 10 = Some r \<and> row_status r = Confirmed \<and> row_parent r = Some 9 \<and>
     indexer_slots db' 10 = Some r' \<and> can_upgrade (row_status r) (row_status r') \<and> row_parent r' = Some 9"
proof -
  obtain db db' where s: "index_reachable sample_time_ok db"
    "finalize_slot sample_time_ok 10 db = Inr (2, db')"
    "indexer_slots db = [9 \<mapsto> \<lparr>row_parent = None, row_status = Confirmed, row_block_time = None\<rparr>,
     10 \<mapsto> \<lparr>row_parent = Some 9, row_status = Confirmed, row_block_time = None\<rparr>]"
    by (rule sample_index)
  from s(2) have "rtranclp (index_step sample_time_ok) db db'"
    by (blast intro: Finalize_step)
  with slots_only_advance [OF this, of 10] s(1,3) show ?thesis by fastforce
qed

theorem finalization_requires_lineage_witness:
  "\<exists>db n db'. finalize_slot sample_time_ok 10 db = Inr (n, db') \<and>
     (\<exists>path. lineage db (10 # path) \<and> distinct (10 # path) \<and> length path < MAX_ANCESTRY_DEPTH)"
proof -
  obtain db db' where s: "index_reachable sample_time_ok db"
    "finalize_slot sample_time_ok 10 db = Inr (2, db')"
    "indexer_slots db = [9 \<mapsto> \<lparr>row_parent = None, row_status = Confirmed, row_block_time = None\<rparr>,
     10 \<mapsto> \<lparr>row_parent = Some 9, row_status = Confirmed, row_block_time = None\<rparr>]"
    by (rule sample_index)
  from finalization_requires_lineage [OF s(1,2)] s(2,3) show ?thesis by auto
qed

theorem finalized_projection_is_latest_witness:
  "\<exists>db n db'. finalize_slot sample_time_ok 10 db = Inr (n, db') \<and>
     shown ProviderBondKind db' (fill32 5) = Some (10, dp_payload (sample_projection 2 70))"
proof -
  let ?r = "\<lparr>sp_address = fill32 5, sp_slot = 10, sp_write_version = 2, sp_kind = ProviderBondKind,
       sp_payload = dp_payload (sample_projection 2 70)\<rparr>"
  obtain db db' where s: "index_reachable sample_time_ok db"
    "finalize_slot sample_time_ok 10 db = Inr (2, db')"
    "staged_account_projections db = [?r,
      \<lparr>sp_address = fill32 5, sp_slot = 10, sp_write_version = 1, sp_kind = ProviderBondKind,
       sp_payload = dp_payload (sample_projection 1 50)\<rparr>]" "proj_provider_bonds db = Map.empty"
    by (rule sample_index)
  have "shown ProviderBondKind db' (sp_address ?r) =
      (if newer (uint (10 :: u64)) (shown ProviderBondKind db (sp_address ?r)) then shown ProviderBondKind db (sp_address ?r)
       else shown_after (uint (10 :: u64)) (sp_payload ?r))"
    by (rule conjunct1 [OF finalized_projection_is_latest [OF s(1,2)]])
      (simp_all add: s(3) concerns_def sample_projection_def)
  with s(2,4) show ?thesis by (auto simp: shown_after_def sample_projection_def)
qed

definition sample_late_job :: job_projection where
  "sample_late_job = \<lparr>jp_buyer = fill32 1, jp_provider = fill32 2, jp_mint = fill32 3, jp_token_program = fill32 4,
     jp_amount = 5, jp_job_nonce = 0, jp_state = ''Funded'', jp_fund_deadline = 10, jp_accept_deadline = 20,
     jp_work_deadline = 30, jp_auto_settle_deadline = 9223372036854775807, jp_request_hash = fill32 6,
     jp_receipt_digest = fill32 0, jp_locked_bond = 0, jp_mint_decimals = 6\<rparr>"

theorem unrepresentable_deadline_blocks_witness:
  "\<exists>db e. staged_account_projections db = [\<lparr>sp_address = fill32 5, sp_slot = 10, sp_write_version = 1,
      sp_kind = JobKind, sp_payload = JobP sample_late_job\<rparr>] \<and>
     finalize_slot sample_time_ok 10 db = Inl e"
proof -
  let ?r = "\<lparr>sp_address = fill32 5, sp_slot = 10, sp_write_version = 1, sp_kind = JobKind, sp_payload = JobP sample_late_job\<rparr>"
  let ?db = "empty_db\<lparr>staged_account_projections := [?r],
    indexer_slots := [10 \<mapsto> \<lparr>row_parent = None, row_status = Confirmed, row_block_time = None\<rparr>]\<rparr>"
  have "\<exists>e. finalize_slot sample_time_ok 10 ?db = Inl e"
    by (rule unrepresentable_deadline_blocks [of ?r _ _ sample_late_job]) (simp_all add: sample_late_job_def sample_time_ok_def)
  then show ?thesis by (intro exI [of _ ?db]) auto
qed

end
