(* ===== verification/Index_Reads.thy ===== *)
theory Index_Reads
  imports Index_Finality "HOL-Library.Char_ord"
begin

text \<open>
  The queries on the index, \<^verbatim>\<open>agentbond-db/src/reads.rs\<close> and the key conversions of \<^verbatim>\<open>util.rs\<close>: status, jobs, providers and
  their events, a page at a time. A page ends with a cursor, the key of its last row, and the next page starts
  after it; \<open>job_pages_cover\<close> shows that following the cursors yields every matching row once, or the error
  for a matching row that is newer than the checkpoint.

  A query reads the rows of a table in the order of a key, so it is a function of that list of rows (\<open>lists\<close> relates
  it with the table). Text is compared bytewise. Base 58 is library code: \<open>key_text\<close> of \<open>text_lib\<close> and the parameter
  \<open>unkey\<close>. An amount is read back from the \<open>NUMERIC\<close> column as the number that was written.
\<close>

section \<open>Results\<close>

record IndexStatusDto =
  is_as_of_slot :: string
  is_processed_slot :: string
  is_open_gaps :: u64

record IndexedJobDto =
  ij_address :: string
  ij_as_of_slot :: string
  ij_buyer :: string
  ij_provider :: string
  ij_amount :: string
  ij_job_nonce :: string
  ij_state :: string

record JobHistoryItemDto =
  jh_signature :: string
  jh_event_index :: u32
  jh_slot :: string
  jh_kind :: byte
  jh_actor :: string
  jh_amount :: string
  jh_event_timestamp :: i64

record IndexedProviderDto =
  ip_address :: string
  ip_as_of_slot :: string
  ip_authority :: string
  ip_status :: string

record ProviderActivityItemDto =
  pa_signature :: string
  pa_event_index :: u32
  pa_slot :: string
  pa_kind :: byte
  pa_subject :: string
  pa_amount :: string
  pa_event_timestamp :: i64

record 'a page =
  page_as_of_slot :: string
  page_items :: "'a list"
  next_cursor :: "string option"

section \<open>Arguments\<close>

definition int_text :: "bigint \<Rightarrow> string" where
  "int_text i = (if i < 0 then ''-'' @ decimal (nat (- i)) else decimal (nat i))"

definition pk_bytes :: "(string \<Rightarrow> bytes option) \<Rightarrow> string \<Rightarrow> DbError + bytes32" where
  "pk_bytes unkey pk =
     tryE (ok_or (unkey pk) (Validation ''invalid base58 pubkey'')) (\<lambda>bytes.
     tryE (ensure (length bytes = 32) (Validation ''pubkey must be 32 bytes'')) (\<lambda>_.
     Inr (array32 bytes)))"

definition opt_pk_bytes :: "(string \<Rightarrow> bytes option) \<Rightarrow> string option \<Rightarrow> DbError + bytes32 option" where
  "opt_pk_bytes unkey pk = (case pk of None \<Rightarrow> Inr None | Some p \<Rightarrow> tryE (pk_bytes unkey p) (\<lambda>b. Inr (Some b)))"

definition validate_limit :: "i64 \<Rightarrow> DbError + nat" where
  "validate_limit limit =
     (if 1 \<le> sint limit \<and> sint limit \<le> 100 then Inr (nat (sint limit))
      else Inl (Validation ''limit must be between 1 and 100''))"

definition validate_job_state :: "string \<Rightarrow> DbError + unit" where
  "validate_job_state state = ensure (state \<in> set JOB_STATES) (Validation (''invalid job state: '' @ state))"

text \<open>\<open>str::parse\<close> for \<open>i32\<close>, and the negative numbers that the code refuses next.\<close>

definition parse_i32 :: "string \<Rightarrow> int option" where
  "parse_i32 s =
     (case strip_prefix s ''-'' of
        Some cs \<Rightarrow>
          (if cs = [] then None
           else case digits_value 0 cs of
                  None \<Rightarrow> None
                | Some n \<Rightarrow> if n \<le> 2 ^ 31 then Some (- int n) else None)
      | None \<Rightarrow> map_option int (parse_unsigned (2 ^ 31) s))"

definition parse_event_cursor :: "string option \<Rightarrow> DbError + string option \<times> int" where
  "parse_event_cursor cursor =
     (case cursor of
        None \<Rightarrow> Inr (None, 0)
      | Some c \<Rightarrow>
          tryE (ok_or (rsplit_once CHR '':'' c) (Validation ''invalid cursor'')) (\<lambda>(sig, idx).
          tryE (ok_or (parse_i32 idx) (Validation ''invalid cursor index'')) (\<lambda>idx.
          tryE (ensure (\<not> (sig = [] \<or> idx < 0)) (Validation ''invalid cursor'')) (\<lambda>_.
          Inr (Some sig, idx)))))"

section \<open>Queries\<close>

definition index_status :: "index_db \<Rightarrow> DbError + IndexStatusDto" where
  "index_status db =
     tryE (i64_to_u64 (int (length (filter (\<lambda>g. gap_status g \<in> {''open'', ''failed'', ''repairing'', ''partial''})
       (ingestion_gaps db))))) (\<lambda>gaps.
     Inr \<lparr>is_as_of_slot = int_text (finalized_slot db), is_processed_slot = int_text (processed_slot db), is_open_gaps = gaps\<rparr>)"

text \<open>The rows of a table in the order of its key, and the part of them after a cursor. A page takes one row more than it shows,
  to see whether there are more.\<close>

type_synonym 'a proj_rows = "(bytes32 \<times> bigint \<times> 'a) list"

definition rows_after :: "('r \<Rightarrow> 'k :: linorder) \<Rightarrow> 'k option \<Rightarrow> 'r list \<Rightarrow> 'r list" where
  "rows_after key cursor rows = (case cursor of None \<Rightarrow> rows | Some k \<Rightarrow> filter (\<lambda>r. k < key r) rows)"

definition make_page :: "bigint \<Rightarrow> nat \<Rightarrow> 'r list \<Rightarrow> ('a \<Rightarrow> string) \<Rightarrow> 'a list \<Rightarrow> 'a page" where
  "make_page as_of limit rows cursor_of items =
     \<lparr>page_as_of_slot = int_text as_of, page_items = items,
      next_cursor = (if limit < length rows then (if items = [] then None else Some (cursor_of (last items))) else None)\<rparr>"

definition job_dto :: "text_lib \<Rightarrow> bytes32 \<times> bigint \<times> job_projection \<Rightarrow> IndexedJobDto" where
  "job_dto texts row = (case row of (a, slot, j) \<Rightarrow>
     \<lparr>ij_address = key_text texts a, ij_as_of_slot = int_text slot, ij_buyer = key_text texts (jp_buyer j),
      ij_provider = key_text texts (jp_provider j), ij_amount = decimal (unat (jp_amount j)),
      ij_job_nonce = decimal (unat (jp_job_nonce j)), ij_state = jp_state j\<rparr>)"

fun job_items :: "text_lib \<Rightarrow> bigint \<Rightarrow> job_projection proj_rows \<Rightarrow> DbError + IndexedJobDto list" where
  "job_items texts as_of [] = Inr []"
| "job_items texts as_of (row # rows) =
     (if as_of < fst (snd row) then Inl (Conflict ''projection newer than checkpoint'')
      else tryE (job_items texts as_of rows) (\<lambda>items. Inr (job_dto texts row # items)))"

definition job_matches ::
    "string option \<Rightarrow> bytes32 option \<Rightarrow> bytes32 option \<Rightarrow> bytes32 \<times> bigint \<times> job_projection \<Rightarrow> bool" where
  "job_matches state buyer provider row = (case row of (a, slot, j) \<Rightarrow>
     (case state of None \<Rightarrow> True | Some s \<Rightarrow> jp_state j = s) \<and>
     (case buyer of None \<Rightarrow> True | Some b \<Rightarrow> jp_buyer j = b) \<and>
     (case provider of None \<Rightarrow> True | Some p \<Rightarrow> jp_provider j = p))"

definition list_jobs ::
    "text_lib \<Rightarrow> (string \<Rightarrow> bytes option) \<Rightarrow> bigint \<Rightarrow> job_projection proj_rows \<Rightarrow> i64 \<Rightarrow> string option \<Rightarrow>
       string option \<Rightarrow> string option \<Rightarrow> string option \<Rightarrow> DbError + IndexedJobDto page" where
  "list_jobs texts unkey as_of table limit cursor state buyer provider =
     tryE (validate_limit limit) (\<lambda>limit.
     tryE (case state of None \<Rightarrow> Inr () | Some s \<Rightarrow> validate_job_state s) (\<lambda>_.
     tryE (opt_pk_bytes unkey cursor) (\<lambda>cursor_addr.
     tryE (opt_pk_bytes unkey buyer) (\<lambda>buyer_b.
     tryE (opt_pk_bytes unkey provider) (\<lambda>provider_b.
     let rows = take (limit + 1) (filter (job_matches state buyer_b provider_b)
           (rows_after (\<lambda>r. to_bytes (fst r)) (map_option to_bytes cursor_addr) table))
     in tryE (job_items texts as_of (take limit rows)) (\<lambda>items.
        Inr (make_page as_of limit rows ij_address items)))))))"

definition provider_dto :: "text_lib \<Rightarrow> bytes32 \<times> bigint \<times> provider_projection \<Rightarrow> IndexedProviderDto" where
  "provider_dto texts row = (case row of (a, slot, p) \<Rightarrow>
     \<lparr>ip_address = key_text texts a, ip_as_of_slot = int_text slot, ip_authority = key_text texts (pp_authority p),
      ip_status = pp_status p\<rparr>)"

fun provider_items :: "text_lib \<Rightarrow> bigint \<Rightarrow> provider_projection proj_rows \<Rightarrow> DbError + IndexedProviderDto list" where
  "provider_items texts as_of [] = Inr []"
| "provider_items texts as_of (row # rows) =
     (if as_of < fst (snd row) then Inl (Conflict ''projection newer than checkpoint'')
      else tryE (provider_items texts as_of rows) (\<lambda>items. Inr (provider_dto texts row # items)))"

definition list_providers ::
    "text_lib \<Rightarrow> (string \<Rightarrow> bytes option) \<Rightarrow> bigint \<Rightarrow> provider_projection proj_rows \<Rightarrow> i64 \<Rightarrow> string option \<Rightarrow>
       DbError + IndexedProviderDto page" where
  "list_providers texts unkey as_of table limit cursor =
     tryE (validate_limit limit) (\<lambda>limit.
     tryE (opt_pk_bytes unkey cursor) (\<lambda>cursor_addr.
     let rows = take (limit + 1) (rows_after (\<lambda>r. to_bytes (fst r)) (map_option to_bytes cursor_addr) table)
     in tryE (provider_items texts as_of (take limit rows)) (\<lambda>items.
        Inr (make_page as_of limit rows ip_address items))))"

type_synonym event_rows = "((string \<times> u32) \<times> raw_event_row) list"

definition event_key :: "(string \<times> u32) \<times> raw_event_row \<Rightarrow> string \<times> int" where
  "event_key r = (fst (fst r), uint (snd (fst r)))"

text \<open>The final events that satisfy a condition, after a cursor.\<close>

definition select_events ::
    "(raw_event_row \<Rightarrow> bool) \<Rightarrow> string option \<times> int \<Rightarrow> nat \<Rightarrow> event_rows \<Rightarrow> event_rows" where
  "select_events P cursor limit table =
     take limit (filter (\<lambda>r. P (snd r) \<and> rer_commitment (snd r) = Finalized)
       (rows_after event_key (case cursor of (None, _) \<Rightarrow> None | (Some sig, idx) \<Rightarrow> Some (sig, idx)) table))"

definition history_dto :: "text_lib \<Rightarrow> (string \<times> u32) \<times> raw_event_row \<Rightarrow> JobHistoryItemDto" where
  "history_dto texts row = (case row of ((sig, idx), r) \<Rightarrow>
     \<lparr>jh_signature = sig, jh_event_index = idx, jh_slot = int_text (rer_slot r), jh_kind = rer_kind r,
      jh_actor = key_text texts (rer_actor r), jh_amount = decimal (unat (rer_amount r)),
      jh_event_timestamp = rer_event_timestamp r\<rparr>)"

definition job_history ::
    "text_lib \<Rightarrow> (string \<Rightarrow> bytes option) \<Rightarrow> bigint \<Rightarrow> event_rows \<Rightarrow> string \<Rightarrow> i64 \<Rightarrow> string option \<Rightarrow>
       DbError + JobHistoryItemDto page" where
  "job_history texts unkey as_of table address limit cursor =
     tryE (validate_limit limit) (\<lambda>limit.
     tryE (pk_bytes unkey address) (\<lambda>addr.
     tryE (parse_event_cursor cursor) (\<lambda>cur.
     let rows = select_events (\<lambda>r. rer_subject r = addr) cur (limit + 1) table
     in Inr (make_page as_of limit rows
          (\<lambda>i. jh_signature i @ CHR '':'' # decimal (unat (jh_event_index i))) (map (history_dto texts) (take limit rows))))))"

definition activity_dto :: "text_lib \<Rightarrow> (string \<times> u32) \<times> raw_event_row \<Rightarrow> ProviderActivityItemDto" where
  "activity_dto texts row = (case row of ((sig, idx), r) \<Rightarrow>
     \<lparr>pa_signature = sig, pa_event_index = idx, pa_slot = int_text (rer_slot r), pa_kind = rer_kind r,
      pa_subject = key_text texts (rer_subject r), pa_amount = decimal (unat (rer_amount r)),
      pa_event_timestamp = rer_event_timestamp r\<rparr>)"

definition provider_activity ::
    "text_lib \<Rightarrow> (string \<Rightarrow> bytes option) \<Rightarrow> bigint \<Rightarrow> event_rows \<Rightarrow> string \<Rightarrow> i64 \<Rightarrow> string option \<Rightarrow>
       DbError + ProviderActivityItemDto page" where
  "provider_activity texts unkey as_of table address limit cursor =
     tryE (validate_limit limit) (\<lambda>limit.
     tryE (pk_bytes unkey address) (\<lambda>addr.
     tryE (parse_event_cursor cursor) (\<lambda>cur.
     let rows = select_events (\<lambda>r. rer_actor r = addr) cur (limit + 1) table
     in Inr (make_page as_of limit rows
          (\<lambda>i. pa_signature i @ CHR '':'' # decimal (unat (pa_event_index i))) (map (activity_dto texts) (take limit rows))))))"

section \<open>Following the cursors\<close>

text \<open>A client that asks for page after page.\<close>

fun collect :: "nat \<Rightarrow> (string option \<Rightarrow> DbError + 'a page) \<Rightarrow> string option \<Rightarrow> DbError + 'a list" where
  "collect 0 fetch cursor = Inr []"
| "collect (Suc n) fetch cursor =
     tryE (fetch cursor) (\<lambda>p.
     case next_cursor p of
       None \<Rightarrow> Inr (page_items p)
     | Some c \<Rightarrow> tryE (collect n fetch (Some c)) (\<lambda>rest. Inr (page_items p @ rest)))"

definition in_key_order :: "('r \<Rightarrow> 'k :: linorder) \<Rightarrow> 'r list \<Rightarrow> bool" where
  "in_key_order key rows \<longleftrightarrow> sorted_wrt (\<lambda>r r'. key r < key r') rows"

lemma in_key_order_filter: "in_key_order key rows \<Longrightarrow> in_key_order key (filter P rows)"
  by (simp add: in_key_order_def sorted_wrt_filter)

lemma after_drop:
  assumes "in_key_order key rows" "i < length rows"
  shows "filter (\<lambda>r. key (rows ! i) < key r) rows = drop (Suc i) rows"
proof -
  have sorted: "sorted_wrt (\<lambda>r r'. key r < key r') rows" using assms(1) by (simp add: in_key_order_def)
  have "\<not> key (rows ! i) < key r" if "r \<in> set (take (Suc i) rows)" for r
  proof -
    obtain m where "m < length (take (Suc i) rows)" "take (Suc i) rows ! m = r"
      using \<open>r \<in> set (take (Suc i) rows)\<close> unfolding in_set_conv_nth by blast
    then obtain j where j: "j \<le> i" "r = rows ! j" by (intro that [of m]) auto
    show ?thesis
    proof (cases "j = i")
      case False
      with j have "key r < key (rows ! i)" using sorted assms(2) by (simp add: sorted_wrt_iff_nth_less)
      then show ?thesis by simp
    qed (simp add: j)
  qed
  then have "filter (\<lambda>r. key (rows ! i) < key r) (take (Suc i) rows) = []" by (auto simp: filter_empty_conv)
  moreover have "key (rows ! i) < key r" if "r \<in> set (drop (Suc i) rows)" for r
    using that sorted assms(2) by (auto simp: in_set_conv_nth sorted_wrt_iff_nth_less)
  then have "filter (\<lambda>r. key (rows ! i) < key r) (drop (Suc i) rows) = drop (Suc i) rows"
    by (simp add: filter_id_conv)
  ultimately have "filter (\<lambda>r. key (rows ! i) < key r) (take (Suc i) rows @ drop (Suc i) rows) = drop (Suc i) rows"
    by (simp only: filter_append append_Nil)
  then show ?thesis by simp
qed

lemma rows_after_matching:
  assumes "in_key_order key rows" "i < length (filter P rows)"
  shows "filter P (rows_after key (Some (key (filter P rows ! i))) rows) = drop (Suc i) (filter P rows)"
proof -
  have "filter P (rows_after key (Some (key (filter P rows ! i))) rows) =
      filter (\<lambda>r. key (filter P rows ! i) < key r) (filter P rows)"
    by (simp add: rows_after_def conj_commute)
  also have "\<dots> = drop (Suc i) (filter P rows)"
    using after_drop [OF in_key_order_filter [OF assms(1)] assms(2)] .
  finally show ?thesis .
qed

text \<open>The contract of a query that is read in pages: what the call with no cursor, and with the cursor of a row, returns. A
  page that would show a row marked \<open>ahead\<close> is refused.\<close>

abbreviation newer_row :: DbError where
  "newer_row \<equiv> Conflict ''projection newer than checkpoint''"

definition pages_of ::
    "('r \<Rightarrow> bool) \<Rightarrow> bigint \<Rightarrow> nat \<Rightarrow> ('a \<Rightarrow> string) \<Rightarrow> ('r \<Rightarrow> 'a) \<Rightarrow> 'r list \<Rightarrow> (string option \<Rightarrow> DbError + 'a page) \<Rightarrow> bool" where
  "pages_of ahead as_of n cursor_of dto rows fetch \<longleftrightarrow>
     (\<forall>d \<le> length rows. fetch (if d = 0 then None else Some (cursor_of (dto (rows ! (d - 1))))) =
        (if \<exists>r\<in>set (take n (drop d rows)). ahead r then Inl newer_row
         else Inr (make_page as_of n (take (n + 1) (drop d rows)) cursor_of (map dto (take n (drop d rows))))))"

lemma collect_pages:
  assumes "pages_of ahead as_of n cursor_of dto rows fetch" "0 < n" "d \<le> length rows" "length rows - d < fuel"
  shows "collect fuel fetch (if d = 0 then None else Some (cursor_of (dto (rows ! (d - 1))))) =
    (if \<exists>r\<in>set (drop d rows). ahead r then Inl newer_row else Inr (map dto (drop d rows)))"
  using assms(3,4)
proof (induction fuel arbitrary: d)
  case (Suc fuel)
  let ?cur = "if d = 0 then None else Some (cursor_of (dto (rows ! (d - 1))))"
  let ?bad = "\<exists>r\<in>set (take n (drop d rows)). ahead r"
  have page: "fetch ?cur = (if ?bad then Inl newer_row
      else Inr (make_page as_of n (take (n + 1) (drop d rows)) cursor_of (map dto (take n (drop d rows)))))"
    using assms(1) Suc.prems(1) by (simp add: pages_of_def)
  have rest: "drop d rows = take n (drop d rows) @ drop (d + n) rows"
    by (metis add.commute append_take_drop_id drop_drop)
  show ?case
  proof (cases "length rows - d \<le> n")
    case True
    then show ?thesis using page by (simp add: make_page_def)
  next
    case False
    then have more: "d + n < length rows" by simp
    have "last (take n (drop d rows)) = rows ! (d + n - 1)"
      using more assms(2) by (simp add: last_conv_nth)
    moreover have "take n (drop d rows) \<noteq> []" using more assms(2) by simp
    ultimately have "next_cursor (make_page as_of n (take (n + 1) (drop d rows)) cursor_of (map dto (take n (drop d rows)))) =
        Some (cursor_of (dto (rows ! (d + n - 1))))"
      using more by (simp add: make_page_def last_map)
    moreover have "collect fuel fetch (Some (cursor_of (dto (rows ! (d + n - 1))))) =
        (if \<exists>r\<in>set (drop (d + n) rows). ahead r then Inl newer_row else Inr (map dto (drop (d + n) rows)))"
      using Suc.IH [of "d + n"] more Suc.prems assms(2) by simp
    moreover have "map dto (take n (drop d rows)) @ map dto (drop (d + n) rows) = map dto (drop d rows)"
      using rest by (metis map_append)
    moreover have "(\<exists>r\<in>set (drop d rows). ahead r) \<longleftrightarrow> ?bad \<or> (\<exists>r\<in>set (drop (d + n) rows). ahead r)"
      using rest by (metis Un_iff set_append)
    ultimately show ?thesis using page by (simp add: make_page_def)
  qed
qed simp

text \<open>The rows that the table holds, in the order of the addresses.\<close>

definition lists :: "'a proj_table \<Rightarrow> 'a proj_rows \<Rightarrow> bool" where
  "lists t rows \<longleftrightarrow> in_key_order (\<lambda>r. to_bytes (fst r)) rows \<and> map_of rows = t"

lemma addresses_distinct: "in_key_order (\<lambda>r. to_bytes (fst r)) rows \<Longrightarrow> distinct (map fst rows)"
  by (auto simp: in_key_order_def distinct_conv_nth sorted_wrt_iff_nth_less)
    (metis linorder_neqE_nat nth_map order_less_irrefl)

definition unkey_law :: "text_lib \<Rightarrow> (string \<Rightarrow> bytes option) \<Rightarrow> bool" where
  "unkey_law texts unkey \<longleftrightarrow> (\<forall>a. unkey (key_text texts a) = Some (to_bytes a))"

lemma pk_bytes_key: "unkey_law texts unkey \<Longrightarrow> pk_bytes unkey (key_text texts a) = Inr a"
  by (simp add: pk_bytes_def unkey_law_def ok_or_def ensure_def)

lemma job_items_eq: "job_items texts as_of rows =
    (if \<exists>r\<in>set rows. as_of < fst (snd r) then Inl newer_row else Inr (map (job_dto texts) rows))"
  by (induction rows) auto

lemma job_pages:
  assumes "unkey_law texts unkey" "in_key_order (\<lambda>r. to_bytes (fst r)) rows"
    and "1 \<le> sint limit" "sint limit \<le> 100" "\<forall>s. state = Some s \<longrightarrow> s \<in> set JOB_STATES"
    and "opt_pk_bytes unkey buyer = Inr b" "opt_pk_bytes unkey provider = Inr p"
  shows "pages_of (\<lambda>r. as_of < fst (snd r)) as_of (nat (sint limit)) ij_address (job_dto texts) (filter (job_matches state b p) rows)
    (\<lambda>cursor. list_jobs texts unkey as_of rows limit cursor state buyer provider)"
  unfolding pages_of_def
proof (intro allI impI)
  fix d
  let ?M = "filter (job_matches state b p) rows"
  let ?key = "\<lambda>r :: bytes32 \<times> bigint \<times> job_projection. to_bytes (fst r)"
  let ?cur = "if d = 0 then None else Some (ij_address (job_dto texts (?M ! (d - 1))))"
  assume d: "d \<le> length ?M"
  obtain c where c: "opt_pk_bytes unkey ?cur = Inr c"
    and after: "filter (job_matches state b p) (rows_after ?key (map_option to_bytes c) rows) = drop d ?M"
  proof (cases d)
    case 0
    then show thesis by (intro that [of None]) (simp_all add: opt_pk_bytes_def rows_after_def)
  next
    case (Suc i)
    obtain a x where row: "?M ! i = (a, x)" by (cases "?M ! i")
    have "opt_pk_bytes unkey ?cur = Inr (Some (fst (?M ! i)))"
      using pk_bytes_key [OF assms(1)] Suc row by (cases x) (simp add: opt_pk_bytes_def job_dto_def)
    moreover have "filter (job_matches state b p) (rows_after ?key (Some (?key (?M ! i))) rows) = drop d ?M"
      using rows_after_matching [OF assms(2), of i "job_matches state b p"] Suc d by simp
    ultimately show thesis by (intro that [of "Some (fst (?M ! i))"]) simp_all
  qed
  have state: "(case state of None \<Rightarrow> Inr () | Some s \<Rightarrow> validate_job_state s) = Inr ()"
    using assms(5) by (auto simp: validate_job_state_def ensure_def split: option.splits)
  show "list_jobs texts unkey as_of rows limit ?cur state buyer provider =
      (if \<exists>r\<in>set (take (nat (sint limit)) (drop d ?M)). as_of < fst (snd r) then Inl newer_row
       else Inr (make_page as_of (nat (sint limit)) (take (nat (sint limit) + 1) (drop d ?M)) ij_address
        (map (job_dto texts) (take (nat (sint limit)) (drop d ?M)))))"
    unfolding list_jobs_def c assms(6,7)
    using assms(3,4) state by (simp add: validate_limit_def after min_def job_items_eq)
qed

lemma cursor_round_trip:
  assumes "sig \<noteq> []" "unat idx < 256"
  shows "parse_event_cursor (Some (sig @ CHR '':'' # decimal (unat (idx :: u32)))) = Inr (Some sig, uint idx)"
proof -
  have digits: "CHR '':'' \<notin> set (decimal n)" "CHR ''-'' \<notin> set (decimal n)" for n
    using decimal_digits [of n] by auto
  have "rsplit_once CHR '':'' (sig @ CHR '':'' # decimal (unat idx)) = Some (sig, decimal (unat idx))"
    by (simp add: rsplit_once_def split_once_append digits)
  moreover have "strip_prefix (decimal n) ''-'' = None" for n
    using digits(2) [of n] by (intro strip_prefix_None) auto
  then have "parse_i32 (decimal (unat idx)) = Some (uint idx)"
    using parse_unsigned_decimal [of "unat idx" "2 ^ 31"] assms(2) by (simp add: parse_i32_def)
  ultimately show ?thesis using assms(1) by (simp add: parse_event_cursor_def ok_or_def ensure_def)
qed

lemma history_pages:
  assumes "in_key_order event_key table" "\<forall>r\<in>set table. fst (fst r) \<noteq> [] \<and> unat (snd (fst r)) < 256"
    and "1 \<le> sint limit" "sint limit \<le> 100" "pk_bytes unkey address = Inr addr"
  shows "pages_of (\<lambda>_. False) as_of (nat (sint limit)) (\<lambda>i. jh_signature i @ CHR '':'' # decimal (unat (jh_event_index i)))
    (history_dto texts) (filter (\<lambda>r. rer_subject (snd r) = addr \<and> rer_commitment (snd r) = Finalized) table)
    (\<lambda>cursor. job_history texts unkey as_of table address limit cursor)"
  unfolding pages_of_def
proof (intro allI impI)
  fix d
  let ?P = "\<lambda>r. rer_subject (snd r) = addr \<and> rer_commitment (snd r) = Finalized"
  let ?M = "filter ?P table"
  let ?text = "\<lambda>i. jh_signature i @ CHR '':'' # decimal (unat (jh_event_index i))"
  let ?cur = "if d = 0 then None else Some (?text (history_dto texts (?M ! (d - 1))))"
  assume d: "d \<le> length ?M"
  obtain c where c: "parse_event_cursor ?cur = Inr c"
    and after: "filter ?P (rows_after event_key (case c of (None, _) \<Rightarrow> None | (Some sig, idx) \<Rightarrow> Some (sig, idx)) table) = drop d ?M"
  proof (cases d)
    case 0
    then show thesis by (intro that [of "(None, 0)"]) (simp_all add: parse_event_cursor_def rows_after_def)
  next
    case (Suc i)
    obtain key x where kx: "?M ! i = (key, x)" by (cases "?M ! i")
    obtain sig idx where "key = (sig, idx)" by (cases key)
    with kx have row: "?M ! i = ((sig, idx), x)" by simp
    have "?M ! i \<in> set table" using nth_mem [of i ?M] Suc d by auto
    with row have "((sig, idx), x) \<in> set table" by simp
    then have ok: "sig \<noteq> []" "unat idx < 256" using bspec [OF assms(2)] by fastforce+
    have "parse_event_cursor ?cur = Inr (Some sig, uint idx)"
      using cursor_round_trip [OF ok] Suc row by (simp add: history_dto_def)
    moreover have "filter ?P (rows_after event_key (Some (event_key (?M ! i))) table) = drop d ?M"
      using rows_after_matching [OF assms(1), of i ?P] Suc d by simp
    ultimately show thesis by (intro that [of "(Some sig, uint idx)"]) (simp_all add: row event_key_def)
  qed
  show "job_history texts unkey as_of table address limit ?cur =
      (if \<exists>r\<in>set (take (nat (sint limit)) (drop d ?M)). False then Inl newer_row
       else Inr (make_page as_of (nat (sint limit)) (take (nat (sint limit) + 1) (drop d ?M)) ?text
        (map (history_dto texts) (take (nat (sint limit)) (drop d ?M)))))"
    unfolding job_history_def c assms(5) select_events_def
    using assms(3,4) after by (simp add: validate_limit_def min_def)
qed

section \<open>Properties\<close>

text \<open>What a listing is to contain, written without the query: a job is wanted if it has the state, the buyer and the
  provider that are asked for, where any is; an item shows a row field by field.\<close>

definition wanted ::
    "(string \<Rightarrow> bytes option) \<Rightarrow> string option \<Rightarrow> string option \<Rightarrow> string option \<Rightarrow> job_projection \<Rightarrow> bool" where
  "wanted unkey state buyer provider j \<longleftrightarrow>
     (\<forall>s. state = Some s \<longrightarrow> jp_state j = s) \<and>
     (\<forall>k. buyer = Some k \<longrightarrow> unkey k = Some (to_bytes (jp_buyer j))) \<and>
     (\<forall>k. provider = Some k \<longrightarrow> unkey k = Some (to_bytes (jp_provider j)))"

definition shows_job :: "text_lib \<Rightarrow> bytes32 \<times> bigint \<times> job_projection \<Rightarrow> IndexedJobDto \<Rightarrow> bool" where
  "shows_job texts row item \<longleftrightarrow> (case row of (a, slot, j) \<Rightarrow>
     ij_address item = key_text texts a \<and> ij_as_of_slot item = int_text slot \<and>
     ij_buyer item = key_text texts (jp_buyer j) \<and> ij_provider item = key_text texts (jp_provider j) \<and>
     ij_amount item = decimal (unat (jp_amount j)) \<and> ij_job_nonce item = decimal (unat (jp_job_nonce j)) \<and>
     ij_state item = jp_state j)"

lemma shows_job_dtos: "list_all2 (shows_job texts) rows (map (job_dto texts) rows)"
  by (simp add: list_all2_conv_all_nth shows_job_def job_dto_def case_prod_beta)

text \<open>A filter by a key that is readable is the comparison with the key read.\<close>

lemma filter_key:
  assumes "\<forall>k. filt = Some k \<longrightarrow> (\<exists>a :: bytes32. unkey k = Some (to_bytes a))"
  obtains b where "opt_pk_bytes unkey filt = Inr b"
    "\<And>x. (case b of None \<Rightarrow> True | Some b \<Rightarrow> x = b) \<longleftrightarrow> (\<forall>k. filt = Some k \<longrightarrow> unkey k = Some (to_bytes x))"
proof (cases filt)
  case None
  then show thesis by (intro that [of None]) (simp_all add: opt_pk_bytes_def)
next
  case (Some k)
  then obtain a :: bytes32 where "unkey k = Some (to_bytes a)" using assms by blast
  with Some show thesis
    by (intro that [of "Some a"]) (auto simp: opt_pk_bytes_def pk_bytes_def ok_or_def ensure_def to_bytes_inject)
qed

text \<open>
  C39. Following the cursors yields every job once. A client that lists jobs page by page, with any limit from 1 to 100 and
  any readable filters, gets exactly the jobs of the table that have the state, the buyer and the provider asked for, in
  the order of their addresses, each with its fields; but if one of these jobs is newer than the finalized checkpoint,
  the listing ends in the error that says so.
\<close>

theorem job_pages_cover:
  assumes "unkey_law texts unkey" "lists (proj_jobs db) rows"
    and "1 \<le> sint limit" "sint limit \<le> 100" "\<forall>s. state = Some s \<longrightarrow> s \<in> set JOB_STATES"
    and "\<forall>k. buyer = Some k \<or> provider = Some k \<longrightarrow> (\<exists>a :: bytes32. unkey k = Some (to_bytes a))" "length rows < fuel"
  shows "\<exists>jobs. in_key_order (\<lambda>r. to_bytes (fst r)) jobs \<and>
      (\<forall>a slot j. (a, slot, j) \<in> set jobs \<longleftrightarrow>
         proj_jobs db a = Some (slot, j) \<and> wanted unkey state buyer provider j) \<and>
      (let listing = collect fuel (\<lambda>cursor. list_jobs texts unkey (finalized_slot db) rows limit cursor state buyer provider) None
       in if \<exists>(a, slot, j)\<in>set jobs. finalized_slot db < slot
          then listing = Inl (Conflict ''projection newer than checkpoint'')
          else \<exists>items. listing = Inr items \<and> list_all2 (shows_job texts) jobs items)"
proof -
  obtain b where b: "opt_pk_bytes unkey buyer = Inr b"
    "\<And>x. (case b of None \<Rightarrow> True | Some b \<Rightarrow> x = b) \<longleftrightarrow> (\<forall>k. buyer = Some k \<longrightarrow> unkey k = Some (to_bytes x))"
    using filter_key [of buyer unkey] assms(6) by blast
  obtain p where p: "opt_pk_bytes unkey provider = Inr p"
    "\<And>x. (case p of None \<Rightarrow> True | Some b \<Rightarrow> x = b) \<longleftrightarrow> (\<forall>k. provider = Some k \<longrightarrow> unkey k = Some (to_bytes x))"
    using filter_key [of provider unkey] assms(6) by blast
  let ?M = "filter (job_matches state b p) rows"
  have matches: "job_matches state b p (a, slot, j) \<longleftrightarrow> wanted unkey state buyer provider j" for a slot j
    unfolding job_matches_def wanted_def prod.case b(2) p(2) by (simp split: option.split)
  have rows: "in_key_order (\<lambda>r. to_bytes (fst r)) rows" "map_of rows = proj_jobs db"
    using assms(2) by (auto simp: lists_def)
  have "length ?M < fuel" using assms(7) le_less_trans [OF length_filter_le] by blast
  then have listing: "collect fuel (\<lambda>cursor. list_jobs texts unkey (finalized_slot db) rows limit cursor state buyer provider) None =
      (if \<exists>r\<in>set ?M. finalized_slot db < fst (snd r) then Inl newer_row else Inr (map (job_dto texts) ?M))"
    using collect_pages [OF job_pages [OF assms(1) rows(1) assms(3-5) b(1) p(1)], of 0 fuel] assms(3)
    by (simp add: conj_ac)
  have outcome: "if B then L = Inl newer_row else \<exists>items. L = Inr items \<and> list_all2 (shows_job texts) ?M items"
    if "L = (if B then Inl newer_row else Inr (map (job_dto texts) ?M))" for B L
    using that shows_job_dtos by auto
  have newest: "(\<exists>(a, slot, j)\<in>set ?M. finalized_slot db < slot) \<longleftrightarrow> (\<exists>r\<in>set ?M. finalized_slot db < fst (snd r))"
    by (simp only: case_prod_unfold)
  have "(a, x) \<in> set rows \<longleftrightarrow> proj_jobs db a = Some x" for a x
    using rows(2) addresses_distinct [OF rows(1)] by (metis map_of_eq_Some_iff)
  then have "\<forall>a slot j. (a, slot, j) \<in> set ?M \<longleftrightarrow>
      proj_jobs db a = Some (slot, j) \<and> wanted unkey state buyer provider j"
    by (simp add: matches)
  then show ?thesis
    unfolding Let_def using in_key_order_filter [OF rows(1)] outcome [OF listing, folded newest] by blast
qed

text \<open>The same for the history of a job: its final events, in the order of signature and index.\<close>

lemma history_pages_cover:
  assumes "in_key_order event_key table" "\<forall>r\<in>set table. fst (fst r) \<noteq> [] \<and> unat (snd (fst r)) < 256"
    and "1 \<le> sint limit" "sint limit \<le> 100" "pk_bytes unkey address = Inr addr" "length table < fuel"
  shows "collect fuel (\<lambda>cursor. job_history texts unkey as_of table address limit cursor) None =
    Inr (map (history_dto texts) (filter (\<lambda>r. rer_subject (snd r) = addr \<and> rer_commitment (snd r) = Finalized) table))"
proof -
  have "length (filter (\<lambda>r. rer_subject (snd r) = addr \<and> rer_commitment (snd r) = Finalized) table) < fuel"
    using assms(6) le_less_trans [OF length_filter_le] by blast
  then show ?thesis
    using collect_pages [OF history_pages [OF assms(1-5)], of 0 fuel] assms(3) by simp
qed

section \<open>A listing\<close>

definition plain_texts :: text_lib where
  "plain_texts = \<lparr>key_text = (\<lambda>a. map (\<lambda>b. char_of (unat b)) (to_bytes a)), b64_encode = hex, b64_decode = (\<lambda>_. None)\<rparr>"

definition plain_unkey :: "string \<Rightarrow> bytes option" where
  "plain_unkey s = Some (map (\<lambda>c. word_of_nat (of_char c)) s)"

lemma plain_law: "unkey_law plain_texts plain_unkey"
proof -
  have "word_of_nat (of_char (char_of (unat b) :: char)) = b" for b :: byte
    using unsigned_less [where w = b and 'a = nat] by simp
  then show ?thesis by (simp add: unkey_law_def plain_texts_def plain_unkey_def comp_def)
qed

definition sample_rows :: "job_projection proj_rows" where
  "sample_rows = [(fill32 1, 5, sample_late_job), (fill32 2, 6, sample_late_job\<lparr>jp_state := ''Settled''\<rparr>)]"

theorem job_pages_cover_witness:
  "\<exists>items. collect 3 (\<lambda>cursor. list_jobs plain_texts plain_unkey 9 sample_rows 1 cursor None None None) None = Inr items \<and>
    length items = 2"
proof -
  let ?db = "empty_db\<lparr>proj_jobs := map_of sample_rows, finalized_slot := 9\<rparr>"
  have order: "in_key_order (\<lambda>r. to_bytes (fst r)) sample_rows"
    by (simp add: in_key_order_def sample_rows_def numeral_eq_Suc)
  have "\<exists>jobs. in_key_order (\<lambda>r. to_bytes (fst r)) jobs \<and>
      (\<forall>a slot j. (a, slot, j) \<in> set jobs \<longleftrightarrow>
         proj_jobs ?db a = Some (slot, j) \<and> wanted plain_unkey None None None j) \<and>
      (let listing = collect 3 (\<lambda>cursor. list_jobs plain_texts plain_unkey (finalized_slot ?db) sample_rows 1 cursor None None None) None
       in if \<exists>(a, slot, j)\<in>set jobs. finalized_slot ?db < slot
          then listing = Inl (Conflict ''projection newer than checkpoint'')
          else \<exists>items. listing = Inr items \<and> list_all2 (shows_job plain_texts) jobs items)"
    by (rule job_pages_cover [OF plain_law])
      (simp_all add: lists_def order, simp_all add: sample_rows_def)
  then obtain jobs where order: "in_key_order (\<lambda>r. to_bytes (fst r)) jobs"
    and all: "\<And>a slot j. (a, slot, j) \<in> set jobs \<longleftrightarrow> map_of sample_rows a = Some (slot, j)"
    and listing: "let listing = collect 3 (\<lambda>cursor. list_jobs plain_texts plain_unkey 9 sample_rows 1 cursor None None None) None
       in if \<exists>(a, slot, j)\<in>set jobs. 9 < slot then listing = Inl (Conflict ''projection newer than checkpoint'')
          else \<exists>items. listing = Inr items \<and> list_all2 (shows_job plain_texts) jobs items"
    by (auto simp: wanted_def)
  have keys: "set (map fst jobs) = dom (map_of sample_rows)" using all by (force simp: dom_def)
  also have "\<dots> = {fill32 1, fill32 2}" by (simp only: dom_map_of_conv_image_fst) (simp add: sample_rows_def)
  finally have "card (set (map fst jobs)) = 2" by simp
  moreover have "distinct (map fst jobs)" by (rule addresses_distinct [OF order])
  ultimately have "length jobs = 2" by (metis distinct_card length_map)
  moreover have "\<not> (\<exists>(a, slot, j)\<in>set jobs. 9 < slot)"
    using all by (auto simp: sample_rows_def split: if_splits)
  ultimately show ?thesis using listing by (auto simp: Let_def dest: list_all2_lengthD)
qed

end
