(* ===== verification/Index_Engine.thy ===== *)
theory Index_Engine
  imports Index_Finality
begin

text \<open>
  The engine of the indexer, \<^verbatim>\<open>agentbond-indexer/src/engine.rs\<close>, with the updates and errors it handles (\<^verbatim>\<open>source.rs\<close>,
  \<^verbatim>\<open>error.rs\<close>) and the trait of \<^verbatim>\<open>backfill.rs\<close>: it takes chain updates one after the other, records the ranges of slots
  that it has not been told about, asks the backfill for them, and writes everything to the tables.

  An operation of the engine changes the tables even if it fails later, so it is a function from the state to a
  result and a state, also for an error. What the backfill answers while an update is handled comes with the update.
  Metrics and log messages are left out.
\<close>

section \<open>Data\<close>

datatype IndexerError =
    DbE DbError
  | ConfigE string
  | DecodeE string
  | SourceE string
  | FixtureE string
  | BackfillE string

record AccountUpdate =
  au_raw :: RawAccountVersion
  au_projection :: "DecodedProjection option"

datatype ChainUpdate =
    SlotU SlotUpdate
  | AccountU AccountUpdate
  | EventsU "RawProtocolEvent list"

definition parse_commitment :: "string \<Rightarrow> Commitment" where
  "parse_commitment s =
     (if s = ''finalized'' then Finalized
      else if s = ''confirmed'' then Confirmed
      else if s = ''dead'' then Dead
      else Processed)"

lemma parse_commitment_str [simp]: "parse_commitment (commitment_str c) = c"
  by (cases c) (simp_all add: parse_commitment_def)

text \<open>The texts of the errors (\<open>Display\<close>).\<close>

primrec payment_error_str :: "PaymentError \<Rightarrow> string" where
  "payment_error_str MissingPayment = ''missing payment''"
| "payment_error_str InvalidBase64 = ''invalid base64''"
| "payment_error_str OversizedHeader = ''oversized header''"
| "payment_error_str InvalidJson = ''invalid json''"
| "payment_error_str WrongVersion = ''wrong x402 version''"
| "payment_error_str WrongScheme = ''wrong scheme''"
| "payment_error_str WrongNetwork = ''wrong network''"
| "payment_error_str WrongAsset = ''wrong asset''"
| "payment_error_str WrongAmount = ''wrong amount''"
| "payment_error_str WrongRecipient = ''wrong recipient''"
| "payment_error_str WrongFeePayer = ''wrong fee payer''"
| "payment_error_str RequirementsExpired = ''expired requirements''"
| "payment_error_str UnsupportedExtension = ''unsupported extension''"
| "payment_error_str InvalidChallenge = ''invalid challenge''"
| "payment_error_str ChallengeExpired = ''challenge expired''"
| "payment_error_str InvalidTransaction = ''invalid transaction''"
| "payment_error_str SettlementInProgress = ''settlement in progress; retry later''"
| "payment_error_str BindingMismatch = ''transaction binding mismatch''"
| "payment_error_str LeaseMismatch = ''settlement lease mismatch''"
| "payment_error_str (PaymentInternal s) = ''internal payment error: '' @ s"
| "payment_error_str VerifyRejected = ''verify rejected''"
| "payment_error_str VerifyTimeout = ''verify timeout''"
| "payment_error_str SettleRejected = ''settle rejected''"
| "payment_error_str SettleTimeout = ''settle timeout''"
| "payment_error_str (FacilitatorError s) = ''facilitator error: '' @ s"
| "payment_error_str (PaymentConfig s) = ''invalid config: '' @ s"

primrec db_error_str :: "DbError \<Rightarrow> string" where
  "db_error_str (Sql s) = ''database: '' @ s"
| "db_error_str (Migrate s) = ''migrate: '' @ s"
| "db_error_str (DbConfig s) = ''config: '' @ s"
| "db_error_str (NotFound s) = ''not found: '' @ s"
| "db_error_str (Conflict s) = ''conflict: '' @ s"
| "db_error_str (Validation s) = ''validation: '' @ s"
| "db_error_str (Migration s) = ''migration: '' @ s"
| "db_error_str (DbPayment e) = payment_error_str e"

primrec indexer_error_str :: "IndexerError \<Rightarrow> string" where
  "indexer_error_str (DbE e) = db_error_str e"
| "indexer_error_str (ConfigE s) = ''config: '' @ s"
| "indexer_error_str (DecodeE s) = ''decode: '' @ s"
| "indexer_error_str (SourceE s) = ''source: '' @ s"
| "indexer_error_str (FixtureE s) = ''fixture: '' @ s"
| "indexer_error_str (BackfillE s) = ''backfill: '' @ s"

record GapBackfill =
  fetch_slot :: "u64 \<Rightarrow> IndexerError + ChainUpdate list"
  reconcile_accounts :: "u64 \<Rightarrow> u64 \<Rightarrow> IndexerError + bool"

definition NullBackfill :: GapBackfill where
  "NullBackfill = \<lparr>fetch_slot = (\<lambda>slot. Inl (BackfillE (''no backfill source configured for slot '' @ decimal (unat slot)))),
     reconcile_accounts = (\<lambda>from_slot to_slot. Inr False)\<rparr>"

definition MapBackfill :: "(u64 \<rightharpoonup> ChainUpdate list) \<Rightarrow> bool \<Rightarrow> GapBackfill" where
  "MapBackfill slots accounts_reconciled = \<lparr>fetch_slot = (\<lambda>slot. case slots slot of
       Some updates \<Rightarrow> Inr updates
     | None \<Rightarrow> Inl (BackfillE (''fixture backfill missing slot '' @ decimal (unat slot)))),
     reconcile_accounts = (\<lambda>from_slot to_slot. Inr accounts_reconciled)\<rparr>"

section \<open>Operations\<close>

record engine =
  eng_last :: "u64 option"
  eng_db :: index_db

type_synonym 'a engine_op = "engine \<Rightarrow> (IndexerError + 'a) \<times> engine"

definition give :: "'a \<Rightarrow> 'a engine_op" where
  "give x s = (Inr x, s)"

definition andthen :: "'a engine_op \<Rightarrow> ('a \<Rightarrow> 'b engine_op) \<Rightarrow> 'b engine_op" where
  "andthen m f s = (case m s of (Inl e, s') \<Rightarrow> (Inl e, s') | (Inr x, s') \<Rightarrow> f x s')"

definition set_last :: "u64 \<Rightarrow> unit engine_op" where
  "set_last slot s = (Inr (), s\<lparr>eng_last := Some slot\<rparr>)"

text \<open>A call of the repository. \<open>db_do\<close> is for the calls without a result.\<close>

definition db_op :: "(index_db \<Rightarrow> DbError + 'a \<times> index_db) \<Rightarrow> 'a engine_op" where
  "db_op f s = (case f (eng_db s) of Inl e \<Rightarrow> (Inl (DbE e), s) | Inr (x, db) \<Rightarrow> (Inr x, s\<lparr>eng_db := db\<rparr>))"

definition db_do :: "(index_db \<Rightarrow> DbError + index_db) \<Rightarrow> unit engine_op" where
  "db_do f = db_op (\<lambda>db. tryE (f db) (\<lambda>db. Inr ((), db)))"

section \<open>Ingestion\<close>

abbreviation (input) MAX_BACKFILL_SLOTS :: u64 where "MAX_BACKFILL_SLOTS \<equiv> 32"

definition detect_forward_gap :: "u64 \<Rightarrow> u64 \<Rightarrow> (u64 \<times> u64) option" where
  "detect_forward_gap prev slot =
     (case checked_add prev 1 of
        None \<Rightarrow> None
      | Some nxt \<Rightarrow> if nxt < slot then map_option (\<lambda>to_slot. (nxt, to_slot)) (checked_sub slot 1) else None)"

text \<open>The first part of the branch for a slot: what it says about the slots in between.\<close>

definition track_slot :: "u64 \<Rightarrow> (u64 \<times> u64) option engine_op" where
  "track_slot slot s =
     (case eng_last s of
        Some prev \<Rightarrow>
          (case detect_forward_gap prev slot of
             Some (from_slot, to_slot) \<Rightarrow>
               andthen (db_do (record_gap from_slot to_slot)) (\<lambda>_.
               andthen (set_last slot) (\<lambda>_.
               give (Some (from_slot, to_slot)))) s
           | None \<Rightarrow> if prev < slot then andthen (set_last slot) (\<lambda>_. give None) s else give None s)
      | None \<Rightarrow> andthen (set_last slot) (\<lambda>_. give None) s)"

fun insert_events :: "(i64 \<Rightarrow> bool) \<Rightarrow> RawProtocolEvent list \<Rightarrow> unit engine_op" where
  "insert_events time_ok [] = give ()"
| "insert_events time_ok (ev # evs) =
     andthen (db_op (insert_event time_ok ev)) (\<lambda>_. insert_events time_ok evs)"

fun ingest_update :: "(i64 \<Rightarrow> bool) \<Rightarrow> ChainUpdate \<Rightarrow> (u64 \<times> u64) option engine_op" where
  "ingest_update time_ok (SlotU slot) =
     andthen (track_slot (su_slot slot)) (\<lambda>gap.
     andthen (db_do (upsert_slot time_ok slot)) (\<lambda>_.
     andthen (if su_status slot = Finalized then andthen (db_op (finalize_slot time_ok (su_slot slot))) (\<lambda>_. give ())
              else give ()) (\<lambda>_.
     give gap)))"
| "ingest_update time_ok (AccountU account) =
     andthen (db_op (insert_account_with_projection time_ok (au_raw account) (au_projection account))) (\<lambda>_. give None)"
| "ingest_update time_ok (EventsU events) = andthen (insert_events time_ok events) (\<lambda>_. give None)"

section \<open>Repair\<close>

fun ingest_fetched :: "(i64 \<Rightarrow> bool) \<Rightarrow> ChainUpdate list \<Rightarrow> unit engine_op" where
  "ingest_fetched time_ok [] = give ()"
| "ingest_fetched time_ok (update # updates) =
     andthen (ingest_update time_ok update) (\<lambda>nested.
       if nested \<noteq> None then (\<lambda>s. (Inl (BackfillE ''nested gap during backfill is unsupported''), s))
       else ingest_fetched time_ok updates)"

text \<open>The loop over the slots of a gap. The result says whether all of them were fetched; if not, the gap has been
  marked as failed.\<close>

fun repair_slots :: "(i64 \<Rightarrow> bool) \<Rightarrow> GapBackfill \<Rightarrow> u64 \<Rightarrow> u64 \<Rightarrow> u64 list \<Rightarrow> bool engine_op" where
  "repair_slots time_ok backfill from_slot to_slot [] = give True"
| "repair_slots time_ok backfill from_slot to_slot (slot # slots) =
     (case fetch_slot backfill slot of
        Inr updates \<Rightarrow>
          andthen (ingest_fetched time_ok updates) (\<lambda>_. repair_slots time_ok backfill from_slot to_slot slots)
      | Inl e \<Rightarrow> andthen (db_do (mark_gap_failed from_slot to_slot (indexer_error_str e))) (\<lambda>_. give False))"

definition slot_range :: "u64 \<Rightarrow> u64 \<Rightarrow> u64 list" where
  "slot_range from_slot to_slot = map word_of_nat [unat from_slot ..< Suc (unat to_slot)]"

definition gap_span :: "u64 \<Rightarrow> u64 \<Rightarrow> u64" where
  "gap_span from_slot to_slot =
     (let d = (case checked_sub to_slot from_slot of Some d \<Rightarrow> d | None \<Rightarrow> 0)
      in case checked_add d 1 of Some n \<Rightarrow> n | None \<Rightarrow> - 1)"

definition repair_gap :: "(i64 \<Rightarrow> bool) \<Rightarrow> GapBackfill \<Rightarrow> u64 \<Rightarrow> u64 \<Rightarrow> unit engine_op" where
  "repair_gap time_ok backfill from_slot to_slot =
     (if MAX_BACKFILL_SLOTS < gap_span from_slot to_slot
      then db_do (mark_gap_failed from_slot to_slot (''gap '' @ decimal (unat from_slot) @ ''..='' @ decimal (unat to_slot) @
        '' exceeds backfill bound '' @ decimal (unat MAX_BACKFILL_SLOTS)))
      else
        andthen (repair_slots time_ok backfill from_slot to_slot (slot_range from_slot to_slot)) (\<lambda>fetched.
          if \<not> fetched then give ()
          else
            case reconcile_accounts backfill from_slot to_slot of
              Inr True \<Rightarrow> db_do (mark_gap_repaired from_slot to_slot)
            | Inr False \<Rightarrow> db_do (mark_gap_partial from_slot to_slot
                ''events repaired via getBlock; account projections pending reconciliation'')
            | Inl e \<Rightarrow> db_do (mark_gap_partial from_slot to_slot (indexer_error_str e))))"

section \<open>The run\<close>

text \<open>An item of the stream, with what the backfill answers at that time.\<close>

type_synonym stream_item = "(IndexerError + ChainUpdate) \<times> GapBackfill"

fun run_items :: "(i64 \<Rightarrow> bool) \<Rightarrow> stream_item list \<Rightarrow> unit engine_op" where
  "run_items time_ok [] = give ()"
| "run_items time_ok ((item, backfill) # items) =
     (case item of
        Inl e \<Rightarrow> (\<lambda>s. (Inl e, s))
      | Inr update \<Rightarrow>
          andthen (ingest_update time_ok update) (\<lambda>gap.
          andthen (case gap of Some (from_slot, to_slot) \<Rightarrow> repair_gap time_ok backfill from_slot to_slot | None \<Rightarrow> give ())
            (\<lambda>_. run_items time_ok items)))"

definition run_source ::
    "(i64 \<Rightarrow> bool) \<Rightarrow> (IndexerError + stream_item list) \<Rightarrow> index_db \<Rightarrow> (IndexerError + unit) \<times> index_db" where
  "run_source time_ok subscribe db =
     (case checkpoint db of
        Inl e \<Rightarrow> (Inl (DbE e), db)
      | Inr (finalized, processed) \<Rightarrow>
          let last_slot = (if 0 < processed then Some processed else if 0 < finalized then Some finalized else None)
          in case subscribe of
               Inl e \<Rightarrow> (Inl e, db)
             | Inr items \<Rightarrow>
                 (case run_items time_ok items \<lparr>eng_last = last_slot, eng_db = db\<rparr> of (r, s) \<Rightarrow> (r, eng_db s)))"

text \<open>One run after the other on the same tables, whatever each ended with.\<close>

fun index_runs :: "(i64 \<Rightarrow> bool) \<Rightarrow> (IndexerError + stream_item list) list \<Rightarrow> index_db \<Rightarrow> index_db" where
  "index_runs time_ok [] db = db"
| "index_runs time_ok (r # rs) db = index_runs time_ok rs (snd (run_source time_ok r db))"

section \<open>Reasoning about operations\<close>

text \<open>What holds after an operation, for a result and for an error.\<close>

definition triple ::
    "(engine \<Rightarrow> bool) \<Rightarrow> 'a engine_op \<Rightarrow> ('a \<Rightarrow> engine \<Rightarrow> bool) \<Rightarrow> (IndexerError \<Rightarrow> engine \<Rightarrow> bool) \<Rightarrow> bool" where
  "triple P m Q E \<longleftrightarrow> (\<forall>s. P s \<longrightarrow> (case m s of (Inr x, s') \<Rightarrow> Q x s' | (Inl e, s') \<Rightarrow> E e s'))"

named_theorems triples

lemma tripleD: "triple P m Q E \<Longrightarrow> P s \<Longrightarrow> m s = (r, s') \<Longrightarrow> (case r of Inr x \<Rightarrow> Q x s' | Inl e \<Rightarrow> E e s')"
  by (auto simp: triple_def split: sum.splits)

lemma triple_give [triples]: "(\<And>s. P s \<Longrightarrow> Q x s) \<Longrightarrow> triple P (give x) Q E"
  by (simp add: triple_def give_def)

lemma triple_raise [triples]: "(\<And>s. P s \<Longrightarrow> E e s) \<Longrightarrow> triple P (\<lambda>s. (Inl e, s)) Q E"
  by (simp add: triple_def)

lemma triple_andthen: "triple P m R E \<Longrightarrow> (\<And>x. triple (R x) (f x) Q E) \<Longrightarrow> triple P (andthen m f) Q E"
  by (fastforce simp: triple_def andthen_def split: prod.splits sum.splits)

lemma triple_db_op:
  "(\<And>s x db. P s \<Longrightarrow> f (eng_db s) = Inr (x, db) \<Longrightarrow> Q x (s\<lparr>eng_db := db\<rparr>)) \<Longrightarrow>
   (\<And>s e. P s \<Longrightarrow> f (eng_db s) = Inl e \<Longrightarrow> E (DbE e) s) \<Longrightarrow> triple P (db_op f) Q E"
  by (auto simp: triple_def db_op_def split: sum.splits)

lemma triple_db_do:
  "(\<And>s db. P s \<Longrightarrow> f (eng_db s) = Inr db \<Longrightarrow> Q () (s\<lparr>eng_db := db\<rparr>)) \<Longrightarrow>
   (\<And>s e. P s \<Longrightarrow> f (eng_db s) = Inl e \<Longrightarrow> E (DbE e) s) \<Longrightarrow> triple P (db_do f) Q E"
  unfolding db_do_def by (rule triple_db_op) (auto simp: result_inv tryE_eq_Inl)

lemma triple_if: "(b \<Longrightarrow> triple P m Q E) \<Longrightarrow> (\<not> b \<Longrightarrow> triple P m' Q E) \<Longrightarrow> triple P (if b then m else m') Q E"
  by simp

lemma triple_weaken:
  "triple P' m Q' E' \<Longrightarrow> (\<And>s. P s \<Longrightarrow> P' s) \<Longrightarrow> (\<And>x s. Q' x s \<Longrightarrow> Q x s) \<Longrightarrow> (\<And>e s. E' e s \<Longrightarrow> E e s) \<Longrightarrow> triple P m Q E"
  by (fastforce simp: triple_def split: prod.splits sum.splits)

section \<open>Steps of the tables\<close>

lemma track_slot_triple:
  assumes "\<And>s prev a b db. P s \<Longrightarrow> eng_last s = Some prev \<Longrightarrow> detect_forward_gap prev slot = Some (a, b) \<Longrightarrow>
      record_gap a b (eng_db s) = Inr db \<Longrightarrow> Q (Some (a, b)) (s\<lparr>eng_db := db, eng_last := Some slot\<rparr>)"
    and "\<And>s prev a b e. P s \<Longrightarrow> eng_last s = Some prev \<Longrightarrow> detect_forward_gap prev slot = Some (a, b) \<Longrightarrow>
      record_gap a b (eng_db s) = Inl e \<Longrightarrow> E (DbE e) s"
    and "\<And>s prev. P s \<Longrightarrow> eng_last s = Some prev \<Longrightarrow> detect_forward_gap prev slot = None \<Longrightarrow>
      Q None (if prev < slot then s\<lparr>eng_last := Some slot\<rparr> else s)"
    and "\<And>s. P s \<Longrightarrow> eng_last s = None \<Longrightarrow> Q None (s\<lparr>eng_last := Some slot\<rparr>)"
  shows "triple P (track_slot slot) Q E"
  unfolding triple_def
proof (intro allI impI)
  fix s assume P: "P s"
  show "case track_slot slot s of (Inr x, s') \<Rightarrow> Q x s' | (Inl e, s') \<Rightarrow> E e s'"
  proof (cases "eng_last s")
    case None
    with assms(4) [OF P] show ?thesis by (simp add: track_slot_def andthen_def set_last_def give_def)
  next
    case (Some prev)
    note last = this
    show ?thesis
    proof (cases "detect_forward_gap prev slot")
      case None
      with assms(3) [OF P last] last show ?thesis
        by (auto simp: track_slot_def andthen_def set_last_def give_def)
    next
      case (Some g)
      then obtain a b where g: "detect_forward_gap prev slot = Some (a, b)" by (cases g) auto
      show ?thesis
      proof (cases "record_gap a b (eng_db s)")
        case (Inl e)
        with assms(2) [OF P last g] last g show ?thesis
          by (simp add: track_slot_def andthen_def db_do_def db_op_def)
      next
        case (Inr db)
        with assms(1) [OF P last g] last g show ?thesis
          by (simp add: track_slot_def andthen_def db_do_def db_op_def set_last_def give_def)
      qed
    qed
  qed
qed

text \<open>What holds of the engine between updates (\<open>I\<close>) and after an error (\<open>E\<close>), and what its parts have to
  do for that.\<close>

locale engine_invariant =
  fixes time_ok :: "i64 \<Rightarrow> bool"
    and I :: "engine \<Rightarrow> bool"
    and E :: "engine \<Rightarrow> bool"
  assumes ingest: "triple I (ingest_update time_ok update) (\<lambda>_. I) (\<lambda>_. E)"
    and failed: "triple I (db_do (mark_gap_failed a b msg)) (\<lambda>_. I) (\<lambda>_. E)"
    and partial: "triple I (db_do (mark_gap_partial a b msg)) (\<lambda>_. I) (\<lambda>_. E)"
    and repaired: "triple I (db_do (mark_gap_repaired a b)) (\<lambda>_. I) (\<lambda>_. E)"
    and stops: "I s \<Longrightarrow> E s"
begin

lemma fetched: "triple I (ingest_fetched time_ok updates) (\<lambda>_. I) (\<lambda>_. E)"
proof (induction updates)
  case (Cons update updates)
  show ?case
    unfolding ingest_fetched.simps
    by (rule triple_andthen [OF ingest]) (auto intro: triple_raise stops Cons.IH)
qed (auto intro: triple_give)

lemma slots: "triple I (repair_slots time_ok backfill a b slots) (\<lambda>_. I) (\<lambda>_. E)"
proof (induction slots)
  case (Cons slot slots)
  show ?case
  proof (cases "fetch_slot backfill slot")
    case (Inl e)
    then show ?thesis
      unfolding repair_slots.simps Inl sum.case
      by (intro triple_andthen [OF failed] triple_give)
  next
    case (Inr updates)
    then show ?thesis
      unfolding repair_slots.simps Inr sum.case
      by (intro triple_andthen [OF fetched] Cons.IH)
  qed
qed (auto intro: triple_give)

lemma repair: "triple I (repair_gap time_ok backfill a b) (\<lambda>_. I) (\<lambda>_. E)"
  unfolding repair_gap_def
  by (intro triple_if failed triple_andthen [OF slots])
    (auto split: sum.split bool.split intro: triple_give partial repaired)

lemma items: "triple I (run_items time_ok items) (\<lambda>_. I) (\<lambda>_. E)"
proof (induction items)
  case (Cons x items)
  obtain item backfill where x: "x = (item, backfill)" by (cases x)
  show ?case
  proof (cases item)
    case (Inl e)
    then show ?thesis by (simp add: x triple_raise stops)
  next
    case (Inr update)
    have after: "triple I (case gap of Some (a, b) \<Rightarrow> repair_gap time_ok backfill a b | None \<Rightarrow> give ()) (\<lambda>_. I) (\<lambda>_. E)" for gap
      by (auto split: option.split intro: triple_give repair)
    show ?thesis
      unfolding x run_items.simps Inr sum.case
      by (rule triple_andthen [OF ingest], rule triple_andthen [OF after Cons.IH])
  qed
qed (auto intro: triple_give)

end

section \<open>Steps of the tables\<close>

text \<open>Whatever the engine does is a sequence of steps of the tables.\<close>

lemma insert_events_triple:
  assumes "\<And>ev s db new. I s \<Longrightarrow> insert_event time_ok ev (eng_db s) = Inr (new, db) \<Longrightarrow> I (s\<lparr>eng_db := db\<rparr>)"
    and "\<And>s. I s \<Longrightarrow> E s"
  shows "triple I (insert_events time_ok evs) (\<lambda>_. I) (\<lambda>_. E)"
proof (induction evs)
  case (Cons ev evs)
  show ?case
    unfolding insert_events.simps
    by (intro triple_andthen [of _ _ "\<lambda>_. I"] triple_db_op Cons.IH) (auto intro: assms)
qed (auto intro: triple_give)

abbreviation stepped :: "(i64 \<Rightarrow> bool) \<Rightarrow> index_db \<Rightarrow> engine \<Rightarrow> bool" where
  "stepped time_ok db0 s \<equiv> rtranclp (index_step time_ok) db0 (eng_db s)"

lemma stepped_step: "stepped time_ok db0 s \<Longrightarrow> index_step time_ok (eng_db s) db \<Longrightarrow> stepped time_ok db0 (s\<lparr>eng_db := db\<rparr>)"
  by (simp add: rtranclp.rtrancl_into_rtrancl)

lemmas stepped_steps = stepped_step [OF _ Slot_step] stepped_step [OF _ Account_step] stepped_step [OF _ Event_step]
  stepped_step [OF _ Finalize_step] stepped_step [OF _ Record_gap_step] stepped_step [OF _ Partial_gap_step]
  stepped_step [OF _ Failed_gap_step] stepped_step [OF _ Repaired_gap_step]

lemma stepped_track: "triple (stepped time_ok db0) (track_slot slot) (\<lambda>_. stepped time_ok db0) (\<lambda>_. stepped time_ok db0)"
  by (rule track_slot_triple) (auto dest: stepped_steps(5))

lemma stepped_ingest:
  "triple (stepped time_ok db0) (ingest_update time_ok update) (\<lambda>_. stepped time_ok db0) (\<lambda>_. stepped time_ok db0)"
proof (cases update)
  case (SlotU slot)
  let ?I = "\<lambda>_. stepped time_ok db0"
  show ?thesis
    unfolding SlotU ingest_update.simps
    by (intro triple_andthen [OF stepped_track] triple_andthen [of _ _ ?I] triple_if triple_db_do triple_db_op triple_give)
      (auto dest: stepped_steps)
next
  case (AccountU account)
  let ?I = "\<lambda>_. stepped time_ok db0"
  show ?thesis
    unfolding AccountU ingest_update.simps
    by (intro triple_andthen [of _ _ ?I] triple_db_op triple_give) (auto dest: stepped_steps)
next
  case (EventsU events)
  let ?I = "\<lambda>_. stepped time_ok db0"
  show ?thesis
    unfolding EventsU ingest_update.simps
    by (intro triple_andthen [of _ _ ?I] insert_events_triple triple_give) (auto dest: stepped_steps)
qed

interpretation steps: engine_invariant time_ok "stepped time_ok db0" "stepped time_ok db0" for time_ok db0
proof
  show "triple (stepped time_ok db0) (ingest_update time_ok update) (\<lambda>_. stepped time_ok db0) (\<lambda>_. stepped time_ok db0)" for update
    by (rule stepped_ingest)
qed (intro triple_db_do; auto dest: stepped_steps)+

lemma run_source_steps: "rtranclp (index_step time_ok) db (snd (run_source time_ok subscribe db))"
proof (cases subscribe)
  case (Inr items)
  have "stepped time_ok db (snd (run_items time_ok items \<lparr>eng_last = l, eng_db = db\<rparr>))" for l
    using tripleD [OF steps.items [of time_ok db items], of "\<lparr>eng_last = l, eng_db = db\<rparr>"]
    by (cases "run_items time_ok items \<lparr>eng_last = l, eng_db = db\<rparr>") (auto split: sum.splits)
  then show ?thesis
    by (auto simp: run_source_def Inr Let_def split: sum.splits prod.splits) (metis snd_conv)+
qed (simp add: run_source_def Let_def split: sum.splits prod.splits)

lemma index_runs_steps: "rtranclp (index_step time_ok) db (index_runs time_ok runs db)"
  by (induction runs arbitrary: db) (auto intro: rtranclp_trans run_source_steps)

lemma steps_reachable: "rtranclp (index_step time_ok) db db' \<Longrightarrow> index_reachable time_ok db \<Longrightarrow> index_reachable time_ok db'"
  by (induction rule: rtranclp_induct) (auto intro: index_reachable.Step)

section \<open>Slots that are accounted for\<close>

definition on_record :: "index_db \<Rightarrow> bigint \<Rightarrow> bool" where
  "on_record db n \<longleftrightarrow> indexer_slots db n \<noteq> None \<or> (\<exists>g\<in>set (ingestion_gaps db). gap_from g \<le> n \<and> n \<le> gap_to g)"

lemma apply_projections_gaps: "apply_projections time_ok ps db = Inr db' \<Longrightarrow> ingestion_gaps db' = ingestion_gaps db"
proof (induction ps arbitrary: db)
  case (Cons p ps)
  then obtain db1 where db1: "apply_projection time_ok p db = Inr db1" "apply_projections time_ok ps db1 = Inr db'"
    by (auto simp: result_inv)
  have "ingestion_gaps db1 = ingestion_gaps db"
    using db1(1) by (cases "dp_payload p") (auto simp: apply_projection_def result_inv Let_def)
  with Cons.IH [OF db1(2)] show ?case by simp
qed simp

lemma upsert_tail_gaps: "upsert_tail update slot db = Inr db' \<Longrightarrow> ingestion_gaps db' = ingestion_gaps db"
  by (auto simp: upsert_tail_def cleanup_dead_slot_def result_inv split: if_splits)

lemma gaps_kept:
  "upsert_slot time_ok update db = Inr db' \<Longrightarrow> ingestion_gaps db' = ingestion_gaps db"
  "insert_account_with_projection time_ok acc projection db = Inr (new, db') \<Longrightarrow> ingestion_gaps db' = ingestion_gaps db"
  "insert_event time_ok ev db = Inr (new, db') \<Longrightarrow> ingestion_gaps db' = ingestion_gaps db"
  "finalize_slot time_ok slot db = Inr (n, db') \<Longrightarrow> ingestion_gaps db' = ingestion_gaps db"
proof -
  show "upsert_slot time_ok update db = Inr db' \<Longrightarrow> ingestion_gaps db' = ingestion_gaps db"
    by (erule upsert_slot_cases) (auto dest: upsert_tail_gaps)
  have one: "apply_projection time_ok p db1 = Inr db2 \<Longrightarrow> ingestion_gaps db2 = ingestion_gaps db1" for p db1 db2
    using apply_projections_gaps [of time_ok "[p]" db1 db2] by simp
  show "insert_account_with_projection time_ok acc projection db = Inr (new, db') \<Longrightarrow> ingestion_gaps db' = ingestion_gaps db"
    by (cases projection) (auto simp: insert_account_with_projection_def result_inv Let_def dest!: one split: if_splits)
  show "insert_event time_ok ev db = Inr (new, db') \<Longrightarrow> ingestion_gaps db' = ingestion_gaps db"
    by (auto simp: insert_event_def result_inv Let_def split: if_splits)
  show "ingestion_gaps db' = ingestion_gaps db" if fin: "finalize_slot time_ok slot db = Inr (n, db')"
  proof -
    obtain row where row: "finalize_tables time_ok (uint slot) row db = Inr (n, db')"
      using finalize_slot_inv [OF fin] by metis
    then show ?thesis
      by (rule finalize_tables_inv) (auto dest!: apply_projections_gaps)
  qed
qed

lemma update_gap_ranges:
  assumes "update_gap a b change db = Inr db'" "\<And>g. gap_from (change g) = gap_from g \<and> gap_to (change g) = gap_to g"
    "g \<in> set (ingestion_gaps db)"
  shows "\<exists>g'\<in>set (ingestion_gaps db'). gap_from g' = gap_from g \<and> gap_to g' = gap_to g"
proof -
  let ?f = "\<lambda>g. if gap_from g = uint a \<and> gap_to g = uint b then change g else g"
  have "ingestion_gaps db' = map ?f (ingestion_gaps db)"
    using assms(1) by (auto simp: update_gap_def result_inv Let_def)
  then have "?f g \<in> set (ingestion_gaps db')" using assms(3) by (simp only: set_map) (rule imageI)
  with assms(2) show ?thesis by (intro bexI [of _ "?f g"]) simp_all
qed

lemma marked_ranges:
  assumes "mark_gap_partial a b e db = Inr db' \<or> mark_gap_failed a b e db = Inr db' \<or> mark_gap_repaired a b db = Inr db'"
    "g \<in> set (ingestion_gaps db)"
  shows "\<exists>g'\<in>set (ingestion_gaps db'). gap_from g' = gap_from g \<and> gap_to g' = gap_to g"
  using assms unfolding mark_gap_partial_def mark_gap_failed_def mark_gap_repaired_def
  by (elim disjE) (erule update_gap_ranges [OF _ _ assms(2)], simp)+

lemma step_gaps:
  assumes "index_step time_ok db db'" "g \<in> set (ingestion_gaps db)"
  shows "\<exists>g'\<in>set (ingestion_gaps db'). gap_from g' = gap_from g \<and> gap_to g' = gap_to g"
  using assms(1)
proof cases
  case (Record_gap_step a b)
  with assms(2) show ?thesis by (auto simp: record_gap_def result_inv)
qed (metis assms(2) gaps_kept marked_ranges)+

lemma step_on_record: "index_step time_ok db db' \<Longrightarrow> on_record db n \<Longrightarrow> on_record db' n"
  unfolding on_record_def by (metis option.distinct(1) option.exhaust step_advances step_gaps)

lemma record_gap_on_record:
  assumes "record_gap a b db = Inr db'" "uint a \<le> n" "n \<le> uint b"
  shows "on_record db' n"
proof -
  have "\<exists>g\<in>set (ingestion_gaps db'). gap_from g = uint a \<and> gap_to g = uint b"
    using assms(1) by (auto simp: record_gap_def result_inv split: if_splits)
  with assms(2,3) show ?thesis unfolding on_record_def by metis
qed

lemma detect_gap_covers:
  assumes "detect_forward_gap prev slot = Some (a, b)"
  shows "uint a = uint prev + 1" "uint b = uint slot - 1" "uint prev + 1 < uint slot"
proof -
  have "unat a = unat prev + 1" "unat b = unat slot - 1" "unat a < unat slot"
    using assms by (auto simp: detect_forward_gap_def result_inv word_less_nat_alt split: option.splits if_splits)
  then show "uint a = uint prev + 1" "uint b = uint slot - 1" "uint prev + 1 < uint slot"
    unfolding uint_nat by linarith+
qed

lemma detect_no_gap:
  assumes "detect_forward_gap prev slot = None"
  shows "uint slot \<le> uint prev + 1"
proof (cases "checked_add prev 1")
  case None
  then have "2 ^ 64 \<le> unat prev + 1" by (simp add: checked_add_def split: if_splits)
  moreover have "unat slot < 2 ^ 64" using unsigned_less [where w = slot] by simp
  ultimately show ?thesis unfolding uint_nat by linarith
next
  case (Some nxt)
  then have nxt: "unat nxt = unat prev + 1" by (simp add: result_inv)
  have "\<not> nxt < slot \<or> \<not> 1 \<le> slot"
    using assms Some by (auto simp: detect_forward_gap_def checked_sub_def split: if_splits)
  then have "unat slot \<le> unat nxt"
    by (auto simp: word_less_nat_alt word_le_nat_alt)
  with nxt show ?thesis unfolding uint_nat by linarith
qed

section \<open>No slot is lost\<close>

text \<open>The slots from \<open>p\<close> on that the engine has accounted for, between updates and after an error.\<close>

definition tracked :: "bigint \<Rightarrow> engine \<Rightarrow> bool" where
  "tracked p s \<longleftrightarrow> (\<exists>l. eng_last s = Some l \<and> (\<forall>n. p < n \<and> n \<le> uint l \<longrightarrow> on_record (eng_db s) n) \<and>
     processed_slot (eng_db s) \<le> uint l)"

definition accounted :: "bigint \<Rightarrow> index_db \<Rightarrow> bool" where
  "accounted p db \<longleftrightarrow> (\<forall>n. p < n \<and> n \<le> processed_slot db \<longrightarrow> on_record db n)"

text \<open>After the notification of a slot, before it is stored.\<close>

definition noticed :: "bigint \<Rightarrow> u64 \<Rightarrow> engine \<Rightarrow> bool" where
  "noticed p slot s \<longleftrightarrow> (\<exists>l. eng_last s = Some l \<and> uint slot \<le> uint l \<and>
     (\<forall>n. p < n \<and> n \<le> uint l \<and> n \<noteq> uint slot \<longrightarrow> on_record (eng_db s) n) \<and>
     processed_slot (eng_db s) \<le> uint l) \<and> accounted p (eng_db s)"

lemma tracked_accounted: "tracked p s \<Longrightarrow> accounted p (eng_db s)"
  by (auto simp: tracked_def accounted_def)

lemma tracked_step:
  assumes "tracked p s" "index_step time_ok (eng_db s) db" "processed_slot db = processed_slot (eng_db s)"
  shows "tracked p (s\<lparr>eng_db := db\<rparr>)"
  using assms step_on_record [OF assms(2)] by (auto simp: tracked_def)

lemma record_gap_keeps:
  assumes "record_gap a b db = Inr db'"
  shows "processed_slot db' = processed_slot db" "on_record db n \<Longrightarrow> on_record db' n"
  using gap_slots(1) [OF assms] step_on_record [OF Record_gap_step [OF assms]] by (auto simp: same_slots_def)

lemma track_noticed: "triple (tracked p) (track_slot slot) (\<lambda>_. noticed p slot) (\<lambda>_ s. accounted p (eng_db s))"
proof (rule track_slot_triple)
  fix s prev a b db
  assume s: "tracked p s" "eng_last s = Some prev" and g: "detect_forward_gap prev slot = Some (a, b)"
    and db: "record_gap a b (eng_db s) = Inr db"
  note gap = detect_gap_covers [OF g]
  have "on_record db n" if "p < n" "n < uint slot" for n
  proof (cases "n \<le> uint prev")
    case True
    with s that show ?thesis by (auto simp: tracked_def intro: record_gap_keeps(2) [OF db])
  next
    case False
    with that gap show ?thesis by (intro record_gap_on_record [OF db]) auto
  qed
  with s gap record_gap_keeps(1) [OF db]
  show "noticed p slot (s\<lparr>eng_db := db, eng_last := Some slot\<rparr>)"
    by (auto simp: noticed_def tracked_def accounted_def)
next
  fix s prev
  assume s: "tracked p s" "eng_last s = Some prev" and g: "detect_forward_gap prev slot = None"
  note gap = detect_no_gap [OF g]
  show "noticed p slot (if prev < slot then s\<lparr>eng_last := Some slot\<rparr> else s)"
  proof (cases "prev < slot")
    case True
    then have "uint slot = uint prev + 1" using gap by (simp add: word_less_def)
    with s True show ?thesis by (auto simp: noticed_def tracked_def accounted_def)
  next
    case False
    then have "uint slot \<le> uint prev" by (simp add: word_less_def)
    with s False show ?thesis by (auto simp: noticed_def tracked_def accounted_def)
  qed
qed (auto simp: tracked_def accounted_def)

lemma upsert_tracked:
  assumes "noticed p (su_slot update) s" "upsert_slot time_ok update (eng_db s) = Inr db"
  shows "tracked p (s\<lparr>eng_db := db\<rparr>) \<and> uint (su_slot update) \<le> uint (the (eng_last s))"
proof -
  have row: "indexer_slots db (uint (su_slot update)) \<noteq> None"
    and proc: "processed_slot db \<le> max (processed_slot (eng_db s)) (uint (su_slot update))"
    using assms(2) by (cases rule: upsert_slot_cases; auto dest: upsert_tail_slots)+
  from row have "on_record db (uint (su_slot update))" by (auto simp: on_record_def)
  with assms(1) proc step_on_record [OF Slot_step [OF assms(2)]] show ?thesis
    by (fastforce simp: noticed_def tracked_def)
qed

lemma tracked_ingest:
  "triple (tracked p) (ingest_update time_ok update) (\<lambda>_. tracked p) (\<lambda>_ s. accounted p (eng_db s))"
proof (cases update)
  case (SlotU slot)
  let ?J = "\<lambda>_ s. tracked p s \<and> uint (su_slot slot) \<le> uint (the (eng_last s))"
  show ?thesis
    unfolding SlotU ingest_update.simps
  proof (intro triple_andthen [OF track_noticed] triple_andthen [of _ _ ?J] triple_if triple_give)
    show "triple (noticed p (su_slot slot)) (db_do (upsert_slot time_ok slot)) ?J (\<lambda>_ s. accounted p (eng_db s))"
      by (rule triple_db_do) (use upsert_tracked in \<open>fastforce simp: noticed_def\<close>)+
    show "triple (?J x) (db_op (finalize_slot time_ok (su_slot slot))) ?J (\<lambda>_ s. accounted p (eng_db s))" for x
    proof (rule triple_db_op)
      fix s n db assume s: "?J x s" and f: "finalize_slot time_ok (su_slot slot) (eng_db s) = Inr (n, db)"
      obtain row where row: "indexer_slots (eng_db s) (uint (su_slot slot)) = Some row"
        "finalize_tables time_ok (uint (su_slot slot)) row (eng_db s) = Inr (n, db)"
        using finalize_slot_inv [OF f] by metis
      show "tracked p (s\<lparr>eng_db := db\<rparr>) \<and> uint (su_slot slot) \<le> uint (the (eng_last (s\<lparr>eng_db := db\<rparr>)))"
        using s finalize_tables_slots(3) [OF row(2,1)] step_on_record [OF Finalize_step [OF f]]
        by (fastforce simp: tracked_def)
    qed (auto dest: tracked_accounted)
  qed auto
next
  case (AccountU account)
  show ?thesis
    unfolding AccountU ingest_update.simps
  proof (intro triple_andthen [of _ _ "\<lambda>_. tracked p"] triple_db_op triple_give)
    fix s x db assume s: "tracked p s"
      and ins: "insert_account_with_projection time_ok (au_raw account) (au_projection account) (eng_db s) = Inr (x, db)"
    show "tracked p (s\<lparr>eng_db := db\<rparr>)"
      using tracked_step [OF s Account_step [OF ins]] insert_account_slots [OF ins] by (simp add: same_slots_def)
  qed (auto dest: tracked_accounted)
next
  case (EventsU events)
  show ?thesis
    unfolding EventsU ingest_update.simps
  proof (intro triple_andthen [of _ _ "\<lambda>_. tracked p"] insert_events_triple triple_give)
    fix s ev new db assume s: "tracked p s" and ins: "insert_event time_ok ev (eng_db s) = Inr (new, db)"
    show "tracked p (s\<lparr>eng_db := db\<rparr>)"
      using tracked_step [OF s Event_step [OF ins]] insert_event_slots [OF ins] by (simp add: same_slots_def)
  qed (auto dest: tracked_accounted)
qed

interpretation tracking: engine_invariant time_ok "tracked p" "\<lambda>s. accounted p (eng_db s)" for time_ok p
proof
  show "triple (tracked p) (ingest_update time_ok update) (\<lambda>_. tracked p) (\<lambda>_ s. accounted p (eng_db s))" for update
    by (rule tracked_ingest)
  have same: "tracked p (s\<lparr>eng_db := db\<rparr>)"
    if "tracked p s" "index_step time_ok (eng_db s) db" "same_slots (eng_db s) db" for s db
    using tracked_step [OF that(1,2)] that(3) by (simp add: same_slots_def)
  show "triple (tracked p) (db_do (mark_gap_failed a b msg)) (\<lambda>_. tracked p) (\<lambda>_ s. accounted p (eng_db s))"
    "triple (tracked p) (db_do (mark_gap_partial a b msg)) (\<lambda>_. tracked p) (\<lambda>_ s. accounted p (eng_db s))"
    "triple (tracked p) (db_do (mark_gap_repaired a b)) (\<lambda>_. tracked p) (\<lambda>_ s. accounted p (eng_db s))" for a b msg
    by (rule triple_db_do; auto intro: same Failed_gap_step Partial_gap_step Repaired_gap_step gap_slots dest: tracked_accounted)+
qed (rule tracked_accounted)

lemma run_accounted:
  assumes "index_reachable time_ok db" "0 < processed_slot db" "accounted p db"
  shows "accounted p (snd (run_source time_ok subscribe db))"
proof -
  have bounds: "0 \<le> finalized_slot db" "processed_slot db < 2 ^ 63"
    using reachable_slots_ok [OF assms(1)] by (auto simp: slots_ok_def)
  have cp: "checkpoint db = Inr (word_of_int (finalized_slot db), word_of_int (processed_slot db))"
    using bounds assms(2) by (simp add: checkpoint_def i64_to_u64_def)
  have u: "uint (word_of_int (processed_slot db) :: u64) = processed_slot db"
    using assms(2) bounds by (intro uint_of_bigint) auto
  then have pos: "0 < (word_of_int (processed_slot db) :: u64)"
    using assms(2) by (simp add: word_less_def)
  show ?thesis
  proof (cases subscribe)
    case (Inl e)
    then show ?thesis using assms(3) by (simp add: run_source_def cp Let_def)
  next
    case (Inr items)
    let ?s = "\<lparr>eng_last = Some (word_of_int (processed_slot db)), eng_db = db\<rparr>"
    obtain r s' where run: "run_items time_ok items ?s = (r, s')" by (cases "run_items time_ok items ?s")
    have "tracked p ?s" using assms(3) u by (simp add: tracked_def accounted_def)
    from tripleD [OF tracking.items this run] have "accounted p (eng_db s')"
      by (auto split: sum.splits dest: tracked_accounted)
    then show ?thesis by (simp add: run_source_def cp Let_def Inr pos run)
  qed
qed

lemma step_processed: "index_step time_ok db db' \<Longrightarrow> processed_slot db \<le> processed_slot db'"
proof (cases rule: index_step.cases, assumption)
  fix update assume "upsert_slot time_ok update db = Inr db'"
  then show ?thesis by (rule upsert_slot_cases) (auto dest: upsert_tail_slots)
next
  fix slot n assume f: "finalize_slot time_ok slot db = Inr (n, db')"
  then obtain row where "indexer_slots db (uint slot) = Some row" "finalize_tables time_ok (uint slot) row db = Inr (n, db')"
    using finalize_slot_inv [OF f] by metis
  then show ?thesis by (simp add: finalize_tables_slots(3))
qed (auto dest!: insert_account_slots insert_event_slots gap_slots simp: same_slots_def)

lemma steps_processed: "rtranclp (index_step time_ok) db db' \<Longrightarrow> processed_slot db \<le> processed_slot db'"
  by (induction rule: rtranclp_induct) (auto dest: step_processed)

lemma runs_accounted:
  "index_reachable time_ok db \<Longrightarrow> 0 < processed_slot db \<Longrightarrow> accounted p db \<Longrightarrow> accounted p (index_runs time_ok runs db)"
proof (induction runs arbitrary: db)
  case (Cons r rs)
  let ?db = "snd (run_source time_ok r db)"
  note steps = run_source_steps [of time_ok db r]
  have "index_reachable time_ok ?db" using steps_reachable [OF steps Cons.prems(1)] .
  moreover have "0 < processed_slot ?db" using steps_processed [OF steps] Cons.prems(2) by simp
  moreover have "accounted p ?db" using run_accounted [OF Cons.prems] .
  ultimately show ?case using Cons.IH by simp
qed simp

section \<open>Repair\<close>

text \<open>A backfill that answers for the slot it is asked for does not make the engine see a gap within a gap.\<close>

locale slot_backfill =
  fixes backfill :: GapBackfill
  assumes own_slots: "fetch_slot backfill slot = Inr updates \<Longrightarrow> SlotU u \<in> set updates \<Longrightarrow> su_slot u = slot"
begin

lemma no_nested_gap:
  assumes "\<forall>u. SlotU u \<in> set updates \<longrightarrow> su_slot u \<le> l"
  shows "triple (\<lambda>s. eng_last s = Some l) (ingest_fetched time_ok updates) (\<lambda>_ s. eng_last s = Some l) (\<lambda>e s. \<exists>d. e = DbE d)"
  using assms
proof (induction updates)
  case (Cons update updates)
  let ?P = "\<lambda>s. eng_last s = Some l" and ?E = "\<lambda>e (s :: engine). \<exists>d. e = DbE d"
  have one: "triple ?P (ingest_update time_ok update) (\<lambda>x s. x = None \<and> eng_last s = Some l) ?E"
  proof (cases update)
    case (SlotU u)
    then have "su_slot u \<le> l" using Cons.prems by simp
    moreover have "detect_forward_gap l (su_slot u) = None" if "su_slot u \<le> l"
    proof (rule ccontr)
      assume "detect_forward_gap l (su_slot u) \<noteq> None"
      then obtain a b where "detect_forward_gap l (su_slot u) = Some (a, b)" by auto
      from detect_gap_covers(3) [OF this] that show False by (simp add: word_le_def)
    qed
    ultimately have "triple ?P (track_slot (su_slot u)) (\<lambda>x s. x = None \<and> eng_last s = Some l) ?E"
      by (intro track_slot_triple) auto
    moreover have "triple (\<lambda>s. x = None \<and> eng_last s = Some l) (andthen (db_do (upsert_slot time_ok u)) (\<lambda>_.
        andthen (if su_status u = Finalized then andthen (db_op (finalize_slot time_ok (su_slot u))) (\<lambda>_. give ()) else give ())
          (\<lambda>_. give x))) (\<lambda>x s. x = None \<and> eng_last s = Some l) ?E" for x
      by (intro triple_andthen [of _ _ "\<lambda>_ s. x = None \<and> eng_last s = Some l"] triple_if triple_db_do triple_db_op triple_give)
        auto
    ultimately show ?thesis
      unfolding SlotU ingest_update.simps by (rule triple_andthen)
  next
    case (AccountU account)
    show ?thesis
      unfolding AccountU ingest_update.simps
      by (intro triple_andthen [of _ _ "\<lambda>_. ?P"] triple_db_op triple_give) auto
  next
    case (EventsU events)
    have "triple ?P (insert_events time_ok events) (\<lambda>_. ?P) ?E"
    proof (induction events)
      case (Cons ev evs)
      then show ?case
        unfolding insert_events.simps
        by (intro triple_andthen [of _ _ "\<lambda>_. ?P"] triple_db_op) auto
    qed (auto intro: triple_give)
    then show ?thesis
      unfolding EventsU ingest_update.simps by (intro triple_andthen triple_give) auto
  qed
  have "triple ?P (ingest_fetched time_ok updates) (\<lambda>_. ?P) ?E"
    using Cons by simp
  then show ?case
    unfolding ingest_fetched.simps
    by (intro triple_andthen [OF one]) (auto simp: triple_def)
qed (auto intro: triple_give)

lemma repair_slots_db_errors:
  assumes "\<forall>slot\<in>set slots. slot \<le> l"
  shows "triple (\<lambda>s. eng_last s = Some l) (repair_slots time_ok backfill a b slots) (\<lambda>_ s. eng_last s = Some l)
    (\<lambda>e s. \<exists>d. e = DbE d)"
  using assms
proof (induction slots)
  case (Cons slot slots)
  show ?case
  proof (cases "fetch_slot backfill slot")
    case (Inl e)
    show ?thesis
      unfolding repair_slots.simps Inl sum.case
      by (intro triple_andthen [of _ _ "\<lambda>_ s. eng_last s = Some l"] triple_db_do triple_give) auto
  next
    case (Inr updates)
    then have "\<forall>u. SlotU u \<in> set updates \<longrightarrow> su_slot u \<le> l" using own_slots Cons.prems by auto
    from no_nested_gap [OF this] Cons show ?thesis
      unfolding repair_slots.simps Inr sum.case by (intro triple_andthen) auto
  qed
qed (auto intro: triple_give)

end

interpretation null: slot_backfill NullBackfill
  by unfold_locales (simp add: NullBackfill_def)

text \<open>How a repair that returns leaves the gap.\<close>

lemma update_gap_at:
  assumes "update_gap a b change db = Inr db'" "g \<in> set (ingestion_gaps db')" "gap_from g = uint a" "gap_to g = uint b"
    and "\<And>g. gap_from (change g) = gap_from g \<and> gap_to (change g) = gap_to g"
  shows "\<exists>g0. g = change g0"
proof -
  have "ingestion_gaps db' = map (\<lambda>g. if gap_from g = uint a \<and> gap_to g = uint b then change g else g) (ingestion_gaps db)"
    using assms(1) by (auto simp: update_gap_def result_inv Let_def)
  with assms(2-5) show ?thesis by (auto split: if_splits)
qed

definition gap_marked :: "u64 \<Rightarrow> u64 \<Rightarrow> (string \<Rightarrow> bool) \<Rightarrow> engine \<Rightarrow> bool" where
  "gap_marked a b P s \<longleftrightarrow>
     (\<forall>g\<in>set (ingestion_gaps (eng_db s)). gap_from g = uint a \<and> gap_to g = uint b \<longrightarrow> P (gap_status g))"

lemma marks:
  "triple P (db_do (mark_gap_failed a b e)) (\<lambda>_. gap_marked a b (\<lambda>st. st = ''failed'')) (\<lambda>_ _. True)"
  "triple P (db_do (mark_gap_partial a b e)) (\<lambda>_. gap_marked a b (\<lambda>st. st = ''partial'')) (\<lambda>_ _. True)"
  "triple P (db_do (mark_gap_repaired a b)) (\<lambda>_. gap_marked a b (\<lambda>st. st = ''repaired'')) (\<lambda>_ _. True)"
  unfolding mark_gap_failed_def mark_gap_partial_def mark_gap_repaired_def
  by (rule triple_db_do; (simp add: gap_marked_def)?; (intro ballI impI)?; (drule update_gap_at; simp?); fastforce)+

lemma gap_marked_mono: "gap_marked a b P s \<Longrightarrow> (\<And>st. P st \<Longrightarrow> Q st) \<Longrightarrow> gap_marked a b Q s"
  by (auto simp: gap_marked_def)

definition all_fetched :: "GapBackfill \<Rightarrow> u64 list \<Rightarrow> bool" where
  "all_fetched backfill slots \<longleftrightarrow> (\<forall>slot\<in>set slots. \<exists>updates. fetch_slot backfill slot = Inr updates)"

lemma repair_slots_marks:
  "triple (\<lambda>_. True) (repair_slots time_ok backfill a b slots)
     (\<lambda>fetched s. if fetched then all_fetched backfill slots
        else \<not> all_fetched backfill slots \<and> gap_marked a b (\<lambda>st. st = ''failed'') s) (\<lambda>_ _. True)"
proof (induction slots)
  case (Cons slot slots)
  show ?case
  proof (cases "fetch_slot backfill slot")
    case (Inl e)
    show ?thesis
      unfolding repair_slots.simps Inl sum.case
      by (intro triple_andthen [OF marks(1)] triple_give) (simp add: all_fetched_def Inl)
  next
    case (Inr updates)
    have "triple (\<lambda>_. True) (ingest_fetched time_ok updates) (\<lambda>_ _. True) (\<lambda>_ _. True)"
      by (auto simp: triple_def split: sum.splits)
    then show ?thesis
      unfolding repair_slots.simps Inr sum.case
      by (rule triple_andthen) (rule triple_weaken [OF Cons], auto simp: all_fetched_def Inr split: if_splits)
  qed
qed (auto intro!: triple_give simp: all_fetched_def)

lemma slot_range_set: "set (slot_range a b) = {n. a \<le> n \<and> n \<le> b}"
proof -
  have "n \<in> word_of_nat ` {unat a ..< Suc (unat b)}" if "a \<le> n" "n \<le> b" for n :: u64
    using that by (intro image_eqI [of _ _ "unat n"]) (auto simp: word_le_nat_alt)
  moreover have "a \<le> word_of_nat m \<and> word_of_nat m \<le> b" if "m \<in> {unat a ..< Suc (unat b)}" for m
  proof -
    from that have m: "unat a \<le> m" "m < Suc (unat b)" by auto
    have "unat b < 2 ^ 64" using unsigned_less [where w = b and 'a = nat] by simp
    then have "m < 2 ^ 64" using m by simp
    then have "unat (word_of_nat m :: u64) = m" by (simp add: unat_of_nat)
    with m show ?thesis by (simp add: word_le_nat_alt)
  qed
  ultimately show ?thesis unfolding slot_range_def set_map set_upt by blast
qed

lemma repair_gap_marks:
  "triple (\<lambda>_. True) (repair_gap time_ok backfill a b)
     (\<lambda>_. gap_marked a b (\<lambda>st.
        if MAX_BACKFILL_SLOTS < gap_span a b \<or> \<not> all_fetched backfill (slot_range a b) then st = ''failed''
        else if reconcile_accounts backfill a b = Inr True then st = ''repaired'' else st = ''partial'')) (\<lambda>_ _. True)"
  (is "triple _ _ (\<lambda>_. gap_marked a b ?P) _")
proof (cases "MAX_BACKFILL_SLOTS < gap_span a b")
  case True
  show ?thesis
    unfolding repair_gap_def by (rule triple_weaken [OF triple_if [OF marks(1)]]) (auto simp: True)
next
  case False
  have mark: "triple (\<lambda>_. all_fetched backfill (slot_range a b))
      (case reconcile_accounts backfill a b of
              Inr True \<Rightarrow> db_do (mark_gap_repaired a b)
            | Inr False \<Rightarrow> db_do (mark_gap_partial a b
                ''events repaired via getBlock; account projections pending reconciliation'')
            | Inl e \<Rightarrow> db_do (mark_gap_partial a b (indexer_error_str e))) (\<lambda>_. gap_marked a b ?P) (\<lambda>_ _. True)"
  proof (cases "all_fetched backfill (slot_range a b)")
    case True
    show ?thesis
    proof (cases "reconcile_accounts backfill a b")
      case (Inl e)
      show ?thesis
        unfolding Inl sum.case
        by (rule triple_weaken [OF marks(2)]) (use False True in \<open>auto simp: gap_marked_def Inl\<close>)
    next
      case (Inr complete)
      show ?thesis
        unfolding Inr sum.case
        by (cases complete; simp; rule triple_weaken [OF marks(3)] triple_weaken [OF marks(2)])
          (use False True in \<open>auto simp: gap_marked_def Inr\<close>)
    qed
  qed (simp add: triple_def)
  have rest: "triple (\<lambda>s. if fetched then all_fetched backfill (slot_range a b)
        else \<not> all_fetched backfill (slot_range a b) \<and> gap_marked a b (\<lambda>st. st = ''failed'') s)
      (if \<not> fetched then give ()
       else case reconcile_accounts backfill a b of
              Inr True \<Rightarrow> db_do (mark_gap_repaired a b)
            | Inr False \<Rightarrow> db_do (mark_gap_partial a b
                ''events repaired via getBlock; account projections pending reconciliation'')
            | Inl e \<Rightarrow> db_do (mark_gap_partial a b (indexer_error_str e))) (\<lambda>_. gap_marked a b ?P) (\<lambda>_ _. True)" for fetched
    using mark by (cases fetched) (auto intro!: triple_give elim: gap_marked_mono)
  show ?thesis
    unfolding repair_gap_def
    by (rule triple_if) (use False in simp, rule triple_andthen [OF repair_slots_marks rest])
qed

section \<open>Properties\<close>

text \<open>
  The gap that is reported is exact: a later notification reports a range, and a slot is in the range if and only if it
  lies strictly between the two notifications, at the ends of the 64-bit range too.
\<close>

theorem gap_is_exact:
  "(\<exists>a b. detect_forward_gap prev slot = Some (a, b) \<and> a \<le> n \<and> n \<le> b) \<longleftrightarrow> prev < n \<and> n < slot"
proof (cases "detect_forward_gap prev slot")
  case None
  with detect_no_gap [OF None] show ?thesis by (auto simp: word_less_def)
next
  case (Some g)
  then obtain a b where g: "detect_forward_gap prev slot = Some (a, b)" by (cases g) auto
  with detect_gap_covers [OF g] show ?thesis by (auto simp: word_less_def word_le_def)
qed

text \<open>
  C33. No slot is lost. Take any tables the index can reach with a checkpoint, and let the engine run any number
  of times on any streams, with any backfill, each run ending as it may: then every slot between the old checkpoint and the new one
  is on record or within a recorded gap.
\<close>

theorem no_slot_is_lost:
  assumes "index_reachable time_ok db" "0 < processed_slot db"
    and "processed_slot db < n" "n \<le> processed_slot (index_runs time_ok runs db)"
  shows "on_record (index_runs time_ok runs db) n"
proof -
  have "accounted (processed_slot db) db" by (auto simp: accounted_def)
  from runs_accounted [OF assms(1,2) this] assms(3,4) show ?thesis by (simp add: accounted_def)
qed

text \<open>
  The outcome of a repair. When the repair of a gap returns, every row of that gap is marked: as failed if the gap has more
  than 32 slots or a slot could not be fetched, as repaired only if besides the accounts were
  reconciled, and as partial otherwise.
\<close>

theorem repair_outcome:
  assumes "repair_gap time_ok backfill a b s = (Inr (), s')"
    and "g \<in> set (ingestion_gaps (eng_db s'))" "gap_from g = uint a" "gap_to g = uint b"
  shows "gap_status g =
    (if MAX_BACKFILL_SLOTS < gap_span a b \<or> (\<exists>n e. a \<le> n \<and> n \<le> b \<and> fetch_slot backfill n = Inl e) then ''failed''
     else if reconcile_accounts backfill a b = Inr True then ''repaired'' else ''partial'')"
proof -
  have "all_fetched backfill (slot_range a b) \<longleftrightarrow> \<not> (\<exists>n e. a \<le> n \<and> n \<le> b \<and> fetch_slot backfill n = Inl e)"
    unfolding all_fetched_def slot_range_set by (auto, metis obj_sumE sum.distinct(1))+
  with tripleD [OF repair_gap_marks _ assms(1)] assms(2-4) show ?thesis
    by (auto simp: gap_marked_def split: if_splits)
qed

text \<open>
  The engine finalizes without looking at the ancestry. A notification that a slot is final, when its parent is on record
  as dead, is accepted: the slot becomes final on top of the dead one. For the slot's row is written with the
  final status first, and \<open>finalize_slot\<close> checks the ancestry only of a row that is not final yet.
\<close>

theorem final_slot_on_dead_parent:
  assumes "indexer_slots (eng_db s) (uint parent) = Some parent_row" "row_status parent_row = Dead"
    and "indexer_slots (eng_db s) (uint slot) = None" "unat slot < 2 ^ 63" "unat parent < 2 ^ 63"
    and "\<forall>r\<in>set (staged_account_projections (eng_db s)). sp_slot r \<noteq> uint slot"
    and "eng_last s = Some l" "slot \<le> l"
  shows "\<exists>s' row. ingest_update time_ok (SlotU \<lparr>su_slot = slot, su_parent_slot = Some parent, su_status = Finalized,
        su_block_time = t\<rparr>) s = (Inr None, s') \<and>
      indexer_slots (eng_db s') (uint slot) = Some row \<and> row_status row = Finalized \<and> row_parent row = Some (uint parent) \<and>
      indexer_slots (eng_db s') (uint parent) = Some parent_row"
proof -
  have ne: "parent \<noteq> slot" using assms(1,3) by auto
  have gap: "detect_forward_gap l slot = None"
  proof (rule ccontr)
    assume "detect_forward_gap l slot \<noteq> None"
    then obtain a b where "detect_forward_gap l slot = Some (a, b)" by auto
    from detect_gap_covers(3) [OF this] assms(8) show False by (simp add: word_le_def)
  qed
  let ?row = "\<lparr>row_parent = Some (uint parent), row_status = Finalized,
    row_block_time = (case t of Some t \<Rightarrow> if time_ok t then Some t else None | None \<Rightarrow> None)\<rparr>"
  let ?db = "(eng_db s)\<lparr>indexer_slots := (indexer_slots (eng_db s))(uint slot \<mapsto> ?row),
    processed_slot := max (processed_slot (eng_db s)) (uint slot)\<rparr>"
  have up: "upsert_slot time_ok \<lparr>su_slot = slot, su_parent_slot = Some parent, su_status = Finalized, su_block_time = t\<rparr>
      (eng_db s) = Inr ?db"
    using assms(3-5) ne
    by (simp add: upsert_slot_def ensure_def u64_to_i64_def opt_i64_def upsert_tail_def Let_def)
  have "staged_for (uint slot) ?db = []" using assms(6) by (simp add: staged_for_def filter_empty_conv)
  then have "\<exists>db. finalize_tables time_ok (uint slot) ?row ?db = Inr (0, db)"
    unfolding finalize_tables_def by (simp add: Let_def)
  then obtain db where fin: "finalize_tables time_ok (uint slot) ?row ?db = Inr (0, db)" by blast
  have slots: "indexer_slots db = (indexer_slots ?db)(uint slot \<mapsto> ?row\<lparr>row_status := Finalized\<rparr>)"
    by (rule finalize_tables_slots(1) [OF fin]) simp
  have fs: "finalize_slot time_ok slot ?db = Inr (0, db)"
    using fin assms(4) by (simp add: finalize_slot_def u64_to_i64_def ensure_def)
  have "ingest_update time_ok (SlotU \<lparr>su_slot = slot, su_parent_slot = Some parent, su_status = Finalized,
        su_block_time = t\<rparr>) s = (Inr None, s\<lparr>eng_db := db\<rparr>)"
    using assms(7) leD [OF assms(8)] gap up fs
    by (simp add: andthen_def track_slot_def give_def db_do_def db_op_def)
  moreover have "indexer_slots db (uint parent) = Some parent_row"
    using slots ne assms(1) by (simp add: word_uint_eq_iff)
  ultimately show ?thesis using slots by auto
qed

section \<open>Runs\<close>

lemma sample_checkpoint: "sample_filled = Inr db \<Longrightarrow> processed_slot db = 10 \<and> finalized_slot db = 0 \<and> ingestion_gaps db = [] \<and>
    indexer_slots db 13 = None"
  by (auto simp: sample_filled_def index_eval)

definition sample_stream :: "stream_item list" where
  "sample_stream = [(Inr (SlotU (sample_slot 13 None)), NullBackfill)]"

lemma sample_gap: "detect_forward_gap 10 13 = Some (11, 12)"
  by (simp add: detect_forward_gap_def checked_add_def checked_sub_def)

lemma sample_run:
  assumes "sample_filled = Inr db"
  shows "processed_slot (index_runs sample_time_ok [Inr sample_stream] db) = 13"
proof -
  note db = sample_checkpoint [OF assms]
  let ?gap = "\<lparr>gap_from = 11, gap_to = 12, gap_status = ''open'', gap_attempts = 0, gap_last_error = None\<rparr>"
  let ?db1 = "db\<lparr>ingestion_gaps := [?gap]\<rparr>"
  let ?db2 = "?db1\<lparr>indexer_slots := (indexer_slots db)(13 \<mapsto> \<lparr>row_parent = None, row_status = Confirmed, row_block_time = None\<rparr>),
    processed_slot := 13\<rparr>"
  have rec: "record_gap 11 12 db = Inr ?db1"
    using db by (simp add: record_gap_def u64_to_i64_def check_def ensure_def)
  have up: "upsert_slot sample_time_ok (sample_slot 13 None) ?db1 = Inr ?db2"
    using db by (simp add: upsert_slot_def sample_slot_def ensure_def u64_to_i64_def opt_i64_def upsert_tail_def Let_def)
  have sl: "su_slot (sample_slot 13 None) = 13" "su_status (sample_slot 13 None) = Confirmed"
    by (simp_all add: sample_slot_def)
  have ing: "ingest_update sample_time_ok (SlotU (sample_slot 13 None)) \<lparr>eng_last = Some 10, eng_db = db\<rparr>
      = (Inr (Some (11, 12)), \<lparr>eng_last = Some 13, eng_db = ?db2\<rparr>)"
    using rec up sample_gap by (simp add: sl andthen_def track_slot_def give_def set_last_def db_do_def db_op_def)
  have "mark_gap_failed 11 12 e ?db2 = Inr (?db2\<lparr>ingestion_gaps :=
      [\<lparr>gap_from = 11, gap_to = 12, gap_status = ''failed'', gap_attempts = 1, gap_last_error = Some (take_chars 512 e)\<rparr>]\<rparr>)" for e
    by (simp add: mark_gap_failed_def update_gap_def u64_to_i64_def check_def ensure_def)
  then have "\<exists>s. repair_gap sample_time_ok NullBackfill 11 12 \<lparr>eng_last = Some 13, eng_db = ?db2\<rparr> = (Inr (), s) \<and>
      processed_slot (eng_db s) = 13"
    by (simp add: repair_gap_def gap_span_def checked_sub_def checked_add_def slot_range_def NullBackfill_def andthen_def
      db_do_def db_op_def give_def)
  then show ?thesis
    using db ing
    by (auto simp: run_source_def checkpoint_def i64_to_u64_def sample_stream_def andthen_def give_def)
qed

theorem no_slot_is_lost_witness:
  "\<exists>db. sample_filled = Inr db \<and> processed_slot db = 10 \<and>
     processed_slot (index_runs sample_time_ok [Inr sample_stream] db) = 13 \<and>
     on_record (index_runs sample_time_ok [Inr sample_stream] db) 12"
proof -
  obtain db where db: "sample_filled = Inr db" using sample_filled by blast
  have "on_record (index_runs sample_time_ok [Inr sample_stream] db) 12"
    by (rule no_slot_is_lost [OF sample_reachable [OF db]]) (simp_all add: sample_checkpoint [OF db] sample_run [OF db] del: index_runs.simps)
  with db sample_checkpoint [OF db] sample_run [OF db] show ?thesis by blast
qed

theorem repair_outcome_witness:
  "\<exists>s'. repair_gap sample_time_ok (MapBackfill (\<lambda>_. Some []) False) 11 12
       \<lparr>eng_last = Some 13, eng_db = empty_db\<lparr>ingestion_gaps :=
         [\<lparr>gap_from = 11, gap_to = 12, gap_status = ''open'', gap_attempts = 0, gap_last_error = None\<rparr>]\<rparr>\<rparr> = (Inr (), s') \<and>
     (\<forall>g\<in>set (ingestion_gaps (eng_db s')). gap_status g = ''partial'')"
proof -
  let ?s = "\<lparr>eng_last = Some 13, eng_db = empty_db\<lparr>ingestion_gaps :=
         [\<lparr>gap_from = 11, gap_to = 12, gap_status = ''open'', gap_attempts = 0, gap_last_error = None\<rparr>]\<rparr>\<rparr>"
  have run: "\<exists>s'. repair_gap sample_time_ok (MapBackfill (\<lambda>_. Some []) False) 11 12 ?s = (Inr (), s') \<and>
      (\<forall>g\<in>set (ingestion_gaps (eng_db s')). gap_from g = 11 \<and> gap_to g = 12)"
    by (simp add: repair_gap_def gap_span_def checked_sub_def checked_add_def slot_range_def MapBackfill_def andthen_def
      db_do_def db_op_def give_def mark_gap_partial_def update_gap_def u64_to_i64_def check_def ensure_def)
  then obtain s' where s': "repair_gap sample_time_ok (MapBackfill (\<lambda>_. Some []) False) 11 12 ?s = (Inr (), s')"
    "\<forall>g\<in>set (ingestion_gaps (eng_db s')). gap_from g = 11 \<and> gap_to g = 12" by blast
  have span: "gap_span 11 12 = 2" by (simp add: gap_span_def checked_sub_def checked_add_def)
  have "gap_status g = ''partial''" if "g \<in> set (ingestion_gaps (eng_db s'))" for g
    using repair_outcome [OF s'(1) that] s'(2) that span by (simp add: MapBackfill_def)
  with s'(1) show ?thesis by blast
qed

theorem final_slot_on_dead_parent_witness:
  "\<exists>s' row. ingest_update sample_time_ok (SlotU \<lparr>su_slot = 10, su_parent_slot = Some 9, su_status = Finalized, su_block_time = None\<rparr>)
       \<lparr>eng_last = Some 12, eng_db = empty_db\<lparr>indexer_slots :=
         [9 \<mapsto> \<lparr>row_parent = None, row_status = Dead, row_block_time = None\<rparr>]\<rparr>\<rparr> = (Inr None, s') \<and>
     indexer_slots (eng_db s') 10 = Some row \<and> row_status row = Finalized \<and> row_parent row = Some 9"
proof -
  let ?s = "\<lparr>eng_last = Some 12, eng_db = empty_db\<lparr>indexer_slots :=
         [9 \<mapsto> \<lparr>row_parent = None, row_status = Dead, row_block_time = None\<rparr>]\<rparr>\<rparr>"
  show ?thesis
    using final_slot_on_dead_parent [of ?s 9 "\<lparr>row_parent = None, row_status = Dead, row_block_time = None\<rparr>" 10 12
        sample_time_ok None]
    by (simp add: empty_db_def) blast
qed

end
