(* ===== verification/Gateway.thy ===== *)
theory Gateway
  imports App_Services Payment_Resource Index_Reads Index_Engine
begin

text \<open>
  The HTTP gateway, \<^verbatim>\<open>host/apps/agentbond-gateway/src\<close>: the handlers of its routes (\<^verbatim>\<open>lib.rs\<close>), the reads of the index
  (\<^verbatim>\<open>index_routes.rs\<close>), and what an error becomes (\<^verbatim>\<open>error.rs\<close>). The HTTP server itself, with its limits, timeouts, request ids and
  tracing, is library code and not modelled, nor are the metrics.

  A handler takes the parsed JSON of the request. The conversions between JSON and the structures of requests and
  answers, which the repository derives, are the parameter \<open>wire_lib\<close>.
\<close>

section \<open>JSON\<close>

text \<open>An object is the list of its fields in the order of iteration; a number is its text.\<close>

datatype Value =
    VNull
  | VBool bool
  | VNumber string
  | VString string
  | VArray "Value list"
  | VObject "(string \<times> Value) list"

text \<open>The reading of a structure fails with a message.\<close>

record wire_lib =
  create_from_value :: "Value \<Rightarrow> string + CreateJobRequest"
  job_request_from_value :: "Value \<Rightarrow> string + JobRequest"
  submit_from_value :: "Value \<Rightarrow> string + SubmitReceiptRequest"
  challenge_from_value :: "Value \<Rightarrow> string + ChallengeRequest"
  timeout_from_value :: "Value \<Rightarrow> string + TimeoutRequest"
  plan_to_value :: "InstructionPlan \<Rightarrow> string + Value"
  job_to_value :: "JobDto \<Rightarrow> string + Value"
  provider_to_value :: "ProviderDto \<Rightarrow> string + Value"
  service_to_value :: "ServiceEntry \<Rightarrow> string + Value"
  services_to_value :: "ServiceEntry list \<Rightarrow> Value"
  status_to_value :: "IndexStatusDto \<Rightarrow> string + Value"
  jobs_to_value :: "IndexedJobDto page \<Rightarrow> string + Value"
  providers_to_value :: "IndexedProviderDto page \<Rightarrow> string + Value"
  history_to_value :: "JobHistoryItemDto page \<Rightarrow> string + Value"
  activity_to_value :: "ProviderActivityItemDto page \<Rightarrow> string + Value"
  value_to_text :: "Value \<Rightarrow> string"

section \<open>Errors\<close>

type_synonym headers = "string \<rightharpoonup> string"

record ApiError =
  api_status :: nat
  api_code :: string
  api_message :: string
  api_details :: Value
  api_headers :: headers

type_synonym 'a api = "ApiError failure + 'a"

definition api_new :: "nat \<Rightarrow> string \<Rightarrow> string \<Rightarrow> ApiError" where
  "api_new status code message =
     \<lparr>api_status = status, api_code = code, api_message = message, api_details = VNull, api_headers = Map.empty\<rparr>"

definition with_details :: "ApiError \<Rightarrow> Value \<Rightarrow> ApiError" where
  "with_details e details = e\<lparr>api_details := details\<rparr>"

definition bad_request :: "string \<Rightarrow> ApiError" where
  "bad_request message = api_new 400 ''bad_request'' message"

definition payment_required :: "headers \<Rightarrow> ApiError" where
  "payment_required hs =
     \<lparr>api_status = 402, api_code = ''payment_required'', api_message = ''payment required'', api_details = VNull,
      api_headers = hs\<rparr>"

text \<open>\<open>str::contains\<close>.\<close>

fun contains :: "string \<Rightarrow> string \<Rightarrow> bool" where
  "contains [] p = (p = [])"
| "contains (c # cs) p = (starts_with (c # cs) p \<or> contains cs p)"

definition safe_message :: "string \<Rightarrow> string" where
  "safe_message raw =
     (let lower = to_ascii_lowercase raw
      in if contains lower ''private'' \<or> contains lower ''secret'' \<or> contains lower ''stack''
         then ''request failed'' else raw)"

primrec sdk_error_str :: "SdkError \<Rightarrow> string" where
  "sdk_error_str (InvalidPubkey s) = ''invalid pubkey: '' @ s"
| "sdk_error_str SdkInvalidAmount = ''invalid amount''"
| "sdk_error_str SdkInvalidDeadlineOrder = ''invalid deadline order''"
| "sdk_error_str (InvalidInput s) = ''invalid input: '' @ s"
| "sdk_error_str WrongOwner = ''wrong account owner''"
| "sdk_error_str WrongAddress = ''wrong account address''"
| "sdk_error_str (SdkDecode s) = ''account decode failed: '' @ s"
| "sdk_error_str (SdkRpc s) = ''rpc error: '' @ s"
| "sdk_error_str (SdkSerde s) = ''serialization error: '' @ s"
| "sdk_error_str (SdkProtocol s) = ''protocol error: '' @ s"

fun api_from_app :: "AppError \<Rightarrow> ApiError" where
  "api_from_app (AppNotFound m) = api_new 404 ''not_found'' m"
| "api_from_app (AppValidation m) = bad_request m"
| "api_from_app (AppConfigE m) = bad_request m"
| "api_from_app (AppSdk (SdkRpc m)) = api_new 502 ''rpc_error'' (safe_message m)"
| "api_from_app (AppSdk e) = bad_request (safe_message (sdk_error_str e))"

definition payment_status :: "PaymentError \<Rightarrow> nat \<times> string" where
  "payment_status value =
     (case value of
        MissingPayment \<Rightarrow> (402, ''payment_required'')
      | VerifyTimeout \<Rightarrow> (504, ''verify_timeout'')
      | SettleTimeout \<Rightarrow> (504, ''settle_timeout'')
      | VerifyRejected \<Rightarrow> (402, ''payment_rejected'')
      | SettleRejected \<Rightarrow> (402, ''payment_rejected'')
      | SettlementInProgress \<Rightarrow> (409, ''settlement_in_progress'')
      | LeaseMismatch \<Rightarrow> (409, ''lease_mismatch'')
      | PaymentInternal _ \<Rightarrow> (500, ''payment_internal'')
      | _ \<Rightarrow> (400, ''payment_error''))"

definition api_from_payment :: "PaymentError \<Rightarrow> ApiError" where
  "api_from_payment value =
     (case payment_status value of (status, code) \<Rightarrow> api_new status code (payment_error_str value))"

definition map_db :: "DbError \<Rightarrow> ApiError" where
  "map_db err =
     (case err of
        NotFound m \<Rightarrow> api_new 404 ''not_found'' m
      | Validation m \<Rightarrow> bad_request m
      | Sql _ \<Rightarrow> api_new 503 ''db_unavailable'' ''database unavailable''
      | Migrate _ \<Rightarrow> api_new 503 ''db_unavailable'' ''database unavailable''
      | Migration _ \<Rightarrow> api_new 503 ''db_unavailable'' ''database unavailable''
      | Conflict m \<Rightarrow> api_new 409 ''conflict'' m
      | _ \<Rightarrow> api_new 500 ''internal_error'' ''request failed'')"

text \<open>The answer made of an error.\<close>

definition into_response :: "string \<Rightarrow> ApiError \<Rightarrow> nat \<times> headers \<times> Value" where
  "into_response request_id e =
     (api_status e, (api_headers e)(''x-request-id'' \<mapsto> request_id),
      VObject [(''error'', VObject [(''code'', VString (api_code e)), (''message'', VString (api_message e)),
        (''details'', api_details e), (''request_id'', VString request_id)])])"

definition from_failure :: "('e \<Rightarrow> ApiError) \<Rightarrow> 'e failure + 'a \<Rightarrow> 'a api" where
  "from_failure f r = map_err (\<lambda>e. case e of Fails x \<Rightarrow> Fails (f x) | Panicked \<Rightarrow> Panicked) r"

abbreviation app :: "'a app \<Rightarrow> 'a api" where "app r \<equiv> from_failure api_from_app r"

abbreviation or_bad_request :: "string + 'a \<Rightarrow> 'a api" where
  "or_bad_request r \<equiv> map_err (\<lambda>m. Fails (bad_request m)) r"

section \<open>Secrets\<close>

definition secret_key :: "string \<Rightarrow> bool" where
  "secret_key k = (let key = to_ascii_lowercase k in contains key ''private'' \<or> contains key ''secret'' \<or> key = ''keypair'')"

fun reject_secrets :: "Value \<Rightarrow> unit api" and reject_members :: "(string \<times> Value) list \<Rightarrow> unit api"
  and reject_items :: "Value list \<Rightarrow> unit api" where
  "reject_secrets v = (case v of VObject members \<Rightarrow> reject_members members | VArray items \<Rightarrow> reject_items items | _ \<Rightarrow> Inr ())"
| "reject_members [] = Inr ()"
| "reject_members ((k, val) # members) =
     tryE (ensure (\<not> secret_key k) (Fails (bad_request ''private key fields are not accepted''))) (\<lambda>_.
     tryE (reject_secrets val) (\<lambda>_.
     reject_members members))"
| "reject_items [] = Inr ()"
| "reject_items (item # items) =
     tryE (reject_secrets item) (\<lambda>_.
     reject_items items)"

section \<open>Handlers\<close>

definition parse_json_body :: "(Value \<Rightarrow> string + 'r) \<Rightarrow> Value \<Rightarrow> 'r api" where
  "parse_json_body from_value value =
     tryE (reject_secrets value) (\<lambda>_. or_bad_request (from_value value))"

text \<open>What the seven planning handlers share: the request, the plan, its JSON.\<close>

definition plan_handler :: "wire_lib \<Rightarrow> (Value \<Rightarrow> string + 'r) \<Rightarrow> ('r \<Rightarrow> InstructionPlan app) \<Rightarrow> Value \<Rightarrow> Value api" where
  "plan_handler wire from_value build raw =
     tryE (parse_json_body from_value raw) (\<lambda>req.
     tryE (app (build req)) (\<lambda>plan.
     or_bad_request (plan_to_value wire plan)))"

definition plan_create :: "client \<Rightarrow> wire_lib \<Rightarrow> AppConfig \<Rightarrow> chain_reader \<Rightarrow> Value \<Rightarrow> Value api" where
  "plan_create cl wire cfg reader = plan_handler wire (create_from_value wire) (build_create_job_plan cl cfg reader)"

definition plan_fund :: "client \<Rightarrow> wire_lib \<Rightarrow> AppConfig \<Rightarrow> Value \<Rightarrow> Value api" where
  "plan_fund cl wire cfg = plan_handler wire (job_request_from_value wire) (build_fund_job_plan cl cfg)"

definition plan_accept :: "client \<Rightarrow> wire_lib \<Rightarrow> AppConfig \<Rightarrow> Value \<Rightarrow> Value api" where
  "plan_accept cl wire cfg = plan_handler wire (job_request_from_value wire) (build_accept_job_plan cl cfg)"

definition plan_submit :: "client \<Rightarrow> wire_lib \<Rightarrow> AppConfig \<Rightarrow> chain_reader \<Rightarrow> Value \<Rightarrow> Value api" where
  "plan_submit cl wire cfg reader = plan_handler wire (submit_from_value wire) (build_submit_receipt_plan_uc cl cfg reader)"

definition plan_accept_work_route :: "client \<Rightarrow> wire_lib \<Rightarrow> AppConfig \<Rightarrow> Value \<Rightarrow> Value api" where
  "plan_accept_work_route cl wire cfg = plan_handler wire (job_request_from_value wire) (build_accept_work_plan cl cfg)"

definition plan_challenge :: "client \<Rightarrow> wire_lib \<Rightarrow> AppConfig \<Rightarrow> Value \<Rightarrow> Value api" where
  "plan_challenge cl wire cfg = plan_handler wire (challenge_from_value wire) (build_challenge_plan cl cfg)"

definition plan_timeout :: "client \<Rightarrow> wire_lib \<Rightarrow> AppConfig \<Rightarrow> chain_reader \<Rightarrow> Value \<Rightarrow> Value api" where
  "plan_timeout cl wire cfg reader = plan_handler wire (timeout_from_value wire) (build_timeout_plan cl cfg reader)"

definition services :: "wire_lib \<Rightarrow> ServiceCatalog \<Rightarrow> Value api" where
  "services wire catalog = Inr (VObject [(''services'', services_to_value wire catalog)])"

definition service :: "wire_lib \<Rightarrow> ServiceCatalog \<Rightarrow> string \<Rightarrow> Value api" where
  "service wire catalog service_id =
     tryE (app (get_service catalog service_id)) (\<lambda>s. or_bad_request (service_to_value wire s))"

definition provider_route :: "client \<Rightarrow> wire_lib \<Rightarrow> AppConfig \<Rightarrow> chain_reader \<Rightarrow> string \<Rightarrow> Value api" where
  "provider_route cl wire cfg reader address =
     tryE (reject_secrets (VObject [(''address'', VString address)])) (\<lambda>_.
     tryE (or_bad_request (map_err sdk_error_str (parse_pubkey cl address))) (\<lambda>pk.
     tryE (app (program_pubkey cl cfg)) (\<lambda>program.
     tryE (app (inspect_provider_dto cl reader program pk)) (\<lambda>account.
     tryE (or_bad_request (provider_to_value wire account)) (\<lambda>value.
     Inr (VObject [(''provider'', value)]))))))"

definition job_route :: "client \<Rightarrow> wire_lib \<Rightarrow> AppConfig \<Rightarrow> chain_reader \<Rightarrow> string \<Rightarrow> Value api" where
  "job_route cl wire cfg reader address =
     tryE (or_bad_request (map_err sdk_error_str (parse_pubkey cl address))) (\<lambda>pk.
     tryE (app (program_pubkey cl cfg)) (\<lambda>program.
     tryE (app (inspect_job_dto cl reader program pk)) (\<lambda>account.
     tryE (or_bad_request (job_to_value wire account)) (\<lambda>value.
     Inr (VObject [(''job'', value)])))))"

text \<open>\<open>ready\<close>, with what the three dependencies answer; no database counts as ready.\<close>

definition ready :: "bool \<Rightarrow> bool \<Rightarrow> bool option \<Rightarrow> Value api" where
  "ready rpc_ok fac_ok db =
     (let db_ok = (case db of Some ok \<Rightarrow> ok | None \<Rightarrow> True);
          body = VObject [(''rpc'', VBool rpc_ok), (''facilitator'', VBool fac_ok), (''database'', VBool db_ok)]
      in if rpc_ok \<and> fac_ok \<and> db_ok then Inr body
         else Inl (Fails (with_details (api_new 503 ''dependencies_not_ready'' ''dependencies not ready'') body)))"

section \<open>Reads of the index\<close>

record PageQuery =
  q_cursor :: "string option"
  q_limit :: "i64 option"
  q_state :: "string option"
  q_buyer :: "string option"
  q_provider :: "string option"

text \<open>What the repository reads: the rows of each table and the finalized slot.\<close>

record read_repo =
  rr_texts :: text_lib
  rr_unkey :: "string \<Rightarrow> bytes option"
  rr_as_of :: bigint
  rr_status :: "DbError + IndexStatusDto"
  rr_jobs :: "job_projection proj_rows"
  rr_providers :: "provider_projection proj_rows"
  rr_events :: event_rows

definition with_repo :: "read_repo option \<Rightarrow> (read_repo \<Rightarrow> DbError + 'a) \<Rightarrow> ('a \<Rightarrow> string + Value) \<Rightarrow> Value api" where
  "with_repo db query to_value =
     tryE (ok_or db (Fails (api_new 503 ''db_unavailable'' ''database unavailable''))) (\<lambda>repo.
     tryE (map_err (\<lambda>e. Fails (map_db e)) (query repo)) (\<lambda>x.
     or_bad_request (to_value x)))"

definition limit_or_20 :: "PageQuery \<Rightarrow> i64" where
  "limit_or_20 q = (case q_limit q of Some l \<Rightarrow> l | None \<Rightarrow> 20)"

definition index_status_route :: "wire_lib \<Rightarrow> read_repo option \<Rightarrow> Value api" where
  "index_status_route wire db = with_repo db rr_status (status_to_value wire)"

definition index_jobs :: "wire_lib \<Rightarrow> read_repo option \<Rightarrow> PageQuery \<Rightarrow> Value api" where
  "index_jobs wire db q =
     with_repo db (\<lambda>r. list_jobs (rr_texts r) (rr_unkey r) (rr_as_of r) (rr_jobs r) (limit_or_20 q) (q_cursor q)
       (q_state q) (q_buyer q) (q_provider q)) (jobs_to_value wire)"

definition index_job_history :: "wire_lib \<Rightarrow> read_repo option \<Rightarrow> string \<Rightarrow> PageQuery \<Rightarrow> Value api" where
  "index_job_history wire db address q =
     with_repo db (\<lambda>r. job_history (rr_texts r) (rr_unkey r) (rr_as_of r) (rr_events r) address (limit_or_20 q)
       (q_cursor q)) (history_to_value wire)"

definition index_providers :: "wire_lib \<Rightarrow> read_repo option \<Rightarrow> PageQuery \<Rightarrow> Value api" where
  "index_providers wire db q =
     with_repo db (\<lambda>r. list_providers (rr_texts r) (rr_unkey r) (rr_as_of r) (rr_providers r) (limit_or_20 q)
       (q_cursor q)) (providers_to_value wire)"

definition index_provider_activity :: "wire_lib \<Rightarrow> read_repo option \<Rightarrow> string \<Rightarrow> PageQuery \<Rightarrow> Value api" where
  "index_provider_activity wire db address q =
     with_repo db (\<lambda>r. provider_activity (rr_texts r) (rr_unkey r) (rr_as_of r) (rr_events r) address (limit_or_20 q)
       (q_cursor q)) (activity_to_value wire)"

section \<open>Paid requests\<close>

text \<open>A header value is visible ASCII text.\<close>

definition header_text :: "string \<Rightarrow> string option" where
  "header_text s =
     (if list_all (\<lambda>c. let n = of_char c :: nat in 32 \<le> n \<and> n < 127 \<or> n = 9) s then Some s else None)"

definition x402_resource :: "AppConfig \<Rightarrow> ServiceEntry \<Rightarrow> string \<Rightarrow> X402ResourceConfig" where
  "x402_resource cfg entry service_id =
     \<lparr>cfg_network = ac_x402_network cfg, cfg_asset = ac_settlement_mint cfg, cfg_pay_to = ac_merchant_pay_to cfg,
      cfg_fee_payer = ac_x402_fee_payer cfg, cfg_amount = ac_x402_amount cfg, cfg_max_timeout_seconds = 60,
      cfg_resource_url = ''/v1/x402/services/'' @ service_id @ ''/invoke'', cfg_description = se_description entry,
      cfg_service_id = service_id\<rparr>"

text \<open>The headers are those of the request, the result the status, the headers and the body.\<close>

definition x402_invoke ::
    "'c challenge_ops \<Rightarrow> 's settlement_ops \<Rightarrow> facilitator \<Rightarrow> pay_lib \<Rightarrow> 's schedule \<Rightarrow> wire_lib \<Rightarrow> AppConfig \<Rightarrow>
       ServiceCatalog \<Rightarrow> chain_reader \<Rightarrow> string \<Rightarrow> headers \<Rightarrow> Value \<Rightarrow> 'c \<Rightarrow> 's \<Rightarrow>
       (nat \<times> headers \<times> demo_body) api \<times> 'c \<times> 's \<times> fac_call list" where
  "x402_invoke chal ops fac lib sched wire cfg catalog reader service_id hs input cs ss =
     (case app (get_service catalog service_id) of
        Inl e \<Rightarrow> (Inl e, cs, ss, [])
      | Inr entry \<Rightarrow>
          if se_x402_demo_route entry = None
          then (Inl (Fails (bad_request ''service has no x402 demo route'')), cs, ss, [])
          else
            (case read_unix_timestamp reader of
               Inl e \<Rightarrow> (Inl (Fails (api_new 502 ''clock_error'' (sdk_error_str e))), cs, ss, [])
             | Inr now \<Rightarrow>
                 (case invoke_paid_demo chal ops (x402_resource cfg entry service_id) fac lib sched
                    (Option.bind (hs ''PAYMENT-SIGNATURE'') header_text) (value_to_text wire input) now cs ss of
                    (r, cs, ss, calls) \<Rightarrow>
                      ((case r of
                          Inr (Inr result) \<Rightarrow>
                            tryE (ok_or (header_text (paid_payment_response_header result))
                              (Fails (bad_request ''bad payment response header''))) (\<lambda>h.
                            Inr (200, [''PAYMENT-RESPONSE'' \<mapsto> h], paid_body result))
                        | Inr (Inl required) \<Rightarrow>
                            tryE (ok_or (header_text required) (Fails (bad_request ''bad payment required header''))) (\<lambda>h.
                            Inl (Fails (payment_required [''PAYMENT-REQUIRED'' \<mapsto> h])))
                        | Inl e \<Rightarrow> Inl (Fails (api_from_payment e))),
                       cs, ss, calls))))"

end
