(* ===== verification/Mcp_Server.thy ===== *)
theory Mcp_Server
  imports Gateway
begin

text \<open>
  The MCP server, \<^verbatim>\<open>host/apps/agentbond-mcp/src/lib.rs\<close>: the tools it lists with the schemas of their arguments, and the
  dispatch of a call. The protocol itself is library code; the conversions of arguments and results are those of
  \<open>wire_lib\<close>.
\<close>

section \<open>Schemas\<close>

text \<open>An object lists its fields in the order they are inserted.\<close>

definition typed :: "string \<Rightarrow> Value" where
  "typed ty = VObject [(''type'', VString ty)]"

definition object_schema :: "(string \<times> string) list \<Rightarrow> string list \<Rightarrow> Value" where
  "object_schema params required =
     VObject
       [(''type'', VString ''object''),
        (''properties'', VObject (map (\<lambda>(name, ty). (name, VObject ((''type'', VString ty) #
           (if ty = ''integer'' then [(''minimum'', VNumber ''0'')] else [])))) params)),
        (''required'', VArray (map VString required)),
        (''additionalProperties'', VBool False)]"

definition submit_schema :: Value where
  "submit_schema =
     (let receipt_props =
            map (\<lambda>key. (key, typed ''string''))
              [''program_id_hex'', ''genesis_hash_hex'', ''job_hex'', ''buyer_hex'', ''provider_hex'', ''request_hash_hex'',
               ''result_hash_hex'', ''artifact_hash_hex'', ''software_hash_hex''] @
            [(''job_nonce'', VObject [(''type'', VString ''integer''), (''minimum'', VNumber ''0'')]),
             (''created_at'', typed ''integer''), (''expires_at'', typed ''integer'')];
          receipt = VObject [(''type'', VString ''object''), (''properties'', VObject receipt_props),
            (''additionalProperties'', VBool False)]
      in VObject
           [(''type'', VString ''object''),
            (''properties'', VObject [(''job'', typed ''string''), (''provider'', typed ''string''), (''receipt'', receipt),
               (''execution_pubkey_hex'', typed ''string''), (''signature_hex'', typed ''string'')]),
            (''required'', VArray (map VString
               [''job'', ''provider'', ''receipt'', ''execution_pubkey_hex'', ''signature_hex''])),
            (''additionalProperties'', VBool False)])"

record tool =
  tool_name :: string
  tool_description :: string
  tool_schema :: Value

abbreviation (input) job_fields :: "(string \<times> string) list" where
  "job_fields \<equiv> [(''buyer'', ''string''), (''provider'', ''string''), (''job_nonce'', ''integer'')]"

definition tools :: "tool list" where
  "tools =
     [\<lparr>tool_name = ''discover_services'', tool_description = ''List catalog services'', tool_schema = object_schema [] []\<rparr>,
      \<lparr>tool_name = ''inspect_provider'', tool_description = ''Inspect a provider account'',
        tool_schema = object_schema [(''address'', ''string'')] [''address'']\<rparr>,
      \<lparr>tool_name = ''inspect_job'', tool_description = ''Inspect a job account'',
        tool_schema = object_schema [(''address'', ''string'')] [''address'']\<rparr>,
      \<lparr>tool_name = ''build_create_job'', tool_description = ''Build an unsigned create-job plan'',
        tool_schema = object_schema
          (job_fields @ [(''amount'', ''integer''), (''request_hash_hex'', ''string''), (''fund_deadline'', ''integer''),
             (''accept_deadline'', ''integer''), (''work_deadline'', ''integer''), (''auto_settle_deadline'', ''integer'')])
          [''buyer'', ''provider'', ''job_nonce'', ''amount'', ''request_hash_hex'', ''fund_deadline'', ''accept_deadline'',
           ''work_deadline'', ''auto_settle_deadline'']\<rparr>,
      \<lparr>tool_name = ''build_fund_job'', tool_description = ''Build an unsigned fund-job plan'',
        tool_schema = object_schema job_fields [''buyer'', ''provider'', ''job_nonce'']\<rparr>,
      \<lparr>tool_name = ''build_submit_receipt'',
        tool_description = ''Build Ed25519 + SubmitReceipt plan from signature material'', tool_schema = submit_schema\<rparr>,
      \<lparr>tool_name = ''build_accept_work'', tool_description = ''Build an unsigned accept-work plan'',
        tool_schema = object_schema job_fields [''buyer'', ''provider'', ''job_nonce'']\<rparr>,
      \<lparr>tool_name = ''build_challenge'', tool_description = ''Build an unsigned challenge plan'',
        tool_schema = object_schema (job_fields @ [(''reason_hash_hex'', ''string'')])
          [''buyer'', ''provider'', ''job_nonce'', ''reason_hash_hex'']\<rparr>,
      \<lparr>tool_name = ''build_timeout_resolution'', tool_description = ''Build an eligible timeout/refund/expire plan'',
        tool_schema = object_schema ((''payer'', ''string'') # job_fields)
          [''payer'', ''buyer'', ''provider'', ''job_nonce'']\<rparr>]"

section \<open>Calls\<close>

type_synonym 'a mcp = "string failure + 'a"

datatype tool_result = Structured Value | ToolError string

fun app_error_str :: "AppError \<Rightarrow> string" where
  "app_error_str (AppValidation m) = m"
| "app_error_str (AppNotFound m) = ''not found: '' @ m"
| "app_error_str (AppSdk e) = sdk_error_str e"
| "app_error_str (AppConfigE m) = ''config: '' @ m"

definition mcp_app :: "'a app \<Rightarrow> 'a mcp" where
  "mcp_app r = map_err (\<lambda>e. case e of Fails x \<Rightarrow> Fails (app_error_str x) | Panicked \<Rightarrow> Panicked) r"

abbreviation or_message :: "string + 'a \<Rightarrow> 'a mcp" where
  "or_message r \<equiv> map_err Fails r"

definition str_arg :: "Value \<Rightarrow> string \<Rightarrow> string mcp" where
  "str_arg args key =
     (case (case args of VObject params \<Rightarrow> map_of params key | _ \<Rightarrow> None) of
        Some (VString s) \<Rightarrow> Inr s
      | _ \<Rightarrow> Inl (Fails (''missing '' @ key)))"

text \<open>What the planning tools share.\<close>

definition plan_tool :: "wire_lib \<Rightarrow> (Value \<Rightarrow> string + 'r) \<Rightarrow> ('r \<Rightarrow> InstructionPlan app) \<Rightarrow> Value \<Rightarrow> Value mcp" where
  "plan_tool wire from_value build args =
     tryE (or_message (from_value args)) (\<lambda>req.
     tryE (mcp_app (build req)) (\<lambda>plan.
     or_message (plan_to_value wire plan)))"

definition run_tool ::
    "client \<Rightarrow> wire_lib \<Rightarrow> AppConfig \<Rightarrow> ServiceCatalog \<Rightarrow> chain_reader \<Rightarrow> string \<Rightarrow> Value \<Rightarrow> Value mcp" where
  "run_tool cl wire cfg catalog reader name args =
     (if name = ''discover_services'' then Inr (VObject [(''services'', services_to_value wire catalog)])
      else if name = ''inspect_provider'' then
        tryE (str_arg args ''address'') (\<lambda>address.
        tryE (or_message (map_err sdk_error_str (parse_pubkey cl address))) (\<lambda>pk.
        tryE (mcp_app (program_pubkey cl cfg)) (\<lambda>program.
        tryE (mcp_app (inspect_provider_dto cl reader program pk)) (\<lambda>provider.
        or_message (provider_to_value wire provider)))))
      else if name = ''inspect_job'' then
        tryE (str_arg args ''address'') (\<lambda>address.
        tryE (or_message (map_err sdk_error_str (parse_pubkey cl address))) (\<lambda>pk.
        tryE (mcp_app (program_pubkey cl cfg)) (\<lambda>program.
        tryE (mcp_app (inspect_job_dto cl reader program pk)) (\<lambda>job.
        or_message (job_to_value wire job)))))
      else if name = ''build_create_job'' then
        plan_tool wire (create_from_value wire) (build_create_job_plan cl cfg reader) args
      else if name = ''build_fund_job'' then
        plan_tool wire (job_request_from_value wire) (build_fund_job_plan cl cfg) args
      else if name = ''build_submit_receipt'' then
        plan_tool wire (submit_from_value wire) (build_submit_receipt_plan_uc cl cfg reader) args
      else if name = ''build_accept_work'' then
        plan_tool wire (job_request_from_value wire) (build_accept_work_plan cl cfg) args
      else if name = ''build_challenge'' then
        plan_tool wire (challenge_from_value wire) (build_challenge_plan cl cfg) args
      else if name = ''build_timeout_resolution'' then
        plan_tool wire (timeout_from_value wire) (build_timeout_plan cl cfg reader) args
      else Inl (Fails (''unknown tool: '' @ name)))"

definition dispatch ::
    "client \<Rightarrow> wire_lib \<Rightarrow> AppConfig \<Rightarrow> ServiceCatalog \<Rightarrow> chain_reader \<Rightarrow> string \<Rightarrow> Value \<Rightarrow> tool_result mcp" where
  "dispatch cl wire cfg catalog reader name args =
     (case run_tool cl wire cfg catalog reader name args of
        Inr value \<Rightarrow> Inr (Structured value)
      | Inl (Fails message) \<Rightarrow> Inr (ToolError message)
      | Inl Panicked \<Rightarrow> Inl Panicked)"

definition call_tool ::
    "client \<Rightarrow> wire_lib \<Rightarrow> AppConfig \<Rightarrow> ServiceCatalog \<Rightarrow> chain_reader \<Rightarrow> string \<Rightarrow> (string \<times> Value) list option \<Rightarrow>
       tool_result mcp" where
  "call_tool cl wire cfg catalog reader name arguments =
     tryE (ensure (\<not> list_all (\<lambda>t. tool_name t \<noteq> name) tools) (Fails (''unknown tool '' @ name))) (\<lambda>_.
     let args = (case arguments of Some params \<Rightarrow> VObject params | None \<Rightarrow> VObject [])
     in dispatch cl wire cfg catalog reader name args)"

end
