(* ===== verification/Pg_Payments.thy ===== *)
theory Pg_Payments
  imports Payment_Resource Index_Store "HOL-Library.Sublist"
begin

text \<open>
  The two stores of the payment adapter in the database, \<^verbatim>\<open>agentbond-db/src/payments.rs\<close>: challenges
  (\<open>PgChallengeStore\<close>) and settlements (\<open>PgSettlementStore\<close>), with the constraints of their tables in
  \<^verbatim>\<open>migrations/0001_init.sql\<close>. They keep the contracts of \<open>Payment_Contracts\<close>, so that a paid request
  served from the database has the properties of one served from memory, and settlements are never lost.

  The table of challenges is a list of rows in the order a scan meets them, with distinct memos; the table of
  settlements is a map from the transaction digest. A row of \<open>ChallengeRow\<close> has the fields of a
  \<open>PaymentChallenge\<close>: a cast between \<open>u64\<close> and \<open>i64\<close> keeps the bits. Times of settlements are in milliseconds.
  Statements that belong to one transaction are one step, except that other requests may come between the
  \<open>SELECT\<close> of \<open>begin\<close> that finds no row (and so locks none) and its \<open>INSERT\<close>: the argument \<open>races\<close> of \<open>pg_begin\<close> gives what
  they do, and the clock and the lease of the next attempt. Columns that only record when a row was written are left out.
\<close>

section \<open>Library code\<close>

text \<open>\<open>pg_time_ok\<close>: the times that the calendar library and a column can represent. \<open>pg_json\<close>: the
  serialisation of a result body; \<open>pg_jsonb_ok\<close>: whether the database takes it for \<open>JSONB\<close>. \<open>pg_clock\<close>: what \<open>NOW()\<close> of the database
  reads when the server's clock has the given reading.\<close>

record pg_lib =
  pg_time_ok :: "i64 \<Rightarrow> bool"
  pg_json :: "demo_body \<Rightarrow> string option"
  pg_jsonb_ok :: "demo_body \<Rightarrow> bool"
  pg_clock :: "nat \<Rightarrow> nat"

section \<open>Constraints\<close>

definition char_length :: "string \<Rightarrow> nat" where
  "char_length s = length (filter (\<lambda>c. let n = of_char c :: nat in n < 128 \<or> 192 \<le> n) s)"

text \<open>The database takes no text with a zero byte.\<close>

definition varchar :: "nat \<Rightarrow> nat \<Rightarrow> string \<Rightarrow> bool" where
  "varchar low high s \<longleftrightarrow> CHR 0x00 \<notin> set s \<and> low \<le> char_length s \<and> char_length s \<le> high"

definition is_lower_hex :: "char \<Rightarrow> bool" where
  "is_lower_hex c \<longleftrightarrow> (let n = of_char c :: nat in 48 \<le> n \<and> n \<le> 57 \<or> 97 \<le> n \<and> n \<le> 102)"

definition is_ascii_hexdigit :: "char \<Rightarrow> bool" where
  "is_ascii_hexdigit c \<longleftrightarrow> (let n = of_char c :: nat in 48 \<le> n \<and> n \<le> 57 \<or> 65 \<le> n \<and> n \<le> 70 \<or> 97 \<le> n \<and> n \<le> 102)"

text \<open>\<open>~ '^[0-9a-f]{n}$'\<close>.\<close>

definition lower_hex :: "nat \<Rightarrow> string \<Rightarrow> bool" where
  "lower_hex n s \<longleftrightarrow> length s = n \<and> list_all is_lower_hex s"

definition sql_check :: "string \<Rightarrow> bool \<Rightarrow> PaymentError + unit" where
  "sql_check name c = ensure c (PaymentInternal (''violates constraint '' @ name))"

section \<open>Challenges\<close>

type_synonym challenge_table = "(string \<times> PaymentChallenge) list"

definition challenge_row_ok :: "PaymentChallenge \<Rightarrow> bool" where
  "challenge_row_ok row \<longleftrightarrow>
     lower_hex 32 (pc_memo row) \<and> varchar 1 64 (pc_service_id row) \<and> varchar 1 512 (pc_resource_url row) \<and>
     varchar 0 256 (pc_description row) \<and> varchar 32 64 (pc_merchant row) \<and> varchar 32 64 (pc_asset row) \<and>
     varchar 1 40 (pc_amount row) \<and> varchar 1 64 (pc_network row) \<and> varchar 32 64 (pc_fee_payer row) \<and>
     lower_hex 64 (pc_input_digest row) \<and> 0 <s pc_max_timeout_seconds row \<and> pc_max_timeout_seconds row \<le>s 86400"

text \<open>\<open>DELETE ... WHERE ctid IN (SELECT ... LIMIT n)\<close>: the first \<open>n\<close> rows the condition holds of.\<close>

fun delete_limited :: "('a \<Rightarrow> bool) \<Rightarrow> nat \<Rightarrow> 'a list \<Rightarrow> nat \<times> 'a list" where
  "delete_limited P 0 rows = (0, rows)"
| "delete_limited P (Suc n) [] = (0, [])"
| "delete_limited P (Suc n) (row # rows) =
     (if P row then (let (k, rest) = delete_limited P n rows in (Suc k, rest))
      else (let (k, rest) = delete_limited P (Suc n) rows in (k, row # rest)))"

definition purge_expired :: "pg_lib \<Rightarrow> i64 \<Rightarrow> i64 \<Rightarrow> challenge_table \<Rightarrow> DbError + nat \<times> challenge_table" where
  "purge_expired lib now limit m =
     tryE (ensure (pg_time_ok lib now) (Validation ''bad purge timestamp'')) (\<lambda>_.
     tryE (ensure (0 \<le>s limit) (Sql ''LIMIT must not be negative'')) (\<lambda>_.
     Inr (delete_limited (\<lambda>(_, row). pc_expires_at row <s now) (nat (sint limit)) m)))"

definition pg_issue ::
    "pg_lib \<Rightarrow> X402ResourceConfig \<Rightarrow> ResourceInfo \<Rightarrow> string \<Rightarrow> i64 \<Rightarrow> bytes option \<Rightarrow> challenge_table \<Rightarrow>
       (PaymentError + PaymentRequirements \<times> PaymentChallenge) \<times> challenge_table" where
  "pg_issue lib cfg resource digest issued_at rng m =
     (case tryE (random_memo_hex rng) (\<lambda>memo.
           tryE (ok_or (checked_add_signed issued_at (cfg_max_timeout_seconds cfg)) (PaymentInternal ''expires overflow''))
             (\<lambda>expires_at.
           tryE (ensure (pg_time_ok lib issued_at) (PaymentInternal ''bad issued_at'')) (\<lambda>_.
           tryE (ensure (pg_time_ok lib expires_at) (PaymentInternal ''bad expires_at'')) (\<lambda>_.
           let row = \<lparr>pc_memo = memo, pc_service_id = cfg_service_id cfg, pc_resource_url = res_url resource,
                 pc_description = res_description resource, pc_merchant = cfg_pay_to cfg,
                 pc_asset = cfg_asset cfg, pc_amount = cfg_amount cfg, pc_network = cfg_network cfg,
                 pc_fee_payer = cfg_fee_payer cfg, pc_input_digest = digest, pc_issued_at = issued_at,
                 pc_expires_at = expires_at, pc_max_timeout_seconds = cfg_max_timeout_seconds cfg\<rparr>
           in tryE (sql_check ''x402_challenges'' (challenge_row_ok row)) (\<lambda>_.
              tryE (sql_check ''x402_challenges_pkey'' (memo \<notin> set (map fst m))) (\<lambda>_.
              Inr (row, m @ [(memo, row)]))))))) of
        Inl e \<Rightarrow> (Inl e, m)
      | Inr (challenge, m) \<Rightarrow>
          (let m = (case purge_expired lib issued_at 64 m of Inl _ \<Rightarrow> m | Inr (_, m) \<Rightarrow> m);
               requirements = \<lparr>req_scheme = SCHEME_EXACT, req_network = cfg_network cfg,
                 req_amount = cfg_amount cfg, req_asset = cfg_asset cfg, req_pay_to = cfg_pay_to cfg,
                 req_max_timeout_seconds = cfg_max_timeout_seconds cfg,
                 req_extra = \<lparr>extra_fee_payer = cfg_fee_payer cfg, extra_memo = Some (pc_memo challenge),
                   extra_recent_blockhash = None, extra_last_valid_block_height = None\<rparr>\<rparr>
           in (Inr (requirements, challenge), m)))"

definition pg_get_valid :: "string \<Rightarrow> i64 \<Rightarrow> challenge_table \<Rightarrow> (PaymentError + PaymentChallenge) \<times> challenge_table" where
  "pg_get_valid memo now m =
     (if CHR 0x00 \<in> set memo then (Inl (PaymentInternal ''invalid byte sequence''), m)
      else case map_of m memo of
        None \<Rightarrow> (Inl InvalidChallenge, m)
      | Some row \<Rightarrow>
          (if pc_expires_at row <s now then (Inl ChallengeExpired, filter (\<lambda>(k, _). k \<noteq> memo) m)
           else (Inr row, m)))"

section \<open>Settlements\<close>

record SettlementRow =
  sr_state :: string
  sr_lease_token :: "LeaseToken option"
  sr_lease_expires_at :: "nat option"
  sr_binding :: SettlementBinding
  sr_result_body :: "demo_body option"
  sr_payment_response_header :: "string option"
  sr_failed_at :: "nat option"

type_synonym settlement_table = "string \<rightharpoonup> SettlementRow"

abbreviation (input) LEASE_MS :: nat where "LEASE_MS \<equiv> 30 * 1000"
abbreviation (input) FAIL_RETRY_MS :: nat where "FAIL_RETRY_MS \<equiv> 2 * 1000"
abbreviation (input) MAX_RESULT_JSON :: nat where "MAX_RESULT_JSON \<equiv> 16384"

definition settlement_row_ok :: "string \<Rightarrow> SettlementRow \<Rightarrow> bool" where
  "settlement_row_ok tx row \<longleftrightarrow>
     lower_hex 64 tx \<and> sr_state row \<in> {''settling'', ''settled'', ''failed''} \<and>
     varchar 1 64 (sb_service_id (sr_binding row)) \<and> varchar 1 512 (sb_resource_url (sr_binding row)) \<and>
     lower_hex 64 (sb_input_digest (sr_binding row)) \<and> lower_hex 32 (sb_challenge_memo (sr_binding row)) \<and>
     (case sr_payment_response_header row of None \<Rightarrow> True | Some h \<Rightarrow> varchar 0 8192 h) \<and>
     (sr_state row \<noteq> ''settled'' \<or> sr_result_body row \<noteq> None \<and> sr_payment_response_header row \<noteq> None)"

definition validate_digest :: "string \<Rightarrow> PaymentError + unit" where
  "validate_digest tx =
     ensure (\<not> (length tx \<noteq> 64 \<or> \<not> list_all is_ascii_hexdigit tx)) (PaymentInternal ''invalid tx digest'')"

definition validate_binding :: "SettlementBinding \<Rightarrow> PaymentError + unit" where
  "validate_binding binding =
     tryE (ensure (\<not> (length (sb_input_digest binding) \<noteq> 64 \<or> \<not> list_all is_ascii_hexdigit (sb_input_digest binding)))
       (PaymentInternal ''invalid input digest'')) (\<lambda>_.
     ensure (\<not> (length (sb_challenge_memo binding) \<noteq> 32 \<or> \<not> list_all is_ascii_hexdigit (sb_challenge_memo binding)))
       (PaymentInternal ''invalid challenge memo''))"

text \<open>\<open>begin\<close> on a row that is locked: the answer, and the row if it is written.\<close>

definition begin_existing ::
    "nat \<Rightarrow> LeaseToken \<Rightarrow> SettlementBinding \<Rightarrow> SettlementRow \<Rightarrow> PaymentError + BeginOutcome \<times> SettlementRow option" where
  "begin_existing now lease binding row =
     tryE (ensure (\<not> sr_binding row \<noteq> binding) BindingMismatch) (\<lambda>_.
     let prior = sr_state row
     in if prior = ''settled''
        then tryE (ok_or (sr_result_body row) (PaymentInternal ''missing body'')) (\<lambda>body.
             tryE (ok_or (sr_payment_response_header row) (PaymentInternal ''missing header'')) (\<lambda>header.
             Inr (Cached \<lparr>paid_body = body, paid_payment_response_header = header\<rparr>, None)))
        else
          tryE (if prior = ''settling''
                then (let expired = (case sr_lease_expires_at row of Some t \<Rightarrow> t < now | None \<Rightarrow> True)
                      in ensure (\<not> \<not> expired) SettlementInProgress)
                else if prior = ''failed''
                then (let ready = (case sr_failed_at row of Some t \<Rightarrow> t + FAIL_RETRY_MS \<le> now | None \<Rightarrow> True)
                      in ensure (\<not> \<not> ready) SettlementInProgress)
                else Inl (PaymentInternal ''bad settlement state'')) (\<lambda>_.
          Inr (if prior = ''settling'' then RecoveredStale lease else Acquired lease,
               Some (row\<lparr>sr_state := ''settling'', sr_lease_token := Some lease,
                 sr_lease_expires_at := Some (now + LEASE_MS), sr_failed_at := None, sr_binding := binding\<rparr>))))"

definition new_settlement :: "nat \<Rightarrow> LeaseToken \<Rightarrow> SettlementBinding \<Rightarrow> SettlementRow" where
  "new_settlement now lease binding =
     \<lparr>sr_state = ''settling'', sr_lease_token = Some lease, sr_lease_expires_at = Some (now + LEASE_MS),
      sr_binding = binding, sr_result_body = None, sr_payment_response_header = None, sr_failed_at = None\<rparr>"

fun pg_begin ::
    "((settlement_table \<Rightarrow> settlement_table) \<times> nat \<times> LeaseToken) list \<Rightarrow> nat \<Rightarrow> LeaseToken \<Rightarrow> string \<Rightarrow> SettlementBinding \<Rightarrow>
       settlement_table \<Rightarrow> (PaymentError + BeginOutcome) \<times> settlement_table" where
  "pg_begin races now lease tx binding s =
     (case tryE (validate_digest tx) (\<lambda>_. validate_binding binding) of
        Inl e \<Rightarrow> (Inl e, s)
      | Inr _ \<Rightarrow>
          (case s tx of
             Some row \<Rightarrow>
               (case begin_existing now lease binding row of
                  Inl e \<Rightarrow> (Inl e, s)
                | Inr (outcome, None) \<Rightarrow> (Inr outcome, s)
                | Inr (outcome, Some row') \<Rightarrow>
                    (case sql_check ''x402_settlements'' (settlement_row_ok tx row') of
                       Inl e \<Rightarrow> (Inl e, s)
                     | Inr _ \<Rightarrow> (Inr outcome, s(tx \<mapsto> row'))))
           | None \<Rightarrow>
               (let row = new_settlement now lease binding;
                    s = (case races of [] \<Rightarrow> s | (other, _) # _ \<Rightarrow> other s)
                in case sql_check ''x402_settlements'' (settlement_row_ok tx row) of
                     Inl e \<Rightarrow> (Inl e, s)
                   | Inr _ \<Rightarrow>
                       (case s tx of
                          None \<Rightarrow> (Inr (Acquired lease), s(tx \<mapsto> row))
                        | Some _ \<Rightarrow>
                            (case races of
                               [] \<Rightarrow> (Inr (Acquired lease), s)
                             | (_, now', lease') # races \<Rightarrow> pg_begin races now' lease' tx binding s)))))"

declare pg_begin.simps [simp del]

definition settling_for :: "SettlementBinding \<Rightarrow> LeaseToken \<Rightarrow> SettlementRow \<Rightarrow> bool" where
  "settling_for binding lease row \<longleftrightarrow>
     sr_state row = ''settling'' \<and> sr_lease_token row = Some lease \<and> sr_binding row = binding"

definition pg_complete ::
    "pg_lib \<Rightarrow> nat \<Rightarrow> string \<Rightarrow> SettlementBinding \<Rightarrow> LeaseToken \<Rightarrow> PaidDemoResult \<Rightarrow> settlement_table \<Rightarrow>
       (PaymentError + unit) \<times> settlement_table" where
  "pg_complete lib now tx binding lease result s =
     (case tryE (ok_or (pg_json lib (paid_body result)) InvalidJson) (\<lambda>body_str.
           tryE (ensure (\<not> (length body_str > MAX_RESULT_JSON \<or> length (paid_payment_response_header result) > 8192))
             (PaymentInternal ''result too large'')) (\<lambda>_.
           tryE (sql_check ''jsonb'' (pg_jsonb_ok lib (paid_body result))) (\<lambda>_.
           tryE (sql_check ''text'' (CHR 0x00 \<notin> set (paid_payment_response_header result))) (\<lambda>_.
           case s tx of
             Some row \<Rightarrow>
               (if settling_for binding lease row
                then (let row = row\<lparr>sr_state := ''settled'', sr_result_body := Some (paid_body result),
                            sr_payment_response_header := Some (paid_payment_response_header result),
                            sr_lease_token := None, sr_lease_expires_at := None\<rparr>
                      in tryE (sql_check ''x402_settlements'' (settlement_row_ok tx row)) (\<lambda>_.
                         Inr (s(tx \<mapsto> row))))
                else Inl LeaseMismatch)
           | None \<Rightarrow> Inl LeaseMismatch)))) of
        Inl e \<Rightarrow> (Inl e, s)
      | Inr s \<Rightarrow> (Inr (), s))"

definition pg_fail ::
    "pg_lib \<Rightarrow> nat \<Rightarrow> string \<Rightarrow> SettlementBinding \<Rightarrow> LeaseToken \<Rightarrow> settlement_table \<Rightarrow>
       (PaymentError + unit) \<times> settlement_table" where
  "pg_fail lib now tx binding lease s =
     (case s tx of
        Some row \<Rightarrow>
          (if settling_for binding lease row
           then (let row = row\<lparr>sr_state := ''failed'', sr_failed_at := Some (pg_clock lib now), sr_lease_token := None,
                       sr_lease_expires_at := None\<rparr>
                 in case sql_check ''x402_settlements'' (settlement_row_ok tx row) of
                      Inl e \<Rightarrow> (Inl e, s)
                    | Inr _ \<Rightarrow> (Inr (), s(tx \<mapsto> row)))
           else (Inl LeaseMismatch, s))
      | None \<Rightarrow> (Inl LeaseMismatch, s))"

section \<open>The challenges keep their contract\<close>

definition challenge_rows_ok :: "challenge_table \<Rightarrow> bool" where
  "challenge_rows_ok m \<longleftrightarrow>
     distinct (map fst m) \<and> (\<forall>(memo, row) \<in> set m. pc_memo row = memo \<and> challenge_row_ok row)"

lemma sql_check_eq_Inr [result_inv]: "sql_check name c = Inr u \<longleftrightarrow> c"
  by (simp add: sql_check_def result_inv)

lemma delete_limited_eq:
  "delete_limited P n rows = (k, rest) \<Longrightarrow>
     length rows = k + length rest \<and> k \<le> n \<and> subseq rest rows \<and> (\<forall>row \<in> set rows. \<not> P row \<longrightarrow> row \<in> set rest) \<and>
     (k < n \<longrightarrow> (\<forall>row \<in> set rest. \<not> P row))"
proof (induction P n rows arbitrary: k rest rule: delete_limited.induct)
  case (3 P n row rows)
  show ?case
  proof (cases "P row")
    case True
    obtain k' rest' where r: "delete_limited P n rows = (k', rest')" by fastforce
    with True 3(1) [OF True r] 3(3) show ?thesis by auto
  next
    case False
    obtain k' rest' where r: "delete_limited P (Suc n) rows = (k', rest')" by fastforce
    with False 3(2) [OF False r] 3(3) show ?thesis by auto
  qed
qed auto

lemma subseq_keys: "subseq xs ys \<Longrightarrow> set xs \<subseteq> set ys"
  by (induction rule: list_emb.induct) auto

lemma subseq_distinct_keys: "subseq xs ys \<Longrightarrow> distinct ys \<Longrightarrow> distinct xs"
  by (induction rule: list_emb.induct) (auto dest: subseq_keys)

lemma subseq_challenge_rows_ok: "challenge_rows_ok m \<Longrightarrow> subseq m' m \<Longrightarrow> challenge_rows_ok m'"
  unfolding challenge_rows_ok_def using subseq_distinct_keys [OF subseq_map, of m' m fst]
  by (fastforce dest: subseq_keys)

lemma purge_challenge_rows_ok:
  "challenge_rows_ok m \<Longrightarrow> purge_expired lib now limit m = Inr (k, m') \<Longrightarrow> challenge_rows_ok m'"
  using delete_limited_eq subseq_challenge_rows_ok by (fastforce simp: purge_expired_def result_inv)

lemma purge_keeps_live:
  "purge_expired lib now limit m = Inr (k, m') \<Longrightarrow> e \<in> set m \<Longrightarrow> now \<le>s pc_expires_at (snd e) \<Longrightarrow> e \<in> set m'"
  using delete_limited_eq [of "\<lambda>(_, row). pc_expires_at row <s now" "nat (sint limit)" m k m']
  by (cases e) (auto simp: purge_expired_def result_inv signed.not_less)

lemma lower_hex_text: "lower_hex n s \<Longrightarrow> CHR 0x00 \<notin> set s"
  by (auto simp: lower_hex_def list_all_iff is_lower_hex_def Let_def)

lemma challenges_map_of: "challenge_rows_ok m \<Longrightarrow> map_of m memo = Some row \<longleftrightarrow> (memo, row) \<in> set m"
  by (simp add: challenge_rows_ok_def)

lemma pg_issue_eq_Inr:
  assumes "pg_issue lib cfg res digest t rng m = (Inr (req, ch), m')"
  shows "req = requirements_of ch \<and> pc_input_digest ch = digest \<and> challenge_row_ok ch \<and> pc_memo ch \<notin> set (map fst m) \<and>
    pc_issued_at ch = t \<and> sint (pc_expires_at ch) = sint t + sint (pc_max_timeout_seconds ch) \<and>
    (m' = m @ [(pc_memo ch, ch)] \<or> (\<exists>k. purge_expired lib t 64 (m @ [(pc_memo ch, ch)]) = Inr (k, m')))"
  using assms by (auto simp: pg_issue_def result_inv Let_def requirements_of_def image_iff split: sum.splits prod.splits)

lemma pg_issue_eq_Inl: "pg_issue lib cfg res digest t rng m = (Inl e, m') \<Longrightarrow> m' = m"
  by (auto simp: pg_issue_def Let_def split: sum.splits prod.splits)

interpretation pg_challenges: challenge_contract challenge_rows_ok "pg_issue lib" pg_get_valid map_of for lib
proof unfold_locales
  fix cfg res digest t rng req ch memo now and s s' :: challenge_table
  assume ok: "challenge_rows_ok s"
  show issued_ok: "challenge_rows_ok (snd (pg_issue lib cfg res digest t rng s))"
  proof (cases "pg_issue lib cfg res digest t rng s")
    case (Pair r s')
    show ?thesis
    proof (cases r)
      case (Inr x)
      obtain req ch where x: "x = (req, ch)" by (cases x)
      note issue = pg_issue_eq_Inr [OF Pair [unfolded Inr x]]
      have "challenge_rows_ok (s @ [(pc_memo ch, ch)])" using ok issue by (auto simp: challenge_rows_ok_def)
      with issue Pair show ?thesis using purge_challenge_rows_ok by auto
    next
      case (Inl e)
      with ok Pair show ?thesis using pg_issue_eq_Inl by fastforce
    qed
  qed
  show "challenge_rows_ok (snd (pg_get_valid memo now s))"
    using ok by (auto simp: pg_get_valid_def challenge_rows_ok_def distinct_map_filter split: option.splits)
  show "req = requirements_of ch \<and> map_of s' (pc_memo ch) = Some ch \<and> pc_input_digest ch = digest"
    if run: "pg_issue lib cfg res digest t rng s = (Inr (req, ch), s')"
  proof -
    note issue = pg_issue_eq_Inr [OF run]
    then have "t \<le>s pc_expires_at ch"
      by (auto simp: challenge_row_ok_def word_sle_eq word_sless_alt)
    then have "(pc_memo ch, ch) \<in> set s'" using issue purge_keeps_live [of lib t 64 _ _ s' "(pc_memo ch, ch)"] by auto
    with issue issued_ok run show ?thesis by (simp add: challenges_map_of)
  qed
  show "fst (pg_get_valid memo now s) = Inr ch \<longleftrightarrow> map_of s memo = Some ch \<and> now \<le>s pc_expires_at ch"
  proof -
    have "CHR 0x00 \<notin> set memo" if "map_of s memo = Some row" for row
      using ok map_of_SomeD [OF that] lower_hex_text [of 32 memo] by (fastforce simp: challenge_rows_ok_def challenge_row_ok_def)
    then show ?thesis by (auto simp: pg_get_valid_def signed.not_less signed.not_le split: option.splits if_splits)
  qed
qed

section \<open>The settlements keep their contract\<close>

definition settlements_ok :: "settlement_table \<Rightarrow> bool" where
  "settlements_ok s \<longleftrightarrow> (\<forall>tx row. s tx = Some row \<longrightarrow> settlement_row_ok tx row)"

definition pg_lease :: "settlement_table \<Rightarrow> string \<Rightarrow> (SettlementBinding \<times> LeaseToken) option" where
  "pg_lease s tx =
     (case s tx of
        None \<Rightarrow> None
      | Some row \<Rightarrow> if sr_state row = ''settling'' then map_option (Pair (sr_binding row)) (sr_lease_token row) else None)"

definition pg_result :: "settlement_table \<Rightarrow> string \<Rightarrow> (SettlementBinding \<times> PaidDemoResult) option" where
  "pg_result s tx =
     (case s tx of
        None \<Rightarrow> None
      | Some row \<Rightarrow>
          if sr_state row = ''settled''
          then (case (sr_result_body row, sr_payment_response_header row) of
                  (Some body, Some header) \<Rightarrow>
                    Some (sr_binding row, \<lparr>paid_body = body, paid_payment_response_header = header\<rparr>)
                | _ \<Rightarrow> None)
          else None)"

text \<open>The results the store takes.\<close>

definition pg_fits :: "pg_lib \<Rightarrow> PaidDemoResult \<Rightarrow> bool" where
  "pg_fits lib r \<longleftrightarrow>
     (case pg_json lib (paid_body r) of None \<Rightarrow> False | Some json \<Rightarrow> length json \<le> MAX_RESULT_JSON) \<and>
     pg_jsonb_ok lib (paid_body r) \<and> CHR 0x00 \<notin> set (paid_payment_response_header r) \<and>
     length (paid_payment_response_header r) \<le> 8192"

definition pg_holds :: "settlement_table \<Rightarrow> string \<Rightarrow> SettlementBinding \<Rightarrow> LeaseToken \<Rightarrow> nat \<Rightarrow> bool" where
  "pg_holds s tx b l t0 \<longleftrightarrow>
     settlements_ok s \<and>
     (\<exists>row. s tx = Some row \<and> settling_for b l row \<and> sr_lease_expires_at row = Some (t0 + LEASE_MS))"

lemma char_length_le: "char_length s \<le> length s"
  by (simp add: char_length_def)

lemma settlements_ok_update [intro]: "settlements_ok s \<Longrightarrow> settlement_row_ok tx row \<Longrightarrow> settlements_ok (s(tx \<mapsto> row))"
  by (simp add: settlements_ok_def)

lemma lower_hex_digits: "lower_hex n s \<Longrightarrow> length s = n \<and> list_all is_ascii_hexdigit s"
  by (auto simp: lower_hex_def list_all_iff is_lower_hex_def is_ascii_hexdigit_def Let_def)

lemma row_ok_validates:
  "settlement_row_ok tx row \<Longrightarrow> validate_digest tx = Inr () \<and> validate_binding (sr_binding row) = Inr ()"
  by (auto simp: settlement_row_ok_def validate_digest_def validate_binding_def result_inv dest: lower_hex_digits)

lemma begin_existing_eq_Inr:
  "begin_existing now lease b row = Inr (outcome, written) \<longleftrightarrow>
     sr_binding row = b \<and>
     (sr_state row = ''settled'' \<and> written = None \<and>
        (\<exists>body header. sr_result_body row = Some body \<and> sr_payment_response_header row = Some header \<and>
           outcome = Cached \<lparr>paid_body = body, paid_payment_response_header = header\<rparr>) \<or>
      (sr_state row = ''settling'' \<and> (\<forall>t. sr_lease_expires_at row = Some t \<longrightarrow> t < now) \<and> outcome = RecoveredStale lease \<or>
       sr_state row = ''failed'' \<and> (\<forall>t. sr_failed_at row = Some t \<longrightarrow> t + FAIL_RETRY_MS \<le> now) \<and> outcome = Acquired lease) \<and>
      written = Some (row\<lparr>sr_state := ''settling'', sr_lease_token := Some lease,
        sr_lease_expires_at := Some (now + LEASE_MS), sr_failed_at := None, sr_binding := b\<rparr>))"
  by (auto simp: begin_existing_def result_inv Let_def split: option.splits if_splits)

text \<open>The three ways through \<open>begin\<close> when the row exists, or nobody comes between.\<close>

lemma pg_begin_invalid:
  "tryE (validate_digest tx) (\<lambda>_. validate_binding b) = Inl e \<Longrightarrow> pg_begin races now lease tx b s = (Inl e, s)"
  by (subst pg_begin.simps) simp

lemma pg_begin_existing:
  "tryE (validate_digest tx) (\<lambda>_. validate_binding b) = Inr u \<Longrightarrow> s tx = Some row \<Longrightarrow>
   pg_begin races now lease tx b s =
     (case begin_existing now lease b row of
        Inl e \<Rightarrow> (Inl e, s)
      | Inr (outcome, None) \<Rightarrow> (Inr outcome, s)
      | Inr (outcome, Some row') \<Rightarrow>
          (case sql_check ''x402_settlements'' (settlement_row_ok tx row') of
             Inl e \<Rightarrow> (Inl e, s)
           | Inr _ \<Rightarrow> (Inr outcome, s(tx \<mapsto> row'))))"
  by (subst pg_begin.simps) simp

lemma pg_begin_new:
  "tryE (validate_digest tx) (\<lambda>_. validate_binding b) = Inr u \<Longrightarrow> s tx = None \<Longrightarrow>
   pg_begin [] now lease tx b s =
     (case sql_check ''x402_settlements'' (settlement_row_ok tx (new_settlement now lease b)) of
        Inl e \<Rightarrow> (Inl e, s)
      | Inr _ \<Rightarrow> (Inr (Acquired lease), s(tx \<mapsto> new_settlement now lease b)))"
  by (subst pg_begin.simps) (simp split: sum.splits)

text \<open>What \<open>begin\<close> does when nobody comes between.\<close>

lemma pg_begin_cases:
  assumes "pg_begin [] now lease tx b s = (r, s')"
  obtains (refused) e where "r = Inl e" "s' = s"
  | (cached) row body header where "s tx = Some row" "sr_binding row = b" "sr_state row = ''settled''"
      "sr_result_body row = Some body" "sr_payment_response_header row = Some header"
      "r = Inr (Cached \<lparr>paid_body = body, paid_payment_response_header = header\<rparr>)" "s' = s"
  | (leased) row outcome where "r = Inr outcome" "outcome_lease outcome = Some lease" "s' = s(tx \<mapsto> row)"
      "settlement_row_ok tx row" "settling_for b lease row" "sr_lease_expires_at row = Some (now + LEASE_MS)"
      "\<And>old. s tx = Some old \<Longrightarrow> sr_state old \<noteq> ''settled'' \<and> sr_binding old = b"
proof (cases "tryE (validate_digest tx) (\<lambda>_. validate_binding b)")
  case (Inl e)
  with assms refused show ?thesis by (auto simp: pg_begin_invalid)
next
  case valid: (Inr u)
  show ?thesis
  proof (cases "s tx")
    case None
    let ?row = "new_settlement now lease b"
    show ?thesis
    proof (cases "settlement_row_ok tx ?row")
      case True
      with assms None have out: "r = Inr (Acquired lease)" "s' = s(tx \<mapsto> ?row)"
        by (simp_all add: pg_begin_new [OF valid] sql_check_def ensure_def)
      show ?thesis
        by (rule leased [OF out(1) _ out(2) True]) (simp_all add: new_settlement_def settling_for_def None)
    next
      case False
      with assms None show ?thesis by (intro refused) (auto simp: pg_begin_new [OF valid] sql_check_def ensure_def)
    qed
  next
    case (Some row)
    note run = assms [unfolded pg_begin_existing [where s = s, OF valid Some]]
    show ?thesis
    proof (cases "begin_existing now lease b row")
      case (Inl e)
      with run refused show ?thesis by auto
    next
      case (Inr x)
      obtain outcome written where x: "x = (outcome, written)" by (cases x)
      note existing = Inr [unfolded x begin_existing_eq_Inr]
      show ?thesis
      proof (cases written)
        case None
        with existing obtain body header where row: "sr_binding row = b" "sr_state row = ''settled''"
            "sr_result_body row = Some body" "sr_payment_response_header row = Some header"
            "outcome = Cached \<lparr>paid_body = body, paid_payment_response_header = header\<rparr>" by blast
        with run None Inr x show ?thesis by (intro cached [OF Some row(1-4)]) auto
      next
        case w: (Some row')
        with existing have row: "sr_binding row = b" "sr_state row \<noteq> ''settled''" "outcome_lease outcome = Some lease"
            "settling_for b lease row'" "sr_lease_expires_at row' = Some (now + LEASE_MS)"
          by (auto simp: settling_for_def)
        show ?thesis
        proof (cases "settlement_row_ok tx row'")
          case True
          with run w Inr x have out: "r = Inr outcome" "s' = s(tx \<mapsto> row')" by (auto simp: sql_check_def ensure_def)
          show ?thesis by (rule leased [OF out(1) row(3) out(2) True row(4,5)]) (use row Some in auto)
        next
          case False
          with run w Inr x show ?thesis by (intro refused) (auto simp: sql_check_def ensure_def)
        qed
      qed
    qed
  qed
qed

lemma pg_begin_ok:
  assumes "settlements_ok s"
  shows "settlements_ok (snd (pg_begin [] now lease tx b s))"
proof (cases "pg_begin [] now lease tx b s")
  case (Pair r s')
  from this assms have "settlements_ok s'" by (cases rule: pg_begin_cases) auto
  with Pair show ?thesis by simp
qed

lemma complete_row_ok:
  "settlement_row_ok tx row \<Longrightarrow> CHR 0x00 \<notin> set h \<Longrightarrow> length h \<le> 8192 \<Longrightarrow>
   settlement_row_ok tx (row\<lparr>sr_state := ''settled'', sr_result_body := Some body, sr_payment_response_header := Some h,
     sr_lease_token := None, sr_lease_expires_at := None\<rparr>)"
  using char_length_le [of h] by (auto simp: settlement_row_ok_def varchar_def)

lemma fail_row_ok:
  "settlement_row_ok tx row \<Longrightarrow> settlement_row_ok tx (row\<lparr>sr_state := ''failed'', sr_failed_at := t, sr_lease_token := None,
     sr_lease_expires_at := None\<rparr>)"
  by (auto simp: settlement_row_ok_def)

lemma pg_complete_eq:
  "settlements_ok s \<Longrightarrow> pg_complete lib now tx b l r s =
     (if pg_fits lib r \<and> pg_lease s tx = Some (b, l)
      then (Inr (), s(tx \<mapsto> (the (s tx))\<lparr>sr_state := ''settled'', sr_result_body := Some (paid_body r),
              sr_payment_response_header := Some (paid_payment_response_header r),
              sr_lease_token := None, sr_lease_expires_at := None\<rparr>))
      else (Inl (projl (fst (pg_complete lib now tx b l r s))), s))"
  using complete_row_ok [of tx "the (s tx)" "paid_payment_response_header r" "paid_body r"]
  by (auto simp: pg_complete_def pg_fits_def pg_lease_def settling_for_def settlements_ok_def sql_check_def ensure_def
      ok_or_def Let_def split: option.splits sum.splits if_splits)

lemma pg_fail_eq:
  "settlements_ok s \<Longrightarrow> pg_fail lib now tx b l s =
     (if pg_lease s tx = Some (b, l)
      then (Inr (), s(tx \<mapsto> (the (s tx))\<lparr>sr_state := ''failed'', sr_failed_at := Some (pg_clock lib now),
              sr_lease_token := None, sr_lease_expires_at := None\<rparr>))
      else (Inl LeaseMismatch, s))"
  using fail_row_ok [of tx "the (s tx)" "Some (pg_clock lib now)"]
  by (auto simp: pg_fail_def pg_lease_def settling_for_def settlements_ok_def sql_check_def ensure_def
      Let_def split: option.splits sum.splits)

lemma pg_begin_while_held:
  assumes "pg_holds s tx b l t0" "t \<le> t0 + LEASE_TTL"
  shows "pg_begin races t fresh tx b' s =
    (Inl (case validate_binding b' of Inl e \<Rightarrow> e | Inr _ \<Rightarrow> if b' = b then SettlementInProgress else BindingMismatch), s)"
proof -
  obtain row where row: "s tx = Some row" "settling_for b l row" "sr_lease_expires_at row = Some (t0 + LEASE_MS)"
      "settlement_row_ok tx row"
    using assms(1) by (auto simp: pg_holds_def settlements_ok_def)
  then have digest: "validate_digest tx = Inr ()" using row_ok_validates by blast
  show ?thesis
  proof (cases "validate_binding b'")
    case (Inl e)
    then show ?thesis by (simp add: pg_begin_invalid digest)
  next
    case (Inr u)
    with row assms(2) show ?thesis
      by (subst pg_begin_existing [where u = u and row = row])
        (auto simp: digest begin_existing_def ensure_def settling_for_def)
  qed
qed

lemma pg_holds_update: "pg_holds s tx b l t0 \<Longrightarrow> tx' \<noteq> tx \<Longrightarrow> settlement_row_ok tx' row \<Longrightarrow> pg_holds (s(tx' \<mapsto> row)) tx b l t0"
  by (auto simp: pg_holds_def)

lemma pg_holds_lease: "pg_holds s tx b l t0 \<Longrightarrow> settlements_ok s \<and> pg_lease s tx = Some (b, l)"
  by (auto simp: pg_holds_def pg_lease_def settling_for_def)

abbreviation pg_ops :: "pg_lib \<Rightarrow> settlement_table settlement_ops" where
  "pg_ops lib \<equiv> \<lparr>op_begin = pg_begin [], op_complete = pg_complete lib, op_fail = pg_fail lib\<rparr>"

interpretation pg_store: leasing_store settlements_ok "pg_fits lib" "pg_begin []" "pg_complete lib" "pg_fail lib"
  pg_lease pg_result pg_holds for lib
proof unfold_locales
  fix now l tx b r out l' and s s' :: settlement_table
  assume ok: "settlements_ok s"
  show "settlements_ok (snd (pg_begin [] now l tx b s))" by (rule pg_begin_ok [OF ok])
  show "settlements_ok (snd (pg_complete lib now tx b l r s))"
    using ok by (subst pg_complete_eq [OF ok])
      (auto simp: pg_fits_def pg_lease_def settlements_ok_def intro!: complete_row_ok split: option.splits if_splits)
  show "settlements_ok (snd (pg_fail lib now tx b l s))"
    using ok by (auto simp: pg_fail_eq pg_lease_def settlements_ok_def intro!: fail_row_ok split: option.splits if_splits)
  show "pg_result s tx = Some (b, r) \<and> pg_result s' tx = Some (b, r)" if "pg_begin [] now l tx b s = (Inr (Cached r), s')"
    using that by (cases rule: pg_begin_cases) (auto simp: pg_result_def)
  show "l' = l \<and> pg_lease s' tx = Some (b, l)"
    if "pg_begin [] now l tx b s = (Inr out, s')" "outcome_lease out = Some l'"
    using that(1) that(2) by (cases rule: pg_begin_cases) (auto simp: pg_lease_def settling_for_def)
  show "fst (pg_complete lib now tx b l r s) = Inr () \<and> pg_result (snd (pg_complete lib now tx b l r s)) tx = Some (b, r)"
    if "pg_lease s tx = Some (b, l)" "pg_fits lib r"
    using that by (subst (1 2) pg_complete_eq [OF ok])
      (auto simp: pg_result_def pg_lease_def split: option.splits if_splits)
  show "(\<exists>e. fst (pg_complete lib now tx b l r s) = Inl e) \<and> snd (pg_complete lib now tx b l r s) = s"
    if "pg_lease s tx \<noteq> Some (b, l) \<or> \<not> pg_fits lib r"
    using that by (subst (1 2) pg_complete_eq [OF ok]) auto
  show "pg_lease (snd (pg_fail lib now tx b l s)) tx = None \<and> pg_result (snd (pg_fail lib now tx b l s)) tx = None"
    if "pg_lease s tx = Some (b, l)"
    using that by (simp add: pg_fail_eq [OF ok]) (simp add: pg_lease_def pg_result_def)
  show "snd (pg_fail lib now tx b l s) = s" if "pg_lease s tx \<noteq> Some (b, l)"
    using that by (simp add: pg_fail_eq [OF ok])
next
  fix s tx b l t0
  assume "pg_holds s tx b l t0"
  then show "settlements_ok s \<and> pg_lease s tx = Some (b, l)" by (rule pg_holds_lease)
next
  fix s :: settlement_table and t0 fresh tx b out s' l
  assume ok: "settlements_ok s" and run: "pg_begin [] t0 fresh tx b s = (Inr out, s')" and l: "outcome_lease out = Some l"
  from run l show "pg_holds s' tx b l t0"
    by (cases rule: pg_begin_cases) (use ok in \<open>auto simp: pg_holds_def\<close>)
next
  fix s tx b l t0 t fresh b'
  assume held: "pg_holds s tx b l t0" and t: "t \<le> t0 + LEASE_TTL"
  have "validate_binding b = Inr ()"
    using held row_ok_validates by (auto simp: pg_holds_def settlements_ok_def settling_for_def)
  with pg_begin_while_held [OF held t]
  show "\<exists>e. fst (pg_begin [] t fresh tx b' s) = Inl e \<and> (b' = b \<longrightarrow> e = SettlementInProgress)" by auto
next
  fix s tx b l t0 t fresh tx' b'
  assume held: "pg_holds s tx b l t0" and t: "t \<le> t0 + LEASE_TTL"
  show "pg_holds (snd (pg_begin [] t fresh tx' b' s)) tx b l t0"
  proof (cases "tx' = tx")
    case True
    with held show ?thesis by (simp add: pg_begin_while_held [OF held t])
  next
    case False
    show ?thesis
    proof (cases "pg_begin [] t fresh tx' b' s")
      case (Pair r s')
      then have "pg_holds s' tx b l t0"
        by (cases rule: pg_begin_cases) (use held False in \<open>auto intro: pg_holds_update\<close>)
      with Pair show ?thesis by simp
    qed
  qed
next
  fix s tx b l t0 tx' b' l' t r
  assume held: "pg_holds s tx b l t0" and other: "\<not> (tx' = tx \<and> b' = b \<and> l' = l)"
  note lease = pg_holds_lease [OF held]
  have row: "settlement_row_ok tx' (the (s tx'))" if "pg_lease s tx' = Some (b', l')"
    using that lease by (auto simp: pg_lease_def settlements_ok_def split: option.splits)
  show "pg_holds (snd (pg_complete lib t tx' b' l' r s)) tx b l t0"
    by (subst pg_complete_eq) (use lease held other row in \<open>auto intro!: pg_holds_update complete_row_ok simp: pg_fits_def\<close>)
  show "pg_holds (snd (pg_fail lib t tx' b' l' s)) tx b l t0"
    by (subst pg_fail_eq) (use lease held other row in \<open>auto intro!: pg_holds_update fail_row_ok\<close>)
qed

interpretation pg_service: paid_service settlements_ok "pg_fits lib" "pg_begin []" "pg_complete lib" "pg_fail lib"
  pg_lease pg_result pg_holds challenge_rows_ok "pg_issue lib" pg_get_valid map_of for lib
  by unfold_locales

abbreviation pg_challenge_ops :: "pg_lib \<Rightarrow> challenge_table challenge_ops" where
  "pg_challenge_ops lib \<equiv> \<lparr>op_issue = pg_issue lib, op_get_valid = pg_get_valid\<rparr>"

section \<open>Nothing recorded is lost\<close>

text \<open>No operation deletes a row, and none changes a settled one.\<close>

lemma pg_begin_keeps:
  assumes "pg_begin [] t l tx' b s = (r, s')"
  shows "s tx \<noteq> None \<Longrightarrow> s' tx \<noteq> None" "pg_result s tx = Some x \<Longrightarrow> pg_result s' tx = Some x"
  using assms by (cases rule: pg_begin_cases; auto simp: pg_result_def split: option.splits if_splits)+

lemma pg_op_keeps:
  assumes "settlements_ok s"
  shows "s tx \<noteq> None \<Longrightarrow> apply_op (pg_ops lib) (t, c) s tx \<noteq> None"
    and "pg_result s tx = Some x \<Longrightarrow> pg_result (apply_op (pg_ops lib) (t, c) s) tx = Some x"
proof -
  have "(s tx \<noteq> None \<longrightarrow> apply_op (pg_ops lib) (t, c) s tx \<noteq> None) \<and>
    (pg_result s tx = Some x \<longrightarrow> pg_result (apply_op (pg_ops lib) (t, c) s) tx = Some x)"
  proof (cases c)
    case (BeginOp l tx' b)
    then show ?thesis using pg_begin_keeps [of t l tx' b s] by (cases "pg_begin [] t l tx' b s") auto
  next
    case (CompleteOp tx' b l r)
    have "pg_lease s tx' = Some (b, l) \<Longrightarrow> s tx' \<noteq> None \<and> pg_result s tx' = None"
      by (auto simp: pg_lease_def pg_result_def split: option.splits)
    then have "(s tx \<noteq> None \<longrightarrow> snd (pg_complete lib t tx' b l r s) tx \<noteq> None) \<and>
      (pg_result s tx = Some x \<longrightarrow> pg_result (snd (pg_complete lib t tx' b l r s)) tx = Some x)"
      by (subst (1 2) pg_complete_eq [OF assms]) (auto simp: pg_result_def)
    then show ?thesis by (simp add: CompleteOp)
  next
    case (FailOp tx' b l)
    have "pg_lease s tx' = Some (b, l) \<Longrightarrow> s tx' \<noteq> None \<and> pg_result s tx' = None"
      by (auto simp: pg_lease_def pg_result_def split: option.splits)
    then have "(s tx \<noteq> None \<longrightarrow> snd (pg_fail lib t tx' b l s) tx \<noteq> None) \<and>
      (pg_result s tx = Some x \<longrightarrow> pg_result (snd (pg_fail lib t tx' b l s)) tx = Some x)"
      by (subst (1 2) pg_fail_eq [OF assms]) (auto simp: pg_result_def)
    then show ?thesis by (simp add: FailOp)
  qed
  then show "s tx \<noteq> None \<Longrightarrow> apply_op (pg_ops lib) (t, c) s tx \<noteq> None"
    and "pg_result s tx = Some x \<Longrightarrow> pg_result (apply_op (pg_ops lib) (t, c) s) tx = Some x" by blast+
qed

lemma pg_run_keeps:
  assumes "settlements_ok s"
  shows "s tx \<noteq> None \<Longrightarrow> run_ops (pg_ops lib) cs s tx \<noteq> None"
    and "pg_result s tx = Some x \<Longrightarrow> pg_result (run_ops (pg_ops lib) cs s) tx = Some x"
  using assms
proof (induction cs arbitrary: s)
  case (Cons c cs)
  {
    case 1
    have "settlements_ok (apply_op (pg_ops lib) c s)" using pg_store.ok_run [where cs = "[c]"] 1 by simp
    then show ?case using Cons.IH(1) [of "apply_op (pg_ops lib) c s"] pg_op_keeps(1) [OF 1(2)] 1(1)
      by (cases c) simp
  next
    case 2
    have "settlements_ok (apply_op (pg_ops lib) c s)" using pg_store.ok_run [where cs = "[c]"] 2 by simp
    then show ?case using Cons.IH(2) [of "apply_op (pg_ops lib) c s"] pg_op_keeps(2) [OF 2(2)] 2(1)
      by (cases c) simp
  }
qed simp_all

lemma pg_begin_settled:
  assumes "settlements_ok s" "pg_result s tx = Some (b, r)"
  shows "pg_begin races t l tx b s = (Inr (Cached r), s)"
    and "b' \<noteq> b \<Longrightarrow> \<exists>e. pg_begin races t l tx b' s = (Inl e, s)"
proof -
  obtain row where row: "s tx = Some row" "settlement_row_ok tx row" "sr_binding row = b" "sr_state row = ''settled''"
      "sr_result_body row = Some (paid_body r)" "sr_payment_response_header row = Some (paid_payment_response_header r)"
    using assms by (auto simp: pg_result_def settlements_ok_def split: option.splits if_splits)
  note valid = row_ok_validates [OF row(2)]
  show "pg_begin races t l tx b s = (Inr (Cached r), s)"
    using valid row by (subst pg_begin_existing [where u = "()" and row = row])
      (simp_all add: begin_existing_def ensure_def ok_or_def)
  show "\<exists>e. pg_begin races t l tx b' s = (Inl e, s)" if "b' \<noteq> b"
  proof (cases "validate_binding b'")
    case (Inl e)
    then show ?thesis by (simp add: pg_begin_invalid valid)
  next
    case (Inr u)
    then show ?thesis using valid row that by (subst pg_begin_existing [where u = "()" and row = row])
      (simp_all add: begin_existing_def ensure_def)
  qed
qed

section \<open>A payment\<close>

definition sample_db :: pg_lib where
  "sample_db = \<lparr>pg_time_ok = (\<lambda>_. True), pg_json = (\<lambda>_. Some []), pg_jsonb_ok = (\<lambda>_. True), pg_clock = (\<lambda>t. t)\<rparr>"

definition db_challenge :: PaymentChallenge where
  "db_challenge = \<lparr>pc_memo = replicate 32 (CHR ''a''), pc_service_id = ''s'', pc_resource_url = ''u'',
     pc_description = ''d'', pc_merchant = replicate 32 (CHR ''p''), pc_asset = replicate 32 (CHR ''q''), pc_amount = ''1'',
     pc_network = ''n'', pc_fee_payer = replicate 32 (CHR ''f''), pc_input_digest = replicate 64 (CHR ''0''),
     pc_issued_at = 100, pc_expires_at = 160, pc_max_timeout_seconds = 60\<rparr>"

definition db_payment :: PaymentPayload where
  "db_payment = \<lparr>payload_x402_version = 2,
     payload_resource = \<lparr>res_url = ''u'', res_description = ''d'', res_mime_type = ''application/json''\<rparr>,
     payload_accepted = requirements_of db_challenge, payload_transaction = ''t'', payload_extensions = []\<rparr>"

definition db_pay_lib :: pay_lib where
  "db_pay_lib = sample_pay_lib\<lparr>lib_sha256 := (\<lambda>_. replicate 32 0), lib_payload_from_json := (\<lambda>_. Some db_payment)\<rparr>"

definition db_cfg :: X402ResourceConfig where
  "db_cfg = \<lparr>cfg_network = ''n'', cfg_asset = replicate 32 (CHR ''q''), cfg_pay_to = replicate 32 (CHR ''p''),
     cfg_fee_payer = replicate 32 (CHR ''f''), cfg_amount = ''1'', cfg_max_timeout_seconds = 60, cfg_resource_url = ''u'',
     cfg_description = ''d'', cfg_service_id = ''s''\<rparr>"

definition db_challenges :: challenge_table where
  "db_challenges = [(pc_memo db_challenge, db_challenge)]"

abbreviation db_key :: string where "db_key \<equiv> replicate 64 (CHR ''0'')"

abbreviation db_binding :: SettlementBinding where
  "db_binding \<equiv> \<lparr>sb_service_id = ''s'', sb_resource_url = ''u'', sb_input_digest = db_key,
     sb_challenge_memo = replicate 32 (CHR ''a'')\<rparr>"

definition db_paid :: PaidDemoResult where
  "db_paid = \<lparr>paid_body = demo_result_body db_pay_lib ''{}'', paid_payment_response_header = ''reply''\<rparr>"

abbreviation db_run ::
    "challenge_table \<Rightarrow> settlement_table \<Rightarrow>
       (PaymentError + string + PaidDemoResult) \<times> challenge_table \<times> settlement_table \<times> fac_call list" where
  "db_run cs ss \<equiv>
     invoke_paid_demo (pg_challenge_ops sample_db) (pg_ops sample_db) db_cfg (sample_facilitator True) db_pay_lib
       (schedule_with (pg_ops sample_db) None 1 0 [] 1000 [] 2000) (Some ''h'') ''{}'' 120 cs ss"

lemma db_challenge_rows_ok: "challenge_rows_ok db_challenges"
proof -
  have "challenge_row_ok db_challenge" by code_simp
  then show ?thesis by (simp add: challenge_rows_ok_def db_challenges_def)
qed

lemma db_issued: "fst (pg_issue sample_db db_cfg (payload_resource db_payment) db_key 100 (Some (replicate 16 0xAA)) []) =
    Inr (requirements_of db_challenge, db_challenge)"
  by code_simp

lemma db_payment_for:
  "payment_for (pg_challenge_ops sample_db) db_pay_lib ''h'' ''{}'' 120 db_challenges db_payment db_challenge ''t''"
proof -
  have "decode_payment_signature_header db_pay_lib ''h'' = Inr db_payment"
    by (simp add: decode_payment_signature_header_def db_pay_lib_def sample_pay_lib_def ensure_def ok_or_def trim_ascii is_space_def byte_string_def)
  moreover have "extra_memo (req_extra (payload_accepted db_payment)) = Some (replicate 32 (CHR ''a''))"
    by code_simp
  moreover have "fst (pg_get_valid (replicate 32 (CHR ''a'')) 120 db_challenges) = Inr db_challenge"
    by code_simp
  moreover have "validate_payment_payload db_pay_lib db_payment (requirements_of db_challenge)
      db_challenge 120 (input_digest db_pay_lib ''{}'') = Inr ''t''"
    by code_simp
  ultimately show ?thesis by (simp add: payment_for_def)
qed

lemma db_key: "tx_digest db_pay_lib t = db_key" "input_digest db_pay_lib t = db_key"
proof -
  have "hex (replicate 32 0) = db_key" by code_simp
  then show "tx_digest db_pay_lib t = db_key" "input_digest db_pay_lib t = db_key"
    by (simp_all add: tx_digest_def input_digest_def db_pay_lib_def)
qed

lemma db_binding: "binding_of db_pay_lib db_cfg ''{}'' db_challenge = db_binding"
  by (simp add: binding_of_def db_key db_cfg_def db_challenge_def)

lemma db_row_ok: "settlement_row_ok db_key (new_settlement t l db_binding)"
proof -
  have "lower_hex 64 db_key" "lower_hex 32 (replicate 32 (CHR ''a''))" "varchar 1 64 ''s''" "varchar 1 512 ''u''"
    by code_simp+
  then show ?thesis by (simp add: settlement_row_ok_def new_settlement_def)
qed

lemma db_begin: "pg_begin [] t l db_key db_binding Map.empty = (Inr (Acquired l), [db_key \<mapsto> new_settlement t l db_binding])"
proof -
  have "validate_digest db_key = Inr ()" "validate_binding db_binding = Inr ()"
    using row_ok_validates [OF db_row_ok] by (simp_all add: new_settlement_def)
  then show ?thesis
    by (subst pg_begin_new [where u = "()"]) (simp_all add: sql_check_def ensure_def db_row_ok)
qed

lemma db_settlements_ok: "settlements_ok Map.empty"
  by (simp add: settlements_ok_def)

lemma db_served: "encode_payment_response_header db_pay_lib s = Inr ''reply''" "pg_fits sample_db db_paid"
  by (simp_all add: encode_payment_response_header_def encode_b64_json_def db_pay_lib_def sample_pay_lib_def
      pg_fits_def sample_db_def db_paid_def ensure_def ok_or_def)

section \<open>Properties\<close>

text \<open>
  C32. \<open>begin\<close> is atomic although it may lose a race. Whatever other requests do to the table between its query that finds
  no row and its insertion, the call has the effect and the answer of an undisturbed call made either before or after
  them, with the clock and the lease of one of its two attempts (or both refuse, and the table is as the others left it).
\<close>

theorem begin_is_atomic:
  assumes "settlements_ok s"
  shows "\<exists>t l'' s2. (t, l'') \<in> {(now, l), (now', l')} \<and> s2 \<in> {s, run_ops (pg_ops lib) ops s} \<and>
    (pg_begin ((run_ops (pg_ops lib) ops, now', l') # races) now l tx b s = pg_begin [] t l'' tx b s2 \<or>
     (\<exists>e e'. pg_begin ((run_ops (pg_ops lib) ops, now', l') # races) now l tx b s = (Inl e, s2) \<and>
        pg_begin [] t l'' tx b s2 = (Inl e', s2)))"
proof (cases "tryE (validate_digest tx) (\<lambda>_. validate_binding b)")
  case (Inl e)
  then show ?thesis by (auto simp: pg_begin_invalid)
next
  case valid: (Inr u)
  let ?s1 = "run_ops (pg_ops lib) ops s" and ?row = "new_settlement now l b"
  show ?thesis
  proof (cases "s tx")
    case (Some row)
    have "pg_begin ((run_ops (pg_ops lib) ops, now', l') # races) now l tx b s = pg_begin [] now l tx b s"
      by (simp only: pg_begin_existing [where s = s, OF valid Some])
    then show ?thesis by blast
  next
    case None
    have run: "pg_begin ((run_ops (pg_ops lib) ops, now', l') # races) now l tx b s =
        (case sql_check ''x402_settlements'' (settlement_row_ok tx ?row) of
           Inl e \<Rightarrow> (Inl e, ?s1)
         | Inr _ \<Rightarrow>
             (case ?s1 tx of
                None \<Rightarrow> (Inr (Acquired l), ?s1(tx \<mapsto> ?row))
              | Some _ \<Rightarrow> pg_begin races now' l' tx b ?s1))"
      by (subst pg_begin.simps) (simp add: valid None Let_def split: sum.split option.split)
    show ?thesis
    proof (cases "?s1 tx")
      case None
      then have "pg_begin ((run_ops (pg_ops lib) ops, now', l') # races) now l tx b s = pg_begin [] now l tx b ?s1"
        by (simp add: run pg_begin_new [OF valid] sql_check_def ensure_def)
      then show ?thesis by blast
    next
      case (Some row)
      show ?thesis
      proof (cases "settlement_row_ok tx ?row")
        case True
        then have "pg_begin ((run_ops (pg_ops lib) ops, now', l') # races) now l tx b s = pg_begin [] now' l' tx b ?s1"
          using run Some by (simp add: sql_check_def ensure_def pg_begin_existing [OF valid])
        then show ?thesis by blast
      next
        case False
        have "settlement_row_ok tx row" using pg_store.ok_run [OF assms, of lib ops] Some by (auto simp: settlements_ok_def)
        with False have "sr_binding row \<noteq> b" by (auto simp: settlement_row_ok_def new_settlement_def)
        then have "pg_begin [] now l tx b ?s1 = (Inl BindingMismatch, ?s1)"
          by (simp add: pg_begin_existing [where s = "run_ops (pg_ops lib) ops s", OF valid Some] begin_existing_def ensure_def)
        moreover have "\<exists>e. pg_begin ((run_ops (pg_ops lib) ops, now', l') # races) now l tx b s = (Inl e, ?s1)"
          using run False by (simp add: sql_check_def ensure_def)
        ultimately show ?thesis by blast
      qed
    qed
  qed
qed

text \<open>
  C29. A settled transaction buys one result. Once a result is recorded under a transaction, then whatever requests do
  afterwards, every later request with a valid payment by this transaction is answered from the table, without a call
  of the facilitator and without a change: with exactly the recorded result if it is for the same service, resource, input and
  challenge, and with an error otherwise.
\<close>

theorem settled_once_for_all:
  assumes "settlements_ok ss" "pg_result ss (tx_digest lib tx) = Some (b, r)"
    and "payment_for (pg_challenge_ops db) lib h input now cs payload ch tx"
  shows "\<exists>cs' answer. invoke_paid_demo (pg_challenge_ops db) (pg_ops db) cfg fac lib sched (Some h) input now cs
      (run_ops (pg_ops db) ops ss) = (answer, cs', run_ops (pg_ops db) ops ss, []) \<and>
    (if binding_of lib cfg input ch = b then answer = Inr (Inr r) else (\<exists>e. answer = Inl e))"
proof -
  let ?ss = "run_ops (pg_ops db) ops ss"
  have ok: "settlements_ok ?ss" by (rule pg_store.ok_run [OF assms(1)])
  have r: "pg_result ?ss (tx_digest lib tx) = Some (b, r)" by (rule pg_run_keeps(2) [OF assms(1,2)])
  show ?thesis
  proof (cases "binding_of lib cfg input ch = b")
    case True
    with invoke_payment [OF assms(3), of "pg_ops db" sched cfg ?ss "Inr (Cached r)" ?ss fac] pg_begin_settled(1) [OF ok r]
    show ?thesis by auto
  next
    case False
    with pg_begin_settled(2) [OF ok r] obtain e where
      "pg_begin [] (sched_begin_at sched) (sched_lease sched) (tx_digest lib tx) (binding_of lib cfg input ch) ?ss = (Inl e, ?ss)"
      by blast
    with invoke_payment [OF assms(3), of "pg_ops db" sched cfg ?ss "Inl e" ?ss fac] False show ?thesis by auto
  qed
qed

text \<open>
  Nothing is served unpaid, from the database. Whenever a request is answered with the paid result, whatever other
  requests did to the table meanwhile: it carried a valid payment for a challenge on record that had not expired, the result is
  recorded under the payment's transaction for this service, resource, input and challenge, and either it had been recorded
  before for the same and nobody was called, or the facilitator has settled this very payment.
\<close>

theorem database_requests_are_settled:
  assumes "settlements_ok ss" "challenge_rows_ok cs"
    and "invoke_paid_demo (pg_challenge_ops db) (pg_ops db) cfg fac lib (schedule_with (pg_ops db) rng lease t0 ops1 t1 ops2 t2)
      header input now cs ss = (Inr (Inr paid), cs', ss', calls)"
  shows "\<exists>h payload ch tx. header = Some h \<and> payment_for (pg_challenge_ops db) lib h input now cs payload ch tx \<and>
    (\<exists>memo. map_of cs memo = Some ch) \<and> now \<le>s pc_expires_at ch \<and>
    pg_result ss' (tx_digest lib tx) = Some (binding_of lib cfg input ch, paid) \<and>
    (calls = [] \<and> pg_result ss (tx_digest lib tx) = Some (binding_of lib cfg input ch, paid) \<or>
     (\<exists>s. fac_settle fac (request_of payload ch) = Inr s \<and> settle_success s))"
  using pg_service.paid_run [OF assms(1,3)] pg_service.payment_challenge [OF assms(2)] by metis

text \<open>
  C31. What becomes of a good payment, in the database. If a request carries a valid payment, gets the lease on its
  transaction, the facilitator verifies and settles it within the thirty seconds of the lease, and nobody else uses this
  lease, then, whatever other requests do to the table in between, the facilitator is called once to verify and once to
  settle; the request is answered with the result if the response header can be written and the result fits its
  columns, and only then: otherwise the answer is an error although the payment is settled.
\<close>

theorem database_good_payment_is_served:
  assumes "settlements_ok ss" "payment_for (pg_challenge_ops db) lib h input now cs payload ch tx"
    and "pg_begin [] t0 lease (tx_digest lib tx) (binding_of lib cfg input ch) ss = (Inr out, ss1)"
      "outcome_lease out = Some l"
    and "\<forall>(t, op) \<in> set (ops1 @ ops2). t \<le> t0 + LEASE_TTL \<and> \<not> by_holder (tx_digest lib tx) (binding_of lib cfg input ch) l op"
    and "fac_verify fac (request_of payload ch) = Inr v" "vr_is_valid v"
    and "fac_settle fac (request_of payload ch) = Inr s" "settle_success s"
  shows "\<exists>answer cs' ss'. invoke_paid_demo (pg_challenge_ops db) (pg_ops db) cfg fac lib
      (schedule_with (pg_ops db) rng lease t0 ops1 t1 ops2 t2) (Some h) input now cs ss =
      (answer, cs', ss', [VerifyCall (request_of payload ch), SettleCall (request_of payload ch)]) \<and>
    (case encode_payment_response_header lib s of
       Inl e \<Rightarrow> answer = Inl e
     | Inr header \<Rightarrow>
         (let paid = \<lparr>paid_body = demo_result_body lib input, paid_payment_response_header = header\<rparr>
          in if pg_fits db paid then answer = Inr (Inr paid) else \<exists>e. answer = Inl e))"
  by (rule pg_service.settled_run [OF assms(1-4) _ assms(6-9)]) (use assms(5) in auto)

section \<open>Witnesses\<close>

lemma db_run_outcome: "\<exists>cs' ss' calls. db_run db_challenges Map.empty = (Inr (Inr db_paid), cs', ss', calls)"
proof -
  have "fst (db_run db_challenges Map.empty) = Inr (Inr db_paid)"
    unfolding db_paid_def
    by (rule pg_service.served_run [where v = "\<lparr>vr_is_valid = True, vr_invalid_reason = None, vr_payer = None\<rparr>"
          and s = "\<lparr>settle_success = True, settle_error_reason = None, settle_transaction = None, settle_network = None,
            settle_payer = None\<rparr>", OF db_settlements_ok db_payment_for db_begin [folded db_binding db_key(1) [of "''t''"]]])
      (simp_all add: sample_facilitator_def db_served db_served(2) [unfolded db_paid_def])
  then show ?thesis by (metis prod.collapse)
qed

theorem begin_is_atomic_witness:
  "\<exists>t l'' s2. (t, l'') \<in> {(5, 2), (8, 3)} \<and> s2 \<in> {Map.empty, run_ops (pg_ops sample_db) [(0, BeginOp 1 db_key db_binding)] Map.empty} \<and>
    (pg_begin [(run_ops (pg_ops sample_db) [(0, BeginOp 1 db_key db_binding)], 8, 3)] 5 2 db_key db_binding Map.empty =
       pg_begin [] t l'' db_key db_binding s2 \<or>
     (\<exists>e e'. pg_begin [(run_ops (pg_ops sample_db) [(0, BeginOp 1 db_key db_binding)], 8, 3)] 5 2 db_key db_binding Map.empty =
          (Inl e, s2) \<and> pg_begin [] t l'' db_key db_binding s2 = (Inl e', s2)))"
  by (rule begin_is_atomic [OF db_settlements_ok])

definition db_settled :: settlement_table where
  "db_settled = [db_key \<mapsto> (new_settlement 0 1 db_binding)\<lparr>sr_state := ''settled'', sr_result_body := Some (paid_body db_paid),
     sr_payment_response_header := Some ''reply'', sr_lease_token := None, sr_lease_expires_at := None\<rparr>]"

lemma db_settled: "settlements_ok db_settled" "pg_result db_settled db_key = Some (db_binding, db_paid)"
proof -
  show "pg_result db_settled db_key = Some (db_binding, db_paid)"
    by (simp add: db_settled_def pg_result_def new_settlement_def db_paid_def)
  show "settlements_ok db_settled"
    unfolding db_settled_def by (intro settlements_ok_update db_settlements_ok complete_row_ok db_row_ok) simp_all
qed

theorem settled_once_for_all_witness:
  "\<exists>cs' answer. db_run db_challenges db_settled = (answer, cs', db_settled, []) \<and> answer = Inr (Inr db_paid)"
  using settled_once_for_all [OF db_settled(1) _ db_payment_for, where b = db_binding and r = db_paid and ops = "[]"
      and cfg = db_cfg and fac = "sample_facilitator True"
      and sched = "schedule_with (pg_ops sample_db) None 1 0 [] 1000 [] 2000"] db_settled(2)
  by (simp add: db_key db_binding)

theorem database_requests_are_settled_witness:
  "fst (db_run db_challenges Map.empty) = Inr (Inr db_paid) \<and>
   pg_result (fst (snd (snd (db_run db_challenges Map.empty)))) db_key = Some (db_binding, db_paid)"
proof -
  obtain cs' ss' calls where run: "db_run db_challenges Map.empty = (Inr (Inr db_paid), cs', ss', calls)"
    using db_run_outcome by blast
  show ?thesis
    using database_requests_are_settled [OF db_settlements_ok db_challenge_rows_ok run] payment_for_unique [OF db_payment_for] run
    by (fastforce simp: db_key db_binding)
qed

theorem database_good_payment_is_served_witness:
  "fst (db_run db_challenges Map.empty) = Inr (Inr db_paid)"
proof -
  let ?s = "\<lparr>settle_success = True, settle_error_reason = None, settle_transaction = None, settle_network = None,
      settle_payer = None\<rparr>"
  obtain answer cs' ss' calls where run: "db_run db_challenges Map.empty = (answer, cs', ss', calls)"
    by (rule prod_cases4)
  have "\<exists>answer cs' ss'. db_run db_challenges Map.empty =
      (answer, cs', ss', [VerifyCall (request_of db_payment db_challenge), SettleCall (request_of db_payment db_challenge)]) \<and>
    (case encode_payment_response_header db_pay_lib ?s of
       Inl e \<Rightarrow> answer = Inl e
     | Inr header \<Rightarrow>
         (let paid = \<lparr>paid_body = demo_result_body db_pay_lib ''{}'', paid_payment_response_header = header\<rparr>
          in if pg_fits sample_db paid then answer = Inr (Inr paid) else \<exists>e. answer = Inl e))"
    by (rule database_good_payment_is_served [where v = "\<lparr>vr_is_valid = True, vr_invalid_reason = None, vr_payer = None\<rparr>",
          OF db_settlements_ok db_payment_for db_begin [folded db_binding db_key(1) [of "''t''"]]])
      (simp_all add: sample_facilitator_def)
  with run show ?thesis using db_served by (auto simp: db_paid_def Let_def)
qed

end
