(* ===== verification/Gateway_Contracts.thy ===== *)
theory Gateway_Contracts
  imports Mcp_Server Pg_Payments Sdk_Contracts
begin

text \<open>
  What the two servers guarantee: which requests the gateway refuses for their fields, that the gateway and the MCP server give
  the same plans, that every listed tool is served, and what a paid answer of the gateway rests on.
\<close>

section \<open>Secrets\<close>

text \<open>The names of the fields of a JSON value, at any depth.\<close>

fun keys_in :: "Value \<Rightarrow> string set" and keys_of_members :: "(string \<times> Value) list \<Rightarrow> string set"
  and keys_of_items :: "Value list \<Rightarrow> string set" where
  "keys_in v = (case v of VObject members \<Rightarrow> keys_of_members members | VArray items \<Rightarrow> keys_of_items items | _ \<Rightarrow> {})"
| "keys_of_members [] = {}"
| "keys_of_members ((k, v) # members) = insert k (keys_in v \<union> keys_of_members members)"
| "keys_of_items [] = {}"
| "keys_of_items (v # items) = keys_in v \<union> keys_of_items items"

declare keys_in.simps [simp del] reject_secrets.simps [simp del]

abbreviation refused :: "unit api" where
  "refused \<equiv> Inl (Fails (bad_request ''private key fields are not accepted''))"

lemma reject_secrets_eq:
  "reject_secrets v = (if \<exists>k \<in> keys_in v. secret_key k then refused else Inr ())"
  "reject_members members = (if \<exists>k \<in> keys_of_members members. secret_key k then refused else Inr ())"
  "reject_items items = (if \<exists>k \<in> keys_of_items items. secret_key k then refused else Inr ())"
proof (induction v and members and items rule: reject_secrets_reject_members_reject_items.induct)
  case (1 v)
  then show ?case by (cases v) (auto simp: reject_secrets.simps keys_in.simps)
qed (auto simp: ensure_def)

lemma plan_handler_eq:
  "plan_handler wire from_value build v =
     (if \<exists>k \<in> keys_in v. secret_key k then Inl (Fails (bad_request ''private key fields are not accepted''))
      else tryE (or_bad_request (from_value v)) (\<lambda>req. tryE (app (build req)) (\<lambda>plan. or_bad_request (plan_to_value wire plan))))"
  by (simp add: plan_handler_def parse_json_body_def reject_secrets_eq)

section \<open>The gateway and the MCP server\<close>

lemma failures_agree:
  "app r = Inr x \<longleftrightarrow> r = Inr x" "mcp_app r = Inr x \<longleftrightarrow> r = Inr x"
  "app r = Inl Panicked \<longleftrightarrow> r = Inl Panicked" "mcp_app r = Inl Panicked \<longleftrightarrow> r = Inl Panicked"
  by (cases r; auto simp: from_failure_def mcp_app_def split: failure.splits)+

lemma handler_and_tool_agree:
  assumes "\<not> (\<exists>k \<in> keys_in v. secret_key k)"
  shows "plan_handler wire from_value build v = Inr p \<longleftrightarrow> plan_tool wire from_value build v = Inr p"
    and "plan_handler wire from_value build v = Inl Panicked \<longleftrightarrow> plan_tool wire from_value build v = Inl Panicked"
proof -
  show "plan_handler wire from_value build v = Inr p \<longleftrightarrow> plan_tool wire from_value build v = Inr p"
    using assms by (simp add: plan_handler_eq plan_tool_def tryE_eq_Inr map_err_eq_Inr failures_agree)
  show "plan_handler wire from_value build v = Inl Panicked \<longleftrightarrow> plan_tool wire from_value build v = Inl Panicked"
  proof (cases "from_value v")
    case (Inr req)
    then show ?thesis
      using assms failures_agree(1-4) [of "build req"]
      by (cases "build req"; cases "plan_to_value wire (projr (build req))")
        (auto simp: plan_handler_eq plan_tool_def from_failure_def mcp_app_def split: failure.splits)
  qed (use assms in \<open>simp add: plan_handler_eq plan_tool_def\<close>)
qed

text \<open>The planning routes of the gateway, as \<open>router\<close> has them, and the tool for each but one.\<close>

definition plan_routes :: "client \<Rightarrow> wire_lib \<Rightarrow> AppConfig \<Rightarrow> chain_reader \<Rightarrow> string \<rightharpoonup> (Value \<Rightarrow> Value api)" where
  "plan_routes cl wire cfg reader =
     [''/v1/plans/jobs/create'' \<mapsto> plan_create cl wire cfg reader,
      ''/v1/plans/jobs/fund'' \<mapsto> plan_fund cl wire cfg,
      ''/v1/plans/jobs/accept'' \<mapsto> plan_accept cl wire cfg,
      ''/v1/plans/jobs/submit-receipt'' \<mapsto> plan_submit cl wire cfg reader,
      ''/v1/plans/jobs/accept-work'' \<mapsto> plan_accept_work_route cl wire cfg,
      ''/v1/plans/jobs/challenge'' \<mapsto> plan_challenge cl wire cfg,
      ''/v1/plans/jobs/resolve-timeout'' \<mapsto> plan_timeout cl wire cfg reader]"

definition route_tools :: "(string \<times> string) list" where
  "route_tools =
     [(''/v1/plans/jobs/create'', ''build_create_job''), (''/v1/plans/jobs/fund'', ''build_fund_job''),
      (''/v1/plans/jobs/submit-receipt'', ''build_submit_receipt''), (''/v1/plans/jobs/accept-work'', ''build_accept_work''),
      (''/v1/plans/jobs/challenge'', ''build_challenge''), (''/v1/plans/jobs/resolve-timeout'', ''build_timeout_resolution'')]"

text \<open>A route and a tool with the same answers, but for the requests the route refuses.\<close>

definition same_answers :: "(Value \<Rightarrow> Value api) \<Rightarrow> (Value \<Rightarrow> Value mcp) \<Rightarrow> bool" where
  "same_answers handler run \<longleftrightarrow>
     (\<forall>v. if \<exists>k \<in> keys_in v. secret_key k
          then handler v = Inl (Fails (bad_request ''private key fields are not accepted''))
          else (\<forall>p. handler v = Inr p \<longleftrightarrow> run v = Inr p) \<and> (handler v = Inl Panicked \<longleftrightarrow> run v = Inl Panicked))"

lemma same_answers_plan: "same_answers (plan_handler wire from_value build) (plan_tool wire from_value build)"
  unfolding same_answers_def
proof (intro allI)
  fix v
  show "if \<exists>k \<in> keys_in v. secret_key k
      then plan_handler wire from_value build v = Inl (Fails (bad_request ''private key fields are not accepted''))
      else (\<forall>p. plan_handler wire from_value build v = Inr p \<longleftrightarrow> plan_tool wire from_value build v = Inr p) \<and>
        (plan_handler wire from_value build v = Inl Panicked \<longleftrightarrow> plan_tool wire from_value build v = Inl Panicked)"
  proof (cases "\<exists>k \<in> keys_in v. secret_key k")
    case True
    then show ?thesis by (simp add: plan_handler_eq)
  next
    case False
    with handler_and_tool_agree [OF False, of wire from_value build] show ?thesis by simp
  qed
qed

lemma run_plan_tools:
  "run_tool cl wire cfg catalog reader ''build_create_job'' = plan_tool wire (create_from_value wire) (build_create_job_plan cl cfg reader)"
  "run_tool cl wire cfg catalog reader ''build_fund_job'' = plan_tool wire (job_request_from_value wire) (build_fund_job_plan cl cfg)"
  "run_tool cl wire cfg catalog reader ''build_submit_receipt'' =
     plan_tool wire (submit_from_value wire) (build_submit_receipt_plan_uc cl cfg reader)"
  "run_tool cl wire cfg catalog reader ''build_accept_work'' = plan_tool wire (job_request_from_value wire) (build_accept_work_plan cl cfg)"
  "run_tool cl wire cfg catalog reader ''build_challenge'' = plan_tool wire (challenge_from_value wire) (build_challenge_plan cl cfg)"
  "run_tool cl wire cfg catalog reader ''build_timeout_resolution'' =
     plan_tool wire (timeout_from_value wire) (build_timeout_plan cl cfg reader)"
  by (simp_all add: run_tool_def fun_eq_iff)

lemma plan_routes_simps:
  "plan_routes cl wire cfg reader ''/v1/plans/jobs/create'' = Some (plan_create cl wire cfg reader)"
  "plan_routes cl wire cfg reader ''/v1/plans/jobs/fund'' = Some (plan_fund cl wire cfg)"
  "plan_routes cl wire cfg reader ''/v1/plans/jobs/submit-receipt'' = Some (plan_submit cl wire cfg reader)"
  "plan_routes cl wire cfg reader ''/v1/plans/jobs/accept-work'' = Some (plan_accept_work_route cl wire cfg)"
  "plan_routes cl wire cfg reader ''/v1/plans/jobs/challenge'' = Some (plan_challenge cl wire cfg)"
  "plan_routes cl wire cfg reader ''/v1/plans/jobs/resolve-timeout'' = Some (plan_timeout cl wire cfg reader)"
  by (simp_all add: plan_routes_def)

lemma route_has_tool:
  "list_all (\<lambda>(path, tool). \<exists>handler. plan_routes cl wire cfg reader path = Some handler \<and>
     same_answers handler (run_tool cl wire cfg catalog reader tool)) route_tools"
  by (simp only: route_tools_def list.pred_inject prod.case plan_routes_simps run_plan_tools option.inject ex_simps simp_thms
      plan_create_def plan_fund_def plan_submit_def plan_accept_work_route_def plan_challenge_def plan_timeout_def
      same_answers_plan)

lemma routes_have_tools:
  assumes "(path, tool) \<in> set route_tools"
  shows "\<exists>handler. plan_routes cl wire cfg reader path = Some handler \<and>
    same_answers handler (run_tool cl wire cfg catalog reader tool)"
  using route_has_tool [of cl wire cfg reader catalog] assms unfolding list_all_iff by blast

lemma listed_tools_are_served:
  "tool_name t = name \<Longrightarrow> t \<in> set tools \<Longrightarrow>
   call_tool cl wire cfg catalog reader name arguments =
     dispatch cl wire cfg catalog reader name (case arguments of Some m \<Rightarrow> VObject m | None \<Rightarrow> VObject [])"
  by (auto simp: call_tool_def ensure_def list_all_iff)


section \<open>Paid requests\<close>

lemma header_text_eq_Some: "header_text s = Some t \<Longrightarrow> t = s"
  by (simp add: header_text_def split: if_splits)

lemma x402_answer_cases:
  assumes "x402_invoke chal ops fac lib sched wire cfg catalog reader service_id hs input cs ss =
      (Inr (status, out, body), cs', ss', calls)"
  obtains (paid) entry now result where "get_service catalog service_id = Inr entry" "se_x402_demo_route entry \<noteq> None"
    "read_unix_timestamp reader = Inr now"
    "invoke_paid_demo chal ops (x402_resource cfg entry service_id) fac lib sched
       (Option.bind (hs ''PAYMENT-SIGNATURE'') header_text) (value_to_text wire input) now cs ss =
     (Inr (Inr result), cs', ss', calls)"
    "status = 200" "out = [''PAYMENT-RESPONSE'' \<mapsto> paid_payment_response_header result]" "body = paid_body result"
  using assms
  by (auto simp: x402_invoke_def failures_agree ok_or_def split: sum.splits if_splits prod.splits option.splits
      dest!: header_text_eq_Some)

section \<open>A concrete gateway\<close>

definition sample_wire :: wire_lib where
  "sample_wire =
     \<lparr>create_from_value = (\<lambda>_. Inl ''no''), job_request_from_value = (\<lambda>_. Inr \<lparr>jr_buyer = pubkey_to_string sample_client BUYER,
        jr_provider = pubkey_to_string sample_client PROVIDER, jr_job_nonce = 1\<rparr>),
      submit_from_value = (\<lambda>_. Inl ''no''), challenge_from_value = (\<lambda>_. Inl ''no''), timeout_from_value = (\<lambda>_. Inl ''no''),
      plan_to_value = (\<lambda>p. Inr (VString (plan_action p))), job_to_value = (\<lambda>_. Inr VNull),
      provider_to_value = (\<lambda>_. Inr VNull), service_to_value = (\<lambda>_. Inr VNull), services_to_value = (\<lambda>_. VNull),
      status_to_value = (\<lambda>_. Inr VNull), jobs_to_value = (\<lambda>_. Inr VNull), providers_to_value = (\<lambda>_. Inr VNull),
      history_to_value = (\<lambda>_. Inr VNull), activity_to_value = (\<lambda>_. Inr VNull), value_to_text = (\<lambda>_. ''{}'')\<rparr>"

definition gateway_config :: AppConfig where
  "gateway_config =
     \<lparr>ac_program_id = pubkey_to_string sample_client PROGRAM, ac_rpc_url = ''http://rpc'', ac_genesis_hash = [],
      ac_settlement_mint = pubkey_to_string sample_client MINT, ac_token_program = pubkey_to_string sample_client TOKEN,
      ac_facilitator_url = ''http://facilitator'', ac_merchant_pay_to = [], ac_x402_fee_payer = [],
      ac_x402_amount = ''1'', ac_x402_network = ''solana:devnet'', ac_request_timeout_ms = 1000,
      ac_max_request_bytes = 1000, ac_bind_address = ''localhost'', ac_catalog_path = ''catalog''\<rparr>"

definition sample_entry :: ServiceEntry where
  "sample_entry = \<lparr>se_service_id = ''s'', se_provider = pubkey_to_string sample_client PROVIDER, se_name = ''n'',
     se_description = ''d'', se_request_schema = ''r'', se_x402_demo_route = Some ''/demo''\<rparr>"

definition sample_chain :: chain_reader where
  "sample_chain = \<lparr>read_account = (\<lambda>_. Inr None), read_unix_timestamp = Inr 120\<rparr>"

abbreviation gateway_resource :: X402ResourceConfig where
  "gateway_resource \<equiv> x402_resource gateway_config sample_entry ''s''"

abbreviation gateway_binding :: SettlementBinding where
  "gateway_binding \<equiv> \<lparr>sb_service_id = ''s'', sb_resource_url = ''/v1/x402/services/s/invoke'', sb_input_digest = db_key,
     sb_challenge_memo = replicate 32 (CHR ''a'')\<rparr>"

abbreviation gateway_schedule :: "settlement_table schedule" where
  "gateway_schedule \<equiv> schedule_with (pg_ops sample_db) None 1 0 [] 1000 [] 2000"

lemma gateway_binding: "binding_of db_pay_lib gateway_resource ''{}'' db_challenge = gateway_binding"
  by (simp add: binding_of_def db_key x402_resource_def db_challenge_def)

lemma gateway_row_ok: "settlement_row_ok db_key (new_settlement t l gateway_binding)"
proof -
  have "lower_hex 64 db_key" "lower_hex 32 (replicate 32 (CHR ''a''))" "varchar 1 64 ''s''"
      "varchar 1 512 ''/v1/x402/services/s/invoke''"
    by code_simp+
  then show ?thesis by (simp add: settlement_row_ok_def new_settlement_def)
qed

lemma gateway_begin:
  "pg_begin [] t l db_key gateway_binding Map.empty = (Inr (Acquired l), [db_key \<mapsto> new_settlement t l gateway_binding])"
proof -
  have "validate_digest db_key = Inr ()" "validate_binding gateway_binding = Inr ()"
    using row_ok_validates [OF gateway_row_ok] by (simp_all add: new_settlement_def)
  then show ?thesis
    by (subst pg_begin_new [where u = "()"]) (simp_all add: sql_check_def ensure_def gateway_row_ok)
qed

lemma gateway_paid_run:
  "fst (invoke_paid_demo (pg_challenge_ops sample_db) (pg_ops sample_db) gateway_resource (sample_facilitator True) db_pay_lib
     gateway_schedule (Some ''h'') ''{}'' 120 db_challenges Map.empty) = Inr (Inr db_paid)"
  unfolding db_paid_def
  by (rule pg_service.served_run [where v = "\<lparr>vr_is_valid = True, vr_invalid_reason = None, vr_payer = None\<rparr>"
        and s = "\<lparr>settle_success = True, settle_error_reason = None, settle_transaction = None, settle_network = None,
          settle_payer = None\<rparr>", OF db_settlements_ok db_payment_for gateway_begin [folded gateway_binding db_key(1) [of "''t''"]]])
    (simp_all add: sample_facilitator_def db_served db_served(2) [unfolded db_paid_def])

abbreviation gateway_run ::
    "(nat \<times> headers \<times> demo_body) api \<times> challenge_table \<times> settlement_table \<times> fac_call list" where
  "gateway_run \<equiv>
     x402_invoke (pg_challenge_ops sample_db) (pg_ops sample_db) (sample_facilitator True) db_pay_lib gateway_schedule
       sample_wire gateway_config [sample_entry] sample_chain ''s'' [''PAYMENT-SIGNATURE'' \<mapsto> ''h''] (VObject [])
       db_challenges Map.empty"

lemma gateway_run_outcome:
  "\<exists>cs' ss' calls. gateway_run = (Inr (200, [''PAYMENT-RESPONSE'' \<mapsto> ''reply''], paid_body db_paid), cs', ss', calls)"
proof -
  obtain cs' ss' calls where "invoke_paid_demo (pg_challenge_ops sample_db) (pg_ops sample_db) gateway_resource
      (sample_facilitator True) db_pay_lib gateway_schedule (Some ''h'') ''{}'' 120 db_challenges Map.empty =
      (Inr (Inr db_paid), cs', ss', calls)"
    using gateway_paid_run by (metis prod.collapse)
  moreover have "header_text ''h'' = Some ''h''" "header_text ''reply'' = Some ''reply''"
    by (simp_all add: header_text_def)
  moreover have "get_service [sample_entry] ''s'' = Inr sample_entry"
    by (simp add: get_service_def sample_entry_def ok_or_def)
  moreover have "se_x402_demo_route sample_entry = Some ''/demo''" by (simp add: sample_entry_def)
  ultimately show ?thesis
    by (simp add: x402_invoke_def from_failure_def sample_chain_def sample_wire_def ok_or_def) (simp add: db_paid_def)
qed

section \<open>Properties\<close>

text \<open>
  C30. A paid answer of the gateway is settled. If \<open>x402_invoke\<close> answers without an error, from the database stores and whatever
  other requests do to their tables meanwhile, then the status is 200, the service is in the catalog and sold, the request
  carried a valid payment, in its header, for a challenge on record that had not expired, body and response header are
  those recorded under its transaction for this service and input, and either they had been recorded before and nobody was
  called, or the facilitator has settled this very payment.
\<close>

theorem gateway_answers_are_settled:
  assumes "settlements_ok ss" "challenge_rows_ok cs"
    and "x402_invoke (pg_challenge_ops db) (pg_ops db) fac lib (schedule_with (pg_ops db) rng lease t0 ops1 t1 ops2 t2) wire cfg
      catalog reader service_id hs input cs ss = (Inr (status, out, body), cs', ss', calls)"
  shows "\<exists>entry now h payload ch tx reply b.
    status = 200 \<and> out = [''PAYMENT-RESPONSE'' \<mapsto> reply] \<and>
    get_service catalog service_id = Inr entry \<and> se_x402_demo_route entry \<noteq> None \<and>
    read_unix_timestamp reader = Inr now \<and> hs ''PAYMENT-SIGNATURE'' = Some h \<and>
    payment_for (pg_challenge_ops db) lib h (value_to_text wire input) now cs payload ch tx \<and>
    (\<exists>memo. map_of cs memo = Some ch) \<and> now \<le>s pc_expires_at ch \<and>
    b = binding_of lib (x402_resource cfg entry service_id) (value_to_text wire input) ch \<and>
    pg_result ss' (tx_digest lib tx) = Some (b, \<lparr>paid_body = body, paid_payment_response_header = reply\<rparr>) \<and>
    (calls = [] \<and> pg_result ss (tx_digest lib tx) = pg_result ss' (tx_digest lib tx) \<or>
     (\<exists>s. fac_settle fac (request_of payload ch) = Inr s \<and> settle_success s))"
  using assms(3)
proof (cases rule: x402_answer_cases)
  case (paid entry now result)
  obtain h payload ch tx where served: "Option.bind (hs ''PAYMENT-SIGNATURE'') header_text = Some h"
      "payment_for (pg_challenge_ops db) lib h (value_to_text wire input) now cs payload ch tx"
      "pg_result ss' (tx_digest lib tx) =
        Some (binding_of lib (x402_resource cfg entry service_id) (value_to_text wire input) ch, result)"
      "calls = [] \<and> pg_result ss (tx_digest lib tx) =
        Some (binding_of lib (x402_resource cfg entry service_id) (value_to_text wire input) ch, result) \<or>
       (\<exists>s. fac_settle fac (request_of payload ch) = Inr s \<and> settle_success s)"
    using pg_service.paid_run [OF assms(1) paid(4)] by blast
  have "hs ''PAYMENT-SIGNATURE'' = Some h"
    using served(1) by (auto simp: bind_eq_Some_conv dest: header_text_eq_Some)
  with paid served pg_service.payment_challenge [OF assms(2) served(2)] show ?thesis
    by (intro exI [of _ entry] exI [of _ now] exI [of _ h] exI [of _ payload] exI [of _ ch] exI [of _ tx]
        exI [of _ "paid_payment_response_header result"] exI) auto
qed

theorem gateway_answers_are_settled_witness:
  "\<exists>out body. fst gateway_run = Inr (200, out, body) \<and>
     pg_result (fst (snd (snd gateway_run))) db_key = Some (gateway_binding, db_paid)"
proof -
  obtain cs' ss' calls where
      run: "gateway_run = (Inr (200, [''PAYMENT-RESPONSE'' \<mapsto> ''reply''], paid_body db_paid), cs', ss', calls)"
    using gateway_run_outcome by blast
  obtain entry now h payload ch tx reply where answer: "[''PAYMENT-RESPONSE'' \<mapsto> ''reply''] = [''PAYMENT-RESPONSE'' \<mapsto> reply]"
      "get_service [sample_entry] ''s'' = Inr entry" "read_unix_timestamp sample_chain = Inr now"
      "[''PAYMENT-SIGNATURE'' \<mapsto> ''h''] ''PAYMENT-SIGNATURE'' = Some h"
      "payment_for (pg_challenge_ops sample_db) db_pay_lib h (value_to_text sample_wire (VObject [])) now db_challenges payload ch tx"
      "pg_result ss' (tx_digest db_pay_lib tx) =
        Some (binding_of db_pay_lib (x402_resource gateway_config entry ''s'') (value_to_text sample_wire (VObject [])) ch,
          \<lparr>paid_body = paid_body db_paid, paid_payment_response_header = reply\<rparr>)"
    using gateway_answers_are_settled [OF db_settlements_ok db_challenge_rows_ok run] by blast
  have "reply = ''reply''" using fun_cong [OF answer(1), of "''PAYMENT-RESPONSE''"] by simp
  moreover have "entry = sample_entry" using answer(2) by (simp add: get_service_def sample_entry_def ok_or_def)
  moreover have "ch = db_challenge" "tx = ''t''"
    using payment_for_unique [OF db_payment_for] answer(3-5) by (auto simp: sample_chain_def sample_wire_def)
  ultimately have "pg_result ss' db_key = Some (gateway_binding, db_paid)"
    using answer(6) by (simp add: db_key gateway_binding sample_wire_def db_paid_def)
  with run show ?thesis by simp
qed

text \<open>
  C40. The gateway and the MCP server agree. For each planning route with a tool: a request with a field, at any depth, whose name speaks
  of a private key or a secret is refused; on any other the route answers with a plan exactly when the tool does, with
  the same one, and neither panics without the other.
\<close>

theorem routes_and_tools_agree:
  assumes "(path, tool) \<in> set route_tools"
  shows "\<exists>handler. plan_routes cl wire cfg reader path = Some handler \<and>
    (if \<exists>k \<in> keys_in (VObject members). secret_key k
     then handler (VObject members) = Inl (Fails (bad_request ''private key fields are not accepted''))
     else (\<forall>p. handler (VObject members) = Inr p \<longleftrightarrow>
             call_tool cl wire cfg catalog reader tool (Some members) = Inr (Structured p)) \<and>
          (handler (VObject members) = Inl Panicked \<longleftrightarrow>
             call_tool cl wire cfg catalog reader tool (Some members) = Inl Panicked))"
proof -
  have call: "call_tool cl wire cfg catalog reader tool (Some members) = dispatch cl wire cfg catalog reader tool (VObject members)"
    using assms by (auto simp: call_tool_def ensure_def tools_def route_tools_def)
  have answers: "dispatch cl wire cfg catalog reader tool v = Inr (Structured p) \<longleftrightarrow> run_tool cl wire cfg catalog reader tool v = Inr p"
      "dispatch cl wire cfg catalog reader tool v = Inl Panicked \<longleftrightarrow> run_tool cl wire cfg catalog reader tool v = Inl Panicked" for v p
    by (auto simp: dispatch_def split: sum.splits failure.splits)
  obtain handler where "plan_routes cl wire cfg reader path = Some handler"
      "same_answers handler (run_tool cl wire cfg catalog reader tool)"
    using routes_have_tools [OF assms] by blast
  then show ?thesis unfolding call answers same_answers_def by blast
qed

text \<open>The sample request reaches the fund route with an empty object.\<close>

theorem routes_and_tools_agree_witness:
  "\<exists>handler. plan_routes sample_client sample_wire gateway_config sample_chain ''/v1/plans/jobs/fund'' = Some handler \<and>
     handler (VObject [(''my_secret'', VNull)]) = Inl (Fails (bad_request ''private key fields are not accepted''))"
proof -
  have "secret_key ''my_secret''" by code_simp
  then show ?thesis
    using routes_and_tools_agree [of "''/v1/plans/jobs/fund''" "''build_fund_job''" sample_client sample_wire gateway_config
        sample_chain "[(''my_secret'', VNull)]" "[]"]
    by (simp add: route_tools_def keys_in.simps)
qed

end
