(* ===== verification/Index_Sources.thy ===== *)
theory Index_Sources
  imports Index_Engine
begin

text \<open>
  Where the engine's updates come from: the JSON-RPC backfill (\<^verbatim>\<open>agentbond-indexer/src/backfill.rs\<close>), recorded
  fixtures (\<^verbatim>\<open>fixture.rs\<close>) and the Yellowstone stream (\<^verbatim>\<open>yellowstone.rs\<close>).

  HTTP, JSON values, keys in base 58 and the stream's messages are library code. A JSON value is read through
  the parameter \<open>json_lib\<close>; what a request is answered with is an argument; a message of the stream is given by the
  fields that the code reads.
\<close>

section \<open>The JSON-RPC backfill\<close>

record 'j json_lib =
  json_null :: "'j \<Rightarrow> bool"
  json_get :: "'j \<Rightarrow> string \<Rightarrow> 'j option"
  json_u64 :: "'j \<Rightarrow> u64 option"
  json_i64 :: "'j \<Rightarrow> i64 option"
  json_str :: "'j \<Rightarrow> string option"
  json_array :: "'j \<Rightarrow> 'j list option"
  json_text :: "'j \<Rightarrow> string"
  json_parse :: "bytes \<Rightarrow> string + 'j"

abbreviation (input) MAX_RPC_BYTES :: nat where "MAX_RPC_BYTES \<equiv> 4194304"
abbreviation (input) MAX_GPA_ACCOUNTS :: nat where "MAX_GPA_ACCOUNTS \<equiv> 256"

text \<open>A response: its status and the chunks of its body, each of which may fail to arrive.\<close>

record http_response =
  resp_status :: string
  resp_success :: bool
  resp_chunks :: "(string + bytes) list"

fun read_chunks :: "nat \<Rightarrow> bytes \<Rightarrow> (string + bytes) list \<Rightarrow> IndexerError + bytes" where
  "read_chunks max_bytes out [] = Inr out"
| "read_chunks max_bytes out (Inl e # chunks) = Inl (BackfillE e)"
| "read_chunks max_bytes out (Inr chunk # chunks) =
     (if max_bytes < length out + length chunk then Inl (BackfillE ''rpc response too large'')
      else read_chunks max_bytes (out @ chunk) chunks)"

definition read_body_bounded :: "http_response \<Rightarrow> nat \<Rightarrow> IndexerError + bytes" where
  "read_body_bounded response max_bytes = read_chunks max_bytes [] (resp_chunks response)"

text \<open>What \<open>rpc_result\<close> makes of the answer to its request.\<close>

definition rpc_result :: "'j json_lib \<Rightarrow> string + http_response \<Rightarrow> IndexerError + 'j" where
  "rpc_result lib answer =
     tryE (map_err BackfillE answer) (\<lambda>resp.
     tryE (read_body_bounded resp MAX_RPC_BYTES) (\<lambda>bytes.
     tryE (map_err BackfillE (json_parse lib bytes)) (\<lambda>v.
     tryE (ensure (resp_success resp) (BackfillE (''rpc http '' @ resp_status resp))) (\<lambda>_.
     case json_get lib v ''error'' of
       Some err \<Rightarrow> Inl (BackfillE (json_text lib err))
     | None \<Rightarrow> ok_or (json_get lib v ''result'') (BackfillE ''rpc missing result'')))))"

text \<open>The events of one transaction of a block.\<close>

definition tx_failed :: "'j json_lib \<Rightarrow> 'j \<Rightarrow> bool" where
  "tx_failed lib tx =
     (case Option.bind (json_get lib tx ''meta'') (\<lambda>m. json_get lib m ''err'') of
        Some e \<Rightarrow> \<not> json_null lib e
      | None \<Rightarrow> False)"

definition tx_logs :: "'j json_lib \<Rightarrow> 'j \<Rightarrow> string list" where
  "tx_logs lib tx =
     (case Option.bind (Option.bind (json_get lib tx ''meta'') (\<lambda>m. json_get lib m ''logMessages'')) (json_array lib) of
        Some arr \<Rightarrow> List.map_filter (json_str lib) arr
      | None \<Rightarrow> [])"

definition tx_signature :: "'j json_lib \<Rightarrow> 'j \<Rightarrow> string" where
  "tx_signature lib tx =
     (case Option.bind (json_get lib tx ''transaction'') (\<lambda>t.
           Option.bind (json_get lib t ''signatures'') (\<lambda>s.
           Option.bind (json_array lib s) (\<lambda>a.
           Option.bind (case a of [] \<Rightarrow> None | x # _ \<Rightarrow> Some x) (json_str lib)))) of
        Some s \<Rightarrow> s
      | None \<Rightarrow> ''backfill-missing-signature'')"

definition tx_updates :: "'j json_lib \<Rightarrow> text_lib \<Rightarrow> bytes32 \<Rightarrow> u64 \<Rightarrow> 'j \<Rightarrow> ChainUpdate list" where
  "tx_updates lib texts program slot tx =
     (if tx_failed lib tx then []
      else
        let events = extract_protocol_events texts program (tx_signature lib tx) slot (tx_logs lib tx) Confirmed
        in if events \<noteq> [] then [EventsU events] else [])"

definition rpc_fetch_slot ::
    "'j json_lib \<Rightarrow> text_lib \<Rightarrow> bytes32 \<Rightarrow> (u64 \<Rightarrow> string + http_response) \<Rightarrow> u64 \<Rightarrow> IndexerError + ChainUpdate list" where
  "rpc_fetch_slot lib texts program get_block slot =
     tryE (rpc_result lib (get_block slot)) (\<lambda>result.
     tryE (ensure (\<not> json_null lib result) (BackfillE (''getBlock null for '' @ decimal (unat slot)))) (\<lambda>_.
     let out = [SlotU \<lparr>su_slot = slot, su_parent_slot = Option.bind (json_get lib result ''parentSlot'') (json_u64 lib),
           su_status = Confirmed, su_block_time = Option.bind (json_get lib result ''blockTime'') (json_i64 lib)\<rparr>]
     in case Option.bind (json_get lib result ''transactions'') (json_array lib) of
          None \<Rightarrow> Inr out
        | Some txs \<Rightarrow> Inr (out @ concat (map (tx_updates lib texts program slot) txs))))"

definition rpc_reconcile_accounts :: "'j json_lib \<Rightarrow> string + http_response \<Rightarrow> IndexerError + bool" where
  "rpc_reconcile_accounts lib answer =
     tryE (rpc_result lib answer) (\<lambda>result.
     case json_array lib result of
       Some arr \<Rightarrow>
         (if length arr \<le> MAX_GPA_ACCOUNTS then Inr False
          else Inl (BackfillE (''getProgramAccounts returned '' @ decimal (length arr) @ '' accounts (max '' @
            decimal MAX_GPA_ACCOUNTS @ '')'')))
     | None \<Rightarrow> Inr False)"

definition RpcGapBackfill ::
    "'j json_lib \<Rightarrow> text_lib \<Rightarrow> bytes32 \<Rightarrow> (u64 \<Rightarrow> string + http_response) \<Rightarrow> string + http_response \<Rightarrow> GapBackfill" where
  "RpcGapBackfill lib texts program get_block get_accounts =
     \<lparr>fetch_slot = rpc_fetch_slot lib texts program get_block,
      reconcile_accounts = (\<lambda>from_slot to_slot. rpc_reconcile_accounts lib get_accounts)\<rparr>"

lemma read_chunks_eq_Inr [result_inv]:
  "read_chunks m out chunks = Inr r \<longleftrightarrow>
     (\<exists>parts. chunks = map Inr parts \<and> r = out @ concat parts \<and> (parts \<noteq> [] \<longrightarrow> length r \<le> m))"
proof (induction m out chunks arbitrary: r rule: read_chunks.induct)
  case (2 m out e chunks)
  then show ?case by (auto simp: Cons_eq_map_conv)
next
  case (3 m out chunk chunks)
  show ?case
  proof (cases "m < length out + length chunk")
    case True
    then show ?thesis by (auto simp: Cons_eq_map_conv)
  next
    case False
    with 3 show ?thesis by (fastforce simp: Cons_eq_map_conv)
  qed
qed auto

lemma rpc_fetch_own:
  "rpc_fetch_slot lib texts program get_block slot = Inr updates \<Longrightarrow> SlotU u \<in> set updates \<Longrightarrow> su_slot u = slot"
  by (auto simp: rpc_fetch_slot_def result_inv Let_def tx_updates_def split: option.splits if_splits)

interpretation rpc_backfill: slot_backfill "RpcGapBackfill lib texts program get_block get_accounts"
    for lib texts program get_block get_accounts
  by unfold_locales (auto simp: RpcGapBackfill_def dest: rpc_fetch_own)

section \<open>Fixtures\<close>

datatype FixtureUpdate =
    FixtureSlot u64 "u64 option" string "i64 option"
  | FixtureAccount string u64 u64 "string option" u64 "string option" bool string
  | FixtureTransaction string u64 "string list" string

definition parse_optional_key :: "(string \<Rightarrow> bytes32 option) \<Rightarrow> string option \<Rightarrow> IndexerError + bytes32 option" where
  "parse_optional_key parse_key s =
     (case s of
        None \<Rightarrow> Inr None
      | Some o' \<Rightarrow> tryE (ok_or (parse_key o') (FixtureE ''bad owner'')) (\<lambda>k. Inr (Some k)))"

fun fixture_update ::
    "text_lib \<Rightarrow> (string \<Rightarrow> bytes32 option) \<Rightarrow> (string \<Rightarrow> string + bytes) \<Rightarrow> bytes32 \<Rightarrow> FixtureUpdate \<Rightarrow> IndexerError + ChainUpdate" where
  "fixture_update texts parse_key decode64 program (FixtureSlot slot parent_slot status block_time) =
     Inr (SlotU \<lparr>su_slot = slot, su_parent_slot = parent_slot, su_status = parse_commitment status, su_block_time = block_time\<rparr>)"
| "fixture_update texts parse_key decode64 program
     (FixtureAccount address slot write_version owner units data_base64 deleted commitment) =
     tryE (ok_or (parse_key address) (FixtureE ''bad address'')) (\<lambda>address.
     tryE (parse_optional_key parse_key owner) (\<lambda>owner.
     tryE (case data_base64 of
             Some b64 \<Rightarrow> map_err FixtureE (map_sum id Some (decode64 b64))
           | None \<Rightarrow> Inr None) (\<lambda>data.
     case decode_account_update \<lparr>adi_program = program, adi_address = address, adi_slot = slot, adi_write_version = write_version,
            adi_owner = owner, adi_lamports = units, adi_data = data, adi_deleted = deleted,
            adi_commitment = parse_commitment commitment\<rparr> of
       (raw, projection) \<Rightarrow> Inr (AccountU \<lparr>au_raw = raw, au_projection = projection\<rparr>))))"
| "fixture_update texts parse_key decode64 program (FixtureTransaction signature slot logs commitment) =
     Inr (EventsU (extract_protocol_events texts program signature slot logs (parse_commitment commitment)))"

fun into_updates ::
    "text_lib \<Rightarrow> (string \<Rightarrow> bytes32 option) \<Rightarrow> (string \<Rightarrow> string + bytes) \<Rightarrow> bytes32 \<Rightarrow> FixtureUpdate list \<Rightarrow>
       IndexerError + ChainUpdate list" where
  "into_updates texts parse_key decode64 program [] = Inr []"
| "into_updates texts parse_key decode64 program (item # items) =
     tryE (fixture_update texts parse_key decode64 program item) (\<lambda>u.
     tryE (into_updates texts parse_key decode64 program items) (\<lambda>us. Inr (u # us)))"

section \<open>The Yellowstone stream\<close>

record YellowstoneConfig =
  ys_url :: string
  ys_x_token :: "string option"
  ys_program_id :: bytes32
  ys_from_slot :: "u64 option"

text \<open>A URL as the library has parsed it.\<close>

record parsed_url =
  url_username :: string
  url_password :: "string option"
  url_host :: "string option"
  url_scheme :: string

definition validate_yellowstone_url :: "(string \<Rightarrow> string + parsed_url) \<Rightarrow> string \<Rightarrow> IndexerError + unit" where
  "validate_yellowstone_url parse_url url =
     tryE (map_err ConfigE (parse_url url)) (\<lambda>parsed.
     tryE (ensure (url_username parsed = '''' \<and> url_password parsed = None)
       (ConfigE ''Yellowstone URL must not embed credentials'')) (\<lambda>_.
     let host = (case url_host parsed of Some h \<Rightarrow> h | None \<Rightarrow> '''');
         loopback = host \<in> {''127.0.0.1'', ''localhost'', ''::1''}
     in if url_scheme parsed = ''http'' \<and> loopback then Inr ()
        else if url_scheme parsed = ''https'' then Inr ()
        else if url_scheme parsed = ''http''
        then Inl (ConfigE ''non-loopback Yellowstone endpoints require https/TLS'')
        else Inl (ConfigE ''Yellowstone URL must be http(s)'')))"

definition checkpoint_finalized_slot :: "index_db \<Rightarrow> IndexerError + u64 option" where
  "checkpoint_finalized_slot db =
     tryE (map_err DbE (checkpoint db)) (\<lambda>(finalized, _). Inr (if 0 < finalized then Some finalized else None))"

text \<open>The subscription: named filters for accounts (by owner), slots (by commitment, between slots) and transactions (votes,
  failed, accounts included). The fields that are left empty are omitted.\<close>

record SubscribeRequest =
  sub_accounts :: "(string \<times> string list) list"
  sub_slots :: "(string \<times> bool option \<times> bool option) list"
  sub_transactions :: "(string \<times> bool option \<times> bool option \<times> string list) list"
  sub_commitment :: "Commitment option"
  sub_from_slot :: "u64 option"

definition build_subscribe_request :: "text_lib \<Rightarrow> YellowstoneConfig \<Rightarrow> SubscribeRequest" where
  "build_subscribe_request texts cfg =
     \<lparr>sub_accounts = [(''agentbond'', [key_text texts (ys_program_id cfg)])],
      sub_slots = [(''slots'', Some True, Some False)],
      sub_transactions = [(''txs'', Some False, Some False, [key_text texts (ys_program_id cfg)])],
      sub_commitment = Some Processed, sub_from_slot = ys_from_slot cfg\<rparr>"

definition subscribe_request_for_checkpoint ::
    "text_lib \<Rightarrow> YellowstoneConfig \<Rightarrow> index_db \<Rightarrow> IndexerError + SubscribeRequest" where
  "subscribe_request_for_checkpoint texts cfg db =
     tryE (checkpoint_finalized_slot db) (\<lambda>from_slot.
     Inr (build_subscribe_request texts (cfg\<lparr>ys_from_slot := from_slot\<rparr>)))"

text \<open>\<open>jitter\<close> is the random number, drawn below \<open>capped / 4 + 1\<close>.\<close>

definition backoff_capped :: "u32 \<Rightarrow> nat" where
  "backoff_capped attempt = min (500 * 2 ^ min (unat attempt) 6) 30000"

definition bounded_backoff :: "(nat \<Rightarrow> nat) \<Rightarrow> u32 \<Rightarrow> nat" where
  "bounded_backoff random_below attempt =
     (let capped = backoff_capped attempt in capped + random_below (capped div 4 + 1))"

lemma bounded_backoff_range:
  assumes "\<And>n. 0 < n \<Longrightarrow> random_below n < n"
  shows "500 \<le> bounded_backoff random_below attempt" "bounded_backoff random_below attempt \<le> 37500"
proof -
  let ?c = "backoff_capped attempt"
  have c: "500 \<le> ?c" "?c \<le> 30000"
    using one_le_power [of "2 :: nat" "min (unat attempt) 6"] by (auto simp: backoff_capped_def)
  have "random_below (?c div 4 + 1) < ?c div 4 + 1" by (rule assms) simp
  with c show "500 \<le> bounded_backoff random_below attempt" "bounded_backoff random_below attempt \<le> 37500"
    by (auto simp: bounded_backoff_def Let_def)
qed

text \<open>The messages, with the fields that are read.\<close>

datatype slot_status = SlotProcessed | SlotConfirmed | SlotFinalized | SlotDead | SlotOther

record account_info =
  info_pubkey :: bytes
  info_owner :: bytes
  info_lamports :: u64
  info_data :: bytes
  info_write_version :: u64

record transaction_info =
  info_signature :: bytes
  info_log_messages :: "string list option"

datatype geyser_update =
    GeyserSlot u64 "u64 option" slot_status
  | GeyserAccount u64 "account_info option"
  | GeyserTransaction u64 "transaction_info option"
  | GeyserOther

definition pubkey_of :: "bytes \<Rightarrow> bytes32 option" where
  "pubkey_of b = (if length b = 32 then Some (array32 b) else None)"

definition commitment_of_status :: "slot_status \<Rightarrow> Commitment" where
  "commitment_of_status s =
     (case s of SlotFinalized \<Rightarrow> Finalized | SlotConfirmed \<Rightarrow> Confirmed | SlotDead \<Rightarrow> Dead | _ \<Rightarrow> Processed)"

fun convert_update ::
    "text_lib \<Rightarrow> (bytes \<Rightarrow> string) \<Rightarrow> bytes32 \<Rightarrow> geyser_update \<Rightarrow> IndexerError + ChainUpdate option" where
  "convert_update texts bs58 program (GeyserSlot slot parent status) =
     Inr (Some (SlotU \<lparr>su_slot = slot, su_parent_slot = parent, su_status = commitment_of_status status, su_block_time = None\<rparr>))"
| "convert_update texts bs58 program (GeyserAccount slot acc) =
     (case acc of
        None \<Rightarrow> Inr None
      | Some info \<Rightarrow>
          tryE (ok_or (pubkey_of (info_pubkey info)) (DecodeE ''bad account pubkey'')) (\<lambda>address.
          tryE (if info_owner info = [] then Inr None
                else tryE (ok_or (pubkey_of (info_owner info)) (DecodeE ''bad owner'')) (\<lambda>o'. Inr (Some o'))) (\<lambda>owner.
          case decode_account_update \<lparr>adi_program = program, adi_address = address, adi_slot = slot,
                 adi_write_version = info_write_version info, adi_owner = owner, adi_lamports = info_lamports info,
                 adi_data = Some (info_data info), adi_deleted = info_lamports info = 0 \<and> info_data info = [],
                 adi_commitment = Processed\<rparr> of
            (raw, projection) \<Rightarrow> Inr (Some (AccountU \<lparr>au_raw = raw, au_projection = projection\<rparr>)))))"
| "convert_update texts bs58 program (GeyserTransaction slot tx) =
     (case tx of
        None \<Rightarrow> Inr None
      | Some info \<Rightarrow>
          (let events = extract_protocol_events texts program (bs58 (info_signature info)) slot
                 (case info_log_messages info of Some l \<Rightarrow> l | None \<Rightarrow> []) Processed
           in Inr (if events \<noteq> [] then Some (EventsU events) else None)))"
| "convert_update texts bs58 program GeyserOther = Inr None"

text \<open>A session over the messages that arrive (\<open>None\<close> for one without content): what is sent on, and why the session ends.
  The receiver is taken to stay open.\<close>

fun run_session ::
    "text_lib \<Rightarrow> (bytes \<Rightarrow> string) \<Rightarrow> bytes32 \<Rightarrow> (string + geyser_update option) list \<Rightarrow> ChainUpdate list \<times> IndexerError" where
  "run_session texts bs58 program [] = ([], SourceE ''yellowstone stream ended'')"
| "run_session texts bs58 program (Inl e # msgs) = ([], SourceE e)"
| "run_session texts bs58 program (Inr None # msgs) = run_session texts bs58 program msgs"
| "run_session texts bs58 program (Inr (Some m) # msgs) =
     (case convert_update texts bs58 program m of
        Inl e \<Rightarrow> ([], e)
      | Inr None \<Rightarrow> run_session texts bs58 program msgs
      | Inr (Some u) \<Rightarrow> (case run_session texts bs58 program msgs of (us, e) \<Rightarrow> (u # us, e)))"

end
