(* ===== verification/Index_Contracts.thy ===== *)
theory Index_Contracts
  imports Sample_World Index_Sources
begin

text \<open>
  Properties of the index that span its parts: what the tables show after an update that reports an account of the ledger,
  and the repair of a gap through the JSON-RPC backfill.
\<close>

section \<open>From the ledger to the tables\<close>

text \<open>The row that each kind of account of the ledger is to have, column by column: what the tables promise, written
  without the decoder.\<close>

primrec state_name :: "JobState \<Rightarrow> string" where
  "state_name Created = ''Created''"
| "state_name Funded = ''Funded''"
| "state_name Accepted = ''Accepted''"
| "state_name Submitted = ''Submitted''"
| "state_name Challenged = ''Challenged''"
| "state_name Settled = ''Settled''"
| "state_name Refunded = ''Refunded''"
| "state_name Expired = ''Expired''"
| "state_name Slashed = ''Slashed''"

definition config_row :: "ConfigAccount \<Rightarrow> config_projection" where
  "config_row c = \<lparr>cp_paused = config_paused c, cp_admin = config_admin c, cp_genesis_hash = config_genesis_hash c,
     cp_allowed_mint = config_allowed_mint c, cp_token_program = config_token_program c,
     cp_mint_decimals = config_mint_decimals c, cp_min_provider_bond = config_min_provider_bond c,
     cp_challenge_duration_seconds = config_challenge_duration_seconds c\<rparr>"

definition provider_row :: "ProviderAccount \<Rightarrow> provider_projection" where
  "provider_row q = \<lparr>pp_authority = provider_authority q,
     pp_status = (if provider_status q = PROVIDER_STATUS_ACTIVE then ''Active'' else ''Inactive''),
     pp_execution_key_count = provider_execution_key_count q\<rparr>"

definition bond_row :: "ProviderBondAccount \<Rightarrow> bond_projection" where
  "bond_row b = \<lparr>bp_authority = bond_provider b, bp_mint = bond_mint b,
     bp_deposited = bond_deposited b, bp_locked = bond_locked b\<rparr>"

definition job_row :: "JobAccount \<Rightarrow> job_projection" where
  "job_row j = \<lparr>jp_buyer = job_buyer j, jp_provider = job_provider j, jp_mint = job_mint j,
     jp_token_program = job_token_program j, jp_amount = job_amount j, jp_job_nonce = job_nonce j,
     jp_state = state_name (job_state j), jp_fund_deadline = job_fund_deadline j,
     jp_accept_deadline = job_accept_deadline j, jp_work_deadline = job_work_deadline j,
     jp_auto_settle_deadline = job_auto_settle_deadline j, jp_request_hash = job_request_hash j,
     jp_receipt_digest = job_receipt_digest j, jp_locked_bond = job_locked_bond j,
     jp_mint_decimals = job_mint_decimals j\<rparr>"

definition challenge_row :: "ChallengeAccount \<Rightarrow> challenge_projection" where
  "challenge_row h = \<lparr>hp_job = challenge_job h, hp_buyer = challenge_buyer h, hp_reason_hash = challenge_reason_hash h,
     hp_bond_amount = challenge_bond_amount h, hp_deadline = challenge_deadline h,
     hp_status = (if challenge_status h = STATUS_OPEN then ''Open'' else ''Resolved'')\<rparr>"

primrec ledger_record :: "address \<Rightarrow> world \<Rightarrow> address \<Rightarrow> ProjectionKind \<Rightarrow> ProjectionPayload option" where
  "ledger_record pid w a ConfigKind = map_option (\<lambda>c. ConfigP (config_row c)) (config_at pid w a)"
| "ledger_record pid w a ProviderKind = map_option (\<lambda>q. ProviderP (provider_row q)) (provider_at pid w a)"
| "ledger_record pid w a ProviderBondKind = map_option (\<lambda>b. ProviderBondP (bond_row b)) (bond_at pid w a)"
| "ledger_record pid w a JobKind = map_option (\<lambda>j. JobP (job_row j)) (job_at pid w a)"
| "ledger_record pid w a ChallengeKind = map_option (\<lambda>h. ChallengeP (challenge_row h)) (challenge_at pid w a)"
| "ledger_record pid w a TombstoneKind = None"

text \<open>The decoder fills in these rows.\<close>

lemma decoder_rows [simp]:
  "config_payload = (\<lambda>c. ConfigP (config_row c))"
  "provider_payload = (\<lambda>q. ProviderP (provider_row q))"
  "bond_payload = (\<lambda>b. ProviderBondP (bond_row b))"
  "job_payload = (\<lambda>j. JobP (job_row j))"
  "challenge_payload = (\<lambda>h. ChallengeP (challenge_row h))"
proof -
  have "job_state_debug s = state_name s" for s by (cases s) simp_all
  then show "job_payload = (\<lambda>j. JobP (job_row j))"
    by (simp add: fun_eq_iff job_payload_def job_row_def)
qed (simp_all add: fun_eq_iff config_payload_def config_row_def provider_payload_def provider_row_def bond_payload_def
    bond_row_def challenge_payload_def challenge_row_def)

lemma nothing_in_nothing:
  assumes "acct_data (w_accounts w a) = []"
  shows "ledger_record pid w a k = None"
proof -
  have "ledger_record pid w a k \<noteq> Some x" for x
    using assms by (cases k) (auto simp: stored_at_eq_Some no_record_in_nothing)
  then show ?thesis by (cases "ledger_record pid w a k") auto
qed

lemma ledger_record_kind: "ledger_record pid w a k = Some x \<Longrightarrow> payload_kind x = k \<and> x \<noteq> TombstoneP"
  by (cases k) auto

lemma ledger_record_unique:
  assumes "ledger_record pid w a k = Some x" "ledger_record pid w a k' = Some x'"
  shows "k = k'"
  using assms discriminators [of "acct_data (w_accounts w a)"]
  by (cases k; cases k') (auto simp: stored_at_eq_Some)

lemma update_projection:
  "snd (decode_account_update (update_of pid w a slot version commitment)) = Some p \<longleftrightarrow>
     dp_address p = a \<and> dp_slot p = slot \<and> dp_write_version p = version \<and>
     (acct_data (w_accounts w a) = [] \<and> dp_kind p = TombstoneKind \<and> dp_payload p = TombstoneP \<or>
      ledger_record pid w a (dp_kind p) = Some (dp_payload p))"
  unfolding index_mirrors_ledger by (cases "dp_kind p") auto

text \<open>The projection of an update, if any, is the record of its kind, or a tombstone.\<close>

lemma projection_of_update:
  assumes "snd (decode_account_update (update_of pid w a slot version commitment)) = projection" "k \<noteq> TombstoneKind"
  shows "case projection of
      None \<Rightarrow> acct_data (w_accounts w a) \<noteq> [] \<and> ledger_record pid w a k = None
    | Some p \<Rightarrow> dp_address p = a \<and> dp_slot p = slot \<and>
        (if acct_data (w_accounts w a) = [] then dp_payload p = TombstoneP
         else dp_payload p \<noteq> TombstoneP \<and>
           ledger_record pid w a k = (if concerns k (dp_payload p) then Some (dp_payload p) else None))"
proof (cases projection)
  case None
  have no: "\<not> (acct_data (w_accounts w a) = [] \<and> dp_kind p = TombstoneKind \<and> dp_payload p = TombstoneP \<or>
      ledger_record pid w a (dp_kind p) = Some (dp_payload p))"
    if "dp_address p = a" "dp_slot p = slot" "dp_write_version p = version" for p :: DecodedProjection
    using update_projection [of pid w a slot version commitment p] that assms(1) None by simp
  have "acct_data (w_accounts w a) \<noteq> []"
    using no [of "\<lparr>dp_kind = TombstoneKind, dp_address = a, dp_slot = slot, dp_write_version = version, dp_payload = TombstoneP\<rparr>"]
    by simp
  moreover have "ledger_record pid w a k = None"
  proof (cases "ledger_record pid w a k")
    case (Some x)
    then show ?thesis
      using no [of "\<lparr>dp_kind = k, dp_address = a, dp_slot = slot, dp_write_version = version, dp_payload = x\<rparr>"] by simp
  qed
  ultimately show ?thesis using None by simp
next
  case (Some p)
  then have p: "dp_address p = a" "dp_slot p = slot"
    "acct_data (w_accounts w a) = [] \<and> dp_kind p = TombstoneKind \<and> dp_payload p = TombstoneP \<or>
      ledger_record pid w a (dp_kind p) = Some (dp_payload p)"
    using update_projection [of pid w a slot version commitment p] assms(1) by auto
  show ?thesis
  proof (cases "acct_data (w_accounts w a) = []")
    case True
    with p Some nothing_in_nothing [OF True] show ?thesis by simp
  next
    case False
    with p have rec: "ledger_record pid w a (dp_kind p) = Some (dp_payload p)" by simp
    note kind = ledger_record_kind [OF rec]
    have "ledger_record pid w a k = (if k = dp_kind p then Some (dp_payload p) else None)"
      using rec ledger_record_unique [OF rec, of k] by (cases "ledger_record pid w a k") auto
    with p Some False kind assms(2) show ?thesis by (auto simp: concerns_def)
  qed
qed

section \<open>Properties\<close>

text \<open>
  C35. The index shows the ledger. When an update at the finalized level that reports the account at an address of the ledger has been
  stored, each table shows at this address exactly what the ledger holds: the record of its kind, column by column, with
  the slot of the update, and no row if the account is empty. A table that shows a row from a later slot there keeps it,
  and if the account is a record of another kind, or none of the program's, the table keeps what it has.
\<close>

theorem final_update_shows_ledger:
  assumes "decode_account_update (update_of pid w a slot version Finalized) = (raw, projection)"
    and "insert_account_with_projection time_ok raw projection db = Inr (True, db')"
    and "k \<noteq> TombstoneKind"
  shows "shown k db' a =
    (if newer (uint slot) (shown k db a) then shown k db a
     else if acct_data (w_accounts w a) = [] then None
     else case ledger_record pid w a k of
            Some record \<Rightarrow> Some (uint slot, record)
          | None \<Rightarrow> shown k db a)"
proof -
  have raw: "rav_commitment raw = Finalized"
    using assms(1) by (auto simp: decode_account_update_def update_of_def Let_def split: if_splits option.splits)
  have proj: "snd (decode_account_update (update_of pid w a slot version Finalized)) = projection"
    using assms(1) by simp
  note p = projection_of_update [OF proj assms(3)]
  show ?thesis
  proof (cases projection)
    case None
    have "shown k db' a = shown k db a"
      using assms(2) None by (cases k) (auto simp: insert_account_with_projection_def result_inv Let_def split: if_splits)
    with p None show ?thesis by simp
  next
    case (Some q)
    obtain db1 db2 where db1: "apply_projection time_ok q db1 = Inr db2"
      and same: "shown k db1 a = shown k db a" "shown k db' a = shown k db2 a"
    proof -
      obtain accs staged db2 staged' where run: "apply_projection time_ok q
          (db\<lparr>raw_account_versions := accs, staged_account_projections := staged\<rparr>) = Inr db2"
        and db': "db' = db2\<lparr>staged_account_projections := staged'\<rparr>"
        using assms(2) Some raw
        by (auto simp: insert_account_with_projection_def result_inv Let_def split: if_splits)
      have before: "shown k (db\<lparr>raw_account_versions := accs, staged_account_projections := staged\<rparr>) a = shown k db a"
        by (cases k) simp_all
      have after: "shown k db' a = shown k db2 a" unfolding db' by (cases k) simp_all
      show thesis by (rule that [OF run before after])
    qed
    show ?thesis
      using apply_shown [OF db1, of k a] same p Some assms(3)
      by (auto simp: concerns_def shown_after_def split: if_splits)
  qed
qed

text \<open>
  A repair through the JSON-RPC backfill fails only if the database does. Whatever the node answers, the engine
  does not run into a gap within the gap, and every other failure is recorded in the gap's row.
\<close>

theorem rpc_repair_fails_only_by_database:
  assumes "eng_last s = Some l" "b \<le> l"
    and "repair_gap time_ok (RpcGapBackfill lib texts program get_block get_accounts) a b s = (Inl e, s')"
  shows "\<exists>d. e = DbE d"
proof -
  let ?bf = "RpcGapBackfill lib texts program get_block get_accounts"
  have slots: "triple (\<lambda>s. eng_last s = Some l) (repair_slots time_ok ?bf a b (slot_range a b)) (\<lambda>_ s. eng_last s = Some l)
    (\<lambda>e s. \<exists>d. e = DbE d)"
    by (rule rpc_backfill.repair_slots_db_errors) (use assms(2) in \<open>auto simp: slot_range_set\<close>)
  have mark: "triple P (db_do f) (\<lambda>_ _. True) (\<lambda>e s. \<exists>d. e = DbE d)" for P f
    by (rule triple_db_do) auto
  have "triple (\<lambda>s. eng_last s = Some l) (repair_gap time_ok ?bf a b) (\<lambda>_ _. True) (\<lambda>e s. \<exists>d. e = DbE d)"
    unfolding repair_gap_def
    by (intro triple_if mark triple_andthen [OF slots])
      (auto split: sum.split bool.split intro: triple_give mark)
  from tripleD [OF this assms(1,3)] show ?thesis by simp
qed

section \<open>Sample updates\<close>

theorem final_update_shows_ledger_witness:
  "\<exists>raw projection db'. decode_account_update (update_of PROGRAM day5 JOB_PDA 7 1 Finalized) = (raw, projection) \<and>
     insert_account_with_projection sample_time_ok raw projection empty_db = Inr (True, db') \<and>
     shown JobKind db' JOB_PDA = Some (7, JobP
       \<lparr>jp_buyer = BUYER, jp_provider = PROVIDER, jp_mint = MINT, jp_token_program = TOKEN, jp_amount = 100, jp_job_nonce = 1,
        jp_state = ''Funded'', jp_fund_deadline = 100, jp_accept_deadline = 200, jp_work_deadline = 300,
        jp_auto_settle_deadline = 400, jp_request_hash = fill32 7, jp_receipt_digest = fill32 0, jp_locked_bond = 0,
        jp_mint_decimals = 6\<rparr>)"
proof -
  let ?p = "\<lparr>dp_kind = JobKind, dp_address = JOB_PDA, dp_slot = 7, dp_write_version = 1,
    dp_payload = JobP (job_row (sample_job Funded 0))\<rparr>"
  obtain raw where raw: "decode_account_update (update_of PROGRAM day5 JOB_PDA 7 1 Finalized) = (raw, Some ?p)"
    using update_projection [of PROGRAM day5 JOB_PDA 7 1 Finalized ?p] by (cases "decode_account_update (update_of PROGRAM day5 JOB_PDA 7 1 Finalized)") auto
  have fields: "rav_slot raw = 7" "rav_write_version raw = 1" "rav_commitment raw = Finalized"
    using raw by (auto simp: decode_account_update_def update_of_def Let_def split: if_splits option.splits)
  have "\<exists>db'. insert_account_with_projection sample_time_ok raw (Some ?p) empty_db = Inr (True, db')"
    by (simp add: insert_account_with_projection_def fields u64_to_i64_def ensure_def check_def empty_db_def apply_projection_def
      job_row_def sample_job_def ts_def sample_time_ok_def JOB_STATES_def Let_def)
  then obtain db' where db': "insert_account_with_projection sample_time_ok raw (Some ?p) empty_db = Inr (True, db')" by blast
  have "acct_data (w_accounts day5 JOB_PDA) \<noteq> []"
    using nothing_in_nothing [of day5 JOB_PDA PROGRAM JobKind] by auto
  then have "shown JobKind db' JOB_PDA = Some (7, JobP (job_row (sample_job Funded 0)))"
    using final_update_shows_ledger [OF raw db', of JobKind] by (simp add: empty_db_def)
  with raw db' show ?thesis by (auto simp: job_row_def sample_job_def)
qed

theorem rpc_repair_fails_only_by_database_witness:
  "\<forall>lib :: string json_lib. \<exists>e s'. repair_gap sample_time_ok (RpcGapBackfill lib sample_text_lib PROGRAM (\<lambda>_. Inl ''timeout'') (Inl ''timeout'')) 1 100
       \<lparr>eng_last = Some 200, eng_db = empty_db\<lparr>ingestion_gaps :=
         [\<lparr>gap_from = 1, gap_to = 100, gap_status = ''failed'', gap_attempts = 999, gap_last_error = None\<rparr>]\<rparr>\<rparr> = (Inl e, s') \<and>
     (\<exists>d. e = DbE d)"
proof
  fix lib :: "string json_lib"
  let ?s = "\<lparr>eng_last = Some 200, eng_db = empty_db\<lparr>ingestion_gaps :=
         [\<lparr>gap_from = 1, gap_to = 100, gap_status = ''failed'', gap_attempts = 999, gap_last_error = None\<rparr>]\<rparr>\<rparr>"
  have "\<exists>e s'. repair_gap sample_time_ok (RpcGapBackfill lib sample_text_lib PROGRAM (\<lambda>_. Inl ''timeout'') (Inl ''timeout'')) 1 100
      ?s = (Inl e, s')"
    by (simp add: repair_gap_def gap_span_def checked_sub_def checked_add_def mark_gap_failed_def update_gap_def db_do_def db_op_def
      u64_to_i64_def check_def ensure_def)
  then obtain e s' where "repair_gap sample_time_ok (RpcGapBackfill lib sample_text_lib PROGRAM (\<lambda>_. Inl ''timeout'') (Inl ''timeout'')) 1 100
      ?s = (Inl e, s')" by blast
  with rpc_repair_fails_only_by_database [OF _ _ this] show "\<exists>e s'. repair_gap sample_time_ok (RpcGapBackfill lib sample_text_lib PROGRAM (\<lambda>_. Inl ''timeout'') (Inl ''timeout'')) 1 100
      ?s = (Inl e, s') \<and> (\<exists>d. e = DbE d)" by auto
qed

end
