(* ===== verification/Spec2Isabelle.thy ===== *)
theory Spec2Isabelle
  imports Handler_Contracts App_Contracts Gateway_Contracts Index_Contracts Index_Reads
begin

text \<open>
  AgentBond is an escrow protocol on Solana: a buyer pays for a job of an agent (the provider), the
  payment waits in escrow, part of the provider's bond is locked for the job, and a job ends by
  acceptance, by a timeout or by a decision of the administrator. The repository holds the on-chain
  program, the library of types it shares with its clients, a client library, an adapter that sells
  a resource against x402 payments, an indexer that follows the chain into a database, and an
  application layer with a command line, an HTTP gateway and an MCP server. This
  development translates all of these to definitions that compute, and proves what makes each
  correct, alone and together.

  \<^bold>\<open>The theories and the code they model.\<close> Each definition carries the name of the code it
  models. A fallible function returns \<open>error + value\<close>; a function of the program that changes accounts
  takes the \<open>world\<close> and returns it, so an error carries no world: the runtime discards a failed
  transaction.

  \<^item> \<open>Prelude\<close>: results (\<open>tryE\<close> is Rust's question mark), bytes and their conversions to words,
    checked and saturating arithmetic, and \<open>result_inv\<close>, the collection that inverts a
    successful run. \<open>Text_Util\<close>: Rust's string functions on byte strings.
  \<^item> \<^verbatim>\<open>crates/agentbond-types/src\<close>: \<open>Protocol_Error\<close> (\<^verbatim>\<open>error.rs\<close>), \<open>Job_State\<close> (\<^verbatim>\<open>state.rs\<close>),
    \<open>Account_Codec\<close> (\<^verbatim>\<open>accounts.rs\<close>), \<open>Event_Codec\<close> (\<^verbatim>\<open>events.rs\<close>), \<open>Receipt\<close> (\<^verbatim>\<open>receipt.rs\<close>),
    \<open>Instruction_Codec\<close> (\<^verbatim>\<open>instruction.rs\<close>), \<open>Pda_Seeds\<close> (\<^verbatim>\<open>pda.rs\<close>).
  \<^item> \<^verbatim>\<open>programs/agentbond/src\<close>: \<open>Runtime\<close> (the ledger and what the program calls of its libraries),
    \<open>Program_Accounts\<close> (\<^verbatim>\<open>accounts.rs\<close>), \<open>Program_Token\<close> (\<^verbatim>\<open>token.rs\<close>), \<open>Program_Ed25519\<close>
    (\<^verbatim>\<open>ed25519.rs\<close>), \<open>Helpers\<close> (\<^verbatim>\<open>processor/helpers.rs\<close>, \<^verbatim>\<open>events.rs\<close>), the handlers of
    \<^verbatim>\<open>processor/\<close> in \<open>Config_Handlers\<close>, \<open>Provider_Handlers\<close>, \<open>Bond_Handlers\<close>, \<open>Job_Handlers\<close> and
    \<open>Resolve_Handlers\<close>, and \<open>Entrypoint\<close> (\<^verbatim>\<open>processor/mod.rs\<close>, \<^verbatim>\<open>entrypoint.rs\<close>).
  \<^item> The specification of the program: \<open>Ledger\<close> (the records and tokens of a world),
    \<open>Protocol\<close> (one rule per kind of change: \<open>protocol_step\<close>), \<open>Invariants\<close> (of \<open>reachable\<close>
    ledgers), \<open>History\<close> (worlds that arise from the deployed program, with other activity in
    between), \<open>Event_Log\<close> (what a handler logs), \<open>Handler_Contracts\<close> (what each instruction
    guarantees), \<open>Sample_Runtime\<close> and \<open>Sample_World\<close> (a concrete deployment, on which
    the witnesses run the handlers).
  \<^item> \<^verbatim>\<open>host/crates/agentbond-sdk/src\<close>: \<open>Sdk_Plan\<close> (\<^verbatim>\<open>plan.rs\<close>, \<^verbatim>\<open>error.rs\<close>, addresses), \<open>Sdk_Instruction\<close>
    (\<^verbatim>\<open>instruction.rs\<close>), \<open>Sdk_Decode\<close> (\<^verbatim>\<open>decode.rs\<close>), \<open>Sdk_Receipt\<close> (\<^verbatim>\<open>receipt.rs\<close>), \<open>Sdk_Submit\<close>
    (\<^verbatim>\<open>submit.rs\<close>, \<^verbatim>\<open>env.rs\<close>), and \<open>Sdk_Contracts\<close>, client and program together.
  \<^item> \<^verbatim>\<open>host/crates/agentbond-payments/src\<close>: \<open>Payment_Validate\<close> (headers, models, \<^verbatim>\<open>validate.rs\<close>),
    \<open>Payment_Contracts\<close> (\<^verbatim>\<open>stores.rs\<close>: the interfaces of the stores and their laws), \<open>Payment_Stores\<close>
    (\<^verbatim>\<open>challenge.rs\<close>, \<^verbatim>\<open>settlement.rs\<close>), \<open>Payment_Resource\<close> (\<^verbatim>\<open>resource.rs\<close>).
  \<^item> \<^verbatim>\<open>host/crates/agentbond-db/src\<close> and \<^verbatim>\<open>agentbond-indexer/src\<close>: \<open>Index_Logs\<close> and \<open>Index_Decode\<close>
    (\<^verbatim>\<open>decode.rs\<close>), \<open>Index_Store\<close> and \<open>Index_Finality\<close> (\<^verbatim>\<open>projection.rs\<close>, \<^verbatim>\<open>util.rs\<close>), \<open>Index_Engine\<close>
    (\<^verbatim>\<open>engine.rs\<close>, \<^verbatim>\<open>source.rs\<close>, \<^verbatim>\<open>error.rs\<close>), \<open>Index_Sources\<close> (\<^verbatim>\<open>backfill.rs\<close>, \<^verbatim>\<open>fixture.rs\<close>,
    \<^verbatim>\<open>yellowstone.rs\<close>), \<open>Index_Reads\<close> (\<^verbatim>\<open>reads.rs\<close>), \<open>Index_Contracts\<close>, index and program together,
    and \<open>Pg_Payments\<close> (\<^verbatim>\<open>payments.rs\<close>, the stores of the payment adapter in the database).
  \<^item> \<^verbatim>\<open>host/crates/agentbond-app/src\<close>: \<open>App_Text\<close> (hexadecimal text; a panic is a failure of its own) and
    \<open>App_Services\<close> (\<^verbatim>\<open>services.rs\<close>, \<^verbatim>\<open>config.rs\<close>, \<^verbatim>\<open>catalog.rs\<close>, \<^verbatim>\<open>accounts.rs\<close>, \<^verbatim>\<open>receipt_dto.rs\<close>);
    \<^verbatim>\<open>host/apps/agentbond-cli/src/plan_cmd.rs\<close>: \<open>Cli_Plan\<close>; and \<open>App_Contracts\<close>, application and program
    together.
  \<^item> \<^verbatim>\<open>host/apps/agentbond-gateway/src\<close>: \<open>Gateway\<close> (\<^verbatim>\<open>lib.rs\<close>, \<^verbatim>\<open>error.rs\<close>, \<^verbatim>\<open>index_routes.rs\<close>);
    \<^verbatim>\<open>host/apps/agentbond-mcp/src/lib.rs\<close>: \<open>Mcp_Server\<close>; and \<open>Gateway_Contracts\<close>, what the two servers guarantee.

  \<^bold>\<open>How they interact.\<close> A client builds a plan (\<open>Sdk_Instruction\<close>); sending it makes a transaction whose
  instruction reaches \<open>process_instruction\<close> with account views and bytes; the handler checks the views,
  decodes the records, moves tokens through the token program and stores the records. The
  refinement theorem maps each accepted instruction to one step of the abstract protocol, and
  every invariant of money, addresses and states is proved once for the protocol and holds of
  every history by this refinement. The client's decoders and the indexer read the same bytes back
  (codec theorems), so what they show is the ledger's record.

  \<^bold>\<open>Interfaces.\<close> Each is a locale, interpreted on the code's definitions: \<open>byte_enum\<close> (job
  states, event kinds, instruction kinds), \<open>codec\<close> with \<open>canonical_codec\<close> and \<open>account_codec\<close> (accounts,
  event, receipt, instruction), \<open>account_store\<close> (the five kinds of record a handler loads and
  saves), \<open>ledger_invariant\<close> (placement, keys, terms, challenges, locks, solvency),
  \<open>challenge_contract\<close>, \<open>settlement_store\<close>, \<open>leasing_store\<close> and \<open>paid_service\<close> (the memory stores and the
  database stores, which the paid request uses through the same contracts), \<open>engine_invariant\<close> (what every operation of the indexer's engine keeps) and
  \<open>slot_backfill\<close> (the sources that fill gaps).

  \<^bold>\<open>What the groups of theorems show.\<close>

  \<^item> The program: refinement of the protocol, solvency of escrows and vaults, agreement of bond locks
    with jobs, conservation of tokens, the job state machine and its end, and a contract per
    instruction, with its refusals.
  \<^item> Bytes: every codec is exact (the decoder accepts what the encoder produces and nothing else),
    as are the instruction parser and the parser of the signature instruction.
  \<^item> Client: its plans carry their instruction, are accepted where the program's conditions hold,
    its readers return the ledger's records, and a transaction is sent only after the checks.
  \<^item> Application: the command line's plans carry the command; the timeouts the application offers are exactly
    those the program accepts (\<open>ResolveTimeoutRefund\<close> standing for \<open>ExpireUnaccepted\<close> too); receipts and keys survive their text.
  \<^item> Servers: the gateway and the MCP server build the same plans, requests with secret fields are refused by
    the gateway, and what the gateway sells has been paid.
  \<^item> Payments: leases are exclusive, what is served has been settled, a good payment is served unless its result cannot
    be written or stored, and a payment settled once is answered with its result ever after.
  \<^item> Index: events in the log are the program's, slots only advance and become final with a recorded
    lineage, a final slot shows the last version of each account, the tables show the records of the ledger, no slot is
    lost by the engine, pages of a listing cover it or end in the error for a row newer than the checkpoint.

  \<^bold>\<open>What is assumed.\<close> Code outside the repository is an argument, and what the code relies on is
  a named hypothesis. \<open>deployment rt pid\<close> collects the laws of the runtime (\<open>pda_law\<close>,
  \<open>token_state_law\<close>, \<open>transfer_law\<close>, \<open>create_law\<close>, \<open>close_token_law\<close>, \<open>close_view_law\<close>) and says that the addresses
  derived from different seeds differ. The client's theorems name what a transaction does to account metas
  (\<open>message_law\<close>), the instruction sysvar (\<open>sysvar_law\<close>), base 58 and base 64 text (\<open>text_law\<close>, \<open>client_law\<close>). The
  servers take the conversions between JSON and the structures of requests and answers (\<open>wire_lib\<close>), which the code derives. The
  indexer takes the text functions of its libraries (\<open>text_lib_law\<close>, \<open>unkey_law\<close>), JSON accessors and the calendar's
  range (\<open>time_ok\<close>) as arguments. SHA-256 and the facilitator of a payment are arguments without laws where
  none are needed. \<open>Sample_Runtime\<close> and the witnesses give instances.

  \<^bold>\<open>Bounds.\<close> Integers keep their width; the database's BIGINT columns are integers with the conversions of
  \<^verbatim>\<open>util.rs\<close> checked. The ancestry check runs at most \<open>MAX_ANCESTRY_DEPTH\<close> = 256 steps and a backfill at most
  \<open>MAX_BACKFILL_SLOTS\<close>, the bounds of the code. Other loops are structural recursion over the list they
  read, so they end. \<open>collect\<close> follows the cursors of a listing with fuel, and the theorem about it takes
  any fuel above the number of rows, which suffices since each page but the last has a row.

  \<^bold>\<open>Idealised.\<close> A database transaction is one step and a statement fails only by a
  constraint of its table (CHECK and uniqueness, which are modelled) or an error of the code; text is
  ordered bytewise; a NUMERIC or JSON column reads back what was written. The account views of
  an instruction alias through their addresses (two views of one address see the same account), but
  the run-time borrow flags of account data are not modelled. Compute budget, rent beyond the checks
  the program makes, and the inside of cross-program calls are the runtime's.

  \<^bold>\<open>Not modelled.\<close> The simulator drives the program in an embedded virtual machine, which is library code. Of the
  gateway and the MCP server, the HTTP and MCP protocols with their routing, limits, request ids and metrics; of the command
  line, argument parsing, printing and key files. Within modelled crates: reading of files and the environment, HTTP, gRPC and RPC transport with its retries and timers, JSON parsing and printing,
  the connection pool, migrations, metrics, and the facilitator client.
\<close>

section \<open>Refinement\<close>

text \<open>
  C1. Every instruction the entrypoint accepts is one step of the abstract protocol on the ledger's
  view: whatever accounts and bytes it is called with, if the library code behaves as documented,
  then the records and tokens change by one of the protocol's rules, with that rule's preconditions
  on signers, states, deadlines and balances.
\<close>

theorem process_instruction_refines_protocol:
  assumes "deployment rt pid" "process_instruction rt pid accounts data w = Inr w'"
  shows "protocol_step rt pid (signers accounts) (ledger_of rt pid w) (ledger_of rt pid w')"
  using process_refines [OF assms(1)] assms(2) by (simp add: process_instruction_def)

theorem process_instruction_refines_protocol_witness:
  "deployment sample_runtime PROGRAM \<and>
   process_instruction sample_runtime PROGRAM accept_accounts (projr (encode_instruction AcceptJob)) day5 = Inr day6 \<and>
   protocol_step sample_runtime PROGRAM (signers accept_accounts) (ledger_of sample_runtime PROGRAM day5)
     (ledger_of sample_runtime PROGRAM day6)"
  using process_instruction_refines_protocol [OF sample_deployment accept_dispatched] accept_dispatched by simp

section \<open>Money\<close>

text \<open>
  C2. Escrows are covered. At every point of every history, the associated token account of a job
  that is funded, accepted, submitted or challenged exists, has the job's mint, belongs to the job's
  address and holds at least the job's amount.
\<close>

theorem escrow_covers_job:
  assumes "deployment rt pid" "history rt pid w" "job_at pid w a = Some j"
    "job_state j \<in> {Funded, Accepted, Submitted, Challenged}"
  shows "\<exists>e t. ata rt a (job_mint j) = Some e \<and> token_at rt w e = Some t \<and> token_mint t = job_mint j \<and>
    token_owner t = a \<and> job_amount j \<le> token_amount_of t"
  using solventD(1) [OF history_invariants(6) [OF assms(1,2)]] assms(3,4)
  by (auto simp: escrow_ok_def in_escrow_def holding_def funds_def)

theorem escrow_covers_job_witness:
  "job_at PROGRAM day6 JOB_PDA = Some (sample_job Accepted 50) \<and>
   (\<exists>e t. ata sample_runtime JOB_PDA MINT = Some e \<and> token_at sample_runtime day6 e = Some t \<and>
      token_mint t = MINT \<and> token_owner t = JOB_PDA \<and> 100 \<le> token_amount_of t)"
  using escrow_covers_job [OF sample_deployment sample_history accept_runs(2)] accept_runs(2) by simp

text \<open>
  C3. Vaults are covered. At every point of every history, the vault of a bond with a deposit exists,
  has the bond's mint, belongs to the bond's address and holds at least what the bond has deposited.
\<close>

theorem vault_covers_bond:
  assumes "deployment rt pid" "history rt pid w" "bond_at pid w a = Some b" "bond_deposited b \<noteq> 0"
  shows "\<exists>v t. ata rt a (bond_mint b) = Some v \<and> token_at rt w v = Some t \<and> token_mint t = bond_mint b \<and>
    token_owner t = a \<and> bond_deposited b \<le> token_amount_of t"
  using solventD(2) [OF history_invariants(6) [OF assms(1,2)]] assms(3,4)
  by (auto simp: vault_ok_def funds_def)

theorem vault_covers_bond_witness:
  "bond_at PROGRAM day6 BOND_PDA = Some (sample_bond 50) \<and>
   (\<exists>v t. ata sample_runtime BOND_PDA MINT = Some v \<and> token_at sample_runtime day6 v = Some t \<and>
      token_mint t = MINT \<and> token_owner t = BOND_PDA \<and> 500 \<le> token_amount_of t)"
  using vault_covers_bond [OF sample_deployment sample_history accept_runs(3)] accept_runs(3) by simp

text \<open>
  C4. Bond accounting. At every point of every history, what a bond has locked is exactly the sum of what the
  jobs of its provider in its mint have locked, and is at most its deposit.
\<close>

theorem bond_locks_add_up:
  assumes "deployment rt pid" "history rt pid w" "bond_at pid w a = Some b"
  shows "unat (bond_locked b) = locked_total (job_at pid w) (bond_provider b) (bond_mint b) \<and>
    bond_locked b \<le> bond_deposited b"
  using locks_balancedD(1,2) [OF history_invariants(5) [OF assms(1,2), unfolded locks_ok_def]] assms(3)
  by (simp add: bond_ok_def)

theorem bond_locks_add_up_witness:
  "bond_at PROGRAM day6 BOND_PDA = Some (sample_bond 50) \<and>
   unat (50 :: u64) = locked_total (job_at PROGRAM day6) PROVIDER MINT"
  using bond_locks_add_up [OF sample_deployment sample_history accept_runs(3)] accept_runs(3) by simp

text \<open>
  C5. No accepted instruction creates or destroys tokens: the sum of the balances of all token
  accounts of a mint is the same before and after.
\<close>

theorem supply_conserved:
  assumes "deployment rt pid" "process_instruction rt pid accounts data w = Inr w'"
  shows "total_supply (token_at rt w') mint = total_supply (token_at rt w) mint"
  using supply_step [OF process_refines [OF assms(1)]] assms(2) by (simp add: process_instruction_def)

theorem supply_conserved_witness:
  "process_instruction sample_runtime PROGRAM accept_accounts (projr (encode_instruction AcceptJob)) day5 = Inr day6 \<and>
   total_supply (token_at sample_runtime day6) MINT = total_supply (token_at sample_runtime day5) MINT"
  using supply_conserved [OF sample_deployment accept_dispatched] accept_dispatched by simp

section \<open>Records\<close>

text \<open>
  C6. A job's life. Whatever instruction is accepted, a job that existed before is afterwards either
  closed, and then it had ended, or still there with the terms it was created with (parties, mint,
  amount, nonce, deadlines, request), either untouched or moved along one of the allowed transitions of its
  state. In particular a job that has ended never changes again.
\<close>

theorem jobs_follow_the_state_machine:
  assumes "deployment rt pid" "process_instruction rt pid accounts data w = Inr w'" "job_at pid w a = Some j"
  shows "job_at pid w' a = None \<and> is_terminal (job_state j) \<or>
    (\<exists>j'. job_at pid w' a = Some j' \<and> same_terms j j' \<and>
       (j' = j \<or> validate_transition (job_state j) (job_state j') = Inr ()))"
  using job_step [OF process_refines [OF assms(1)], of accounts data w w' a j] assms(2,3)
  by (auto simp: process_instruction_def)

theorem jobs_follow_the_state_machine_witness:
  "process_instruction sample_runtime PROGRAM accept_accounts (projr (encode_instruction AcceptJob)) day5 = Inr day6 \<and>
   (job_at PROGRAM day6 JOB_PDA = None \<and> is_terminal Funded \<or>
    (\<exists>j'. job_at PROGRAM day6 JOB_PDA = Some j' \<and> same_terms (sample_job Funded 0) j' \<and>
       (j' = sample_job Funded 0 \<or> validate_transition Funded (job_state j') = Inr ())))"
  using jobs_follow_the_state_machine [OF sample_deployment accept_dispatched records_day5(3)] accept_dispatched
  by simp

text \<open>
  C7. One account per record. At every point of every history, each record lies at the address derived from its own
  key fields with the canonical bump: the configuration, a provider by its authority, a bond by
  provider and mint, a job by buyer, provider and nonce, a challenge by its job. So no two accounts
  of the program describe the same thing.
\<close>

theorem records_lie_at_their_addresses:
  assumes "deployment rt pid" "history rt pid w"
  shows "(config_at pid w a = Some c \<longrightarrow> try_find_program_address rt config_seed_parts pid = Some (a, config_bump c)) \<and>
    (provider_at pid w a = Some p \<longrightarrow>
       try_find_program_address rt (provider_seed_parts (provider_authority p)) pid = Some (a, provider_bump p)) \<and>
    (bond_at pid w a = Some b \<longrightarrow>
       try_find_program_address rt (bond_seed_parts (bond_provider b) (bond_mint b)) pid = Some (a, bond_bump b)) \<and>
    (job_at pid w a = Some j \<longrightarrow>
       try_find_program_address rt (job_seed_parts (job_buyer j) (job_provider j) (job_nonce_le_bytes (job_nonce j)))
         pid = Some (a, job_bump j)) \<and>
    (challenge_at pid w a = Some ch \<longrightarrow>
       try_find_program_address rt (challenge_seed_parts (challenge_job ch)) pid = Some (a, challenge_bump ch))"
  using placedD [OF history_invariants(1) [OF assms], of a]
  by (auto simp: config_placed_def provider_placed_def bond_placed_def job_placed_def challenge_placed_def)

theorem records_lie_at_their_addresses_witness:
  "history sample_runtime PROGRAM day6 \<and> job_at PROGRAM day6 JOB_PDA = Some (sample_job Accepted 50) \<and>
   try_find_program_address sample_runtime (job_seed_parts BUYER PROVIDER (job_nonce_le_bytes 1)) PROGRAM =
     Some (JOB_PDA, job_bump (sample_job Accepted 50))"
  using records_lie_at_their_addresses [OF sample_deployment sample_history] sample_history accept_runs(2)
  by (metis sample_job_fields(2,3,13))

text \<open>
  C8. A job's record is consistent. At every point of every history, a job has a positive amount and strictly ordered
  deadlines, and part of the provider's bond is locked for it exactly while it is accepted,
  submitted or challenged.
\<close>

theorem job_terms_consistent:
  assumes "deployment rt pid" "history rt pid w" "job_at pid w a = Some j"
  shows "0 < job_amount j \<and> job_fund_deadline j <s job_accept_deadline j \<and>
    job_accept_deadline j <s job_work_deadline j \<and> job_work_deadline j <s job_auto_settle_deadline j \<and>
    (0 < job_locked_bond j \<longleftrightarrow> job_state j \<in> {Accepted, Submitted, Challenged})"
  using history_invariants(3) [OF assms(1,2)] assms(3)
  by (auto simp: terms_ok_def job_terms_ok_def holding_def word_gt_0 dest: all_atD)

theorem job_terms_consistent_witness:
  "job_at PROGRAM day6 JOB_PDA = Some (sample_job Accepted 50) \<and>
   (0 < (50 :: u64) \<longleftrightarrow> Accepted \<in> {Accepted, Submitted, Challenged})"
  using job_terms_consistent [OF sample_deployment sample_history accept_runs(2)] accept_runs(2) by simp

text \<open>
  C9. Challenges and challenged jobs correspond. At every point of every history, a job is challenged
  exactly when a challenge record names it; such a record is open and carries the job's buyer.
\<close>

theorem challenges_match_jobs:
  assumes "deployment rt pid" "history rt pid w" "job_at pid w a = Some j"
  shows "job_state j = Challenged \<longleftrightarrow> (\<exists>ca ch. challenge_at pid w ca = Some ch \<and> challenge_job ch = a \<and>
    challenge_status ch = STATUS_OPEN \<and> challenge_buyer ch = job_buyer j)"
  using challenges_okD [OF history_invariants(4) [OF assms(1,2)]] assms(3)
  by (fastforce simp: challenge_open_def)

theorem challenges_match_jobs_witness:
  "job_at PROGRAM day6 JOB_PDA = Some (sample_job Accepted 50) \<and>
   \<not> (\<exists>ca ch. challenge_at PROGRAM day6 ca = Some ch \<and> challenge_job ch = JOB_PDA \<and>
      challenge_status ch = STATUS_OPEN \<and> challenge_buyer ch = BUYER)"
  using challenges_match_jobs [OF sample_deployment sample_history accept_runs(2)] accept_runs(2) by simp

text \<open>
  Execution keys. At every point of every history, the keys a provider has registered are pairwise different, none
  of them is the zero key, and their number is within the four slots of the account.
\<close>

theorem execution_keys_distinct:
  assumes "deployment rt pid" "history rt pid w" "provider_at pid w a = Some p"
  shows "distinct (active_keys p) \<and> fill32 0 \<notin> set (active_keys p) \<and>
    length (active_keys p) = unat (provider_execution_key_count p) \<and> length (active_keys p) \<le> MAX_EXECUTION_KEYS"
  using history_invariants(2) [OF assms(1,2)] assms(3)
  by (auto simp: keys_ok_def provider_keys_ok_def provider_ok_def active_keys_def word_le_nat_alt dest!: all_atD)

theorem execution_keys_distinct_witness:
  "provider_at PROGRAM day6 PROVIDER_PDA = Some new_sample_provider \<and>
   length (active_keys new_sample_provider) \<le> MAX_EXECUTION_KEYS"
  using execution_keys_distinct [OF sample_deployment sample_history accept_runs(4)] accept_runs(4) by simp

section \<open>Wire formats\<close>

text \<open>
  C19. Bytes and values correspond one to one. For each of the seven fixed layouts (the five accounts, the signed receipt, the
  event record) the decoder accepts exactly what the encoder produces, and encoders refuse what is not well
  formed (an unknown status, a fifth key). The bond account alone is read from more than one
  buffer: its decoder takes any value of the reserved byte 3, which the encoder writes as zero, so it accepts a
  buffer exactly if the one with this byte cleared is the encoding of the account.
\<close>

theorem wire_formats_exact:
  "(config_decode d = Inr config \<longleftrightarrow> config_encode config = d) \<and>
   (provider_decode d = Inr provider \<longleftrightarrow>
      length (provider_execution_keys provider) = MAX_EXECUTION_KEYS \<and> provider_encode provider = Inr d) \<and>
   (bond_decode d = Inr bond \<and> d ! 3 = 0 \<longleftrightarrow> bond_encode bond = Inr d) \<and>
   (bond_decode d = Inr bond \<longleftrightarrow> bond_encode bond = Inr (d[3 := 0])) \<and>
   (job_decode d = Inr job \<longleftrightarrow> job_encode job = d) \<and>
   (challenge_decode d = Inr challenge \<longleftrightarrow> challenge_encode challenge = Inr d) \<and>
   (receipt_decode d = Inr receipt \<longleftrightarrow> receipt_encode receipt = Inr d) \<and>
   (event_decode d = Inr event \<longleftrightarrow> event_encode event = d)"
  by (intro conjI; (rule bond_decode_any_reserved | simp only: config_layout_exact provider_layout_exact bond_layout_exact
      job_layout_exact challenge_layout_exact receipt_decode_exact event_record_exact))

end
